(* ===== verification/Go_Prelude.thy ===== *)
theory Go_Prelude
  imports Main "HOL-Library.Word"
begin

text \<open>
  The vocabulary shared by all components: outcomes of Go code (a value or a panic), error
  values, bytes and machine words, the parts of Go's standard library that the sources use
  (\<^verbatim>\<open>encoding/binary\<close>, \<^verbatim>\<open>encoding/hex\<close>, \<^verbatim>\<open>strings\<close>, \<^verbatim>\<open>fmt\<close>, \<^verbatim>\<open>time\<close>), and the generic
  lemmas on lists, maps and words that the component theories use.
\<close>

unbundle bit_operations_syntax

named_theorems go_simps \<open>equations that evaluate outcomes and results\<close>
named_theorems word_bytes \<open>round trips between words and their bytes\<close>

section \<open>Outcomes, errors\<close>

text \<open>
  A Go function either returns or panics (nil dereference, index out of range, send on a
  closed channel, \<^verbatim>\<open>logrus.Fatal\<close>).  An error result is an ordinary value: \<open>go_error + 'a\<close>.
\<close>

datatype 'a go = Ret 'a | Panic

fun go_bind :: "'a go \<Rightarrow> ('a \<Rightarrow> 'b go) \<Rightarrow> 'b go" where
  "go_bind (Ret a) f = f a"
| "go_bind Panic f = Panic"

datatype go_error =
    ErrStoreNotExists
  | ErrNotFound
  | ErrServiceNotAvailable
  | ErrAlreadyExists
  | ErrInvalidConfig
  | ErrInvalidGatewayID
  | ErrGatewayRegistryConfigMissing
  | ErrTooManySyncRequests
  | ErrRecordingUnknownGatewaysDisabled
  | PgError string
  | Errorf string

type_synonym 'a result = "go_error + 'a"

text \<open>Dereferencing a pointer: a nil pointer panics.\<close>

definition deref :: "'a option \<Rightarrow> 'a go" where
  "deref p = (case p of None \<Rightarrow> Panic | Some a \<Rightarrow> Ret a)"

text \<open>Indexing a slice: out of range panics.\<close>

definition go_index :: "'a list \<Rightarrow> nat \<Rightarrow> 'a go" where
  "go_index xs i = (if i < length xs then Ret (xs ! i) else Panic)"

section \<open>Bytes and words\<close>

type_synonym byte = "8 word"
type_synonym bytes = "8 word list"
type_synonym u8 = "8 word"
type_synonym u16 = "16 word"
type_synonym u32 = "32 word"
type_synonym u64 = "64 word"

text \<open>\<^verbatim>\<open>binary.BigEndian.Uint32\<close>, \<^verbatim>\<open>PutUint32\<close> and \<^verbatim>\<open>Uint64\<close> on arrays of the right length.\<close>

definition be_uint32 :: "byte \<Rightarrow> byte \<Rightarrow> byte \<Rightarrow> byte \<Rightarrow> u32" where
  "be_uint32 b0 b1 b2 b3 =
     (ucast b3) OR push_bit 8 (ucast b2) OR push_bit 16 (ucast b1) OR push_bit 24 (ucast b0)"

definition u32_byte :: "nat \<Rightarrow> u32 \<Rightarrow> byte" where
  "u32_byte i w = ucast (drop_bit (8 * i) w)"

definition be_put_uint32 :: "u32 \<Rightarrow> bytes" where
  "be_put_uint32 w = [u32_byte 3 w, u32_byte 2 w, u32_byte 1 w, u32_byte 0 w]"

definition be_uint64 ::
  "byte \<Rightarrow> byte \<Rightarrow> byte \<Rightarrow> byte \<Rightarrow> byte \<Rightarrow> byte \<Rightarrow> byte \<Rightarrow> byte \<Rightarrow> u64" where
  "be_uint64 b0 b1 b2 b3 b4 b5 b6 b7 =
     (ucast b7) OR push_bit 8 (ucast b6) OR push_bit 16 (ucast b5) OR push_bit 24 (ucast b4) OR
     push_bit 32 (ucast b3) OR push_bit 40 (ucast b2) OR push_bit 48 (ucast b1) OR
     push_bit 56 (ucast b0)"

definition u64_byte :: "nat \<Rightarrow> u64 \<Rightarrow> byte" where
  "u64_byte i w = ucast (drop_bit (8 * i) w)"

section \<open>Hexadecimal and decimal text\<close>

text \<open>\<^verbatim>\<open>encoding/hex\<close>: lower case on output, both cases on input.\<close>

definition hex_digit :: "nat \<Rightarrow> char" where
  "hex_digit n = (if n < 10 then char_of (48 + n) else char_of (87 + n))"

definition hex_val :: "char \<Rightarrow> nat option" where
  "hex_val c =
     (let n = of_char c :: nat in
      if 48 \<le> n \<and> n \<le> 57 then Some (n - 48)
      else if 97 \<le> n \<and> n \<le> 102 then Some (n - 87)
      else if 65 \<le> n \<and> n \<le> 70 then Some (n - 55)
      else None)"

fun hex_encode :: "bytes \<Rightarrow> string" where
  "hex_encode [] = []"
| "hex_encode (b # bs) = hex_digit (unat b div 16) # hex_digit (unat b mod 16) # hex_encode bs"

fun hex_decode :: "string \<Rightarrow> bytes option" where
  "hex_decode [] = Some []"
| "hex_decode [c] = None"
| "hex_decode (c # d # cs) =
     (case (hex_val c, hex_val d, hex_decode cs) of
        (Some h, Some l, Some bs) \<Rightarrow> Some (of_nat (16 * h + l) # bs)
      | _ \<Rightarrow> None)"

text \<open>\<^verbatim>\<open>fmt.Sprintf("%d", n)\<close>.\<close>

fun show_nat :: "nat \<Rightarrow> string" where
  "show_nat n = (if n < 10 then [char_of (48 + n)] else show_nat (n div 10) @ [char_of (48 + n mod 10)])"

declare show_nat.simps [simp del]

definition show_int :: "int \<Rightarrow> string" where
  "show_int i = (if i < 0 then CHR ''-'' # show_nat (nat (- i)) else show_nat (nat i))"

text \<open>\<^verbatim>\<open>strings.Replace(s, old, new, 1)\<close> for a non-empty \<^verbatim>\<open>old\<close>.\<close>

fun replace1 :: "string \<Rightarrow> string \<Rightarrow> string \<Rightarrow> string" where
  "replace1 [] old new = []"
| "replace1 (c # cs) old new =
     (if take (length old) (c # cs) = old then new @ drop (length old) (c # cs)
      else c # replace1 cs old new)"

section \<open>Time\<close>

text \<open>\<^verbatim>\<open>time.Time\<close> and \<^verbatim>\<open>time.Duration\<close> in nanoseconds.\<close>

type_synonym time = int
type_synonym duration = int

abbreviation millisecond :: duration where "millisecond \<equiv> 1000000"
abbreviation second :: duration where "second \<equiv> 1000000000"
abbreviation minute :: duration where "minute \<equiv> 60000000000"
abbreviation hour :: duration where "hour \<equiv> 3600000000000"

text \<open>\<^verbatim>\<open>Duration.Milliseconds\<close> is an integer division, which truncates towards zero.\<close>

definition milliseconds :: "duration \<Rightarrow> int" where
  "milliseconds d = sgn d * (\<bar>d\<bar> div millisecond)"

section \<open>Lemmas\<close>

lemma go_bind_assoc: "go_bind (go_bind m f) g = go_bind m (\<lambda>x. go_bind (f x) g)"
  by (cases m) simp_all

lemma go_bind_Ret_right [simp]: "go_bind m Ret = m"
  by (cases m) simp_all

lemma go_bind_eq_Ret: "go_bind m f = Ret b \<longleftrightarrow> (\<exists>a. m = Ret a \<and> f a = Ret b)"
  by (cases m) simp_all

lemma go_bind_eq_Panic: "go_bind m f = Panic \<longleftrightarrow> m = Panic \<or> (\<exists>a. m = Ret a \<and> f a = Panic)"
  by (cases m) simp_all

lemma map_sum_eq_Inr: "map_sum f g x = Inr b \<longleftrightarrow> (\<exists>a. x = Inr a \<and> g a = b)"
  by (cases x) auto

lemma deref_simps [simp, go_simps]: "deref None = Panic" "deref (Some a) = Ret a"
  by (simp_all add: deref_def)

lemma deref_eq_Ret [simp]: "deref p = Ret a \<longleftrightarrow> p = Some a"
  by (cases p) simp_all

lemma go_index_eq_Ret: "go_index xs i = Ret x \<longleftrightarrow> i < length xs \<and> xs ! i = x"
  by (auto simp: go_index_def)

lemma bit_u32_byte: "bit (u32_byte i w) n \<longleftrightarrow> n < 8 \<and> bit w (8 * i + n)"
  by (auto simp: u32_byte_def bit_simps)

lemma bit_u64_byte: "bit (u64_byte i w) n \<longleftrightarrow> n < 8 \<and> bit w (8 * i + n)"
  by (auto simp: u64_byte_def bit_simps)

lemma bit_be_uint32:
  "bit (be_uint32 b0 b1 b2 b3) n \<longleftrightarrow>
     (if n < 8 then bit b3 n else if n < 16 then bit b2 (n - 8)
      else if n < 24 then bit b1 (n - 16) else n < 32 \<and> bit b0 (n - 24))"
proof -
  have "\<not> bit b n" if "8 \<le> n" for b :: byte and n
    using that bit_imp_le_length[of b n] by auto
  then show ?thesis by (auto simp: be_uint32_def bit_simps)
qed

lemma bit_be_uint64:
  "bit (be_uint64 b0 b1 b2 b3 b4 b5 b6 b7) n \<longleftrightarrow>
     (if n < 8 then bit b7 n else if n < 16 then bit b6 (n - 8)
      else if n < 24 then bit b5 (n - 16) else if n < 32 then bit b4 (n - 24)
      else if n < 40 then bit b3 (n - 32) else if n < 48 then bit b2 (n - 40)
      else if n < 56 then bit b1 (n - 48) else n < 64 \<and> bit b0 (n - 56))"
proof -
  have "\<not> bit b n" if "8 \<le> n" for b :: byte and n
    using that bit_imp_le_length[of b n] by auto
  then show ?thesis by (auto simp: be_uint64_def bit_simps)
qed

lemma u32_byte_be_uint32 [simp, word_bytes]:
  "u32_byte 0 (be_uint32 b0 b1 b2 b3) = b3" "u32_byte (Suc 0) (be_uint32 b0 b1 b2 b3) = b2"
  "u32_byte 2 (be_uint32 b0 b1 b2 b3) = b1" "u32_byte 3 (be_uint32 b0 b1 b2 b3) = b0"
  by (auto intro!: bit_word_eqI simp: bit_u32_byte bit_be_uint32)

lemma u64_byte_be_uint64 [simp, word_bytes]:
  "u64_byte 0 (be_uint64 b0 b1 b2 b3 b4 b5 b6 b7) = b7"
  "u64_byte 1 (be_uint64 b0 b1 b2 b3 b4 b5 b6 b7) = b6"
  "u64_byte 2 (be_uint64 b0 b1 b2 b3 b4 b5 b6 b7) = b5"
  "u64_byte 3 (be_uint64 b0 b1 b2 b3 b4 b5 b6 b7) = b4"
  "u64_byte 4 (be_uint64 b0 b1 b2 b3 b4 b5 b6 b7) = b3"
  "u64_byte 5 (be_uint64 b0 b1 b2 b3 b4 b5 b6 b7) = b2"
  "u64_byte 6 (be_uint64 b0 b1 b2 b3 b4 b5 b6 b7) = b1"
  "u64_byte 7 (be_uint64 b0 b1 b2 b3 b4 b5 b6 b7) = b0"
  by (auto intro!: bit_word_eqI simp: bit_u64_byte bit_be_uint64)

lemma be_uint32_u32_bytes [simp, word_bytes]:
  "be_uint32 (u32_byte 3 w) (u32_byte 2 w) (u32_byte (Suc 0) w) (u32_byte 0 w) = w"
  by (rule bit_word_eqI) (auto simp: bit_be_uint32 bit_u32_byte)

lemma be_uint64_inj:
  "be_uint64 a0 a1 a2 a3 a4 a5 a6 a7 = be_uint64 b0 b1 b2 b3 b4 b5 b6 b7 \<longleftrightarrow>
     a0 = b0 \<and> a1 = b1 \<and> a2 = b2 \<and> a3 = b3 \<and> a4 = b4 \<and> a5 = b5 \<and> a6 = b6 \<and> a7 = b7"
  by (metis u64_byte_be_uint64)

lemma hex_val_digit [simp]: "n < 16 \<Longrightarrow> hex_val (hex_digit n) = Some n"
  by (auto simp: hex_val_def hex_digit_def)

lemma hex_digit_not_x: "n < 16 \<Longrightarrow> hex_digit n \<noteq> CHR ''x''" "n < 16 \<Longrightarrow> hex_digit n \<noteq> CHR ''X''"
proof -
  have "hex_val CHR ''x'' = None" "hex_val CHR ''X'' = None" by (simp_all add: hex_val_def)
  then show "n < 16 \<Longrightarrow> hex_digit n \<noteq> CHR ''x''" "n < 16 \<Longrightarrow> hex_digit n \<noteq> CHR ''X''"
    by (metis hex_val_digit option.distinct(1))+
qed

lemma hex_val_bound: "hex_val c = Some n \<Longrightarrow> n < 16"
  by (auto simp: hex_val_def Let_def split: if_splits)

lemma unat_byte_div_mod: "of_nat (16 * (unat b div 16) + unat b mod 16) = (b :: byte)"
  by simp

lemma unat_byte_div_16 [simp]: "unat (b :: byte) div 16 < 16"
proof -
  have "unat b < 2 ^ LENGTH(8)" by (rule unsigned_less)
  then show ?thesis by simp
qed

lemma length_hex_encode [simp]: "length (hex_encode bs) = 2 * length bs"
  by (induction bs) simp_all

lemma hex_decode_encode [simp]: "hex_decode (hex_encode bs) = Some bs"
  by (induction bs) (simp_all del: of_nat_add of_nat_mult add: unat_byte_div_mod)

lemma hex_decode_length: "hex_decode s = Some bs \<Longrightarrow> length s = 2 * length bs"
  by (induction s arbitrary: bs rule: hex_decode.induct) (auto split: option.splits)

lemma hex_encode_inj [simp]: "hex_encode a = hex_encode b \<longleftrightarrow> a = b"
  by (metis hex_decode_encode option.inject)

lemma map_upd_dom_None: "m k = None \<Longrightarrow> dom (m(k \<mapsto> v)) = insert k (dom m)"
  by simp

lemma milliseconds_nonneg: "0 \<le> d \<Longrightarrow> milliseconds d = d div millisecond"
  by (cases "d = 0") (simp_all add: milliseconds_def)

end
