(* ===== verification/Lorawan.thy ===== *)
theory Lorawan
  imports Go_Prelude
begin

text \<open>
  LoRaWAN identifiers and the helpers on them: \<^verbatim>\<open>utils/lorawan.go\<close>, \<^verbatim>\<open>utils/thingsix.go\<close>, the
  DevAddr prefix functions of \<^verbatim>\<open>forwarder/utils.go\<close>, the identifier conversions of
  \<^verbatim>\<open>gateway/store.go\<close> and the text form of \<^verbatim>\<open>gateway.ThingsIxID\<close>.  A Go array \<^verbatim>\<open>[n]byte\<close> of a small
  fixed size is a datatype with \<open>n\<close> byte arguments.

  The package \<^verbatim>\<open>github.com/brocaar/lorawan\<close> is not part of the sources: what they call of it
  is the record \<open>lorawan_lib\<close>, an argument of the definitions.
\<close>

section \<open>Data\<close>

datatype eui64 = EUI64 byte byte byte byte byte byte byte byte
datatype devaddr = DevAddr byte byte byte byte
datatype netid = NetID byte byte byte

text \<open>A ThingsIX id is a \<^verbatim>\<open>[32]byte\<close>, here a byte list of length 32.\<close>

type_synonym thingsix_id = bytes

datatype mtype =
    JoinRequest | JoinAccept | UnconfirmedDataUp | UnconfirmedDataDown
  | ConfirmedDataUp | ConfirmedDataDown | RejoinRequest | Proprietary

record mac_payload =
  mac_DevAddr :: devaddr
  mac_FCnt :: u32
  mac_FPort :: "u8 option"

text \<open>The dynamic type of \<^verbatim>\<open>PHYPayload.MACPayload\<close>: the type switches of the sources test for
  these two.\<close>

datatype lw_payload = MACPayload mac_payload | JoinRequestPayload eui64 | OtherPayload

record phy_payload =
  phy_MType :: mtype
  phy_MACPayload :: lw_payload

record lorawan_lib =
  eui_UnmarshalText :: "string \<Rightarrow> eui64 result"
  eui_String :: "eui64 \<Rightarrow> string"
  dev_IsNetID :: "devaddr \<Rightarrow> netid \<Rightarrow> bool"
  dev_NwkID :: "devaddr \<Rightarrow> bytes"
  phy_UnmarshalBinary :: "bytes \<Rightarrow> phy_payload result"

text \<open>
  What the sources rely on: the text form of an EUI64 parses back, and the empty text is
  not an EUI64.
\<close>

definition lorawan_ok :: "lorawan_lib \<Rightarrow> bool" where
  "lorawan_ok L \<longleftrightarrow>
     (\<forall>e. eui_UnmarshalText L (eui_String L e) = Inr e) \<and> (\<exists>err. eui_UnmarshalText L [] = Inl err)"

definition eui64_zero :: eui64 where
  "eui64_zero = EUI64 0 0 0 0 0 0 0 0"

fun eui_bytes :: "eui64 \<Rightarrow> bytes" where
  "eui_bytes (EUI64 a b c d e f g h) = [a, b, c, d, e, f, g, h]"

section \<open>utils/thingsix.go and utils/lorawan.go\<close>

fun Eui64ToUint64 :: "eui64 \<Rightarrow> u64" where
  "Eui64ToUint64 (EUI64 a b c d e f g h) = be_uint64 a b c d e f g h"

text \<open>On an error the Go function returns the zero EUI64 beside the error; callers that go on
  after an error use \<open>eui_or_zero\<close>.\<close>

definition Eui64FromString :: "lorawan_lib \<Rightarrow> string \<Rightarrow> eui64 result" where
  "Eui64FromString L str =
     (case eui_UnmarshalText L str of Inl err \<Rightarrow> Inl err | Inr eui \<Rightarrow> Inr eui)"

definition eui_or_zero :: "eui64 result \<Rightarrow> eui64" where
  "eui_or_zero r = (case r of Inl _ \<Rightarrow> eui64_zero | Inr e \<Rightarrow> e)"

text \<open>The loop of \<^verbatim>\<open>NetIDType\<close>: \<open>n\<close> is one more than the loop variable \<^verbatim>\<open>i\<close>.\<close>

fun NetIDType_loop :: "byte \<Rightarrow> nat \<Rightarrow> int" where
  "NetIDType_loop b 0 = - 1"
| "NetIDType_loop b (Suc i) =
     (if b AND push_bit i 1 = 0 then 7 - int i else NetIDType_loop b i)"

fun NetIDType :: "devaddr \<Rightarrow> int" where
  "NetIDType (DevAddr a b c d) = NetIDType_loop a 8"

definition NwkId :: "lorawan_lib \<Rightarrow> devaddr \<Rightarrow> bytes option" where
  "NwkId L a = (if NetIDType a < 0 then None else Some (dev_NwkID L a))"

definition NwkIdString :: "lorawan_lib \<Rightarrow> devaddr \<Rightarrow> string" where
  "NwkIdString L a = (case NwkId L a of None \<Rightarrow> ''invalid'' | Some nwkid \<Rightarrow> hex_encode nwkid)"

section \<open>DevAddr prefixes (forwarder/utils.go)\<close>

fun devaddr_u32 :: "devaddr \<Rightarrow> u32" where
  "devaddr_u32 (DevAddr a b c d) = be_uint32 a b c d"

definition devaddr_of_u32 :: "u32 \<Rightarrow> devaddr" where
  "devaddr_of_u32 w = DevAddr (u32_byte 3 w) (u32_byte 2 w) (u32_byte 1 w) (u32_byte 0 w)"

definition SetDevAddrPrefix :: "devaddr \<Rightarrow> u32 \<Rightarrow> u8 \<Rightarrow> devaddr" where
  "SetDevAddrPrefix devAddr prefix maskLength =
     (let devAddrU = devaddr_u32 devAddr;
          mask = (0 :: u32) - 1;
          devAddrU = devAddrU AND NOT (push_bit (unat (32 - maskLength)) mask);
          devAddrU = devAddrU OR prefix
      in devaddr_of_u32 devAddrU)"

definition DevAddrHasPrefix :: "devaddr \<Rightarrow> u32 \<Rightarrow> u8 \<Rightarrow> bool" where
  "DevAddrHasPrefix devAddr prefix mask_len =
     (if mask_len = 0 \<or> mask_len > 32 then False
      else (let tempAddr = SetDevAddrPrefix devAddr prefix mask_len in tempAddr = devAddr))"

section \<open>Identifier conversions (gateway/store.go, gateway/gateway.go, forwarder/utils.go)\<close>

definition eui_of_bytes :: "bytes \<Rightarrow> eui64" where
  "eui_of_bytes ident =
     (let at = (\<lambda>i. if i < length ident then ident ! i else 0)
      in EUI64 (at 0) (at 1) (at 2) (at 3) (at 4) (at 5) (at 6) (at 7))"

definition BytesToGatewayID :: "bytes \<Rightarrow> eui64 result" where
  "BytesToGatewayID ident =
     (if length ident \<noteq> 8 then Inl (Errorf ''invalid gateway id length'') else Inr (eui_of_bytes ident))"

definition GatewayIDBytesToLoraEUID :: "bytes \<Rightarrow> eui64" where
  "GatewayIDBytesToLoraEUID ident = eui_of_bytes ident"

text \<open>\<^verbatim>\<open>logrus.Fatal\<close> ends the process: a panic of the model.\<close>

definition mustDecodeGatewayID :: "string \<Rightarrow> eui64 go" where
  "mustDecodeGatewayID input =
     (case hex_decode input of
        None \<Rightarrow> Panic
      | Some bytes \<Rightarrow> (case BytesToGatewayID bytes of Inl _ \<Rightarrow> Panic | Inr ident \<Rightarrow> Ret ident))"

definition ThingsIxID_String :: "thingsix_id \<Rightarrow> string" where
  "ThingsIxID_String ident = ''0x'' @ hex_encode ident"

definition ThingsIxID_UnmarshalText :: "string \<Rightarrow> thingsix_id result" where
  "ThingsIxID_UnmarshalText raw =
     (if length raw < 2 then Inl (Errorf ''invalid gateway id'')
      else let input = (if raw ! 0 = CHR ''0'' \<and> (raw ! 1 = CHR ''x'' \<or> raw ! 1 = CHR ''X'')
                        then drop 2 raw else raw)
           in case hex_decode input of
                None \<Rightarrow> Inl (Errorf ''invalid gateway id'')
              | Some ident \<Rightarrow>
                  if length ident \<noteq> 32 then Inl (Errorf ''invalid gateway id'') else Inr ident)"

text \<open>A concrete library: the text form of an EUI64 is its bytes in hexadecimal.\<close>

definition lorawan_hex :: lorawan_lib where
  "lorawan_hex =
     \<lparr>eui_UnmarshalText = (\<lambda>s. case hex_decode s of
          None \<Rightarrow> Inl (Errorf ''hex'') | Some bs \<Rightarrow> BytesToGatewayID bs),
      eui_String = (\<lambda>e. hex_encode (eui_bytes e)),
      dev_IsNetID = (\<lambda>a n. case (a, n) of (DevAddr a0 a1 a2 a3, NetID n0 n1 n2) \<Rightarrow> a0 = n2),
      dev_NwkID = (\<lambda>a. case a of DevAddr a0 a1 a2 a3 \<Rightarrow> [a0]),
      phy_UnmarshalBinary = (\<lambda>b. case b of
          t # a # b # c # d # p # _ \<Rightarrow>
            (if t = 0x40 then
               Inr \<lparr>phy_MType = UnconfirmedDataUp, phy_MACPayload = MACPayload
                 \<lparr>mac_DevAddr = DevAddr d c b a, mac_FCnt = 0, mac_FPort = Some p\<rparr>\<rparr>
             else if t = 0 then
               Inr \<lparr>phy_MType = JoinRequest, phy_MACPayload = JoinRequestPayload (EUI64 a b c d p 0 0 0)\<rparr>
             else Inl (Errorf ''mtype''))
        | _ \<Rightarrow> Inl (Errorf ''length''))\<rparr>"

section \<open>Lemmas\<close>

lemma lorawan_okD:
  assumes "lorawan_ok L"
  shows "eui_UnmarshalText L (eui_String L e) = Inr e" "\<exists>err. eui_UnmarshalText L [] = Inl err"
  using assms by (auto simp: lorawan_ok_def)

lemma Eui64FromString_eq [simp]: "Eui64FromString L str = eui_UnmarshalText L str"
  by (simp add: Eui64FromString_def split: sum.splits)

lemma eui_or_zero_simps [simp, go_simps]: "eui_or_zero (Inr e) = e" "eui_or_zero (Inl err) = eui64_zero"
  by (simp_all add: eui_or_zero_def)

lemma length_eui_bytes [simp]: "length (eui_bytes e) = 8"
  by (cases e) simp

lemma eui_of_bytes_bytes [simp]: "eui_of_bytes (eui_bytes e) = e"
  by (cases e) (simp add: eui_of_bytes_def)

lemma eui_bytes_inj [simp]: "eui_bytes a = eui_bytes b \<longleftrightarrow> a = b"
  by (metis eui_of_bytes_bytes)

lemma eui_bytes_of_bytes: "length bs = 8 \<Longrightarrow> eui_bytes (eui_of_bytes bs) = bs"
  by (auto simp: eui_of_bytes_def numeral_eq_Suc length_Suc_conv)

lemma lorawan_hex_ok: "lorawan_ok lorawan_hex"
  by (simp add: lorawan_ok_def lorawan_hex_def BytesToGatewayID_def)

lemma Eui64ToUint64_inj [simp]: "Eui64ToUint64 a = Eui64ToUint64 b \<longleftrightarrow> a = b"
  by (cases a; cases b) (simp add: be_uint64_inj)

lemma devaddr_of_u32_u32 [simp]: "devaddr_of_u32 (devaddr_u32 a) = a"
  by (cases a) (simp add: devaddr_of_u32_def)

lemma devaddr_u32_of_u32 [simp]: "devaddr_u32 (devaddr_of_u32 w) = w"
  by (simp add: devaddr_of_u32_def)

lemma devaddr_u32_inj [simp]: "devaddr_u32 a = devaddr_u32 b \<longleftrightarrow> a = b"
  by (metis devaddr_of_u32_u32)

lemma bit_prefix_mask:
  assumes "m \<le> (32 :: u8)"
  shows "bit (push_bit (unat (32 - m)) ((0 :: u32) - 1)) n \<longleftrightarrow> 32 - unat m \<le> n \<and> n < 32"
  using assms by (auto simp: bit_simps unat_sub)

lemma bit_SetDevAddrPrefix:
  assumes "m \<le> (32 :: u8)"
  shows "bit (devaddr_u32 (SetDevAddrPrefix a p m)) n \<longleftrightarrow>
     n < 32 \<and> (if 32 - unat m \<le> n then bit p n else bit (devaddr_u32 a) n \<or> bit p n)"
  using bit_prefix_mask[OF assms] bit_imp_le_length[of "devaddr_u32 a" n] bit_imp_le_length[of p n]
  by (auto simp: SetDevAddrPrefix_def Let_def bit_simps simp del: diff_0)

lemma drop_bit_eq_iff_bits:
  "drop_bit k (v :: u32) = drop_bit k w \<longleftrightarrow> (\<forall>n. k \<le> n \<longrightarrow> bit v n = bit w n)"
proof
  assume eq: "drop_bit k v = drop_bit k w"
  show "\<forall>n. k \<le> n \<longrightarrow> bit v n = bit w n"
  proof (intro allI impI)
    fix n assume "k \<le> n"
    then have "bit v n = bit (drop_bit k v) (n - k)" by (simp add: bit_drop_bit_eq)
    also have "\<dots> = bit w n" using eq \<open>k \<le> n\<close> by (simp add: bit_drop_bit_eq)
    finally show "bit v n = bit w n" .
  qed
qed (auto intro!: bit_word_eqI simp: bit_drop_bit_eq)

lemma prefix_low_bits_iff:
  "take_bit k (p AND NOT (w :: u32)) = 0 \<longleftrightarrow> (\<forall>n < k. bit p n \<longrightarrow> bit w n)"
  using bit_imp_le_length[of p] unfolding bit_eq_iff[of "_ :: u32"] by (auto simp: bit_simps)

lemma NetIDType_loop_eq:
  "n \<le> 8 \<Longrightarrow> NetIDType_loop b n = int t \<longleftrightarrow>
     8 \<le> n + t \<and> t < 8 \<and> \<not> bit b (7 - t) \<and> (\<forall>i < n. 7 - t < i \<longrightarrow> bit b i)"
proof (induction n)
  case (Suc n)
  have mask: "b AND push_bit n 1 = 0 \<longleftrightarrow> \<not> bit b n"
    using Suc.prems unfolding bit_eq_iff[of "_ :: byte"] by (auto simp: bit_simps dest: spec[where x = n])
  show ?case
  proof (cases "bit b n")
    case True
    have "7 - t = n" if "n + t = 7" using that by simp
    with True Suc mask show ?thesis by (cases "n + t = 7") (auto simp: less_Suc_eq)
  next
    case False
    have "7 - t = n" if "7 - int n = int t" using that Suc.prems by linarith
    with False Suc.prems mask show ?thesis
      by (cases "7 - int n = int t") (auto simp: less_Suc_eq)
  qed
qed simp

section \<open>Properties\<close>

text \<open>
  A DevAddr has a prefix of a given length exactly when the length is between 1 and 32,
  the leading bits of the address are those of the prefix, and no bit of the prefix below
  the mask is set where the address has a zero (the code ORs the whole prefix in).
\<close>

theorem DevAddrHasPrefix_iff:
  "DevAddrHasPrefix a p m \<longleftrightarrow>
     1 \<le> unat m \<and> unat m \<le> 32 \<and>
     drop_bit (32 - unat m) (devaddr_u32 a) = drop_bit (32 - unat m) p \<and>
     take_bit (32 - unat m) (p AND NOT (devaddr_u32 a)) = 0"
proof (cases "m = 0 \<or> m > 32")
  case True
  then show ?thesis by (auto simp: DevAddrHasPrefix_def word_less_nat_alt)
next
  case False
  then have m: "m \<le> 32" "unat m \<noteq> 0" by (auto simp: unat_eq_0)
  then have m32: "unat m \<le> 32" by (simp add: word_le_nat_alt)
  have "SetDevAddrPrefix a p m = a \<longleftrightarrow>
      (\<forall>n. bit (devaddr_u32 (SetDevAddrPrefix a p m)) n = bit (devaddr_u32 a) n)"
    by (metis bit_eq_iff devaddr_u32_inj)
  also have "\<dots> \<longleftrightarrow> drop_bit (32 - unat m) (devaddr_u32 a) = drop_bit (32 - unat m) p \<and>
      take_bit (32 - unat m) (p AND NOT (devaddr_u32 a)) = 0"
    using bit_imp_le_length[of p] bit_imp_le_length[of "devaddr_u32 a"]
    unfolding bit_SetDevAddrPrefix[OF m(1)] drop_bit_eq_iff_bits prefix_low_bits_iff
    by (auto simp: not_le)
  finally show ?thesis using False m m32 by (simp add: DevAddrHasPrefix_def)
qed

text \<open>
  Setting a prefix of a legal length makes the address match that prefix, and an
  address that matches it is left as it was.
\<close>

theorem SetDevAddrPrefix_has_prefix:
  assumes "1 \<le> unat m" "unat m \<le> 32"
  shows "DevAddrHasPrefix (SetDevAddrPrefix a p m) p m \<and>
         (DevAddrHasPrefix a p m \<longleftrightarrow> SetDevAddrPrefix a p m = a)"
proof -
  have m: "m \<noteq> 0" "m \<le> 32" "\<not> m > 32"
    using assms by (auto simp: word_le_nat_alt word_less_nat_alt)
  have "bit (devaddr_u32 (SetDevAddrPrefix (SetDevAddrPrefix a p m) p m)) n
      = bit (devaddr_u32 (SetDevAddrPrefix a p m)) n" for n
    by (auto simp: bit_SetDevAddrPrefix[OF m(2)])
  then have "SetDevAddrPrefix (SetDevAddrPrefix a p m) p m = SetDevAddrPrefix a p m"
    by (metis bit_eq_iff devaddr_u32_inj)
  with m show ?thesis by (simp add: DevAddrHasPrefix_def)
qed

theorem SetDevAddrPrefix_has_prefix_witness:
  "DevAddrHasPrefix (SetDevAddrPrefix (DevAddr 1 2 3 4) 0x26000000 7) 0x26000000 7"
  using SetDevAddrPrefix_has_prefix[of 7 "DevAddr 1 2 3 4" "0x26000000"] by simp

text \<open>
  The NetID type of an address is the number of leading one bits of its first byte.
\<close>

theorem NetIDType_leading_ones:
  "NetIDType (DevAddr a b c d) = int t \<longleftrightarrow>
     t < 8 \<and> \<not> bit a (7 - t) \<and> (\<forall>i \<in> {8 - t..<8}. bit a i)"
  by (auto simp: NetIDType_loop_eq)

theorem NetIDType_leading_ones_witness: "NetIDType (DevAddr 0xE0 0 0 0) = int 3"
proof -
  have "\<forall>i \<in> {8 - 3..<8}. bit (0xE0 :: byte) i" "\<not> bit (0xE0 :: byte) (7 - 3)" by code_simp+
  then show ?thesis using NetIDType_leading_ones[of "0xE0" 0 0 0 3] by simp
qed

text \<open>
  The text form of a ThingsIX id parses back to the same id, with the prefix
  \<^verbatim>\<open>0x\<close> or without it.
\<close>

theorem ThingsIxID_text_roundtrip:
  assumes "length ident = 32"
  shows "ThingsIxID_UnmarshalText (ThingsIxID_String ident) = Inr ident \<and>
         ThingsIxID_UnmarshalText (hex_encode ident) = Inr ident"
proof -
  from assms obtain b bs where ident: "ident = b # bs" by (cases ident) auto
  have "hex_digit (unat b mod 16) \<noteq> CHR ''x''" "hex_digit (unat b mod 16) \<noteq> CHR ''X''"
    by (simp_all add: hex_digit_not_x)
  with assms ident show ?thesis
    by (simp add: ThingsIxID_UnmarshalText_def ThingsIxID_String_def del: hex_encode.simps)
       (simp add: ThingsIxID_UnmarshalText_def)
qed

theorem ThingsIxID_text_roundtrip_witness:
  "ThingsIxID_UnmarshalText (ThingsIxID_String (replicate 32 171)) = Inr (replicate 32 171)"
  using ThingsIxID_text_roundtrip[of "replicate 32 171"] by simp

end
