(* ===== verification/Sha256.thy ===== *)
theory Sha256
  imports Go_Prelude
begin

text \<open>
  SHA-256 of Go's standard library (\<^verbatim>\<open>crypto/sha256\<close>), which the sources use to derive network
  ids from ThingsIX ids, to name pending downlinks and to hash packets before signing:
  FIPS 180-4, on 32-bit words.
\<close>

definition sha_K :: "u32 list" where
  "sha_K = [
      1116352408, 1899447441, 3049323471, 3921009573, 961987163, 1508970993, 2453635748, 2870763221,
      3624381080, 310598401, 607225278, 1426881987, 1925078388, 2162078206, 2614888103, 3248222580,
      3835390401, 4022224774, 264347078, 604807628, 770255983, 1249150122, 1555081692, 1996064986,
      2554220882, 2821834349, 2952996808, 3210313671, 3336571891, 3584528711, 113926993, 338241895,
      666307205, 773529912, 1294757372, 1396182291, 1695183700, 1986661051, 2177026350, 2456956037,
      2730485921, 2820302411, 3259730800, 3345764771, 3516065817, 3600352804, 4094571909, 275423344,
      430227734, 506948616, 659060556, 883997877, 958139571, 1322822218, 1537002063, 1747873779,
      1955562222, 2024104815, 2227730452, 2361852424, 2428436474, 2756734187, 3204031479, 3329325298]"

definition sha_H0 :: "u32 list" where
  "sha_H0 = [1779033703, 3144134277, 1013904242, 2773480762, 1359893119, 2600822924, 528734635, 1541459225]"

definition Sigma0 :: "u32 \<Rightarrow> u32" where
  "Sigma0 x = word_rotr 2 x XOR word_rotr 13 x XOR word_rotr 22 x"

definition Sigma1 :: "u32 \<Rightarrow> u32" where
  "Sigma1 x = word_rotr 6 x XOR word_rotr 11 x XOR word_rotr 25 x"

definition sigma0 :: "u32 \<Rightarrow> u32" where
  "sigma0 x = word_rotr 7 x XOR word_rotr 18 x XOR drop_bit 3 x"

definition sigma1 :: "u32 \<Rightarrow> u32" where
  "sigma1 x = word_rotr 17 x XOR word_rotr 19 x XOR drop_bit 10 x"

text \<open>The message schedule: \<open>n\<close> more words, the newest first.\<close>

fun sha_schedule :: "nat \<Rightarrow> u32 list \<Rightarrow> u32 list" where
  "sha_schedule 0 rw = rev rw"
| "sha_schedule (Suc n) rw =
     sha_schedule n ((sigma1 (rw ! 1) + rw ! 6 + sigma0 (rw ! 14) + rw ! 15) # rw)"

fun sha_round :: "u32 list \<Rightarrow> u32 \<Rightarrow> u32 \<Rightarrow> u32 list" where
  "sha_round [a, b, c, d, e, f, g, h] k w =
     (let t1 = h + Sigma1 e + ((e AND f) XOR (NOT e AND g)) + k + w;
          t2 = Sigma0 a + ((a AND b) XOR (a AND c) XOR (b AND c))
      in [t1 + t2, a, b, c, d + t1, e, f, g])"
| "sha_round hs k w = hs"

fun sha_rounds :: "u32 list \<Rightarrow> u32 list \<Rightarrow> u32 list \<Rightarrow> u32 list" where
  "sha_rounds hs (k # ks) (w # ws) = sha_rounds (sha_round hs k w) ks ws"
| "sha_rounds hs ks ws = hs"

fun words_of_bytes :: "bytes \<Rightarrow> u32 list" where
  "words_of_bytes (a # b # c # d # bs) = be_uint32 a b c d # words_of_bytes bs"
| "words_of_bytes bs = []"

definition sha_block :: "u32 list \<Rightarrow> bytes \<Rightarrow> u32 list" where
  "sha_block hs block =
     map2 (+) hs (sha_rounds hs sha_K (sha_schedule 48 (rev (words_of_bytes block))))"

text \<open>Padding: the bit 1, zeros, the length in bits as 64 bits.\<close>

definition sha_pad :: "bytes \<Rightarrow> bytes" where
  "sha_pad m =
     (let l = of_nat (8 * length m) :: u64
      in m @ [0x80] @ replicate ((119 - length m mod 64) mod 64) 0 @
         map (\<lambda>i. u64_byte i l) [7, 6, 5, 4, 3, 2, 1, 0])"

fun sha_blocks :: "nat \<Rightarrow> u32 list \<Rightarrow> bytes \<Rightarrow> u32 list" where
  "sha_blocks 0 hs bs = hs"
| "sha_blocks (Suc n) hs bs = sha_blocks n (sha_block hs (take 64 bs)) (drop 64 bs)"

definition sha256 :: "bytes \<Rightarrow> bytes" where
  "sha256 m =
     (let p = sha_pad m in concat (map be_put_uint32 (sha_blocks (length p div 64) sha_H0 p)))"

section \<open>Lemmas\<close>

lemma length_sha_round [simp]: "length hs = 8 \<Longrightarrow> length (sha_round hs k w) = 8"
  by (induction hs k w rule: sha_round.induct) (simp_all add: Let_def)

lemma length_sha_rounds [simp]: "length hs = 8 \<Longrightarrow> length (sha_rounds hs ks ws) = 8"
  by (induction hs ks ws rule: sha_rounds.induct) simp_all

lemma length_sha_block [simp]: "length hs = 8 \<Longrightarrow> length (sha_block hs b) = 8"
  by (simp add: sha_block_def)

lemma length_sha_blocks [simp]: "length hs = 8 \<Longrightarrow> length (sha_blocks n hs bs) = 8"
  by (induction n arbitrary: hs bs) simp_all

lemma length_concat_be_put: "length (concat (map be_put_uint32 ws)) = 4 * length ws"
  by (induction ws) (simp_all add: be_put_uint32_def)

lemma length_sha256 [simp]: "length (sha256 m) = 32"
  by (simp add: sha256_def Let_def length_concat_be_put sha_H0_def)

lemma dvd_length_sha_pad: "64 dvd length (sha_pad m)"
proof -
  define r where "r = length m mod 64"
  have r: "r < 64" by (simp add: r_def)
  have "(length m + (119 - r) mod 64 + 9) mod 64 = (r + (119 - r) + 9) mod 64"
    unfolding r_def by (intro mod_add_cong) (simp_all add: mod_mod_trivial)
  also have "\<dots> = 0" using r by simp
  finally have "(length m + (119 - r) mod 64 + 9) mod 64 = 0" .
  moreover have "length (sha_pad m) = length m + (119 - r) mod 64 + 9"
    by (simp add: sha_pad_def Let_def r_def)
  ultimately show ?thesis unfolding dvd_eq_mod_eq_0 by (simp only:)
qed

text \<open>The FIPS test vector for the message \<^verbatim>\<open>abc\<close>.\<close>

lemma sha256_abc:
  "hex_encode (sha256 [0x61, 0x62, 0x63]) =
     ''ba7816bf8f01cfea414140de5dae2223b00361a396177a9cb410ff61f20015ad''"
  by code_simp

end
