(* ===== verification/Gateway.thy ===== *)
theory Gateway
  imports Lorawan Sha256
begin

text \<open>
  Gateways and their identities: \<^verbatim>\<open>gateway/gateway.go\<close>, the constructors and id derivations of
  \<^verbatim>\<open>gateway/store.go\<close>, key generation of \<^verbatim>\<open>utils/thingsix.go\<close>, the onboard message of
  \<^verbatim>\<open>gateway/onboard.go\<close> and the configuration of \<^verbatim>\<open>gateway/config.go\<close>.

  Third-party packages are records of functions: \<open>eth_lib\<close> is what the sources call of
  \<^verbatim>\<open>go-ethereum\<close>, \<open>freq_lib\<close> what they call of \<^verbatim>\<open>frequency-plan\<close>.
\<close>

section \<open>Data\<close>

text \<open>An Ethereum address is a \<^verbatim>\<open>[20]byte\<close>.\<close>

type_synonym address = bytes

definition address_zero :: address where
  "address_zero = replicate 20 0"

record public_key =
  pk_X :: nat
  pk_Y :: nat

record private_key =
  sk_PublicKey :: public_key
  sk_D :: nat

datatype abi_value =
  AbiString string | AbiUint256 nat | AbiAddress address | AbiUint8 u8 | AbiBytes32 bytes

record eth_lib =
  CompressPubkey :: "public_key \<Rightarrow> bytes"
  FromECDSAPub :: "public_key \<Rightarrow> bytes"
  FromECDSA :: "private_key \<Rightarrow> bytes"
  ToECDSA :: "bytes \<Rightarrow> private_key result"
  PubkeyToAddress :: "public_key \<Rightarrow> address"
  eth_Sign :: "bytes \<Rightarrow> private_key \<Rightarrow> bytes result"
  Keccak256Hash :: "bytes \<Rightarrow> bytes"
  abi_Pack :: "abi_value list \<Rightarrow> bytes result"
  Address_String :: "address \<Rightarrow> string"

text \<open>
  What the sources rely on: a compressed public key has 33 bytes, a key read from its
  bytes is written back to the same bytes, a signature has 65 bytes and ends in the
  recovery id 0 or 1.
\<close>

definition eth_ok :: "eth_lib \<Rightarrow> bool" where
  "eth_ok E \<longleftrightarrow>
     (\<forall>p. length (CompressPubkey E p) = 33) \<and>
     (\<forall>b k. ToECDSA E b = Inr k \<longrightarrow> FromECDSA E k = b) \<and>
     (\<forall>h k s. eth_Sign E h k = Inr s \<longrightarrow> length s = 65 \<and> s ! 64 \<in> {0, 1})"

type_synonym band_name = string
type_synonym blockchain_plan = u8

record freq_lib =
  ToBlockchain :: "band_name \<Rightarrow> blockchain_plan"
  FromBlockchain :: "blockchain_plan \<Rightarrow> band_name"
  freq_Invalid :: band_name

record gateway_details =
  gd_AntennaGain :: "string option"
  gd_Band :: "string option"
  gd_Location :: "string option"
  gd_Altitude :: "u16 option"

record gateway =
  LocalID :: eui64
  NetworkID :: eui64
  PrivateKey :: private_key
  PublicKey :: public_key
  PublicKeyBytes :: bytes
  ThingsIxID :: thingsix_id
  Owner :: "address option"
  Version :: "u8 option"
  Details :: "gateway_details option"

section \<open>Keys and ids\<close>

text \<open>
  \<^verbatim>\<open>GeneratePrivateKey\<close> draws keys until the compressed public key starts with \<^verbatim>\<open>0x02\<close>.  The
  random source is a sequence of results of \<^verbatim>\<open>crypto.GenerateKey\<close>; the result also tells how
  many were drawn.  \<open>None\<close> means the loop does not end.
\<close>

partial_function (option) GeneratePrivateKey ::
  "eth_lib \<Rightarrow> (nat \<Rightarrow> private_key result) \<Rightarrow> nat \<Rightarrow> (private_key result \<times> nat) option" where
  "GeneratePrivateKey E src n =
     (case src n of
        Inl err \<Rightarrow> Some (Inl err, Suc n)
      | Inr priv \<Rightarrow>
          (if CompressPubkey E (sk_PublicKey priv) ! 0 = 2 then Some (Inr priv, Suc n)
           else GeneratePrivateKey E src (Suc n)))"

definition DeriveThingsIxID :: "eth_lib \<Rightarrow> public_key \<Rightarrow> thingsix_id" where
  "DeriveThingsIxID E pub = (let raw = drop 1 (CompressPubkey E pub) in take 32 (raw @ replicate 32 0))"

definition GatewayNetworkIDFromPrivateKey :: "eth_lib \<Rightarrow> private_key \<Rightarrow> eui64" where
  "GatewayNetworkIDFromPrivateKey E priv =
     (let thingsIxID = DeriveThingsIxID E (sk_PublicKey priv); h = sha256 thingsIxID
      in eui_or_zero (BytesToGatewayID (take 8 h)))"

definition GatewayPublicKeyToID :: "bytes \<Rightarrow> eui64 result" where
  "GatewayPublicKeyToID pubKey =
     (if length pubKey = 33 then BytesToGatewayID (take 8 (sha256 (drop 1 pubKey)))
      else Inl (Errorf ''invalid gateway public key''))"

section \<open>Gateways\<close>

definition NewGateway :: "eth_lib \<Rightarrow> eui64 \<Rightarrow> private_key \<Rightarrow> gateway" where
  "NewGateway E localID priv =
     \<lparr>LocalID = localID, NetworkID = GatewayNetworkIDFromPrivateKey E priv, PrivateKey = priv,
      PublicKey = sk_PublicKey priv, PublicKeyBytes = FromECDSAPub E (sk_PublicKey priv),
      ThingsIxID = DeriveThingsIxID E (sk_PublicKey priv),
      Owner = None, Version = None, Details = None\<rparr>"

definition NewOnboardedGateway ::
  "eth_lib \<Rightarrow> eui64 \<Rightarrow> private_key \<Rightarrow> address \<Rightarrow> u8 \<Rightarrow> gateway" where
  "NewOnboardedGateway E localID priv owner version =
     \<lparr>LocalID = localID, NetworkID = GatewayNetworkIDFromPrivateKey E priv, PrivateKey = priv,
      PublicKey = sk_PublicKey priv, PublicKeyBytes = FromECDSAPub E (sk_PublicKey priv),
      ThingsIxID = DeriveThingsIxID E (sk_PublicKey priv),
      Owner = Some owner, Version = Some version, Details = None\<rparr>"

text \<open>\<^verbatim>\<open>GenerateNewGateway\<close> leaves \<^verbatim>\<open>PublicKeyBytes\<close> empty.\<close>

definition GenerateNewGateway ::
  "eth_lib \<Rightarrow> (nat \<Rightarrow> private_key result) \<Rightarrow> nat \<Rightarrow> eui64 \<Rightarrow> (gateway result \<times> nat) option" where
  "GenerateNewGateway E src n localID =
     (case GeneratePrivateKey E src n of
        None \<Rightarrow> None
      | Some (Inl err, n') \<Rightarrow> Some (Inl err, n')
      | Some (Inr priv, n') \<Rightarrow>
          Some (Inr \<lparr>LocalID = localID, NetworkID = GatewayNetworkIDFromPrivateKey E priv,
                     PrivateKey = priv, PublicKey = sk_PublicKey priv, PublicKeyBytes = [],
                     ThingsIxID = DeriveThingsIxID E (sk_PublicKey priv),
                     Owner = None, Version = None, Details = None\<rparr>, n'))"

definition Onboarded :: "gateway \<Rightarrow> bool" where
  "Onboarded gw \<longleftrightarrow> Owner gw \<noteq> None"

definition OwnerBytes :: "gateway \<Rightarrow> bytes" where
  "OwnerBytes gw = (case Owner gw of None \<Rightarrow> address_zero | Some owner \<Rightarrow> owner)"

definition CompressedPubKeyBytes :: "gateway \<Rightarrow> bytes" where
  "CompressedPubKeyBytes gw = [0x2] @ ThingsIxID gw"

definition gateway_Address :: "eth_lib \<Rightarrow> gateway \<Rightarrow> address" where
  "gateway_Address E gw = PubkeyToAddress E (PublicKey gw)"

section \<open>The onboard message (gateway/onboard.go)\<close>

definition onboard_args :: "eth_lib \<Rightarrow> nat \<Rightarrow> address \<Rightarrow> address \<Rightarrow> u8 \<Rightarrow> gateway \<Rightarrow> abi_value list" where
  "onboard_args E chainID contract owner version gw =
     [AbiString ''ONBGW'', AbiString ''|'', AbiUint256 chainID, AbiString ''|'', AbiAddress contract,
      AbiString ''|'', AbiUint8 version, AbiString ''|'', AbiBytes32 (ThingsIxID gw), AbiString ''|'',
      AbiAddress (gateway_Address E gw), AbiString ''|'', AbiAddress owner]"

text \<open>\<^verbatim>\<open>sign[64] += 27\<close> panics on a signature shorter than 65 bytes.\<close>

definition SignPlainBatchOnboardMessage ::
  "eth_lib \<Rightarrow> nat \<Rightarrow> address \<Rightarrow> address \<Rightarrow> u8 \<Rightarrow> gateway \<Rightarrow> bytes result go" where
  "SignPlainBatchOnboardMessage E chainID contract owner version gw =
     (case abi_Pack E (onboard_args E chainID contract owner version gw) of
        Inl err \<Rightarrow> Ret (Inl (Errorf ''unable to pack onboard message''))
      | Inr packed \<Rightarrow>
          (case eth_Sign E (Keccak256Hash E packed) (PrivateKey gw) of
             Inl err \<Rightarrow> Ret (Inl err)
           | Inr sig \<Rightarrow>
               if 64 < length sig then Ret (Inr (sig[64 := sig ! 64 + 27])) else Panic))"

section \<open>Frequency bands of a set of gateways (gateway/store.go)\<close>

record unique_bands =
  ub_bands :: "band_name set"
  ub_plans :: "blockchain_plan set"

definition addBand :: "freq_lib \<Rightarrow> band_name \<Rightarrow> unique_bands \<Rightarrow> unique_bands" where
  "addBand F band u =
     u\<lparr>ub_bands := insert band (ub_bands u), ub_plans := insert (ToBlockchain F band) (ub_plans u)\<rparr>"

definition ContainsBand :: "unique_bands \<Rightarrow> band_name \<Rightarrow> bool" where
  "ContainsBand u band \<longleftrightarrow> band \<in> ub_bands u"

definition ContainsFrequencyPlan :: "unique_bands \<Rightarrow> blockchain_plan \<Rightarrow> bool" where
  "ContainsFrequencyPlan u plan \<longleftrightarrow> plan \<in> ub_plans u"

section \<open>Configuration (gateway/config.go)\<close>

datatype GatewayStoreType = NoGatewayStoreType | YamlFileGatewayStore | PostgresqlGatewayStore

record StoreConfig =
  sc_RefreshInterval :: "duration option"
  sc_DefaultGatewayFrequencyPlan :: band_name
  sc_YamlStorePath :: "string option"
  sc_Postgresql :: "bool option"

definition StoreConfig_Type :: "StoreConfig \<Rightarrow> GatewayStoreType" where
  "StoreConfig_Type sc =
     (if sc_Postgresql sc = Some True then PostgresqlGatewayStore
      else if sc_YamlStorePath sc \<noteq> None then YamlFileGatewayStore
      else NoGatewayStoreType)"

section \<open>Well-formed gateways\<close>

text \<open>All identity fields of a gateway are those derived from its private key.\<close>

definition gateway_wf :: "eth_lib \<Rightarrow> gateway \<Rightarrow> bool" where
  "gateway_wf E gw \<longleftrightarrow>
     PublicKey gw = sk_PublicKey (PrivateKey gw) \<and>
     NetworkID gw = GatewayNetworkIDFromPrivateKey E (PrivateKey gw) \<and>
     ThingsIxID gw = DeriveThingsIxID E (PublicKey gw)"

lemma length_DeriveThingsIxID [simp]: "length (DeriveThingsIxID E pub) = 32"
  by (simp add: DeriveThingsIxID_def Let_def)

lemma NewGateway_simps [simp]:
  "LocalID (NewGateway E l k) = l" "PrivateKey (NewGateway E l k) = k"
  "NetworkID (NewGateway E l k) = GatewayNetworkIDFromPrivateKey E k"
  "ThingsIxID (NewGateway E l k) = DeriveThingsIxID E (sk_PublicKey k)"
  "Owner (NewGateway E l k) = None" "Details (NewGateway E l k) = None"
  by (simp_all add: NewGateway_def)

lemma NewOnboardedGateway_simps [simp]:
  "LocalID (NewOnboardedGateway E l k ow v) = l" "PrivateKey (NewOnboardedGateway E l k ow v) = k"
  "NetworkID (NewOnboardedGateway E l k ow v) = GatewayNetworkIDFromPrivateKey E k"
  "ThingsIxID (NewOnboardedGateway E l k ow v) = DeriveThingsIxID E (sk_PublicKey k)"
  "Owner (NewOnboardedGateway E l k ow v) = Some ow"
  by (simp_all add: NewOnboardedGateway_def)

lemma gateway_wf_New [simp, intro!]: "gateway_wf E (NewGateway E l k)"
  by (simp add: gateway_wf_def NewGateway_def)

lemma gateway_wf_NewOnboarded [simp, intro!]: "gateway_wf E (NewOnboardedGateway E l k ow v)"
  by (simp add: gateway_wf_def NewOnboardedGateway_def)

lemma gateway_wf_Details [simp]: "gateway_wf E (gw\<lparr>Details := d\<rparr>) = gateway_wf E gw"
  by (simp add: gateway_wf_def)

lemma gateway_wf_Owner [simp]: "gateway_wf E (gw\<lparr>Owner := d\<rparr>) = gateway_wf E gw"
  by (simp add: gateway_wf_def)

lemma gateway_wf_length_id: "gateway_wf E gw \<Longrightarrow> length (ThingsIxID gw) = 32"
  by (simp add: gateway_wf_def)

lemma addBand_simps [simp]:
  "ub_bands (addBand F b u) = insert b (ub_bands u)"
  "ub_plans (addBand F b u) = insert (ToBlockchain F b) (ub_plans u)"
  by (simp_all add: addBand_def)

text \<open>A concrete library for evaluations: the key of the bytes \<open>b, b, \<dots>, b\<close> is \<open>b\<close>.\<close>

definition key_example :: "byte \<Rightarrow> private_key" where
  "key_example b = \<lparr>sk_PublicKey = \<lparr>pk_X = unat b, pk_Y = 0\<rparr>, sk_D = unat b\<rparr>"

definition freq_example :: freq_lib where
  "freq_example = \<lparr>ToBlockchain = (\<lambda>b. 1), FromBlockchain = (\<lambda>p. ''EU868''), freq_Invalid = []\<rparr>"

definition eth_example :: eth_lib where
  "eth_example =
     \<lparr>CompressPubkey = (\<lambda>p. (if even (pk_X p) then 2 else 3) # replicate 32 (of_nat (pk_X p))),
      FromECDSAPub = (\<lambda>p. 4 # replicate 64 (of_nat (pk_X p))),
      FromECDSA = (\<lambda>k. replicate 32 (of_nat (sk_D k))),
      ToECDSA = (\<lambda>b. if b = replicate 32 (hd b) then Inr (key_example (hd b)) else Inl (Errorf ''key'')),
      PubkeyToAddress = (\<lambda>p. replicate 20 (of_nat (pk_X p))),
      eth_Sign = (\<lambda>h k. Inr (replicate 64 (of_nat (sk_D k)) @ [1])),
      Keccak256Hash = (\<lambda>b. b),
      abi_Pack = (\<lambda>vs. Inr (replicate (length vs) 0)),
      Address_String = hex_encode\<rparr>"

lemma eth_example_ok: "eth_ok eth_example"
  by (auto simp: eth_ok_def eth_example_def key_example_def nth_append split: if_splits)

lemma GeneratePrivateKey_skip:
  assumes "src n = Inr k" "CompressPubkey E (sk_PublicKey k) ! 0 \<noteq> 2"
  shows "GeneratePrivateKey E src n = GeneratePrivateKey E src (Suc n)"
  using assms by (subst GeneratePrivateKey.simps) simp

section \<open>Properties\<close>

text \<open>
  C38: forwarder and router agree on a gateway's network id.  The forwarder derives it from
  the private key; the router derives it from the compressed public key that the forwarder
  sends with every event; for a gateway whose fields come from its key both are the same.
\<close>

theorem network_id_agreement:
  assumes "gateway_wf E gw"
  shows "GatewayPublicKeyToID (CompressedPubKeyBytes gw) = Inr (NetworkID gw)"
  using assms
  by (simp add: gateway_wf_def GatewayPublicKeyToID_def CompressedPubKeyBytes_def
      GatewayNetworkIDFromPrivateKey_def BytesToGatewayID_def Let_def)

theorem network_id_agreement_witness:
  "GatewayPublicKeyToID (CompressedPubKeyBytes (NewGateway eth_example eui64_zero (key_example 4))) =
     Inr (NetworkID (NewGateway eth_example eui64_zero (key_example 4)))"
  using network_id_agreement[of eth_example "NewGateway eth_example eui64_zero (key_example 4)"]
  by simp

text \<open>
  C40: key generation ends as soon as the random source delivers a usable key: it returns
  the first key whose compressed form starts with 0x02, or the first error before it.
\<close>

theorem GeneratePrivateKey_first:
  assumes "n \<le> m" "src m = Inr k" "CompressPubkey E (sk_PublicKey k) ! 0 = 2"
    and "\<And>i. n \<le> i \<Longrightarrow> i < m \<Longrightarrow>
           \<exists>k'. src i = Inr k' \<and> CompressPubkey E (sk_PublicKey k') ! 0 \<noteq> 2"
  shows "GeneratePrivateKey E src n = Some (Inr k, Suc m)"
  using assms
proof (induction "m - n" arbitrary: n)
  case 0
  then have "n = m" by simp
  with 0 show ?case by (subst GeneratePrivateKey.simps) simp
next
  case (Suc d)
  then have "n < m" by simp
  with Suc.prems(4)[of n] obtain k' where
    "src n = Inr k'" "CompressPubkey E (sk_PublicKey k') ! 0 \<noteq> 2" by auto
  then have "GeneratePrivateKey E src n = GeneratePrivateKey E src (Suc n)"
    by (rule GeneratePrivateKey_skip)
  also have "\<dots> = Some (Inr k, Suc m)"
    using Suc.hyps(2) \<open>n < m\<close> Suc.prems by (intro Suc.hyps(1)) auto
  finally show ?case .
qed

theorem GeneratePrivateKey_first_witness:
  "GeneratePrivateKey eth_example (\<lambda>i. Inr (key_example (of_nat (2 * i + 1 - i)))) 0 =
     Some (Inr (key_example 2), 2)"
proof -
  let ?src = "\<lambda>i. Inr (key_example (of_nat (2 * i + 1 - i))) :: private_key result"
  have "GeneratePrivateKey eth_example ?src 0 = Some (Inr (key_example 2), Suc 1)"
    by (rule GeneratePrivateKey_first) (auto simp: eth_example_def key_example_def)
  then show ?thesis by (simp add: numeral_2_eq_2)
qed

text \<open>
  An onboard signature that is returned ends in 27 or 28, as the smart contract wants
  it, and signing never panics.
\<close>

theorem onboard_signature_v:
  assumes "eth_ok E"
  shows "\<exists>r. SignPlainBatchOnboardMessage E c a ow v gw = Ret r \<and>
             (case r of Inl _ \<Rightarrow> True | Inr s \<Rightarrow> length s = 65 \<and> s ! 64 \<in> {27, 28})"
  using assms
  by (auto simp: eth_ok_def SignPlainBatchOnboardMessage_def split: sum.split)

theorem onboard_signature_v_witness:
  "\<exists>r. SignPlainBatchOnboardMessage eth_example 137 address_zero address_zero 0
          (NewGateway eth_example eui64_zero (key_example 4)) = Ret r \<and>
        (case r of Inl _ \<Rightarrow> True | Inr s \<Rightarrow> length s = 65 \<and> s ! 64 \<in> {27, 28})"
  by (rule onboard_signature_v[OF eth_example_ok])

end
