(* ===== verification/Gateway_Store.thy ===== *)
theory Gateway_Store
  imports Gateway
begin

text \<open>
  The interfaces \<^verbatim>\<open>GatewayStore\<close> (\<^verbatim>\<open>gateway/store.go\<close>) and \<^verbatim>\<open>ThingsIXRegistry\<close> (\<^verbatim>\<open>gateway/registry.go\<close>) as
  method tables, the contract of a gateway store as a locale with the lemmas its clients use,
  and the facts on the three indexes (local id, network id, ThingsIX id) that both
  implementations keep.
\<close>

section \<open>Interfaces\<close>

text \<open>
  A Go interface value is a table of methods over a state \<open>'s\<close>.  A mutating method also takes
  an environment \<open>'e\<close>: what the file system, the database or the registry answers to it.
  The iteration order of a Go map is not defined: \<open>Range\<close> takes the order as an argument.
\<close>

record 'r registry =
  reg_GatewayDetails ::
    "'r \<Rightarrow> thingsix_id \<Rightarrow> bool \<Rightarrow> (address \<times> u8 \<times> gateway_details option) result \<times> 'r"

record ('s, 'e) gateway_store =
  gs_Count :: "'s \<Rightarrow> nat"
  gs_Range :: "'s \<Rightarrow> eui64 list \<Rightarrow> gateway list"
  gs_ByLocalID :: "'s \<Rightarrow> eui64 \<Rightarrow> gateway result"
  gs_ByLocalIDString :: "'s \<Rightarrow> string \<Rightarrow> gateway result"
  gs_ContainsByLocalID :: "'s \<Rightarrow> eui64 \<Rightarrow> bool"
  gs_ByNetworkID :: "'s \<Rightarrow> eui64 \<Rightarrow> gateway result"
  gs_ByNetworkIDString :: "'s \<Rightarrow> string \<Rightarrow> gateway result"
  gs_ContainsByNetID :: "'s \<Rightarrow> eui64 \<Rightarrow> bool"
  gs_ByThingsIxID :: "'s \<Rightarrow> thingsix_id \<Rightarrow> gateway result"
  gs_Add :: "'s \<Rightarrow> 'e \<Rightarrow> eui64 \<Rightarrow> private_key \<Rightarrow> gateway result \<times> 's"
  gs_SyncGatewayByLocalID :: "'s \<Rightarrow> 'e \<Rightarrow> eui64 \<Rightarrow> bool \<Rightarrow> gateway result \<times> 's"
  gs_UniqueGatewayBands :: "'s \<Rightarrow> eui64 list \<Rightarrow> unique_bands"
  gs_DefaultFrequencyPlan :: "'s \<Rightarrow> band_name"

text \<open>
  \<^verbatim>\<open>Range\<close> calls \<^verbatim>\<open>Do\<close> on each gateway until it returns false; the \<^verbatim>\<open>Collector\<close> appends the
  gateway and always returns true.
\<close>

fun range_loop :: "(gateway \<Rightarrow> 'c \<Rightarrow> bool \<times> 'c) \<Rightarrow> gateway list \<Rightarrow> 'c \<Rightarrow> 'c" where
  "range_loop do [] c = c"
| "range_loop do (gw # gws) c = (case do gw c of (True, c') \<Rightarrow> range_loop do gws c' | (False, c') \<Rightarrow> c')"

definition Collector_Do :: "gateway \<Rightarrow> gateway list \<Rightarrow> bool \<times> gateway list" where
  "Collector_Do gw c = (True, c @ [gw])"

definition range_order :: "('k \<rightharpoonup> gateway) \<Rightarrow> 'k list \<Rightarrow> gateway list" where
  "range_order m order = List.map_filter m order"

text \<open>The bands of all gateways, \<open>dflt\<close> standing in for a gateway without one.\<close>

fun collect_bands :: "freq_lib \<Rightarrow> band_name \<Rightarrow> gateway list \<Rightarrow> unique_bands \<Rightarrow> unique_bands" where
  "collect_bands F dflt [] u = u"
| "collect_bands F dflt (gw # gws) u =
     collect_bands F dflt gws
       (case Details gw of
          Some d \<Rightarrow>
            (case gd_Band d of
               Some band \<Rightarrow> addBand F band u
             | None \<Rightarrow> if dflt \<noteq> freq_Invalid F then addBand F dflt u else u)
        | None \<Rightarrow> if dflt \<noteq> freq_Invalid F then addBand F dflt u else u)"

text \<open>The band that counts for a gateway.\<close>

definition effective_band :: "freq_lib \<Rightarrow> band_name \<Rightarrow> gateway \<Rightarrow> band_name option" where
  "effective_band F dflt gw =
     (let fallback = (if dflt \<noteq> freq_Invalid F then Some dflt else None)
      in case Details gw of
           None \<Rightarrow> fallback
         | Some d \<Rightarrow> (case gd_Band d of None \<Rightarrow> fallback | Some b \<Rightarrow> Some b))"

section \<open>The three indexes\<close>

text \<open>
  Every entry stands under its own id and is well-formed; an entry found by network id or
  by ThingsIX id is the entry of its local id; every gateway is found by its network id.
\<close>

definition index_inv ::
  "eth_lib \<Rightarrow> (eui64 \<rightharpoonup> gateway) \<Rightarrow> (eui64 \<rightharpoonup> gateway) \<Rightarrow> (thingsix_id \<rightharpoonup> gateway) \<Rightarrow> bool" where
  "index_inv E byL byN byT \<longleftrightarrow>
     (\<forall>l g. byL l = Some g \<longrightarrow> LocalID g = l \<and> gateway_wf E g \<and> byN (NetworkID g) \<noteq> None) \<and>
     (\<forall>n g. byN n = Some g \<longrightarrow> NetworkID g = n \<and> byL (LocalID g) = Some g) \<and>
     (\<forall>t g. byT t = Some g \<longrightarrow> ThingsIxID g = t \<and> byL (LocalID g) = Some g)"

definition index_tix_complete ::
  "(eui64 \<rightharpoonup> gateway) \<Rightarrow> (thingsix_id \<rightharpoonup> gateway) \<Rightarrow> bool" where
  "index_tix_complete byL byT \<longleftrightarrow> (\<forall>l g. byL l = Some g \<longrightarrow> byT (ThingsIxID g) \<noteq> None)"

text \<open>The gateway a store entry is replaced with: same identity, new registry data.\<close>

definition same_identity :: "gateway \<Rightarrow> gateway \<Rightarrow> bool" where
  "same_identity g g' \<longleftrightarrow>
     LocalID g' = LocalID g \<and> NetworkID g' = NetworkID g \<and> ThingsIxID g' = ThingsIxID g \<and>
     PrivateKey g' = PrivateKey g"

text \<open>A synced gateway keeps its identity.\<close>

lemma same_identity_synced:
  "gateway_wf E g \<Longrightarrow>
     same_identity g ((NewOnboardedGateway E (LocalID g) (PrivateKey g) ow v)\<lparr>Details := d\<rparr>)"
  by (simp add: same_identity_def gateway_wf_def)

lemma same_identity_refl [simp]: "same_identity g g"
  by (simp add: same_identity_def)

lemma index_inv_empty: "index_inv E Map.empty Map.empty Map.empty"
  by (simp add: index_inv_def)

lemma index_invD:
  assumes "index_inv E byL byN byT"
  shows "byL l = Some g \<Longrightarrow> LocalID g = l" "byL l = Some g \<Longrightarrow> gateway_wf E g"
    "byL l = Some g \<Longrightarrow> byN (NetworkID g) \<noteq> None"
    "byN n = Some g \<Longrightarrow> NetworkID g = n" "byN n = Some g \<Longrightarrow> byL (LocalID g) = Some g"
    "byT t = Some g \<Longrightarrow> ThingsIxID g = t" "byT t = Some g \<Longrightarrow> byL (LocalID g) = Some g"
  using assms unfolding index_inv_def by blast+

text \<open>Entering a gateway under a new local id, or in place of one with the same identity, keeps
  the indexes consistent.\<close>

lemma index_inv_put:
  assumes inv: "index_inv E byL byN byT" and wf: "gateway_wf E g"
    and old: "\<And>h. byL (LocalID g) = Some h \<Longrightarrow> same_identity h g"
  shows "index_inv E (byL(LocalID g \<mapsto> g)) (byN(NetworkID g \<mapsto> g)) (byT(ThingsIxID g \<mapsto> g))"
proof -
  have other: "LocalID h \<noteq> LocalID g"
    if "byL (LocalID h) = Some h" "NetworkID h \<noteq> NetworkID g \<or> ThingsIxID h \<noteq> ThingsIxID g" for h
  proof
    assume "LocalID h = LocalID g"
    with that(1) have "same_identity h g" by (intro old) simp
    with that(2) show False by (simp add: same_identity_def)
  qed
  show ?thesis
    unfolding index_inv_def
  proof (intro conjI allI impI)
    fix n h assume "(byN(NetworkID g \<mapsto> g)) n = Some h"
    then show "NetworkID h = n" "(byL(LocalID g \<mapsto> g)) (LocalID h) = Some h"
      using index_invD(4,5)[OF inv, of n h] other[of h] by (auto split: if_splits)
  next
    fix t h assume "(byT(ThingsIxID g \<mapsto> g)) t = Some h"
    then show "ThingsIxID h = t" "(byL(LocalID g \<mapsto> g)) (LocalID h) = Some h"
      using index_invD(6,7)[OF inv, of t h] other[of h] by (auto split: if_splits)
  next
    fix l h assume "(byL(LocalID g \<mapsto> g)) l = Some h"
    then show "LocalID h = l" "gateway_wf E h" "(byN(NetworkID g \<mapsto> g)) (NetworkID h) \<noteq> None"
      using index_invD(1-3)[OF inv, of l h] wf by (auto split: if_splits)
  qed
qed

text \<open>For a new local id the ThingsIX index may also be left as it is.\<close>

lemma index_inv_put_no_tix:
  assumes inv: "index_inv E byL byN byT" and wf: "gateway_wf E g" and new: "byL (LocalID g) = None"
  shows "index_inv E (byL(LocalID g \<mapsto> g)) (byN(NetworkID g \<mapsto> g)) byT"
proof -
  have other: "byL (LocalID h) = Some h \<Longrightarrow> LocalID h \<noteq> LocalID g" for h
    using new by auto
  show ?thesis
    unfolding index_inv_def
  proof (intro conjI allI impI)
    fix n h assume "(byN(NetworkID g \<mapsto> g)) n = Some h"
    then show "NetworkID h = n" "(byL(LocalID g \<mapsto> g)) (LocalID h) = Some h"
      using index_invD(4,5)[OF inv, of n h] other[of h] by (auto split: if_splits)
  next
    fix t h assume "byT t = Some h"
    then show "ThingsIxID h = t" "(byL(LocalID g \<mapsto> g)) (LocalID h) = Some h"
      using index_invD(6,7)[OF inv, of t h] other[of h] by auto
  next
    fix l h assume "(byL(LocalID g \<mapsto> g)) l = Some h"
    then show "LocalID h = l" "gateway_wf E h" "(byN(NetworkID g \<mapsto> g)) (NetworkID h) \<noteq> None"
      using index_invD(1-3)[OF inv, of l h] wf by (auto split: if_splits)
  qed
qed

lemma index_tix_upd:
  "index_tix_complete byL byT \<Longrightarrow>
     index_tix_complete (byL(LocalID g \<mapsto> g)) (byT(ThingsIxID g \<mapsto> g))"
  by (auto simp: index_tix_complete_def)

lemma range_loop_collect [simp]: "range_loop Collector_Do gws c = c @ gws"
  by (induction gws arbitrary: c) (simp_all add: Collector_Do_def)

lemma set_range_order: "set (range_order m order) = {g. \<exists>k \<in> set order. m k = Some g}"
  by (force simp: range_order_def List.map_filter_def)

lemma length_range_order:
  "set order \<subseteq> dom m \<Longrightarrow> length (range_order m order) = length order"
  by (induction order) (auto simp: range_order_def List.map_filter_def)

lemma collect_bands_Cons:
  "collect_bands F dflt (gw # gws) u =
     collect_bands F dflt gws (case effective_band F dflt gw of None \<Rightarrow> u | Some b \<Rightarrow> addBand F b u)"
  by (auto simp: effective_band_def split: option.split)

lemma collect_bands_eq:
  "ub_bands (collect_bands F dflt gws u) =
     ub_bands u \<union> {b. \<exists>g \<in> set gws. effective_band F dflt g = Some b}"
  "ub_plans (collect_bands F dflt gws u) =
     ub_plans u \<union> {ToBlockchain F b | b. \<exists>g \<in> set gws. effective_band F dflt g = Some b}"
  by (induction gws arbitrary: u) (auto simp: collect_bands_Cons simp del: collect_bands.simps(2)
      split: option.splits)

text \<open>The network id that a router derives from the public key of a gateway is the gateway's.\<close>

lemma pubkey_network_id:
  "gateway_wf E gw \<Longrightarrow> GatewayPublicKeyToID (CompressedPubKeyBytes gw) = Inr (NetworkID gw)"
  by (simp add: gateway_wf_def GatewayPublicKeyToID_def CompressedPubKeyBytes_def
      GatewayNetworkIDFromPrivateKey_def BytesToGatewayID_def Let_def)

section \<open>The contract of a gateway store\<close>

text \<open>
  The laws that the clients of a store (exchange, mapper forwarder, routing table, HTTP API)
  rely on.  \<open>inv\<close> is the representation invariant of the implementation.
\<close>

locale gateway_store =
  fixes S :: "('s, 'e) gateway_store"
    and inv :: "'s \<Rightarrow> bool"
    and E :: eth_lib
    and L :: lorawan_lib
  assumes ByLocalID_cases:
      "inv s \<Longrightarrow> (\<exists>g. gs_ByLocalID S s l = Inr g \<and> LocalID g = l \<and> gateway_wf E g) \<or>
        gs_ByLocalID S s l = Inl ErrNotFound"
    and ByNetworkID_cases:
      "inv s \<Longrightarrow> (\<exists>g. gs_ByNetworkID S s n = Inr g \<and> NetworkID g = n \<and>
          gs_ByLocalID S s (LocalID g) = Inr g) \<or> gs_ByNetworkID S s n = Inl ErrNotFound"
    and ByNetworkID_complete:
      "inv s \<Longrightarrow> gs_ByLocalID S s l = Inr g \<Longrightarrow> \<exists>g'. gs_ByNetworkID S s (NetworkID g) = Inr g'"
    and ByLocalIDString_eq:
      "gs_ByLocalIDString S s str =
         (case eui_UnmarshalText L str of Inl _ \<Rightarrow> Inl ErrInvalidGatewayID | Inr e \<Rightarrow> gs_ByLocalID S s e)"
    and ByNetworkIDString_eq:
      "gs_ByNetworkIDString S s str =
         (case eui_UnmarshalText L str of Inl _ \<Rightarrow> Inl ErrInvalidGatewayID | Inr e \<Rightarrow> gs_ByNetworkID S s e)"
    and ContainsByLocalID_iff:
      "gs_ContainsByLocalID S s l \<longleftrightarrow> (\<exists>g. gs_ByLocalID S s l = Inr g)"
    and Add_inv: "inv s \<Longrightarrow> gs_Add S s e l k = (r, s') \<Longrightarrow> inv s'"
    and Add_ok:
      "inv s \<Longrightarrow> gs_Add S s e l k = (Inr g, s') \<Longrightarrow>
         g = NewGateway E l k \<and> gs_ByLocalID S s l = Inl ErrNotFound \<and>
         gs_ByLocalID S s' l = Inr g \<and> gs_ByNetworkID S s' (NetworkID g) = Inr g"
    and Add_frame:
      "inv s \<Longrightarrow> gs_Add S s e l k = (r, s') \<Longrightarrow> l' \<noteq> l \<Longrightarrow> gs_ByLocalID S s' l' = gs_ByLocalID S s l'"
    and Add_error: "inv s \<Longrightarrow> gs_Add S s e l k = (Inl err, s') \<Longrightarrow>
         gs_ByLocalID S s' = gs_ByLocalID S s \<and> gs_ByNetworkID S s' = gs_ByNetworkID S s"
    and Sync_inv: "inv s \<Longrightarrow> gs_SyncGatewayByLocalID S s e l force = (r, s') \<Longrightarrow> inv s'"
    and Sync_ok:
      "inv s \<Longrightarrow> gs_SyncGatewayByLocalID S s e l force = (Inr g, s') \<Longrightarrow>
         \<exists>old. gs_ByLocalID S s l = Inr old \<and> same_identity old g \<and> gs_ByLocalID S s' l = Inr g"
    and Sync_error: "inv s \<Longrightarrow> gs_SyncGatewayByLocalID S s e l force = (Inl err, s') \<Longrightarrow>
         gs_ByLocalID S s' = gs_ByLocalID S s"
    and Sync_frame:
      "inv s \<Longrightarrow> gs_SyncGatewayByLocalID S s e l force = (r, s') \<Longrightarrow> l' \<noteq> l \<Longrightarrow>
         gs_ByLocalID S s' l' = gs_ByLocalID S s l'"
begin

lemma ByLocalID_found:
  assumes "inv s" "gs_ByLocalID S s l = Inr g"
  shows "LocalID g = l" "gateway_wf E g"
  using ByLocalID_cases[OF assms(1), of l] assms(2) by auto

lemma ByNetworkID_found:
  assumes "inv s" "gs_ByNetworkID S s n = Inr g"
  shows "NetworkID g = n" "gs_ByLocalID S s (LocalID g) = Inr g" "gateway_wf E g"
  using ByNetworkID_cases[OF assms(1), of n] assms(2) ByLocalID_found[OF assms(1)] by auto

lemma not_found_error:
  assumes "inv s" "gs_ByLocalID S s l = Inl err"
  shows "err = ErrNotFound"
  using ByLocalID_cases[OF assms(1), of l] assms(2) by auto

text \<open>Adding never loses or replaces a gateway of the store.\<close>

lemma Add_keeps:
  assumes "inv s" "gs_Add S s e l k = (r, s')" "gs_ByLocalID S s l' = Inr g"
  shows "gs_ByLocalID S s' l' = Inr g"
proof (cases "l' = l")
  case False
  then show ?thesis using Add_frame[OF assms(1,2)] assms(3) by simp
next
  case True
  show ?thesis
  proof (cases r)
    case (Inl err)
    then show ?thesis using Add_error[OF assms(1)] assms by auto
  next
    case (Inr g')
    then show ?thesis using Add_ok[OF assms(1), of e l k g' s'] assms True by simp
  qed
qed

text \<open>Syncing never loses a gateway or changes its identity.\<close>

lemma Sync_keeps:
  assumes "inv s" "gs_SyncGatewayByLocalID S s e l force = (r, s')" "gs_ByLocalID S s l' = Inr g"
  shows "\<exists>g'. gs_ByLocalID S s' l' = Inr g' \<and> same_identity g g'"
proof (cases "l' = l")
  case False
  then show ?thesis using Sync_frame[OF assms(1,2)] assms(3) by auto
next
  case True
  show ?thesis
  proof (cases r)
    case (Inl err)
    then show ?thesis using Sync_error[OF assms(1)] assms(2,3) by (metis same_identity_refl)
  next
    case (Inr h)
    then show ?thesis using Sync_ok[OF assms(1)] assms(2,3) True by fastforce
  qed
qed

text \<open>What a router learns of a stored gateway leads back to it.\<close>

lemma network_id_found:
  assumes "inv s" "gs_ByLocalID S s l = Inr g"
  shows "GatewayPublicKeyToID (CompressedPubKeyBytes g) = Inr (NetworkID g)"
    and "\<exists>g'. gs_ByNetworkID S s (NetworkID g) = Inr g' \<and> NetworkID g' = NetworkID g"
proof -
  have wf: "gateway_wf E g" using ByLocalID_found[OF assms] by simp
  then show "GatewayPublicKeyToID (CompressedPubKeyBytes g) = Inr (NetworkID g)"
    by (rule pubkey_network_id)
  show "\<exists>g'. gs_ByNetworkID S s (NetworkID g) = Inr g' \<and> NetworkID g' = NetworkID g"
    using ByNetworkID_complete[OF assms] ByNetworkID_found[OF assms(1)] by blast
qed

end

text \<open>A store whose ThingsIX index is complete.\<close>

locale gateway_store_tix = gateway_store +
  assumes ByThingsIxID_cases:
      "inv s \<Longrightarrow> (\<exists>g. gs_ByThingsIxID S s t = Inr g \<and> ThingsIxID g = t \<and>
          gs_ByLocalID S s (LocalID g) = Inr g) \<or> gs_ByThingsIxID S s t = Inl ErrNotFound"
    and ByThingsIxID_complete:
      "inv s \<Longrightarrow> gs_ByLocalID S s l = Inr g \<Longrightarrow> \<exists>g'. gs_ByThingsIxID S s (ThingsIxID g) = Inr g'"
begin

lemma Add_by_thingsix_id:
  assumes "inv s" "gs_Add S s e l k = (Inr g, s')"
  shows "\<exists>g'. gs_ByThingsIxID S s' (ThingsIxID g) = Inr g' \<and> ThingsIxID g' = ThingsIxID g"
proof -
  have inv': "inv s'" using Add_inv[OF assms] .
  obtain g' where g': "gs_ByThingsIxID S s' (ThingsIxID g) = Inr g'"
    using ByThingsIxID_complete[OF inv'] Add_ok[OF assms] by blast
  then show ?thesis using ByThingsIxID_cases[OF inv', of "ThingsIxID g"] by auto
qed

end

end
