(* ===== verification/Messages.thy ===== *)
theory Messages
  imports Complex_Main Gateway
begin

text \<open>
  The messages that forwarder, gateways and routers exchange, \<^verbatim>\<open>forwarder/types.go\<close>, and the pure
  functions on them: \<^verbatim>\<open>airtime/airtime.go\<close>, \<^verbatim>\<open>forwarder/metadata.go\<close>, the id rewriting of
  \<^verbatim>\<open>forwarder/utils.go\<close> and the accounting strategy of \<^verbatim>\<open>forwarder/accounting.go\<close>.

  The protobuf messages are records with the fields that the sources use.  A message pointer
  that may be nil is an option; protobuf getters are nil-safe, field accesses are not and
  panic.  A \<^verbatim>\<open>float64\<close> is the rational number it denotes, a \<^verbatim>\<open>float32\<close> that is only passed on is
  its bit pattern.
\<close>

section \<open>Protobuf messages\<close>

datatype code_rate =
    CR_UNDEFINED | CR_4_5 | CR_4_6 | CR_4_7 | CR_4_8 | CR_3_8 | CR_2_6 | CR_1_4 | CR_1_6 | CR_5_6
  | CR_LI_4_5 | CR_LI_4_6 | CR_LI_4_8 | CR_OTHER nat

record lora_modulation =
  lm_Bandwidth :: u32
  lm_SpreadingFactor :: u32
  lm_CodeRate :: code_rate
  lm_PolarizationInversion :: bool

record fsk_modulation =
  fm_FrequencyDeviation :: u32
  fm_Datarate :: u32

record lr_fhss_modulation =
  lf_OperatingChannelWidth :: u32
  lf_CodeRate :: code_rate
  lf_GridSteps :: u32

text \<open>\<open>Modulation_None\<close> is a message whose parameters are not set.\<close>

datatype modulation =
    Modulation_Lora lora_modulation
  | Modulation_Fsk fsk_modulation
  | Modulation_LrFhss lr_fhss_modulation
  | Modulation_None

record uplink_tx_info =
  ti_Frequency :: u32
  ti_Modulation :: "modulation option"

record location =
  loc_Latitude :: rat
  loc_Longitude :: rat
  loc_Altitude :: rat

datatype crc_status = NO_CRC | BAD_CRC | CRC_OK

record uplink_rx_info =
  ri_GatewayId :: string
  ri_UplinkId :: u32
  ri_Rssi :: int
  ri_Snr :: u32
  ri_Channel :: u32
  ri_RfChain :: u32
  ri_Board :: u32
  ri_Antenna :: u32
  ri_CrcStatus :: crc_status
  ri_Time :: "time option"
  ri_TimeSinceGpsEpoch :: "duration option"
  ri_FineTimeSinceGpsEpoch :: "duration option"
  ri_Context :: bytes
  ri_Location :: "location option"
  ri_Metadata :: "string \<rightharpoonup> string"

record uplink_frame =
  uf_PhyPayload :: bytes
  uf_TxInfo :: "uplink_tx_info option"
  uf_RxInfo :: "uplink_rx_info option"

datatype timing = Immediately | Delay "duration option" | GpsEpoch "duration option"

record downlink_tx_info =
  dti_Frequency :: u32
  dti_Power :: int
  dti_Timing :: "timing option"
  dti_Modulation :: "modulation option"
  dti_Context :: bytes
  dti_Antenna :: u32
  dti_Board :: u32

record downlink_item =
  di_PhyPayload :: bytes
  di_TxInfo :: "downlink_tx_info option"

record downlink_frame =
  df_DownlinkId :: u32
  df_DownlinkIdLegacy :: bytes
  df_Items :: "downlink_item list"
  df_GatewayId :: string

record downlink_tx_ack =
  da_GatewayId :: string
  da_DownlinkId :: u32
  da_Items :: "nat list"

record gateway_information =
  gi_PublicKey :: bytes
  gi_Owner :: bytes

record airtime_receipt =
  ar_Owner :: bytes
  ar_Airtime :: u32

datatype gtr_body =
    UplinkFrameEvent "uplink_frame option" "airtime_receipt option"
  | DownlinkTXAckEvent "downlink_tx_ack option" "airtime_receipt option"
  | StatusEvent bool
  | NoGtrBody

record gtr_event =
  ge_GatewayInformation :: "gateway_information option"
  ge_Event :: gtr_body

datatype airtime_payment = AirtimePayment nat

datatype rtg_event =
    DownlinkFrameEvent "downlink_frame option"
  | AirtimePaymentEvent airtime_payment
  | NoRtgBody

text \<open>The nil-safe getters.\<close>

definition get_lora :: "modulation option \<Rightarrow> lora_modulation option" where
  "get_lora m = (case m of Some (Modulation_Lora l) \<Rightarrow> Some l | _ \<Rightarrow> None)"

definition frame_lora :: "uplink_frame \<Rightarrow> lora_modulation option" where
  "frame_lora frame = (case uf_TxInfo frame of None \<Rightarrow> None | Some ti \<Rightarrow> get_lora (ti_Modulation ti))"

definition frame_frequency :: "uplink_frame \<Rightarrow> u32" where
  "frame_frequency frame = (case uf_TxInfo frame of None \<Rightarrow> 0 | Some ti \<Rightarrow> ti_Frequency ti)"

definition frame_gateway_id :: "uplink_frame \<Rightarrow> string" where
  "frame_gateway_id frame = (case uf_RxInfo frame of None \<Rightarrow> [] | Some ri \<Rightarrow> ri_GatewayId ri)"

definition frame_uplink_id :: "uplink_frame \<Rightarrow> u32" where
  "frame_uplink_id frame = (case uf_RxInfo frame of None \<Rightarrow> 0 | Some ri \<Rightarrow> ri_UplinkId ri)"

definition lora_sf :: "lora_modulation option \<Rightarrow> u32" where
  "lora_sf l = (case l of None \<Rightarrow> 0 | Some m \<Rightarrow> lm_SpreadingFactor m)"

definition lora_bandwidth :: "lora_modulation option \<Rightarrow> u32" where
  "lora_bandwidth l = (case l of None \<Rightarrow> 0 | Some m \<Rightarrow> lm_Bandwidth m)"

section \<open>forwarder/types.go\<close>

record gateway_event =
  ev_join :: "(eui64 \<times> gtr_event) option"
  ev_uplink :: "(devaddr \<times> gtr_event) option"
  ev_subOnlineOfflineEvent :: "gtr_event option"
  ev_downlinkAck :: "(u32 \<times> gtr_event) option"
  ev_receivedFrom :: gateway

definition IsUplink :: "gateway_event \<Rightarrow> bool" where
  "IsUplink ge \<longleftrightarrow> ev_uplink ge \<noteq> None"

definition IsJoin :: "gateway_event \<Rightarrow> bool" where
  "IsJoin ge \<longleftrightarrow> ev_join ge \<noteq> None"

definition IsOnlineOfflineEvent :: "gateway_event \<Rightarrow> bool" where
  "IsOnlineOfflineEvent ge \<longleftrightarrow> ev_subOnlineOfflineEvent ge \<noteq> None"

definition IsDownlinkAck :: "gateway_event \<Rightarrow> bool" where
  "IsDownlinkAck ge \<longleftrightarrow> ev_downlinkAck ge \<noteq> None"

section \<open>airtime/airtime.go\<close>

datatype coding_rate = CodingRate45 | CodingRate46 | CodingRate47 | CodingRate48

text \<open>\<^verbatim>\<open>CalculateLoRaAirtime\<close> of \<^verbatim>\<open>brocaar/lorawan/airtime\<close>: payload size, spreading factor, bandwidth in
  kHz, preamble, coding rate, header, low data rate optimisation.\<close>

type_synonym airtime_calc =
  "int \<Rightarrow> int \<Rightarrow> int \<Rightarrow> int \<Rightarrow> coding_rate \<Rightarrow> bool \<Rightarrow> bool \<Rightarrow> duration result"

definition airtime_coding_rate :: "code_rate \<Rightarrow> coding_rate option" where
  "airtime_coding_rate c =
     (case c of CR_4_5 \<Rightarrow> Some CodingRate45 | CR_4_6 \<Rightarrow> Some CodingRate46
      | CR_4_7 \<Rightarrow> Some CodingRate47 | CR_4_8 \<Rightarrow> Some CodingRate48 | _ \<Rightarrow> None)"

definition UplinkAirtime :: "airtime_calc \<Rightarrow> uplink_frame \<Rightarrow> duration result" where
  "UplinkAirtime A frame =
     (let payload = int (length (uf_PhyPayload frame))
      in case frame_lora frame of
           None \<Rightarrow> Inl (Errorf ''packet is not LoRa, cannot calculate airtime'')
         | Some lora \<Rightarrow>
             let sf = uint (lm_SpreadingFactor lora);
                 bandwidth = uint (lm_Bandwidth lora div 1000);
                 preamble = 8
             in case airtime_coding_rate (lm_CodeRate lora) of
                  None \<Rightarrow> Inl (Errorf ''invalid code rate'')
                | Some codingrate \<Rightarrow>
                    A payload sf bandwidth preamble codingrate True (sf \<ge> 11))"

text \<open>A downlink claims all 8 channels of the gateway.  \<^verbatim>\<open>frame.Items[0]\<close> panics on no items.\<close>

definition DownlinkAirtime :: "airtime_calc \<Rightarrow> downlink_frame \<Rightarrow> duration result go" where
  "DownlinkAirtime A frame =
     go_bind (go_index (df_Items frame) 0) (\<lambda>item.
       let payload = int (length (di_PhyPayload item))
       in case (case di_TxInfo item of None \<Rightarrow> None | Some ti \<Rightarrow> get_lora (dti_Modulation ti)) of
            None \<Rightarrow> Ret (Inl (Errorf ''packet is not LoRa, cannot calculate airtime''))
          | Some lora \<Rightarrow>
              let sf = uint (lm_SpreadingFactor lora);
                  bandwidth = uint (lm_Bandwidth lora div 1000);
                  preamble = 8
              in case airtime_coding_rate (lm_CodeRate lora) of
                   None \<Rightarrow> Ret (Inl (Errorf ''invalid code rate''))
                 | Some codingrate \<Rightarrow>
                     (case A payload sf bandwidth preamble codingrate True (sf \<ge> 11) of
                        Inl err \<Rightarrow> Ret (Inl err)
                      | Inr airtime \<Rightarrow> Ret (Inr (airtime * 8))))"

section \<open>Rewriting gateway ids (forwarder/utils.go)\<close>

text \<open>Assigning to a field of a nil \<^verbatim>\<open>RxInfo\<close> panics.\<close>

definition localUplinkFrameToNetwork ::
  "lorawan_lib \<Rightarrow> gateway \<Rightarrow> uplink_frame \<Rightarrow> uplink_frame result go" where
  "localUplinkFrameToNetwork L gw frame =
     go_bind (deref (uf_RxInfo frame)) (\<lambda>ri.
       Ret (Inr (frame\<lparr>uf_RxInfo := Some (ri\<lparr>ri_GatewayId := eui_String L (NetworkID gw)\<rparr>)\<rparr>)))"

definition localDownlinkTxAckToNetwork ::
  "lorawan_lib \<Rightarrow> gateway \<Rightarrow> downlink_tx_ack \<Rightarrow> downlink_tx_ack result" where
  "localDownlinkTxAckToNetwork L gw txack = Inr (txack\<lparr>da_GatewayId := eui_String L (NetworkID gw)\<rparr>)"

definition networkDownlinkFrameToLocal ::
  "lorawan_lib \<Rightarrow> gateway \<Rightarrow> downlink_frame \<Rightarrow> downlink_frame" where
  "networkDownlinkFrameToLocal L gw frame = frame\<lparr>df_GatewayId := eui_String L (LocalID gw)\<rparr>"

section \<open>forwarder/metadata.go\<close>

text \<open>What the sources call of \<^verbatim>\<open>h3-light\<close>: cells are 64-bit indexes.\<close>

type_synonym cell = u64

record h3_lib =
  CellFromString :: "string \<Rightarrow> cell result"
  cell_String :: "cell \<Rightarrow> string"
  cell_LatLon :: "cell \<Rightarrow> rat \<times> rat"
  LatLonToCell :: "rat \<Rightarrow> rat \<Rightarrow> nat \<Rightarrow> cell"

text \<open>\<^verbatim>\<open>fmt.Sprintf("%f", x)\<close>: six decimals, rounded half to even.\<close>

definition round_half_even :: "rat \<Rightarrow> int" where
  "round_half_even x =
     (let f = \<lfloor>x\<rfloor>; d = x - of_int f
      in if d < 1/2 then f else if d > 1/2 then f + 1 else if even f then f else f + 1)"

definition fmt_f :: "rat \<Rightarrow> string" where
  "fmt_f x =
     (let n = nat (round_half_even (\<bar>x\<bar> * 1000000));
          digits = show_nat (n mod 1000000)
      in (if x < 0 then ''-'' else []) @ show_nat (n div 1000000) @ ''.'' @
         replicate (6 - length digits) (CHR ''0'') @ digits)"

definition set_metadata :: "string \<Rightarrow> string \<Rightarrow> uplink_rx_info \<Rightarrow> uplink_rx_info" where
  "set_metadata k v ri = ri\<lparr>ri_Metadata := (ri_Metadata ri)(k \<mapsto> v)\<rparr>"

text \<open>The part for a gateway whose location and altitude are known.\<close>

definition set_location_metadata ::
  "h3_lib \<Rightarrow> string \<Rightarrow> u16 \<Rightarrow> uplink_rx_info \<Rightarrow> uplink_rx_info" where
  "set_location_metadata H loc altitude ri =
     (let ri = set_metadata ''thingsix_location_hex'' loc ri
      in case CellFromString H loc of
           Inl _ \<Rightarrow> ri
         | Inr c \<Rightarrow>
             let (lat, lon) = cell_LatLon H c;
                 ri = set_metadata ''thingsix_location_latitude'' (fmt_f lat) ri;
                 ri = set_metadata ''thingsix_location_longitude'' (fmt_f lon) ri;
                 ri = set_metadata ''thingsix_altitude'' (show_nat (unat altitude)) ri
             in if ri_Location ri = None
                then ri\<lparr>ri_Location := Some \<lparr>loc_Latitude = lat, loc_Longitude = lon,
                                              loc_Altitude = of_nat (unat altitude)\<rparr>\<rparr>
                else ri)"

definition set_details_metadata :: "h3_lib \<Rightarrow> gateway_details \<Rightarrow> uplink_rx_info \<Rightarrow> uplink_rx_info" where
  "set_details_metadata H details ri =
     (let ri = (case (gd_Location details, gd_Altitude details) of
                  (Some loc, Some altitude) \<Rightarrow> set_location_metadata H loc altitude ri
                | _ \<Rightarrow> ri);
          ri = (case gd_Band details of
                  Some band \<Rightarrow> set_metadata ''thingsix_frequency_plan'' band ri | None \<Rightarrow> ri)
      in case gd_AntennaGain details of
           Some gain \<Rightarrow> set_metadata ''thingsix_antenna_gain'' gain ri | None \<Rightarrow> ri)"

definition setChaindataInFrameMetadata ::
  "eth_lib \<Rightarrow> h3_lib \<Rightarrow> uplink_frame \<Rightarrow> gateway \<Rightarrow> duration \<Rightarrow> uplink_frame go" where
  "setChaindataInFrameMetadata E H frame gw airtime =
     go_bind (deref (uf_RxInfo frame)) (\<lambda>ri.
       let ri = ri\<lparr>ri_Metadata := Map.empty\<rparr>;
           ri = set_metadata ''network'' ''thingsix'' ri;
           ri = set_metadata ''thingsix_gateway_id'' (ThingsIxID_String (ThingsIxID gw)) ri;
           ri = set_metadata ''thingsix_airtime_ms'' (show_int (milliseconds airtime)) ri;
           ri = (case Owner gw of
                   Some owner \<Rightarrow> set_metadata ''thingsix_owner'' (Address_String E owner) ri
                 | None \<Rightarrow> ri);
           ri = (case Details gw of None \<Rightarrow> ri | Some details \<Rightarrow> set_details_metadata H details ri)
       in Ret (frame\<lparr>uf_RxInfo := Some ri\<rparr>))"

section \<open>forwarder/accounting.go\<close>

text \<open>The interface \<^verbatim>\<open>Accounter\<close> as its method table, and the strategy that allows everything.\<close>

record 'a accounter =
  acc_Allow :: "'a \<Rightarrow> address \<Rightarrow> duration \<Rightarrow> bool"
  acc_AddPayment :: "'a \<Rightarrow> airtime_payment \<Rightarrow> 'a"

definition NoAccounting_Allow :: "unit \<Rightarrow> address \<Rightarrow> duration \<Rightarrow> bool" where
  "NoAccounting_Allow a user airtime = True"

definition NoAccounting_AddPayment :: "unit \<Rightarrow> airtime_payment \<Rightarrow> unit" where
  "NoAccounting_AddPayment a payment = a"

definition NewNoAccountingStrategy :: "unit accounter" where
  "NewNoAccountingStrategy =
     \<lparr>acc_Allow = NoAccounting_Allow, acc_AddPayment = NoAccounting_AddPayment\<rparr>"

section \<open>Lemmas\<close>

lemma set_metadata_simps [simp]:
  "ri_GatewayId (set_metadata k v ri) = ri_GatewayId ri"
  "ri_UplinkId (set_metadata k v ri) = ri_UplinkId ri"
  "ri_Location (set_metadata k v ri) = ri_Location ri"
  "ri_Context (set_metadata k v ri) = ri_Context ri"
  "ri_Metadata (set_metadata k v ri) = (ri_Metadata ri)(k \<mapsto> v)"
  by (simp_all add: set_metadata_def)

lemma set_location_metadata_simps [simp]:
  "ri_GatewayId (set_location_metadata H loc alt ri) = ri_GatewayId ri"
  "ri_UplinkId (set_location_metadata H loc alt ri) = ri_UplinkId ri"
  "ri_Context (set_location_metadata H loc alt ri) = ri_Context ri"
  by (auto simp: set_location_metadata_def Let_def split: sum.split prod.split)

lemma set_details_metadata_simps [simp]:
  "ri_GatewayId (set_details_metadata H d ri) = ri_GatewayId ri"
  "ri_UplinkId (set_details_metadata H d ri) = ri_UplinkId ri"
  "ri_Context (set_details_metadata H d ri) = ri_Context ri"
  by (auto simp: set_details_metadata_def Let_def split: option.split)

lemma localUplinkFrameToNetwork_Some [simp]:
  "uf_RxInfo frame = Some ri \<Longrightarrow> localUplinkFrameToNetwork L gw frame =
     Ret (Inr (frame\<lparr>uf_RxInfo := Some (ri\<lparr>ri_GatewayId := eui_String L (NetworkID gw)\<rparr>)\<rparr>))"
  by (simp add: localUplinkFrameToNetwork_def)

lemma setChaindata_frame:
  assumes "setChaindataInFrameMetadata E H frame gw airtime = Ret frame'"
  shows "uf_PhyPayload frame' = uf_PhyPayload frame" "uf_TxInfo frame' = uf_TxInfo frame"
    "frame_gateway_id frame' = frame_gateway_id frame"
    "frame_uplink_id frame' = frame_uplink_id frame"
  using assms
  by (auto simp: setChaindataInFrameMetadata_def go_bind_eq_Ret Let_def frame_gateway_id_def
      frame_uplink_id_def split: option.split)

lemma setChaindata_no_panic:
  "setChaindataInFrameMetadata E H frame gw airtime = Panic \<longleftrightarrow> uf_RxInfo frame = None"
  by (cases "uf_RxInfo frame") (simp_all add: setChaindataInFrameMetadata_def Let_def)

lemma frame_lora_update [simp]:
  "frame_lora (frame\<lparr>uf_RxInfo := r\<rparr>) = frame_lora frame"
  "frame_frequency (frame\<lparr>uf_RxInfo := r\<rparr>) = frame_frequency frame"
  by (simp_all add: frame_lora_def frame_frequency_def)

lemma UplinkAirtime_update [simp]:
  "UplinkAirtime A (frame\<lparr>uf_RxInfo := r\<rparr>) = UplinkAirtime A frame"
  by (simp add: UplinkAirtime_def)

end
