(* ===== verification/Broadcast.thy ===== *)
theory Broadcast
  imports Go_Prelude "HOL-Library.Sublist"
begin

text \<open>
  The broadcaster of \<^verbatim>\<open>forwarder/broadcast/broadcast.go\<close>: a bounded queue of messages, a set of
  listener channels, and the loop of \<^verbatim>\<open>Run\<close> that hands each queued message to every listener
  that can take it at that moment and drops it for the others.

  A channel is a number.  Which listeners can take a message at the moment of a broadcast is
  decided by the other goroutines: the set \<open>ready\<close> is an argument of the step.  Besides the
  fields of the Go struct the state records what was accepted into the queue and what each
  channel was handed, so that ordering can be stated.
\<close>

section \<open>State and operations\<close>

type_synonym chan = nat

record 'a broadcaster =
  bc_message :: "'a list"
  bc_bufsize :: nat
  bc_listeners :: "chan set"
  bc_running :: bool
  bc_accepted :: "'a list"
  bc_delivered :: "chan \<Rightarrow> 'a list"

definition bc_New :: "nat \<Rightarrow> 'a broadcaster" where
  "bc_New bufsize =
     \<lparr>bc_message = [], bc_bufsize = bufsize, bc_listeners = {}, bc_running = True,
      bc_accepted = [], bc_delivered = (\<lambda>_. [])\<rparr>"

text \<open>\<^verbatim>\<open>TryBroadcast\<close>: a send that does not block.\<close>

definition TryBroadcast :: "'a \<Rightarrow> 'a broadcaster \<Rightarrow> 'a broadcaster \<times> bool" where
  "TryBroadcast msg bc =
     (if length (bc_message bc) < bc_bufsize bc
      then (bc\<lparr>bc_message := bc_message bc @ [msg], bc_accepted := bc_accepted bc @ [msg]\<rparr>, True)
      else (bc, False))"

text \<open>\<^verbatim>\<open>Broadcast\<close> blocks while the queue is full: \<open>None\<close>.\<close>

definition Broadcast_send :: "'a \<Rightarrow> 'a broadcaster \<Rightarrow> 'a broadcaster option" where
  "Broadcast_send msg bc =
     (if length (bc_message bc) < bc_bufsize bc
      then Some (bc\<lparr>bc_message := bc_message bc @ [msg], bc_accepted := bc_accepted bc @ [msg]\<rparr>)
      else None)"

text \<open>The loop over the listeners in \<^verbatim>\<open>broadcast\<close>: each one takes the message or misses it.\<close>

definition bc_broadcast :: "'a \<Rightarrow> chan set \<Rightarrow> 'a broadcaster \<Rightarrow> 'a broadcaster" where
  "bc_broadcast msg ready bc =
     bc\<lparr>bc_delivered := (\<lambda>ch. if ch \<in> bc_listeners bc \<and> ch \<in> ready
                               then bc_delivered bc ch @ [msg] else bc_delivered bc ch)\<rparr>"

definition bc_Subscribe :: "chan \<Rightarrow> 'a broadcaster \<Rightarrow> 'a broadcaster" where
  "bc_Subscribe ch bc = bc\<lparr>bc_listeners := insert ch (bc_listeners bc)\<rparr>"

definition bc_Unsubscribe :: "chan \<Rightarrow> 'a broadcaster \<Rightarrow> 'a broadcaster" where
  "bc_Unsubscribe ch bc = bc\<lparr>bc_listeners := bc_listeners bc - {ch}\<rparr>"

text \<open>
  The interleavings: other goroutines offer messages at any time; the loop takes one case
  of its \<^verbatim>\<open>select\<close> per step, and ends when the channel \<^verbatim>\<open>subscribe\<close> is closed.
\<close>

inductive bc_step :: "'a broadcaster \<Rightarrow> 'a broadcaster \<Rightarrow> bool" where
  offer: "bc_step bc (fst (TryBroadcast msg bc))"
| send: "Broadcast_send msg bc = Some bc' \<Longrightarrow> bc_step bc bc'"
| deliver: "bc_running bc \<Longrightarrow> bc_message bc = msg # rest \<Longrightarrow>
    bc_step bc (bc_broadcast msg ready (bc\<lparr>bc_message := rest\<rparr>))"
| subscribe: "bc_running bc \<Longrightarrow> bc_step bc (bc_Subscribe ch bc)"
| unsubscribe: "bc_running bc \<Longrightarrow> bc_step bc (bc_Unsubscribe ch bc)"
| stop: "bc_running bc \<Longrightarrow> bc_step bc (bc\<lparr>bc_running := False\<rparr>)"

inductive bc_reachable :: "nat \<Rightarrow> 'a broadcaster \<Rightarrow> bool" for bufsize where
  init: "bc_reachable bufsize (bc_New bufsize)"
| step: "bc_reachable bufsize bc \<Longrightarrow> bc_step bc bc' \<Longrightarrow> bc_reachable bufsize bc'"

text \<open>The loop of \<^verbatim>\<open>Run\<close> on the messages queued at one moment.\<close>

fun bc_drain :: "chan set \<Rightarrow> nat \<Rightarrow> 'a broadcaster \<Rightarrow> 'a broadcaster" where
  "bc_drain ready 0 bc = bc"
| "bc_drain ready (Suc n) bc =
     (case bc_message bc of
        [] \<Rightarrow> bc
      | msg # rest \<Rightarrow> bc_drain ready n (bc_broadcast msg ready (bc\<lparr>bc_message := rest\<rparr>)))"

section \<open>Invariant\<close>

text \<open>
  The queue never exceeds its buffer, it holds the most recently accepted messages, and
  each channel was handed a subsequence of the messages that have left the queue.
\<close>

definition bc_inv :: "nat \<Rightarrow> 'a broadcaster \<Rightarrow> bool" where
  "bc_inv bufsize bc \<longleftrightarrow>
     bc_bufsize bc = bufsize \<and> length (bc_message bc) \<le> bufsize \<and>
     (\<exists>done. bc_accepted bc = done @ bc_message bc \<and> (\<forall>ch. subseq (bc_delivered bc ch) done))"

lemma bc_inv_New: "bc_inv bufsize (bc_New bufsize)"
  by (simp add: bc_inv_def bc_New_def)

lemma bc_inv_offer: "bc_inv n bc \<Longrightarrow> bc_inv n (fst (TryBroadcast msg bc))"
  by (auto simp: bc_inv_def TryBroadcast_def)

lemma Broadcast_send_eq: "Broadcast_send msg bc = Some bc' \<Longrightarrow> bc' = fst (TryBroadcast msg bc)"
  by (auto simp: Broadcast_send_def TryBroadcast_def split: if_splits)

lemma bc_inv_deliver:
  assumes "bc_inv n bc" "bc_message bc = msg # rest"
  shows "bc_inv n (bc_broadcast msg ready (bc\<lparr>bc_message := rest\<rparr>))"
proof -
  from assms obtain dn where dn: "bc_accepted bc = dn @ bc_message bc"
    "\<forall>ch. subseq (bc_delivered bc ch) dn" by (auto simp: bc_inv_def)
  have "\<forall>ch. subseq (bc_delivered (bc_broadcast msg ready (bc\<lparr>bc_message := rest\<rparr>)) ch) (dn @ [msg])"
    using dn(2) by (auto simp: bc_broadcast_def intro: list_emb_append_mono list_emb_prefix)
  then show ?thesis
    using assms dn(1) unfolding bc_inv_def
    by (intro conjI exI[of _ "dn @ [msg]"]) (auto simp: bc_broadcast_def)
qed

lemma bc_inv_step: "bc_step bc bc' \<Longrightarrow> bc_inv n bc \<Longrightarrow> bc_inv n bc'"
proof (induction rule: bc_step.induct)
  case (offer bc msg)
  then show ?case by (rule bc_inv_offer)
next
  case (send msg bc bc')
  then show ?case using bc_inv_offer Broadcast_send_eq by metis
next
  case (deliver bc msg rest ready)
  then show ?case by (intro bc_inv_deliver)
qed (auto simp: bc_Subscribe_def bc_Unsubscribe_def bc_inv_def)

lemma bc_reachable_inv: "bc_reachable n bc \<Longrightarrow> bc_inv n bc"
  by (induction rule: bc_reachable.induct) (auto intro: bc_inv_New bc_inv_step)

lemma TryBroadcast_simps [simp]:
  "bc_listeners (fst (TryBroadcast m bc)) = bc_listeners bc"
  "bc_bufsize (fst (TryBroadcast m bc)) = bc_bufsize bc"
  "bc_delivered (fst (TryBroadcast m bc)) = bc_delivered bc"
  by (simp_all add: TryBroadcast_def)

lemma TryBroadcast_accepted:
  "bc_accepted (fst (TryBroadcast m bc)) =
     (if snd (TryBroadcast m bc) then bc_accepted bc @ [m] else bc_accepted bc)"
  by (simp add: TryBroadcast_def)

lemma TryBroadcast_iff [simp]:
  "snd (TryBroadcast m bc) \<longleftrightarrow> length (bc_message bc) < bc_bufsize bc"
  by (simp add: TryBroadcast_def)

section \<open>Properties\<close>

text \<open>
  C37: in every interleaving of offers, deliveries, subscriptions and unsubscriptions the
  queue stays within its buffer and every listener is handed a subsequence of the accepted
  messages: nothing is delivered twice, out of order or without having been accepted.
\<close>

theorem broadcast_order:
  assumes "bc_reachable bufsize bc"
  shows "length (bc_message bc) \<le> bufsize \<and> subseq (bc_delivered bc ch) (bc_accepted bc)"
proof -
  from bc_reachable_inv[OF assms] obtain dn where
    "length (bc_message bc) \<le> bufsize" "bc_accepted bc = dn @ bc_message bc"
    "subseq (bc_delivered bc ch) dn" by (auto simp: bc_inv_def)
  then show ?thesis by (simp add: subseq_rev_drop_many)
qed

theorem broadcast_order_witness:
  "(let bc = bc_broadcast (7::nat) {3} ((fst (TryBroadcast 7 (bc_Subscribe 3 (bc_New 1))))\<lparr>bc_message := []\<rparr>)
    in bc_delivered bc 3 = [7] \<and> length (bc_message bc) \<le> 1)"
proof -
  let ?b1 = "bc_Subscribe 3 (bc_New 1) :: nat broadcaster"
  let ?b2 = "fst (TryBroadcast 7 ?b1)"
  let ?b3 = "bc_broadcast (7::nat) {3} (?b2\<lparr>bc_message := []\<rparr>)"
  have "bc_step (bc_New 1) ?b1" by (rule bc_step.subscribe) (simp add: bc_New_def)
  then have "bc_reachable 1 ?b1" by (rule bc_reachable.step[OF bc_reachable.init])
  then have "bc_reachable 1 ?b2" by (rule bc_reachable.step[OF _ bc_step.offer])
  then have "bc_reachable 1 ?b3"
    by (rule bc_reachable.step)
       (rule bc_step.deliver, simp_all add: TryBroadcast_def bc_Subscribe_def bc_New_def)
  from broadcast_order[OF this, of 3] show ?thesis
    by (simp add: TryBroadcast_def bc_Subscribe_def bc_New_def bc_broadcast_def Let_def)
qed

text \<open>
  A listener that is subscribed and always ready misses nothing: draining the queue
  hands it exactly the queued messages, in order.
\<close>

theorem broadcast_drain_complete:
  assumes "ch \<in> bc_listeners bc" "ch \<in> ready"
  shows "bc_delivered (bc_drain ready (length (bc_message bc)) bc) ch =
           bc_delivered bc ch @ bc_message bc \<and>
         bc_message (bc_drain ready (length (bc_message bc)) bc) = []"
  using assms
proof (induction "bc_message bc" arbitrary: bc)
  case Nil
  then show ?case by (simp flip: Nil.hyps)
next
  case (Cons m ms)
  let ?bc' = "bc_broadcast m ready (bc\<lparr>bc_message := ms\<rparr>)"
  have ms: "ms = bc_message ?bc'" and *: "ch \<in> bc_listeners ?bc'"
    using Cons.prems by (simp_all add: bc_broadcast_def)
  from Cons.hyps(1)[OF ms * \<open>ch \<in> ready\<close>] show ?case
    using Cons.prems by (simp flip: Cons.hyps(2)) (simp add: bc_broadcast_def)
qed

theorem broadcast_drain_complete_witness:
  "bc_delivered (bc_drain {3} 2
      ((bc_Subscribe 3 (bc_New 4))\<lparr>bc_message := [5::nat, 6]\<rparr>)) 3 = [5, 6]"
  using broadcast_drain_complete[of 3 "(bc_Subscribe 3 (bc_New 4))\<lparr>bc_message := [5::nat, 6]\<rparr>" "{3}"]
  by (simp add: bc_Subscribe_def bc_New_def numeral_2_eq_2)

end
