(* ===== verification/Routes.thy ===== *)
theory Routes
  imports Gateway_Store Messages Broadcast
begin

text \<open>
  Routers and the routing table, \<^verbatim>\<open>forwarder/routes.go\<close>, and the functions of \<^verbatim>\<open>forwarder/utils.go\<close> that
  fetch the registered routers.  The filter packages (\<^verbatim>\<open>xorfilter\<close>, \<^verbatim>\<open>roaring64\<close>), the
  blockchain node and the HTTP API are parameters.  A round of \<^verbatim>\<open>keepRouteTableUpToDate\<close> yields the
  new table of running clients and the list of what it did to them; a client is a number.
\<close>

section \<open>Join filters\<close>

record xor8 =
  x8_Seed :: u64
  x8_BlockLength :: u32
  x8_Fingerprints :: bytes

record 'bm filter_lib =
  xor_Populate :: "u64 list \<Rightarrow> xor8 result"
  xor_Contains :: "xor8 \<Rightarrow> u64 \<Rightarrow> bool"
  bm_AddMany :: "u64 list \<Rightarrow> 'bm"
  bm_Contains :: "'bm \<Rightarrow> u64 \<Rightarrow> bool"
  bm_MarshalBinary :: "'bm \<Rightarrow> bytes result"
  bm_UnmarshalBinary :: "bytes \<Rightarrow> 'bm result"

text \<open>An xor filter has no false negatives and is not empty; a bitmap is the set of its
  elements, and its encoding is not empty and decodes to it.\<close>

definition filter_ok :: "'bm filter_lib \<Rightarrow> bool" where
  "filter_ok F \<longleftrightarrow>
     (\<forall>ks x k. xor_Populate F ks = Inr x \<longrightarrow> k \<in> set ks \<longrightarrow> xor_Contains F x k \<and> x8_Fingerprints x \<noteq> []) \<and>
     (\<forall>ks k. bm_Contains F (bm_AddMany F ks) k \<longleftrightarrow> k \<in> set ks) \<and>
     (\<forall>b bs. bm_MarshalBinary F b = Inr bs \<longrightarrow> bs \<noteq> [] \<and> bm_UnmarshalBinary F bs = Inr b)"

section \<open>Routers\<close>

record RouterDetails =
  rd_Endpoint :: string
  rd_NetID :: netid
  rd_Prefix :: u32
  rd_Mask :: u8
  rd_FrequencyPlan :: blockchain_plan
  rd_Owner :: address

record ('a, 'bm) router =
  rt_ThingsIXID :: thingsix_id
  rt_Endpoint :: string
  rt_Default :: bool
  rt_Name :: string
  rt_NetID :: netid
  rt_Prefix :: u32
  rt_Mask :: u8
  rt_Owner :: address
  rt_FrequencyPlan :: blockchain_plan
  rt_joinFilter :: "xor8 option"
  rt_joinBitmap :: "'bm option"
  rt_accounting :: "'a accounter option"

definition ID_String :: "thingsix_id \<Rightarrow> string" where
  "ID_String i = (if i = replicate 32 0 then ''default'' else ''0x'' @ hex_encode i)"

definition router_String :: "('a, 'bm) router \<Rightarrow> string" where
  "router_String r = (if rt_Name r \<noteq> [] then rt_Name r else ID_String (rt_ThingsIXID r))"

definition NewRouter ::
  "thingsix_id \<Rightarrow> string \<Rightarrow> bool \<Rightarrow> netid \<Rightarrow> u32 \<Rightarrow> u8 \<Rightarrow> blockchain_plan \<Rightarrow> address \<Rightarrow> 'a accounter option \<Rightarrow>
   ('a, 'bm) router" where
  "NewRouter i endpoint def netID pfx mask_len frequencyPlan owner accounting =
     \<lparr>rt_ThingsIXID = i, rt_Endpoint = endpoint, rt_Default = def, rt_Name = [], rt_NetID = netID,
      rt_Prefix = pfx, rt_Mask = mask_len, rt_Owner = owner, rt_FrequencyPlan = frequencyPlan,
      rt_joinFilter = None, rt_joinBitmap = None, rt_accounting = accounting\<rparr>"

text \<open>\<open>acc\<close> is the state behind the accounting interface.\<close>

definition AllowAirtime :: "'a \<Rightarrow> ('a, 'bm) router \<Rightarrow> address \<Rightarrow> duration \<Rightarrow> bool go" where
  "AllowAirtime acc r owner airtime =
     (if rt_Default r then Ret True
      else go_bind (deref (rt_accounting r)) (\<lambda>A. Ret (acc_Allow A acc owner airtime)))"

definition InterestedIn :: "lorawan_lib \<Rightarrow> ('a, 'bm) router \<Rightarrow> devaddr \<Rightarrow> bool" where
  "InterestedIn L r addr =
     (if rt_Default r then True
      else if rt_Mask r > 0 \<and> DevAddrHasPrefix addr (rt_Prefix r) (rt_Mask r) then True
      else if rt_Mask r = 0 \<and> dev_IsNetID L addr (rt_NetID r) then True
      else False)"

definition SetJoinFilter :: "xor8 option \<Rightarrow> 'bm option \<Rightarrow> ('a, 'bm) router \<Rightarrow> ('a, 'bm) router" where
  "SetJoinFilter flt bitmap r = r\<lparr>rt_joinFilter := flt, rt_joinBitmap := bitmap\<rparr>"

definition AcceptsJoin :: "'bm filter_lib \<Rightarrow> ('a, 'bm) router \<Rightarrow> eui64 \<Rightarrow> bool" where
  "AcceptsJoin F r devEUI =
     (if rt_Default r then True
      else case rt_joinBitmap r of
             Some bm \<Rightarrow> bm_Contains F bm (Eui64ToUint64 devEUI)
           | None \<Rightarrow>
               (case rt_joinFilter r of
                  Some x \<Rightarrow> if length (x8_Fingerprints x) > 0 then xor_Contains F x (Eui64ToUint64 devEUI) else False
                | None \<Rightarrow> False))"

section \<open>Fetching routers\<close>

definition netid_of_u32 :: "u32 \<Rightarrow> netid" where
  "netid_of_u32 w = NetID (u32_byte 2 w) (u32_byte 1 w) (u32_byte 0 w)"

record chain_router =
  cr_Id :: thingsix_id
  cr_Endpoint :: string
  cr_Owner :: address
  cr_Netid :: nat
  cr_Prefix :: u32
  cr_Mask :: u8
  cr_FrequencyPlan :: blockchain_plan

record router_chain =
  ch_Dial :: "string \<Rightarrow> unit result"
  ch_ChainID :: "u64 result"
  ch_Head :: "u64 result"
  ch_Bind :: "address \<Rightarrow> unit result"
  ch_RouterCount :: "u64 \<Rightarrow> int result"
  ch_RoutersPaged :: "u64 \<Rightarrow> int \<Rightarrow> int \<Rightarrow> chain_router list result"

record polygon_config =
  pc_Endpoint :: string
  pc_ChainID :: u64
  pc_Confirmations :: u64

definition dialRPCNode :: "router_chain \<Rightarrow> polygon_config \<Rightarrow> unit result" where
  "dialRPCNode N cfg =
     (case ch_Dial N (pc_Endpoint cfg) of
        Inl err \<Rightarrow> Inl (Errorf ''unable to dial RPC node'')
      | Inr _ \<Rightarrow>
          (case ch_ChainID N of
             Inl err \<Rightarrow> Inl (Errorf ''unable to determine if dial RPC node on the correct network'')
           | Inr chainID \<Rightarrow>
               if chainID \<noteq> pc_ChainID cfg then Inl (Errorf ''RPC node connected to wrong chain'') else Inr ()))"

function fetch_pages ::
  "(int \<Rightarrow> int \<Rightarrow> chain_router list result) \<Rightarrow> int \<Rightarrow> int \<Rightarrow> chain_router list \<Rightarrow> chain_router list result" where
  "fetch_pages paged routerCount i acc =
     (if i * 50 < routerCount
      then (case paged i (i + 50) of
              Inl err \<Rightarrow> Inl (Errorf ''unable to retrieve routers from registry'')
            | Inr fetched \<Rightarrow> fetch_pages paged routerCount (i + 50) (acc @ fetched))
      else Inr acc)"
  by pat_completeness auto
termination
  by (relation "measure (\<lambda>(paged, routerCount, i, acc). nat (routerCount - i * 50))") auto

definition router_of_chain :: "'a accounter option \<Rightarrow> chain_router \<Rightarrow> ('a, 'bm) router" where
  "router_of_chain accounter r =
     NewRouter (cr_Id r) (cr_Endpoint r) False (netid_of_u32 (of_nat (cr_Netid r))) (cr_Prefix r) (cr_Mask r)
       (cr_FrequencyPlan r) (cr_Owner r) accounter"

definition update_interval :: "duration \<Rightarrow> duration option \<Rightarrow> duration" where
  "update_interval minimum configured =
     (case configured of None \<Rightarrow> 30 * minute | Some d \<Rightarrow> if d < minimum then 30 * minute else d)"

definition fetchRoutersFromChain ::
  "router_chain \<Rightarrow> polygon_config \<Rightarrow> address \<Rightarrow> 'a accounter option \<Rightarrow> ('a, 'bm) router option list result" where
  "fetchRoutersFromChain N cfg contract accounter =
     (case dialRPCNode N cfg of
        Inl err \<Rightarrow> Inl err
      | Inr _ \<Rightarrow>
          (case ch_Head N of
             Inl err \<Rightarrow> Inl (Errorf ''unable to determine chain head'')
           | Inr head \<Rightarrow>
               if head < pc_Confirmations cfg then Inr []
               else
                 let confirmedBlock = head - pc_Confirmations cfg
                 in case ch_Bind N contract of
                      Inl err \<Rightarrow> Inl (Errorf ''unable to instantiate router registry bindings'')
                    | Inr _ \<Rightarrow>
                        (case ch_RouterCount N confirmedBlock of
                           Inl err \<Rightarrow> Inl (Errorf ''unable to determine router count'')
                         | Inr routerCount \<Rightarrow>
                             (case fetch_pages (ch_RoutersPaged N confirmedBlock) routerCount 0 [] of
                                Inl err \<Rightarrow> Inl err
                              | Inr rs \<Rightarrow> Inr (map (\<lambda>r. Some (router_of_chain accounter r)) rs)))))"

record api_router =
  sr_Endpoint :: string
  sr_ID :: string
  sr_Owner :: address
  sr_NetId :: u32
  sr_Prefix :: u32
  sr_FrequencyPlan :: band_name
  sr_Mask :: u8

record router_snapshot =
  ss_ChainID :: u64
  ss_Routers :: "api_router list"

text \<open>A router with an invalid id leaves its place in the result nil.\<close>

definition router_of_api ::
  "(string \<Rightarrow> bytes) \<Rightarrow> freq_lib \<Rightarrow> 'a accounter option \<Rightarrow> api_router \<Rightarrow> ('a, 'bm) router option" where
  "router_of_api FromHex F accounter r =
     (let rID = FromHex (sr_ID r)
      in if length rID \<noteq> 32 then None
         else Some (NewRouter rID (sr_Endpoint r) False (netid_of_u32 (sr_NetId r)) (sr_Prefix r) (sr_Mask r)
                     (ToBlockchain F (sr_FrequencyPlan r)) (sr_Owner r) accounter))"

definition fetchRoutersFromThingsIXAPI ::
  "(string \<Rightarrow> bytes) \<Rightarrow> freq_lib \<Rightarrow> router_snapshot result \<Rightarrow> u64 \<Rightarrow> 'a accounter option \<Rightarrow>
   ('a, 'bm) router option list result" where
  "fetchRoutersFromThingsIXAPI FromHex F answer chainID accounter =
     (case answer of
        Inl err \<Rightarrow> Inl err
      | Inr snapshot \<Rightarrow>
          if ss_ChainID snapshot \<noteq> chainID then Inl (Errorf ''router snapshot from wrong chain'')
          else Inr (map (router_of_api FromHex F accounter) (ss_Routers snapshot)))"

text \<open>
  The configured sources, \<^verbatim>\<open>ForwarderRoutersConfig\<close>: the on-chain registry (contract, update interval)
  and the API (endpoint, update interval).  The closure that is chosen is named by \<open>routes_source\<close>;
  \<open>call_fetcher\<close> is a call of it, in a world of a chain \<open>N\<close> and of HTTP answers \<open>get\<close>.
\<close>

record routers_config =
  cfg_OnChain :: "(address \<times> duration option) option"
  cfg_ThingsIXApi :: "(string option \<times> duration option) option"

datatype routes_source = RoutesOnChain address | RoutesFromApi string | NoRoutesSource

definition call_fetcher ::
  "router_chain \<Rightarrow> (string \<Rightarrow> router_snapshot result) \<Rightarrow> (string \<Rightarrow> bytes) \<Rightarrow> freq_lib \<Rightarrow> polygon_config \<Rightarrow>
   'a accounter option \<Rightarrow> routes_source \<Rightarrow> ('a, 'bm) router option list result" where
  "call_fetcher N get FromHex F polygon accounter src =
     (case src of
        RoutesOnChain contract \<Rightarrow> fetchRoutersFromChain N polygon contract accounter
      | RoutesFromApi endpoint \<Rightarrow>
          fetchRoutersFromThingsIXAPI FromHex F (get endpoint) (pc_ChainID polygon) accounter
      | NoRoutesSource \<Rightarrow> Inr [])"

definition obtainThingsIXRoutesFunc :: "routers_config \<Rightarrow> routes_source \<times> duration" where
  "obtainThingsIXRoutesFunc cfg =
     (case cfg_OnChain cfg of
        Some (contract, d) \<Rightarrow> (RoutesOnChain contract, update_interval minute d)
      | None \<Rightarrow>
          (case cfg_ThingsIXApi cfg of
             Some (Some endpoint, d) \<Rightarrow> (RoutesFromApi endpoint, update_interval (15 * minute) d)
           | _ \<Rightarrow> (NoRoutesSource, 24 * hour)))"

section \<open>The routing table\<close>

record ('a, 'bm) routing_table =
  tb_routesFetcher :: routes_source
  tb_routesTableBroadcaster :: "('a, 'bm) router option list broadcaster"
  tb_routesUpdateInterval :: duration
  tb_routesUpdateIntervalCfg :: duration
  tb_defaultRoutes :: "('a, 'bm) router list"

definition buildRoutingTable :: "routers_config \<Rightarrow> ('a, 'bm) router list \<Rightarrow> ('a, 'bm) routing_table" where
  "buildRoutingTable cfg def =
     \<lparr>tb_routesFetcher = fst (obtainThingsIXRoutesFunc cfg), tb_routesTableBroadcaster = bc_New 1, tb_routesUpdateInterval = millisecond,
      tb_routesUpdateIntervalCfg = snd (obtainThingsIXRoutesFunc cfg), tb_defaultRoutes = def\<rparr>"

text \<open>One expiry of the update timer in \<^verbatim>\<open>Run\<close>, with what the fetcher returned.\<close>

definition routes_tick ::
  "('a, 'bm) router option list result \<Rightarrow> ('a, 'bm) routing_table \<Rightarrow> ('a, 'bm) routing_table" where
  "routes_tick fetched r =
     (let r = r\<lparr>tb_routesUpdateInterval := 2 * minute\<rparr>
      in case fetched of
           Inl err \<Rightarrow> r
         | Inr routers \<Rightarrow>
             (case TryBroadcast routers (tb_routesTableBroadcaster r) of
                (bc, True) \<Rightarrow> r\<lparr>tb_routesTableBroadcaster := bc,
                              tb_routesUpdateInterval := tb_routesUpdateIntervalCfg r\<rparr>
              | (bc, False) \<Rightarrow> r\<lparr>tb_routesTableBroadcaster := bc\<rparr>))"

datatype ('a, 'bm) route_effect =
    StopClient nat
  | UpdateClient nat RouterDetails
  | StartClient nat "('a, 'bm) router"

definition details_of :: "('a, 'bm) router \<Rightarrow> RouterDetails" where
  "details_of r =
     \<lparr>rd_Endpoint = rt_Endpoint r, rd_NetID = rt_NetID r, rd_Prefix = rt_Prefix r, rd_Mask = rt_Mask r,
      rd_FrequencyPlan = rt_FrequencyPlan r, rd_Owner = rt_Owner r\<rparr>"

text \<open>The search for a connected router in the new set; a nil entry before it panics.\<close>

fun still_routed :: "unique_bands \<Rightarrow> thingsix_id \<Rightarrow> ('a, 'bm) router option list \<Rightarrow> bool go" where
  "still_routed u i [] = Ret False"
| "still_routed u i (None # rs) = Panic"
| "still_routed u i (Some r # rs) =
     (if rt_ThingsIXID r = i \<and> ContainsFrequencyPlan u (rt_FrequencyPlan r) then Ret True
      else still_routed u i rs)"

type_synonym route_clients = "thingsix_id \<rightharpoonup> nat"

fun stop_loop ::
  "unique_bands \<Rightarrow> ('a, 'bm) router option list \<Rightarrow> thingsix_id list \<Rightarrow> route_clients \<Rightarrow>
   ('a, 'bm) route_effect list \<Rightarrow> (route_clients \<times> ('a, 'bm) route_effect list) go" where
  "stop_loop u routers [] ex eff = Ret (ex, eff)"
| "stop_loop u routers (i # order) ex eff =
     (case ex i of
        None \<Rightarrow> stop_loop u routers order ex eff
      | Some client \<Rightarrow>
          (case still_routed u i routers of
             Panic \<Rightarrow> Panic
           | Ret True \<Rightarrow> stop_loop u routers order ex eff
           | Ret False \<Rightarrow> stop_loop u routers order (ex(i := None)) (eff @ [StopClient client])))"

fun start_loop ::
  "unique_bands \<Rightarrow> ('a, 'bm) router option list \<Rightarrow> route_clients \<Rightarrow> nat \<Rightarrow>
   ('a, 'bm) route_effect list \<Rightarrow> (route_clients \<times> nat \<times> ('a, 'bm) route_effect list) go" where
  "start_loop u [] ex next eff = Ret (ex, next, eff)"
| "start_loop u (None # rs) ex next eff = Panic"
| "start_loop u (Some r # rs) ex next eff =
     (if \<not> ContainsFrequencyPlan u (rt_FrequencyPlan r) then start_loop u rs ex next eff
      else case ex (rt_ThingsIXID r) of
             Some client \<Rightarrow> start_loop u rs ex next (eff @ [UpdateClient client (details_of r)])
           | None \<Rightarrow> start_loop u rs (ex(rt_ThingsIXID r \<mapsto> next)) (Suc next) (eff @ [StartClient next r]))"

text \<open>\<open>order\<close> is the order in which the map of running clients is ranged over.\<close>

definition keepRouteTableUpToDate ::
  "unique_bands \<Rightarrow> ('a, 'bm) router option list \<Rightarrow> thingsix_id list \<Rightarrow> route_clients \<Rightarrow> nat \<Rightarrow>
   (route_clients \<times> nat \<times> ('a, 'bm) route_effect list) go" where
  "keepRouteTableUpToDate u routers order ex next =
     go_bind (stop_loop u routers order ex []) (\<lambda>(ex, eff). start_loop u routers ex next eff)"

definition runDefaultRouting :: "('a, 'bm) routing_table \<Rightarrow> nat \<Rightarrow> ('a, 'bm) route_effect list" where
  "runDefaultRouting r next =
     map (\<lambda>(k, dr). StartClient (next + k) dr) (enumerate 0 (tb_defaultRoutes r))"

section \<open>Facts\<close>

text \<open>The routers a set of routes asks a forwarder with the given bands to be connected to.\<close>

definition wanted :: "unique_bands \<Rightarrow> ('a, 'bm) router list \<Rightarrow> thingsix_id set" where
  "wanted u rs = {rt_ThingsIXID r | r. r \<in> set rs \<and> ContainsFrequencyPlan u (rt_FrequencyPlan r)}"

lemma wanted_simps [simp]:
  "wanted u [] = {}"
  "wanted u (r # rs) =
     (if ContainsFrequencyPlan u (rt_FrequencyPlan r) then insert (rt_ThingsIXID r) (wanted u rs) else wanted u rs)"
  by (auto simp: wanted_def)

fun started :: "('a, 'bm) route_effect list \<Rightarrow> (nat \<times> thingsix_id) list" where
  "started [] = []"
| "started (StartClient h r # eff) = (h, rt_ThingsIXID r) # started eff"
| "started (_ # eff) = started eff"

fun stopped :: "('a, 'bm) route_effect list \<Rightarrow> nat list" where
  "stopped [] = []"
| "stopped (StopClient h # eff) = h # stopped eff"
| "stopped (_ # eff) = stopped eff"

lemma started_append [simp]: "started (a @ b) = started a @ started b"
  by (induction a rule: started.induct) simp_all

lemma stopped_append [simp]: "stopped (a @ b) = stopped a @ stopped b"
  by (induction a rule: stopped.induct) simp_all

lemma still_routed_eq: "still_routed u i (map Some rs) = Ret (i \<in> wanted u rs)"
  by (induction rs) auto

lemma stop_loop_eq:
  "\<exists>eff'. stop_loop u (map Some rs) order ex eff =
       Ret (\<lambda>i. if i \<in> set order \<and> i \<notin> wanted u rs then None else ex i, eff @ eff') \<and>
     started eff' = [] \<and>
     set (stopped eff') = {h. \<exists>i \<in> set order. i \<notin> wanted u rs \<and> ex i = Some h}"
proof (induction order arbitrary: ex eff)
  case (Cons i order)
  show ?case
  proof (cases "\<exists>h. ex i = Some h \<and> i \<notin> wanted u rs")
    case True
    then obtain h where h: "ex i = Some h" "i \<notin> wanted u rs" by blast
    obtain eff' where IH: "stop_loop u (map Some rs) order (ex(i := None)) (eff @ [StopClient h]) =
        Ret (\<lambda>j. if j \<in> set order \<and> j \<notin> wanted u rs then None else (ex(i := None)) j, (eff @ [StopClient h]) @ eff')"
      "started eff' = []"
      "set (stopped eff') = {k. \<exists>j \<in> set order. j \<notin> wanted u rs \<and> (ex(i := None)) j = Some k}"
      using Cons.IH by blast
    have "(\<exists>j \<in> set (i # order). j \<notin> wanted u rs \<and> ex j = Some k) \<longleftrightarrow>
        k = h \<or> (\<exists>j \<in> set order. j \<notin> wanted u rs \<and> (ex(i := None)) j = Some k)" for k
    proof (cases "k = h")
      case False
      then have "j \<noteq> i" if "ex j = Some k" for j using that h(1) by auto
      then show ?thesis using False h(1) by (simp add: fun_upd_apply) blast
    qed (use h in simp)
    then have "set (stopped (StopClient h # eff')) = {k. \<exists>j \<in> set (i # order). j \<notin> wanted u rs \<and> ex j = Some k}"
      using IH(3) by auto
    moreover have "stop_loop u (map Some rs) (i # order) ex eff =
        Ret (\<lambda>j. if j \<in> set (i # order) \<and> j \<notin> wanted u rs then None else ex j, eff @ StopClient h # eff')"
      using IH(1) h by (auto simp: still_routed_eq fun_eq_iff)
    ultimately show ?thesis using IH(2) by (intro exI[of _ "StopClient h # eff'"]) simp
  next
    case False
    then have step: "stop_loop u (map Some rs) (i # order) ex eff = stop_loop u (map Some rs) order ex eff"
      by (cases "ex i") (auto simp: still_routed_eq)
    obtain eff' where IH: "stop_loop u (map Some rs) order ex eff =
        Ret (\<lambda>j. if j \<in> set order \<and> j \<notin> wanted u rs then None else ex j, eff @ eff')" "started eff' = []"
      "set (stopped eff') = {k. \<exists>j \<in> set order. j \<notin> wanted u rs \<and> ex j = Some k}"
      using Cons.IH by blast
    have "ex i = None \<or> i \<in> wanted u rs" using False by (cases "ex i") auto
    then show ?thesis unfolding step using IH by (intro exI[of _ eff']) (auto simp: fun_eq_iff)
  qed
qed (simp add: exI[of _ "[]"])

lemma start_loop_eq:
  assumes "\<forall>h \<in> ran ex. h < nxt"
  shows "\<exists>ex' nxt' eff'. start_loop u (map Some rs) ex nxt eff = Ret (ex', nxt', eff @ eff') \<and>
     dom ex' = dom ex \<union> wanted u rs \<and> (\<forall>i \<in> dom ex. ex' i = ex i) \<and> nxt \<le> nxt' \<and>
     (\<forall>h \<in> ran ex'. h < nxt') \<and> stopped eff' = [] \<and> distinct (map snd (started eff')) \<and>
     set (map snd (started eff')) = wanted u rs - dom ex \<and>
     (\<forall>(h, i) \<in> set (started eff'). ex' i = Some h \<and> nxt \<le> h)"
  using assms
proof (induction rs arbitrary: ex nxt eff)
  case (Cons r rs)
  let ?i = "rt_ThingsIXID r"
  consider (skip) "\<not> ContainsFrequencyPlan u (rt_FrequencyPlan r)"
    | (upd) h where "ContainsFrequencyPlan u (rt_FrequencyPlan r)" "ex ?i = Some h"
    | (new) "ContainsFrequencyPlan u (rt_FrequencyPlan r)" "ex ?i = None" by fastforce
  then show ?case
  proof cases
    case skip
    then show ?thesis using Cons.IH[OF Cons.prems] by simp
  next
    case (upd h)
    then have "?i \<in> dom ex" by blast
    then show ?thesis
      using Cons.IH[OF Cons.prems, of "eff @ [UpdateClient h (details_of r)]"] upd
      by (auto simp: insert_absorb)
  next
    case new
    let ?ex = "ex(?i \<mapsto> nxt)"
    have "\<forall>h \<in> ran ?ex. h < Suc nxt" using Cons.prems new by (auto simp: ran_def split: if_splits intro: less_SucI)
    from Cons.IH[OF this, of "eff @ [StartClient nxt r]"]
    obtain ex' nxt' eff' where IH: "start_loop u (map Some rs) ?ex (Suc nxt) (eff @ [StartClient nxt r]) =
        Ret (ex', nxt', (eff @ [StartClient nxt r]) @ eff')"
      "dom ex' = dom ?ex \<union> wanted u rs" "\<forall>i \<in> dom ?ex. ex' i = ?ex i" "Suc nxt \<le> nxt'"
      "\<forall>h \<in> ran ex'. h < nxt'" "stopped eff' = []" "distinct (map snd (started eff'))"
      "set (map snd (started eff')) = wanted u rs - dom ?ex"
      "\<forall>(h, i) \<in> set (started eff'). ex' i = Some h \<and> Suc nxt \<le> h" by blast
    have "ex' ?i = Some nxt" "\<forall>i \<in> dom ex. ex' i = ex i" using IH(3) new(2) by auto
    moreover have "\<forall>(h, i) \<in> set (started eff'). ex' i = Some h \<and> nxt \<le> h" using IH(9) by auto
    moreover have "?i \<notin> snd ` set (started eff')" using IH(8) by auto
    moreover have "insert ?i (snd ` set (started eff')) = wanted u (r # rs) - dom ex"
      using IH(8) new by auto
    ultimately show ?thesis
      using IH(1,2,4-7) new
      by (intro exI[of _ ex'] exI[of _ nxt'] exI[of _ "StartClient nxt r # eff'"]) auto
  qed
qed (simp add: exI[of _ "[]"])

lemma start_loop_nil: "None \<in> set rs \<Longrightarrow> start_loop u rs ex nxt eff = Panic"
  by (induction u rs ex nxt eff rule: start_loop.induct) (auto split: option.split)

section \<open>A concrete filter package\<close>

fun u64s_of_bytes :: "bytes \<Rightarrow> u64 list" where
  "u64s_of_bytes (a # b # c # d # e # f # g # h # bs) = be_uint64 a b c d e f g h # u64s_of_bytes bs"
| "u64s_of_bytes _ = []"

definition u64_bytes :: "u64 \<Rightarrow> bytes" where
  "u64_bytes k = map (\<lambda>i. u64_byte i k) [7, 6, 5, 4, 3, 2, 1, 0]"

definition filter_example :: "u64 list filter_lib" where
  "filter_example =
     \<lparr>xor_Populate = (\<lambda>ks. Inr \<lparr>x8_Seed = 0, x8_BlockLength = 1, x8_Fingerprints = [1]\<rparr>),
      xor_Contains = (\<lambda>x k. True),
      bm_AddMany = (\<lambda>ks. ks), bm_Contains = (\<lambda>b k. k \<in> set b),
      bm_MarshalBinary = (\<lambda>ks. Inr (1 # concat (map u64_bytes ks))),
      bm_UnmarshalBinary = (\<lambda>bs. Inr (u64s_of_bytes (tl bs)))\<rparr>"

lemma be_uint64_bytes: "be_uint64 (u64_byte 7 k) (u64_byte 6 k) (u64_byte 5 k) (u64_byte 4 k) (u64_byte 3 k)
    (u64_byte 2 k) (u64_byte 1 k) (u64_byte 0 k) = k"
proof (rule bit_word_eqI)
  fix n assume "n < LENGTH(64)"
  then show "bit (be_uint64 (u64_byte 7 k) (u64_byte 6 k) (u64_byte 5 k) (u64_byte 4 k) (u64_byte 3 k)
    (u64_byte 2 k) (u64_byte 1 k) (u64_byte 0 k)) n = bit k n"
    by (auto simp add: bit_be_uint64 bit_u64_byte not_less)
qed

lemma u64s_of_bytes_u64_bytes [simp]: "u64s_of_bytes (concat (map u64_bytes ks)) = ks"
  by (induction ks) (simp_all add: u64_bytes_def be_uint64_bytes[simplified])

lemma filter_example_ok: "filter_ok filter_example"
  by (auto simp: filter_ok_def filter_example_def)

lemma keepRouteTable_round:
  assumes "set order = dom ex" "\<forall>h \<in> ran ex. h < nxt"
  shows "\<exists>ex' nxt' eff. keepRouteTableUpToDate u (map Some rs) order ex nxt = Ret (ex', nxt', eff) \<and>
     dom ex' = wanted u rs \<and> (\<forall>i \<in> dom ex \<inter> wanted u rs. ex' i = ex i) \<and>
     set (stopped eff) = {h. \<exists>i. i \<notin> wanted u rs \<and> ex i = Some h} \<and>
     distinct (map snd (started eff)) \<and> set (map snd (started eff)) = wanted u rs - dom ex \<and>
     (\<forall>(h, i) \<in> set (started eff). ex' i = Some h \<and> h \<notin> ran ex) \<and> (\<forall>h \<in> ran ex'. h < nxt')"
proof -
  let ?ex = "\<lambda>i. if i \<in> set order \<and> i \<notin> wanted u rs then None else ex i"
  obtain e1 where stop: "stop_loop u (map Some rs) order ex [] = Ret (?ex, e1)" "started e1 = []"
    "set (stopped e1) = {h. \<exists>i \<in> set order. i \<notin> wanted u rs \<and> ex i = Some h}"
    using stop_loop_eq[of u rs order ex "[]"] by auto
  have ex: "ran ?ex \<subseteq> ran ex" "dom ?ex = dom ex \<inter> wanted u rs"
    using assms(1) by (auto simp: ran_def split: if_splits)
  then have "\<forall>h \<in> ran ?ex. h < nxt" using assms(2) by blast
  from start_loop_eq[OF this, of u rs e1]
  obtain ex' nxt' e2 where start: "start_loop u (map Some rs) ?ex nxt e1 = Ret (ex', nxt', e1 @ e2)"
    "dom ex' = dom ?ex \<union> wanted u rs" "\<forall>i \<in> dom ?ex. ex' i = ?ex i" "\<forall>h \<in> ran ex'. h < nxt'"
    "stopped e2 = []" "distinct (map snd (started e2))" "set (map snd (started e2)) = wanted u rs - dom ?ex"
    "\<forall>(h, i) \<in> set (started e2). ex' i = Some h \<and> nxt \<le> h" by blast
  have run: "keepRouteTableUpToDate u (map Some rs) order ex nxt = Ret (ex', nxt', e1 @ e2)"
    using stop(1) start(1) by (simp add: keepRouteTableUpToDate_def)
  have fresh: "\<forall>(h, i) \<in> set (started e2). ex' i = Some h \<and> h \<notin> ran ex"
    using start(8) assms(2) by force
  have kept: "\<forall>i \<in> dom ex \<inter> wanted u rs. ex' i = ex i" using start(3) ex(2) by auto
  have stops: "set (stopped e1) = {h. \<exists>i. i \<notin> wanted u rs \<and> ex i = Some h}"
    using stop(3) assms(1) by blast
  show ?thesis
    using run start(2,4-7) ex(2) kept stops stop(2) fresh
    by (intro exI[of _ ex'] exI[of _ nxt'] exI[of _ "e1 @ e2"]) auto
qed

section \<open>Properties\<close>

text \<open>
  C18: a routing table update leaves exactly one client for each wanted router.  With no nil entry in
  the fetched set and every running client visited, a round ends; afterwards the running clients are
  those of the routers in the set whose frequency plan some gateway uses; a client that is still
  wanted is the same client as before; exactly the clients no longer wanted are stopped; and one
  new client, with a fresh number, is started for each router that had none, even when the set
  lists a router twice.
\<close>

theorem routing_table_reconciles:
  assumes "set order = dom ex" "\<forall>h \<in> ran ex. h < nxt"
  shows "\<exists>ex' nxt' eff. keepRouteTableUpToDate u (map Some rs) order ex nxt = Ret (ex', nxt', eff) \<and>
     dom ex' = wanted u rs \<and> (\<forall>i \<in> dom ex \<inter> wanted u rs. ex' i = ex i) \<and>
     set (stopped eff) = {h. \<exists>i. i \<notin> wanted u rs \<and> ex i = Some h} \<and>
     distinct (map snd (started eff)) \<and> set (map snd (started eff)) = wanted u rs - dom ex \<and>
     (\<forall>(h, i) \<in> set (started eff). ex' i = Some h \<and> h \<notin> ran ex) \<and> (\<forall>h \<in> ran ex'. h < nxt')"
  by (rule keepRouteTable_round[OF assms])

definition bands_example :: unique_bands where
  "bands_example = \<lparr>ub_bands = {''EU868''}, ub_plans = {1}\<rparr>"

definition router_example :: "byte \<Rightarrow> (unit, u64 list) router" where
  "router_example b = NewRouter (replicate 32 b) ''router:3200'' False (NetID 0 0 1) 0x48000000 7 1 address_zero
     (Some NewNoAccountingStrategy)"

theorem routing_table_reconciles_witness:
  "\<exists>ex' nxt' eff. keepRouteTableUpToDate bands_example (map Some [router_example 1, router_example 2, router_example 2])
       [replicate 32 1, replicate 32 3] [replicate 32 1 \<mapsto> 0, replicate 32 3 \<mapsto> 1] 2 = Ret (ex', nxt', eff) \<and>
     dom ex' = {replicate 32 1, replicate 32 2} \<and> ex' (replicate 32 1) = Some 0"
proof -
  have ne: "replicate 32 (1 :: byte) \<noteq> replicate 32 3" "replicate 32 (2 :: byte) \<noteq> replicate 32 1" by simp_all
  have w: "wanted bands_example [router_example 1, router_example 2, router_example 2] =
      {replicate 32 1, replicate 32 2}"
    by (auto simp: bands_example_def router_example_def NewRouter_def ContainsFrequencyPlan_def)
  have dom: "set [replicate 32 1, replicate 32 (3 :: byte)] = dom [replicate 32 1 \<mapsto> 0 :: nat, replicate 32 3 \<mapsto> 1]"
    by auto
  have ran: "\<forall>h \<in> ran [replicate 32 (1 :: byte) \<mapsto> 0 :: nat, replicate 32 3 \<mapsto> 1]. h < 2"
    by (auto simp: ran_def split: if_splits)
  show ?thesis
    using routing_table_reconciles[OF dom ran, of bands_example
        "[router_example 1, router_example 2, router_example 2]"] ne
    unfolding w by fastforce
qed

text \<open>
  Reading the routers from the chain stops after the first page.  The page counter is advanced by
  the page size and multiplied with it again, so that for up to 2500 registered routers only
  routers 0 to 49 are requested, whatever the contract holds beyond them.
\<close>

theorem chain_fetch_first_page_only:
  assumes "0 < count" "count \<le> 2500"
  shows "fetch_pages paged count 0 [] =
     (case paged 0 50 of Inl err \<Rightarrow> Inl (Errorf ''unable to retrieve routers from registry'') | Inr rs \<Rightarrow> Inr rs)"
  using assms by (cases "paged 0 50") (simp_all add: fetch_pages.simps)

definition chain_router_example :: chain_router where
  "chain_router_example = \<lparr>cr_Id = replicate 32 1, cr_Endpoint = ''router:3200'', cr_Owner = address_zero, cr_Netid = 1,
     cr_Prefix = 0, cr_Mask = 0, cr_FrequencyPlan = 1\<rparr>"

theorem chain_fetch_first_page_only_witness:
  "fetch_pages (\<lambda>from to. Inr (replicate (nat (to - from)) chain_router_example)) 120 0 [] =
     Inr (replicate 50 chain_router_example)"
  using chain_fetch_first_page_only[of 120 "\<lambda>from to. Inr (replicate (nat (to - from)) chain_router_example)"]
  by simp

text \<open>
  A router with an invalid id in the API snapshot stops the routing table.  The fetch
  succeeds and puts a nil router in its place, and the next update of the table dereferences it and
  panics, whatever clients are running.
\<close>

theorem invalid_router_id_panics:
  assumes "fetchRoutersFromThingsIXAPI FromHex F (Inr snap) (ss_ChainID snap) accounter = Inr rs"
    and "r \<in> set (ss_Routers snap)" "length (FromHex (sr_ID r)) \<noteq> 32"
  shows "keepRouteTableUpToDate u rs order ex nxt = Panic"
proof -
  have "None \<in> set rs"
    using assms by (auto simp: fetchRoutersFromThingsIXAPI_def router_of_api_def Let_def image_iff)
  then show ?thesis
    by (cases "stop_loop u rs order ex []") (auto simp: keepRouteTableUpToDate_def start_loop_nil)
qed

theorem invalid_router_id_panics_witness:
  "keepRouteTableUpToDate bands_example [None :: (unit, u64 list) router option] [] Map.empty 0 = Panic"
proof -
  define r where "r = \<lparr>sr_Endpoint = [], sr_ID = ''0x00'', sr_Owner = address_zero, sr_NetId = 0, sr_Prefix = 0,
    sr_FrequencyPlan = ''EU868'', sr_Mask = 0\<rparr>"
  define snap where "snap = \<lparr>ss_ChainID = 137, ss_Routers = [r]\<rparr>"
  define F where "F = \<lparr>ToBlockchain = (\<lambda>_. 1), FromBlockchain = (\<lambda>_. ''EU868''), freq_Invalid = []\<rparr>"
  have "fetchRoutersFromThingsIXAPI (\<lambda>_. [0]) F (Inr snap) (ss_ChainID snap) (None :: unit accounter option) =
      Inr [None :: (unit, u64 list) router option]"
    by (simp add: fetchRoutersFromThingsIXAPI_def snap_def router_of_api_def)
  from invalid_router_id_panics[OF this, of r] show ?thesis by (simp add: snap_def)
qed

text \<open>
  The refresh interval.  A fetched set that reaches the routing table broadcaster puts the interval
  at the configured value; a failed fetch or a busy broadcaster puts it at two minutes, so that
  the update is tried again soon.  The configured interval never is below one minute for the chain
  and fifteen minutes for the API.
\<close>

theorem routes_refresh_interval:
  "tb_routesUpdateInterval (routes_tick fetched r) =
     (case fetched of
        Inl err \<Rightarrow> 2 * minute
      | Inr rs \<Rightarrow> if snd (TryBroadcast rs (tb_routesTableBroadcaster r)) then tb_routesUpdateIntervalCfg r else 2 * minute) \<and>
   tb_routesUpdateIntervalCfg (routes_tick fetched r) = tb_routesUpdateIntervalCfg r \<and>
   (case tb_routesFetcher (buildRoutingTable cfg def) of
      RoutesOnChain contract \<Rightarrow> minute | RoutesFromApi endpoint \<Rightarrow> 15 * minute | NoRoutesSource \<Rightarrow> 24 * hour)
     \<le> tb_routesUpdateIntervalCfg (buildRoutingTable cfg def)"
  by (auto simp: routes_tick_def buildRoutingTable_def obtainThingsIXRoutesFunc_def update_interval_def Let_def
      TryBroadcast_def split: sum.split option.split)

end
