(* ===== verification/Router_Client.thy ===== *)
theory Router_Client
  imports Routes Sha256
begin

text \<open>
  The client that connects a forwarder to one router, \<^verbatim>\<open>forwarder/router_client.go\<close>.  \<open>run\<close> is a
  state machine: a session, and one step per message that the select statement picks, with the
  outcome of the send on the gRPC stream and the time as arguments.  What the client sends to the
  router and to the packet exchange is collected in the session.  The reconnect loop of \<^verbatim>\<open>Run\<close> is
  \<open>reconnect_wait\<close> on the current interval.
\<close>

section \<open>State\<close>

record ('a, 'bm) router_client =
  rc_router :: "('a, 'bm) router"
  rc_lastGatewayEvent :: "eui64 \<rightharpoonup> time"
  rc_accounts :: 'a

definition NewRouterClient :: "('a, 'bm) router \<Rightarrow> 'a \<Rightarrow> ('a, 'bm) router_client" where
  "NewRouterClient r acc = \<lparr>rc_router = r, rc_lastGatewayEvent = Map.empty, rc_accounts = acc\<rparr>"

record ('a, 'bm) session =
  se_client :: "('a, 'bm) router_client"
  se_pendingDownlinkAcks :: "bytes \<rightharpoonup> time"
  se_sent :: "gtr_event list"
  se_routerEvents :: "rtg_event list"

datatype client_exit = ExitNil | ExitError go_error

type_synonym ('a, 'bm) step_result = "(('a, 'bm) session \<times> client_exit option) go"

datatype ('a, 'bm) client_input =
    AckTicker
  | RouterDetailsUpdate RouterDetails
  | FromGateway gateway_event
  | FromRouter "rtg_event option"
  | RoutesInfo "('a, 'bm) router option list"
  | JoinFilterAnswered "xor8 option \<times> bytes"

section \<open>Sending\<close>

text \<open>\<^verbatim>\<open>eventStream.Send\<close> answers \<open>send\<close>.  After a successful send the session goes on with \<open>f\<close>.\<close>

definition stream_send ::
  "go_error option \<Rightarrow> gtr_event \<Rightarrow> string \<Rightarrow> (('a, 'bm) session \<Rightarrow> ('a, 'bm) session) \<Rightarrow>
   ('a, 'bm) session \<Rightarrow> ('a, 'bm) step_result" where
  "stream_send send ev msg f s =
     (case send of
        Some err \<Rightarrow> Ret (s, Some (ExitError (Errorf msg)))
      | None \<Rightarrow> Ret (f (s\<lparr>se_sent := se_sent s @ [ev]\<rparr>), None))"

definition touch_gateway :: "eui64 \<Rightarrow> time \<Rightarrow> ('a, 'bm) session \<Rightarrow> ('a, 'bm) session" where
  "touch_gateway netID now s =
     s\<lparr>se_client := (se_client s)\<lparr>rc_lastGatewayEvent := (rc_lastGatewayEvent (se_client s))(netID \<mapsto> now)\<rparr>\<rparr>"

text \<open>\<^verbatim>\<open>GetUplinkFrameEvent().UplinkFrame\<close> is a field of a message that must be there.\<close>

definition receipt_airtime :: "gtr_event \<Rightarrow> duration go" where
  "receipt_airtime ev =
     (case ge_Event ev of
        UplinkFrameEvent frame receipt \<Rightarrow>
          Ret (case receipt of None \<Rightarrow> 0 | Some rcpt \<Rightarrow> int (unat (ar_Airtime rcpt)) * millisecond)
      | _ \<Rightarrow> Panic)"

definition client_router :: "('a, 'bm) session \<Rightarrow> ('a, 'bm) router" where
  "client_router s = rc_router (se_client s)"

definition forward_if_allowed ::
  "time \<Rightarrow> go_error option \<Rightarrow> eui64 \<Rightarrow> gtr_event \<Rightarrow> ('a, 'bm) session \<Rightarrow> ('a, 'bm) step_result" where
  "forward_if_allowed now send netID ev s =
     go_bind (receipt_airtime ev) (\<lambda>airtime.
     go_bind (AllowAirtime (rc_accounts (se_client s)) (client_router s) (rt_Owner (client_router s)) airtime)
       (\<lambda>allow.
          if allow then stream_send send ev ''unable to send event to router'' (touch_gateway netID now) s
          else Ret (s, None)))"

section \<open>The cases of the select statement\<close>

definition on_uplink ::
  "lorawan_lib \<Rightarrow> time \<Rightarrow> go_error option \<Rightarrow> gateway_event \<Rightarrow> devaddr \<Rightarrow> gtr_event \<Rightarrow>
   ('a, 'bm) session \<Rightarrow> ('a, 'bm) step_result" where
  "on_uplink L now send ge device ev s =
     (if InterestedIn L (client_router s) device
      then forward_if_allowed now send (NetworkID (ev_receivedFrom ge)) ev s
      else Ret (s, None))"

definition on_join ::
  "'bm filter_lib \<Rightarrow> time \<Rightarrow> go_error option \<Rightarrow> gateway_event \<Rightarrow> eui64 \<Rightarrow> gtr_event \<Rightarrow>
   ('a, 'bm) session \<Rightarrow> ('a, 'bm) step_result" where
  "on_join F now send ge devEUI ev s =
     (if AcceptsJoin F (client_router s) devEUI
      then forward_if_allowed now send (NetworkID (ev_receivedFrom ge)) ev s
      else Ret (s, None))"

definition downlink_key :: "('a, 'bm) router \<Rightarrow> u32 \<Rightarrow> bytes" where
  "downlink_key r downlinkID = sha256 (rt_ThingsIXID r @ be_put_uint32 downlinkID)"

definition on_downlink_ack ::
  "go_error option \<Rightarrow> u32 \<Rightarrow> gtr_event \<Rightarrow> ('a, 'bm) session \<Rightarrow> ('a, 'bm) step_result" where
  "on_downlink_ack send downlinkID ev s =
     (let key = downlink_key (client_router s) downlinkID
      in case se_pendingDownlinkAcks s key of
           None \<Rightarrow> Ret (s, None)
         | Some _ \<Rightarrow>
             stream_send send ev ''unable to send event to router'' (\<lambda>s. s)
               (s\<lparr>se_pendingDownlinkAcks := (se_pendingDownlinkAcks s)(key := None)\<rparr>))"

definition on_status ::
  "time \<Rightarrow> go_error option \<Rightarrow> gateway_event \<Rightarrow> gtr_event \<Rightarrow> ('a, 'bm) session \<Rightarrow> ('a, 'bm) step_result" where
  "on_status now send ge ev s =
     (let netID = NetworkID (ev_receivedFrom ge)
      in case ge_Event ev of
           StatusEvent online \<Rightarrow>
             if online then
               (let due = (case rc_lastGatewayEvent (se_client s) netID of
                             None \<Rightarrow> True
                           | Some lastEvent \<Rightarrow> now - lastEvent > 4 * minute)
                in if due
                   then stream_send send ev ''unable to send gateway online event to router''
                          (touch_gateway netID now) s
                   else Ret (s, None))
             else
               stream_send send ev ''unable to send gateway offline event to router''
                 (\<lambda>s. s\<lparr>se_client := (se_client s)\<lparr>rc_lastGatewayEvent :=
                          (rc_lastGatewayEvent (se_client s))(netID := None)\<rparr>\<rparr>) s
         | _ \<Rightarrow> Panic)"

definition on_gateway_event ::
  "lorawan_lib \<Rightarrow> 'bm filter_lib \<Rightarrow> time \<Rightarrow> go_error option \<Rightarrow> gateway_event \<Rightarrow>
   ('a, 'bm) session \<Rightarrow> ('a, 'bm) step_result" where
  "on_gateway_event L F now send ge s =
     (case ev_uplink ge of
        Some (device, ev) \<Rightarrow> on_uplink L now send ge device ev s
      | None \<Rightarrow>
          (case ev_join ge of
             Some (devEUI, ev) \<Rightarrow> on_join F now send ge devEUI ev s
           | None \<Rightarrow>
               (case ev_downlinkAck ge of
                  Some (downlinkID, ev) \<Rightarrow> on_downlink_ack send downlinkID ev s
                | None \<Rightarrow>
                    (case ev_subOnlineOfflineEvent ge of
                       Some ev \<Rightarrow> on_status now send ge ev s
                     | None \<Rightarrow> Ret (s, None)))))"

definition downlink_id_of :: "downlink_frame option \<Rightarrow> u32" where
  "downlink_id_of frame = (case frame of None \<Rightarrow> 0 | Some f \<Rightarrow> df_DownlinkId f)"

text \<open>A payment is added to the accounting of the router, which default routers do not have.  The send
  to the packet exchange may wait for room in its channel; it is modelled as done.\<close>

definition on_router_event :: "time \<Rightarrow> rtg_event \<Rightarrow> ('a, 'bm) session \<Rightarrow> ('a, 'bm) step_result" where
  "on_router_event now event s =
     go_bind
       (case event of
          AirtimePaymentEvent p \<Rightarrow>
            go_bind (deref (rt_accounting (client_router s))) (\<lambda>A.
              Ret (s\<lparr>se_client := (se_client s)\<lparr>rc_accounts := acc_AddPayment A (rc_accounts (se_client s)) p\<rparr>\<rparr>))
        | DownlinkFrameEvent frame \<Rightarrow>
            Ret (s\<lparr>se_pendingDownlinkAcks :=
                     (se_pendingDownlinkAcks s)(downlink_key (client_router s) (downlink_id_of frame) \<mapsto> now)\<rparr>)
        | NoRtgBody \<Rightarrow> Ret s)
       (\<lambda>s. Ret (s\<lparr>se_routerEvents := se_routerEvents s @ [event]\<rparr>, None))"

definition apply_details :: "bool \<Rightarrow> RouterDetails \<Rightarrow> ('a, 'bm) router \<Rightarrow> ('a, 'bm) router" where
  "apply_details with_plan d r =
     (let r = r\<lparr>rt_Endpoint := rd_Endpoint d, rt_NetID := rd_NetID d, rt_Prefix := rd_Prefix d,
                rt_Mask := rd_Mask d, rt_Owner := rd_Owner d\<rparr>
      in if with_plan then r\<lparr>rt_FrequencyPlan := rd_FrequencyPlan d\<rparr> else r)"

definition set_router :: "('a, 'bm) router \<Rightarrow> ('a, 'bm) session \<Rightarrow> ('a, 'bm) session" where
  "set_router r s = s\<lparr>se_client := (se_client s)\<lparr>rc_router := r\<rparr>\<rparr>"

definition on_details :: "RouterDetails \<Rightarrow> ('a, 'bm) session \<Rightarrow> ('a, 'bm) step_result" where
  "on_details d s =
     (let reconnect = (rt_Endpoint (client_router s) \<noteq> rd_Endpoint d);
          s = set_router (apply_details True d (client_router s)) s
      in Ret (s, if reconnect then Some ExitNil else None))"

definition on_ack_ticker :: "time \<Rightarrow> ('a, 'bm) session \<Rightarrow> ('a, 'bm) session" where
  "on_ack_ticker now s =
     (let deadline = now - 30 * second
      in s\<lparr>se_pendingDownlinkAcks := (\<lambda>k. case se_pendingDownlinkAcks s k of
             None \<Rightarrow> None
           | Some created \<Rightarrow> if created < deadline then None else Some created)\<rparr>)"

text \<open>The loop over the new set of routes: it goes on after a match, and leaves when the
  endpoint has changed.\<close>

fun routes_loop ::
  "('a, 'bm) router option list \<Rightarrow> bool \<Rightarrow> ('a, 'bm) session \<Rightarrow> (bool \<times> ('a, 'bm) session \<times> bool) go" where
  "routes_loop [] found s = Ret (found, s, False)"
| "routes_loop (None # rs) found s = Panic"
| "routes_loop (Some r # rs) found s =
     (if rt_ThingsIXID (client_router s) = rt_ThingsIXID r
      then (let endpointChanged = (rt_Endpoint (client_router s) \<noteq> rt_Endpoint r);
                s = set_router (apply_details False (details_of r) (client_router s)) s
            in if endpointChanged then Ret (True, s, True) else routes_loop rs True s)
      else routes_loop rs found s)"

definition on_routes :: "('a, 'bm) router option list \<Rightarrow> ('a, 'bm) session \<Rightarrow> ('a, 'bm) step_result" where
  "on_routes routes s =
     (if rt_Default (client_router s) then Ret (s, None)
      else go_bind (routes_loop routes False s) (\<lambda>(found, s, endpointChanged).
             if endpointChanged then Ret (s, Some (ExitError (Errorf ''endpoint changed'')))
             else if \<not> found then Ret (s, Some ExitNil)
             else Ret (s, None)))"

text \<open>The answer of the router's \<^verbatim>\<open>JoinFilter\<close> method: the xor filter, if any, and the encoded bitmap.\<close>

definition updateJoinFilter ::
  "'bm filter_lib \<Rightarrow> xor8 option \<times> bytes \<Rightarrow> ('a, 'bm) router \<Rightarrow> ('a, 'bm) router" where
  "updateJoinFilter F resp r =
     (if length (snd resp) > 0
      then (case bm_UnmarshalBinary F (snd resp) of
              Inl err \<Rightarrow> r
            | Inr bitmap \<Rightarrow> SetJoinFilter None (Some bitmap) r)
      else SetJoinFilter (fst resp) None r)"

section \<open>The session\<close>

definition client_step ::
  "lorawan_lib \<Rightarrow> 'bm filter_lib \<Rightarrow> time \<Rightarrow> go_error option \<Rightarrow> ('a, 'bm) client_input \<Rightarrow>
   ('a, 'bm) session \<Rightarrow> ('a, 'bm) step_result" where
  "client_step L F now send input s =
     (case input of
        AckTicker \<Rightarrow> Ret (on_ack_ticker now s, None)
      | RouterDetailsUpdate d \<Rightarrow> on_details d s
      | FromGateway ge \<Rightarrow> on_gateway_event L F now send ge s
      | FromRouter None \<Rightarrow> Ret (s, Some (ExitError (Errorf ''connection with router lost'')))
      | FromRouter (Some event) \<Rightarrow> on_router_event now event s
      | RoutesInfo routes \<Rightarrow> on_routes routes s
      | JoinFilterAnswered resp \<Rightarrow> Ret (set_router (updateJoinFilter F resp (client_router s)) s, None))"

text \<open>\<open>run\<close> on the messages that arrive, each with its time and the outcome of a send.  It ends with
  an exit, or goes on waiting when the messages are used up.\<close>

fun client_run ::
  "lorawan_lib \<Rightarrow> 'bm filter_lib \<Rightarrow> (time \<times> go_error option \<times> ('a, 'bm) client_input) list \<Rightarrow>
   ('a, 'bm) session \<Rightarrow> ('a, 'bm) step_result" where
  "client_run L F [] s = Ret (s, None)"
| "client_run L F ((now, send, input) # inputs) s =
     (case client_step L F now send input s of
        Panic \<Rightarrow> Panic
      | Ret (s, Some exit) \<Rightarrow> Ret (s, Some exit)
      | Ret (s, None) \<Rightarrow> client_run L F inputs s)"

definition new_session :: "('a, 'bm) router_client \<Rightarrow> ('a, 'bm) session" where
  "new_session rc =
     \<lparr>se_client = rc, se_pendingDownlinkAcks = Map.empty, se_sent = [], se_routerEvents = []\<rparr>"

text \<open>What \<^verbatim>\<open>routerEventsChan\<close> delivers of the results of \<^verbatim>\<open>Recv\<close>, and whether it closed the
  channel.\<close>

datatype recv_status = RecvOk rtg_event | RecvCanceled | RecvUnavailable | RecvUnknown | RecvOther

fun routerEventsChan :: "recv_status list \<Rightarrow> rtg_event list \<times> bool" where
  "routerEventsChan [] = ([], False)"
| "routerEventsChan (r # rs) =
     (case r of
        RecvOk ev \<Rightarrow> (let (evs, closed) = routerEventsChan rs in (ev # evs, closed))
      | RecvOther \<Rightarrow> routerEventsChan rs
      | _ \<Rightarrow> ([], True))"

section \<open>Reconnecting\<close>

definition nextReconnectInterval :: "duration \<Rightarrow> duration" where
  "nextReconnectInterval reconnectInterval =
     (if reconnectInterval < second then 5 * second
      else let reconnectInterval = reconnectInterval * 2
           in if reconnectInterval > 5 * minute then 5 * minute else reconnectInterval)"

text \<open>After a connection that lasted \<open>lasted\<close>, the time to wait, which is also the new interval.\<close>

definition reconnect_wait :: "duration \<Rightarrow> duration \<Rightarrow> duration" where
  "reconnect_wait reconnectInterval lasted =
     nextReconnectInterval (if lasted > minute then 0 else reconnectInterval)"

definition first_interval :: duration where
  "first_interval = 5 * second"

text \<open>
  \<^verbatim>\<open>Run\<close>: one \<open>attempt\<close> is a connection and the wait that follows it.  It holds the outcome of the dial
  and of opening the event stream, the messages of the session, how long the attempt lasted, what
  the non-blocking select after a failure found, and what arrives during the wait.
\<close>

datatype after_run = CtxDone | DetailsReady RouterDetails | NothingReady

datatype wait_input = Retry | WaitDetails RouterDetails | WaitDone

record ('a, 'bm) attempt =
  at_dial :: "go_error option"
  at_stream :: "go_error option"
  at_inputs :: "(time \<times> go_error option \<times> ('a, 'bm) client_input) list"
  at_lasted :: duration
  at_after :: after_run
  at_wait :: "wait_input list"

datatype run_status = Stopped | Connected | Waiting

definition client_connect ::
  "lorawan_lib \<Rightarrow> 'bm filter_lib \<Rightarrow> ('a, 'bm) attempt \<Rightarrow> ('a, 'bm) router_client \<Rightarrow> ('a, 'bm) step_result" where
  "client_connect L F a rc =
     (if at_dial a \<noteq> None then Ret (new_session rc, Some (ExitError (Errorf ''unable to dial router'')))
      else if at_stream a \<noteq> None
      then Ret (new_session rc,
                Some (ExitError (Errorf ''unable to open bi-directional event stream with router'')))
      else client_run L F (at_inputs a) (new_session rc))"

definition details_to_client :: "RouterDetails \<Rightarrow> ('a, 'bm) router_client \<Rightarrow> ('a, 'bm) router_client" where
  "details_to_client d rc = rc\<lparr>rc_router := apply_details False d (rc_router rc)\<rparr>"

fun wait_loop :: "wait_input list \<Rightarrow> ('a, 'bm) router_client \<Rightarrow> ('a, 'bm) router_client \<times> run_status option" where
  "wait_loop [] rc = (rc, Some Waiting)"
| "wait_loop (Retry # ins) rc = (rc, None)"
| "wait_loop (WaitDetails d # ins) rc = wait_loop ins (details_to_client d rc)"
| "wait_loop (WaitDone # ins) rc = (rc, Some Stopped)"

text \<open>The result: the client, the waits between the attempts, and whether the client stopped, is connected
  or waits.\<close>

fun client_Run ::
  "lorawan_lib \<Rightarrow> 'bm filter_lib \<Rightarrow> ('a, 'bm) attempt list \<Rightarrow> duration \<Rightarrow> ('a, 'bm) router_client \<Rightarrow>
   (('a, 'bm) router_client \<times> duration list \<times> run_status) go" where
  "client_Run L F [] interval rc = Ret (rc, [], Connected)"
| "client_Run L F (a # attempts) interval rc =
     go_bind (client_connect L F a rc) (\<lambda>(s, exit).
       case exit of
         None \<Rightarrow> Ret (se_client s, [], Connected)
       | Some ExitNil \<Rightarrow> Ret (se_client s, [], Stopped)
       | Some (ExitError err) \<Rightarrow>
           if at_after a = CtxDone then Ret (se_client s, [], Stopped)
           else
             let rc = (case at_after a of DetailsReady d \<Rightarrow> details_to_client d (se_client s) | _ \<Rightarrow> se_client s);
                 interval = reconnect_wait interval (at_lasted a)
             in case wait_loop (at_wait a) rc of
                  (rc, Some status) \<Rightarrow> Ret (rc, [interval], status)
                | (rc, None) \<Rightarrow>
                    go_bind (client_Run L F attempts interval rc) (\<lambda>(rc, waits, status).
                      Ret (rc, interval # waits, status)))"

section \<open>Facts\<close>

lemma client_router_simps [simp]:
  "client_router (s\<lparr>se_sent := x\<rparr>) = client_router s"
  "client_router (s\<lparr>se_pendingDownlinkAcks := p\<rparr>) = client_router s"
  "client_router (s\<lparr>se_routerEvents := e\<rparr>) = client_router s"
  "client_router (touch_gateway n t s) = client_router s"
  "client_router (set_router r s) = r"
  by (simp_all add: client_router_def touch_gateway_def set_router_def)

lemma session_frame_simps [simp]:
  "se_sent (touch_gateway n t s) = se_sent s" "se_sent (set_router r s) = se_sent s"
  "se_pendingDownlinkAcks (touch_gateway n t s) = se_pendingDownlinkAcks s"
  "se_pendingDownlinkAcks (set_router r s) = se_pendingDownlinkAcks s"
  by (simp_all add: touch_gateway_def set_router_def)

lemma apply_details_id [simp]: "rt_ThingsIXID (apply_details b d r) = rt_ThingsIXID r"
  by (simp add: apply_details_def Let_def)

lemma updateJoinFilter_id [simp]: "rt_ThingsIXID (updateJoinFilter F resp r) = rt_ThingsIXID r"
  by (simp add: updateJoinFilter_def SetJoinFilter_def split: sum.split)

lemma downlink_key_cong: "rt_ThingsIXID r = rt_ThingsIXID r' \<Longrightarrow> downlink_key r d = downlink_key r' d"
  by (simp add: downlink_key_def)

lemma routes_loop_frame:
  "routes_loop rs found s = Ret (f, s', c) \<Longrightarrow>
     se_sent s' = se_sent s \<and> se_pendingDownlinkAcks s' = se_pendingDownlinkAcks s \<and>
     rt_ThingsIXID (client_router s') = rt_ThingsIXID (client_router s)"
  by (induction rs found s rule: routes_loop.induct) (auto simp: Let_def split: if_splits)

text \<open>The downlink acks among the events sent to a router, and the downlinks received from it.\<close>

fun ack_id :: "gtr_body \<Rightarrow> u32 option" where
  "ack_id (DownlinkTXAckEvent (Some a) rcpt) = Some (da_DownlinkId a)"
| "ack_id _ = None"

definition sent_acks :: "gtr_event list \<Rightarrow> u32 list" where
  "sent_acks evs = List.map_filter (\<lambda>ev. ack_id (ge_Event ev)) evs"

fun received_downlink :: "('a, 'bm) client_input \<Rightarrow> u32 option" where
  "received_downlink (FromRouter (Some (DownlinkFrameEvent frame))) = Some (downlink_id_of frame)"
| "received_downlink _ = None"

definition received_downlinks :: "(time \<times> go_error option \<times> ('a, 'bm) client_input) list \<Rightarrow> u32 list" where
  "received_downlinks inputs = List.map_filter (\<lambda>(_, _, inp). received_downlink inp) inputs"

text \<open>The events that the packet exchange broadcasts: a downlink ack carries the id it is announced with,
  and the other events are no acks.\<close>

definition event_wf :: "gateway_event \<Rightarrow> bool" where
  "event_wf ge \<longleftrightarrow>
     (\<forall>d ev. ev_downlinkAck ge = Some (d, ev) \<longrightarrow> ack_id (ge_Event ev) = Some d) \<and>
     (\<forall>x ev. ev_uplink ge = Some (x, ev) \<longrightarrow> ack_id (ge_Event ev) = None) \<and>
     (\<forall>x ev. ev_join ge = Some (x, ev) \<longrightarrow> ack_id (ge_Event ev) = None) \<and>
     (\<forall>ev. ev_subOnlineOfflineEvent ge = Some ev \<longrightarrow> ack_id (ge_Event ev) = None)"

fun input_wf :: "('a, 'bm) client_input \<Rightarrow> bool" where
  "input_wf (FromGateway ge) = event_wf ge"
| "input_wf _ = True"

definition acks_sent :: "('a, 'bm) session \<Rightarrow> bytes \<Rightarrow> nat" where
  "acks_sent s k = count_list (map (downlink_key (client_router s)) (sent_acks (se_sent s))) k"

definition ack_pending :: "('a, 'bm) session \<Rightarrow> bytes \<Rightarrow> nat" where
  "ack_pending s k = (if se_pendingDownlinkAcks s k = None then 0 else 1)"

lemma sent_acks_append [simp]: "sent_acks (a @ b) = sent_acks a @ sent_acks b"
  by (simp add: sent_acks_def List.map_filter_def)

lemma sent_acks_single [simp]: "sent_acks [ev] = (case ack_id (ge_Event ev) of None \<Rightarrow> [] | Some d \<Rightarrow> [d])"
  by (simp add: sent_acks_def List.map_filter_def split: option.split)

lemma sent_acks_Nil [simp]: "sent_acks [] = []"
  by (simp add: sent_acks_def List.map_filter_def)

lemma received_downlinks_Cons [simp]:
  "received_downlinks ((t, e, inp) # inputs) =
     (case received_downlink inp of None \<Rightarrow> received_downlinks inputs | Some d \<Rightarrow> d # received_downlinks inputs)"
  by (simp add: received_downlinks_def List.map_filter_def split: option.split)

lemma received_downlinks_Nil [simp]: "received_downlinks [] = []"
  by (simp add: received_downlinks_def List.map_filter_def)

text \<open>An input that forwards an event other than an ack, or none, leaves the acks alone.\<close>

definition same_acks :: "('a, 'bm) session \<Rightarrow> ('a, 'bm) session \<Rightarrow> bool" where
  "same_acks s s' \<longleftrightarrow>
     sent_acks (se_sent s') = sent_acks (se_sent s) \<and> se_pendingDownlinkAcks s' = se_pendingDownlinkAcks s \<and>
     rt_ThingsIXID (client_router s') = rt_ThingsIXID (client_router s)"

lemma same_acks_counts:
  assumes "same_acks s s'"
  shows "acks_sent s' k = acks_sent s k" "ack_pending s' k = ack_pending s k"
proof -
  have "downlink_key (client_router s') = downlink_key (client_router s)"
    using assms by (intro ext downlink_key_cong) (simp add: same_acks_def)
  then show "acks_sent s' k = acks_sent s k" "ack_pending s' k = ack_pending s k"
    using assms by (simp_all add: same_acks_def acks_sent_def ack_pending_def)
qed

lemma forward_same_acks:
  assumes "forward_if_allowed now send n ev s = Ret (s', x)" "ack_id (ge_Event ev) = None"
  shows "same_acks s s'"
  using assms
  by (auto simp: forward_if_allowed_def go_bind_eq_Ret stream_send_def same_acks_def split: if_splits option.splits)

lemma on_status_same_acks:
  assumes "on_status now send ge ev s = Ret (s', x)"
  shows "same_acks s s'"
  using assms
  by (auto simp: on_status_def stream_send_def same_acks_def client_router_def Let_def touch_gateway_def
      split: gtr_body.splits if_splits option.splits)

lemma on_downlink_ack_counts:
  assumes "on_downlink_ack send d ev s = Ret (s', x)" "ack_id (ge_Event ev) = Some d"
  shows "acks_sent s' k + ack_pending s' k \<le> acks_sent s k + ack_pending s k \<and>
    rt_ThingsIXID (client_router s') = rt_ThingsIXID (client_router s)"
  using assms
  by (auto simp: on_downlink_ack_def stream_send_def Let_def acks_sent_def ack_pending_def
      split: option.splits if_splits)

lemma on_gateway_event_counts:
  assumes step: "on_gateway_event L F now send ge s = Ret (s', x)" and wf: "event_wf ge"
  shows "acks_sent s' k + ack_pending s' k \<le> acks_sent s k + ack_pending s k \<and>
    rt_ThingsIXID (client_router s') = rt_ThingsIXID (client_router s)"
proof -
  have same: "same_acks s s' \<Longrightarrow> ?thesis"
    using same_acks_counts[of s s' k] by (simp add: same_acks_def)
  have refl: "same_acks s s" by (simp add: same_acks_def)
  consider (up) d ev where "ev_uplink ge = Some (d, ev)"
    | (join) d ev where "ev_uplink ge = None" "ev_join ge = Some (d, ev)"
    | (ack) d ev where "ev_uplink ge = None" "ev_join ge = None" "ev_downlinkAck ge = Some (d, ev)"
    | (status) ev where "ev_uplink ge = None" "ev_join ge = None" "ev_downlinkAck ge = None"
        "ev_subOnlineOfflineEvent ge = Some ev"
    | (other) "ev_uplink ge = None" "ev_join ge = None" "ev_downlinkAck ge = None"
        "ev_subOnlineOfflineEvent ge = None"
    by (metis option.exhaust surj_pair)
  then show ?thesis
  proof cases
    case up
    then have "same_acks s s'"
      using step wf refl forward_same_acks[of now send _ ev s s' x]
      by (auto simp: on_gateway_event_def on_uplink_def event_wf_def split: if_splits)
    then show ?thesis by (rule same)
  next
    case join
    then have "same_acks s s'"
      using step wf refl forward_same_acks[of now send _ ev s s' x]
      by (auto simp: on_gateway_event_def on_join_def event_wf_def split: if_splits)
    then show ?thesis by (rule same)
  next
    case ack
    then show ?thesis
      using step wf on_downlink_ack_counts[of send d ev s s' x k]
      by (simp add: on_gateway_event_def event_wf_def)
  next
    case status
    then have "same_acks s s'"
      using step on_status_same_acks[of now send ge ev s s' x] by (simp add: on_gateway_event_def)
    then show ?thesis by (rule same)
  next
    case other
    then show ?thesis using step same refl by (auto simp: on_gateway_event_def)
  qed
qed

lemma client_step_counts:
  assumes step: "client_step L F now send inp s = Ret (s', x)" and wf: "input_wf inp"
  shows "acks_sent s' k + ack_pending s' k \<le> acks_sent s k + ack_pending s k +
      (case received_downlink inp of None \<Rightarrow> 0 | Some d \<Rightarrow> if downlink_key (client_router s) d = k then 1 else 0) \<and>
    rt_ThingsIXID (client_router s') = rt_ThingsIXID (client_router s)"
proof -
  have same: "same_acks s s' \<Longrightarrow> ?thesis"
    using same_acks_counts[of s s' k] by (simp add: same_acks_def)
  show ?thesis
  proof (cases inp)
    case AckTicker
    have "ack_pending s' k \<le> ack_pending s k" "acks_sent s' k = acks_sent s k"
      using step AckTicker
      by (auto simp: client_step_def on_ack_ticker_def Let_def ack_pending_def acks_sent_def split: option.splits)
    then show ?thesis using step AckTicker by (auto simp: client_step_def on_ack_ticker_def Let_def)
  next
    case (FromGateway ge)
    then show ?thesis using step wf on_gateway_event_counts[of L F now send ge s s' x k]
      by (simp add: client_step_def)
  next
    case (FromRouter ev)
    show ?thesis
    proof (cases "\<exists>f. ev = Some (DownlinkFrameEvent f)")
      case True
      then obtain f where "ev = Some (DownlinkFrameEvent f)" by blast
      then show ?thesis
        using step FromRouter
        by (auto simp: client_step_def on_router_event_def acks_sent_def ack_pending_def)
    next
      case False
      then have "same_acks s s'"
        using step FromRouter
        by (auto simp: client_step_def on_router_event_def go_bind_eq_Ret same_acks_def client_router_def
            split: option.splits rtg_event.splits)
      then show ?thesis by (rule same)
    qed
  next
    case (RoutesInfo rs)
    then have "same_acks s s'"
      using step by (auto simp: client_step_def on_routes_def go_bind_eq_Ret same_acks_def
          split: if_splits dest!: routes_loop_frame)
    then show ?thesis by (rule same)
  qed (use step same in \<open>auto simp: client_step_def on_details_def Let_def same_acks_def\<close>)
qed

lemma client_run_counts:
  assumes "client_run L F inputs s = Ret (s', x)" "\<forall>(t, e, inp) \<in> set inputs. input_wf inp"
  shows "acks_sent s' k + ack_pending s' k \<le> acks_sent s k + ack_pending s k +
      count_list (map (downlink_key (client_router s)) (received_downlinks inputs)) k \<and>
    rt_ThingsIXID (client_router s') = rt_ThingsIXID (client_router s)"
  using assms
proof (induction inputs arbitrary: s)
  case (Cons i inputs)
  obtain t e inp where i: "i = (t, e, inp)" by (metis surj_pair)
  obtain s1 y where step: "client_step L F t e inp s = Ret (s1, y)"
    using Cons.prems(1) i by (auto split: go.splits)
  have wf: "input_wf inp" using Cons.prems(2) i by simp
  note c1 = client_step_counts[OF step wf, of k]
  have key: "downlink_key (client_router s1) = downlink_key (client_router s)"
    using c1 by (intro ext downlink_key_cong) simp
  show ?case
  proof (cases y)
    case (Some exit)
    then have "s' = s1" using Cons.prems(1) i step by simp
    then show ?thesis using c1 i by (auto split: option.splits)
  next
    case None
    then have "client_run L F inputs s1 = Ret (s', x)" using Cons.prems(1) i step by simp
    then show ?thesis
      using Cons.IH[of s1] Cons.prems(2) c1 key i by (auto split: option.splits)
  qed
qed simp

lemma reconnect_wait_short:
  assumes "d \<le> minute"
  shows "reconnect_wait (min (5 * 2 ^ n * second) (5 * minute)) d = min (5 * 2 ^ Suc n * second) (5 * minute)"
proof -
  have "\<not> 5 * (2 :: int) ^ n < 1" using one_le_power[of "2 :: int" n] by linarith
  then show ?thesis using assms by (auto simp: reconnect_wait_def nextReconnectInterval_def min_def Let_def)
qed

lemma client_Run_waits:
  assumes "\<forall>a \<in> set attempts. at_lasted a \<le> minute" "k < length waits"
    and "client_Run L F attempts (min (5 * 2 ^ n * second) (5 * minute)) rc = Ret (rc', waits, status)"
  shows "waits ! k = min (5 * 2 ^ Suc (n + k) * second) (5 * minute)"
  using assms
proof (induction attempts arbitrary: n rc waits k)
  case Nil
  then show ?case by simp
next
  case (Cons a attempts)
  let ?i = "min (5 * 2 ^ Suc n * second) (5 * minute)"
  have wait: "reconnect_wait (min (5 * 2 ^ n * second) (5 * minute)) (at_lasted a) = ?i"
    using Cons.prems(1) by (intro reconnect_wait_short) simp
  from Cons.prems(3) obtain s exit where con: "client_connect L F a rc = Ret (s, exit)"
    by (auto simp: go_bind_eq_Ret)
  obtain err where exit: "exit = Some (ExitError err)" "at_after a \<noteq> CtxDone"
    using Cons.prems(2,3) con by (auto simp: go_bind_eq_Ret split: option.splits client_exit.splits if_splits)
  define rc1 where "rc1 = (case at_after a of DetailsReady d \<Rightarrow> details_to_client d (se_client s) | _ \<Rightarrow> se_client s)"
  obtain rc2 st where wl: "wait_loop (at_wait a) rc1 = (rc2, st)" by fastforce
  show ?case
  proof (cases st)
    case (Some status')
    then have "waits = [?i]"
      using Cons.prems(3) con exit wl wait unfolding rc1_def[symmetric] by (simp add: Let_def rc1_def)
    then show ?thesis using Cons.prems(2) by simp
  next
    case None
    then obtain ws where ws: "client_Run L F attempts ?i rc2 = Ret (rc', ws, status)" "waits = ?i # ws"
      using Cons.prems(3) con exit wl wait by (auto simp: Let_def go_bind_eq_Ret rc1_def)
    show ?thesis
    proof (cases k)
      case 0
      then show ?thesis using ws(2) by simp
    next
      case (Suc j)
      then show ?thesis using Cons.IH[of j ws "Suc n" rc2] Cons.prems(1,2) ws by simp
    qed
  qed
qed

section \<open>Properties\<close>

text \<open>
  C19: a router gets no downlink ack that it did not ask for, and no more acks than downlinks.  In any
  session, whatever gateways, router and routing table send and whenever the connection fails, the
  acks forwarded to the router under a downlink key are at most the downlinks received from this
  router under that key.
\<close>

theorem downlink_acks_solicited:
  assumes "client_run L F inputs (new_session rc) = Ret (s', x)" "\<forall>(t, e, inp) \<in> set inputs. input_wf inp"
  shows "count_list (map (downlink_key (rc_router rc)) (sent_acks (se_sent s'))) k
       \<le> count_list (map (downlink_key (rc_router rc)) (received_downlinks inputs)) k"
proof -
  have new: "client_router (new_session rc) = rc_router rc"
    by (simp add: new_session_def client_router_def)
  have "acks_sent (new_session rc) k = 0" "ack_pending (new_session rc) k = 0"
    by (simp_all add: new_session_def acks_sent_def ack_pending_def)
  then have c: "acks_sent s' k \<le> count_list (map (downlink_key (rc_router rc)) (received_downlinks inputs)) k"
    "rt_ThingsIXID (client_router s') = rt_ThingsIXID (rc_router rc)"
    using client_run_counts[OF assms, of k] new by simp_all
  have "downlink_key (client_router s') = downlink_key (rc_router rc)"
    using c(2) by (intro ext downlink_key_cong)
  then show ?thesis using c(1) by (simp add: acks_sent_def)
qed

definition ack_event_example :: "u32 \<Rightarrow> gateway_event" where
  "ack_event_example d =
     \<lparr>ev_join = None, ev_uplink = None, ev_subOnlineOfflineEvent = None,
      ev_downlinkAck = Some (d, \<lparr>ge_GatewayInformation = None, ge_Event = DownlinkTXAckEvent
        (Some \<lparr>da_GatewayId = [], da_DownlinkId = d, da_Items = []\<rparr>) None\<rparr>),
      ev_receivedFrom = NewGateway eth_example eui64_zero (key_example 4)\<rparr>"

theorem downlink_acks_solicited_witness:
  "\<exists>s'. client_run lorawan_hex filter_example
        [(0, None, FromRouter (Some (DownlinkFrameEvent None))), (second, None, FromGateway (ack_event_example 0)),
         (second, None, FromGateway (ack_event_example 0))]
        (new_session (NewRouterClient (router_example 1) ())) = Ret (s', None) \<and> sent_acks (se_sent s') = [0] \<and>
     count_list (map (downlink_key (router_example 1)) (sent_acks (se_sent s'))) [] \<le> 1"
proof -
  let ?in = "[(0, None, FromRouter (Some (DownlinkFrameEvent None))), (second, None, FromGateway (ack_event_example 0)),
         (second, None, FromGateway (ack_event_example 0))] ::
       (time \<times> go_error option \<times> (unit, u64 list) client_input) list"
  obtain s' where run: "client_run lorawan_hex filter_example ?in (new_session (NewRouterClient (router_example 1) ())) =
      Ret (s', None)" and sent: "sent_acks (se_sent s') = [0]"
    by (simp add: client_step_def on_router_event_def on_gateway_event_def ack_event_example_def on_downlink_ack_def
        stream_send_def new_session_def downlink_id_of_def Let_def client_router_def)
  have wf: "\<forall>(t, e, inp) \<in> set ?in. input_wf inp"
    by (simp add: event_wf_def ack_event_example_def)
  have "received_downlinks ?in = [0]" by (simp add: downlink_id_of_def)
  then have "count_list (map (downlink_key (router_example 1)) (received_downlinks ?in)) [] \<le> 1" by simp
  moreover have "rc_router (NewRouterClient (router_example 1) ()) = router_example 1"
    by (simp add: NewRouterClient_def)
  ultimately show ?thesis using run sent downlink_acks_solicited[OF run wf, of "[]"] by auto
qed

text \<open>
  The reconnect wait.  In a run of attempts that each fail within a minute the client waits ten
  seconds after the first one and then twice as long each time, up to five minutes; an
  attempt that lasted longer than a minute brings the wait back to five seconds.
\<close>

theorem reconnect_backoff:
  assumes "client_Run L F attempts first_interval rc = Ret (rc', waits, status)"
    and "\<forall>a \<in> set attempts. at_lasted a \<le> minute" "k < length waits"
  shows "waits ! k = min (5 * 2 ^ Suc k * second) (5 * minute) \<and>
         (\<forall>d. minute < d \<longrightarrow> reconnect_wait (waits ! k) d = 5 * second)"
  using client_Run_waits[OF assms(2,3), of L F 0 rc rc' status] assms(1)
  by (simp add: first_interval_def reconnect_wait_def nextReconnectInterval_def)

definition attempt_example :: "(unit, u64 list) attempt" where
  "attempt_example = \<lparr>at_dial = Some (Errorf ''refused''), at_stream = None, at_inputs = [], at_lasted = second,
     at_after = NothingReady, at_wait = [Retry]\<rparr>"

theorem reconnect_backoff_witness:
  "\<exists>rc' status. client_Run lorawan_hex filter_example [attempt_example, attempt_example, attempt_example] first_interval
     (NewRouterClient (router_example 1) ()) = Ret (rc', [10 * second, 20 * second, 40 * second], status)"
proof -
  let ?as = "[attempt_example, attempt_example, attempt_example]"
  let ?run = "client_Run lorawan_hex filter_example ?as first_interval (NewRouterClient (router_example 1) ())"
  obtain rc' waits status where run: "?run = Ret (rc', waits, status)" "length waits = 3"
    by (simp add: client_connect_def attempt_example_def Let_def)
  have "waits ! k = min (5 * 2 ^ Suc k * second) (5 * minute)" if "k < 3" for k
    using reconnect_backoff[OF run(1), of k] run(2) that by (simp add: attempt_example_def)
  from this[of 0] this[of 1] this[of 2] have "waits = [10 * second, 20 * second, 40 * second]"
    using run(2) by (auto simp: list_eq_iff_nth_eq less_Suc_eq numeral_3_eq_3 numeral_2_eq_2)
  then show ?thesis using run(1) by blast
qed

end
