(* ===== verification/Mapper_Packet.thy ===== *)
theory Mapper_Packet
  imports Complex_Main Lorawan "HOL-Library.Signed_Division"
begin

text \<open>
  The packets that mappers send and receive, \<^verbatim>\<open>mapperpacket/packet.go\<close>.  Bit fields are read and
  written by the package \<^verbatim>\<open>bitoffset\<close>, the record \<open>bitoffset_lib\<close>; setters that write into the packet's
  slice return the new bytes.  A slice expression out of range panics.
\<close>

section \<open>Bit fields\<close>

record bitoffset_lib =
  bo_Uint8 :: "bytes \<Rightarrow> nat \<Rightarrow> nat \<Rightarrow> u8"
  bo_Uint32 :: "bytes \<Rightarrow> nat \<Rightarrow> nat \<Rightarrow> u32"
  bo_Int32 :: "bytes \<Rightarrow> nat \<Rightarrow> nat \<Rightarrow> int"
  bo_SetUint8 :: "bytes \<Rightarrow> nat \<Rightarrow> nat \<Rightarrow> u8 \<Rightarrow> bytes"

text \<open>A field of \<open>n\<close> bits has a value of \<open>n\<close> bits; an aligned field of eight bits is a byte; the top
  three bits of the first byte can be set without touching anything else.\<close>

definition bitoffset_ok :: "bitoffset_lib \<Rightarrow> bool" where
  "bitoffset_ok B \<longleftrightarrow>
     (\<forall>b i. i < length b \<longrightarrow> bo_Uint8 B b (8 * i) 8 = b ! i) \<and>
     (\<forall>b i v. i < length b \<longrightarrow> bo_SetUint8 B b (8 * i) 8 v = b[i := v]) \<and>
     (\<forall>b v. 0 < length b \<longrightarrow>
        bo_SetUint8 B b 0 3 v = b[0 := (push_bit 5 v) OR (b ! 0 AND 31)]) \<and>
     (\<forall>b off n. n < 32 \<longrightarrow> unat (bo_Uint32 B b off n) < 2 ^ n) \<and>
     (\<forall>b off n. n < 32 \<longrightarrow> 2 * \<bar>bo_Int32 B b off n\<bar> \<le> 2 ^ n)"

section \<open>Packets\<close>

record MapperPacket =
  mp_b :: bytes

definition SetFType :: "bitoffset_lib \<Rightarrow> MapperPacket \<Rightarrow> u8 \<Rightarrow> MapperPacket" where
  "SetFType B mp ftype = mp\<lparr>mp_b := bo_SetUint8 B (mp_b mp) 0 3 ftype\<rparr>"

fun SetDevAddr :: "bitoffset_lib \<Rightarrow> MapperPacket \<Rightarrow> devaddr \<Rightarrow> MapperPacket" where
  "SetDevAddr B mp (DevAddr a0 a1 a2 a3) =
     (let b = bo_SetUint8 B (mp_b mp) (8 + 24) 8 a0;
          b = bo_SetUint8 B b (8 + 16) 8 a1;
          b = bo_SetUint8 B b (8 + 8) 8 a2;
          b = bo_SetUint8 B b (8 + 0) 8 a3
      in mp\<lparr>mp_b := b\<rparr>)"

definition SetFPort :: "bitoffset_lib \<Rightarrow> MapperPacket \<Rightarrow> u8 \<Rightarrow> MapperPacket" where
  "SetFPort B mp fport = mp\<lparr>mp_b := bo_SetUint8 B (mp_b mp) (8 * 8) 8 fport\<rparr>"

definition mp_DevAddr :: "bitoffset_lib \<Rightarrow> MapperPacket \<Rightarrow> devaddr" where
  "mp_DevAddr B mp =
     DevAddr (bo_Uint8 B (mp_b mp) (8 + 24) 8) (bo_Uint8 B (mp_b mp) (8 + 16) 8)
       (bo_Uint8 B (mp_b mp) (8 + 8) 8) (bo_Uint8 B (mp_b mp) (8 + 0) 8)"

definition mp_Payload :: "MapperPacket \<Rightarrow> bytes go" where
  "mp_Payload mp = (if length (mp_b mp) < 9 then Panic else Ret (drop 9 (mp_b mp)))"

definition mp_Phy :: "MapperPacket \<Rightarrow> bytes" where
  "mp_Phy mp = mp_b mp"

section \<open>Discovery packets\<close>

definition NewDiscoveryPacketFromBytes :: "bytes \<Rightarrow> MapperPacket result" where
  "NewDiscoveryPacketFromBytes phy =
     (if length phy \<noteq> 9 + 13 + 65 then Inl (Errorf ''invalid packet length'') else Inr \<lparr>mp_b = phy\<rparr>)"

definition MustNewDiscoveryPacketFromBytes :: "bytes \<Rightarrow> MapperPacket go" where
  "MustNewDiscoveryPacketFromBytes phy =
     (case NewDiscoveryPacketFromBytes phy of Inl err \<Rightarrow> Panic | Inr dp \<Rightarrow> Ret dp)"

definition dp_Version :: "bitoffset_lib \<Rightarrow> MapperPacket \<Rightarrow> u8 go" where
  "dp_Version B dp = go_bind (mp_Payload dp) (\<lambda>p. Ret (bo_Uint8 B p 0 4))"

definition LatLon :: "bitoffset_lib \<Rightarrow> MapperPacket \<Rightarrow> (int \<times> int) go" where
  "LatLon B dp =
     go_bind (mp_Payload dp) (\<lambda>p.
       let lat = sint (bo_Uint32 B p 4 28);
           lon = sint (bo_Uint32 B p 32 29 * 10) sdiv 10
       in Ret (lat, lon))"

text \<open>The quotients are exact here; in Go they are the nearest \<^verbatim>\<open>float64\<close>.\<close>

definition LatLonFloat :: "bitoffset_lib \<Rightarrow> MapperPacket \<Rightarrow> (rat \<times> rat) go" where
  "LatLonFloat B dp =
     go_bind (LatLon B dp) (\<lambda>(lat, lon). Ret (of_int lat / 1000000, of_int lon / 1000000))"

definition Height :: "bitoffset_lib \<Rightarrow> MapperPacket \<Rightarrow> int go" where
  "Height B dp = go_bind (mp_Payload dp) (\<lambda>p. Ret (sint (word_of_int (bo_Int32 B p 61 13 * 3) :: u32)))"

definition GnssSecurityStatus :: "bitoffset_lib \<Rightarrow> MapperPacket \<Rightarrow> u8 go" where
  "GnssSecurityStatus B dp = go_bind (mp_Payload dp) (\<lambda>p. Ret (bo_Uint8 B p 74 2))"

definition Spoofing :: "bitoffset_lib \<Rightarrow> MapperPacket \<Rightarrow> u8 go" where
  "Spoofing B dp = go_bind (mp_Payload dp) (\<lambda>p. Ret (bo_Uint8 B p 76 2))"

definition TOW :: "bitoffset_lib \<Rightarrow> MapperPacket \<Rightarrow> u32 go" where
  "TOW B dp = go_bind (mp_Payload dp) (\<lambda>p. Ret (bo_Uint32 B p 84 20))"

section \<open>Downlink packets\<close>

definition NewDownlinkTransmitPacket :: MapperPacket where
  "NewDownlinkTransmitPacket = \<lparr>mp_b = replicate (9 + 8) 0\<rparr>"

text \<open>Eight assignments into the slice of the payload.\<close>

fun set_challenge_loop :: "nat \<Rightarrow> bytes \<Rightarrow> MapperPacket \<Rightarrow> MapperPacket go" where
  "set_challenge_loop 0 challenge dtp = Ret dtp"
| "set_challenge_loop (Suc k) challenge dtp =
     (let i = 8 - Suc k
      in if i < length challenge \<and> 9 + i < length (mp_b dtp)
         then set_challenge_loop k challenge (dtp\<lparr>mp_b := (mp_b dtp)[9 + i := challenge ! i]\<rparr>)
         else Panic)"

definition SetChallenge :: "MapperPacket \<Rightarrow> bytes \<Rightarrow> MapperPacket go" where
  "SetChallenge dtp challenge = set_challenge_loop 8 challenge dtp"

definition NewDownlinkConfirmationPacketFromBytes :: "bytes \<Rightarrow> MapperPacket result" where
  "NewDownlinkConfirmationPacketFromBytes phy =
     (if length phy \<noteq> 9 + 13 + 65 then Inl (Errorf ''invalid packet length'') else Inr \<lparr>mp_b = phy\<rparr>)"

definition dcp_Challenge :: "MapperPacket \<Rightarrow> bytes go" where
  "dcp_Challenge dcp =
     go_bind (mp_Payload dcp) (\<lambda>p. if length p < 5 + 8 then Panic else Ret (take 8 (drop 5 p)))"

definition dcp_Version :: "bitoffset_lib \<Rightarrow> MapperPacket \<Rightarrow> u8 go" where
  "dcp_Version B dcp = go_bind (mp_Payload dcp) (\<lambda>p. Ret (bo_Uint8 B p 0 4))"

definition dcp_Rssi :: "bitoffset_lib \<Rightarrow> MapperPacket \<Rightarrow> int go" where
  "dcp_Rssi B dcp = go_bind (mp_Payload dcp) (\<lambda>p. Ret (bo_Int32 B p 4 16))"

definition dcp_Snr :: "bitoffset_lib \<Rightarrow> MapperPacket \<Rightarrow> int go" where
  "dcp_Snr B dcp = go_bind (mp_Payload dcp) (\<lambda>p. Ret (bo_Int32 B p 20 8))"

definition dcp_Battery :: "bitoffset_lib \<Rightarrow> MapperPacket \<Rightarrow> u8 go" where
  "dcp_Battery B dcp = go_bind (mp_Payload dcp) (\<lambda>p. Ret (bo_Uint8 B p 28 8))"

definition dcp_Flags :: "bitoffset_lib \<Rightarrow> MapperPacket \<Rightarrow> u8 go" where
  "dcp_Flags B dcp = go_bind (mp_Payload dcp) (\<lambda>p. Ret (bo_Uint8 B p 36 4))"

section \<open>Facts\<close>

lemma bitoffset_byte:
  "bitoffset_ok B \<Longrightarrow> i < length b \<Longrightarrow> bo_Uint8 B b (8 * i) 8 = b ! i"
  "bitoffset_ok B \<Longrightarrow> i < length b \<Longrightarrow> bo_SetUint8 B b (8 * i) 8 v = b[i := v]"
  by (simp_all add: bitoffset_ok_def)

lemma bitoffset_range:
  assumes "bitoffset_ok B" "n < 32"
  shows "unat (bo_Uint32 B b off n) < 2 ^ n" "2 * \<bar>bo_Int32 B b off n\<bar> \<le> 2 ^ n"
  using assms unfolding bitoffset_ok_def by blast+

lemma SetDevAddr_bytes:
  assumes "bitoffset_ok B" "9 \<le> length (mp_b mp)"
  shows "SetDevAddr B mp (DevAddr a0 a1 a2 a3) =
    mp\<lparr>mp_b := (mp_b mp)[4 := a0, 3 := a1, 2 := a2, 1 := a3]\<rparr>"
  using assms bitoffset_byte(2)[OF assms(1), of 4] bitoffset_byte(2)[OF assms(1), of 3]
    bitoffset_byte(2)[OF assms(1), of 2] bitoffset_byte(2)[OF assms(1), of 1]
  by (simp add: Let_def)

lemma mp_DevAddr_bytes:
  assumes "bitoffset_ok B" "9 \<le> length (mp_b mp)"
  shows "mp_DevAddr B mp = DevAddr (mp_b mp ! 4) (mp_b mp ! 3) (mp_b mp ! 2) (mp_b mp ! 1)"
  using assms bitoffset_byte(1)[OF assms(1), of 4] bitoffset_byte(1)[OF assms(1), of 3]
    bitoffset_byte(1)[OF assms(1), of 2] bitoffset_byte(1)[OF assms(1), of 1]
  by (simp add: mp_DevAddr_def)

text \<open>The field that a mapper transmits for a longitude in millionths of a degree: the 32-bit
  tenths, divided by ten.\<close>

definition lon_field :: "int \<Rightarrow> nat" where
  "lon_field x = nat ((10 * x) mod 2 ^ 32) div 10"

lemma lon_field_nonneg: "0 \<le> x \<Longrightarrow> x \<le> 180000000 \<Longrightarrow> lon_field x = nat x"
  by (simp add: lon_field_def nat_mult_distrib)

lemma lon_field_neg: "x < 0 \<Longrightarrow> - 180000000 \<le> x \<Longrightarrow> int (lon_field x) = x + 429496729"
proof -
  assume x: "x < 0" "- 180000000 \<le> x"
  have "(10 * x) mod 2 ^ 32 = 10 * x + 2 ^ 32"
    using x by (intro int_mod_pos_eq[where q = "-1"]) auto
  then show ?thesis using x by (simp add: lon_field_def zdiv_int)
qed

lemma sint_u32: "sint (w :: u32) = (if unat w < 2 ^ 31 then int (unat w) else int (unat w) - 2 ^ 32)"
proof -
  have lt: "uint w < 2 ^ 32" "0 \<le> uint w" using unsigned_less[of w] by simp_all
  have "sint w = (uint w + 2 ^ 31) mod 2 ^ 32 - 2 ^ 31"
    by (simp add: sint_uint signed_take_bit_eq_take_bit_shift take_bit_eq_mod)
  also have "\<dots> = (if uint w < 2 ^ 31 then uint w else uint w - 2 ^ 32)"
  proof (cases "uint w < 2 ^ 31")
    case True
    then have "(uint w + 2 ^ 31) mod 2 ^ 32 = uint w + 2 ^ 31" using lt by (intro mod_pos_pos_trivial) auto
    then show ?thesis using True by simp
  next
    case False
    then have "(uint w + 2 ^ 31) mod 2 ^ 32 = uint w + 2 ^ 31 - 2 ^ 32"
      using lt by (intro int_mod_pos_eq[where q = 1]) auto
    then show ?thesis using False by simp
  qed
  finally have "sint w = (if uint w < 2 ^ 31 then uint w else uint w - 2 ^ 32)" .
  moreover have eq: "int (unat w) = uint w" by simp
  moreover have "unat w < 2 ^ 31 \<longleftrightarrow> int (unat w) < int (2 ^ 31)" by (rule of_nat_less_iff[symmetric])
  ultimately show ?thesis by simp
qed

lemma sint_word_of_int_u32: "- (2 ^ 31) \<le> k \<Longrightarrow> k < 2 ^ 31 \<Longrightarrow> sint (word_of_int k :: u32) = k"
  by (simp add: sint_sbintrunc' signed_take_bit_int_eq_self)

lemma lon_decode:
  assumes "\<bar>x\<bar> \<le> 180000000" "unat w = lon_field x"
  shows "sint ((w :: u32) * 10) sdiv 10 = x"
proof (cases "0 \<le> x")
  case True
  then have w: "unat w = nat x" using assms lon_field_nonneg by simp
  then have "unat (w * 10) = 10 * nat x" using assms True by (simp add: unat_word_ariths)
  then have "sint (w * 10) = 10 * x" using assms True by (simp add: sint_u32)
  then show ?thesis using True by (simp add: signed_divide_int_def sgn_if)
next
  case False
  then have w: "int (unat w) = x + 429496729" using assms lon_field_neg by simp
  have "unat (w * 10) = unat w * 10 mod 2 ^ 32" by (simp add: unat_word_ariths)
  also have "\<dots> = unat w * 10" using w assms False by (intro mod_less) simp
  finally have u: "unat (w * 10) = unat w * 10" .
  have "\<not> unat (w * 10) < 2 ^ 31" unfolding u using w assms by simp
  then have "sint (w * 10) = 10 * x - 6"
    unfolding sint_u32 u using w by simp
  then show ?thesis using False by (simp add: signed_divide_int_def sgn_if)
qed

section \<open>A concrete field package\<close>

fun nat_of_bytes :: "bytes \<Rightarrow> nat" where
  "nat_of_bytes [] = 0"
| "nat_of_bytes (b # bs) = unat b * 256 ^ length bs + nat_of_bytes bs"

definition bit_field :: "bytes \<Rightarrow> nat \<Rightarrow> nat \<Rightarrow> nat" where
  "bit_field b off n = nat_of_bytes b div 2 ^ (8 * length b - off - n) mod 2 ^ n"

definition bitoffset_example :: bitoffset_lib where
  "bitoffset_example =
     \<lparr>bo_Uint8 = (\<lambda>b off n. of_nat (bit_field b off n)),
      bo_Uint32 = (\<lambda>b off n. of_nat (bit_field b off n)),
      bo_Int32 = (\<lambda>b off n. if 2 * bit_field b off n < 2 ^ n then int (bit_field b off n)
                           else int (bit_field b off n) - 2 ^ n),
      bo_SetUint8 = (\<lambda>b off n v. if n = 8 then b[off div 8 := v] else b[0 := (push_bit 5 v) OR (b ! 0 AND 31)])\<rparr>"

lemma unat_byte_less: "unat (b :: byte) < 256"
  using unsigned_less[of b] by simp

lemma nat_of_bytes_less: "nat_of_bytes b < 256 ^ length b"
proof (induction b)
  case (Cons x b)
  have "unat x * 256 ^ length b + 256 ^ length b \<le> 256 * 256 ^ length b"
    using unat_byte_less[of x] mult_le_mono1[of "unat x + 1" 256 "256 ^ length b"] by simp
  moreover have "nat_of_bytes (x # b) = unat x * 256 ^ length b + nat_of_bytes b"
    "(256 :: nat) ^ length (x # b) = 256 * 256 ^ length b" by simp_all
  ultimately show ?case using Cons by linarith
qed simp

lemma nat_of_bytes_append: "nat_of_bytes (a @ b) = nat_of_bytes a * 256 ^ length b + nat_of_bytes b"
  by (induction a) (simp_all add: power_add algebra_simps)

lemma bit_field_byte: "i < length b \<Longrightarrow> bit_field b (8 * i) 8 = unat (b ! i)"
proof -
  assume i: "i < length b"
  let ?t = "nat_of_bytes (take i b)" and ?d = "drop (Suc i) b"
  have "nat_of_bytes b = nat_of_bytes (take i b @ b ! i # ?d)" using i by (simp add: id_take_nth_drop[symmetric])
  also have "\<dots> = (?t * 256 + unat (b ! i)) * 256 ^ length ?d + nat_of_bytes ?d"
    by (simp add: nat_of_bytes_append algebra_simps)
  finally have "nat_of_bytes b div 256 ^ length ?d = ?t * 256 + unat (b ! i)"
    using nat_of_bytes_less[of ?d] by simp
  moreover have "(2 :: nat) ^ (8 * length b - 8 * i - 8) = 256 ^ length ?d"
  proof -
    have "8 * length b - 8 * i - 8 = 8 * length ?d" using i by simp
    then show ?thesis by (simp only: power_mult) simp
  qed
  moreover have "unat (b ! i) < 256" by (rule unat_byte_less)
  ultimately show ?thesis by (simp add: bit_field_def mod_mult_self3)
qed

lemma bitoffset_example_ok: "bitoffset_ok bitoffset_example"
proof -
  have field: "bit_field b off n < 2 ^ n" for b off n by (simp add: bit_field_def)
  have "unat (of_nat (bit_field b off n) :: u32) < 2 ^ n" if "n < 32" for b off n
    using field[of b off n] by (rule order.strict_trans1[rotated]) (simp add: unat_of_nat)
  moreover have "2 * \<bar>bo_Int32 bitoffset_example b off n\<bar> \<le> 2 ^ n" for b off n
  proof -
    have "int (bit_field b off n) < 2 ^ n" using field[of b off n] by (metis of_nat_less_iff of_nat_numeral of_nat_power)
    moreover have "2 * bit_field b off n < 2 ^ n \<longleftrightarrow> 2 * int (bit_field b off n) < 2 ^ n"
      by (metis of_nat_less_iff of_nat_mult of_nat_numeral of_nat_power)
    ultimately show ?thesis by (auto simp: bitoffset_example_def)
  qed
  ultimately show ?thesis by (simp add: bitoffset_ok_def bitoffset_example_def bit_field_byte)
qed

section \<open>Properties\<close>

text \<open>
  The decoded position of a mapper.  A longitude between -180 and 180 degrees, transmitted as
  the mapper does, is decoded exactly, to the millionth of a degree, on both sides of Greenwich;
  the decoded latitude is the plain value of its 28 bits and is never negative; the height is within
  three times the range of its 13 bits, without wrap-around.
\<close>

theorem discovery_position:
  assumes "bitoffset_ok B" "NewDiscoveryPacketFromBytes phy = Inr dp" "\<bar>x\<bar> \<le> 180000000"
    and "unat (bo_Uint32 B (drop 9 phy) 32 29) = lon_field x"
  shows "\<exists>lat h. LatLon B dp = Ret (lat, x) \<and> lat = int (unat (bo_Uint32 B (drop 9 phy) 4 28)) \<and>
           0 \<le> lat \<and> lat < 2 ^ 28 \<and>
           Height B dp = Ret (3 * h) \<and> h = bo_Int32 B (drop 9 phy) 61 13 \<and> \<bar>h\<bar> \<le> 4096"
proof -
  have dp: "mp_b dp = phy" "length phy = 87"
    using assms(2) by (auto simp: NewDiscoveryPacketFromBytes_def split: if_splits)
  have payload: "mp_Payload dp = Ret (drop 9 phy)" using dp by (simp add: mp_Payload_def)
  have lat: "unat (bo_Uint32 B (drop 9 phy) 4 28) < 2 ^ 28" by (rule bitoffset_range(1)[OF assms(1)]) simp
  have h: "2 * \<bar>bo_Int32 B (drop 9 phy) 61 13\<bar> \<le> 2 ^ 13" by (rule bitoffset_range(2)[OF assms(1)]) simp
  have "sint (bo_Uint32 B (drop 9 phy) 4 28) = int (unat (bo_Uint32 B (drop 9 phy) 4 28))"
    using lat by (simp add: sint_u32)
  moreover have "sint (word_of_int (bo_Int32 B (drop 9 phy) 61 13 * 3) :: u32) = bo_Int32 B (drop 9 phy) 61 13 * 3"
    by (rule sint_word_of_int_u32) (use h in auto)
  moreover have "int (unat (bo_Uint32 B (drop 9 phy) 4 28)) < int (2 ^ 28)"
    using lat by (simp only: of_nat_less_iff)
  ultimately show ?thesis
    using h lon_decode[OF assms(3,4)] payload by (simp add: LatLon_def Height_def Let_def)
qed

theorem discovery_position_witness:
  "\<exists>lat h. LatLon bitoffset_example \<lparr>mp_b = replicate 87 0\<rparr> = Ret (lat, 0) \<and>
     Height bitoffset_example \<lparr>mp_b = replicate 87 0\<rparr> = Ret (3 * h)"
proof -
  have zero: "nat_of_bytes (replicate n 0) = 0" for n by (induction n) simp_all
  have "unat (bo_Uint32 bitoffset_example (drop 9 (replicate 87 0)) 32 29) = lon_field 0"
    by (simp add: bitoffset_example_def bit_field_def zero lon_field_def)
  then show ?thesis
    using discovery_position[OF bitoffset_example_ok, of "replicate 87 0" "\<lparr>mp_b = replicate 87 0\<rparr>" 0]
    by (auto simp: NewDiscoveryPacketFromBytes_def)
qed

text \<open>
  The device address that is set in a packet is the one that is read back, and setting it leaves
  the frame type, the port and the payload as they were.
\<close>

theorem SetDevAddr_roundtrip:
  assumes "bitoffset_ok B" "9 \<le> length (mp_b mp)"
  shows "mp_DevAddr B (SetDevAddr B mp a) = a \<and> mp_Payload (SetDevAddr B mp a) = mp_Payload mp \<and>
         mp_b (SetDevAddr B mp a) ! 0 = mp_b mp ! 0 \<and> mp_b (SetDevAddr B mp a) ! 8 = mp_b mp ! 8"
proof (cases a)
  case (DevAddr a0 a1 a2 a3)
  have "mp_DevAddr B (SetDevAddr B mp a) = a"
    unfolding DevAddr SetDevAddr_bytes[OF assms] using assms by (subst mp_DevAddr_bytes) simp_all
  then show ?thesis
    unfolding DevAddr SetDevAddr_bytes[OF assms] by (simp add: mp_Payload_def)
qed

theorem SetDevAddr_roundtrip_witness:
  "mp_DevAddr bitoffset_example (SetDevAddr bitoffset_example NewDownlinkTransmitPacket (DevAddr 1 2 3 4)) =
     DevAddr 1 2 3 4"
proof -
  have "9 \<le> length (mp_b NewDownlinkTransmitPacket)" by (simp add: NewDownlinkTransmitPacket_def)
  then show ?thesis using SetDevAddr_roundtrip[OF bitoffset_example_ok] by blast
qed

end
