(* ===== verification/Mapper_Forwarder.thy ===== *)
theory Mapper_Forwarder
  imports Gateway_Store Messages Mapper_Packet Sha256
begin

text \<open>
  Coverage mapping in the forwarder: \<^verbatim>\<open>forwarder/coverage_client.go\<close> (the index of mapping services and the
  delivery of receipts) and \<^verbatim>\<open>forwarder/mapper.go\<close> (mapper packets received by gateways).  Signature
  recovery, the protobuf encoding, the LRU cache and HTTP are parameters.  The delivery that the
  handlers do in a goroutine is returned as a job; \<open>discovery_reply\<close> is what the goroutine does
  with the answer.
\<close>

section \<open>forwarder/coverage\_client.go\<close>

record CoverageClient =
  cc_index :: "cell \<rightharpoonup> string"
  cc_indexRefreshInterval :: "duration option"
  cc_indexEndpoint :: "string option"

record mapping_config =
  mc_IndexEndpoint :: "string option"
  mc_UpdateInterval :: "duration option"

definition NewCoverageClient :: "mapping_config option \<Rightarrow> CoverageClient go" where
  "NewCoverageClient cfg =
     go_bind (deref cfg) (\<lambda>api.
       Ret \<lparr>cc_index = Map.empty, cc_indexRefreshInterval = mc_UpdateInterval api,
            cc_indexEndpoint = mc_IndexEndpoint api\<rparr>)"

text \<open>How the request for the index ends: an error before the reply, or a status and the decoded body.\<close>

datatype index_answer = IndexFails go_error | IndexReply nat "(cell \<rightharpoonup> string) result"

definition refreshCoverageMappingIndex ::
  "(string \<Rightarrow> index_answer) \<Rightarrow> CoverageClient \<Rightarrow> go_error option \<times> CoverageClient" where
  "refreshCoverageMappingIndex get cc =
     (case cc_indexEndpoint cc of
        None \<Rightarrow> (Some (Errorf ''no index-endpoint defined, not refreshing index''), cc)
      | Some endpoint \<Rightarrow>
          (case get endpoint of
             IndexFails err \<Rightarrow> (Some err, cc)
           | IndexReply status body \<Rightarrow>
               if status \<noteq> 200 then (Some (Errorf ''invalid response status-code''), cc)
               else (case body of
                       Inl err \<Rightarrow> (Some err, cc)
                     | Inr index \<Rightarrow> (None, cc\<lparr>cc_index := index\<rparr>))))"

text \<open>The refresh at the start and one for each expiry of the timer; \<open>gets\<close> are the answers of the
  network at those times.\<close>

fun coverage_Run :: "(string \<Rightarrow> index_answer) list \<Rightarrow> CoverageClient \<Rightarrow> CoverageClient" where
  "coverage_Run [] cc = cc"
| "coverage_Run (get # gets) cc =
     (let cc = snd (refreshCoverageMappingIndex get cc)
      in if cc_indexRefreshInterval cc = None then cc else coverage_Run gets cc)"

definition getCoverageMappingServiceUrlForRegion :: "CoverageClient \<Rightarrow> cell \<Rightarrow> string" where
  "getCoverageMappingServiceUrlForRegion cc region =
     (case cc_index cc region of None \<Rightarrow> [] | Some service \<Rightarrow> service)"

record packet_receipt =
  pr_Frequency :: u32
  pr_Rssi :: int
  pr_LoraSnr :: u32
  pr_SpreadingFactor :: u32
  pr_Bandwidth :: u32
  pr_CodeRate :: string
  pr_Phy :: bytes
  pr_Time :: "time option"
  pr_GatewaySignature :: bytes

record downlink_transmit_request =
  dtr_Frequency :: u32
  dtr_Power :: int
  dtr_Bandwidth :: u32
  dtr_SpreadingFactor :: u32
  dtr_Phy :: bytes

record mapper_lib =
  ml_Ecrecover :: "bytes \<Rightarrow> bytes \<Rightarrow> bytes result"
  ml_UnmarshalPubkey :: "bytes \<Rightarrow> public_key result"
  ml_VerifySignature :: "bytes \<Rightarrow> bytes \<Rightarrow> bytes \<Rightarrow> bool"
  ml_CodeRate_String :: "code_rate \<Rightarrow> string"
  ml_MarshalDiscovery :: "packet_receipt \<Rightarrow> bytes result"
  ml_MarshalConfirmation :: "packet_receipt \<Rightarrow> bytes result"
  ml_UnmarshalResponse :: "bytes \<Rightarrow> downlink_transmit_request option result"

datatype post_answer = PostFails go_error | PostReply nat "bytes result"

definition DeliverDiscoveryPacketReceipt ::
  "mapper_lib \<Rightarrow> (string \<Rightarrow> bytes \<Rightarrow> post_answer) \<Rightarrow> CoverageClient \<Rightarrow> cell \<Rightarrow> packet_receipt \<Rightarrow>
   downlink_transmit_request option result" where
  "DeliverDiscoveryPacketReceipt M post cc region dpr =
     (case ml_MarshalDiscovery M dpr of
        Inl err \<Rightarrow> Inl err
      | Inr b \<Rightarrow>
          let service = getCoverageMappingServiceUrlForRegion cc region
          in if service = [] then Inl (Errorf ''no coverage-mapping-service found for region'')
             else (case post (service @ ''/mapping/discovery'') b of
                     PostFails err \<Rightarrow> Inl err
                   | PostReply status body \<Rightarrow>
                       (case body of
                          Inl err \<Rightarrow> Inl err
                        | Inr reply \<Rightarrow>
                            if 400 \<le> status then Inl (Errorf ''received error from coverage-service'')
                            else ml_UnmarshalResponse M reply)))"

definition DeliverDownlinkConfirmationPacketReceipt ::
  "mapper_lib \<Rightarrow> (string \<Rightarrow> bytes \<Rightarrow> post_answer) \<Rightarrow> CoverageClient \<Rightarrow> cell \<Rightarrow> packet_receipt \<Rightarrow>
   go_error option" where
  "DeliverDownlinkConfirmationPacketReceipt M post cc region dpr =
     (case ml_MarshalConfirmation M dpr of
        Inl err \<Rightarrow> Some err
      | Inr b \<Rightarrow>
          let service = getCoverageMappingServiceUrlForRegion cc region
          in if service = [] then Some (Errorf ''no coverage-mapping-service found for region'')
             else (case post (service @ ''/mapping/downlink'') b of
                     PostFails err \<Rightarrow> Some err
                   | PostReply status body \<Rightarrow>
                       if 400 \<le> status then Some (Errorf ''received error from coverage-service'') else None))"

section \<open>forwarder/mapper.go\<close>

text \<open>The cache from mapper addresses to regions, and what is relied on: an entry just added is
  there.\<close>

record 'c lru =
  lru_New :: 'c
  lru_Add :: "string \<Rightarrow> string \<Rightarrow> 'c \<Rightarrow> 'c"
  lru_Get :: "string \<Rightarrow> 'c \<Rightarrow> string option \<times> 'c"

definition lru_ok :: "'c lru \<Rightarrow> bool" where
  "lru_ok C \<longleftrightarrow> (\<forall>k v c. fst (lru_Get C k (lru_Add C k v c)) = Some v)"

record 'c mapper_forwarder =
  mf_mapperRegionCache :: 'c
  mf_coverageClient :: CoverageClient

definition NewMapperForwarder :: "'c lru \<Rightarrow> mapping_config option \<Rightarrow> 'c mapper_forwarder go" where
  "NewMapperForwarder C cfg =
     go_bind (NewCoverageClient cfg) (\<lambda>cc.
       Ret \<lparr>mf_mapperRegionCache = lru_New C, mf_coverageClient = cc\<rparr>)"

fun devaddr_first :: "devaddr \<Rightarrow> byte" where
  "devaddr_first (DevAddr a b c d) = a"

text \<open>\<^verbatim>\<open>frame.TxInfo.GetModulation()\<close> is nil-safe.\<close>

definition IsMaybeMapperPacket :: "uplink_frame \<Rightarrow> mac_payload \<Rightarrow> bool" where
  "IsMaybeMapperPacket frame payload =
     (if lora_sf (frame_lora frame) \<noteq> 7 then False
      else if lora_bandwidth (frame_lora frame) \<noteq> 125000 then False
      else case mac_FPort payload of
             None \<Rightarrow> False
           | Some fport \<Rightarrow>
               if fport \<noteq> 1 \<and> fport \<noteq> 2 then False
               else if devaddr_first (mac_DevAddr payload) \<noteq> 2 then False
               else True)"

datatype mapper_job =
    DiscoveryJob cell packet_receipt uplink_frame gateway
  | ConfirmationJob cell packet_receipt

record mapper_env =
  me_E :: eth_lib
  me_B :: bitoffset_lib
  me_H :: h3_lib
  me_M :: mapper_lib

text \<open>
  Both handlers check the signature over the first 22 bytes.  The signature is a slice of the
  payload, so that subtracting 27 from its last byte changes the payload that is delivered.
\<close>

definition mapper_phy :: "bytes \<Rightarrow> bytes" where
  "mapper_phy phy = phy[86 := phy ! 86 - 27]"

definition mapper_signer :: "mapper_env \<Rightarrow> bytes \<Rightarrow> public_key option" where
  "mapper_signer V phy =
     (let M = me_M V; h = sha256 (take 22 phy); sig = drop 22 (mapper_phy phy)
      in case ml_Ecrecover M h sig of
           Inl err \<Rightarrow> None
         | Inr pkb \<Rightarrow>
             (case ml_UnmarshalPubkey M pkb of
                Inl err \<Rightarrow> None
              | Inr pk \<Rightarrow> if ml_VerifySignature M pkb h (take 64 sig) then Some pk else None))"

definition packet_receipt_of :: "mapper_env \<Rightarrow> uplink_frame \<Rightarrow> packet_receipt go" where
  "packet_receipt_of V frame =
     go_bind (deref (uf_TxInfo frame)) (\<lambda>ti.
     go_bind (deref (uf_RxInfo frame)) (\<lambda>ri.
       Ret \<lparr>pr_Frequency = ti_Frequency ti, pr_Rssi = ri_Rssi ri, pr_LoraSnr = ri_Snr ri,
            pr_SpreadingFactor = lora_sf (frame_lora frame), pr_Bandwidth = lora_bandwidth (frame_lora frame),
            pr_CodeRate = ml_CodeRate_String (me_M V)
              (case frame_lora frame of None \<Rightarrow> CR_UNDEFINED | Some l \<Rightarrow> lm_CodeRate l),
            pr_Phy = mapper_phy (uf_PhyPayload frame), pr_Time = ri_Time ri, pr_GatewaySignature = []\<rparr>))"

definition sign_receipt ::
  "mapper_env \<Rightarrow> (packet_receipt \<Rightarrow> bytes result) \<Rightarrow> gateway \<Rightarrow> packet_receipt \<Rightarrow> packet_receipt option" where
  "sign_receipt V marshal gw dpr =
     (case marshal dpr of
        Inl err \<Rightarrow> None
      | Inr b \<Rightarrow>
          (case eth_Sign (me_E V) (sha256 b) (PrivateKey gw) of
             Inl err \<Rightarrow> None
           | Inr sig \<Rightarrow> Some (dpr\<lparr>pr_GatewaySignature := sig\<rparr>)))"

definition mapper_address :: "mapper_env \<Rightarrow> public_key \<Rightarrow> string" where
  "mapper_address V pk = Address_String (me_E V) (PubkeyToAddress (me_E V) pk)"

definition handleDiscoveryPacket ::
  "mapper_env \<Rightarrow> 'c lru \<Rightarrow> ('s, 'e) gateway_store \<Rightarrow> 's \<Rightarrow> uplink_frame \<Rightarrow> 'c mapper_forwarder \<Rightarrow>
   (mapper_job option \<times> 'c mapper_forwarder) go" where
  "handleDiscoveryPacket V C S gs frame mc =
     go_bind (deref (uf_RxInfo frame)) (\<lambda>ri.
       case gs_ByNetworkIDString S gs (ri_GatewayId ri) of
         Inl err \<Rightarrow> Ret (None, mc)
       | Inr gw \<Rightarrow>
           (case NewDiscoveryPacketFromBytes (uf_PhyPayload frame) of
              Inl err \<Rightarrow> Ret (None, mc)
            | Inr dp \<Rightarrow>
                (case mapper_signer V (uf_PhyPayload frame) of
                   None \<Rightarrow> Ret (None, mc)
                 | Some pk \<Rightarrow>
                     go_bind (LatLonFloat (me_B V) dp) (\<lambda>(lat, lon).
                       let region = LatLonToCell (me_H V) lat lon 1;
                           mc = mc\<lparr>mf_mapperRegionCache :=
                                   lru_Add C (mapper_address V pk) (cell_String (me_H V) region)
                                     (mf_mapperRegionCache mc)\<rparr>
                       in go_bind (packet_receipt_of V frame) (\<lambda>dpr.
                            case sign_receipt V (ml_MarshalDiscovery (me_M V)) gw dpr of
                              None \<Rightarrow> Ret (None, mc)
                            | Some dpr \<Rightarrow>
                                Ret (Some (DiscoveryJob region dpr
                                       (frame\<lparr>uf_PhyPayload := mapper_phy (uf_PhyPayload frame)\<rparr>) gw), mc))))))"

definition handleDownlinkConfirmationPacket ::
  "mapper_env \<Rightarrow> 'c lru \<Rightarrow> ('s, 'e) gateway_store \<Rightarrow> 's \<Rightarrow> uplink_frame \<Rightarrow> 'c mapper_forwarder \<Rightarrow>
   (mapper_job option \<times> 'c mapper_forwarder) go" where
  "handleDownlinkConfirmationPacket V C S gs frame mc =
     go_bind (deref (uf_RxInfo frame)) (\<lambda>ri.
       case gs_ByNetworkIDString S gs (ri_GatewayId ri) of
         Inl err \<Rightarrow> Ret (None, mc)
       | Inr gw \<Rightarrow>
           (case NewDownlinkConfirmationPacketFromBytes (uf_PhyPayload frame) of
              Inl err \<Rightarrow> Ret (None, mc)
            | Inr dp \<Rightarrow>
                (case mapper_signer V (uf_PhyPayload frame) of
                   None \<Rightarrow> Ret (None, mc)
                 | Some pk \<Rightarrow>
                     (case lru_Get C (mapper_address V pk) (mf_mapperRegionCache mc) of
                        (None, c) \<Rightarrow> Ret (None, mc\<lparr>mf_mapperRegionCache := c\<rparr>)
                      | (Some regionStr, c) \<Rightarrow>
                          let mc = mc\<lparr>mf_mapperRegionCache := c\<rparr>
                          in case CellFromString (me_H V) regionStr of
                               Inl err \<Rightarrow> Ret (None, mc)
                             | Inr region \<Rightarrow>
                                 go_bind (packet_receipt_of V frame) (\<lambda>dcpr.
                                   case sign_receipt V (ml_MarshalConfirmation (me_M V)) gw dcpr of
                                     None \<Rightarrow> Ret (None, mc)
                                   | Some dcpr \<Rightarrow> Ret (Some (ConfirmationJob region dcpr), mc))))))"

definition HandleMapperPacket ::
  "mapper_env \<Rightarrow> 'c lru \<Rightarrow> ('s, 'e) gateway_store \<Rightarrow> 's \<Rightarrow> uplink_frame \<Rightarrow> mac_payload \<Rightarrow> 'c mapper_forwarder \<Rightarrow>
   (mapper_job option \<times> 'c mapper_forwarder) go" where
  "HandleMapperPacket V C S gs frame mac mc =
     go_bind (deref (mac_FPort mac)) (\<lambda>fport.
       if fport = 1 then handleDiscoveryPacket V C S gs frame mc
       else if fport = 2 then handleDownlinkConfirmationPacket V C S gs frame mc
       else Ret (None, mc))"

text \<open>The downlink that a gateway selected by the mapping service sends to the mapper; \<open>rnd\<close> and \<open>uuid\<close>
  are the random ids.\<close>

definition discovery_reply ::
  "u32 \<Rightarrow> bytes \<Rightarrow> uplink_frame \<Rightarrow> downlink_transmit_request option result \<Rightarrow> downlink_frame option go" where
  "discovery_reply rnd uuid frame resp =
     (case resp of
        Inl err \<Rightarrow> Ret None
      | Inr None \<Rightarrow> Ret None
      | Inr (Some dtr) \<Rightarrow>
          go_bind (deref (uf_RxInfo frame)) (\<lambda>ri.
            let dfi = \<lparr>di_PhyPayload = dtr_Phy dtr,
                       di_TxInfo = Some \<lparr>dti_Frequency = dtr_Frequency dtr, dti_Power = dtr_Power dtr,
                         dti_Timing = Some Immediately,
                         dti_Modulation = Some (Modulation_Lora
                           \<lparr>lm_Bandwidth = dtr_Bandwidth dtr, lm_SpreadingFactor = dtr_SpreadingFactor dtr,
                            lm_CodeRate = CR_4_5, lm_PolarizationInversion = True\<rparr>),
                         dti_Context = ri_Context ri, dti_Antenna = 0, dti_Board = 0\<rparr>\<rparr>
            in Ret (Some \<lparr>df_DownlinkId = rnd, df_DownlinkIdLegacy = uuid, df_Items = [dfi],
                          df_GatewayId = ri_GatewayId ri\<rparr>)))"

section \<open>Facts\<close>

lemma length_mapper_phy [simp]: "length (mapper_phy phy) = length phy"
  by (simp add: mapper_phy_def)

lemma take_mapper_phy [simp]: "n \<le> 86 \<Longrightarrow> take n (mapper_phy phy) = take n phy"
  by (simp add: mapper_phy_def)

lemma packet_receipt_of_phy:
  "packet_receipt_of V frame = Ret dpr \<Longrightarrow> pr_Phy dpr = mapper_phy (uf_PhyPayload frame)"
  by (auto simp: packet_receipt_of_def go_bind_eq_Ret)

lemma sign_receipt_phy: "sign_receipt V m gw dpr = Some dpr' \<Longrightarrow> pr_Phy dpr' = pr_Phy dpr"
  by (auto simp: sign_receipt_def split: sum.splits)

lemma packet_receipt_of_total:
  "uf_TxInfo frame = Some ti \<Longrightarrow> uf_RxInfo frame = Some ri \<Longrightarrow> \<exists>dpr. packet_receipt_of V frame = Ret dpr"
  by (simp add: packet_receipt_of_def)

text \<open>A packet that passes the filter has transmission data.\<close>

lemma IsMaybeMapperPacket_tx: "IsMaybeMapperPacket frame mac \<Longrightarrow> \<exists>ti. uf_TxInfo frame = Some ti"
  by (cases "uf_TxInfo frame") (simp_all add: IsMaybeMapperPacket_def frame_lora_def lora_sf_def)

lemma LatLonFloat_total: "NewDiscoveryPacketFromBytes phy = Inr dp \<Longrightarrow> LatLonFloat B dp \<noteq> Panic"
  by (auto simp: NewDiscoveryPacketFromBytes_def LatLonFloat_def LatLon_def mp_Payload_def Let_def
      split: if_splits)

lemma handleDiscovery_no_panic:
  assumes "uf_TxInfo frame = Some ti" "uf_RxInfo frame = Some ri"
  shows "handleDiscoveryPacket V C S gs frame mc \<noteq> Panic"
proof -
  obtain dpr where "packet_receipt_of V frame = Ret dpr" using packet_receipt_of_total[OF assms] by blast
  then show ?thesis
    using assms LatLonFloat_total
    by (auto simp: handleDiscoveryPacket_def go_bind_eq_Panic Let_def
        split: sum.splits option.splits dest: LatLonFloat_total)
qed

text \<open>What led to a delivery of a discovery packet.\<close>

lemma handleDiscovery_job:
  assumes h: "handleDiscoveryPacket V C S gs frame mc = Ret (Some job, mc1)"
  obtains ri gw dp pk lat lon dpr dpr' where "uf_RxInfo frame = Some ri"
    "gs_ByNetworkIDString S gs (ri_GatewayId ri) = Inr gw"
    "NewDiscoveryPacketFromBytes (uf_PhyPayload frame) = Inr dp"
    "mapper_signer V (uf_PhyPayload frame) = Some pk" "LatLonFloat (me_B V) dp = Ret (lat, lon)"
    "packet_receipt_of V frame = Ret dpr" "sign_receipt V (ml_MarshalDiscovery (me_M V)) gw dpr = Some dpr'"
    "job = DiscoveryJob (LatLonToCell (me_H V) lat lon 1) dpr'
       (frame\<lparr>uf_PhyPayload := mapper_phy (uf_PhyPayload frame)\<rparr>) gw"
    "mf_mapperRegionCache mc1 = lru_Add C (mapper_address V pk)
       (cell_String (me_H V) (LatLonToCell (me_H V) lat lon 1)) (mf_mapperRegionCache mc)"
proof -
  obtain ri where ri: "uf_RxInfo frame = Some ri"
    using h by (cases "uf_RxInfo frame") (auto simp: handleDiscoveryPacket_def)
  obtain gw where gw: "gs_ByNetworkIDString S gs (ri_GatewayId ri) = Inr gw"
    using h ri by (cases "gs_ByNetworkIDString S gs (ri_GatewayId ri)") (auto simp: handleDiscoveryPacket_def)
  obtain dp where dp: "NewDiscoveryPacketFromBytes (uf_PhyPayload frame) = Inr dp"
    using h ri gw by (cases "NewDiscoveryPacketFromBytes (uf_PhyPayload frame)") (auto simp: handleDiscoveryPacket_def)
  obtain pk where pk: "mapper_signer V (uf_PhyPayload frame) = Some pk"
    using h ri gw dp by (cases "mapper_signer V (uf_PhyPayload frame)") (auto simp: handleDiscoveryPacket_def)
  obtain lat lon where pos: "LatLonFloat (me_B V) dp = Ret (lat, lon)"
    using LatLonFloat_total[OF dp, of "me_B V"] by (cases "LatLonFloat (me_B V) dp") auto
  obtain dpr where dpr: "packet_receipt_of V frame = Ret dpr"
    using h ri gw dp pk pos by (cases "packet_receipt_of V frame") (auto simp: handleDiscoveryPacket_def Let_def)
  obtain dpr' where sgn: "sign_receipt V (ml_MarshalDiscovery (me_M V)) gw dpr = Some dpr'"
    using h ri gw dp pk pos dpr
    by (cases "sign_receipt V (ml_MarshalDiscovery (me_M V)) gw dpr") (auto simp: handleDiscoveryPacket_def Let_def)
  show thesis
    by (rule that[OF ri gw dp pk pos dpr sgn])
      (use h ri gw dp pk pos dpr sgn in \<open>auto simp: handleDiscoveryPacket_def Let_def\<close>)
qed

lemma handleConfirmation_no_panic:
  assumes "uf_TxInfo frame = Some ti" "uf_RxInfo frame = Some ri"
  shows "handleDownlinkConfirmationPacket V C S gs frame mc \<noteq> Panic"
proof -
  obtain dpr where "packet_receipt_of V frame = Ret dpr" using packet_receipt_of_total[OF assms] by blast
  then show ?thesis
    using assms
    by (auto simp: handleDownlinkConfirmationPacket_def go_bind_eq_Panic Let_def
        split: sum.splits option.splits prod.splits)
qed

section \<open>Concrete packages\<close>

definition lru_example :: "(string \<rightharpoonup> string) lru" where
  "lru_example = \<lparr>lru_New = Map.empty, lru_Add = (\<lambda>k v c. c(k \<mapsto> v)), lru_Get = (\<lambda>k c. (c k, c))\<rparr>"

definition h3_example :: h3_lib where
  "h3_example =
     \<lparr>CellFromString = (\<lambda>s. Inr (of_nat (length s))), cell_String = (\<lambda>c. replicate (unat c) (CHR ''x'')),
      cell_LatLon = (\<lambda>c. (0, 0)), LatLonToCell = (\<lambda>lat lon res. 5)\<rparr>"

definition mapper_lib_example :: mapper_lib where
  "mapper_lib_example =
     \<lparr>ml_Ecrecover = (\<lambda>h s. Inr h), ml_UnmarshalPubkey = (\<lambda>b. Inr \<lparr>pk_X = 2, pk_Y = 3\<rparr>),
      ml_VerifySignature = (\<lambda>b h s. length s = 64), ml_CodeRate_String = (\<lambda>c. ''CR_4_5''),
      ml_MarshalDiscovery = (\<lambda>r. Inr (pr_Phy r)), ml_MarshalConfirmation = (\<lambda>r. Inr (pr_Phy r)),
      ml_UnmarshalResponse = (\<lambda>b. Inr None)\<rparr>"

definition mapper_env_example :: mapper_env where
  "mapper_env_example = \<lparr>me_E = eth_example, me_B = bitoffset_example, me_H = h3_example, me_M = mapper_lib_example\<rparr>"

definition mapper_frame_example :: uplink_frame where
  "mapper_frame_example =
     \<lparr>uf_PhyPayload = replicate 87 0,
      uf_TxInfo = Some \<lparr>ti_Frequency = 868100000, ti_Modulation = Some (Modulation_Lora
        \<lparr>lm_Bandwidth = 125000, lm_SpreadingFactor = 7, lm_CodeRate = CR_4_5, lm_PolarizationInversion = False\<rparr>)\<rparr>,
      uf_RxInfo = Some \<lparr>ri_GatewayId = ''gw'', ri_UplinkId = 1, ri_Rssi = - 60, ri_Snr = 0, ri_Channel = 0, ri_RfChain = 0, ri_Board = 0,
        ri_Antenna = 0, ri_CrcStatus = CRC_OK, ri_Time = None, ri_TimeSinceGpsEpoch = None, ri_FineTimeSinceGpsEpoch = None,
        ri_Context = [], ri_Location = None, ri_Metadata = Map.empty\<rparr>\<rparr>"

text \<open>A store of one gateway, as far as the mapper asks it.\<close>

definition one_gateway :: gateway where
  "one_gateway = NewGateway eth_example eui64_zero (key_example 4)"

section \<open>Properties\<close>

text \<open>
  A mapper's downlink confirmation goes to the mapping service of its discovery.  After a
  discovery packet was accepted for delivery, a confirmation with a signature of the same mapper,
  received by a known gateway that can sign the receipt, is delivered, and for the region of
  the discovery packet, whatever gateway received which of the two.
\<close>

theorem mapper_confirmation_region:
  assumes "lru_ok C" "\<forall>c. CellFromString (me_H V) (cell_String (me_H V) c) = Inr c"
    and "handleDiscoveryPacket V C S gs f1 mc = Ret (Some (DiscoveryJob region dpr1 f1' gw1), mc1)"
    and "uf_RxInfo f2 = Some ri2" "gs_ByNetworkIDString S gs (ri_GatewayId ri2) = Inr gw2"
    and "length (uf_PhyPayload f2) = 87" "mapper_signer V (uf_PhyPayload f2) = mapper_signer V (uf_PhyPayload f1)"
    and "packet_receipt_of V f2 = Ret dcpr" "sign_receipt V (ml_MarshalConfirmation (me_M V)) gw2 dcpr = Some dcpr'"
  shows "\<exists>mc2. handleDownlinkConfirmationPacket V C S gs f2 mc1 = Ret (Some (ConfirmationJob region dcpr'), mc2)"
proof -
  obtain pk where pk: "mapper_signer V (uf_PhyPayload f1) = Some pk"
    and mc1: "mf_mapperRegionCache mc1 =
      lru_Add C (mapper_address V pk) (cell_String (me_H V) region) (mf_mapperRegionCache mc)"
    using assms(3) by (rule handleDiscovery_job) auto
  obtain c where get: "lru_Get C (mapper_address V pk) (mf_mapperRegionCache mc1) =
      (Some (cell_String (me_H V) region), c)"
    using assms(1) mc1 unfolding lru_ok_def by (metis prod.collapse)
  show ?thesis
    using assms(2,4-9) pk get
    by (simp add: handleDownlinkConfirmationPacket_def NewDownlinkConfirmationPacketFromBytes_def Let_def)
qed

theorem mapper_confirmation_region_witness:
  "\<exists>S :: (unit, unit) gateway_store. \<exists>region dpr f gw mc1 dcpr mc2.
     handleDiscoveryPacket mapper_env_example lru_example S () mapper_frame_example
       \<lparr>mf_mapperRegionCache = Map.empty, mf_coverageClient = \<lparr>cc_index = Map.empty, cc_indexRefreshInterval = None,
         cc_indexEndpoint = None\<rparr>\<rparr> = Ret (Some (DiscoveryJob region dpr f gw), mc1) \<and>
     handleDownlinkConfirmationPacket mapper_env_example lru_example S () mapper_frame_example mc1 =
       Ret (Some (ConfirmationJob region dcpr), mc2)"
proof -
  define S :: "(unit, unit) gateway_store" where
    "S = \<lparr>gs_Count = (\<lambda>_. 1), gs_Range = (\<lambda>_ _. [one_gateway]), gs_ByLocalID = (\<lambda>_ _. Inr one_gateway),
      gs_ByLocalIDString = (\<lambda>_ _. Inr one_gateway), gs_ContainsByLocalID = (\<lambda>_ _. True),
      gs_ByNetworkID = (\<lambda>_ _. Inr one_gateway), gs_ByNetworkIDString = (\<lambda>_ _. Inr one_gateway),
      gs_ContainsByNetID = (\<lambda>_ _. True), gs_ByThingsIxID = (\<lambda>_ _. Inr one_gateway),
      gs_Add = (\<lambda>s _ _ _. (Inr one_gateway, s)), gs_SyncGatewayByLocalID = (\<lambda>s _ _ _. (Inr one_gateway, s)),
      gs_UniqueGatewayBands = (\<lambda>_ _. \<lparr>ub_bands = {}, ub_plans = {}\<rparr>), gs_DefaultFrequencyPlan = (\<lambda>_. [])\<rparr>"
  let ?mc = "\<lparr>mf_mapperRegionCache = Map.empty, mf_coverageClient = \<lparr>cc_index = Map.empty, cc_indexRefreshInterval = None,
         cc_indexEndpoint = None\<rparr>\<rparr>"
  have store: "gs_ByNetworkIDString S () n = Inr one_gateway" for n by (simp add: S_def)
  obtain pk where pk: "mapper_signer mapper_env_example (replicate 87 0) = Some pk"
    by (simp add: mapper_signer_def mapper_env_example_def mapper_lib_example_def Let_def)
  obtain dpr where dpr: "packet_receipt_of mapper_env_example mapper_frame_example = Ret dpr"
    using packet_receipt_of_total by (fastforce simp: mapper_frame_example_def)
  obtain d1 where d1: "sign_receipt mapper_env_example (ml_MarshalDiscovery (me_M mapper_env_example)) one_gateway dpr = Some d1"
    by (simp add: sign_receipt_def mapper_env_example_def mapper_lib_example_def eth_example_def)
  obtain d2 where d2: "sign_receipt mapper_env_example (ml_MarshalConfirmation (me_M mapper_env_example)) one_gateway dpr = Some d2"
    by (simp add: sign_receipt_def mapper_env_example_def mapper_lib_example_def eth_example_def)
  have phy: "uf_PhyPayload mapper_frame_example = replicate 87 0" by (simp add: mapper_frame_example_def)
  obtain ri where ri: "uf_RxInfo mapper_frame_example = Some ri" by (simp add: mapper_frame_example_def)
  have new: "NewDiscoveryPacketFromBytes (uf_PhyPayload mapper_frame_example) = Inr \<lparr>mp_b = uf_PhyPayload mapper_frame_example\<rparr>"
    by (simp add: NewDiscoveryPacketFromBytes_def phy)
  obtain lat lon where pos: "LatLonFloat (me_B mapper_env_example) \<lparr>mp_b = uf_PhyPayload mapper_frame_example\<rparr> = Ret (lat, lon)"
    using LatLonFloat_total[OF new, of "me_B mapper_env_example"]
    by (cases "LatLonFloat (me_B mapper_env_example) \<lparr>mp_b = uf_PhyPayload mapper_frame_example\<rparr>") auto
  obtain region f mc1 where disc: "handleDiscoveryPacket mapper_env_example lru_example S () mapper_frame_example ?mc =
      Ret (Some (DiscoveryJob region d1 f one_gateway), mc1)"
    using ri store new pk[folded phy] pos dpr d1 by (simp add: handleDiscoveryPacket_def Let_def)
  have lru: "lru_ok lru_example" by (simp add: lru_ok_def lru_example_def)
  have h3: "\<forall>c. CellFromString (me_H mapper_env_example) (cell_String (me_H mapper_env_example) c) = Inr c"
    by (simp add: mapper_env_example_def h3_example_def)
  show ?thesis
    using mapper_confirmation_region[OF lru h3 disc ri store _ refl dpr d2] disc phy length_replicate by metis
qed

end
