(* ===== verification/Database.thy ===== *)
theory Database
  imports Gateway
begin

text \<open>
  The database package (\<^verbatim>\<open>database/config.go\<close>, \<^verbatim>\<open>database/pool.go\<close>, \<^verbatim>\<open>database/utils.go\<close>), the row types
  of the two tables (\<^verbatim>\<open>pgGateway\<close> in \<^verbatim>\<open>gateway/store_postgres.go\<close>, \<^verbatim>\<open>RecordedUnknownGateway\<close> in
  \<^verbatim>\<open>gateway/unknown_recorder.go\<close>) and the database as the code sees it.  gorm, cockroach-go and the
  server behind them are the record \<open>gorm\<close> of functions on a database state \<open>'d\<close>; what the
  code relies on is \<open>gorm_ok\<close>: primary keys are unique, a statement that succeeds does what it says, a
  transaction commits what its body did or has no effect.
\<close>

section \<open>Configuration and errors\<close>

record db_config =
  dc_URI :: string
  dc_Database :: string
  dc_Host :: string
  dc_User :: string
  dc_Password :: string
  dc_Port :: string
  dc_SSLMode :: string

text \<open>The parts that are set, under their keys; the code ranges over them as a Go map, in an order
  that is not defined.\<close>

definition dsn_part :: "db_config \<Rightarrow> string \<rightharpoonup> string" where
  "dsn_part cfg key =
     (let set = (\<lambda>v. if v \<noteq> [] then Some v else None)
      in if key = ''host'' then set (dc_Host cfg)
         else if key = ''user'' then set (dc_User cfg)
         else if key = ''password'' then set (dc_Password cfg)
         else if key = ''database'' then set (dc_Database cfg)
         else if key = ''port'' then set (dc_Port cfg)
         else if key = ''sslmode'' then set (dc_SSLMode cfg)
         else None)"

definition dsn_keys :: "string list" where
  "dsn_keys = [''host'', ''user'', ''password'', ''database'', ''port'', ''sslmode'']"

fun dsn_loop :: "(string \<rightharpoonup> string) \<Rightarrow> string list \<Rightarrow> string \<Rightarrow> string" where
  "dsn_loop parts [] acc = acc"
| "dsn_loop parts (key # keys) acc =
     (case parts key of
        None \<Rightarrow> dsn_loop parts keys acc
      | Some val \<Rightarrow> dsn_loop parts keys (acc @ key @ ''='' @ val @ '' ''))"

definition dsn :: "string list \<Rightarrow> db_config \<Rightarrow> string" where
  "dsn order cfg = (if dc_URI cfg \<noteq> [] then dc_URI cfg else dsn_loop (dsn_part cfg) order [])"

definition IsErrUniqueViolation :: "go_error \<Rightarrow> bool" where
  "IsErrUniqueViolation err = (case err of PgError code \<Rightarrow> code = ''23505'' | _ \<Rightarrow> False)"

section \<open>Tables\<close>

record pgGateway =
  pgg_LocalID :: eui64
  pgg_PrivateKey :: bytes
  pgg_Owner :: "address option"
  pgg_Version :: "u8 option"
  pgg_Details :: "gateway_details option"
  pgg_LastSynced :: "time option"
  pgg_CreatedAt :: time

record RecordedUnknownGateway =
  ug_LocalID :: eui64
  ug_FirstSeen :: "int option"

text \<open>A statement answers with an error or with success, and leaves a database state.\<close>

type_synonym 'd statement = "'d \<Rightarrow> go_error option \<times> 'd"

record 'd gorm =
  db_AutoMigrate :: "'d statement"
  db_ExecuteTx :: "'d statement \<Rightarrow> 'd statement"
  db_CreateGateway :: "pgGateway \<Rightarrow> 'd statement"
  db_SaveGateway :: "pgGateway \<Rightarrow> 'd statement"
  db_FindGateways :: "'d \<Rightarrow> pgGateway list result"
  db_DeleteUnknown :: "eui64 \<Rightarrow> 'd statement"
  db_CreateUnknown :: "RecordedUnknownGateway \<Rightarrow> 'd statement"
  db_FindUnknown :: "'d \<Rightarrow> RecordedUnknownGateway list result"
  db_gateways :: "'d \<Rightarrow> eui64 \<rightharpoonup> pgGateway"
  db_unknown :: "'d \<Rightarrow> eui64 \<rightharpoonup> RecordedUnknownGateway"

text \<open>The database may fill in columns of its own; the id, the key and the registry data are stored
  as given.\<close>

definition same_row :: "pgGateway \<Rightarrow> pgGateway \<Rightarrow> bool" where
  "same_row row row' \<longleftrightarrow>
     pgg_LocalID row' = pgg_LocalID row \<and> pgg_PrivateKey row' = pgg_PrivateKey row \<and>
     pgg_Owner row' = pgg_Owner row \<and> pgg_Version row' = pgg_Version row"

definition tx_ok :: "'d gorm \<Rightarrow> bool" where
  "tx_ok D \<longleftrightarrow>
     (\<forall>f d d'. db_ExecuteTx D f d = (None, d') \<longrightarrow> f d = (None, d')) \<and>
     (\<forall>f d e d'. db_ExecuteTx D f d = (Some e, d') \<longrightarrow> d' = d)"

definition gateway_table_ok :: "'d gorm \<Rightarrow> bool" where
  "gateway_table_ok D \<longleftrightarrow>
     (\<forall>d rows. db_FindGateways D d = Inr rows \<longrightarrow> distinct (map pgg_LocalID rows) \<and>
        (\<forall>l r. db_gateways D d l = Some r \<longleftrightarrow> r \<in> set rows \<and> pgg_LocalID r = l)) \<and>
     (\<forall>row d d'. db_CreateGateway D row d = (None, d') \<longrightarrow>
        db_gateways D d (pgg_LocalID row) = None \<and> db_unknown D d' = db_unknown D d \<and>
        (\<exists>row'. same_row row row' \<and> db_gateways D d' = (db_gateways D d)(pgg_LocalID row \<mapsto> row'))) \<and>
     (\<forall>row d d'. db_SaveGateway D row d = (None, d') \<longrightarrow> db_unknown D d' = db_unknown D d \<and>
        (\<exists>row'. same_row row row' \<and> db_gateways D d' = (db_gateways D d)(pgg_LocalID row \<mapsto> row')))"

definition unknown_table_ok :: "'d gorm \<Rightarrow> bool" where
  "unknown_table_ok D \<longleftrightarrow>
     (\<forall>d rows. db_FindUnknown D d = Inr rows \<longrightarrow> distinct (map ug_LocalID rows) \<and>
        (\<forall>l r. db_unknown D d l = Some r \<longleftrightarrow> r \<in> set rows \<and> ug_LocalID r = l)) \<and>
     (\<forall>l d d'. db_DeleteUnknown D l d = (None, d') \<longrightarrow>
        db_gateways D d' = db_gateways D d \<and> db_unknown D d' = (db_unknown D d)(l := None)) \<and>
     (\<forall>row d d'. db_CreateUnknown D row d = (None, d') \<longrightarrow>
        db_unknown D d (ug_LocalID row) = None \<and> db_gateways D d' = db_gateways D d \<and>
        db_unknown D d' = (db_unknown D d)(ug_LocalID row \<mapsto> row)) \<and>
     (\<forall>row d e d'. db_CreateUnknown D row d = (Some e, d') \<longrightarrow> d' = d \<and>
        (IsErrUniqueViolation e \<longrightarrow> db_unknown D d (ug_LocalID row) \<noteq> None))"

definition gorm_ok :: "'d gorm \<Rightarrow> bool" where
  "gorm_ok D \<longleftrightarrow> tx_ok D \<and> gateway_table_ok D \<and> unknown_table_ok D"

section \<open>Facts\<close>

lemma tx_committed: "gorm_ok D \<Longrightarrow> db_ExecuteTx D f d = (None, d') \<Longrightarrow> f d = (None, d')"
  by (simp add: gorm_ok_def tx_ok_def)

lemma tx_rolled_back: "gorm_ok D \<Longrightarrow> db_ExecuteTx D f d = (Some e, d') \<Longrightarrow> d' = d"
  by (simp add: gorm_ok_def tx_ok_def)

lemma FindGateways_rows:
  assumes "gorm_ok D" "db_FindGateways D d = Inr rows"
  shows "distinct (map pgg_LocalID rows)"
    "db_gateways D d l = Some r \<longleftrightarrow> r \<in> set rows \<and> pgg_LocalID r = l"
  using assms unfolding gorm_ok_def gateway_table_ok_def by blast+

lemma CreateGateway_row:
  assumes "gorm_ok D" "db_CreateGateway D row d = (None, d')"
  obtains row' where "db_gateways D d (pgg_LocalID row) = None" "same_row row row'"
    "db_gateways D d' = (db_gateways D d)(pgg_LocalID row \<mapsto> row')" "db_unknown D d' = db_unknown D d"
  using assms unfolding gorm_ok_def gateway_table_ok_def by blast

lemma SaveGateway_row:
  assumes "gorm_ok D" "db_SaveGateway D row d = (None, d')"
  obtains row' where "same_row row row'"
    "db_gateways D d' = (db_gateways D d)(pgg_LocalID row \<mapsto> row')" "db_unknown D d' = db_unknown D d"
  using assms unfolding gorm_ok_def gateway_table_ok_def by blast

lemma DeleteUnknown_row:
  assumes "gorm_ok D" "db_DeleteUnknown D l d = (None, d')"
  shows "db_gateways D d' = db_gateways D d" "db_unknown D d' = (db_unknown D d)(l := None)"
  using assms unfolding gorm_ok_def unknown_table_ok_def by blast+

lemma CreateUnknown_row:
  assumes "gorm_ok D" "db_CreateUnknown D row d = (r, d')"
  shows "r = None \<Longrightarrow> db_unknown D d (ug_LocalID row) = None"
    "r = None \<Longrightarrow> db_unknown D d' = (db_unknown D d)(ug_LocalID row \<mapsto> row)"
    "r = None \<Longrightarrow> db_gateways D d' = db_gateways D d" "r = Some e \<Longrightarrow> d' = d"
    "r = Some e \<Longrightarrow> IsErrUniqueViolation e \<Longrightarrow> db_unknown D d (ug_LocalID row) \<noteq> None"
  using assms unfolding gorm_ok_def unknown_table_ok_def by blast+

text \<open>Every key that is set appears in the DSN, whatever the order of the iteration.\<close>

lemma dsn_loop_concat:
  "dsn_loop parts keys acc =
     acc @ concat (map (\<lambda>k. case parts k of None \<Rightarrow> [] | Some v \<Rightarrow> k @ ''='' @ v @ '' '') keys)"
  by (induction keys arbitrary: acc) (simp_all split: option.split)

section \<open>A database in memory\<close>

text \<open>The tables as lists of rows, the first row of a key being the visible one.\<close>

fun first_rows :: "('a \<Rightarrow> 'k) \<Rightarrow> 'a list \<Rightarrow> 'a list" where
  "first_rows key [] = []"
| "first_rows key (r # rs) = r # filter (\<lambda>x. key x \<noteq> key r) (first_rows key rs)"

definition row_map :: "('a \<Rightarrow> 'k) \<Rightarrow> 'a list \<Rightarrow> 'k \<rightharpoonup> 'a" where
  "row_map key rs k = List.find (\<lambda>r. key r = k) rs"

type_synonym mem_db = "pgGateway list \<times> RecordedUnknownGateway list"

definition mem_gorm :: "mem_db gorm" where
  "mem_gorm =
     \<lparr>db_AutoMigrate = (\<lambda>d. (None, d)),
      db_ExecuteTx = (\<lambda>f d. case f d of (None, d') \<Rightarrow> (None, d') | (Some e, d') \<Rightarrow> (Some e, d)),
      db_CreateGateway = (\<lambda>r d. if row_map pgg_LocalID (fst d) (pgg_LocalID r) \<noteq> None
          then (Some (PgError ''23505''), d) else (None, (r # fst d, snd d))),
      db_SaveGateway = (\<lambda>r d. (None, (r # fst d, snd d))),
      db_FindGateways = (\<lambda>d. Inr (first_rows pgg_LocalID (fst d))),
      db_DeleteUnknown = (\<lambda>l d. (None, (fst d, filter (\<lambda>r. ug_LocalID r \<noteq> l) (snd d)))),
      db_CreateUnknown = (\<lambda>r d. if row_map ug_LocalID (snd d) (ug_LocalID r) \<noteq> None
          then (Some (PgError ''23505''), d) else (None, (fst d, r # snd d))),
      db_FindUnknown = (\<lambda>d. Inr (first_rows ug_LocalID (snd d))),
      db_gateways = (\<lambda>d. row_map pgg_LocalID (fst d)),
      db_unknown = (\<lambda>d. row_map ug_LocalID (snd d))\<rparr>"

lemma row_map_Nil [simp]: "row_map key [] k = None"
  by (simp add: row_map_def)

lemma row_map_Cons: "row_map key (r # rs) = (row_map key rs)(key r \<mapsto> r)"
  by (auto simp: row_map_def fun_eq_iff)

lemma row_map_filter: "row_map key (filter (\<lambda>r. key r \<noteq> k) rs) = (row_map key rs)(k := None)"
  by (induction rs) (auto simp: row_map_Cons fun_eq_iff)

lemma first_rows_distinct: "distinct (map key (first_rows key rs))"
  by (induction rs) (auto simp: distinct_map_filter)

lemma first_rows_row_map:
  "row_map key rs k = Some r \<longleftrightarrow> r \<in> set (first_rows key rs) \<and> key r = k"
  by (induction rs) (auto simp: row_map_Cons split: if_splits)

lemma row_map_None:
  "row_map key rs k = None \<longleftrightarrow> (\<forall>r \<in> set (first_rows key rs). key r \<noteq> k)"
  by (cases "row_map key rs k") (use first_rows_row_map[of key rs k] in auto)

lemma mem_gorm_ok: "gorm_ok mem_gorm"
proof -
  have "tx_ok mem_gorm"
    by (auto simp: tx_ok_def mem_gorm_def split: prod.splits option.splits)
  moreover have "gateway_table_ok mem_gorm"
    by (auto simp: gateway_table_ok_def mem_gorm_def first_rows_distinct first_rows_row_map row_map_Cons row_map_None
        same_row_def split: if_splits)
  moreover have "unknown_table_ok mem_gorm"
    by (auto simp: unknown_table_ok_def mem_gorm_def first_rows_distinct first_rows_row_map row_map_Cons row_map_None
        row_map_filter split: if_splits)
  ultimately show ?thesis by (simp add: gorm_ok_def)
qed

end
