(* ===== verification/Unknown_Recorder.thy ===== *)
theory Unknown_Recorder
  imports Database
begin

text \<open>
  Recording of unknown gateways, \<^verbatim>\<open>gateway/unknown_recorder.go\<close>: the interface
  \<^verbatim>\<open>UnknownGatewayLogger\<close> as a method table with its contract, and the three implementations: none, a
  YAML file, a database table.  The YAML package is the record \<open>yaml_unknown_lib\<close>; a decoded node is
  a \<open>yaml_node\<close>, which \<^verbatim>\<open>UnmarshalYAML\<close> turns into a record.
\<close>

section \<open>Decoding\<close>

datatype yaml_scalar = YInt int | YString string | YNoScalar

datatype yaml_node = YMapping "(string \<times> yaml_scalar) list" | YScalarString string | YOtherNode

text \<open>\<^verbatim>\<open>val["local_id"].(string)\<close> panics when the key is missing or its value is no string.\<close>

definition UnmarshalYAML :: "lorawan_lib \<Rightarrow> yaml_node \<Rightarrow> RecordedUnknownGateway result go" where
  "UnmarshalYAML L node =
     (case node of
        YMapping val \<Rightarrow>
          (case map_of val ''local_id'' of
             Some (YString s) \<Rightarrow>
               (case Eui64FromString L s of
                  Inl _ \<Rightarrow> Ret (Inl (Errorf ''invalid local_id''))
                | Inr localID \<Rightarrow>
                    (case map_of val ''first_seen'' of
                       None \<Rightarrow> Ret (Inr \<lparr>ug_LocalID = localID, ug_FirstSeen = Some 0\<rparr>)
                     | Some (YInt v) \<Rightarrow> Ret (Inr \<lparr>ug_LocalID = localID, ug_FirstSeen = Some v\<rparr>)
                     | Some _ \<Rightarrow> Ret (Inl (Errorf ''invalid last seen''))))
           | _ \<Rightarrow> Panic)
      | YScalarString s \<Rightarrow>
          (case Eui64FromString L s of
             Inl _ \<Rightarrow> Ret (Inl (Errorf ''invalid local_id''))
           | Inr localID \<Rightarrow> Ret (Inr \<lparr>ug_LocalID = localID, ug_FirstSeen = None\<rparr>))
      | YOtherNode \<Rightarrow> Ret (Inl (Errorf ''invalid unknown gateway'')))"

fun unmarshal_all :: "lorawan_lib \<Rightarrow> yaml_node list \<Rightarrow> RecordedUnknownGateway list result go" where
  "unmarshal_all L [] = Ret (Inr [])"
| "unmarshal_all L (n # ns) =
     (case UnmarshalYAML L n of
        Panic \<Rightarrow> Panic
      | Ret (Inl err) \<Rightarrow> Ret (Inl err)
      | Ret (Inr g) \<Rightarrow>
          (case unmarshal_all L ns of
             Panic \<Rightarrow> Panic
           | Ret (Inl err) \<Rightarrow> Ret (Inl err)
           | Ret (Inr gs) \<Rightarrow> Ret (Inr (g # gs))))"

section \<open>The interface\<close>

record ('s, 'e) unknown_gateway_logger =
  ul_Record :: "'s \<Rightarrow> 'e \<Rightarrow> eui64 \<Rightarrow> go_error option \<times> 's"
  ul_Recorded :: "'s \<Rightarrow> RecordedUnknownGateway list result"

fun record_all ::
  "('s, 'e) unknown_gateway_logger \<Rightarrow> ('e \<times> eui64) list \<Rightarrow> 's \<Rightarrow> (eui64 \<times> go_error option) list \<times> 's" where
  "record_all U [] s = ([], s)"
| "record_all U ((e, l) # ls) s =
     (let (r, s') = ul_Record U s e l; (rs, s'') = record_all U ls s' in ((l, r) # rs, s''))"

locale unknown_logger =
  fixes U :: "('s, 'e) unknown_gateway_logger"
    and inv :: "'s \<Rightarrow> bool"
    and ids :: "'s \<Rightarrow> eui64 set"
  assumes Record_inv: "inv s \<Longrightarrow> ul_Record U s e l = (r, s') \<Longrightarrow> inv s'"
    and Record_ids: "inv s \<Longrightarrow> ul_Record U s e l = (r, s') \<Longrightarrow>
        ids s' = (if r = None then insert l (ids s) else ids s)"
    and Recorded_once: "inv s \<Longrightarrow> ul_Recorded U s = Inr rs \<Longrightarrow>
        distinct (map ug_LocalID rs) \<and> ug_LocalID ` set rs = ids s"
begin

lemma record_all_ids:
  assumes "inv s" "record_all U ls s = (rs, s')"
  shows "inv s'" "ids s' = ids s \<union> {l. (l, None) \<in> set rs}"
  using assms
proof (induction ls arbitrary: s rs)
  case (Cons x ls)
  obtain e l where x: "x = (e, l)" by (cases x)
  {
    case 1
    obtain r s1 where r: "ul_Record U s e l = (r, s1)" by (metis surj_pair)
    obtain rs1 where "record_all U ls s1 = (rs1, s')" using 1 x r by (auto split: prod.splits)
    then show ?case using Cons.IH(1)[OF Record_inv[OF 1(1) r]] by blast
  next
    case 2
    obtain r s1 where r: "ul_Record U s e l = (r, s1)" by (metis surj_pair)
    obtain rs1 where rs1: "record_all U ls s1 = (rs1, s')" "rs = (l, r) # rs1"
      using 2 x r by (auto split: prod.splits)
    then show ?case using Cons.IH(2)[OF Record_inv[OF 2(1) r] rs1(1)] Record_ids[OF 2(1) r] by auto
  }
qed auto

text \<open>However often gateways connect, each one whose recording succeeded is listed exactly once.\<close>

lemma recorded_exactly_once:
  assumes "inv s" "ids s = {}" "record_all U ls s = (rs, s')" "ul_Recorded U s' = Inr gs"
  shows "distinct (map ug_LocalID gs) \<and> ug_LocalID ` set gs = {l. (l, None) \<in> set rs}"
  using Recorded_once[OF record_all_ids(1)[OF assms(1,3)] assms(4)] record_all_ids(2)[OF assms(1,3)]
    assms(2) by simp

end

section \<open>No recording\<close>

definition noUnknown_Record :: "unit \<Rightarrow> eui64 \<Rightarrow> go_error option \<times> unit" where
  "noUnknown_Record st localID = (None, st)"

definition noUnknown_Recorded :: "unit \<Rightarrow> RecordedUnknownGateway list result" where
  "noUnknown_Recorded st = Inl ErrRecordingUnknownGatewaysDisabled"

section \<open>Recording to a file\<close>

record yaml_unknown_lib =
  yu_Marshal :: "RecordedUnknownGateway list \<Rightarrow> bytes result"
  yu_Decode :: "bytes \<Rightarrow> yaml_node list result"
  yu_EOF :: go_error

record yamlUnknownGatewayLogger =
  yul_outputFile :: string
  yul_recorded :: "RecordedUnknownGateway list"
  yul_file :: "bytes option"

datatype record_io = RecordAppendOk | RecordOpenFails go_error | RecordWriteFails go_error nat

definition yul_already :: "yamlUnknownGatewayLogger \<Rightarrow> eui64 \<Rightarrow> bool" where
  "yul_already st localID = list_ex (\<lambda>recg. ug_LocalID recg = localID) (yul_recorded st)"

definition yul_write :: "bytes \<Rightarrow> yamlUnknownGatewayLogger \<Rightarrow> yamlUnknownGatewayLogger" where
  "yul_write b st = st\<lparr>yul_file := Some (case yul_file st of None \<Rightarrow> b | Some f \<Rightarrow> f @ b)\<rparr>"

text \<open>\<^verbatim>\<open>now\<close> is the Unix time.  The lookup and the append are two critical sections of the mutex; the
  method is modelled for callers that do not overlap.\<close>

definition yul_Record ::
  "yaml_unknown_lib \<Rightarrow> yamlUnknownGatewayLogger \<Rightarrow> int \<times> record_io \<Rightarrow> eui64 \<Rightarrow>
   go_error option \<times> yamlUnknownGatewayLogger" where
  "yul_Record Y st env localID =
     (if yul_already st localID then (None, st)
      else let recg = \<lparr>ug_LocalID = localID, ug_FirstSeen = Some (fst env)\<rparr>
           in case yu_Marshal Y [recg] of
                Inl err \<Rightarrow> (Some err, st)
              | Inr enc \<Rightarrow>
                  (case snd env of
                     RecordOpenFails err \<Rightarrow> (Some err, st)
                   | RecordWriteFails err n \<Rightarrow> (Some err, yul_write (take n enc) st)
                   | RecordAppendOk \<Rightarrow>
                       (None, (yul_write enc st)\<lparr>yul_recorded := yul_recorded st @ [recg]\<rparr>)))"

definition yul_Recorded :: "yamlUnknownGatewayLogger \<Rightarrow> RecordedUnknownGateway list result" where
  "yul_Recorded st = Inr (yul_recorded st)"

text \<open>What opening the file answers; anything but a missing file is fatal.\<close>

datatype open_io = OpenedFile bytes | FileMissing | OpenRefused

definition recordUnkownGatewaysToFile ::
  "lorawan_lib \<Rightarrow> yaml_unknown_lib \<Rightarrow> open_io \<Rightarrow> string \<Rightarrow> yamlUnknownGatewayLogger go" where
  "recordUnkownGatewaysToFile L Y io unknownFile =
     (let logger = (\<lambda>already fl. \<lparr>yul_outputFile = unknownFile, yul_recorded = already, yul_file = fl\<rparr>)
      in case io of
           OpenedFile raw \<Rightarrow>
             (case yu_Decode Y raw of
                Inl err \<Rightarrow> if err \<noteq> yu_EOF Y then Panic else Ret (logger [] (Some raw))
              | Inr nodes \<Rightarrow>
                  (case unmarshal_all L nodes of
                     Panic \<Rightarrow> Panic
                   | Ret (Inl err) \<Rightarrow> Panic
                   | Ret (Inr already) \<Rightarrow> Ret (logger already (Some raw))))
         | FileMissing \<Rightarrow> Ret (logger [] None)
         | OpenRefused \<Rightarrow> Panic)"

definition yul_table :: "yaml_unknown_lib \<Rightarrow> (yamlUnknownGatewayLogger, int \<times> record_io) unknown_gateway_logger" where
  "yul_table Y = \<lparr>ul_Record = yul_Record Y, ul_Recorded = yul_Recorded\<rparr>"

section \<open>Recording to the database\<close>

definition pgu_tx :: "'d gorm \<Rightarrow> RecordedUnknownGateway \<Rightarrow> 'd statement" where
  "pgu_tx D recg tx =
     (case db_CreateUnknown D recg tx of
        (None, tx) \<Rightarrow> (None, tx)
      | (Some err, tx) \<Rightarrow> if IsErrUniqueViolation err then (None, tx) else (Some err, tx))"

definition pgu_Record :: "'d gorm \<Rightarrow> 'd \<Rightarrow> int \<Rightarrow> eui64 \<Rightarrow> go_error option \<times> 'd" where
  "pgu_Record D d now localID =
     db_ExecuteTx D (pgu_tx D \<lparr>ug_LocalID = localID, ug_FirstSeen = Some now\<rparr>) d"

definition pgu_Recorded :: "'d gorm \<Rightarrow> 'd \<Rightarrow> RecordedUnknownGateway list result" where
  "pgu_Recorded D d = db_FindUnknown D d"

definition recordUnkownGatewaysToPostgresql :: "'d gorm \<Rightarrow> 'd \<Rightarrow> 'd go" where
  "recordUnkownGatewaysToPostgresql D d =
     (case db_AutoMigrate D d of (Some err, d) \<Rightarrow> Panic | (None, d) \<Rightarrow> Ret d)"

definition pgu_table :: "'d gorm \<Rightarrow> ('d, int) unknown_gateway_logger" where
  "pgu_table D = \<lparr>ul_Record = pgu_Record D, ul_Recorded = pgu_Recorded D\<rparr>"

section \<open>Choosing the logger\<close>

record ForwarderGatewayRecordUnknownConfig =
  ru_File :: string
  ru_Postgresql :: "bool option"

datatype unknown_logger_kind = LogToPostgres | LogToFile string | LogNothing

definition NewUnknownGatewayLogger ::
  "ForwarderGatewayRecordUnknownConfig option \<Rightarrow> unknown_logger_kind" where
  "NewUnknownGatewayLogger cfg =
     (case cfg of
        None \<Rightarrow> LogNothing
      | Some c \<Rightarrow>
          if ru_Postgresql c = Some True then LogToPostgres
          else if ru_File c \<noteq> [] then LogToFile (ru_File c)
          else LogNothing)"

section \<open>Both recorders keep the contract\<close>

definition yul_inv :: "yamlUnknownGatewayLogger \<Rightarrow> bool" where
  "yul_inv st \<longleftrightarrow> distinct (map ug_LocalID (yul_recorded st))"

definition yul_ids :: "yamlUnknownGatewayLogger \<Rightarrow> eui64 set" where
  "yul_ids st = ug_LocalID ` set (yul_recorded st)"

lemma yul_already_iff: "yul_already st l \<longleftrightarrow> l \<in> yul_ids st"
  by (auto simp: yul_already_def yul_ids_def list_ex_iff)

lemma yul_write_recorded [simp]: "yul_recorded (yul_write b st) = yul_recorded st"
  by (simp add: yul_write_def)

lemma yul_Record_cases:
  assumes "yul_Record Y st env l = (r, st')"
  obtains (known) "r = None" "st' = st" "l \<in> yul_ids st"
    | (new) t where "r = None" "l \<notin> yul_ids st"
        "yul_recorded st' = yul_recorded st @ [\<lparr>ug_LocalID = l, ug_FirstSeen = Some t\<rparr>]"
    | (failed) err where "r = Some err" "yul_recorded st' = yul_recorded st"
  using assms
  by (auto simp: yul_Record_def yul_already_iff Let_def split: if_splits sum.splits record_io.splits)

interpretation yaml_unknown: unknown_logger "yul_table Y" yul_inv yul_ids for Y
proof unfold_locales
  fix s e l r s' rs
  show "yul_inv s \<Longrightarrow> ul_Record (yul_table Y) s e l = (r, s') \<Longrightarrow> yul_inv s'"
    by (auto simp: yul_table_def yul_inv_def yul_ids_def elim!: yul_Record_cases)
  show "yul_inv s \<Longrightarrow> ul_Record (yul_table Y) s e l = (r, s') \<Longrightarrow>
      yul_ids s' = (if r = None then insert l (yul_ids s) else yul_ids s)"
    by (auto simp: yul_table_def yul_ids_def elim!: yul_Record_cases)
  show "yul_inv s \<Longrightarrow> ul_Recorded (yul_table Y) s = Inr rs \<Longrightarrow>
      distinct (map ug_LocalID rs) \<and> ug_LocalID ` set rs = yul_ids s"
    by (simp add: yul_table_def yul_Recorded_def yul_inv_def yul_ids_def)
qed

lemma pgu_Record_cases:
  assumes D: "gorm_ok D" and rec: "pgu_Record D d t l = (r, d')"
  obtains (known) "r = None" "d' = d" "db_unknown D d l \<noteq> None"
    | (new) g where "r = None" "db_unknown D d' = (db_unknown D d)(l \<mapsto> g)"
    | (failed) err where "r = Some err" "d' = d"
proof (cases r)
  case (Some err)
  then show thesis using failed tx_rolled_back[OF D] rec by (auto simp: pgu_Record_def)
next
  case None
  let ?g = "\<lparr>ug_LocalID = l, ug_FirstSeen = Some t\<rparr>"
  have tx: "pgu_tx D ?g d = (None, d')" using tx_committed[OF D] rec None by (simp add: pgu_Record_def)
  obtain a d1 where a: "db_CreateUnknown D ?g d = (a, d1)" by (metis surj_pair)
  show thesis
  proof (cases a)
    case None
    then show thesis using new[of ?g] \<open>r = None\<close> CreateUnknown_row(2)[OF D a] tx a by (auto simp: pgu_tx_def)
  next
    case (Some err)
    then have "IsErrUniqueViolation err" "d' = d1" using tx a by (auto simp: pgu_tx_def split: if_splits)
    then show thesis using known \<open>r = None\<close> CreateUnknown_row(4,5)[OF D a] Some by auto
  qed
qed

interpretation pg_unknown: unknown_logger "pgu_table D" "\<lambda>d. gorm_ok D" "\<lambda>d. dom (db_unknown D d)" for D
proof unfold_locales
  fix s e l r s' rs
  show "gorm_ok D \<Longrightarrow> gorm_ok D" .
  show "gorm_ok D \<Longrightarrow> ul_Record (pgu_table D) s e l = (r, s') \<Longrightarrow>
      dom (db_unknown D s') = (if r = None then insert l (dom (db_unknown D s)) else dom (db_unknown D s))"
    by (auto simp: pgu_table_def elim!: pgu_Record_cases)
  show "gorm_ok D \<Longrightarrow> ul_Recorded (pgu_table D) s = Inr rs \<Longrightarrow>
      distinct (map ug_LocalID rs) \<and> ug_LocalID ` set rs = dom (db_unknown D s)"
    unfolding gorm_ok_def unknown_table_ok_def pgu_table_def pgu_Recorded_def by force
qed

section \<open>Properties\<close>

text \<open>
  A gateway that connects many times is recorded once.  Starting without records, after any
  sequence of \<^verbatim>\<open>Record\<close> calls with any outcome of the file system or the database, \<^verbatim>\<open>Recorded\<close> lists
  exactly the gateways for which some call succeeded, each once, in the file recorder and in
  the database recorder.
\<close>

theorem unknown_recorded_once:
  assumes "gorm_ok D" "dom (db_unknown D d) = {}" "pgu_Recorded D d' = Inr pgs"
    and "record_all (pgu_table D) pls d = (prs, d')"
    and "yul_recorded st = []" "record_all (yul_table Y) ls st = (rs, st')"
  shows "distinct (map ug_LocalID pgs) \<and> ug_LocalID ` set pgs = {l. (l, None) \<in> set prs} \<and>
         distinct (map ug_LocalID (yul_recorded st')) \<and>
         ug_LocalID ` set (yul_recorded st') = {l. (l, None) \<in> set rs}"
proof -
  have pg: "ul_Recorded (pgu_table D) d' = Inr pgs" using assms(3) by (simp add: pgu_table_def)
  have y: "ul_Recorded (yul_table Y) st' = Inr (yul_recorded st')"
    by (simp add: yul_table_def yul_Recorded_def)
  have "yul_inv st" "yul_ids st = {}" using assms(5) by (simp_all add: yul_inv_def yul_ids_def)
  then show ?thesis
    using yaml_unknown.recorded_exactly_once[OF _ _ assms(6) y]
      pg_unknown.recorded_exactly_once[OF assms(1,2,4) pg] by blast
qed

definition yaml_unknown_example :: yaml_unknown_lib where
  "yaml_unknown_example = \<lparr>yu_Marshal = (\<lambda>gs. Inr [0]), yu_Decode = (\<lambda>b. Inr []), yu_EOF = Errorf ''EOF''\<rparr>"

theorem unknown_recorded_once_witness:
  "\<exists>prs d' pgs rs st'.
     record_all (pgu_table mem_gorm) [(1, eui64_zero), (2, eui64_zero)] ([], []) = (prs, d') \<and>
     pgu_Recorded mem_gorm d' = Inr pgs \<and> distinct (map ug_LocalID pgs) \<and>
     record_all (yul_table yaml_unknown_example)
       [((1, RecordAppendOk), eui64_zero), ((2, RecordAppendOk), eui64_zero)]
       \<lparr>yul_outputFile = ''unknown.yaml'', yul_recorded = [], yul_file = None\<rparr> = (rs, st') \<and>
     ug_LocalID ` set (yul_recorded st') = {l. (l, None) \<in> set rs}"
proof -
  obtain prs d' where pg: "record_all (pgu_table mem_gorm) [(1, eui64_zero), (2, eui64_zero)] ([], []) = (prs, d')"
    by (metis surj_pair)
  obtain rs st' where y: "record_all (yul_table yaml_unknown_example)
       [((1, RecordAppendOk), eui64_zero), ((2, RecordAppendOk), eui64_zero)]
       \<lparr>yul_outputFile = ''unknown.yaml'', yul_recorded = [], yul_file = None\<rparr> = (rs, st')"
    by (metis surj_pair)
  have "\<exists>pgs. pgu_Recorded mem_gorm d' = Inr pgs" by (simp add: pgu_Recorded_def mem_gorm_def)
  moreover have "dom (db_unknown mem_gorm ([], [])) = {}" by (auto simp: mem_gorm_def)
  ultimately show ?thesis
    using unknown_recorded_once[OF mem_gorm_ok _ _ pg _ y] pg y by auto
qed

end
