(* ===== verification/Yaml_Store.thy ===== *)
theory Yaml_Store
  imports Gateway_Store
begin

text \<open>
  The gateway store on a YAML file, \<^verbatim>\<open>gateway/store_yaml_file.go\<close>: three in-memory indexes and a file
  to which each added gateway is appended.  Each method runs under the store's mutex and is one
  step.  What the file system answers is an argument; the YAML package is the record \<open>yaml_lib\<close>.
\<close>

section \<open>State\<close>

record gatewayYAML =
  y_LocalID :: eui64
  y_PrivateKey :: string

record yaml_lib =
  yaml_Marshal :: "gatewayYAML list \<Rightarrow> bytes result"
  yaml_Unmarshal :: "bytes \<Rightarrow> gatewayYAML list result"

text \<open>What appending to the file relies on: one-element sequences, encoded and concatenated, decode
  to the sequence of the elements.\<close>

definition yaml_ok :: "yaml_lib \<Rightarrow> bool" where
  "yaml_ok Y \<longleftrightarrow>
     (\<forall>ys bs. list_all2 (\<lambda>y b. yaml_Marshal Y [y] = Inr b) ys bs \<longrightarrow> yaml_Unmarshal Y (concat bs) = Inr ys)"

record 'r yaml_store =
  ys_path :: string
  ys_byLocalId :: "eui64 \<rightharpoonup> gateway"
  ys_byNetId :: "eui64 \<rightharpoonup> gateway"
  ys_byThingsIxID :: "thingsix_id \<rightharpoonup> gateway"
  ys_registry :: 'r
  ys_defaultFrequencyPlan :: band_name
  ys_file :: "bytes option"

text \<open>Answers of the file system to the append in \<^verbatim>\<open>Add\<close> (a failing write may have written a part)
  and to the read in \<^verbatim>\<open>loadFromFile\<close>.\<close>

datatype append_io = AppendOk | OpenFails go_error | WriteFails go_error nat

datatype load_io = ReadOk | ReadFails go_error | MkdirFails | CreateFails

section \<open>Operations\<close>

definition ys_Count :: "'r yaml_store \<Rightarrow> nat" where
  "ys_Count st = card (dom (ys_byLocalId st))"

definition ys_Range :: "'r yaml_store \<Rightarrow> eui64 list \<Rightarrow> gateway list" where
  "ys_Range st order = range_loop Collector_Do (range_order (ys_byLocalId st) order) []"

definition ys_ByLocalID :: "'r yaml_store \<Rightarrow> eui64 \<Rightarrow> gateway result" where
  "ys_ByLocalID st localID =
     (case ys_byLocalId st localID of Some gw \<Rightarrow> Inr gw | None \<Rightarrow> Inl ErrNotFound)"

definition ys_ByLocalIDString :: "lorawan_lib \<Rightarrow> 'r yaml_store \<Rightarrow> string \<Rightarrow> gateway result" where
  "ys_ByLocalIDString L st ident =
     (case Eui64FromString L ident of Inl _ \<Rightarrow> Inl ErrInvalidGatewayID | Inr eui \<Rightarrow> ys_ByLocalID st eui)"

definition ys_ContainsByLocalID :: "'r yaml_store \<Rightarrow> eui64 \<Rightarrow> bool" where
  "ys_ContainsByLocalID st localID = (case ys_ByLocalID st localID of Inl _ \<Rightarrow> False | Inr _ \<Rightarrow> True)"

definition ys_ByNetworkID :: "'r yaml_store \<Rightarrow> eui64 \<Rightarrow> gateway result" where
  "ys_ByNetworkID st netID =
     (case ys_byNetId st netID of Some gw \<Rightarrow> Inr gw | None \<Rightarrow> Inl ErrNotFound)"

definition ys_ByNetworkIDString :: "lorawan_lib \<Rightarrow> 'r yaml_store \<Rightarrow> string \<Rightarrow> gateway result" where
  "ys_ByNetworkIDString L st ident =
     (case Eui64FromString L ident of Inl _ \<Rightarrow> Inl ErrInvalidGatewayID | Inr eui \<Rightarrow> ys_ByNetworkID st eui)"

definition ys_ContainsByNetID :: "'r yaml_store \<Rightarrow> eui64 \<Rightarrow> bool" where
  "ys_ContainsByNetID st netID = (case ys_ByNetworkID st netID of Inl _ \<Rightarrow> False | Inr _ \<Rightarrow> True)"

definition ys_ByThingsIxID :: "'r yaml_store \<Rightarrow> thingsix_id \<Rightarrow> gateway result" where
  "ys_ByThingsIxID st ident =
     (case ys_byThingsIxID st ident of Some gw \<Rightarrow> Inr gw | None \<Rightarrow> Inl ErrNotFound)"

definition ys_put :: "gateway \<Rightarrow> 'r yaml_store \<Rightarrow> 'r yaml_store" where
  "ys_put gw st =
     st\<lparr>ys_byLocalId := (ys_byLocalId st)(LocalID gw \<mapsto> gw),
        ys_byNetId := (ys_byNetId st)(NetworkID gw \<mapsto> gw),
        ys_byThingsIxID := (ys_byThingsIxID st)(ThingsIxID gw \<mapsto> gw)\<rparr>"

definition ys_SyncGatewayByLocalID ::
  "eth_lib \<Rightarrow> 'r registry \<Rightarrow> 'r yaml_store \<Rightarrow> eui64 \<Rightarrow> bool \<Rightarrow> gateway result \<times> 'r yaml_store" where
  "ys_SyncGatewayByLocalID E R st localID force =
     (case ys_ByLocalID st localID of
        Inl err \<Rightarrow> (Inl err, st)
      | Inr gw \<Rightarrow>
          (case reg_GatewayDetails R (ys_registry st) (ThingsIxID gw) force of
             (Inl err, r) \<Rightarrow> (Inr gw, st\<lparr>ys_registry := r\<rparr>)
           | (Inr (owner, version, details), r) \<Rightarrow>
               let synced = (NewOnboardedGateway E (LocalID gw) (PrivateKey gw) owner version)\<lparr>Details := details\<rparr>
               in (Inr synced, ys_put synced (st\<lparr>ys_registry := r\<rparr>))))"

definition ys_append :: "bytes \<Rightarrow> 'r yaml_store \<Rightarrow> 'r yaml_store" where
  "ys_append b st = st\<lparr>ys_file := Some (case ys_file st of None \<Rightarrow> b | Some f \<Rightarrow> f @ b)\<rparr>"

definition yaml_entry :: "eth_lib \<Rightarrow> gateway \<Rightarrow> gatewayYAML" where
  "yaml_entry E gw =
     \<lparr>y_LocalID = LocalID gw, y_PrivateKey = hex_encode (FromECDSA E (PrivateKey gw))\<rparr>"

definition ys_Add ::
  "eth_lib \<Rightarrow> yaml_lib \<Rightarrow> append_io \<Rightarrow> 'r yaml_store \<Rightarrow> eui64 \<Rightarrow> private_key \<Rightarrow>
   gateway result \<times> 'r yaml_store" where
  "ys_Add E Y io st localID key =
     (let gw = NewGateway E localID key
      in case yaml_Marshal Y [yaml_entry E gw] of
           Inl err \<Rightarrow> (Inl (Errorf ''unable to encode gateway''), st)
         | Inr encoded \<Rightarrow>
             if ys_byLocalId st (LocalID gw) \<noteq> None then (Inl ErrAlreadyExists, st)
             else (case io of
                     OpenFails err \<Rightarrow> (Inl err, st)
                   | WriteFails err n \<Rightarrow> (Inl err, ys_append (take n encoded) st)
                   | AppendOk \<Rightarrow> (Inr gw, ys_put gw (ys_append encoded st))))"

fun ys_sync_loop ::
  "eth_lib \<Rightarrow> 'r registry \<Rightarrow> gateway list \<Rightarrow> 'r yaml_store \<Rightarrow> 'r yaml_store" where
  "ys_sync_loop E R [] st = st"
| "ys_sync_loop E R (gw # gws) st =
     ys_sync_loop E R gws (snd (ys_SyncGatewayByLocalID E R st (LocalID gw) False))"

definition ys_syncAllGatewaysWithRegistry ::
  "eth_lib \<Rightarrow> 'r registry \<Rightarrow> eui64 list \<Rightarrow> 'r yaml_store \<Rightarrow> 'r yaml_store" where
  "ys_syncAllGatewaysWithRegistry E R order st = ys_sync_loop E R (ys_Range st order) st"

definition ys_UniqueGatewayBands :: "freq_lib \<Rightarrow> 'r yaml_store \<Rightarrow> eui64 list \<Rightarrow> unique_bands" where
  "ys_UniqueGatewayBands F st order =
     collect_bands F (ys_defaultFrequencyPlan st) (ys_Range st order) \<lparr>ub_bands = {}, ub_plans = {}\<rparr>"

definition ys_DefaultFrequencyPlan :: "'r yaml_store \<Rightarrow> band_name" where
  "ys_DefaultFrequencyPlan st = ys_defaultFrequencyPlan st"

definition yaml_asGateway :: "eth_lib \<Rightarrow> gatewayYAML \<Rightarrow> gateway result" where
  "yaml_asGateway E ygw =
     (case hex_decode (y_PrivateKey ygw) of
        None \<Rightarrow> Inl (Errorf ''hex'')
      | Some keyBytes \<Rightarrow>
          (case ToECDSA E keyBytes of
             Inl err \<Rightarrow> Inl err
           | Inr key \<Rightarrow>
               Inr \<lparr>LocalID = y_LocalID ygw, NetworkID = GatewayNetworkIDFromPrivateKey E key,
                    PrivateKey = key, PublicKey = sk_PublicKey key, PublicKeyBytes = [],
                    ThingsIxID = DeriveThingsIxID E (sk_PublicKey key),
                    Owner = None, Version = None, Details = None\<rparr>))"

type_synonym indexes = "(eui64 \<rightharpoonup> gateway) \<times> (eui64 \<rightharpoonup> gateway) \<times> (thingsix_id \<rightharpoonup> gateway)"

fun yaml_load_loop :: "eth_lib \<Rightarrow> gatewayYAML list \<Rightarrow> indexes \<Rightarrow> indexes result" where
  "yaml_load_loop E [] ix = Inr ix"
| "yaml_load_loop E (ygw # gws) (byLocalId, byNetId, byThingsIxID) =
     (case yaml_asGateway E ygw of
        Inl err \<Rightarrow> Inl (Errorf ''unable to load gateway'')
      | Inr gw \<Rightarrow>
          yaml_load_loop E gws
            (byLocalId(LocalID gw \<mapsto> gw), byNetId(NetworkID gw \<mapsto> gw), byThingsIxID(ThingsIxID gw \<mapsto> gw)))"

definition ys_loadFromFile ::
  "eth_lib \<Rightarrow> yaml_lib \<Rightarrow> load_io \<Rightarrow> 'r yaml_store \<Rightarrow> unit result \<times> 'r yaml_store" where
  "ys_loadFromFile E Y io st =
     (case io of
        ReadFails err \<Rightarrow> (Inl err, st)
      | _ \<Rightarrow>
          (case ys_file st of
             None \<Rightarrow>
               (case io of
                  MkdirFails \<Rightarrow> (Inl ErrStoreNotExists, st)
                | CreateFails \<Rightarrow> (Inl ErrStoreNotExists, st)
                | _ \<Rightarrow> (Inr (), st\<lparr>ys_file := Some []\<rparr>))
           | Some rawGateways \<Rightarrow>
               (case yaml_Unmarshal Y rawGateways of
                  Inl err \<Rightarrow> (Inl (Errorf ''gateway store corrupt''), st)
                | Inr gws \<Rightarrow>
                    (case yaml_load_loop E gws (Map.empty, Map.empty, Map.empty) of
                       Inl err \<Rightarrow> (Inl err, st)
                     | Inr (byLocalId, byNetId, byThingsIxID) \<Rightarrow>
                         (Inr (), st\<lparr>ys_byLocalId := byLocalId, ys_byNetId := byNetId,
                                     ys_byThingsIxID := byThingsIxID\<rparr>)))))"

text \<open>A failing load at start-up is fatal.  The order in which the gateways are synced is that of a
  map iteration: a function of the loaded indexes.\<close>

definition NewYamlFileStore ::
  "eth_lib \<Rightarrow> yaml_lib \<Rightarrow> 'r registry \<Rightarrow> load_io \<Rightarrow> ((eui64 \<rightharpoonup> gateway) \<Rightarrow> eui64 list) \<Rightarrow> bytes option \<Rightarrow>
   string \<Rightarrow> 'r \<Rightarrow> band_name \<Rightarrow> 'r yaml_store result go" where
  "NewYamlFileStore E Y R io order file path reg defaultFreqPlan =
     (if path = [] then Ret (Inl (Errorf ''invalid gateway store file''))
      else let store = \<lparr>ys_path = path, ys_byLocalId = Map.empty, ys_byNetId = Map.empty,
                        ys_byThingsIxID = Map.empty, ys_registry = reg,
                        ys_defaultFrequencyPlan = defaultFreqPlan, ys_file = file\<rparr>
           in case ys_loadFromFile E Y io store of
                (Inl err, _) \<Rightarrow> Panic
              | (Inr _, st) \<Rightarrow>
                  Ret (Inr (ys_syncAllGatewaysWithRegistry E R (order (ys_byLocalId st)) st)))"

text \<open>The method table of the store.\<close>

definition yaml_table ::
  "eth_lib \<Rightarrow> lorawan_lib \<Rightarrow> freq_lib \<Rightarrow> yaml_lib \<Rightarrow>
   ('r yaml_store, 'r registry \<times> append_io) gateway_store" where
  "yaml_table E L F Y =
     \<lparr>gs_Count = ys_Count, gs_Range = ys_Range, gs_ByLocalID = ys_ByLocalID,
      gs_ByLocalIDString = ys_ByLocalIDString L, gs_ContainsByLocalID = ys_ContainsByLocalID,
      gs_ByNetworkID = ys_ByNetworkID, gs_ByNetworkIDString = ys_ByNetworkIDString L,
      gs_ContainsByNetID = ys_ContainsByNetID, gs_ByThingsIxID = ys_ByThingsIxID,
      gs_Add = (\<lambda>st e. ys_Add E Y (snd e) st),
      gs_SyncGatewayByLocalID = (\<lambda>st e. ys_SyncGatewayByLocalID E (fst e) st),
      gs_UniqueGatewayBands = ys_UniqueGatewayBands F, gs_DefaultFrequencyPlan = ys_DefaultFrequencyPlan\<rparr>"

section \<open>Invariant\<close>

definition ys_inv :: "eth_lib \<Rightarrow> 'r yaml_store \<Rightarrow> bool" where
  "ys_inv E st \<longleftrightarrow>
     index_inv E (ys_byLocalId st) (ys_byNetId st) (ys_byThingsIxID st) \<and>
     index_tix_complete (ys_byLocalId st) (ys_byThingsIxID st)"

named_theorems ys_defs \<open>definitions of the YAML store operations\<close>

lemmas [ys_defs] = ys_ByLocalID_def ys_ByNetworkID_def ys_ByThingsIxID_def ys_ContainsByLocalID_def
  ys_ContainsByNetID_def ys_ByLocalIDString_def ys_ByNetworkIDString_def

lemma ys_put_sel [simp]:
  "ys_byLocalId (ys_put gw st) = (ys_byLocalId st)(LocalID gw \<mapsto> gw)"
  "ys_byNetId (ys_put gw st) = (ys_byNetId st)(NetworkID gw \<mapsto> gw)"
  "ys_byThingsIxID (ys_put gw st) = (ys_byThingsIxID st)(ThingsIxID gw \<mapsto> gw)"
  "ys_file (ys_put gw st) = ys_file st" "ys_registry (ys_put gw st) = ys_registry st"
  by (simp_all add: ys_put_def)

lemma ys_append_sel [simp]:
  "ys_byLocalId (ys_append b st) = ys_byLocalId st" "ys_byNetId (ys_append b st) = ys_byNetId st"
  "ys_byThingsIxID (ys_append b st) = ys_byThingsIxID st"
  by (simp_all add: ys_append_def)

lemma ys_inv_frame [simp]:
  "ys_inv E (st\<lparr>ys_registry := r\<rparr>) = ys_inv E st" "ys_inv E (st\<lparr>ys_file := f\<rparr>) = ys_inv E st"
  "ys_inv E (ys_append b st) = ys_inv E st"
  by (simp_all add: ys_inv_def)

lemma ys_inv_put:
  assumes "ys_inv E st" "gateway_wf E g"
    and "\<And>h. ys_byLocalId st (LocalID g) = Some h \<Longrightarrow> same_identity h g"
  shows "ys_inv E (ys_put g st)"
  using assms by (simp add: ys_inv_def index_inv_put index_tix_upd)

lemma ys_Add_cases:
  assumes "ys_Add E Y io st l k = (r, st')"
  obtains (ok) b where "r = Inr (NewGateway E l k)" "ys_byLocalId st l = None" "io = AppendOk"
      "yaml_Marshal Y [yaml_entry E (NewGateway E l k)] = Inr b"
      "st' = ys_put (NewGateway E l k) (ys_append b st)"
    | (error) err where "r = Inl err" "st' = st \<or> (\<exists>b. st' = ys_append b st)"
  using assms
  by (auto simp: ys_Add_def Let_def split: sum.splits if_splits append_io.splits)

lemma ys_Sync_cases:
  assumes "ys_SyncGatewayByLocalID E R st l force = (r, st')"
  obtains (missing) "ys_byLocalId st l = None" "r = Inl ErrNotFound" "st' = st"
    | (kept) g q where "ys_byLocalId st l = Some g" "r = Inr g" "st' = st\<lparr>ys_registry := q\<rparr>"
    | (synced) g ow v d q g' where "ys_byLocalId st l = Some g" "r = Inr g'"
        "g' = (NewOnboardedGateway E (LocalID g) (PrivateKey g) ow v)\<lparr>Details := d\<rparr>"
        "st' = ys_put g' (st\<lparr>ys_registry := q\<rparr>)"
proof (cases "ys_byLocalId st l")
  case None
  with assms show thesis by (intro missing) (auto simp: ys_SyncGatewayByLocalID_def ys_ByLocalID_def)
next
  case (Some g)
  obtain a q where reg: "reg_GatewayDetails R (ys_registry st) (ThingsIxID g) force = (a, q)"
    by (metis surj_pair)
  show thesis
  proof (cases a)
    case (Inl err)
    with Some reg assms show thesis
      by (intro kept[of g q]) (auto simp: ys_SyncGatewayByLocalID_def ys_ByLocalID_def)
  next
    case (Inr x)
    obtain ow v d where x: "x = (ow, v, d)" by (cases x)
    from Some reg assms Inr x show thesis
      by (intro synced[OF Some _ refl]) (auto simp: ys_SyncGatewayByLocalID_def ys_ByLocalID_def Let_def)
  qed
qed

lemma ys_Add_inv:
  assumes "ys_inv E st" "ys_Add E Y io st l k = (r, st')"
  shows "ys_inv E st'"
  using assms(2)
proof (cases rule: ys_Add_cases)
  case (ok b)
  have "ys_inv E (ys_append b st)" using assms(1) by simp
  with ok show ?thesis by (auto intro: ys_inv_put)
next
  case (error err)
  with assms(1) show ?thesis by auto
qed

lemma ys_Sync_inv:
  assumes "ys_inv E st" "ys_SyncGatewayByLocalID E R st l force = (r, st')"
  shows "ys_inv E st'"
  using assms(2)
proof (cases rule: ys_Sync_cases)
  case (synced g ow v d q g')
  have g: "LocalID g = l" "gateway_wf E g"
    using assms(1) synced(1) by (auto simp: ys_inv_def dest: index_invD(1,2))
  have "same_identity g g'" unfolding synced(3) by (rule same_identity_synced[OF g(2)])
  moreover have "LocalID g' = l" "gateway_wf E g'" using synced(3) g(1) by simp_all
  ultimately have "ys_inv E (ys_put g' (st\<lparr>ys_registry := q\<rparr>))"
    using assms(1) synced(1) by (intro ys_inv_put) simp_all
  then show ?thesis using synced(4) by simp
qed (use assms(1) in auto)

lemma ys_Sync_ok:
  assumes "ys_inv E st" "ys_SyncGatewayByLocalID E R st l force = (Inr g, st')"
  shows "\<exists>old. ys_ByLocalID st l = Inr old \<and> same_identity old g \<and> ys_ByLocalID st' l = Inr g"
  using assms(2)
proof (cases rule: ys_Sync_cases)
  case (synced old ow v d q g')
  then have old: "LocalID old = l" "gateway_wf E old"
    using assms(1) by (auto simp: ys_inv_def dest: index_invD(1,2))
  have "same_identity old g'" unfolding synced(3) by (rule same_identity_synced[OF old(2)])
  moreover have "LocalID g' = l" using synced(3) old(1) by simp
  ultimately show ?thesis using synced(1,2,4) by (simp add: ys_defs)
qed (auto simp: ys_defs)

interpretation yaml: gateway_store_tix "yaml_table E L F Y" "ys_inv E" E L for E L F Y
proof unfold_locales
  fix s :: "'r yaml_store" and l n t g e k r s' force l' str err
  show "ys_inv E s \<Longrightarrow> (\<exists>g. gs_ByLocalID (yaml_table E L F Y) s l = Inr g \<and> LocalID g = l \<and> gateway_wf E g) \<or>
      gs_ByLocalID (yaml_table E L F Y) s l = Inl ErrNotFound"
    by (auto simp: yaml_table_def ys_defs ys_inv_def split: option.split dest: index_invD(1,2))
  show "ys_inv E s \<Longrightarrow> (\<exists>g. gs_ByNetworkID (yaml_table E L F Y) s n = Inr g \<and> NetworkID g = n \<and>
      gs_ByLocalID (yaml_table E L F Y) s (LocalID g) = Inr g) \<or>
      gs_ByNetworkID (yaml_table E L F Y) s n = Inl ErrNotFound"
    by (auto simp: yaml_table_def ys_defs ys_inv_def split: option.split dest: index_invD(4,5))
  show "ys_inv E s \<Longrightarrow> gs_ByLocalID (yaml_table E L F Y) s l = Inr g \<Longrightarrow>
      \<exists>g'. gs_ByNetworkID (yaml_table E L F Y) s (NetworkID g) = Inr g'"
    by (auto simp: yaml_table_def ys_defs ys_inv_def split: option.splits dest: index_invD(3))
  show "gs_ByLocalIDString (yaml_table E L F Y) s str = (case eui_UnmarshalText L str of
      Inl _ \<Rightarrow> Inl ErrInvalidGatewayID | Inr e \<Rightarrow> gs_ByLocalID (yaml_table E L F Y) s e)"
    by (simp add: yaml_table_def ys_defs split: sum.split)
  show "gs_ByNetworkIDString (yaml_table E L F Y) s str = (case eui_UnmarshalText L str of
      Inl _ \<Rightarrow> Inl ErrInvalidGatewayID | Inr e \<Rightarrow> gs_ByNetworkID (yaml_table E L F Y) s e)"
    by (simp add: yaml_table_def ys_defs split: sum.split)
  show "gs_ContainsByLocalID (yaml_table E L F Y) s l =
      (\<exists>g. gs_ByLocalID (yaml_table E L F Y) s l = Inr g)"
    by (auto simp: yaml_table_def ys_defs split: option.splits)
  show "ys_inv E s \<Longrightarrow> gs_Add (yaml_table E L F Y) s e l k = (r, s') \<Longrightarrow> ys_inv E s'"
    by (auto simp: yaml_table_def intro: ys_Add_inv)
  show "ys_inv E s \<Longrightarrow> gs_Add (yaml_table E L F Y) s e l k = (Inr g, s') \<Longrightarrow>
      g = NewGateway E l k \<and> gs_ByLocalID (yaml_table E L F Y) s l = Inl ErrNotFound \<and>
      gs_ByLocalID (yaml_table E L F Y) s' l = Inr g \<and>
      gs_ByNetworkID (yaml_table E L F Y) s' (NetworkID g) = Inr g"
    by (auto simp: yaml_table_def ys_defs elim!: ys_Add_cases)
  show "ys_inv E s \<Longrightarrow> gs_Add (yaml_table E L F Y) s e l k = (r, s') \<Longrightarrow> l' \<noteq> l \<Longrightarrow>
      gs_ByLocalID (yaml_table E L F Y) s' l' = gs_ByLocalID (yaml_table E L F Y) s l'"
    by (auto simp: yaml_table_def ys_defs elim!: ys_Add_cases)
  show "ys_inv E s \<Longrightarrow> gs_Add (yaml_table E L F Y) s e l k = (Inl err, s') \<Longrightarrow>
      gs_ByLocalID (yaml_table E L F Y) s' = gs_ByLocalID (yaml_table E L F Y) s \<and>
      gs_ByNetworkID (yaml_table E L F Y) s' = gs_ByNetworkID (yaml_table E L F Y) s"
    by (auto simp: yaml_table_def ys_defs fun_eq_iff elim!: ys_Add_cases)
  show "ys_inv E s \<Longrightarrow> gs_SyncGatewayByLocalID (yaml_table E L F Y) s e l force = (r, s') \<Longrightarrow> ys_inv E s'"
    by (auto simp: yaml_table_def intro: ys_Sync_inv)
  show "ys_inv E s \<Longrightarrow> gs_SyncGatewayByLocalID (yaml_table E L F Y) s e l force = (Inr g, s') \<Longrightarrow>
      \<exists>old. gs_ByLocalID (yaml_table E L F Y) s l = Inr old \<and> same_identity old g \<and>
        gs_ByLocalID (yaml_table E L F Y) s' l = Inr g"
    by (simp add: yaml_table_def) (rule ys_Sync_ok)
  show "ys_inv E s \<Longrightarrow> gs_SyncGatewayByLocalID (yaml_table E L F Y) s e l force = (Inl err, s') \<Longrightarrow>
      gs_ByLocalID (yaml_table E L F Y) s' = gs_ByLocalID (yaml_table E L F Y) s"
    by (auto simp: yaml_table_def elim!: ys_Sync_cases)
  show "ys_inv E s \<Longrightarrow> gs_SyncGatewayByLocalID (yaml_table E L F Y) s e l force = (r, s') \<Longrightarrow> l' \<noteq> l \<Longrightarrow>
      gs_ByLocalID (yaml_table E L F Y) s' l' = gs_ByLocalID (yaml_table E L F Y) s l'"
    by (auto simp: yaml_table_def ys_defs ys_inv_def elim!: ys_Sync_cases dest: index_invD(1,2))
  show "ys_inv E s \<Longrightarrow> (\<exists>g. gs_ByThingsIxID (yaml_table E L F Y) s t = Inr g \<and> ThingsIxID g = t \<and>
      gs_ByLocalID (yaml_table E L F Y) s (LocalID g) = Inr g) \<or>
      gs_ByThingsIxID (yaml_table E L F Y) s t = Inl ErrNotFound"
    by (auto simp: yaml_table_def ys_defs ys_inv_def split: option.split dest: index_invD(6,7))
  show "ys_inv E s \<Longrightarrow> gs_ByLocalID (yaml_table E L F Y) s l = Inr g \<Longrightarrow>
      \<exists>g'. gs_ByThingsIxID (yaml_table E L F Y) s (ThingsIxID g) = Inr g'"
    by (auto simp: yaml_table_def ys_defs ys_inv_def index_tix_complete_def split: option.splits)
qed

lemma yaml_lookups:
  "gs_ByLocalID (yaml_table E L F Y) = ys_ByLocalID" "gs_ByNetworkID (yaml_table E L F Y) = ys_ByNetworkID"
  "gs_ByThingsIxID (yaml_table E L F Y) = ys_ByThingsIxID"
  by (simp_all add: yaml_table_def)

section \<open>Persistence\<close>

text \<open>A key that survives being written to and read from the file.\<close>

definition storable_key :: "eth_lib \<Rightarrow> private_key \<Rightarrow> bool" where
  "storable_key E k \<longleftrightarrow> ToECDSA E (FromECDSA E k) = Inr k"

text \<open>The file holds exactly one entry for each gateway in memory.\<close>

definition ys_file_inv :: "eth_lib \<Rightarrow> yaml_lib \<Rightarrow> 'r yaml_store \<Rightarrow> bool" where
  "ys_file_inv E Y st \<longleftrightarrow>
     (\<exists>ys bs. list_all2 (\<lambda>y b. yaml_Marshal Y [y] = Inr b) ys bs \<and>
        ys_file st = Some (concat bs) \<and> distinct (map y_LocalID ys) \<and>
        dom (ys_byLocalId st) = y_LocalID ` set ys \<and>
        (\<forall>y \<in> set ys. \<exists>g. ys_byLocalId st (y_LocalID y) = Some g \<and> y = yaml_entry E g \<and>
           storable_key E (PrivateKey g)))"

lemma yaml_asGateway_entry:
  assumes "storable_key E (PrivateKey g)" "gateway_wf E g"
  shows "\<exists>h. yaml_asGateway E (yaml_entry E g) = Inr h \<and> same_identity g h \<and> gateway_wf E h"
  using assms
  by (auto simp: yaml_asGateway_def yaml_entry_def storable_key_def same_identity_def gateway_wf_def)

lemma yaml_asGateway_LocalID: "yaml_asGateway E y = Inr h \<Longrightarrow> LocalID h = y_LocalID y"
  by (auto simp: yaml_asGateway_def split: option.splits sum.splits)

lemma yaml_load_loop_ok:
  assumes "\<forall>y \<in> set ys. \<exists>h. yaml_asGateway E y = Inr h \<and> gateway_wf E h"
    and "distinct (map y_LocalID ys)" "\<forall>y \<in> set ys. bL (y_LocalID y) = None"
    and "index_inv E bL bN bT" "index_tix_complete bL bT"
  shows "\<exists>bL' bN' bT'. yaml_load_loop E ys (bL, bN, bT) = Inr (bL', bN', bT') \<and>
           index_inv E bL' bN' bT' \<and> index_tix_complete bL' bT' \<and>
           (\<forall>l. l \<notin> y_LocalID ` set ys \<longrightarrow> bL' l = bL l) \<and>
           (\<forall>y \<in> set ys. \<forall>h. yaml_asGateway E y = Inr h \<longrightarrow> bL' (y_LocalID y) = Some h)"
  using assms
proof (induction ys arbitrary: bL bN bT)
  case (Cons y ys)
  then obtain h where h: "yaml_asGateway E y = Inr h" "gateway_wf E h" by auto
  note lid = yaml_asGateway_LocalID[OF h(1)]
  have "index_inv E (bL(LocalID h \<mapsto> h)) (bN(NetworkID h \<mapsto> h)) (bT(ThingsIxID h \<mapsto> h))"
    using Cons.prems h lid by (intro index_inv_put) auto
  moreover have "index_tix_complete (bL(LocalID h \<mapsto> h)) (bT(ThingsIxID h \<mapsto> h))"
    using Cons.prems by (intro index_tix_upd)
  moreover have "\<forall>y' \<in> set ys. (bL(LocalID h \<mapsto> h)) (y_LocalID y') = None"
    using Cons.prems(2,3) lid by (auto simp: image_iff)
  ultimately obtain bL' bN' bT' where *:
    "yaml_load_loop E ys (bL(LocalID h \<mapsto> h), bN(NetworkID h \<mapsto> h), bT(ThingsIxID h \<mapsto> h)) = Inr (bL', bN', bT')"
    "index_inv E bL' bN' bT'" "index_tix_complete bL' bT'"
    "\<forall>l. l \<notin> y_LocalID ` set ys \<longrightarrow> bL' l = (bL(LocalID h \<mapsto> h)) l"
    "\<forall>y \<in> set ys. \<forall>h. yaml_asGateway E y = Inr h \<longrightarrow> bL' (y_LocalID y) = Some h"
    using Cons.IH[of "bL(LocalID h \<mapsto> h)" "bN(NetworkID h \<mapsto> h)" "bT(ThingsIxID h \<mapsto> h)"] Cons.prems(1,2)
    by (simp del: fun_upd_apply) blast
  have "bL' (y_LocalID y) = Some h"
    using *(4) Cons.prems(2) lid by simp
  then show ?case using * h lid by (intro exI[of _ bL'] exI[of _ bN'] exI[of _ bT']) auto
qed simp

lemma ys_file_inv_load:
  assumes Y: "yaml_ok Y" and inv: "ys_inv E st" and fl: "ys_file_inv E Y st"
    and st0: "ys_file st0 = ys_file st"
  shows "\<exists>st2. ys_loadFromFile E Y ReadOk st0 = (Inr (), st2) \<and> ys_inv E st2 \<and>
           (\<forall>l. rel_option same_identity (ys_byLocalId st l) (ys_byLocalId st2 l))"
proof -
  from fl obtain ys bs where ys: "list_all2 (\<lambda>y b. yaml_Marshal Y [y] = Inr b) ys bs"
    "ys_file st = Some (concat bs)" "distinct (map y_LocalID ys)"
    "dom (ys_byLocalId st) = y_LocalID ` set ys"
    "\<forall>y \<in> set ys. \<exists>g. ys_byLocalId st (y_LocalID y) = Some g \<and> y = yaml_entry E g \<and>
       storable_key E (PrivateKey g)"
    unfolding ys_file_inv_def by auto
  have wf: "gateway_wf E g" if "ys_byLocalId st l = Some g" for l g
    using inv that by (auto simp: ys_inv_def dest: index_invD(2))
  have as: "\<exists>g h. ys_byLocalId st (y_LocalID y) = Some g \<and> yaml_asGateway E y = Inr h \<and>
      same_identity g h \<and> gateway_wf E h" if "y \<in> set ys" for y
    using ys(5) that yaml_asGateway_entry wf by metis
  obtain bL bN bT where load: "yaml_load_loop E ys (Map.empty, Map.empty, Map.empty) = Inr (bL, bN, bT)"
    "index_inv E bL bN bT" "index_tix_complete bL bT" "\<forall>l. l \<notin> y_LocalID ` set ys \<longrightarrow> bL l = None"
    "\<forall>y \<in> set ys. \<forall>h. yaml_asGateway E y = Inr h \<longrightarrow> bL (y_LocalID y) = Some h"
  proof -
    have "\<forall>y \<in> set ys. \<exists>h. yaml_asGateway E y = Inr h \<and> gateway_wf E h" using as by blast
    then show thesis
      using yaml_load_loop_ok[of ys E Map.empty Map.empty Map.empty] ys(3) that
      by (simp add: index_inv_empty index_tix_complete_def) blast
  qed
  have un: "yaml_Unmarshal Y (concat bs) = Inr ys" using Y ys(1) by (auto simp: yaml_ok_def)
  have "rel_option same_identity (ys_byLocalId st l) (bL l)" for l
  proof (cases "l \<in> y_LocalID ` set ys")
    case True
    then show ?thesis using as load(5) by force
  next
    case False
    then have "ys_byLocalId st l = None" using ys(4) by (metis domIff)
    then show ?thesis using load(4) False by simp
  qed
  then show ?thesis
    using un load ys(2) st0 by (auto simp: ys_loadFromFile_def ys_inv_def)
qed

lemma ys_file_inv_Add:
  assumes fl: "ys_file_inv E Y st" and k: "storable_key E k"
    and add: "ys_Add E Y io st l k = (Inr g, st')"
  shows "ys_file_inv E Y st'"
  using add
proof (cases rule: ys_Add_cases)
  case (ok b)
  let ?g = "NewGateway E l k"
  from fl obtain ys bs where ys: "list_all2 (\<lambda>y b. yaml_Marshal Y [y] = Inr b) ys bs"
    "ys_file st = Some (concat bs)" "distinct (map y_LocalID ys)"
    "dom (ys_byLocalId st) = y_LocalID ` set ys"
    "\<forall>y \<in> set ys. \<exists>g. ys_byLocalId st (y_LocalID y) = Some g \<and> y = yaml_entry E g \<and>
       storable_key E (PrivateKey g)"
    unfolding ys_file_inv_def by auto
  have new: "l \<notin> y_LocalID ` set ys" using ok(2) ys(4) by (metis domIff)
  have id: "y_LocalID (yaml_entry E ?g) = l" by (simp add: yaml_entry_def)
  show ?thesis
    unfolding ys_file_inv_def ok(5)
  proof (intro exI[of _ "ys @ [yaml_entry E ?g]"] exI[of _ "bs @ [b]"] conjI)
    show "\<forall>y \<in> set (ys @ [yaml_entry E ?g]). \<exists>g. ys_byLocalId (ys_put ?g (ys_append b st)) (y_LocalID y) = Some g \<and>
        y = yaml_entry E g \<and> storable_key E (PrivateKey g)"
      using ys(5) new k id by (auto simp: image_iff)
  qed (use ys new id ok(4) in \<open>auto simp: ys_append_def list_all2_appendI\<close>)
qed simp

section \<open>A concrete YAML package\<close>

text \<open>Entries of 8 id bytes and 64 key characters satisfy the contract of the package.\<close>

fun yaml_example_decode :: "bytes \<Rightarrow> gatewayYAML list result" where
  "yaml_example_decode bs =
     (if bs = [] then Inr []
      else if length bs < 72 then Inl (Errorf ''yaml'')
      else case yaml_example_decode (drop 72 bs) of
             Inl e \<Rightarrow> Inl e
           | Inr ys \<Rightarrow> Inr (\<lparr>y_LocalID = eui_of_bytes (take 8 bs),
                            y_PrivateKey = map (\<lambda>b. char_of (unat b)) (take 64 (drop 8 bs))\<rparr> # ys))"

definition yaml_example :: yaml_lib where
  "yaml_example =
     \<lparr>yaml_Marshal = (\<lambda>ys. if list_all (\<lambda>y. length (y_PrivateKey y) = 64) ys
         then Inr (concat (map (\<lambda>y. eui_bytes (y_LocalID y) @ map (\<lambda>c. of_nat (of_char c)) (y_PrivateKey y)) ys))
         else Inl (Errorf ''yaml'')),
      yaml_Unmarshal = yaml_example_decode\<rparr>"

declare yaml_example_decode.simps [simp del]

lemma char_byte [simp]: "char_of (unat (of_nat (of_char c) :: byte)) = c"
  by (simp add: unat_of_nat mod_less[OF nat_of_char_less_256])

lemma yaml_example_ok: "yaml_ok yaml_example"
proof -
  have "yaml_example_decode (concat bs) = Inr ys"
    if "list_all2 (\<lambda>y b. yaml_Marshal yaml_example [y] = Inr b) ys bs" for ys bs
    using that
  proof (induction rule: list_all2_induct)
    case Nil
    then show ?case by (simp add: yaml_example_decode.simps)
  next
    case (Cons y ys b bs)
    then have b: "b = eui_bytes (y_LocalID y) @ map (\<lambda>c. of_nat (of_char c)) (y_PrivateKey y)" "length (y_PrivateKey y) = 64"
      by (auto simp: yaml_example_def split: if_splits)
    then have "length b = 72" by simp
    with b Cons show ?case
      by (subst yaml_example_decode.simps) (auto simp: comp_def)
  qed
  then show ?thesis by (simp add: yaml_ok_def yaml_example_def)
qed

definition yaml_store_example :: "unit yaml_store" where
  "yaml_store_example =
     \<lparr>ys_path = ''gateways.yaml'', ys_byLocalId = Map.empty, ys_byNetId = Map.empty,
      ys_byThingsIxID = Map.empty, ys_registry = (), ys_defaultFrequencyPlan = ''EU868'', ys_file = Some []\<rparr>"

lemma yaml_store_example_inv:
  "ys_inv E yaml_store_example" "ys_file_inv E Y yaml_store_example"
  by (auto simp: yaml_store_example_def ys_inv_def index_inv_empty index_tix_complete_def ys_file_inv_def)

lemma storable_key_example: "storable_key eth_example (key_example b)"
  by (simp add: storable_key_def eth_example_def key_example_def)

lemma yaml_example_Add:
  "\<exists>st'. ys_Add eth_example yaml_example AppendOk yaml_store_example l (key_example b) =
     (Inr (NewGateway eth_example l (key_example b)), st')"
  by (simp add: ys_Add_def yaml_example_def yaml_entry_def yaml_store_example_def Let_def eth_example_def)

section \<open>Properties\<close>

text \<open>
  In the YAML store every operation that changes the store keeps the three indexes
  consistent: each entry under its own ids, derived from its key, and reachable by local id,
  network id and ThingsIX id.
\<close>

theorem yaml_store_invariant:
  assumes "ys_inv E st"
  shows "ys_inv E (snd (ys_Add E Y io st l k)) \<and>
         ys_inv E (snd (ys_SyncGatewayByLocalID E R st l force)) \<and>
         ys_inv E (ys_sync_loop E R gws st)"
proof -
  have sync: "ys_inv E s \<Longrightarrow> ys_inv E (snd (ys_SyncGatewayByLocalID E R s l force))" for s l force
    by (metis ys_Sync_inv prod.collapse)
  have "ys_inv E s \<Longrightarrow> ys_inv E (ys_sync_loop E R gws s)" for s
    by (induction gws arbitrary: s) (simp_all add: sync)
  then show ?thesis using assms sync ys_Add_inv[OF assms] by (metis prod.collapse)
qed

theorem yaml_store_invariant_witness:
  "ys_inv eth_example (snd (ys_Add eth_example yaml_example AppendOk yaml_store_example eui64_zero (key_example 4)))"
  using yaml_store_invariant[OF yaml_store_example_inv(1)] by blast

text \<open>
  A gateway added to the YAML store is found by its local id, its network id and its
  ThingsIX id, and every gateway that was in the store is still there.
\<close>

theorem yaml_Add_lookup:
  assumes "ys_inv E st" "ys_Add E Y io st l k = (Inr g, st')"
  shows "ys_ByLocalID st' l = Inr g \<and> ys_ByNetworkID st' (NetworkID g) = Inr g \<and>
         (\<exists>g'. ys_ByThingsIxID st' (ThingsIxID g) = Inr g' \<and> ThingsIxID g' = ThingsIxID g) \<and>
         (\<forall>l' g'. ys_ByLocalID st l' = Inr g' \<longrightarrow> ys_ByLocalID st' l' = Inr g')"
proof -
  have add: "gs_Add (yaml_table E L F Y) st (R, io) l k = (Inr g, st')" for L F R
    using assms(2) by (simp add: yaml_table_def)
  show ?thesis
    using yaml.Add_ok[OF assms(1) add] yaml.Add_by_thingsix_id[OF assms(1) add]
      yaml.Add_keeps[OF assms(1) add]
    by (metis (no_types) yaml_lookups)
qed

theorem yaml_Add_lookup_witness:
  "\<exists>st'. ys_ByLocalID st' eui64_zero = Inr (NewGateway eth_example eui64_zero (key_example 4)) \<and>
     ys_Add eth_example yaml_example AppendOk yaml_store_example eui64_zero (key_example 4) =
       (Inr (NewGateway eth_example eui64_zero (key_example 4)), st')"
proof -
  obtain st' where st': "ys_Add eth_example yaml_example AppendOk yaml_store_example eui64_zero (key_example 4) =
     (Inr (NewGateway eth_example eui64_zero (key_example 4)), st')"
    using yaml_example_Add by blast
  show ?thesis using yaml_Add_lookup[OF yaml_store_example_inv(1) st'] st' by blast
qed

text \<open>
  C20: a gateway that was added survives a restart.  Loading the file after a successful
  \<^verbatim>\<open>Add\<close> succeeds and brings back every gateway of the store, the new one included, with the
  same local id, network id, ThingsIX id and private key.
\<close>

theorem yaml_Add_persists:
  assumes "yaml_ok Y" "ys_inv E st" "ys_file_inv E Y st" "storable_key E k"
    and "ys_Add E Y io st l k = (Inr g, st')" "ys_file st0 = ys_file st'"
  shows "\<exists>st2. ys_loadFromFile E Y ReadOk st0 = (Inr (), st2) \<and> ys_inv E st2 \<and>
           ys_file_inv E Y st' \<and> (\<exists>g2. ys_ByLocalID st2 l = Inr g2 \<and> same_identity g g2) \<and>
           (\<forall>l. rel_option same_identity (ys_byLocalId st' l) (ys_byLocalId st2 l))"
proof -
  have inv': "ys_inv E st'" using ys_Add_inv[OF assms(2,5)] .
  have fl': "ys_file_inv E Y st'" using ys_file_inv_Add[OF assms(3,4,5)] .
  obtain st2 where st2: "ys_loadFromFile E Y ReadOk st0 = (Inr (), st2)" "ys_inv E st2"
    "\<forall>l. rel_option same_identity (ys_byLocalId st' l) (ys_byLocalId st2 l)"
    using ys_file_inv_load[OF assms(1) inv' fl' assms(6)] by blast
  have "ys_byLocalId st' l = Some g"
    using assms(5) by (cases rule: ys_Add_cases) auto
  with st2(3) obtain g2 where "ys_byLocalId st2 l = Some g2" "same_identity g g2"
    by (metis option.rel_cases option.inject option.distinct(1))
  with st2 fl' show ?thesis by (auto simp: ys_defs)
qed

theorem yaml_Add_persists_witness:
  "\<exists>st' st2 g2. ys_Add eth_example yaml_example AppendOk yaml_store_example eui64_zero (key_example 4) =
       (Inr (NewGateway eth_example eui64_zero (key_example 4)), st') \<and>
     ys_loadFromFile eth_example yaml_example ReadOk (yaml_store_example\<lparr>ys_file := ys_file st'\<rparr>) = (Inr (), st2) \<and>
     ys_ByLocalID st2 eui64_zero = Inr g2 \<and> PrivateKey g2 = key_example 4"
proof -
  obtain st' where st': "ys_Add eth_example yaml_example AppendOk yaml_store_example eui64_zero (key_example 4) =
     (Inr (NewGateway eth_example eui64_zero (key_example 4)), st')"
    using yaml_example_Add by blast
  show ?thesis
    using yaml_Add_persists[OF yaml_example_ok yaml_store_example_inv storable_key_example st',
        of "yaml_store_example\<lparr>ys_file := ys_file st'\<rparr>"] st'
    by (auto simp: same_identity_def)
qed

end
