(* ===== verification/Pg_Store.thy ===== *)
theory Pg_Store
  imports Gateway_Store Database
begin

text \<open>
  The gateway store on a PostgreSQL database, \<^verbatim>\<open>gateway/store_postgres.go\<close>: the same three indexes in
  memory, filled from the table \<^verbatim>\<open>gateway_store\<close>, with each added or synced gateway written to it in a
  transaction.  \<^verbatim>\<open>time.Now\<close> is an argument.
\<close>

section \<open>State\<close>

record ('r, 'd) pg_store =
  pg_refreshInterval :: duration
  pg_byLocalId :: "eui64 \<rightharpoonup> gateway"
  pg_byNetId :: "eui64 \<rightharpoonup> gateway"
  pg_byThingsIxID :: "thingsix_id \<rightharpoonup> gateway"
  pg_registry :: 'r
  pg_defaultFrequencyPlan :: band_name
  pg_db :: 'd

section \<open>Operations\<close>

definition pg_Count :: "('r, 'd) pg_store \<Rightarrow> nat" where
  "pg_Count st = card (dom (pg_byLocalId st))"

definition pg_Range :: "('r, 'd) pg_store \<Rightarrow> eui64 list \<Rightarrow> gateway list" where
  "pg_Range st order = range_loop Collector_Do (range_order (pg_byLocalId st) order) []"

definition pg_ByLocalID :: "('r, 'd) pg_store \<Rightarrow> eui64 \<Rightarrow> gateway result" where
  "pg_ByLocalID st localID =
     (case pg_byLocalId st localID of Some gw \<Rightarrow> Inr gw | None \<Rightarrow> Inl ErrNotFound)"

definition pg_ByLocalIDString :: "lorawan_lib \<Rightarrow> ('r, 'd) pg_store \<Rightarrow> string \<Rightarrow> gateway result" where
  "pg_ByLocalIDString L st ident =
     (case Eui64FromString L ident of Inl _ \<Rightarrow> Inl ErrInvalidGatewayID | Inr eui \<Rightarrow> pg_ByLocalID st eui)"

definition pg_ContainsByLocalID :: "('r, 'd) pg_store \<Rightarrow> eui64 \<Rightarrow> bool" where
  "pg_ContainsByLocalID st localID = (case pg_ByLocalID st localID of Inl _ \<Rightarrow> False | Inr _ \<Rightarrow> True)"

definition pg_ByNetworkID :: "('r, 'd) pg_store \<Rightarrow> eui64 \<Rightarrow> gateway result" where
  "pg_ByNetworkID st netID =
     (case pg_byNetId st netID of Some gw \<Rightarrow> Inr gw | None \<Rightarrow> Inl ErrNotFound)"

definition pg_ByNetworkIDString :: "lorawan_lib \<Rightarrow> ('r, 'd) pg_store \<Rightarrow> string \<Rightarrow> gateway result" where
  "pg_ByNetworkIDString L st ident =
     (case Eui64FromString L ident of Inl _ \<Rightarrow> Inl ErrInvalidGatewayID | Inr eui \<Rightarrow> pg_ByNetworkID st eui)"

definition pg_ContainsByNetID :: "('r, 'd) pg_store \<Rightarrow> eui64 \<Rightarrow> bool" where
  "pg_ContainsByNetID st netID = (case pg_ByNetworkID st netID of Inl _ \<Rightarrow> False | Inr _ \<Rightarrow> True)"

definition pg_ByThingsIxID :: "('r, 'd) pg_store \<Rightarrow> thingsix_id \<Rightarrow> gateway result" where
  "pg_ByThingsIxID st ident =
     (case pg_byThingsIxID st ident of Some gw \<Rightarrow> Inr gw | None \<Rightarrow> Inl ErrNotFound)"

text \<open>The body of the transaction of \<^verbatim>\<open>Add\<close>: a gateway that is added is no longer an unknown one.\<close>

definition pg_add_tx :: "'d gorm \<Rightarrow> pgGateway \<Rightarrow> 'd statement" where
  "pg_add_tx D pggw tx =
     (case db_DeleteUnknown D (pgg_LocalID pggw) tx of
        (Some err, tx) \<Rightarrow> (Some err, tx)
      | (None, tx) \<Rightarrow>
          (case db_CreateGateway D pggw tx of
             (Some err, tx) \<Rightarrow> (Some (if IsErrUniqueViolation err then ErrAlreadyExists else err), tx)
           | (None, tx) \<Rightarrow> (None, tx)))"

definition pg_Add ::
  "eth_lib \<Rightarrow> 'd gorm \<Rightarrow> ('r, 'd) pg_store \<Rightarrow> time \<Rightarrow> eui64 \<Rightarrow> private_key \<Rightarrow>
   gateway result \<times> ('r, 'd) pg_store" where
  "pg_Add E D st now localID key =
     (let gw = NewGateway E localID key;
          pggw = \<lparr>pgg_LocalID = LocalID gw, pgg_PrivateKey = FromECDSA E (PrivateKey gw), pgg_Owner = None,
                  pgg_Version = None, pgg_Details = None, pgg_LastSynced = None, pgg_CreatedAt = now\<rparr>
      in case db_ExecuteTx D (pg_add_tx D pggw) (pg_db st) of
           (Some err, d) \<Rightarrow> (Inl err, st\<lparr>pg_db := d\<rparr>)
         | (None, d) \<Rightarrow>
             (Inr gw, st\<lparr>pg_byLocalId := (pg_byLocalId st)(LocalID gw \<mapsto> gw),
                         pg_byNetId := (pg_byNetId st)(NetworkID gw \<mapsto> gw), pg_db := d\<rparr>))"

definition pg_put :: "gateway \<Rightarrow> ('r, 'd) pg_store \<Rightarrow> ('r, 'd) pg_store" where
  "pg_put gw st =
     st\<lparr>pg_byLocalId := (pg_byLocalId st)(LocalID gw \<mapsto> gw),
        pg_byNetId := (pg_byNetId st)(NetworkID gw \<mapsto> gw),
        pg_byThingsIxID := (pg_byThingsIxID st)(ThingsIxID gw \<mapsto> gw)\<rparr>"

definition pg_save_tx :: "'d gorm \<Rightarrow> pgGateway \<Rightarrow> 'd statement" where
  "pg_save_tx D pggw tx =
     (case db_SaveGateway D pggw tx of
        (Some err, tx) \<Rightarrow> (Some (if IsErrUniqueViolation err then ErrAlreadyExists else err), tx)
      | (None, tx) \<Rightarrow> (None, tx))"

definition pg_SyncGatewayByLocalID ::
  "eth_lib \<Rightarrow> 'd gorm \<Rightarrow> 'r registry \<Rightarrow> ('r, 'd) pg_store \<Rightarrow> time \<Rightarrow> eui64 \<Rightarrow> bool \<Rightarrow>
   gateway result \<times> ('r, 'd) pg_store" where
  "pg_SyncGatewayByLocalID E D R st now localID force =
     (case pg_ByLocalID st localID of
        Inl err \<Rightarrow> (Inl err, st)
      | Inr gw \<Rightarrow>
          (case reg_GatewayDetails R (pg_registry st) (ThingsIxID gw) force of
             (Inl err, r) \<Rightarrow> (Inr gw, st\<lparr>pg_registry := r\<rparr>)
           | (Inr (owner, version, details), r) \<Rightarrow>
               let synced = (NewOnboardedGateway E (LocalID gw) (PrivateKey gw) owner version)\<lparr>Details := details\<rparr>;
                   pggw = \<lparr>pgg_LocalID = LocalID synced, pgg_PrivateKey = FromECDSA E (PrivateKey gw),
                           pgg_Owner = Owner synced, pgg_Version = Version synced,
                           pgg_Details = Details synced, pgg_LastSynced = Some now, pgg_CreatedAt = 0\<rparr>
               in case db_ExecuteTx D (pg_save_tx D pggw) (pg_db st) of
                    (Some err, d) \<Rightarrow> (Inl err, st\<lparr>pg_registry := r, pg_db := d\<rparr>)
                  | (None, d) \<Rightarrow> (Inr synced, pg_put synced (st\<lparr>pg_registry := r, pg_db := d\<rparr>))))"

definition pg_UniqueGatewayBands :: "freq_lib \<Rightarrow> ('r, 'd) pg_store \<Rightarrow> eui64 list \<Rightarrow> unique_bands" where
  "pg_UniqueGatewayBands F st order =
     collect_bands F (pg_defaultFrequencyPlan st) (pg_Range st order) \<lparr>ub_bands = {}, ub_plans = {}\<rparr>"

definition pg_DefaultFrequencyPlan :: "('r, 'd) pg_store \<Rightarrow> band_name" where
  "pg_DefaultFrequencyPlan st = pg_defaultFrequencyPlan st"

text \<open>The loops that sync one gateway after the other, in \<^verbatim>\<open>syncAll\<close> and in \<^verbatim>\<open>loadFromPostgres\<close>; an
  error is ignored.\<close>

fun pg_sync_loop ::
  "eth_lib \<Rightarrow> 'd gorm \<Rightarrow> 'r registry \<Rightarrow> time \<Rightarrow> eui64 list \<Rightarrow> ('r, 'd) pg_store \<Rightarrow> ('r, 'd) pg_store" where
  "pg_sync_loop E D R now [] st = st"
| "pg_sync_loop E D R now (localID # ids) st =
     pg_sync_loop E D R now ids (snd (pg_SyncGatewayByLocalID E D R st now localID False))"

definition pg_syncAll ::
  "eth_lib \<Rightarrow> 'd gorm \<Rightarrow> 'r registry \<Rightarrow> time \<Rightarrow> eui64 list \<Rightarrow> ('r, 'd) pg_store \<Rightarrow> ('r, 'd) pg_store" where
  "pg_syncAll E D R now order st = pg_sync_loop E D R now (map LocalID (pg_Range st order)) st"

definition pg_asGateway :: "eth_lib \<Rightarrow> pgGateway \<Rightarrow> gateway result" where
  "pg_asGateway E pggw =
     (case ToECDSA E (pgg_PrivateKey pggw) of
        Inl err \<Rightarrow> Inl err
      | Inr key \<Rightarrow>
          let details = (case pgg_Details pggw of
                           None \<Rightarrow> None
                         | Some d \<Rightarrow> if gd_Band d \<noteq> None then Some d else None)
          in Inr \<lparr>LocalID = pgg_LocalID pggw, NetworkID = GatewayNetworkIDFromPrivateKey E key,
                  PrivateKey = key, PublicKey = sk_PublicKey key, PublicKeyBytes = [],
                  ThingsIxID = DeriveThingsIxID E (sk_PublicKey key),
                  Owner = pgg_Owner pggw, Version = pgg_Version pggw, Details = details\<rparr>)"

type_synonym pg_indexes = "(eui64 \<rightharpoonup> gateway) \<times> (eui64 \<rightharpoonup> gateway) \<times> (thingsix_id \<rightharpoonup> gateway)"

fun pg_load_loop ::
  "eth_lib \<Rightarrow> time \<Rightarrow> pgGateway list \<Rightarrow> pg_indexes \<Rightarrow> eui64 list \<Rightarrow> (pg_indexes \<times> eui64 list) result" where
  "pg_load_loop E syncCutoff [] ix mustSync = Inr (ix, mustSync)"
| "pg_load_loop E syncCutoff (pggw # gws) (byLocalId, byNetId, byThingsIxID) mustSync =
     (case pg_asGateway E pggw of
        Inl err \<Rightarrow> Inl (Errorf ''unable to load gateway from database'')
      | Inr gw \<Rightarrow>
          pg_load_loop E syncCutoff gws
            (byLocalId(LocalID gw \<mapsto> gw), byNetId(NetworkID gw \<mapsto> gw), byThingsIxID(ThingsIxID gw \<mapsto> gw))
            (case pgg_LastSynced pggw of
               Some t \<Rightarrow> if t < syncCutoff then mustSync @ [LocalID gw] else mustSync
             | None \<Rightarrow> mustSync))"

definition loadFromPostgres ::
  "eth_lib \<Rightarrow> 'd gorm \<Rightarrow> 'r registry \<Rightarrow> time \<Rightarrow> ('r, 'd) pg_store \<Rightarrow> unit result \<times> ('r, 'd) pg_store" where
  "loadFromPostgres E D R now st =
     (let syncCutoff = now - 10 * minute
      in case db_FindGateways D (pg_db st) of
           Inl err \<Rightarrow> (Inl err, st)
         | Inr gws \<Rightarrow>
             (case pg_load_loop E syncCutoff gws (Map.empty, Map.empty, Map.empty) [] of
                Inl err \<Rightarrow> (Inl err, st)
              | Inr ((byLocalId, byNetId, byThingsIxID), mustSync) \<Rightarrow>
                  (Inr (), pg_sync_loop E D R now mustSync
                     (st\<lparr>pg_byLocalId := byLocalId, pg_byNetId := byNetId, pg_byThingsIxID := byThingsIxID\<rparr>))))"

text \<open>Without a refresh interval the code writes through the nil pointer.  A failing first load
  is only logged.\<close>

definition NewPostgresStore ::
  "eth_lib \<Rightarrow> 'd gorm \<Rightarrow> 'r registry \<Rightarrow> time \<Rightarrow> 'd \<Rightarrow> duration option \<Rightarrow> 'r \<Rightarrow> band_name \<Rightarrow>
   ('r, 'd) pg_store result go" where
  "NewPostgresStore E D R now d refreshInterval reg defaultFreqPlan =
     (case db_AutoMigrate D d of
        (Some err, d) \<Rightarrow> Ret (Inl err)
      | (None, d) \<Rightarrow>
          (case refreshInterval of
             None \<Rightarrow> Panic
           | Some refresh \<Rightarrow>
               let store = \<lparr>pg_refreshInterval = refresh, pg_byLocalId = Map.empty, pg_byNetId = Map.empty,
                            pg_byThingsIxID = Map.empty, pg_registry = reg,
                            pg_defaultFrequencyPlan = defaultFreqPlan, pg_db = d\<rparr>
               in Ret (Inr (snd (loadFromPostgres E D R now store)))))"

text \<open>The method table of the store.\<close>

definition pg_table ::
  "eth_lib \<Rightarrow> lorawan_lib \<Rightarrow> freq_lib \<Rightarrow> 'd gorm \<Rightarrow> 'r registry \<Rightarrow> (('r, 'd) pg_store, time) gateway_store" where
  "pg_table E L F D R =
     \<lparr>gs_Count = pg_Count, gs_Range = pg_Range, gs_ByLocalID = pg_ByLocalID,
      gs_ByLocalIDString = pg_ByLocalIDString L, gs_ContainsByLocalID = pg_ContainsByLocalID,
      gs_ByNetworkID = pg_ByNetworkID, gs_ByNetworkIDString = pg_ByNetworkIDString L,
      gs_ContainsByNetID = pg_ContainsByNetID, gs_ByThingsIxID = pg_ByThingsIxID,
      gs_Add = pg_Add E D, gs_SyncGatewayByLocalID = pg_SyncGatewayByLocalID E D R,
      gs_UniqueGatewayBands = pg_UniqueGatewayBands F, gs_DefaultFrequencyPlan = pg_DefaultFrequencyPlan\<rparr>"

section \<open>Invariant\<close>

text \<open>The indexes are consistent and every gateway in memory has a row under its local id.\<close>

definition pg_inv :: "eth_lib \<Rightarrow> 'd gorm \<Rightarrow> ('r, 'd) pg_store \<Rightarrow> bool" where
  "pg_inv E D st \<longleftrightarrow>
     gorm_ok D \<and> index_inv E (pg_byLocalId st) (pg_byNetId st) (pg_byThingsIxID st) \<and>
     dom (pg_byLocalId st) \<subseteq> dom (db_gateways D (pg_db st))"

named_theorems pg_defs \<open>definitions of the lookups of the database store\<close>

lemmas [pg_defs] = pg_ByLocalID_def pg_ByNetworkID_def pg_ByThingsIxID_def pg_ContainsByLocalID_def
  pg_ContainsByNetID_def pg_ByLocalIDString_def pg_ByNetworkIDString_def

lemma pg_put_sel [simp]:
  "pg_byLocalId (pg_put gw st) = (pg_byLocalId st)(LocalID gw \<mapsto> gw)"
  "pg_byNetId (pg_put gw st) = (pg_byNetId st)(NetworkID gw \<mapsto> gw)"
  "pg_byThingsIxID (pg_put gw st) = (pg_byThingsIxID st)(ThingsIxID gw \<mapsto> gw)"
  "pg_db (pg_put gw st) = pg_db st" "pg_registry (pg_put gw st) = pg_registry st"
  by (simp_all add: pg_put_def)

lemma pg_inv_frame [simp]: "pg_inv E D (st\<lparr>pg_registry := r\<rparr>) = pg_inv E D st"
  by (simp add: pg_inv_def)

lemma pg_add_tx_ok:
  assumes "gorm_ok D" "pg_add_tx D row d = (None, d')"
  obtains row' where "db_gateways D d (pgg_LocalID row) = None" "same_row row row'"
    "db_gateways D d' = (db_gateways D d)(pgg_LocalID row \<mapsto> row')"
    "db_unknown D d' = (db_unknown D d)(pgg_LocalID row := None)"
proof -
  obtain d1 where d1: "db_DeleteUnknown D (pgg_LocalID row) d = (None, d1)" "db_CreateGateway D row d1 = (None, d')"
    using assms(2) by (auto simp: pg_add_tx_def split: prod.splits option.splits)
  obtain row' where "db_gateways D d1 (pgg_LocalID row) = None" "same_row row row'"
    "db_gateways D d' = (db_gateways D d1)(pgg_LocalID row \<mapsto> row')" "db_unknown D d' = db_unknown D d1"
    using CreateGateway_row[OF assms(1) d1(2)] by blast
  then show thesis using that DeleteUnknown_row[OF assms(1) d1(1)] by simp
qed

lemma pg_save_tx_ok:
  assumes "gorm_ok D" "pg_save_tx D row d = (None, d')"
  obtains row' where "same_row row row'" "db_gateways D d' = (db_gateways D d)(pgg_LocalID row \<mapsto> row')"
proof -
  have "db_SaveGateway D row d = (None, d')"
    using assms(2) by (auto simp: pg_save_tx_def split: prod.splits option.splits)
  then show thesis using SaveGateway_row[OF assms(1)] that by blast
qed

lemma pg_Add_cases:
  assumes "gorm_ok D" "pg_Add E D st now l k = (r, st')"
  obtains (ok) row where "r = Inr (NewGateway E l k)" "db_gateways D (pg_db st) l = None"
      "pgg_LocalID row = l" "pgg_PrivateKey row = FromECDSA E k"
      "db_gateways D (pg_db st') = (db_gateways D (pg_db st))(l \<mapsto> row)"
      "db_unknown D (pg_db st') = (db_unknown D (pg_db st))(l := None)"
      "pg_byLocalId st' = (pg_byLocalId st)(l \<mapsto> NewGateway E l k)"
      "pg_byNetId st' = (pg_byNetId st)(NetworkID (NewGateway E l k) \<mapsto> NewGateway E l k)"
      "pg_byThingsIxID st' = pg_byThingsIxID st"
    | (error) err where "r = Inl err" "st' = st"
proof -
  define row where "row = \<lparr>pgg_LocalID = l, pgg_PrivateKey = FromECDSA E k, pgg_Owner = None,
    pgg_Version = None, pgg_Details = None, pgg_LastSynced = None, pgg_CreatedAt = now\<rparr>"
  obtain a d' where tx: "db_ExecuteTx D (pg_add_tx D row) (pg_db st) = (a, d')" by (metis surj_pair)
  show thesis
  proof (cases a)
    case (Some err)
    have "d' = pg_db st" using tx_rolled_back[OF assms(1)] tx Some by blast
    then have "r = Inl err" "st' = st"
      using assms(2) tx Some by (auto simp: pg_Add_def Let_def row_def)
    then show thesis by (rule error)
  next
    case None
    obtain row' where row': "db_gateways D (pg_db st) (pgg_LocalID row) = None" "same_row row row'"
      "db_gateways D d' = (db_gateways D (pg_db st))(pgg_LocalID row \<mapsto> row')"
      "db_unknown D d' = (db_unknown D (pg_db st))(pgg_LocalID row := None)"
      using pg_add_tx_ok[OF assms(1)] tx_committed[OF assms(1)] tx None by metis
    have st': "r = Inr (NewGateway E l k)"
      "st' = st\<lparr>pg_byLocalId := (pg_byLocalId st)(l \<mapsto> NewGateway E l k),
         pg_byNetId := (pg_byNetId st)(NetworkID (NewGateway E l k) \<mapsto> NewGateway E l k), pg_db := d'\<rparr>"
      using assms(2) tx None by (auto simp: pg_Add_def Let_def row_def)
    show thesis
      by (rule ok[of row']) (use row' st' in \<open>simp_all add: row_def same_row_def\<close>)
  qed
qed

lemma pg_Sync_cases:
  assumes "gorm_ok D" "pg_SyncGatewayByLocalID E D R st now l force = (r, st')"
  obtains (missing) "pg_byLocalId st l = None" "r = Inl ErrNotFound" "st' = st"
    | (kept) g q where "pg_byLocalId st l = Some g" "r = Inr g" "st' = st\<lparr>pg_registry := q\<rparr>"
    | (failed) err q where "r = Inl err" "st' = st\<lparr>pg_registry := q\<rparr>"
    | (synced) g ow v d q g' row db' where "pg_byLocalId st l = Some g" "r = Inr g'"
        "g' = (NewOnboardedGateway E (LocalID g) (PrivateKey g) ow v)\<lparr>Details := d\<rparr>"
        "pgg_LocalID row = LocalID g" "pgg_PrivateKey row = FromECDSA E (PrivateKey g)"
        "db_gateways D db' = (db_gateways D (pg_db st))(LocalID g \<mapsto> row)"
        "st' = pg_put g' (st\<lparr>pg_registry := q, pg_db := db'\<rparr>)"
proof (cases "pg_byLocalId st l")
  case None
  with assms show thesis by (intro missing) (auto simp: pg_SyncGatewayByLocalID_def pg_ByLocalID_def)
next
  case (Some g)
  obtain a q where reg: "reg_GatewayDetails R (pg_registry st) (ThingsIxID g) force = (a, q)"
    by (metis surj_pair)
  show thesis
  proof (cases a)
    case (Inl err)
    with Some reg assms show thesis
      by (intro kept[of g q]) (auto simp: pg_SyncGatewayByLocalID_def pg_ByLocalID_def)
  next
    case (Inr x)
    obtain ow v d where x: "x = (ow, v, d)" by (cases x)
    define g' where "g' = (NewOnboardedGateway E (LocalID g) (PrivateKey g) ow v)\<lparr>Details := d\<rparr>"
    define row where "row = \<lparr>pgg_LocalID = LocalID g', pgg_PrivateKey = FromECDSA E (PrivateKey g),
      pgg_Owner = Owner g', pgg_Version = Version g', pgg_Details = Details g',
      pgg_LastSynced = Some now, pgg_CreatedAt = 0\<rparr>"
    obtain b d' where tx: "db_ExecuteTx D (pg_save_tx D row) (pg_db st) = (b, d')" by (metis surj_pair)
    have eq: "pg_SyncGatewayByLocalID E D R st now l force = (case b of
        Some err \<Rightarrow> (Inl err, st\<lparr>pg_registry := q, pg_db := d'\<rparr>)
      | None \<Rightarrow> (Inr g', pg_put g' (st\<lparr>pg_registry := q, pg_db := d'\<rparr>)))"
      using Some reg Inr x tx
      by (simp add: pg_SyncGatewayByLocalID_def pg_ByLocalID_def Let_def g'_def row_def split: option.split)
    show thesis
    proof (cases b)
      case (Some err)
      have "d' = pg_db st" using tx_rolled_back[OF assms(1)] tx Some by blast
      then show thesis using eq Some assms(2) by (intro failed[of err q]) auto
    next
      case None
      obtain row' where row': "same_row row row'"
        "db_gateways D d' = (db_gateways D (pg_db st))(pgg_LocalID row \<mapsto> row')"
        using pg_save_tx_ok[OF assms(1)] tx_committed[OF assms(1)] tx None by metis
      have [simp]: "LocalID g' = LocalID g" by (simp add: g'_def)
      show thesis
        by (rule synced[OF Some _ g'_def, of row' d' q])
          (use eq None assms(2) row' in \<open>auto simp: row_def same_row_def\<close>)
    qed
  qed
qed

lemma pg_Add_inv:
  assumes "pg_inv E D st" "pg_Add E D st now l k = (r, st')"
  shows "pg_inv E D st'"
proof -
  have D: "gorm_ok D" using assms(1) by (simp add: pg_inv_def)
  from D assms(2) show ?thesis
  proof (cases rule: pg_Add_cases)
    case (ok row)
    have "pg_byLocalId st l = None" using ok(2) assms(1) by (auto simp: pg_inv_def)
    then have "index_inv E (pg_byLocalId st') (pg_byNetId st') (pg_byThingsIxID st')"
      using index_inv_put_no_tix[of E "pg_byLocalId st" "pg_byNetId st" "pg_byThingsIxID st" "NewGateway E l k"]
        assms(1) ok(7-9) by (simp add: pg_inv_def)
    then show ?thesis using assms(1) ok by (auto simp: pg_inv_def)
  qed (use assms(1) in simp)
qed

lemma pg_Sync_inv:
  assumes "pg_inv E D st" "pg_SyncGatewayByLocalID E D R st now l force = (r, st')"
  shows "pg_inv E D st'"
proof -
  have D: "gorm_ok D" using assms(1) by (simp add: pg_inv_def)
  from D assms(2) show ?thesis
  proof (cases rule: pg_Sync_cases)
    case (synced g ow v d q g' row db')
    have g: "LocalID g = l" "gateway_wf E g"
      using assms(1) synced(1) by (auto simp: pg_inv_def dest: index_invD(1,2))
    have "same_identity g g'" unfolding synced(3) by (rule same_identity_synced[OF g(2)])
    moreover have "LocalID g' = l" "gateway_wf E g'" using synced(3) g(1) by simp_all
    ultimately have "index_inv E (pg_byLocalId st') (pg_byNetId st') (pg_byThingsIxID st')"
      using assms(1) synced(1,7) index_inv_put[of E "pg_byLocalId st" "pg_byNetId st" "pg_byThingsIxID st" g']
      by (simp add: pg_inv_def)
    then show ?thesis using assms(1) synced g by (auto simp: pg_inv_def)
  qed (use assms(1) in auto)
qed

lemma pg_Sync_ok:
  assumes "pg_inv E D st" "pg_SyncGatewayByLocalID E D R st now l force = (Inr g, st')"
  shows "\<exists>old. pg_ByLocalID st l = Inr old \<and> same_identity old g \<and> pg_ByLocalID st' l = Inr g"
proof -
  have D: "gorm_ok D" using assms(1) by (simp add: pg_inv_def)
  from D assms(2) show ?thesis
  proof (cases rule: pg_Sync_cases)
    case (synced old ow v d q g' row db')
    then have old: "LocalID old = l" "gateway_wf E old"
      using assms(1) by (auto simp: pg_inv_def dest: index_invD(1,2))
    have "same_identity old g'" unfolding synced(3) by (rule same_identity_synced[OF old(2)])
    moreover have "LocalID g' = l" using synced(3) old(1) by simp
    ultimately show ?thesis using synced(1,2,7) by (simp add: pg_defs)
  qed (auto simp: pg_defs same_identity_def)
qed

lemma pg_Sync_frame:
  assumes "pg_inv E D st" "pg_SyncGatewayByLocalID E D R st now l force = (r, st')" "l' \<noteq> l"
  shows "pg_byLocalId st' l' = pg_byLocalId st l'"
proof -
  have D: "gorm_ok D" using assms(1) by (simp add: pg_inv_def)
  from D assms(2) show ?thesis
  proof (cases rule: pg_Sync_cases)
    case (synced g ow v d q g' row db')
    then have "LocalID g = l" using assms(1) by (auto simp: pg_inv_def dest: index_invD(1))
    then show ?thesis using synced(3,7) assms(3) by simp
  qed (auto simp: assms(3))
qed

lemma pg_Sync_error:
  assumes "pg_inv E D st" "pg_SyncGatewayByLocalID E D R st now l force = (Inl err, st')"
  shows "pg_byLocalId st' = pg_byLocalId st"
proof -
  have D: "gorm_ok D" using assms(1) by (simp add: pg_inv_def)
  from D assms(2) show ?thesis by (cases rule: pg_Sync_cases) auto
qed

lemma pg_Add_ok:
  assumes "pg_inv E D st" "pg_Add E D st now l k = (Inr g, st')"
  shows "g = NewGateway E l k \<and> pg_byLocalId st l = None \<and> pg_byLocalId st' = (pg_byLocalId st)(l \<mapsto> g) \<and>
         pg_byNetId st' = (pg_byNetId st)(NetworkID g \<mapsto> g) \<and> pg_byThingsIxID st' = pg_byThingsIxID st"
proof -
  have D: "gorm_ok D" using assms(1) by (simp add: pg_inv_def)
  from D assms(2) show ?thesis
    by (cases rule: pg_Add_cases) (use assms(1) in \<open>auto simp: pg_inv_def\<close>)
qed

lemma pg_Add_error:
  assumes "pg_inv E D st" "pg_Add E D st now l k = (Inl err, st')"
  shows "st' = st"
proof -
  have D: "gorm_ok D" using assms(1) by (simp add: pg_inv_def)
  from D assms(2) show ?thesis by (cases rule: pg_Add_cases) auto
qed

lemma pg_Add_frame:
  assumes "pg_inv E D st" "pg_Add E D st now l k = (r, st')" "l' \<noteq> l"
  shows "pg_byLocalId st' l' = pg_byLocalId st l'"
proof (cases r)
  case (Inl err)
  then show ?thesis using pg_Add_error[OF assms(1)] assms(2) by blast
next
  case (Inr g)
  then show ?thesis using pg_Add_ok[OF assms(1)] assms(2,3) by (metis fun_upd_other)
qed

interpretation pg: gateway_store "pg_table E L F D R" "pg_inv E D" E L
  for E L F and D :: "'d gorm" and R :: "'r registry"
proof unfold_locales
  fix s :: "('r, 'd) pg_store" and l n g e k r s' force l' str err
  show "pg_inv E D s \<Longrightarrow> (\<exists>g. gs_ByLocalID (pg_table E L F D R) s l = Inr g \<and> LocalID g = l \<and> gateway_wf E g) \<or>
      gs_ByLocalID (pg_table E L F D R) s l = Inl ErrNotFound"
    by (auto simp: pg_table_def pg_defs pg_inv_def split: option.split dest: index_invD(1,2))
  show "pg_inv E D s \<Longrightarrow> (\<exists>g. gs_ByNetworkID (pg_table E L F D R) s n = Inr g \<and> NetworkID g = n \<and>
      gs_ByLocalID (pg_table E L F D R) s (LocalID g) = Inr g) \<or>
      gs_ByNetworkID (pg_table E L F D R) s n = Inl ErrNotFound"
    by (auto simp: pg_table_def pg_defs pg_inv_def split: option.split dest: index_invD(4,5))
  show "pg_inv E D s \<Longrightarrow> gs_ByLocalID (pg_table E L F D R) s l = Inr g \<Longrightarrow>
      \<exists>g'. gs_ByNetworkID (pg_table E L F D R) s (NetworkID g) = Inr g'"
    by (auto simp: pg_table_def pg_defs pg_inv_def split: option.splits dest: index_invD(3))
  show "gs_ByLocalIDString (pg_table E L F D R) s str = (case eui_UnmarshalText L str of
      Inl _ \<Rightarrow> Inl ErrInvalidGatewayID | Inr e \<Rightarrow> gs_ByLocalID (pg_table E L F D R) s e)"
    by (simp add: pg_table_def pg_defs split: sum.split)
  show "gs_ByNetworkIDString (pg_table E L F D R) s str = (case eui_UnmarshalText L str of
      Inl _ \<Rightarrow> Inl ErrInvalidGatewayID | Inr e \<Rightarrow> gs_ByNetworkID (pg_table E L F D R) s e)"
    by (simp add: pg_table_def pg_defs split: sum.split)
  show "gs_ContainsByLocalID (pg_table E L F D R) s l = (\<exists>g. gs_ByLocalID (pg_table E L F D R) s l = Inr g)"
    by (auto simp: pg_table_def pg_defs split: option.splits)
  show "pg_inv E D s \<Longrightarrow> gs_Add (pg_table E L F D R) s e l k = (r, s') \<Longrightarrow> pg_inv E D s'"
    by (auto simp: pg_table_def intro: pg_Add_inv)
  show "pg_inv E D s \<Longrightarrow> gs_Add (pg_table E L F D R) s e l k = (Inr g, s') \<Longrightarrow>
      g = NewGateway E l k \<and> gs_ByLocalID (pg_table E L F D R) s l = Inl ErrNotFound \<and>
      gs_ByLocalID (pg_table E L F D R) s' l = Inr g \<and>
      gs_ByNetworkID (pg_table E L F D R) s' (NetworkID g) = Inr g"
    by (auto simp: pg_table_def pg_defs dest!: pg_Add_ok)
  show "pg_inv E D s \<Longrightarrow> gs_Add (pg_table E L F D R) s e l k = (r, s') \<Longrightarrow> l' \<noteq> l \<Longrightarrow>
      gs_ByLocalID (pg_table E L F D R) s' l' = gs_ByLocalID (pg_table E L F D R) s l'"
    by (simp add: pg_table_def pg_ByLocalID_def pg_Add_frame)
  show "pg_inv E D s \<Longrightarrow> gs_Add (pg_table E L F D R) s e l k = (Inl err, s') \<Longrightarrow>
      gs_ByLocalID (pg_table E L F D R) s' = gs_ByLocalID (pg_table E L F D R) s \<and>
      gs_ByNetworkID (pg_table E L F D R) s' = gs_ByNetworkID (pg_table E L F D R) s"
    by (auto simp: pg_table_def dest!: pg_Add_error)
  show "pg_inv E D s \<Longrightarrow> gs_SyncGatewayByLocalID (pg_table E L F D R) s e l force = (r, s') \<Longrightarrow> pg_inv E D s'"
    by (auto simp: pg_table_def intro: pg_Sync_inv)
  show "pg_inv E D s \<Longrightarrow> gs_SyncGatewayByLocalID (pg_table E L F D R) s e l force = (Inr g, s') \<Longrightarrow>
      \<exists>old. gs_ByLocalID (pg_table E L F D R) s l = Inr old \<and> same_identity old g \<and>
        gs_ByLocalID (pg_table E L F D R) s' l = Inr g"
    by (simp add: pg_table_def) (rule pg_Sync_ok)
  show "pg_inv E D s \<Longrightarrow> gs_SyncGatewayByLocalID (pg_table E L F D R) s e l force = (Inl err, s') \<Longrightarrow>
      gs_ByLocalID (pg_table E L F D R) s' = gs_ByLocalID (pg_table E L F D R) s"
    by (simp add: pg_table_def pg_ByLocalID_def pg_Sync_error fun_eq_iff)
  show "pg_inv E D s \<Longrightarrow> gs_SyncGatewayByLocalID (pg_table E L F D R) s e l force = (r, s') \<Longrightarrow> l' \<noteq> l \<Longrightarrow>
      gs_ByLocalID (pg_table E L F D R) s' l' = gs_ByLocalID (pg_table E L F D R) s l'"
    by (simp add: pg_table_def pg_ByLocalID_def pg_Sync_frame)
qed

section \<open>Loading and syncing\<close>

lemma pg_sync_loop_keeps:
  assumes "pg_inv E D st"
  shows "pg_inv E D (pg_sync_loop E D R now ids st) \<and>
    (index_tix_complete (pg_byLocalId st) (pg_byThingsIxID st) \<longrightarrow>
       index_tix_complete (pg_byLocalId (pg_sync_loop E D R now ids st))
         (pg_byThingsIxID (pg_sync_loop E D R now ids st))) \<and>
    (\<forall>l g. pg_byLocalId st l = Some g \<longrightarrow>
       (\<exists>g'. pg_byLocalId (pg_sync_loop E D R now ids st) l = Some g' \<and> same_identity g g'))"
  using assms
proof (induction ids arbitrary: st)
  case (Cons i ids)
  have D: "gorm_ok D" using Cons.prems by (simp add: pg_inv_def)
  obtain r st1 where st1: "pg_SyncGatewayByLocalID E D R st now i False = (r, st1)" by (metis surj_pair)
  have inv1: "pg_inv E D st1" using pg_Sync_inv[OF Cons.prems st1] .
  have tix: "index_tix_complete (pg_byLocalId st) (pg_byThingsIxID st) \<Longrightarrow>
      index_tix_complete (pg_byLocalId st1) (pg_byThingsIxID st1)"
    using D st1 by (cases rule: pg_Sync_cases) (auto simp: index_tix_complete_def)
  have ids: "\<exists>g'. pg_byLocalId st1 l = Some g' \<and> same_identity g g'" if "pg_byLocalId st l = Some g" for l g
    using D st1
  proof (cases rule: pg_Sync_cases)
    case (synced old ow v d q g' row db')
    have old: "gateway_wf E old" using Cons.prems synced(1) by (auto simp: pg_inv_def dest: index_invD(2))
    show ?thesis
    proof (cases "l = LocalID old")
      case True
      have "pg_byLocalId st (LocalID old) = Some old"
        using Cons.prems synced(1) by (auto simp: pg_inv_def dest: index_invD(1))
      then show ?thesis
        using True that synced(3,7) same_identity_synced[OF old] by (auto simp: same_identity_def)
    next
      case False
      then show ?thesis using that synced(3,7) by simp
    qed
  qed (use that in auto)
  have trans: "same_identity g g' \<Longrightarrow> same_identity g' g'' \<Longrightarrow> same_identity g g''" for g g' g''
    by (simp add: same_identity_def)
  show ?case
    using Cons.IH[OF inv1] tix ids st1 trans by (simp) blast
qed (simp add: same_identity_def)

lemma pg_asGateway_ok:
  assumes "pg_asGateway E row = Inr g"
  shows "LocalID g = pgg_LocalID row" "gateway_wf E g" "ToECDSA E (pgg_PrivateKey row) = Inr (PrivateKey g)"
    "Owner g = pgg_Owner row" "Version g = pgg_Version row"
  using assms by (auto simp: pg_asGateway_def gateway_wf_def Let_def split: sum.splits)

lemma pg_load_loop_ok:
  assumes "pg_load_loop E c rows (bL, bN, bT) ms = Inr ((bL', bN', bT'), ms')"
    and "distinct (map pgg_LocalID rows)" "\<forall>r \<in> set rows. bL (pgg_LocalID r) = None"
    and "index_inv E bL bN bT" "index_tix_complete bL bT"
  shows "index_inv E bL' bN' bT' \<and> index_tix_complete bL' bT' \<and>
    (\<forall>l. l \<notin> pgg_LocalID ` set rows \<longrightarrow> bL' l = bL l) \<and>
    (\<forall>r \<in> set rows. \<exists>g. pg_asGateway E r = Inr g \<and> bL' (pgg_LocalID r) = Some g)"
  using assms
proof (induction rows arbitrary: bL bN bT ms)
  case (Cons row rows)
  obtain g where g: "pg_asGateway E row = Inr g" using Cons.prems(1) by (auto split: sum.splits)
  note lid = pg_asGateway_ok(1,2)[OF g]
  let ?bL = "bL(LocalID g \<mapsto> g)" and ?bN = "bN(NetworkID g \<mapsto> g)" and ?bT = "bT(ThingsIxID g \<mapsto> g)"
  have "index_inv E ?bL ?bN ?bT" using Cons.prems lid by (intro index_inv_put) auto
  moreover have "\<forall>r \<in> set rows. ?bL (pgg_LocalID r) = None"
    using Cons.prems(2,3) lid by (auto simp: image_iff)
  moreover obtain ms1 where "pg_load_loop E c rows (?bL, ?bN, ?bT) ms1 = Inr ((bL', bN', bT'), ms')"
    using Cons.prems(1) g by (auto simp del: fun_upd_apply)
  moreover have "distinct (map pgg_LocalID rows)" using Cons.prems(2) by simp
  ultimately have IH: "index_inv E bL' bN' bT' \<and> index_tix_complete bL' bT' \<and>
    (\<forall>l. l \<notin> pgg_LocalID ` set rows \<longrightarrow> bL' l = ?bL l) \<and>
    (\<forall>r \<in> set rows. \<exists>g. pg_asGateway E r = Inr g \<and> bL' (pgg_LocalID r) = Some g)"
    using Cons.IH[of ?bL ?bN ?bT ms1] index_tix_upd[OF Cons.prems(5), of g] by blast
  moreover have "bL' (pgg_LocalID row) = Some g"
    using IH Cons.prems(2) lid by simp
  ultimately show ?case using g lid by auto
qed auto

lemma pg_load_loop_total:
  assumes "\<forall>r \<in> set rows. \<exists>g. pg_asGateway E r = Inr g"
  shows "\<exists>ix ms'. pg_load_loop E c rows (bL, bN, bT) ms = Inr (ix, ms')"
  using assms by (induction rows arbitrary: bL bN bT ms) fastforce+

text \<open>What a successful load leaves: the gateways of the table, none other, under all three ids.\<close>

lemma loadFromPostgres_ok:
  assumes D: "gorm_ok D" and find: "db_FindGateways D (pg_db st) = Inr rows"
    and load: "loadFromPostgres E D R now st = (Inr (), st')"
  shows "pg_inv E D st'" "index_tix_complete (pg_byLocalId st') (pg_byThingsIxID st')"
    "r \<in> set rows \<Longrightarrow>
       \<exists>g g'. pg_asGateway E r = Inr g \<and> pg_byLocalId st' (pgg_LocalID r) = Some g' \<and> same_identity g g'"
proof -
  obtain bL bN bT ms where loop:
    "pg_load_loop E (now - 10 * minute) rows (Map.empty, Map.empty, Map.empty) [] = Inr ((bL, bN, bT), ms)"
    and st': "st' = pg_sync_loop E D R now ms
      (st\<lparr>pg_byLocalId := bL, pg_byNetId := bN, pg_byThingsIxID := bT\<rparr>)"
    using load find by (auto simp: loadFromPostgres_def Let_def split: sum.splits)
  let ?st = "st\<lparr>pg_byLocalId := bL, pg_byNetId := bN, pg_byThingsIxID := bT\<rparr>"
  have ix: "index_inv E bL bN bT" "index_tix_complete bL bT"
    "\<forall>l. l \<notin> pgg_LocalID ` set rows \<longrightarrow> bL l = None"
    "\<forall>r \<in> set rows. \<exists>g. pg_asGateway E r = Inr g \<and> bL (pgg_LocalID r) = Some g"
    using pg_load_loop_ok[OF loop FindGateways_rows(1)[OF D find]]
    by (auto simp: index_inv_empty index_tix_complete_def)
  have "dom bL \<subseteq> dom (db_gateways D (pg_db st))"
  proof
    fix l assume "l \<in> dom bL"
    then obtain r where "r \<in> set rows" "l = pgg_LocalID r" using ix(3) by (metis domIff image_iff)
    then show "l \<in> dom (db_gateways D (pg_db st))" using FindGateways_rows(2)[OF D find] by blast
  qed
  then have "pg_inv E D ?st" using D ix(1) by (simp add: pg_inv_def)
  note keeps = pg_sync_loop_keeps[OF this, of R now ms]
  show "pg_inv E D st'" "index_tix_complete (pg_byLocalId st') (pg_byThingsIxID st')"
    using keeps ix(2) st' by simp_all
  show "\<exists>g g'. pg_asGateway E r = Inr g \<and> pg_byLocalId st' (pgg_LocalID r) = Some g' \<and> same_identity g g'"
    if "r \<in> set rows"
    using keeps ix(4) st' that by fastforce
qed

lemma loadFromPostgres_error:
  "loadFromPostgres E D R now st = (Inl err, st') \<Longrightarrow> st' = st"
  by (auto simp: loadFromPostgres_def Let_def split: sum.splits)

lemma loadFromPostgres_inv:
  assumes "pg_inv E D st"
  shows "pg_inv E D (snd (loadFromPostgres E D R now st))"
proof -
  have D: "gorm_ok D" using assms by (simp add: pg_inv_def)
  obtain r st' where load: "loadFromPostgres E D R now st = (r, st')" by (metis surj_pair)
  show ?thesis
  proof (cases r)
    case (Inl err)
    then show ?thesis using load loadFromPostgres_error assms by fastforce
  next
    case (Inr u)
    then obtain rows where "db_FindGateways D (pg_db st) = Inr rows"
      using load by (auto simp: loadFromPostgres_def Let_def split: sum.splits)
    then show ?thesis using loadFromPostgres_ok(1)[OF D] load Inr by fastforce
  qed
qed

text \<open>A registry that knows one gateway owner.\<close>

definition registry_example :: "unit registry" where
  "registry_example = \<lparr>reg_GatewayDetails = (\<lambda>r _ _. (Inr (address_zero, 1, None), r))\<rparr>"

section \<open>Properties\<close>

text \<open>
  A database store that \<^verbatim>\<open>NewPostgresStore\<close> returns has consistent indexes and a row for
  every gateway in memory, and adding, syncing one or all gateways and reloading keep this.
\<close>

theorem pg_store_invariant:
  assumes "gorm_ok D"
  shows "(\<forall>st. NewPostgresStore E D R now d ival reg dflt = Ret (Inr st) \<longrightarrow> pg_inv E D st) \<and>
         (\<forall>st. pg_inv E D st \<longrightarrow>
            pg_inv E D (snd (pg_Add E D st now l k)) \<and>
            pg_inv E D (snd (pg_SyncGatewayByLocalID E D R st now l force)) \<and>
            pg_inv E D (pg_syncAll E D R now order st) \<and>
            pg_inv E D (snd (loadFromPostgres E D R now st)))"
proof (intro conjI allI impI)
  fix st :: "('b, 'a) pg_store" assume inv: "pg_inv E D st"
  show "pg_inv E D (snd (pg_Add E D st now l k))"
    using pg_Add_inv[OF inv] by (metis prod.collapse)
  show "pg_inv E D (snd (pg_SyncGatewayByLocalID E D R st now l force))"
    using pg_Sync_inv[OF inv] by (metis prod.collapse)
  show "pg_inv E D (pg_syncAll E D R now order st)"
    using pg_sync_loop_keeps[OF inv] by (simp add: pg_syncAll_def)
  show "pg_inv E D (snd (loadFromPostgres E D R now st))" by (rule loadFromPostgres_inv[OF inv])
next
  fix st :: "('b, 'a) pg_store"
  assume new: "NewPostgresStore E D R now d ival reg dflt = Ret (Inr st)"
  have "pg_inv E D \<lparr>pg_refreshInterval = t, pg_byLocalId = Map.empty, pg_byNetId = Map.empty,
      pg_byThingsIxID = Map.empty, pg_registry = reg, pg_defaultFrequencyPlan = dflt, pg_db = d'\<rparr>" for t d'
    using assms by (simp add: pg_inv_def index_inv_empty)
  with new show "pg_inv E D st"
    by (auto simp: NewPostgresStore_def Let_def split: prod.splits option.splits intro: loadFromPostgres_inv)
qed

theorem pg_store_invariant_witness:
  "\<exists>st. NewPostgresStore eth_example mem_gorm registry_example 0 ([], []) (Some hour) () ''EU868'' = Ret (Inr st) \<and>
     pg_inv eth_example mem_gorm (snd (pg_Add eth_example mem_gorm st 0 eui64_zero (key_example 4)))"
proof -
  obtain st where st: "NewPostgresStore eth_example mem_gorm registry_example 0 ([], []) (Some hour) () ''EU868'' = Ret (Inr st)"
    by (simp add: NewPostgresStore_def mem_gorm_def Let_def)
  show ?thesis
    using pg_store_invariant[OF mem_gorm_ok, of eth_example registry_example 0 "([], [])" "Some hour" "()" "''EU868''"] st by blast
qed

text \<open>
  A gateway added to the database store survives a restart: when the table can be read and its
  keys decode, loading it succeeds and brings the gateway back with the same ids and key,
  found by its local id and, unlike before the reload, by its ThingsIX id.
\<close>

theorem pg_Add_persists:
  assumes "pg_inv E D st" "ToECDSA E (FromECDSA E k) = Inr k"
    and "pg_Add E D st now l k = (Inr g, st')"
    and "pg_db st0 = pg_db st'" "db_FindGateways D (pg_db st') = Inr rows"
    and "\<forall>r \<in> set rows. \<exists>k'. ToECDSA E (pgg_PrivateKey r) = Inr k'"
  shows "pg_ByThingsIxID st' = pg_ByThingsIxID st \<and>
         (\<exists>st2 g2 g3. loadFromPostgres E D R now' st0 = (Inr (), st2) \<and>
            pg_ByLocalID st2 l = Inr g2 \<and> same_identity g g2 \<and>
            pg_ByThingsIxID st2 (ThingsIxID g) = Inr g3)"
proof -
  have D: "gorm_ok D" using assms(1) by (simp add: pg_inv_def)
  from D assms(3) obtain row where row: "g = NewGateway E l k" "pgg_LocalID row = l"
    "pgg_PrivateKey row = FromECDSA E k" "db_gateways D (pg_db st') l = Some row"
    "pg_byThingsIxID st' = pg_byThingsIxID st"
    by (cases rule: pg_Add_cases) auto
  have mem: "row \<in> set rows" using FindGateways_rows(2)[OF D assms(5)] row(4) by blast
  have "\<forall>r \<in> set rows. \<exists>g. pg_asGateway E r = Inr g"
    using assms(6) by (auto simp: pg_asGateway_def Let_def split: sum.split)
  then obtain ix ms where
    "pg_load_loop E (now' - 10 * minute) rows (Map.empty, Map.empty, Map.empty) [] = Inr (ix, ms)"
    using pg_load_loop_total by blast
  then obtain st2 where load: "loadFromPostgres E D R now' st0 = (Inr (), st2)"
    using assms(4,5) by (cases ix) (simp add: loadFromPostgres_def Let_def)
  have find0: "db_FindGateways D (pg_db st0) = Inr rows" using assms(4,5) by simp
  obtain g1 g2 where g: "pg_asGateway E row = Inr g1" "pg_byLocalId st2 l = Some g2" "same_identity g1 g2"
    using loadFromPostgres_ok(3)[OF D find0 load mem] row(2) by auto
  have "PrivateKey g1 = k" "gateway_wf E g1" "LocalID g1 = l"
    using pg_asGateway_ok[OF g(1)] row assms(2) by auto
  then have same: "same_identity g g2"
    using g(3) row(1) by (simp add: same_identity_def gateway_wf_def)
  have "pg_byThingsIxID st2 (ThingsIxID g2) \<noteq> None"
    using loadFromPostgres_ok(2)[OF D find0 load] g(2) unfolding index_tix_complete_def by blast
  then have "\<exists>g3. pg_byThingsIxID st2 (ThingsIxID g) = Some g3" using same by (simp add: same_identity_def)
  moreover have "pg_ByThingsIxID st' = pg_ByThingsIxID st"
    using row(5) by (simp add: pg_ByThingsIxID_def fun_eq_iff)
  ultimately show ?thesis using load g(2) same by (auto simp: pg_ByLocalID_def pg_ByThingsIxID_def)
qed

definition pg_store_example :: "(unit, mem_db) pg_store" where
  "pg_store_example =
     \<lparr>pg_refreshInterval = hour, pg_byLocalId = Map.empty, pg_byNetId = Map.empty, pg_byThingsIxID = Map.empty,
      pg_registry = (), pg_defaultFrequencyPlan = ''EU868'', pg_db = ([], [])\<rparr>"

theorem pg_Add_persists_witness:
  "\<exists>st' st2 g2. pg_Add eth_example mem_gorm pg_store_example 0 eui64_zero (key_example 4) =
       (Inr (NewGateway eth_example eui64_zero (key_example 4)), st') \<and>
     loadFromPostgres eth_example mem_gorm registry_example hour (pg_store_example\<lparr>pg_db := pg_db st'\<rparr>) = (Inr (), st2) \<and>
     pg_ByLocalID st2 eui64_zero = Inr g2 \<and> PrivateKey g2 = key_example 4"
proof -
  let ?g = "NewGateway eth_example eui64_zero (key_example 4)"
  define row where "row = \<lparr>pgg_LocalID = eui64_zero, pgg_PrivateKey = FromECDSA eth_example (key_example 4),
    pgg_Owner = None, pgg_Version = None, pgg_Details = None, pgg_LastSynced = None, pgg_CreatedAt = 0\<rparr>"
  define st' where "st' = pg_store_example\<lparr>pg_byLocalId := [eui64_zero \<mapsto> ?g],
    pg_byNetId := [NetworkID ?g \<mapsto> ?g], pg_db := ([row], [])\<rparr>"
  have key: "ToECDSA eth_example (FromECDSA eth_example (key_example 4)) = Inr (key_example 4)"
    by (simp add: eth_example_def key_example_def)
  have add: "pg_Add eth_example mem_gorm pg_store_example 0 eui64_zero (key_example 4) = (Inr ?g, st')"
    by (simp add: pg_Add_def pg_add_tx_def mem_gorm_def pg_store_example_def st'_def row_def Let_def)
  have find: "db_FindGateways mem_gorm (pg_db st') = Inr [row]"
    by (simp add: mem_gorm_def st'_def)
  have inv: "pg_inv eth_example mem_gorm pg_store_example"
    by (simp add: pg_inv_def mem_gorm_ok index_inv_empty pg_store_example_def)
  show ?thesis
    using pg_Add_persists[OF inv key add _ find, of "pg_store_example\<lparr>pg_db := pg_db st'\<rparr>" registry_example hour] add key
    by (auto simp: same_identity_def row_def)
qed

end
