(* ===== verification/Exchange.thy ===== *)
theory Exchange
  imports Router_Client Mapper_Forwarder Unknown_Recorder Yaml_Store Pg_Store
begin

text \<open>
  The packet exchange, \<^verbatim>\<open>forwarder/exchange.go\<close>: the callbacks that the gateway backend calls, the
  dispatch of what router clients receive, and their effect on the broadcaster to the router
  clients, on the backend, on the recorder of unknown gateways and on the mapper forwarder.  The
  exchange is written against the method tables of the gateway store and of the unknown gateway
  logger; its lemmas are proved under the contract \<open>gateway_store\<close> and reach both stores through their
  interpretations.  Metrics other than the online gauge are not modelled.
\<close>

section \<open>State\<close>

record ('s, 'u, 'a, 'c) exchange =
  ex_gateways :: 's
  ex_recorder :: 'u
  ex_gatewayEvents :: "gateway_event broadcaster"
  ex_accounts :: 'a
  ex_mapper :: "'c mapper_forwarder"
  ex_jobs :: "mapper_job list"
  ex_downlinks :: "downlink_frame list"
  ex_online :: "eui64 \<rightharpoonup> bool"

record ('s, 'e, 'u, 'v, 'a, 'c) exchange_env =
  xe_S :: "('s, 'e) gateway_store"
  xe_U :: "('u, 'v) unknown_gateway_logger"
  xe_L :: lorawan_lib
  xe_airtime :: airtime_calc
  xe_V :: mapper_env
  xe_C :: "'c lru"
  xe_accounter :: "'a accounter"

definition broadcast_event :: "gateway_event \<Rightarrow> ('s, 'u, 'a, 'c) exchange \<Rightarrow> ('s, 'u, 'a, 'c) exchange" where
  "broadcast_event ge x = x\<lparr>ex_gatewayEvents := fst (TryBroadcast ge (ex_gatewayEvents x))\<rparr>"

definition record_unknown ::
  "('s, 'e, 'u, 'v, 'a, 'c) exchange_env \<Rightarrow> 'v \<Rightarrow> eui64 \<Rightarrow> ('s, 'u, 'a, 'c) exchange \<Rightarrow> ('s, 'u, 'a, 'c) exchange" where
  "record_unknown X io localID x = x\<lparr>ex_recorder := snd (ul_Record (xe_U X) (ex_recorder x) io localID)\<rparr>"

definition gateway_info :: "gateway \<Rightarrow> gateway_information" where
  "gateway_info gw = \<lparr>gi_PublicKey = CompressedPubKeyBytes gw, gi_Owner = OwnerBytes gw\<rparr>"

section \<open>Uplinks\<close>

definition uplink_event :: "gateway \<Rightarrow> uplink_frame \<Rightarrow> duration \<Rightarrow> gtr_event" where
  "uplink_event gw frame airtime =
     \<lparr>ge_GatewayInformation = Some (gateway_info gw),
      ge_Event = UplinkFrameEvent (Some frame)
        (Some \<lparr>ar_Owner = OwnerBytes gw, ar_Airtime = word_of_int (milliseconds airtime)\<rparr>)\<rparr>"

definition dispatch_uplink ::
  "('s, 'e, 'u, 'v, 'a, 'c) exchange_env \<Rightarrow> gateway \<Rightarrow> uplink_frame \<Rightarrow> phy_payload \<Rightarrow> duration \<Rightarrow>
   ('s, 'u, 'a, 'c) exchange \<Rightarrow> ('s, 'u, 'a, 'c) exchange go" where
  "dispatch_uplink X gw frame phy airtime x =
     (if phy_MType phy \<in> {ConfirmedDataUp, UnconfirmedDataUp} then
        (case phy_MACPayload phy of
           MACPayload mac \<Rightarrow>
             if IsMaybeMapperPacket frame mac
             then go_bind (HandleMapperPacket (xe_V X) (xe_C X) (xe_S X) (ex_gateways x) frame mac (ex_mapper x))
                    (\<lambda>(job, mapper).
                       Ret (x\<lparr>ex_mapper := mapper,
                              ex_jobs := ex_jobs x @ (case job of None \<Rightarrow> [] | Some j \<Rightarrow> [j])\<rparr>))
             else Ret (broadcast_event
                    \<lparr>ev_join = None, ev_uplink = Some (mac_DevAddr mac, uplink_event gw frame airtime),
                     ev_subOnlineOfflineEvent = None, ev_downlinkAck = None, ev_receivedFrom = gw\<rparr> x)
         | _ \<Rightarrow> Ret x)
      else if phy_MType phy \<in> {JoinRequest, RejoinRequest} then
        (case phy_MACPayload phy of
           JoinRequestPayload devEUI \<Rightarrow>
             Ret (broadcast_event
                    \<lparr>ev_join = Some (devEUI, uplink_event gw frame airtime), ev_uplink = None,
                     ev_subOnlineOfflineEvent = None, ev_downlinkAck = None, ev_receivedFrom = gw\<rparr> x)
         | _ \<Rightarrow> Ret x)
      else Ret x)"

definition uplinkFrameCallback ::
  "('s, 'e, 'u, 'v, 'a, 'c) exchange_env \<Rightarrow> 'v \<Rightarrow> uplink_frame \<Rightarrow>
   ('s, 'u, 'a, 'c) exchange \<Rightarrow> ('s, 'u, 'a, 'c) exchange go" where
  "uplinkFrameCallback X io frame x =
     (case Eui64FromString (xe_L X) (frame_gateway_id frame) of
        Inl err \<Rightarrow> Ret x
      | Inr gatewayLocalID \<Rightarrow>
          go_bind (deref (uf_RxInfo frame)) (\<lambda>ri.
            case gs_ByLocalIDString (xe_S X) (ex_gateways x) (ri_GatewayId ri) of
              Inl err \<Rightarrow> Ret (record_unknown X io gatewayLocalID x)
            | Inr gw \<Rightarrow>
                go_bind (localUplinkFrameToNetwork (xe_L X) gw frame) (\<lambda>res.
                  case res of
                    Inl err \<Rightarrow> Ret x
                  | Inr frame \<Rightarrow>
                      (case phy_UnmarshalBinary (xe_L X) (uf_PhyPayload frame) of
                         Inl err \<Rightarrow> Ret x
                       | Inr phy \<Rightarrow>
                           let airtime = (case UplinkAirtime (xe_airtime X) frame of Inl err \<Rightarrow> 0 | Inr d \<Rightarrow> d)
                           in go_bind (setChaindataInFrameMetadata (me_E (xe_V X)) (me_H (xe_V X)) frame gw airtime)
                                (\<lambda>frame. dispatch_uplink X gw frame phy airtime x)))))"

section \<open>Gateway status\<close>

definition gatewayStats ::
  "('s, 'e, 'u, 'v, 'a, 'c) exchange_env \<Rightarrow> string \<Rightarrow> ('s, 'u, 'a, 'c) exchange \<Rightarrow> ('s, 'u, 'a, 'c) exchange" where
  "gatewayStats X gatewayID x =
     (case gs_ByLocalIDString (xe_S X) (ex_gateways x) gatewayID of Inl err \<Rightarrow> x | Inr gw \<Rightarrow> x)"

definition status_event :: "gateway \<Rightarrow> bool \<Rightarrow> gateway_event" where
  "status_event gw online =
     \<lparr>ev_join = None, ev_uplink = None,
      ev_subOnlineOfflineEvent = Some \<lparr>ge_GatewayInformation = Some (gateway_info gw), ge_Event = StatusEvent online\<rparr>,
      ev_downlinkAck = None, ev_receivedFrom = gw\<rparr>"

definition subscribeEvent ::
  "('s, 'e, 'u, 'v, 'a, 'c) exchange_env \<Rightarrow> 'v \<Rightarrow> eui64 \<Rightarrow> bool \<Rightarrow>
   ('s, 'u, 'a, 'c) exchange \<Rightarrow> ('s, 'u, 'a, 'c) exchange" where
  "subscribeEvent X io gatewayID subscribe x =
     (case BytesToGatewayID (eui_bytes gatewayID) of
        Inl err \<Rightarrow> x
      | Inr localGatewayID \<Rightarrow>
          (case gs_ByLocalID (xe_S X) (ex_gateways x) localGatewayID of
             Inl err \<Rightarrow> record_unknown X io localGatewayID x
           | Inr gw \<Rightarrow>
               broadcast_event (status_event gw subscribe)
                 (x\<lparr>ex_online := (ex_online x)(NetworkID gw \<mapsto> subscribe)\<rparr>)))"

section \<open>Downlinks\<close>

text \<open>
  An unparsable id is only logged: the code goes on with the zero EUI64.  For an unknown gateway the
  first item of the frame is logged, so that a frame without items, or no frame, panics.
  \<open>send\<close> is what the backend answers.
\<close>

definition handleDownlinkFrame ::
  "('s, 'e, 'u, 'v, 'a, 'c) exchange_env \<Rightarrow> go_error option \<Rightarrow> downlink_frame option \<Rightarrow>
   ('s, 'u, 'a, 'c) exchange \<Rightarrow> ('s, 'u, 'a, 'c) exchange go" where
  "handleDownlinkFrame X send event x =
     (let gwNetworkId = eui_or_zero (Eui64FromString (xe_L X) (case event of None \<Rightarrow> [] | Some f \<Rightarrow> df_GatewayId f))
      in case gs_ByNetworkID (xe_S X) (ex_gateways x) gwNetworkId of
           Inl err \<Rightarrow> go_bind (deref event) (\<lambda>frame. go_bind (go_index (df_Items frame) 0) (\<lambda>item. Ret x))
         | Inr gw \<Rightarrow>
             go_bind (deref event) (\<lambda>frame.
               let frame = networkDownlinkFrameToLocal (xe_L X) gw frame
               in case send of
                    Some err \<Rightarrow> Ret x
                  | None \<Rightarrow> Ret (x\<lparr>ex_downlinks := ex_downlinks x @ [frame]\<rparr>)))"

definition ack_event :: "gateway \<Rightarrow> downlink_tx_ack \<Rightarrow> gateway_event" where
  "ack_event gw txack =
     \<lparr>ev_join = None, ev_uplink = None, ev_subOnlineOfflineEvent = None,
      ev_downlinkAck = Some (da_DownlinkId txack,
        \<lparr>ge_GatewayInformation = Some (gateway_info gw),
         ge_Event = DownlinkTXAckEvent (Some txack) (Some \<lparr>ar_Owner = OwnerBytes gw, ar_Airtime = 0\<rparr>)\<rparr>),
      ev_receivedFrom = gw\<rparr>"

definition downlinkTxAck ::
  "('s, 'e, 'u, 'v, 'a, 'c) exchange_env \<Rightarrow> 'v \<Rightarrow> downlink_tx_ack \<Rightarrow>
   ('s, 'u, 'a, 'c) exchange \<Rightarrow> ('s, 'u, 'a, 'c) exchange" where
  "downlinkTxAck X io txack x =
     (case Eui64FromString (xe_L X) (da_GatewayId txack) of
        Inl err \<Rightarrow> x
      | Inr localGatewayID \<Rightarrow>
          (case gs_ByLocalID (xe_S X) (ex_gateways x) localGatewayID of
             Inl err \<Rightarrow> record_unknown X io localGatewayID x
           | Inr gw \<Rightarrow>
               (case localDownlinkTxAckToNetwork (xe_L X) gw txack of
                  Inl err \<Rightarrow> x
                | Inr txack \<Rightarrow> broadcast_event (ack_event gw txack) x)))"

text \<open>What \<^verbatim>\<open>Run\<close> does with an event from the network.\<close>

definition exchange_Run_event ::
  "('s, 'e, 'u, 'v, 'a, 'c) exchange_env \<Rightarrow> go_error option \<Rightarrow> rtg_event \<Rightarrow>
   ('s, 'u, 'a, 'c) exchange \<Rightarrow> ('s, 'u, 'a, 'c) exchange go" where
  "exchange_Run_event X send event x =
     (case event of
        DownlinkFrameEvent frame \<Rightarrow> handleDownlinkFrame X send frame x
      | AirtimePaymentEvent p \<Rightarrow> Ret (x\<lparr>ex_accounts := acc_AddPayment (xe_accounter X) (ex_accounts x) p\<rparr>)
      | NoRtgBody \<Rightarrow> Ret x)"

text \<open>The end of the goroutine that delivered a discovery packet: the answer may order a downlink.\<close>

definition finish_job ::
  "('s, 'e, 'u, 'v, 'a, 'c) exchange_env \<Rightarrow> go_error option \<Rightarrow> u32 \<Rightarrow> bytes \<Rightarrow> mapper_job \<Rightarrow>
   downlink_transmit_request option result \<Rightarrow>
   ('s, 'u, 'a, 'c) exchange \<Rightarrow> ('s, 'u, 'a, 'c) exchange go" where
  "finish_job X send rnd uuid job resp x =
     (case job of
        ConfirmationJob region dcpr \<Rightarrow> Ret x
      | DiscoveryJob region dpr frame gw \<Rightarrow>
          go_bind (discovery_reply rnd uuid frame resp) (\<lambda>df.
            case df of None \<Rightarrow> Ret x | Some f \<Rightarrow> handleDownlinkFrame X send (Some f) x))"

section \<open>The exchange as a step relation\<close>

text \<open>The callbacks of the backend, the events of the network, and the changes of the store by the HTTP
  API and by the store's background sync, in any order.\<close>

inductive exchange_step ::
  "('s, 'e, 'u, 'v, 'a, 'c) exchange_env \<Rightarrow> ('s, 'u, 'a, 'c) exchange \<Rightarrow> ('s, 'u, 'a, 'c) exchange \<Rightarrow> bool"
  for X where
  uplink: "uplinkFrameCallback X io frame x = Ret x' \<Longrightarrow> exchange_step X x x'"
| stats: "exchange_step X x (gatewayStats X gid x)"
| subscribe: "exchange_step X x (subscribeEvent X io gid sub x)"
| txack: "exchange_step X x (downlinkTxAck X io ack x)"
| network: "exchange_Run_event X send event x = Ret x' \<Longrightarrow> exchange_step X x x'"
| job: "finish_job X send rnd uuid j resp x = Ret x' \<Longrightarrow> exchange_step X x x'"
| add: "gs_Add (xe_S X) (ex_gateways x) e l k = (r, s') \<Longrightarrow> exchange_step X x (x\<lparr>ex_gateways := s'\<rparr>)"
| sync: "gs_SyncGatewayByLocalID (xe_S X) (ex_gateways x) e l force = (r, s') \<Longrightarrow>
    exchange_step X x (x\<lparr>ex_gateways := s'\<rparr>)"

inductive exchange_reachable ::
  "('s, 'e, 'u, 'v, 'a, 'c) exchange_env \<Rightarrow> ('s, 'u, 'a, 'c) exchange \<Rightarrow> ('s, 'u, 'a, 'c) exchange \<Rightarrow> bool"
  for X where
  start: "exchange_reachable X x x"
| step: "exchange_reachable X x y \<Longrightarrow> exchange_step X y z \<Longrightarrow> exchange_reachable X x z"

section \<open>Trusted events\<close>

text \<open>An event as the router clients and the routers expect it: it names the gateway it comes from by the
  public key and, in the message, by the network id that belongs to this key.\<close>

fun addressed :: "string \<Rightarrow> gtr_body \<Rightarrow> bool" where
  "addressed ident (UplinkFrameEvent (Some frame) rcpt) = (frame_gateway_id frame = ident)"
| "addressed ident (DownlinkTXAckEvent (Some ack) rcpt) = (da_GatewayId ack = ident)"
| "addressed ident (StatusEvent online) = True"
| "addressed ident _ = False"

definition events_of :: "gateway_event \<Rightarrow> gtr_event set" where
  "events_of ge = set_option (map_option snd (ev_join ge)) \<union> set_option (map_option snd (ev_uplink ge)) \<union>
     set_option (ev_subOnlineOfflineEvent ge) \<union> set_option (map_option snd (ev_downlinkAck ge))"

definition event_ok :: "eth_lib \<Rightarrow> lorawan_lib \<Rightarrow> gateway_event \<Rightarrow> bool" where
  "event_ok E L ge \<longleftrightarrow>
     gateway_wf E (ev_receivedFrom ge) \<and> event_wf ge \<and> events_of ge \<noteq> {} \<and>
     (\<forall>ev \<in> events_of ge. addressed (eui_String L (NetworkID (ev_receivedFrom ge))) (ge_Event ev) \<and>
        (\<exists>info. ge_GatewayInformation ev = Some info \<and>
           GatewayPublicKeyToID (gi_PublicKey info) = Inr (NetworkID (ev_receivedFrom ge))))"

definition from_store :: "('s, 'e) gateway_store \<Rightarrow> 's \<Rightarrow> gateway_event \<Rightarrow> bool" where
  "from_store S gs ge \<longleftrightarrow>
     (\<exists>g. gs_ByLocalID S gs (LocalID (ev_receivedFrom ge)) = Inr g \<and> same_identity (ev_receivedFrom ge) g)"

definition to_store :: "lorawan_lib \<Rightarrow> ('s, 'e) gateway_store \<Rightarrow> 's \<Rightarrow> downlink_frame \<Rightarrow> bool" where
  "to_store L S gs frame \<longleftrightarrow>
     (\<exists>l g. gs_ByLocalID S gs l = Inr g \<and> df_GatewayId frame = eui_String L l)"

definition exchange_inv ::
  "('s \<Rightarrow> bool) \<Rightarrow> eth_lib \<Rightarrow> ('s, 'e, 'u, 'v, 'a, 'c) exchange_env \<Rightarrow> ('s, 'u, 'a, 'c) exchange \<Rightarrow> bool" where
  "exchange_inv good E X x \<longleftrightarrow>
     good (ex_gateways x) \<and>
     (\<forall>ge \<in> set (bc_accepted (ex_gatewayEvents x)). event_ok E (xe_L X) ge \<and> from_store (xe_S X) (ex_gateways x) ge) \<and>
     (\<forall>frame \<in> set (ex_downlinks x). to_store (xe_L X) (xe_S X) (ex_gateways x) frame)"

lemma broadcast_event_sel [simp]:
  "ex_gateways (broadcast_event ge x) = ex_gateways x" "ex_downlinks (broadcast_event ge x) = ex_downlinks x"
  "ex_mapper (broadcast_event ge x) = ex_mapper x" "ex_recorder (broadcast_event ge x) = ex_recorder x"
  by (simp_all add: broadcast_event_def)

lemma record_unknown_sel [simp]:
  "ex_gateways (record_unknown X io l x) = ex_gateways x" "ex_downlinks (record_unknown X io l x) = ex_downlinks x"
  "ex_gatewayEvents (record_unknown X io l x) = ex_gatewayEvents x"
  by (simp_all add: record_unknown_def)

lemma set_accepted_broadcast:
  "set (bc_accepted (ex_gatewayEvents (broadcast_event ge x))) \<subseteq> insert ge (set (bc_accepted (ex_gatewayEvents x)))"
  by (auto simp: broadcast_event_def TryBroadcast_def)

lemma exchange_inv_frame:
  assumes "exchange_inv good E X x" "ex_gateways y = ex_gateways x" "ex_gatewayEvents y = ex_gatewayEvents x"
    "ex_downlinks y = ex_downlinks x"
  shows "exchange_inv good E X y"
  using assms by (simp add: exchange_inv_def)

lemma exchange_inv_broadcast:
  assumes "exchange_inv good E X x" "event_ok E (xe_L X) ge" "from_store (xe_S X) (ex_gateways x) ge"
  shows "exchange_inv good E X (broadcast_event ge x)"
  using assms set_accepted_broadcast[of ge x] by (auto simp: exchange_inv_def)

lemma event_ok_status: "gateway_wf E gw \<Longrightarrow> event_ok E L (status_event gw online)"
  by (simp add: event_ok_def status_event_def events_of_def event_wf_def gateway_info_def pubkey_network_id)

lemma event_ok_ack:
  "gateway_wf E gw \<Longrightarrow> da_GatewayId ack = eui_String L (NetworkID gw) \<Longrightarrow> event_ok E L (ack_event gw ack)"
  by (simp add: event_ok_def ack_event_def events_of_def event_wf_def gateway_info_def pubkey_network_id)

lemma event_ok_uplink:
  assumes "gateway_wf E gw" "frame_gateway_id frame = eui_String L (NetworkID gw)"
  shows "event_ok E L \<lparr>ev_join = None, ev_uplink = Some (a, uplink_event gw frame t),
      ev_subOnlineOfflineEvent = None, ev_downlinkAck = None, ev_receivedFrom = gw\<rparr>"
    "event_ok E L \<lparr>ev_join = Some (e, uplink_event gw frame t), ev_uplink = None,
      ev_subOnlineOfflineEvent = None, ev_downlinkAck = None, ev_receivedFrom = gw\<rparr>"
  using assms
  by (simp_all add: event_ok_def uplink_event_def events_of_def event_wf_def gateway_info_def pubkey_network_id)

lemma dispatch_uplink_cases:
  assumes "dispatch_uplink X gw frame phy t x = Ret x'"
  obtains (broadcast) ge where "x' = broadcast_event ge x" "ev_receivedFrom ge = gw"
      "(\<exists>a. ge = \<lparr>ev_join = None, ev_uplink = Some (a, uplink_event gw frame t),
          ev_subOnlineOfflineEvent = None, ev_downlinkAck = None, ev_receivedFrom = gw\<rparr>) \<or>
       (\<exists>e. ge = \<lparr>ev_join = Some (e, uplink_event gw frame t), ev_uplink = None,
          ev_subOnlineOfflineEvent = None, ev_downlinkAck = None, ev_receivedFrom = gw\<rparr>)"
    | (quiet) "ex_gateways x' = ex_gateways x" "ex_gatewayEvents x' = ex_gatewayEvents x"
        "ex_downlinks x' = ex_downlinks x"
proof (cases "phy_MType phy \<in> {ConfirmedDataUp, UnconfirmedDataUp}")
  case up: True
  show thesis
  proof (cases "phy_MACPayload phy")
    case (MACPayload mac)
    show thesis
    proof (cases "IsMaybeMapperPacket frame mac")
      case True
      then show thesis
        using assms up MACPayload by (intro quiet) (auto simp: dispatch_uplink_def go_bind_eq_Ret split: prod.splits)
    next
      case False
      then show thesis
        using assms up MACPayload
        by (intro broadcast[of "\<lparr>ev_join = None, ev_uplink = Some (mac_DevAddr mac, uplink_event gw frame t),
          ev_subOnlineOfflineEvent = None, ev_downlinkAck = None, ev_receivedFrom = gw\<rparr>"])
          (auto simp: dispatch_uplink_def)
    qed
  qed (use assms up quiet in \<open>auto simp: dispatch_uplink_def\<close>)
next
  case down: False
  show thesis
  proof (cases "phy_MType phy \<in> {JoinRequest, RejoinRequest}")
    case join: True
    show thesis
    proof (cases "phy_MACPayload phy")
      case (JoinRequestPayload e)
      then show thesis
        using assms down join
        by (intro broadcast[of "\<lparr>ev_join = Some (e, uplink_event gw frame t), ev_uplink = None,
          ev_subOnlineOfflineEvent = None, ev_downlinkAck = None, ev_receivedFrom = gw\<rparr>"])
          (auto simp: dispatch_uplink_def)
    qed (use assms down join quiet in \<open>auto simp: dispatch_uplink_def\<close>)
  next
    case False
    then show thesis using assms down quiet by (simp add: dispatch_uplink_def)
  qed
qed

lemma uplinkFrameCallback_cases:
  assumes up: "uplinkFrameCallback X io frame x = Ret x'"
  obtains (same) "x' = x" | (unknown) l where "x' = record_unknown X io l x"
    | (known) gw ri frame' frame2 phy t where
        "uf_RxInfo frame = Some ri"
        "gs_ByLocalIDString (xe_S X) (ex_gateways x) (ri_GatewayId (ri :: uplink_rx_info)) = Inr gw"
        "localUplinkFrameToNetwork (xe_L X) gw frame = Ret (Inr frame')"
        "setChaindataInFrameMetadata (me_E (xe_V X)) (me_H (xe_V X)) frame' gw t = Ret frame2"
        "dispatch_uplink X gw frame2 phy t x = Ret x'"
proof (cases "Eui64FromString (xe_L X) (frame_gateway_id frame)")
  case (Inl err)
  then show thesis using up same by (simp add: uplinkFrameCallback_def)
next
  case (Inr lid)
  obtain ri where ri: "uf_RxInfo frame = Some ri"
    using up Inr by (cases "uf_RxInfo frame") (auto simp: uplinkFrameCallback_def)
  show thesis
  proof (cases "gs_ByLocalIDString (xe_S X) (ex_gateways x) (ri_GatewayId ri)")
    case (Inl err)
    then show thesis using up Inr ri unknown[of lid] by (simp add: uplinkFrameCallback_def)
  next
    case gw: (Inr gw)
    define frame' where "frame' = frame\<lparr>uf_RxInfo := Some (ri\<lparr>ri_GatewayId := eui_String (xe_L X) (NetworkID gw)\<rparr>)\<rparr>"
    have loc: "localUplinkFrameToNetwork (xe_L X) gw frame = Ret (Inr frame')" using ri by (simp add: frame'_def)
    show thesis
    proof (cases "phy_UnmarshalBinary (xe_L X) (uf_PhyPayload frame')")
      case (Inl err)
      then show thesis using up Inr ri gw loc same by (simp add: uplinkFrameCallback_def)
    next
      case phy: (Inr phy)
      let ?t = "case UplinkAirtime (xe_airtime X) frame' of Inl err \<Rightarrow> 0 | Inr d \<Rightarrow> d"
      obtain frame2 where f2: "setChaindataInFrameMetadata (me_E (xe_V X)) (me_H (xe_V X)) frame' gw ?t = Ret frame2"
        using setChaindata_no_panic[of "me_E (xe_V X)" "me_H (xe_V X)" frame' gw ?t]
        by (cases "setChaindataInFrameMetadata (me_E (xe_V X)) (me_H (xe_V X)) frame' gw ?t") (auto simp: frame'_def)
      have "dispatch_uplink X gw frame2 phy ?t x = Ret x'"
        using up Inr ri gw loc phy f2 by (simp add: uplinkFrameCallback_def Let_def)
      then show thesis by (rule known[OF ri gw loc f2])
    qed
  qed
qed

section \<open>Under the contract of the store\<close>

context gateway_store
begin

lemma from_store_self:
  assumes "inv s" "gs_ByLocalID S s l = Inr g" "ev_receivedFrom ge = g"
  shows "from_store S s ge" "gateway_wf E (ev_receivedFrom ge)"
  using ByLocalID_found[OF assms(1,2)] assms(2,3) by (auto simp: from_store_def same_identity_def)

lemma ByLocalIDString_found:
  assumes "gs_ByLocalIDString S s str = Inr g"
  shows "\<exists>l. eui_UnmarshalText L str = Inr l \<and> gs_ByLocalID S s l = Inr g"
  using assms by (auto simp: ByLocalIDString_eq split: sum.splits)

lemma uplink_inv:
  assumes X: "xe_S X = S" "xe_L X = L" and inv: "exchange_inv inv E X x"
    and up: "uplinkFrameCallback X io frame x = Ret x'"
  shows "exchange_inv inv E X x'"
proof -
  from up show ?thesis
  proof (cases rule: uplinkFrameCallback_cases)
    case same
    then show ?thesis using inv by simp
  next
    case unknown
    then show ?thesis using exchange_inv_frame[OF inv] by simp
  next
    case (known gw ri frame' frame2 phy t)
    note known = known[unfolded X]
    obtain l where l: "gs_ByLocalID S (ex_gateways x) l = Inr gw" using ByLocalIDString_found known(2) by blast
    have "frame_gateway_id frame' = eui_String L (NetworkID gw)"
      using known(3) by (auto simp: localUplinkFrameToNetwork_def go_bind_eq_Ret frame_gateway_id_def)
    then have fid: "frame_gateway_id frame2 = eui_String L (NetworkID gw)"
      using setChaindata_frame(3)[OF known(4)] by simp
    have gs: "inv (ex_gateways x)" using inv by (simp add: exchange_inv_def)
    from known(5) show ?thesis
    proof (cases rule: dispatch_uplink_cases)
      case (broadcast ge)
      have st: "from_store S (ex_gateways x) ge" "gateway_wf E gw"
        using from_store_self[OF gs l] broadcast(2) by auto
      have "event_ok E L ge" using broadcast(3) event_ok_uplink[OF st(2) fid] by auto
      then show ?thesis using exchange_inv_broadcast[OF inv] st(1) broadcast(1) X by simp
    next
      case quiet
      then show ?thesis using exchange_inv_frame[OF inv] by simp
    qed
  qed
qed

lemma subscribe_inv:
  assumes X: "xe_S X = S" "xe_L X = L" and inv: "exchange_inv inv E X x"
  shows "exchange_inv inv E X (subscribeEvent X io gid sub x)"
proof (cases "gs_ByLocalID S (ex_gateways x) gid")
  case (Inl err)
  then show ?thesis
    using exchange_inv_frame[OF inv] by (simp add: subscribeEvent_def X BytesToGatewayID_def)
next
  case (Inr gw)
  let ?y = "x\<lparr>ex_online := (ex_online x)(NetworkID gw \<mapsto> sub)\<rparr>"
  have y: "exchange_inv inv E X ?y" using exchange_inv_frame[OF inv] by simp
  have gs: "inv (ex_gateways x)" using inv by (simp add: exchange_inv_def)
  have "from_store S (ex_gateways x) (status_event gw sub)" "gateway_wf E gw"
    using from_store_self[OF gs Inr, of "status_event gw sub"] by (simp_all add: status_event_def)
  then have "exchange_inv inv E X (broadcast_event (status_event gw sub) ?y)"
    using exchange_inv_broadcast[OF y, of "status_event gw sub"] event_ok_status X by simp
  then show ?thesis using Inr by (simp add: subscribeEvent_def X BytesToGatewayID_def)
qed

lemma txack_inv:
  assumes X: "xe_S X = S" "xe_L X = L" and inv: "exchange_inv inv E X x"
  shows "exchange_inv inv E X (downlinkTxAck X io ack x)"
proof -
  have gs: "inv (ex_gateways x)" using inv by (simp add: exchange_inv_def)
  have known: "exchange_inv inv E X (broadcast_event (ack_event gw (ack\<lparr>da_GatewayId := eui_String L (NetworkID gw)\<rparr>)) x)"
    if g: "gs_ByLocalID S (ex_gateways x) l = Inr gw" for l gw
  proof -
    let ?a = "ack_event gw (ack\<lparr>da_GatewayId := eui_String L (NetworkID gw)\<rparr>)"
    have "from_store S (ex_gateways x) ?a" "gateway_wf E gw"
      using from_store_self[OF gs g, of ?a] by (simp_all add: ack_event_def)
    then show ?thesis using exchange_inv_broadcast[OF inv, of ?a] event_ok_ack X by simp
  qed
  show ?thesis
  proof (cases "Eui64FromString L (da_GatewayId ack)")
    case (Inl err)
    then show ?thesis using inv by (simp add: downlinkTxAck_def X)
  next
    case l: (Inr l)
    show ?thesis
    proof (cases "gs_ByLocalID S (ex_gateways x) l")
      case (Inl err)
      then show ?thesis using exchange_inv_frame[OF inv] l by (simp add: downlinkTxAck_def X)
    next
      case (Inr gw)
      then show ?thesis using known[OF Inr] l by (simp add: downlinkTxAck_def localDownlinkTxAckToNetwork_def X)
    qed
  qed
qed

lemma downlink_inv:
  assumes X: "xe_S X = S" "xe_L X = L" and inv: "exchange_inv inv E X x"
    and down: "handleDownlinkFrame X send event x = Ret x'"
  shows "exchange_inv inv E X x'"
proof -
  have gs: "inv (ex_gateways x)" using inv by (simp add: exchange_inv_def)
  let ?n = "eui_or_zero (Eui64FromString L (case event of None \<Rightarrow> [] | Some f \<Rightarrow> df_GatewayId f))"
  show ?thesis
  proof (cases "gs_ByNetworkID S (ex_gateways x) ?n")
    case (Inl err)
    then have "x' = x" using down by (auto simp: handleDownlinkFrame_def X go_bind_eq_Ret Let_def)
    then show ?thesis using inv by simp
  next
    case gw: (Inr gw)
    obtain frame where frame: "event = Some frame"
      using down gw by (cases event) (auto simp: handleDownlinkFrame_def X Let_def)
    have "gs_ByLocalID S (ex_gateways x) (LocalID gw) = Inr gw" using ByNetworkID_found(2)[OF gs gw] .
    then have to: "to_store L S (ex_gateways x) (networkDownlinkFrameToLocal L gw frame)"
      by (auto simp: to_store_def networkDownlinkFrameToLocal_def)
    show ?thesis
    proof (cases send)
      case None
      then have "x' = x\<lparr>ex_downlinks := ex_downlinks x @ [networkDownlinkFrameToLocal L gw frame]\<rparr>"
        using down gw frame by (simp add: handleDownlinkFrame_def X Let_def)
      then show ?thesis using inv to X by (auto simp: exchange_inv_def)
    next
      case (Some err)
      then show ?thesis using down gw frame inv by (simp add: handleDownlinkFrame_def X Let_def)
    qed
  qed
qed

lemma store_change_inv:
  assumes X: "xe_S X = S" and inv: "exchange_inv inv E X x" and inv': "inv s'"
    and keep: "\<And>l g. gs_ByLocalID S (ex_gateways x) l = Inr g \<Longrightarrow> \<exists>g'. gs_ByLocalID S s' l = Inr g' \<and> same_identity g g'"
  shows "exchange_inv inv E X (x\<lparr>ex_gateways := s'\<rparr>)"
proof -
  have from': "from_store S s' ge" if fs: "from_store S (ex_gateways x) ge" for ge
  proof -
    obtain g where g: "gs_ByLocalID S (ex_gateways x) (LocalID (ev_receivedFrom ge)) = Inr g"
      "same_identity (ev_receivedFrom ge) g" using fs by (auto simp: from_store_def)
    obtain g' where "gs_ByLocalID S s' (LocalID (ev_receivedFrom ge)) = Inr g'" "same_identity g g'"
      using keep[OF g(1)] by blast
    then show ?thesis using g(2) by (auto simp: from_store_def same_identity_def)
  qed
  have to': "to_store L' S s' f" if "to_store L' S (ex_gateways x) f" for L' f
    using that keep unfolding to_store_def by blast
  show ?thesis using inv inv' from' to' X by (auto simp: exchange_inv_def)
qed

lemma step_inv:
  assumes X: "xe_S X = S" "xe_L X = L" and inv: "exchange_inv inv E X x" and step: "exchange_step X x x'"
  shows "exchange_inv inv E X x'"
  using step
proof (cases rule: exchange_step.cases)
  case (uplink io frame)
  then show ?thesis using uplink_inv[OF X inv] by blast
next
  case (stats gid)
  then show ?thesis using inv by (simp add: gatewayStats_def split: sum.split)
next
  case (subscribe io gid sub)
  then show ?thesis using subscribe_inv[OF X inv] by simp
next
  case (txack io ack)
  then show ?thesis using txack_inv[OF X inv] by simp
next
  case (network send event)
  then show ?thesis
    using downlink_inv[OF X inv] exchange_inv_frame[OF inv]
    by (cases event) (auto simp: exchange_Run_event_def)
next
  case (job send rnd uuid j resp)
  then show ?thesis
    using downlink_inv[OF X inv] inv
    by (cases j) (auto simp: finish_job_def go_bind_eq_Ret split: option.splits)
next
  case (add e l k r s')
  have gs: "inv (ex_gateways x)" using inv by (simp add: exchange_inv_def)
  have st: "gs_Add S (ex_gateways x) e l k = (r, s')" using add X by simp
  have "exchange_inv inv E X (x\<lparr>ex_gateways := s'\<rparr>)"
    using store_change_inv[OF X(1) inv Add_inv[OF gs st]] Add_keeps[OF gs st] by (metis same_identity_refl)
  then show ?thesis using add by simp
next
  case (sync e l force r s')
  have gs: "inv (ex_gateways x)" using inv by (simp add: exchange_inv_def)
  have st: "gs_SyncGatewayByLocalID S (ex_gateways x) e l force = (r, s')" using sync X by simp
  have "exchange_inv inv E X (x\<lparr>ex_gateways := s'\<rparr>)"
    using store_change_inv[OF X(1) inv Sync_inv[OF gs st]] Sync_keeps[OF gs st] by blast
  then show ?thesis using sync by simp
qed

lemma reachable_inv:
  assumes "exchange_reachable X x y" "xe_S X = S" "xe_L X = L" "exchange_inv inv E X x"
  shows "exchange_inv inv E X y"
  using assms by (induction rule: exchange_reachable.induct) (auto intro: step_inv)

text \<open>A downlink to the network id of a gateway of the store reaches a gateway with this id.\<close>

lemma downlink_reaches:
  assumes X: "xe_S X = S" "xe_L X = L" and L: "lorawan_ok L" and inv: "inv (ex_gateways x)"
    and g: "gs_ByLocalID S (ex_gateways x) l = Inr g" and frame: "df_GatewayId frame = eui_String L (NetworkID g)"
  shows "\<exists>g'. NetworkID g' = NetworkID g \<and> gs_ByLocalID S (ex_gateways x) (LocalID g') = Inr g' \<and>
    handleDownlinkFrame X None (Some frame) x =
      Ret (x\<lparr>ex_downlinks := ex_downlinks x @ [frame\<lparr>df_GatewayId := eui_String L (LocalID g')\<rparr>]\<rparr>)"
proof -
  obtain g' where g': "gs_ByNetworkID S (ex_gateways x) (NetworkID g) = Inr g'"
    using ByNetworkID_complete[OF inv g] by blast
  have "eui_or_zero (Eui64FromString L (df_GatewayId frame)) = NetworkID g"
    using lorawan_okD(1)[OF L] frame by (simp add: eui_or_zero_def)
  then show ?thesis
    using g' ByNetworkID_found[OF inv g'] X
    by (intro exI[of _ g']) (simp add: handleDownlinkFrame_def networkDownlinkFrameToLocal_def Let_def)
qed

end

end
