(* ===== verification/Exchange_Correct.thy ===== *)
theory Exchange_Correct
  imports Exchange
begin

text \<open>
  What the packet exchange guarantees, on both gateway stores: it only broadcasts events of gateways
  of its store, addressed with their network ids; what a router answers to such an event goes
  back to the gateway it came from; traffic of a gateway that is not in the store reaches nothing
  but the recorder of unknown gateways.
\<close>

section \<open>Uplinks under the contract of the store\<close>

context gateway_store
begin

lemma uplink_broadcasts:
  assumes X: "xe_S X = S" "xe_L X = L" and gs: "inv (ex_gateways x)"
    and up: "uplinkFrameCallback X io frame x = Ret x'"
    and new: "ge \<in> set (bc_accepted (ex_gatewayEvents x'))" "ge \<notin> set (bc_accepted (ex_gatewayEvents x))"
  shows "\<exists>l. eui_UnmarshalText L (frame_gateway_id frame) = Inr l \<and>
      gs_ByLocalID S (ex_gateways x) l = Inr (ev_receivedFrom ge) \<and> ex_gateways x' = ex_gateways x \<and>
      event_ok E L ge"
  using up
proof (cases rule: uplinkFrameCallback_cases)
  case same
  then show ?thesis using new by simp
next
  case (unknown l)
  then show ?thesis using new by simp
next
  case (known gw ri frame' frame2 phy t)
  note known = known[unfolded X]
  obtain l where l: "eui_UnmarshalText L (ri_GatewayId ri) = Inr l" "gs_ByLocalID S (ex_gateways x) l = Inr gw"
    using ByLocalIDString_found[OF known(2)] by blast
  have fid0: "frame_gateway_id frame = ri_GatewayId ri" using known(1) by (simp add: frame_gateway_id_def)
  have "frame_gateway_id frame' = eui_String L (NetworkID gw)"
    using known(3) by (auto simp: localUplinkFrameToNetwork_def go_bind_eq_Ret frame_gateway_id_def)
  then have fid: "frame_gateway_id frame2 = eui_String L (NetworkID gw)"
    using setChaindata_frame(3)[OF known(4)] by simp
  from known(5) show ?thesis
  proof (cases rule: dispatch_uplink_cases)
    case (broadcast e)
    have "ge = e" using new broadcast(1) set_accepted_broadcast[of e x] by auto
    moreover have "event_ok E L e"
      using broadcast(3) event_ok_uplink[OF ByLocalID_found(2)[OF gs l(2)] fid] by auto
    ultimately show ?thesis using l fid0 broadcast(1,2) by auto
  next
    case quiet
    then show ?thesis using new by simp
  qed
qed

text \<open>The answer of a router, addressed to the gateway of an uplink event, goes to that gateway.\<close>

lemma uplink_answer:
  assumes X: "xe_S X = S" "xe_L X = L" and L: "lorawan_ok L" and gs: "inv (ex_gateways x)"
    and up: "uplinkFrameCallback X io frame x = Ret x'"
    and new: "ge \<in> set (bc_accepted (ex_gatewayEvents x'))" "ge \<notin> set (bc_accepted (ex_gatewayEvents x))"
    and ev: "ev \<in> events_of ge" "ge_Event ev = UplinkFrameEvent (Some f) rcpt"
    and reply: "df_GatewayId reply = frame_gateway_id f"
    and unique: "\<And>l1 l2 g1 g2. gs_ByLocalID S (ex_gateways x) l1 = Inr g1 \<Longrightarrow>
        gs_ByLocalID S (ex_gateways x) l2 = Inr g2 \<Longrightarrow> NetworkID g1 = NetworkID g2 \<Longrightarrow> l1 = l2"
  shows "\<exists>l. eui_UnmarshalText L (frame_gateway_id frame) = Inr l \<and>
    handleDownlinkFrame X None (Some reply) x' =
      Ret (x'\<lparr>ex_downlinks := ex_downlinks x' @ [reply\<lparr>df_GatewayId := eui_String L l\<rparr>]\<rparr>)"
proof -
  obtain l where l: "eui_UnmarshalText L (frame_gateway_id frame) = Inr l"
    "gs_ByLocalID S (ex_gateways x) l = Inr (ev_receivedFrom ge)" "ex_gateways x' = ex_gateways x" "event_ok E L ge"
    using uplink_broadcasts[OF X gs up new] by blast
  have "frame_gateway_id f = eui_String L (NetworkID (ev_receivedFrom ge))"
    using l(4) ev by (auto simp: event_ok_def)
  then obtain g' where g': "NetworkID g' = NetworkID (ev_receivedFrom ge)"
    "gs_ByLocalID S (ex_gateways x') (LocalID g') = Inr g'"
    "handleDownlinkFrame X None (Some reply) x' =
      Ret (x'\<lparr>ex_downlinks := ex_downlinks x' @ [reply\<lparr>df_GatewayId := eui_String L (LocalID g')\<rparr>]\<rparr>)"
    using downlink_reaches[OF X L, of x' l "ev_receivedFrom ge" reply] gs l reply by auto
  have "LocalID g' = l" using unique[of "LocalID g'" g' l] g' l by simp
  then show ?thesis using l(1) g'(3) by auto
qed

lemma unknown_uplink:
  assumes X: "xe_S X = S" "xe_L X = L" and ri: "uf_RxInfo frame = Some ri"
    and l: "eui_UnmarshalText L (ri_GatewayId ri) = Inr l" "gs_ByLocalID S (ex_gateways x) l = Inl err"
  shows "uplinkFrameCallback X io frame x = Ret (record_unknown X io l x)"
  using ri l by (simp add: uplinkFrameCallback_def X frame_gateway_id_def ByLocalIDString_eq)

end

section \<open>A concrete exchange\<close>

definition exchange_env_example ::
  "(unit yaml_store, unit registry \<times> append_io, yamlUnknownGatewayLogger, int \<times> record_io, unit, string \<rightharpoonup> string)
   exchange_env" where
  "exchange_env_example =
     \<lparr>xe_S = yaml_table eth_example lorawan_hex freq_example yaml_example, xe_U = yul_table yaml_unknown_example,
      xe_L = lorawan_hex, xe_airtime = (\<lambda>_ _ _ _ _ _ _. Inr (50 * millisecond)), xe_V = mapper_env_example,
      xe_C = lru_example, xe_accounter = NewNoAccountingStrategy\<rparr>"

definition local_id_example :: eui64 where
  "local_id_example = EUI64 0 0 0 0 0 0 0 1"

definition gateway_example :: gateway where
  "gateway_example = NewGateway eth_example local_id_example (key_example 4)"

definition exchange_example ::
  "(unit yaml_store, yamlUnknownGatewayLogger, unit, string \<rightharpoonup> string) exchange" where
  "exchange_example =
     \<lparr>ex_gateways = snd (ys_Add eth_example yaml_example AppendOk yaml_store_example local_id_example (key_example 4)),
      ex_recorder = \<lparr>yul_outputFile = ''unknown.yaml'', yul_recorded = [], yul_file = None\<rparr>,
      ex_gatewayEvents = bc_New 1024, ex_accounts = (),
      ex_mapper = \<lparr>mf_mapperRegionCache = Map.empty,
        mf_coverageClient = \<lparr>cc_index = Map.empty, cc_indexRefreshInterval = None, cc_indexEndpoint = None\<rparr>\<rparr>,
      ex_jobs = [], ex_downlinks = [], ex_online = Map.empty\<rparr>"

text \<open>An uplink of the example gateway: unconfirmed data of device 1, port 5.\<close>

definition uplink_example :: "eui64 \<Rightarrow> uplink_frame" where
  "uplink_example l =
     mapper_frame_example
       \<lparr>uf_PhyPayload := [0x40, 1, 0, 0, 0, 5],
        uf_RxInfo := Some ((the (uf_RxInfo mapper_frame_example))\<lparr>ri_GatewayId := eui_String lorawan_hex l\<rparr>)\<rparr>"

lemma exchange_example_store:
  "ys_inv eth_example (ex_gateways exchange_example)"
  "ys_ByLocalID (ex_gateways exchange_example) l =
     (if l = local_id_example then Inr gateway_example else Inl ErrNotFound)"
proof -
  let ?l = "local_id_example"
  obtain st where st: "ys_Add eth_example yaml_example AppendOk yaml_store_example ?l (key_example 4) =
      (Inr gateway_example, st)"
    using yaml_example_Add[of ?l 4] unfolding gateway_example_def by blast
  then have gs: "ex_gateways exchange_example = st" by (simp add: exchange_example_def)
  show "ys_inv eth_example (ex_gateways exchange_example)"
    using ys_Add_inv[OF yaml_store_example_inv(1) st] gs by simp
  have add: "gs_Add (yaml_table eth_example lorawan_hex freq_example yaml_example) yaml_store_example
      (registry_example, AppendOk) ?l (key_example 4) = (Inr gateway_example, st)"
    using st by (simp add: yaml_table_def)
  have "ys_ByLocalID yaml_store_example l = Inl ErrNotFound"
    by (simp add: yaml_store_example_def ys_defs)
  then show "ys_ByLocalID (ex_gateways exchange_example) l =
     (if l = ?l then Inr gateway_example else Inl ErrNotFound)"
    using yaml.Add_ok[OF yaml_store_example_inv(1) add] yaml.Add_frame[OF yaml_store_example_inv(1) add, of l] gs
    by (auto simp: yaml_lookups)
qed

section \<open>Properties\<close>

text \<open>
  C3: only trusted traffic leaves the exchange.  However callbacks of the backend, events of the network,
  mapper answers and changes of the store interleave, every event offered to the router clients
  comes from a gateway that is in the store, carries the public key from which the routers
  derive this gateway's network id, and names the gateway by that id; and every downlink handed to
  the backend is for a gateway in the store, under its local id.
\<close>

theorem exchange_only_trusted:
  assumes "exchange_reachable X x y" "xe_S X = yaml_table E L F Y" "xe_L X = L" "ys_inv E (ex_gateways x)"
    and "bc_accepted (ex_gatewayEvents x) = []" "ex_downlinks x = []"
  shows "(\<forall>ge \<in> set (bc_accepted (ex_gatewayEvents y)). event_ok E L ge \<and> from_store (xe_S X) (ex_gateways y) ge) \<and>
         (\<forall>frame \<in> set (ex_downlinks y). to_store L (xe_S X) (ex_gateways y) frame)"
proof -
  have "exchange_inv (ys_inv E) E X x" using assms(4-6) by (simp add: exchange_inv_def)
  from yaml.reachable_inv[OF assms(1-3) this] show ?thesis using assms(3) by (simp add: exchange_inv_def)
qed

lemma exchange_example_subscribe:
  "bc_accepted (ex_gatewayEvents (subscribeEvent exchange_env_example (0, RecordAppendOk) local_id_example True
     exchange_example)) = [status_event gateway_example True]"
  by (simp add: subscribeEvent_def BytesToGatewayID_def exchange_env_example_def yaml_lookups exchange_example_store
      broadcast_event_def TryBroadcast_def)
    (simp add: exchange_example_def bc_New_def)

theorem exchange_only_trusted_witness:
  "\<exists>y. exchange_reachable exchange_env_example exchange_example y \<and>
     bc_accepted (ex_gatewayEvents y) = [status_event gateway_example True] \<and>
     event_ok eth_example lorawan_hex (status_event gateway_example True)"
proof -
  let ?y = "subscribeEvent exchange_env_example (0, RecordAppendOk) local_id_example True exchange_example"
  have y: "exchange_reachable exchange_env_example exchange_example ?y"
    by (rule exchange_reachable.step[OF exchange_reachable.start exchange_step.subscribe])
  have x: "bc_accepted (ex_gatewayEvents exchange_example) = []" "ex_downlinks exchange_example = []"
    by (simp_all add: exchange_example_def bc_New_def)
  have "xe_S exchange_env_example = yaml_table eth_example lorawan_hex freq_example yaml_example"
    "xe_L exchange_env_example = lorawan_hex" by (simp_all add: exchange_env_example_def)
  from exchange_only_trusted[OF y this exchange_example_store(1) x] y show ?thesis
    using exchange_example_subscribe by (intro exI[of _ ?y]) simp
qed

text \<open>
  An answer finds its way back.  When an uplink of a gateway is offered to the router clients and a
  router sends a downlink to the gateway id it found in the uplink, the exchange hands this
  downlink to the backend under the local id of the gateway that received the uplink, provided that
  no two gateways of the store have the same network id.
\<close>

theorem downlink_answers_uplink:
  assumes "xe_S X = yaml_table E L F Y" "xe_L X = L" "lorawan_ok L" "ys_inv E (ex_gateways x)"
    and "uplinkFrameCallback X io frame x = Ret x'"
    and "ge \<in> set (bc_accepted (ex_gatewayEvents x')) - set (bc_accepted (ex_gatewayEvents x))"
    and "ev \<in> events_of ge" "ge_Event ev = UplinkFrameEvent (Some f) rcpt" "df_GatewayId reply = frame_gateway_id f"
    and "\<forall>l1 l2 g1 g2. ys_ByLocalID (ex_gateways x) l1 = Inr g1 \<and> ys_ByLocalID (ex_gateways x) l2 = Inr g2 \<and>
          NetworkID g1 = NetworkID g2 \<longrightarrow> l1 = l2"
  shows "\<exists>l. eui_UnmarshalText L (frame_gateway_id frame) = Inr l \<and>
    handleDownlinkFrame X None (Some reply) x' =
      Ret (x'\<lparr>ex_downlinks := ex_downlinks x' @ [reply\<lparr>df_GatewayId := eui_String L l\<rparr>]\<rparr>)"
  using yaml.uplink_answer[OF assms(1-5) _ _ assms(7-9)] assms(6,10) by (simp add: yaml_lookups)

lemma uplink_example_run:
  "\<exists>x' f. uplinkFrameCallback exchange_env_example (0, RecordAppendOk) (uplink_example local_id_example) exchange_example = Ret x' \<and>
     bc_accepted (ex_gatewayEvents x') =
       [\<lparr>ev_join = None, ev_uplink = Some (DevAddr 0 0 0 1, uplink_event gateway_example f (50 * millisecond)),
         ev_subOnlineOfflineEvent = None, ev_downlinkAck = None, ev_receivedFrom = gateway_example\<rparr>]"
proof -
  let ?X = exchange_env_example and ?x = exchange_example and ?f = "uplink_example local_id_example"
  obtain ri where ri: "uf_RxInfo ?f = Some ri" "ri_GatewayId ri = eui_String lorawan_hex local_id_example"
    by (simp add: uplink_example_def)
  have parse: "eui_UnmarshalText lorawan_hex (ri_GatewayId ri) = Inr local_id_example"
    using lorawan_okD(1)[OF lorawan_hex_ok] ri(2) by simp
  have X: "xe_L ?X = lorawan_hex" "xe_S ?X = yaml_table eth_example lorawan_hex freq_example yaml_example"
    by (simp_all add: exchange_env_example_def)
  have gw: "gs_ByLocalIDString (xe_S ?X) (ex_gateways ?x) (ri_GatewayId ri) = Inr gateway_example"
    by (simp add: X yaml.ByLocalIDString_eq parse yaml_lookups exchange_example_store)
  define f1 where "f1 = ?f\<lparr>uf_RxInfo := Some (ri\<lparr>ri_GatewayId := eui_String lorawan_hex (NetworkID gateway_example)\<rparr>)\<rparr>"
  have loc: "localUplinkFrameToNetwork lorawan_hex gateway_example ?f = Ret (Inr f1)"
    using ri(1) by (simp add: f1_def)
  have phy: "phy_UnmarshalBinary lorawan_hex (uf_PhyPayload f1) =
      Inr \<lparr>phy_MType = UnconfirmedDataUp, phy_MACPayload = MACPayload
        \<lparr>mac_DevAddr = DevAddr 0 0 0 1, mac_FCnt = 0, mac_FPort = Some 5\<rparr>\<rparr>"
    by (simp add: f1_def uplink_example_def lorawan_hex_def)
  have air: "UplinkAirtime (xe_airtime ?X) f1 = Inr (50 * millisecond)"
    by (simp add: UplinkAirtime_def f1_def uplink_example_def mapper_frame_example_def frame_lora_def get_lora_def
        airtime_coding_rate_def exchange_env_example_def Let_def)
  obtain f2 where f2: "setChaindataInFrameMetadata (me_E (xe_V ?X)) (me_H (xe_V ?X)) f1 gateway_example (50 * millisecond) = Ret f2"
    using setChaindata_no_panic[of "me_E (xe_V ?X)" "me_H (xe_V ?X)" f1 gateway_example "50 * millisecond"]
    by (cases "setChaindataInFrameMetadata (me_E (xe_V ?X)) (me_H (xe_V ?X)) f1 gateway_example (50 * millisecond)")
      (auto simp: f1_def)
  let ?ge = "\<lparr>ev_join = None, ev_uplink = Some (DevAddr 0 0 0 1, uplink_event gateway_example f2 (50 * millisecond)),
         ev_subOnlineOfflineEvent = None, ev_downlinkAck = None, ev_receivedFrom = gateway_example\<rparr>"
  have "uplinkFrameCallback ?X (0, RecordAppendOk) ?f ?x = Ret (broadcast_event ?ge ?x)"
    using ri(1) parse gw loc phy air f2
    by (simp add: uplinkFrameCallback_def frame_gateway_id_def X Let_def dispatch_uplink_def IsMaybeMapperPacket_def
        del: localUplinkFrameToNetwork_Some)
  moreover have "bc_accepted (ex_gatewayEvents (broadcast_event ?ge ?x)) = [?ge]"
    by (simp add: broadcast_event_def TryBroadcast_def exchange_example_def bc_New_def)
  ultimately show ?thesis by blast
qed

theorem downlink_answers_uplink_witness:
  "\<exists>x' f. uplinkFrameCallback exchange_env_example (0, RecordAppendOk) (uplink_example local_id_example) exchange_example = Ret x' \<and>
     (\<forall>reply. df_GatewayId reply = frame_gateway_id f \<longrightarrow>
        handleDownlinkFrame exchange_env_example None (Some reply) x' =
          Ret (x'\<lparr>ex_downlinks := ex_downlinks x' @ [reply\<lparr>df_GatewayId := eui_String lorawan_hex local_id_example\<rparr>]\<rparr>))"
proof -
  let ?l = "local_id_example"
  obtain x' f where run: "uplinkFrameCallback exchange_env_example (0, RecordAppendOk) (uplink_example ?l) exchange_example = Ret x'"
    and acc: "bc_accepted (ex_gatewayEvents x') =
       [\<lparr>ev_join = None, ev_uplink = Some (DevAddr 0 0 0 1, uplink_event gateway_example f (50 * millisecond)),
         ev_subOnlineOfflineEvent = None, ev_downlinkAck = None, ev_receivedFrom = gateway_example\<rparr>]"
    using uplink_example_run by blast
  let ?ge = "\<lparr>ev_join = None, ev_uplink = Some (DevAddr 0 0 0 1, uplink_event gateway_example f (50 * millisecond)),
         ev_subOnlineOfflineEvent = None, ev_downlinkAck = None, ev_receivedFrom = gateway_example\<rparr>"
  have X: "xe_S exchange_env_example = yaml_table eth_example lorawan_hex freq_example yaml_example"
    "xe_L exchange_env_example = lorawan_hex" by (simp_all add: exchange_env_example_def)
  have new: "?ge \<in> set (bc_accepted (ex_gatewayEvents x')) - set (bc_accepted (ex_gatewayEvents exchange_example))"
    using acc by (simp add: exchange_example_def bc_New_def)
  have ev: "uplink_event gateway_example f (50 * millisecond) \<in> events_of ?ge" by (simp add: events_of_def)
  have unique: "\<forall>l1 l2 g1 g2. ys_ByLocalID (ex_gateways exchange_example) l1 = Inr g1 \<and>
      ys_ByLocalID (ex_gateways exchange_example) l2 = Inr g2 \<and> NetworkID g1 = NetworkID g2 \<longrightarrow> l1 = l2"
    by (auto simp: exchange_example_store split: if_splits)
  have str: "eui_UnmarshalText lorawan_hex (frame_gateway_id (uplink_example ?l)) = Inr ?l"
    using lorawan_okD(1)[OF lorawan_hex_ok] by (simp add: uplink_example_def frame_gateway_id_def)
  have "handleDownlinkFrame exchange_env_example None (Some reply) x' =
          Ret (x'\<lparr>ex_downlinks := ex_downlinks x' @ [reply\<lparr>df_GatewayId := eui_String lorawan_hex ?l\<rparr>]\<rparr>)"
    if reply: "df_GatewayId reply = frame_gateway_id f" for reply :: downlink_frame
  proof -
    have body: "ge_Event (uplink_event gateway_example f (50 * millisecond)) = UplinkFrameEvent (Some f)
        (Some \<lparr>ar_Owner = OwnerBytes gateway_example, ar_Airtime = word_of_int (milliseconds (50 * millisecond))\<rparr>)"
      by (simp add: uplink_event_def)
    obtain l where "eui_UnmarshalText lorawan_hex (frame_gateway_id (uplink_example ?l)) = Inr l"
      "handleDownlinkFrame exchange_env_example None (Some reply) x' =
        Ret (x'\<lparr>ex_downlinks := ex_downlinks x' @ [reply\<lparr>df_GatewayId := eui_String lorawan_hex l\<rparr>]\<rparr>)"
      using downlink_answers_uplink[OF X lorawan_hex_ok exchange_example_store(1) run new ev body reply unique] by blast
    then show ?thesis using str by simp
  qed
  then show ?thesis using run by blast
qed

text \<open>
  A gateway that is not in the store is only recorded.  An uplink of such a gateway reaches no router
  client, no mapper service and no backend, it leaves the store as it is, and, when recording
  works, the gateway is afterwards among the recorded unknown gateways.
\<close>

theorem unknown_uplink_only_recorded:
  assumes "xe_S X = pg_table E L F D R" "xe_L X = L" "xe_U X = pgu_table D'" "gorm_ok D'"
    and "uf_RxInfo frame = Some ri" "eui_UnmarshalText L (ri_GatewayId ri) = Inr l"
    and "pg_ByLocalID (ex_gateways x) l = Inl err"
  shows "\<exists>d'. uplinkFrameCallback X now frame x = Ret (x\<lparr>ex_recorder := d'\<rparr>) \<and>
     (fst (pgu_Record D' (ex_recorder x) now l) = None \<longrightarrow>
        dom (db_unknown D' d') = insert l (dom (db_unknown D' (ex_recorder x))))"
proof -
  obtain r d' where rec: "pgu_Record D' (ex_recorder x) now l = (r, d')" by fastforce
  have "gs_ByLocalID (pg_table E L F D R) (ex_gateways x) l = Inl err" using assms(7) by (simp add: pg_table_def)
  from pg.unknown_uplink[OF assms(1,2,5,6) this, of now]
  have "uplinkFrameCallback X now frame x = Ret (x\<lparr>ex_recorder := d'\<rparr>)"
    using rec by (simp add: record_unknown_def assms(3) pgu_table_def)
  moreover have "r = None \<Longrightarrow> dom (db_unknown D' d') = insert l (dom (db_unknown D' (ex_recorder x)))"
    using pg_unknown.Record_ids[OF assms(4), of "ex_recorder x" now l r d'] rec by (simp add: pgu_table_def)
  ultimately show ?thesis using rec by auto
qed

definition pg_exchange_env_example ::
  "((unit, mem_db) pg_store, time, mem_db, int, unit, string \<rightharpoonup> string) exchange_env" where
  "pg_exchange_env_example =
     \<lparr>xe_S = pg_table eth_example lorawan_hex freq_example mem_gorm registry_example, xe_U = pgu_table mem_gorm,
      xe_L = lorawan_hex, xe_airtime = (\<lambda>_ _ _ _ _ _ _. Inr 0), xe_V = mapper_env_example,
      xe_C = lru_example, xe_accounter = NewNoAccountingStrategy\<rparr>"

definition pg_exchange_example :: "((unit, mem_db) pg_store, mem_db, unit, string \<rightharpoonup> string) exchange" where
  "pg_exchange_example =
     \<lparr>ex_gateways = pg_store_example, ex_recorder = ([], []), ex_gatewayEvents = bc_New 1024, ex_accounts = (),
      ex_mapper = ex_mapper exchange_example, ex_jobs = [], ex_downlinks = [], ex_online = Map.empty\<rparr>"

theorem unknown_uplink_only_recorded_witness:
  "\<exists>d'. uplinkFrameCallback pg_exchange_env_example 7 (uplink_example local_id_example) pg_exchange_example =
       Ret (pg_exchange_example\<lparr>ex_recorder := d'\<rparr>) \<and> local_id_example \<in> dom (db_unknown mem_gorm d')"
proof -
  obtain ri where ri: "uf_RxInfo (uplink_example local_id_example) = Some ri"
    "ri_GatewayId ri = eui_String lorawan_hex local_id_example" by (simp add: uplink_example_def)
  have parse: "eui_UnmarshalText lorawan_hex (ri_GatewayId ri) = Inr local_id_example"
    using lorawan_okD(1)[OF lorawan_hex_ok] ri(2) by simp
  have X: "xe_S pg_exchange_env_example = pg_table eth_example lorawan_hex freq_example mem_gorm registry_example"
    "xe_L pg_exchange_env_example = lorawan_hex" "xe_U pg_exchange_env_example = pgu_table mem_gorm"
    by (simp_all add: pg_exchange_env_example_def)
  have none: "pg_ByLocalID (ex_gateways pg_exchange_example) local_id_example = Inl ErrNotFound"
    by (simp add: pg_exchange_example_def pg_store_example_def pg_ByLocalID_def)
  have "fst (pgu_Record mem_gorm (ex_recorder pg_exchange_example) 7 local_id_example) = None"
    by (simp add: pgu_Record_def pgu_tx_def mem_gorm_def pg_exchange_example_def)
  then show ?thesis
    using unknown_uplink_only_recorded[OF X mem_gorm_ok ri(1) parse none, of 7] by blast
qed

text \<open>
  A downlink for a gateway that is not in the store is dropped without any effect, unless it has no
  items: then the forwarder panics, because the drop is logged with the first item.
\<close>

theorem downlink_unknown_gateway:
  assumes "gs_ByNetworkID (xe_S X) (ex_gateways x) (eui_or_zero (Eui64FromString (xe_L X) (df_GatewayId frame))) = Inl err"
  shows "exchange_Run_event X send (DownlinkFrameEvent (Some frame)) x =
     (if df_Items frame = [] then Panic else Ret x)"
  using assms by (cases "df_Items frame") (simp_all add: exchange_Run_event_def handleDownlinkFrame_def go_index_def)

theorem downlink_unknown_gateway_witness:
  "exchange_Run_event pg_exchange_env_example None
     (DownlinkFrameEvent (Some \<lparr>df_DownlinkId = 1, df_DownlinkIdLegacy = [], df_Items = [], df_GatewayId = ''x''\<rparr>))
     pg_exchange_example = Panic"
proof -
  let ?f = "\<lparr>df_DownlinkId = 1, df_DownlinkIdLegacy = [], df_Items = [], df_GatewayId = ''x''\<rparr>"
  have "gs_ByNetworkID (xe_S pg_exchange_env_example) (ex_gateways pg_exchange_example) n = Inl ErrNotFound" for n
    by (simp add: pg_exchange_env_example_def pg_exchange_example_def pg_table_def pg_ByNetworkID_def pg_store_example_def)
  from downlink_unknown_gateway[OF this, of None ?f] show ?thesis by simp
qed

end
