(* ===== verification/Store_Refinement.thy ===== *)
theory Store_Refinement
  imports Yaml_Store Pg_Store
begin

text \<open>
  The abstract specification of a gateway store, a map from local ids to private keys to which ids are
  only added, and the proof that both stores refine it: a sequence of operations on a store acts
  on the map as the specification says, operation by operation.
\<close>

section \<open>Specification\<close>

datatype 'e store_op = OpAdd 'e eui64 private_key | OpSync 'e eui64 bool

type_synonym key_map = "eui64 \<rightharpoonup> private_key"

text \<open>The effect of an operation that was answered with success or not.  \<open>None\<close>: the answer is not one
  the specification allows, that is, an id in use was added, or an unknown one synced.\<close>

fun spec_step :: "'e store_op \<Rightarrow> bool \<Rightarrow> key_map \<Rightarrow> key_map option" where
  "spec_step op False m = Some m"
| "spec_step (OpAdd e l k) True m = (if m l = None then Some (m(l \<mapsto> k)) else None)"
| "spec_step (OpSync e l force) True m = (if m l = None then None else Some m)"

fun spec_run :: "('e store_op \<times> bool) list \<Rightarrow> key_map \<Rightarrow> key_map option" where
  "spec_run [] m = Some m"
| "spec_run ((op, ok) # ops) m = (case spec_step op ok m of None \<Rightarrow> None | Some m' \<Rightarrow> spec_run ops m')"

section \<open>Implementation\<close>

fun store_step :: "('s, 'e) gateway_store \<Rightarrow> 'e store_op \<Rightarrow> 's \<Rightarrow> gateway result \<times> 's" where
  "store_step S (OpAdd e l k) s = gs_Add S s e l k"
| "store_step S (OpSync e l force) s = gs_SyncGatewayByLocalID S s e l force"

fun store_run :: "('s, 'e) gateway_store \<Rightarrow> 'e store_op list \<Rightarrow> 's \<Rightarrow> bool list \<times> 's" where
  "store_run S [] s = ([], s)"
| "store_run S (op # ops) s =
     (let (r, s') = store_step S op s; (oks, s'') = store_run S ops s' in ((\<not> isl r) # oks, s''))"

text \<open>The abstraction: the keys by local id.\<close>

definition store_abs :: "('s, 'e) gateway_store \<Rightarrow> 's \<Rightarrow> key_map" where
  "store_abs S s l = (case gs_ByLocalID S s l of Inl err \<Rightarrow> None | Inr g \<Rightarrow> Some (PrivateKey g))"

section \<open>Refinement under the contract\<close>

context gateway_store
begin

lemma store_step_refines:
  assumes "inv s" "store_step S op s = (r, s')"
  shows "inv s' \<and> spec_step op (\<not> isl r) (store_abs S s) = Some (store_abs S s')"
proof (cases op)
  case (OpAdd e l k)
  then have add: "gs_Add S s e l k = (r, s')" using assms(2) by simp
  have frame: "store_abs S s' l' = store_abs S s l'" if "l' \<noteq> l" for l'
    using Add_frame[OF assms(1) add that] by (simp add: store_abs_def)
  show ?thesis
  proof (cases r)
    case (Inl err)
    then show ?thesis
      using Add_inv[OF assms(1) add] Add_error[OF assms(1)] add OpAdd by (auto simp: store_abs_def)
  next
    case (Inr g)
    have ok: "g = NewGateway E l k" "gs_ByLocalID S s l = Inl ErrNotFound" "gs_ByLocalID S s' l = Inr g"
      using Add_ok[OF assms(1)] add Inr by blast+
    then have "store_abs S s' = (store_abs S s)(l \<mapsto> k)"
      using frame by (auto simp: fun_eq_iff store_abs_def NewGateway_def)
    then show ?thesis using Add_inv[OF assms(1) add] ok(2) Inr OpAdd by (simp add: store_abs_def)
  qed
next
  case (OpSync e l force)
  then have sync: "gs_SyncGatewayByLocalID S s e l force = (r, s')" using assms(2) by simp
  have frame: "store_abs S s' l' = store_abs S s l'" if "l' \<noteq> l" for l'
    using Sync_frame[OF assms(1) sync that] by (simp add: store_abs_def)
  show ?thesis
  proof (cases r)
    case (Inl err)
    then show ?thesis
      using Sync_inv[OF assms(1) sync] Sync_error[OF assms(1)] sync OpSync by (auto simp: store_abs_def)
  next
    case (Inr g)
    obtain old where old: "gs_ByLocalID S s l = Inr old" "same_identity old g" "gs_ByLocalID S s' l = Inr g"
      using Sync_ok[OF assms(1)] sync Inr by blast
    then have "store_abs S s' l = store_abs S s l" by (simp add: store_abs_def same_identity_def)
    then have "store_abs S s' = store_abs S s" using frame by (metis ext)
    then show ?thesis using Sync_inv[OF assms(1) sync] old(1) Inr OpSync by (simp add: store_abs_def)
  qed
qed

lemma store_run_refines:
  assumes "inv s" "store_run S ops s = (oks, s')"
  shows "inv s' \<and> spec_run (zip ops oks) (store_abs S s) = Some (store_abs S s')"
  using assms
proof (induction ops arbitrary: s oks)
  case (Cons op ops)
  obtain r s1 where r: "store_step S op s = (r, s1)" by fastforce
  obtain oks' where oks': "store_run S ops s1 = (oks', s')" "oks = (\<not> isl r) # oks'"
    using Cons.prems(2) r by (auto split: prod.splits)
  show ?case
    using store_step_refines[OF Cons.prems(1) r] Cons.IH[OF _ oks'(1)] oks'(2) by simp
qed simp

text \<open>Each key of the map is found under the network id that belongs to it.\<close>

lemma abs_network_id:
  assumes "inv s" "store_abs S s l = Some k"
  shows "\<exists>g. gs_ByNetworkID S s (GatewayNetworkIDFromPrivateKey E k) = Inr g \<and>
    NetworkID g = GatewayNetworkIDFromPrivateKey E k"
proof -
  obtain g where g: "gs_ByLocalID S s l = Inr g" "PrivateKey g = k"
    using assms(2) by (auto simp: store_abs_def split: sum.splits)
  then have "NetworkID g = GatewayNetworkIDFromPrivateKey E k"
    using ByLocalID_found(2)[OF assms(1) g(1)] by (simp add: gateway_wf_def)
  then show ?thesis using network_id_found(2)[OF assms(1) g(1)] by auto
qed

end

section \<open>Properties\<close>

text \<open>
  C5: both gateway stores refine the map of local ids to keys.  Any sequence of additions and syncs, with
  any answers of the file system, the database and the registry, acts on this map as the
  specification says: a successful addition enters a new id with its key, everything else leaves the
  map as it is; an id in use is never added and an unknown one never synced; and each
  key of the map is found under the network id that is derived from it.
\<close>

theorem stores_refine_key_map:
  "(ys_inv E ys \<longrightarrow> store_run (yaml_table E L F Y) yops ys = (yoks, ys') \<longrightarrow>
      spec_run (zip yops yoks) (store_abs (yaml_table E L F Y) ys) = Some (store_abs (yaml_table E L F Y) ys') \<and>
      (\<forall>l k. store_abs (yaml_table E L F Y) ys' l = Some k \<longrightarrow>
         (\<exists>g. ys_ByNetworkID ys' (GatewayNetworkIDFromPrivateKey E k) = Inr g))) \<and>
   (pg_inv E D ps \<longrightarrow> store_run (pg_table E L F D R) pops ps = (poks, ps') \<longrightarrow>
      spec_run (zip pops poks) (store_abs (pg_table E L F D R) ps) = Some (store_abs (pg_table E L F D R) ps') \<and>
      (\<forall>l k. store_abs (pg_table E L F D R) ps' l = Some k \<longrightarrow>
         (\<exists>g. pg_ByNetworkID ps' (GatewayNetworkIDFromPrivateKey E k) = Inr g)))"
proof -
  have ys: "gs_ByNetworkID (yaml_table E L F Y) = ys_ByNetworkID" by (simp add: yaml_lookups)
  have ps: "gs_ByNetworkID (pg_table E L F D R) = pg_ByNetworkID" by (simp add: pg_table_def)
  show ?thesis
    using yaml.store_run_refines[of E ys L F Y yops yoks ys'] yaml.abs_network_id[of E ys' L F Y]
      pg.store_run_refines[of E D ps L F R pops poks ps'] pg.abs_network_id[of E D ps' L F R]
    unfolding ys ps by blast
qed

theorem stores_refine_key_map_witness:
  "\<exists>oks st'. store_run (yaml_table eth_example lorawan_hex freq_example yaml_example)
       [OpAdd (registry_example, AppendOk) eui64_zero (key_example 4),
        OpAdd (registry_example, AppendOk) eui64_zero (key_example 6)] yaml_store_example = (oks, st') \<and>
     spec_run (zip [OpAdd (registry_example, AppendOk) eui64_zero (key_example 4),
        OpAdd (registry_example, AppendOk) eui64_zero (key_example 6)] oks)
       (store_abs (yaml_table eth_example lorawan_hex freq_example yaml_example) yaml_store_example) =
       Some (store_abs (yaml_table eth_example lorawan_hex freq_example yaml_example) st')"
proof -
  let ?S = "yaml_table eth_example lorawan_hex freq_example yaml_example"
  let ?ops = "[OpAdd (registry_example, AppendOk) eui64_zero (key_example 4),
        OpAdd (registry_example, AppendOk) eui64_zero (key_example 6)]"
  obtain oks st' where run: "store_run ?S ?ops yaml_store_example = (oks, st')" by fastforce
  then show ?thesis using stores_refine_key_map yaml_store_example_inv(1) by blast
qed

end
