(* ===== verification/Join_Filter.thy ===== *)
theory Join_Filter
  imports Router_Client
begin

text \<open>
  The join filter that a router hands to forwarders, \<^verbatim>\<open>router/joinfilter.go\<close>: the enabled devices of all
  applications of all tenants of a ChirpStack server, as an xor filter and as a bitmap.  The server is the
  record \<open>chirpstack\<close>; its list methods are asked for pages of 500 from an offset.  A loop over
  pages goes on as long as full pages arrive, so it is a partial function: \<open>None\<close> is a loop
  that does not end.
\<close>

section \<open>The ChirpStack server\<close>

record chirpstack =
  cs_Tenants :: "u32 \<Rightarrow> string list result"
  cs_Applications :: "string \<Rightarrow> u32 \<Rightarrow> string list result"
  cs_Devices :: "string \<Rightarrow> u32 \<Rightarrow> string list result"
  cs_IsDisabled :: "string \<Rightarrow> bool result"

section \<open>Reading the devices\<close>

partial_function (option) page_loop ::
  "(u32 \<Rightarrow> 'x list result) \<Rightarrow> string \<Rightarrow> u32 \<Rightarrow> 'x list \<Rightarrow> 'x list result option" where
  "page_loop list msg processed acc =
     (case list processed of
        Inl err \<Rightarrow> Some (Inl (Errorf msg))
      | Inr res \<Rightarrow>
          if 500 \<le> length res
          then page_loop list msg (processed + of_nat (length res)) (acc @ res)
          else Some (Inr (acc @ res)))"

definition getTenantIds :: "chirpstack \<Rightarrow> string list result option" where
  "getTenantIds C = page_loop (cs_Tenants C) ''got error while listing tenants'' 0 []"

definition getApplicationIds :: "chirpstack \<Rightarrow> string \<Rightarrow> string list result option" where
  "getApplicationIds C tenantId =
     page_loop (cs_Applications C tenantId) ''got error while listing applications'' 0 []"

text \<open>A device that cannot be read, is disabled or has an invalid DevEUI is skipped.\<close>

fun dev_loop :: "lorawan_lib \<Rightarrow> chirpstack \<Rightarrow> string list \<Rightarrow> u64 list \<Rightarrow> u64 list" where
  "dev_loop L C [] devEUIs = devEUIs"
| "dev_loop L C (dev # devs) devEUIs =
     (case cs_IsDisabled C dev of
        Inl err \<Rightarrow> dev_loop L C devs devEUIs
      | Inr True \<Rightarrow> dev_loop L C devs devEUIs
      | Inr False \<Rightarrow>
          (case Eui64FromString L dev of
             Inl err \<Rightarrow> dev_loop L C devs devEUIs
           | Inr eui \<Rightarrow> dev_loop L C devs (devEUIs @ [Eui64ToUint64 eui])))"

partial_function (option) dev_page_loop ::
  "lorawan_lib \<Rightarrow> chirpstack \<Rightarrow> string \<Rightarrow> u32 \<Rightarrow> u64 list \<Rightarrow> u64 list result option" where
  "dev_page_loop L C appId processed devEUIs =
     (case cs_Devices C appId processed of
        Inl err \<Rightarrow> Some (Inl (Errorf ''got error while listing devices''))
      | Inr res \<Rightarrow>
          if 500 \<le> length res
          then dev_page_loop L C appId (processed + of_nat (length res)) (dev_loop L C res devEUIs)
          else Some (Inr (dev_loop L C res devEUIs)))"

definition getDevEuisForApplication :: "lorawan_lib \<Rightarrow> chirpstack \<Rightarrow> string \<Rightarrow> u64 list result option" where
  "getDevEuisForApplication L C appId = dev_page_loop L C appId 0 []"

section \<open>The generator\<close>

record chirpstackGenerator =
  cg_filter :: "xor8 option"
  cg_bitmapBytes :: bytes

definition generator_JoinFilter :: "chirpstackGenerator \<Rightarrow> xor8 option \<times> bytes" where
  "generator_JoinFilter c =
     (case cg_filter c of Some flt \<Rightarrow> (Some flt, cg_bitmapBytes c) | None \<Rightarrow> (None, []))"

fun apps_loop :: "lorawan_lib \<Rightarrow> chirpstack \<Rightarrow> string list \<Rightarrow> u64 list \<Rightarrow> u64 list result option" where
  "apps_loop L C [] devEUIs = Some (Inr devEUIs)"
| "apps_loop L C (appId # appIds) devEUIs =
     (case getDevEuisForApplication L C appId of
        None \<Rightarrow> None
      | Some (Inl err) \<Rightarrow> Some (Inl err)
      | Some (Inr newDevEUIs) \<Rightarrow> apps_loop L C appIds (devEUIs @ newDevEUIs))"

fun tenants_loop :: "lorawan_lib \<Rightarrow> chirpstack \<Rightarrow> string list \<Rightarrow> u64 list \<Rightarrow> u64 list result option" where
  "tenants_loop L C [] devEUIs = Some (Inr devEUIs)"
| "tenants_loop L C (tenantId # tenantIds) devEUIs =
     (case getApplicationIds C tenantId of
        None \<Rightarrow> None
      | Some (Inl err) \<Rightarrow> Some (Inl err)
      | Some (Inr appIds) \<Rightarrow>
          (case apps_loop L C appIds devEUIs of
             None \<Rightarrow> None
           | Some (Inl err) \<Rightarrow> Some (Inl err)
           | Some (Inr devEUIs) \<Rightarrow> tenants_loop L C tenantIds devEUIs))"

definition build_filter ::
  "'bm filter_lib \<Rightarrow> u64 list \<Rightarrow> chirpstackGenerator \<Rightarrow> go_error option \<times> chirpstackGenerator" where
  "build_filter F devEUIs c =
     (if length devEUIs > 0
      then (case xor_Populate F devEUIs of
              Inl err \<Rightarrow> (Some (Errorf ''error while populating xor8 filter from devEUIs''), c)
            | Inr flt \<Rightarrow>
                (case bm_MarshalBinary F (bm_AddMany F devEUIs) of
                   Inl err \<Rightarrow> (Some (Errorf ''error while populating bitmap from devEUIs''), c)
                 | Inr bitmapBytes \<Rightarrow> (None, \<lparr>cg_filter = Some flt, cg_bitmapBytes = bitmapBytes\<rparr>)))
      else (None, \<lparr>cg_filter = None, cg_bitmapBytes = []\<rparr>))"

definition UpdateFilter ::
  "lorawan_lib \<Rightarrow> 'bm filter_lib \<Rightarrow> chirpstack \<Rightarrow> chirpstackGenerator \<Rightarrow>
   (go_error option \<times> chirpstackGenerator) option" where
  "UpdateFilter L F C c =
     (case getTenantIds C of
        None \<Rightarrow> None
      | Some (Inl err) \<Rightarrow> Some (Some err, c)
      | Some (Inr tenantIds) \<Rightarrow>
          (case tenants_loop L C tenantIds [] of
             None \<Rightarrow> None
           | Some (Inl err) \<Rightarrow> Some (Some err, c)
           | Some (Inr devEUIs) \<Rightarrow> Some (build_filter F devEUIs c)))"

section \<open>Paging is complete\<close>

text \<open>A server that serves pages of fixed lists, each too short for the 32-bit offset to wrap.\<close>

definition serves :: "(u32 \<Rightarrow> 'x list result) \<Rightarrow> 'x list \<Rightarrow> bool" where
  "serves list xs \<longleftrightarrow> length xs < 2 ^ 32 \<and> (\<forall>off. list off = Inr (take 500 (drop (unat off) xs)))"

lemma serves_page:
  assumes "serves list xs" "k \<le> length xs"
  shows "list (of_nat k) = Inr (take 500 (drop k xs))"
proof -
  have "unat (of_nat k :: u32) = k" using assms by (simp add: serves_def unat_of_nat)
  then show ?thesis using assms by (simp add: serves_def)
qed

text \<open>Loop invariant: \<open>k\<close> entries have been processed.\<close>

lemma page_loop_serves:
  assumes "serves list xs" "k \<le> length xs"
  shows "page_loop list msg (of_nat k) (take k xs) = Some (Inr xs)"
  using assms(2)
proof (induction "length xs - k" arbitrary: k rule: less_induct)
  case less
  note page = serves_page[OF assms(1) less.prems]
  show ?case
  proof (cases "500 \<le> length (take 500 (drop k xs))")
    case True
    then have k: "k + 500 \<le> length xs" by simp
    have len: "length (take 500 (drop k xs)) = 500" using k by simp
    have IH: "page_loop list msg (of_nat (k + 500)) (take (k + 500) xs) = Some (Inr xs)"
      using less.hyps[of "k + 500"] k by simp
    have "page_loop list msg (of_nat k) (take k xs) =
        page_loop list msg (of_nat k + of_nat 500) (take k xs @ take 500 (drop k xs))"
      by (subst page_loop.simps) (simp only: page len sum.case if_True order.refl)
    also have "\<dots> = page_loop list msg (of_nat (k + 500)) (take (k + 500) xs)"
      by (simp add: take_add)
    finally show ?thesis using IH by simp
  next
    case False
    then have "take 500 (drop k xs) = drop k xs" by simp
    then show ?thesis using False page by (subst page_loop.simps) simp
  qed
qed

text \<open>The DevEUIs of the enabled devices of a list.\<close>

definition enabled_dev :: "lorawan_lib \<Rightarrow> chirpstack \<Rightarrow> string \<Rightarrow> u64 list" where
  "enabled_dev L C dev =
     (case (cs_IsDisabled C dev, Eui64FromString L dev) of
        (Inr False, Inr eui) \<Rightarrow> [Eui64ToUint64 eui] | _ \<Rightarrow> [])"

lemma dev_loop_eq: "dev_loop L C devs acc = acc @ concat (map (enabled_dev L C) devs)"
  by (induction devs arbitrary: acc) (auto simp: enabled_dev_def split: sum.split bool.split)

lemma dev_page_loop_serves:
  assumes "serves (cs_Devices C appId) xs" "k \<le> length xs"
  shows "dev_page_loop L C appId (of_nat k) acc = Some (Inr (dev_loop L C (drop k xs) acc))"
  using assms(2)
proof (induction "length xs - k" arbitrary: k acc rule: less_induct)
  case less
  note page = serves_page[OF assms(1) less.prems]
  show ?case
  proof (cases "500 \<le> length (take 500 (drop k xs))")
    case True
    then have k: "k + 500 \<le> length xs" by simp
    have len: "length (take 500 (drop k xs)) = 500" using k by simp
    have IH: "dev_page_loop L C appId (of_nat (k + 500)) a = Some (Inr (dev_loop L C (drop (k + 500) xs) a))" for a
      using less.hyps[of "k + 500"] k by simp
    have split: "drop k xs = take 500 (drop k xs) @ drop (k + 500) xs"
      by (metis append_take_drop_id add.commute drop_drop)
    have "dev_page_loop L C appId (of_nat k) acc =
        dev_page_loop L C appId (of_nat k + of_nat 500) (dev_loop L C (take 500 (drop k xs)) acc)"
      by (subst dev_page_loop.simps) (simp only: page len sum.case if_True order.refl)
    also have "\<dots> = Some (Inr (dev_loop L C (drop (k + 500) xs) (dev_loop L C (take 500 (drop k xs)) acc)))"
      using IH by (simp add: add.commute)
    also have "dev_loop L C (drop (k + 500) xs) (dev_loop L C (take 500 (drop k xs)) acc) = dev_loop L C (drop k xs) acc"
      by (subst split) (simp add: dev_loop_eq)
    finally show ?thesis .
  next
    case False
    then have "take 500 (drop k xs) = drop k xs" by simp
    then show ?thesis using False page by (subst dev_page_loop.simps) simp
  qed
qed

text \<open>A server with the tenants \<open>T\<close>, the applications \<open>A t\<close> of each and the devices \<open>D a\<close> of each.\<close>

definition serves_all :: "chirpstack \<Rightarrow> string list \<Rightarrow> (string \<Rightarrow> string list) \<Rightarrow> (string \<Rightarrow> string list) \<Rightarrow> bool" where
  "serves_all C T A D \<longleftrightarrow>
     serves (cs_Tenants C) T \<and> (\<forall>t. serves (cs_Applications C t) (A t)) \<and> (\<forall>a. serves (cs_Devices C a) (D a))"

definition all_devs :: "string list \<Rightarrow> (string \<Rightarrow> string list) \<Rightarrow> (string \<Rightarrow> string list) \<Rightarrow> string list" where
  "all_devs T A D = concat (map D (concat (map A T)))"

lemma getDevEuis_serves:
  "serves_all C T A D \<Longrightarrow> getDevEuisForApplication L C a = Some (Inr (concat (map (enabled_dev L C) (D a))))"
  using dev_page_loop_serves[of C a "D a" 0 L "[]"]
  by (simp add: serves_all_def getDevEuisForApplication_def dev_loop_eq)

lemma apps_loop_serves:
  assumes "serves_all C T A D"
  shows "apps_loop L C as acc = Some (Inr (acc @ concat (map (enabled_dev L C) (concat (map D as)))))"
  by (induction as arbitrary: acc) (simp_all add: getDevEuis_serves[OF assms])

lemma getApplicationIds_serves: "serves_all C T A D \<Longrightarrow> getApplicationIds C t = Some (Inr (A t))"
  using page_loop_serves[of "cs_Applications C t" "A t" 0]
  by (simp add: serves_all_def getApplicationIds_def)

lemma tenants_loop_serves:
  assumes "serves_all C T A D"
  shows "tenants_loop L C ts acc = Some (Inr (acc @ concat (map (enabled_dev L C) (all_devs ts A D))))"
  by (induction ts arbitrary: acc)
    (simp_all add: getApplicationIds_serves[OF assms] apps_loop_serves[OF assms] all_devs_def)

lemma UpdateFilter_serves:
  assumes "serves_all C T A D"
  shows "UpdateFilter L F C c = Some (build_filter F (concat (map (enabled_dev L C) (all_devs T A D))) c)"
proof -
  have "getTenantIds C = Some (Inr T)"
    using assms page_loop_serves[of "cs_Tenants C" T 0] by (simp add: serves_all_def getTenantIds_def)
  then show ?thesis by (simp add: UpdateFilter_def tenants_loop_serves[OF assms])
qed

lemma set_enabled:
  "Eui64ToUint64 e \<in> set (concat (map (enabled_dev L C) devs)) \<longleftrightarrow>
     (\<exists>dev \<in> set devs. cs_IsDisabled C dev = Inr False \<and> Eui64FromString L dev = Inr e)"
  by (force simp: enabled_dev_def split: sum.splits bool.splits)

section \<open>Properties\<close>

text \<open>
  C22: the join filter does what it is for, from the server's device list to the decision on a join.  When
  the update of the filter succeeds (it always ends), a forwarder that fetches the filter then
  accepts a join request for a router that is not a default router exactly for the enabled devices of
  the router's ChirpStack server: no device of any page of any application is missed, and no other device
  gets through.
\<close>

theorem join_filter_exact:
  assumes "filter_ok F" "serves_all C T A D" "\<not> rt_Default r"
  shows "\<exists>err c'. UpdateFilter L F C c = Some (err, c') \<and>
     (err = None \<longrightarrow>
        (\<forall>devEUI. AcceptsJoin F (updateJoinFilter F (generator_JoinFilter c') r) devEUI \<longleftrightarrow>
           (\<exists>dev \<in> set (all_devs T A D). cs_IsDisabled C dev = Inr False \<and> Eui64FromString L dev = Inr devEUI))) \<and>
     (err \<noteq> None \<longrightarrow> c' = c)"
proof -
  let ?ks = "concat (map (enabled_dev L C) (all_devs T A D))"
  note upd = UpdateFilter_serves[OF assms(2), of L F c]
  obtain err c' where b: "build_filter F ?ks c = (err, c')" by (metis surj_pair)
  have accepts: "AcceptsJoin F (updateJoinFilter F (generator_JoinFilter c') r) e \<longleftrightarrow> Eui64ToUint64 e \<in> set ?ks"
    if none: "err = None" for e
  proof (cases "?ks = []")
    case True
    then have "c' = \<lparr>cg_filter = None, cg_bitmapBytes = []\<rparr>" using b none by (simp add: build_filter_def del: concat_eq_Nil_conv)
    then show ?thesis
      using assms(3) True by (simp add: generator_JoinFilter_def updateJoinFilter_def SetJoinFilter_def AcceptsJoin_def
          del: concat_eq_Nil_conv)
  next
    case False
    then obtain x bs where c': "c' = \<lparr>cg_filter = Some x, cg_bitmapBytes = bs\<rparr>"
      "bm_MarshalBinary F (bm_AddMany F ?ks) = Inr bs"
      using b none by (auto simp: build_filter_def split: sum.splits)
    then have "bs \<noteq> []" "bm_UnmarshalBinary F bs = Inr (bm_AddMany F ?ks)"
      using assms(1) by (auto simp: filter_ok_def)
    then have "AcceptsJoin F (updateJoinFilter F (generator_JoinFilter c') r) e \<longleftrightarrow>
        bm_Contains F (bm_AddMany F ?ks) (Eui64ToUint64 e)"
      using c'(1) assms(3)
      by (simp add: generator_JoinFilter_def updateJoinFilter_def SetJoinFilter_def AcceptsJoin_def)
    then show ?thesis using assms(1) by (simp add: filter_ok_def)
  qed
  have failed: "c' = c" if "err \<noteq> None"
    using b that by (auto simp: build_filter_def split: if_splits sum.splits)
  show ?thesis using upd b accepts[unfolded set_enabled] failed by auto
qed

text \<open>A server with one tenant, one application and two devices, the second one disabled.\<close>

definition dev_name :: "byte \<Rightarrow> string" where
  "dev_name b = eui_String lorawan_hex (EUI64 b 0 0 0 0 0 0 0)"

definition chirpstack_example :: chirpstack where
  "chirpstack_example =
     \<lparr>cs_Tenants = (\<lambda>off. Inr (take 500 (drop (unat off) [''t'']))),
      cs_Applications = (\<lambda>t off. Inr (take 500 (drop (unat off) [''a'']))),
      cs_Devices = (\<lambda>a off. Inr (take 500 (drop (unat off) [dev_name 1, dev_name 2]))),
      cs_IsDisabled = (\<lambda>dev. Inr (dev = dev_name 2))\<rparr>"

theorem join_filter_exact_witness:
  "\<exists>c'. UpdateFilter lorawan_hex filter_example chirpstack_example \<lparr>cg_filter = None, cg_bitmapBytes = []\<rparr> = Some (None, c') \<and>
     (\<forall>devEUI. AcceptsJoin filter_example (updateJoinFilter filter_example (generator_JoinFilter c') (router_example 1)) devEUI
        \<longleftrightarrow> devEUI = EUI64 1 0 0 0 0 0 0 0)"
proof -
  let ?c = "\<lparr>cg_filter = None, cg_bitmapBytes = []\<rparr>"
  let ?D = "\<lambda>a :: string. [dev_name 1, dev_name 2]"
  have srv: "serves_all chirpstack_example [''t''] (\<lambda>_. [''a'']) ?D"
    by (simp add: serves_all_def serves_def chirpstack_example_def)
  have nd: "\<not> rt_Default (router_example 1)" by (simp add: router_example_def NewRouter_def)
  have name: "Eui64FromString lorawan_hex (dev_name b) = Inr (EUI64 b 0 0 0 0 0 0 0)" for b
    using lorawan_okD(1)[OF lorawan_hex_ok] by (simp add: dev_name_def Eui64FromString_def)
  have ne: "dev_name 1 \<noteq> dev_name 2" using name[of 1] name[of 2] by auto
  have none: "fst (build_filter filter_example ks ?c) = None" for ks
    by (simp add: build_filter_def filter_example_def)
  have devs: "(\<exists>dev \<in> set (all_devs [''t''] (\<lambda>_. [''a'']) ?D). cs_IsDisabled chirpstack_example dev = Inr False \<and>
      Eui64FromString lorawan_hex dev = Inr e) \<longleftrightarrow> e = EUI64 1 0 0 0 0 0 0 0" for e
    using ne by (auto simp: all_devs_def chirpstack_example_def name[simplified])
  show ?thesis
    using join_filter_exact[OF filter_example_ok srv nd, of lorawan_hex ?c] none
    unfolding devs UpdateFilter_serves[OF srv] by (metis fst_conv option.inject)
qed

end
