(* ===== verification/Api.thy ===== *)
theory Api
  imports Unknown_Recorder Yaml_Store Pg_Store "HOL-Library.List_Lexorder"
begin

text \<open>
  The HTTP API of the forwarder, \<^verbatim>\<open>forwarder/api.go\<close>: adding, importing, onboarding, listing and syncing
  gateways.  A handler takes the decoded request and yields the reply and the new state.  It is
  written against the method tables of the gateway store and of the unknown gateway logger.  The result is
  \<open>None\<close> when no usable key is ever drawn, and \<open>Panic\<close> when a signature is too short to be patched.
  Routing, headers and the JSON encoding of replies are not modelled.
\<close>

section \<open>State and replies\<close>

record OnboardGatewayReply =
  or_Owner :: address
  or_Address :: address
  or_ChainID :: nat
  or_GatewayID :: thingsix_id
  or_GatewayOnboardSignature :: string
  or_EarlyAdopterOnboardSignature :: string
  or_LocalID :: eui64
  or_NetworkID :: eui64
  or_Version :: u8
  or_Onboarder :: address

datatype api_body =
    BodyGateway gateway
  | BodyOnboard OnboardGatewayReply
  | BodyOnboards "OnboardGatewayReply list"
  | BodyGateways "gateway list" "gateway list"
  | BodyUnknown "RecordedUnknownGateway list"

datatype http_reply = HttpError nat string | HttpReply nat api_body

abbreviation InternalServerError :: http_reply where
  "InternalServerError \<equiv> HttpError 500 ''Internal Server Error''"

record onboard_payload =
  op_gatewayId :: string
  op_gatewayOnboardSignature :: string
  op_version :: u8
  op_localId :: string

record ('s, 'u) api_state =
  as_gateways :: 's
  as_unknown :: 'u
  as_drawn :: nat
  as_pushed :: "(string \<times> onboard_payload) list"

text \<open>The service with its configuration, the source of keys, and what the store's environment and the
  ThingsIX service answer.\<close>

record ('s, 'e, 'u, 'v) APIService =
  av_E :: eth_lib
  av_L :: lorawan_lib
  av_gateways :: "('s, 'e) gateway_store"
  av_unknown :: "('u, 'v) unknown_gateway_logger"
  av_chainID :: nat
  av_batchOnboarderAddress :: address
  av_earlyAdopterOnboarderAddress :: address
  av_thingsIXOnboardEndpoint :: string
  av_rand :: "nat \<Rightarrow> private_key result"
  av_add :: "eui64 \<Rightarrow> 'e"
  av_post :: "string \<Rightarrow> onboard_payload \<Rightarrow> nat result"

section \<open>Adding gateways\<close>

definition add_new_gateway ::
  "('s, 'e, 'u, 'v) APIService \<Rightarrow> eui64 \<Rightarrow> ('s, 'u) api_state \<Rightarrow> (gateway result \<times> ('s, 'u) api_state) option" where
  "add_new_gateway svc localID st =
     (case GenerateNewGateway (av_E svc) (av_rand svc) (as_drawn st) localID of
        None \<Rightarrow> None
      | Some (Inl err, n) \<Rightarrow> Some (Inl err, st\<lparr>as_drawn := n\<rparr>)
      | Some (Inr gw, n) \<Rightarrow>
          (case gs_Add (av_gateways svc) (as_gateways st) (av_add svc localID) (LocalID gw) (PrivateKey gw) of
             (r, s') \<Rightarrow> Some (r, st\<lparr>as_drawn := n, as_gateways := s'\<rparr>)))"

definition AddGateway ::
  "('s, 'e, 'u, 'v) APIService \<Rightarrow> eui64 result \<Rightarrow> ('s, 'u) api_state \<Rightarrow>
   (http_reply \<times> ('s, 'u) api_state) option" where
  "AddGateway svc req st =
     (case req of
        Inl err \<Rightarrow> Some (HttpError 400 ''invalid request'', st)
      | Inr localID \<Rightarrow>
          if localID = eui64_zero then Some (HttpError 400 ''missing/invalid local id'', st)
          else (case gs_ByLocalID (av_gateways svc) (as_gateways st) localID of
                  Inr gw \<Rightarrow> Some (HttpReply 200 (BodyGateway gw), st)
                | Inl err \<Rightarrow>
                    if err = ErrNotFound
                    then (case add_new_gateway svc localID st of
                            None \<Rightarrow> None
                          | Some (Inl err, st) \<Rightarrow> Some (InternalServerError, st)
                          | Some (Inr gw, st) \<Rightarrow> Some (HttpReply 201 (BodyGateway gw), st))
                    else Some (InternalServerError, st)))"

section \<open>Onboarding\<close>

definition to_lower_char :: "char \<Rightarrow> char" where
  "to_lower_char c =
     (if 64 < (of_char c :: nat) \<and> (of_char c :: nat) < 91 then char_of ((of_char c :: nat) + 32) else c)"

definition onboard_endpoint :: "('s, 'e, 'u, 'v) APIService \<Rightarrow> address \<Rightarrow> address \<Rightarrow> string" where
  "onboard_endpoint svc owner onboarder =
     replace1 (replace1 (av_thingsIXOnboardEndpoint svc) ''{owner}'' (map to_lower_char (Address_String (av_E svc) owner)))
       ''{onboarder}'' (map to_lower_char (Address_String (av_E svc) onboarder))"

definition sig_String :: "bytes \<Rightarrow> string" where
  "sig_String sig = ''0x'' @ hex_encode sig"

definition onboard_payload_of :: "('s, 'e, 'u, 'v) APIService \<Rightarrow> gateway \<Rightarrow> bytes \<Rightarrow> onboard_payload" where
  "onboard_payload_of svc gw sig =
     \<lparr>op_gatewayId = ThingsIxID_String (ThingsIxID gw), op_gatewayOnboardSignature = sig_String sig,
      op_version = 0, op_localId = eui_String (av_L svc) (LocalID gw)\<rparr>"

fun push_loop ::
  "('s, 'e, 'u, 'v) APIService \<Rightarrow> (string \<times> onboard_payload) list \<Rightarrow> ('s, 'u) api_state \<Rightarrow>
   go_error option \<times> ('s, 'u) api_state" where
  "push_loop svc [] st = (None, st)"
| "push_loop svc ((endpoint, payload) # ps) st =
     (case av_post svc endpoint payload of
        Inl err \<Rightarrow> (Some err, st)
      | Inr code \<Rightarrow> push_loop svc ps (st\<lparr>as_pushed := as_pushed st @ [(endpoint, payload)]\<rparr>))"

text \<open>Signing the two onboard messages of a gateway, pushing them if asked to, and the reply: the same code in
  \<^verbatim>\<open>ImportGateways\<close> and \<^verbatim>\<open>OnboardGatewayMessage\<close>.\<close>

definition onboard_gateway ::
  "('s, 'e, 'u, 'v) APIService \<Rightarrow> address \<Rightarrow> bool \<Rightarrow> gateway \<Rightarrow> ('s, 'u) api_state \<Rightarrow>
   (OnboardGatewayReply result \<times> ('s, 'u) api_state) go" where
  "onboard_gateway svc owner push gw st =
     go_bind (SignPlainBatchOnboardMessage (av_E svc) (av_chainID svc) (av_batchOnboarderAddress svc) owner 0 gw) (\<lambda>batch.
       case batch of
         Inl err \<Rightarrow> Ret (Inl err, st)
       | Inr batchSig \<Rightarrow>
           go_bind (SignPlainBatchOnboardMessage (av_E svc) (av_chainID svc) (av_earlyAdopterOnboarderAddress svc) owner 0 gw)
             (\<lambda>early.
                case early of
                  Inl err \<Rightarrow> Ret (Inl err, st)
                | Inr earlySig \<Rightarrow>
                    (case (if push
                           then push_loop svc
                                  [(onboard_endpoint svc owner (av_batchOnboarderAddress svc), onboard_payload_of svc gw batchSig),
                                   (onboard_endpoint svc owner (av_earlyAdopterOnboarderAddress svc), onboard_payload_of svc gw earlySig)]
                                  st
                           else (None, st)) of
                       (Some err, st) \<Rightarrow> Ret (Inl err, st)
                     | (None, st) \<Rightarrow>
                         Ret (Inr \<lparr>or_Owner = owner, or_Address = gateway_Address (av_E svc) gw,
                                   or_ChainID = av_chainID svc, or_GatewayID = ThingsIxID gw,
                                   or_GatewayOnboardSignature = sig_String batchSig,
                                   or_EarlyAdopterOnboardSignature = sig_String earlySig,
                                   or_LocalID = LocalID gw, or_NetworkID = NetworkID gw, or_Version = 0,
                                   or_Onboarder = av_batchOnboarderAddress svc\<rparr>, st))))"

fun import_loop ::
  "('s, 'e, 'u, 'v) APIService \<Rightarrow> address \<Rightarrow> bool \<Rightarrow> RecordedUnknownGateway list \<Rightarrow> nat \<Rightarrow>
   OnboardGatewayReply list \<Rightarrow> ('s, 'u) api_state \<Rightarrow> (http_reply \<times> ('s, 'u) api_state) go option" where
  "import_loop svc owner push [] statusCode reply st = Some (Ret (HttpReply statusCode (BodyOnboards reply), st))"
| "import_loop svc owner push (rec # recg) statusCode reply st =
     (if gs_ContainsByLocalID (av_gateways svc) (as_gateways st) (ug_LocalID rec)
      then import_loop svc owner push recg statusCode reply st
      else case add_new_gateway svc (ug_LocalID rec) st of
             None \<Rightarrow> None
           | Some (Inl err, st) \<Rightarrow> Some (Ret (InternalServerError, st))
           | Some (Inr gw, st) \<Rightarrow>
               (case onboard_gateway svc owner push gw st of
                  Panic \<Rightarrow> Some Panic
                | Ret (Inl err, st) \<Rightarrow> Some (Ret (InternalServerError, st))
                | Ret (Inr r, st) \<Rightarrow> import_loop svc owner push recg 201 (reply @ [r]) st))"

definition unknown_error :: "go_error \<Rightarrow> http_reply" where
  "unknown_error err =
     (if err = ErrRecordingUnknownGatewaysDisabled then HttpError 503 ''recording unknown gateways disabled''
      else InternalServerError)"

definition ImportGateways ::
  "('s, 'e, 'u, 'v) APIService \<Rightarrow> (address \<times> bool) result \<Rightarrow> ('s, 'u) api_state \<Rightarrow>
   (http_reply \<times> ('s, 'u) api_state) go option" where
  "ImportGateways svc req st =
     (case req of
        Inl err \<Rightarrow> Some (Ret (HttpError 400 ''invalid request'', st))
      | Inr (owner, push) \<Rightarrow>
          if owner = address_zero then Some (Ret (HttpError 400 ''missing owner'', st))
          else (case ul_Recorded (av_unknown svc) (as_unknown st) of
                  Inr recg \<Rightarrow> import_loop svc owner push recg 200 [] st
                | Inl err \<Rightarrow> Some (Ret (unknown_error err, st))))"

definition OnboardGatewayMessage ::
  "('s, 'e, 'u, 'v) APIService \<Rightarrow> (eui64 \<times> address \<times> bool) result \<Rightarrow> ('s, 'u) api_state \<Rightarrow>
   (http_reply \<times> ('s, 'u) api_state) go option" where
  "OnboardGatewayMessage svc req st =
     (case req of
        Inl err \<Rightarrow> Some (Ret (HttpError 400 ''invalid request'', st))
      | Inr (localID, owner, push) \<Rightarrow>
          if localID = eui64_zero then Some (Ret (HttpError 400 ''missing/invalid local id'', st))
          else if owner = address_zero then Some (Ret (HttpError 400 ''missing owner'', st))
          else
            (case (case gs_ByLocalID (av_gateways svc) (as_gateways st) localID of
                     Inr gw \<Rightarrow> Some (Inr (gw, 200 :: nat), st)
                   | Inl err \<Rightarrow>
                       if err = ErrNotFound
                       then (case add_new_gateway svc localID st of
                               None \<Rightarrow> None
                             | Some (Inl err, st) \<Rightarrow> Some (Inl err, st)
                             | Some (Inr gw, st) \<Rightarrow> Some (Inr (gw, 201), st))
                       else Some (Inl err, st)) of
               None \<Rightarrow> None
             | Some (Inl err, st) \<Rightarrow> Some (Ret (InternalServerError, st))
             | Some (Inr (gw, statusCode), st) \<Rightarrow>
                 if Owner gw \<noteq> None then Some (Ret (HttpError 400 ''gateway already onboarded'', st))
                 else Some (go_bind (onboard_gateway svc owner push gw st) (\<lambda>res.
                        case res of
                          (Inl err, st) \<Rightarrow> Ret (InternalServerError, st)
                        | (Inr r, st) \<Rightarrow> Ret (HttpReply statusCode (BodyOnboard r), st)))))"

section \<open>Reading and syncing\<close>

text \<open>\<open>order\<close> is the order in which the store ranges over its map.\<close>

definition ListGateways :: "('s, 'e, 'u, 'v) APIService \<Rightarrow> eui64 list \<Rightarrow> ('s, 'u) api_state \<Rightarrow> http_reply" where
  "ListGateways svc order st =
     (let gws = range_loop Collector_Do (gs_Range (av_gateways svc) (as_gateways st) order) []
      in HttpReply 200 (BodyGateways
           (sort_key (\<lambda>gw. eui_bytes (LocalID gw)) (filter (\<lambda>gw. \<not> Onboarded gw) gws))
           (sort_key (\<lambda>gw. eui_bytes (LocalID gw)) (filter Onboarded gws))))"

definition ListUnknownGateways :: "('s, 'e, 'u, 'v) APIService \<Rightarrow> ('s, 'u) api_state \<Rightarrow> http_reply" where
  "ListUnknownGateways svc st =
     (case ul_Recorded (av_unknown svc) (as_unknown st) of
        Inr recg \<Rightarrow>
          HttpReply 200 (BodyUnknown
            (filter (\<lambda>r. \<not> gs_ContainsByLocalID (av_gateways svc) (as_gateways st) (ug_LocalID r)) recg))
      | Inl err \<Rightarrow> unknown_error err)"

definition gateway_reply :: "gateway result \<Rightarrow> http_reply" where
  "gateway_reply r =
     (case r of
        Inr gw \<Rightarrow> HttpReply 200 (BodyGateway gw)
      | Inl err \<Rightarrow> if err = ErrNotFound then HttpError 404 ''404 page not found'' else InternalServerError)"

definition api_Gateway :: "('s, 'e, 'u, 'v) APIService \<Rightarrow> string \<Rightarrow> ('s, 'u) api_state \<Rightarrow> http_reply" where
  "api_Gateway svc local_id st =
     (case Eui64FromString (av_L svc) local_id of
        Inl err \<Rightarrow> HttpError 400 ''invalid gateway local id''
      | Inr localID \<Rightarrow> gateway_reply (gs_ByLocalID (av_gateways svc) (as_gateways st) localID))"

definition SyncGateway ::
  "('s, 'e, 'u, 'v) APIService \<Rightarrow> 'e \<Rightarrow> string \<Rightarrow> ('s, 'u) api_state \<Rightarrow> http_reply \<times> ('s, 'u) api_state" where
  "SyncGateway svc e local_id st =
     (case Eui64FromString (av_L svc) local_id of
        Inl err \<Rightarrow> (HttpError 400 ''invalid gateway local id'', st)
      | Inr localID \<Rightarrow>
          (case gs_SyncGatewayByLocalID (av_gateways svc) (as_gateways st) e localID True of
             (r, s') \<Rightarrow> (gateway_reply r, st\<lparr>as_gateways := s'\<rparr>)))"

section \<open>Under the contract of the store\<close>

lemma GenerateNewGateway_id:
  "GenerateNewGateway E src n l = Some (Inr gw, n') \<Longrightarrow> LocalID gw = l"
  by (auto simp: GenerateNewGateway_def split: option.splits sum.splits prod.splits)

lemma push_loop_frame:
  "push_loop svc ps st = (r, st') \<Longrightarrow> as_gateways st' = as_gateways st \<and> as_unknown st' = as_unknown st"
  by (induction ps arbitrary: st) (auto split: sum.splits)

lemma onboard_gateway_frame:
  assumes "onboard_gateway svc owner push gw st = Ret (r, st')"
  shows "as_gateways st' = as_gateways st \<and> as_unknown st' = as_unknown st \<and>
    (\<forall>x. r = Inr x \<longrightarrow> or_LocalID x = LocalID gw \<and> or_Owner x = owner)"
proof -
  obtain b where b: "SignPlainBatchOnboardMessage (av_E svc) (av_chainID svc) (av_batchOnboarderAddress svc) owner 0 gw = Ret b"
    using assms by (auto simp: onboard_gateway_def go_bind_eq_Ret)
  show ?thesis
  proof (cases b)
    case (Inl err)
    then show ?thesis using assms b by (auto simp: onboard_gateway_def)
  next
    case bs: (Inr batchSig)
    obtain e where e: "SignPlainBatchOnboardMessage (av_E svc) (av_chainID svc) (av_earlyAdopterOnboarderAddress svc) owner 0 gw = Ret e"
      using assms b bs by (auto simp: onboard_gateway_def go_bind_eq_Ret)
    show ?thesis
    proof (cases e)
      case (Inl err)
      then show ?thesis using assms b bs e by (auto simp: onboard_gateway_def)
    next
      case (Inr earlySig)
      define p where "p = (if push
         then push_loop svc
                [(onboard_endpoint svc owner (av_batchOnboarderAddress svc), onboard_payload_of svc gw batchSig),
                 (onboard_endpoint svc owner (av_earlyAdopterOnboarderAddress svc), onboard_payload_of svc gw earlySig)] st
         else (None, st))"
      obtain pr st1 where p1: "p = (pr, st1)" by fastforce
      have "as_gateways st1 = as_gateways st" "as_unknown st1 = as_unknown st"
        using p1 push_loop_frame[of svc _ st pr st1] by (auto simp: p_def simp del: push_loop.simps split: if_splits)
      then show ?thesis
        using assms b bs e Inr p1[unfolded p_def]
        by (cases pr) (auto simp: onboard_gateway_def simp del: push_loop.simps)
    qed
  qed
qed

definition stored_ids :: "('s, 'e) gateway_store \<Rightarrow> 's \<Rightarrow> eui64 set" where
  "stored_ids S s = {l. gs_ContainsByLocalID S s l}"

context gateway_store
begin

lemma add_new_gateway_spec:
  assumes S: "av_gateways svc = S" and inv: "inv (as_gateways st)" and add: "add_new_gateway svc l st = Some (r, st')"
  shows "inv (as_gateways st') \<and> as_unknown st' = as_unknown st \<and>
    (\<forall>l' g. gs_ByLocalID S (as_gateways st) l' = Inr g \<longrightarrow> gs_ByLocalID S (as_gateways st') l' = Inr g) \<and>
    (\<forall>err. r = Inl err \<longrightarrow> gs_ByLocalID S (as_gateways st') = gs_ByLocalID S (as_gateways st)) \<and>
    (\<forall>g. r = Inr g \<longrightarrow> LocalID g = l \<and> Owner g = None \<and> gs_ByLocalID S (as_gateways st') l = Inr g \<and>
       (\<forall>l'. l' \<noteq> l \<longrightarrow> gs_ByLocalID S (as_gateways st') l' = gs_ByLocalID S (as_gateways st) l'))"
proof -
  obtain gen n where gen: "GenerateNewGateway (av_E svc) (av_rand svc) (as_drawn st) l = Some (gen, n)"
    using add by (auto simp: add_new_gateway_def split: option.splits)
  show ?thesis
  proof (cases gen)
    case (Inl err)
    then show ?thesis using add gen inv by (auto simp: add_new_gateway_def)
  next
    case (Inr gw)
    have l: "LocalID gw = l" using GenerateNewGateway_id gen Inr by blast
    obtain s' where a: "gs_Add S (as_gateways st) (av_add svc l) l (PrivateKey gw) = (r, s')"
      and st': "st' = st\<lparr>as_drawn := n, as_gateways := s'\<rparr>"
      using add gen Inr S l by (auto simp: add_new_gateway_def split: prod.splits)
    have keep: "\<forall>l' g. gs_ByLocalID S (as_gateways st) l' = Inr g \<longrightarrow> gs_ByLocalID S s' l' = Inr g"
      using Add_keeps[OF inv a] by blast
    have frame: "\<forall>l'. l' \<noteq> l \<longrightarrow> gs_ByLocalID S s' l' = gs_ByLocalID S (as_gateways st) l'"
      using Add_frame[OF inv a] by blast
    have err: "\<forall>err. r = Inl err \<longrightarrow> gs_ByLocalID S s' = gs_ByLocalID S (as_gateways st)"
      using Add_error[OF inv] a by blast
    have ok: "\<forall>g. r = Inr g \<longrightarrow> g = NewGateway E l (PrivateKey gw) \<and> gs_ByLocalID S s' l = Inr g"
      using Add_ok[OF inv] a by blast
    then have ok2: "\<forall>g. r = Inr g \<longrightarrow> LocalID g = l \<and> Owner g = None \<and> gs_ByLocalID S s' l = Inr g"
      by (auto simp: NewGateway_def)
    show ?thesis using Add_inv[OF inv a] keep frame err ok2 st' by simp
  qed
qed

text \<open>A reply with a gateway is about the requested one, which is then in the store.\<close>

lemma AddGateway_spec:
  assumes S: "av_gateways svc = S" and inv: "inv (as_gateways st)" and run: "AddGateway svc (Inr l) st = Some (rep, st')"
  shows "inv (as_gateways st') \<and>
    (\<forall>l' g. gs_ByLocalID S (as_gateways st) l' = Inr g \<longrightarrow> gs_ByLocalID S (as_gateways st') l' = Inr g) \<and>
    (case rep of
       HttpReply c b \<Rightarrow> l \<noteq> eui64_zero \<and>
         (\<exists>g. b = BodyGateway g \<and> LocalID g = l \<and> gs_ByLocalID S (as_gateways st') l = Inr g \<and>
            c = (if gs_ByLocalID S (as_gateways st) l = Inr g then 200 else 201))
     | HttpError c msg \<Rightarrow> gs_ByLocalID S (as_gateways st') = gs_ByLocalID S (as_gateways st))"
proof (cases "l = eui64_zero")
  case True
  then show ?thesis using run inv by (auto simp: AddGateway_def)
next
  case False
  show ?thesis
  proof (cases "gs_ByLocalID S (as_gateways st) l")
    case (Inr g)
    then show ?thesis using run inv False S ByLocalID_found(1)[OF inv Inr] by (auto simp: AddGateway_def)
  next
    case (Inl err)
    then have nf: "err = ErrNotFound" using not_found_error[OF inv] by blast
    obtain r st1 where add: "add_new_gateway svc l st = Some (r, st1)"
      using run False Inl nf S by (auto simp: AddGateway_def split: option.splits)
    note spec = add_new_gateway_spec[OF S inv add]
    show ?thesis
    proof (cases r)
      case (Inl e)
      then have "rep = InternalServerError" "st' = st1"
        using run False \<open>gs_ByLocalID S (as_gateways st) l = Inl err\<close> nf S add by (auto simp: AddGateway_def)
      then show ?thesis using spec Inl by simp
    next
      case (Inr g)
      then have "rep = HttpReply 201 (BodyGateway g)" "st' = st1"
        using run False \<open>gs_ByLocalID S (as_gateways st) l = Inl err\<close> nf S add by (auto simp: AddGateway_def)
      then show ?thesis using spec Inr False \<open>gs_ByLocalID S (as_gateways st) l = Inl err\<close> by simp
    qed
  qed
qed

text \<open>The import: when it replies with the onboards, all recorded gateways are in the store and the
  replies are those of the new ones.\<close>

lemma import_loop_spec:
  assumes S: "av_gateways svc = S" and inv: "inv (as_gateways st)"
    and run: "import_loop svc owner push recg c reply st = Some (Ret (HttpReply c' (BodyOnboards rs), st'))"
  shows "inv (as_gateways st') \<and> (\<exists>new. rs = reply @ new \<and> c' = (if new = [] then c else 201) \<and>
    distinct (map or_LocalID new) \<and> or_LocalID ` set new = ug_LocalID ` set recg - stored_ids S (as_gateways st) \<and>
    (\<forall>r \<in> set new. or_Owner r = owner) \<and>
    stored_ids S (as_gateways st') = stored_ids S (as_gateways st) \<union> ug_LocalID ` set recg)"
  using inv run
proof (induction recg arbitrary: c reply st)
  case Nil
  then show ?case by auto
next
  case (Cons rec recg)
  let ?l = "ug_LocalID rec"
  show ?case
  proof (cases "gs_ContainsByLocalID S (as_gateways st) ?l")
    case True
    then have "import_loop svc owner push recg c reply st = Some (Ret (HttpReply c' (BodyOnboards rs), st'))"
      using Cons.prems(2) S by simp
    from Cons.IH[OF Cons.prems(1) this] have
      IH: "inv (as_gateways st')" "\<exists>new. rs = reply @ new \<and> c' = (if new = [] then c else 201) \<and>
        distinct (map or_LocalID new) \<and> or_LocalID ` set new = ug_LocalID ` set recg - stored_ids S (as_gateways st) \<and>
        (\<forall>r \<in> set new. or_Owner r = owner) \<and>
        stored_ids S (as_gateways st') = stored_ids S (as_gateways st) \<union> ug_LocalID ` set recg" by blast+
    have "?l \<in> stored_ids S (as_gateways st)" using True by (simp add: stored_ids_def)
    then have "ug_LocalID ` set (rec # recg) - stored_ids S (as_gateways st) = ug_LocalID ` set recg - stored_ids S (as_gateways st)"
      "stored_ids S (as_gateways st) \<union> ug_LocalID ` set (rec # recg) = stored_ids S (as_gateways st) \<union> ug_LocalID ` set recg"
      by auto
    then show ?thesis using IH by simp
  next
    case False
    obtain gw st1 where add: "add_new_gateway svc ?l st = Some (Inr gw, st1)"
    proof (cases "add_new_gateway svc ?l st")
      case None
      then show thesis using Cons.prems(2) S False by simp
    next
      case (Some x)
      obtain r st1 where x: "x = (r, st1)" by fastforce
      obtain g where "r = Inr g"
        using Cons.prems(2) S False Some x by (cases r) simp_all
      then show thesis using that Some x by blast
    qed
    note spec = add_new_gateway_spec[OF S Cons.prems(1) add]
    obtain r st2 where on: "onboard_gateway svc owner push gw st1 = Ret (Inr r, st2)"
    proof (cases "onboard_gateway svc owner push gw st1")
      case (Ret x)
      obtain r st2 where x: "x = (r, st2)" by fastforce
      obtain r' where "r = Inr r'"
        using Cons.prems(2) S False add Ret x by (cases r) simp_all
      then show thesis using that Ret x by blast
    next
      case Panic
      then show thesis using Cons.prems(2) S False add by simp
    qed
    have st2: "as_gateways st2 = as_gateways st1" "or_LocalID r = ?l" "or_Owner r = owner"
      using onboard_gateway_frame[OF on] spec by auto
    have next2: "import_loop svc owner push recg 201 (reply @ [r]) st2 = Some (Ret (HttpReply c' (BodyOnboards rs), st'))"
      using Cons.prems(2) S False add on by simp
    have stored2: "stored_ids S (as_gateways st2) = insert ?l (stored_ids S (as_gateways st))"
    proof -
      have here: "gs_ByLocalID S (as_gateways st1) ?l = Inr gw"
        and there: "\<And>l'. l' \<noteq> ?l \<Longrightarrow> gs_ByLocalID S (as_gateways st1) l' = gs_ByLocalID S (as_gateways st) l'"
        using spec by blast+
      have "(l \<in> stored_ids S (as_gateways st1)) = (l \<in> insert ?l (stored_ids S (as_gateways st)))" for l
        using here there[of l] by (cases "l = ?l") (simp_all add: ContainsByLocalID_iff stored_ids_def)
      then show ?thesis unfolding st2(1) by (rule set_eqI)
    qed
    have inv2: "inv (as_gateways st2)" using spec st2(1) by simp
    obtain new where new: "rs = (reply @ [r]) @ new" "c' = (if new = [] then 201 else 201)" "distinct (map or_LocalID new)"
      "or_LocalID ` set new = ug_LocalID ` set recg - stored_ids S (as_gateways st2)" "\<forall>r \<in> set new. or_Owner r = owner"
      "stored_ids S (as_gateways st') = stored_ids S (as_gateways st2) \<union> ug_LocalID ` set recg" "inv (as_gateways st')"
      using Cons.IH[OF inv2 next2] by blast
    have "distinct (map or_LocalID (r # new))" using new(3,4) st2(2) stored2 by auto
    moreover have "or_LocalID ` set (r # new) = ug_LocalID ` set (rec # recg) - stored_ids S (as_gateways st)"
      using new(4) st2(2) stored2 False by (auto simp: stored_ids_def)
    ultimately show ?thesis
      using new st2(3) stored2 by (intro conjI exI[of _ "r # new"]) auto
  qed
qed

end

section \<open>A concrete service\<close>

definition api_service_example ::
  "(string \<Rightarrow> onboard_payload \<Rightarrow> nat result) \<Rightarrow>
   (unit yaml_store, unit registry \<times> append_io, yamlUnknownGatewayLogger, int \<times> record_io) APIService" where
  "api_service_example post =
     \<lparr>av_E = eth_example, av_L = lorawan_hex,
      av_gateways = yaml_table eth_example lorawan_hex freq_example yaml_example, av_unknown = yul_table yaml_unknown_example,
      av_chainID = 137, av_batchOnboarderAddress = address_zero, av_earlyAdopterOnboarderAddress = address_zero,
      av_thingsIXOnboardEndpoint = ''https://api/{onboarder}/{owner}'', av_rand = (\<lambda>i. Inr (key_example 4)),
      av_add = (\<lambda>l. (registry_example, AppendOk)), av_post = post\<rparr>"

definition unknown_example :: RecordedUnknownGateway where
  "unknown_example = \<lparr>ug_LocalID = EUI64 0 0 0 0 0 0 0 1, ug_FirstSeen = Some 1\<rparr>"

definition api_state_example :: "(unit yaml_store, yamlUnknownGatewayLogger) api_state" where
  "api_state_example =
     \<lparr>as_gateways = yaml_store_example,
      as_unknown = \<lparr>yul_outputFile = ''unknown.yaml'', yul_recorded = [unknown_example], yul_file = None\<rparr>,
      as_drawn = 0, as_pushed = []\<rparr>"

definition owner_example :: address where
  "owner_example = replicate 20 1"

definition api_gateway_example :: gateway where
  "api_gateway_example = NewGateway eth_example (EUI64 0 0 0 0 0 0 0 1) (key_example 4)"

lemma api_example_add:
  "\<exists>st1. add_new_gateway (api_service_example post) (EUI64 0 0 0 0 0 0 0 1) api_state_example =
     Some (Inr api_gateway_example, st1)"
proof -
  let ?l = "EUI64 0 0 0 0 0 0 0 1"
  obtain s' where "ys_Add eth_example yaml_example AppendOk yaml_store_example ?l (key_example 4) =
      (Inr api_gateway_example, s')"
    using yaml_example_Add[of ?l 4] unfolding api_gateway_example_def by blast
  moreover have "GeneratePrivateKey eth_example (\<lambda>i. Inr (key_example 4)) 0 = Some (Inr (key_example 4), 1)"
    by (simp add: GeneratePrivateKey.simps eth_example_def key_example_def)
  ultimately show ?thesis
    by (simp add: add_new_gateway_def GenerateNewGateway_def api_service_example_def api_state_example_def yaml_table_def)
qed

lemma api_example_contains:
  "\<not> gs_ContainsByLocalID (av_gateways (api_service_example post)) (as_gateways api_state_example) l"
  "gs_ByLocalID (av_gateways (api_service_example post)) (as_gateways api_state_example) l = Inl ErrNotFound"
  by (simp_all add: api_service_example_def api_state_example_def yaml_table_def yaml_store_example_def ys_defs)

section \<open>Properties\<close>

text \<open>
  \<^verbatim>\<open>AddGateway\<close> is idempotent and never loses a gateway.  A reply with a gateway is about the requested local
  id, and the gateway is in the store afterwards; it is 200 with the gateway that was there, or
  201 with a new one; an error reply leaves every lookup as it was.
\<close>

theorem api_AddGateway:
  assumes "av_gateways svc = yaml_table E L F Y" "ys_inv E (as_gateways st)" "AddGateway svc (Inr l) st = Some (rep, st')"
  shows "ys_inv E (as_gateways st') \<and>
    (\<forall>l' g. ys_ByLocalID (as_gateways st) l' = Inr g \<longrightarrow> ys_ByLocalID (as_gateways st') l' = Inr g) \<and>
    (case rep of
       HttpReply c b \<Rightarrow> l \<noteq> eui64_zero \<and>
         (\<exists>g. b = BodyGateway g \<and> LocalID g = l \<and> ys_ByLocalID (as_gateways st') l = Inr g \<and>
            c = (if ys_ByLocalID (as_gateways st) l = Inr g then 200 else 201))
     | HttpError c msg \<Rightarrow> ys_ByLocalID (as_gateways st') = ys_ByLocalID (as_gateways st))"
  using yaml.AddGateway_spec[OF assms] unfolding yaml_lookups by simp

theorem api_AddGateway_witness:
  "\<exists>st'. AddGateway (api_service_example (\<lambda>_ _. Inr 201)) (Inr (EUI64 0 0 0 0 0 0 0 1)) api_state_example =
       Some (HttpReply 201 (BodyGateway api_gateway_example), st') \<and>
     ys_ByLocalID (as_gateways st') (EUI64 0 0 0 0 0 0 0 1) = Inr api_gateway_example"
proof -
  let ?svc = "api_service_example (\<lambda>_ _. Inr 201)" and ?l = "EUI64 0 0 0 0 0 0 0 1"
  obtain st1 where add: "add_new_gateway ?svc ?l api_state_example = Some (Inr api_gateway_example, st1)"
    using api_example_add by blast
  have run: "AddGateway ?svc (Inr ?l) api_state_example = Some (HttpReply 201 (BodyGateway api_gateway_example), st1)"
    using add api_example_contains(2)[of "\<lambda>_ _. Inr 201" ?l] by (simp add: AddGateway_def eui64_zero_def)
  have S: "av_gateways ?svc = yaml_table eth_example lorawan_hex freq_example yaml_example"
    by (simp add: api_service_example_def)
  have "ys_inv eth_example (as_gateways api_state_example)"
    by (simp add: api_state_example_def yaml_store_example_inv)
  from api_AddGateway[OF S this run] show ?thesis using run by auto
qed

text \<open>
  C30: an import takes over all recorded gateways.  When \<^verbatim>\<open>ImportGateways\<close> replies with onboard messages,
  every gateway that was recorded as unknown is in the store, and the reply has exactly one
  message, with the requested owner, for each one that was not in the store before.
\<close>

theorem api_import_complete:
  assumes "av_gateways svc = yaml_table E L F Y" "ys_inv E (as_gateways st)"
    and "ul_Recorded (av_unknown svc) (as_unknown st) = Inr recg"
    and "ImportGateways svc (Inr (owner, push)) st = Some (Ret (HttpReply c (BodyOnboards rs), st'))"
  shows "distinct (map or_LocalID rs) \<and>
    or_LocalID ` set rs = ug_LocalID ` set recg - {l. ys_ContainsByLocalID (as_gateways st) l} \<and>
    (\<forall>r \<in> set rs. or_Owner r = owner) \<and> c = (if rs = [] then 200 else 201) \<and>
    ug_LocalID ` set recg \<subseteq> {l. ys_ContainsByLocalID (as_gateways st') l} \<and> ys_inv E (as_gateways st')"
proof -
  have contains: "gs_ContainsByLocalID (yaml_table E L F Y) = ys_ContainsByLocalID" by (simp add: yaml_table_def)
  have "import_loop svc owner push recg 200 [] st = Some (Ret (HttpReply c (BodyOnboards rs), st'))"
    using assms(3,4) by (auto simp: ImportGateways_def split: if_splits)
  from yaml.import_loop_spec[OF assms(1,2) this] show ?thesis
    by (auto simp: stored_ids_def contains)
qed

lemma api_example_onboard:
  "\<exists>r. onboard_gateway (api_service_example post) owner False gw st = Ret (Inr r, st)"
  "post (onboard_endpoint (api_service_example post) owner address_zero) = (\<lambda>p. Inl err) \<Longrightarrow>
     onboard_gateway (api_service_example post) owner True gw st = Ret (Inl err, st)"
  by (simp_all add: onboard_gateway_def SignPlainBatchOnboardMessage_def api_service_example_def eth_example_def)

theorem api_import_complete_witness:
  "\<exists>r st'. ImportGateways (api_service_example (\<lambda>_ _. Inr 201)) (Inr (owner_example, False)) api_state_example =
       Some (Ret (HttpReply 201 (BodyOnboards [r]), st')) \<and>
     ys_ContainsByLocalID (as_gateways st') (EUI64 0 0 0 0 0 0 0 1)"
proof -
  let ?svc = "api_service_example (\<lambda>_ _. Inr 201)" and ?l = "EUI64 0 0 0 0 0 0 0 1"
  obtain st1 where add: "add_new_gateway ?svc ?l api_state_example = Some (Inr api_gateway_example, st1)"
    using api_example_add by blast
  obtain r where on: "onboard_gateway ?svc owner_example False api_gateway_example st1 = Ret (Inr r, st1)"
    using api_example_onboard(1) by blast
  have rec: "ul_Recorded (av_unknown ?svc) (as_unknown api_state_example) = Inr [unknown_example]"
    by (simp add: api_service_example_def api_state_example_def yul_table_def yul_Recorded_def)
  have run: "ImportGateways ?svc (Inr (owner_example, False)) api_state_example = Some (Ret (HttpReply 201 (BodyOnboards [r]), st1))"
    using add on rec api_example_contains(1)[of "\<lambda>_ _. Inr 201" ?l]
    by (simp add: ImportGateways_def owner_example_def address_zero_def unknown_example_def)
  have S: "av_gateways ?svc = yaml_table eth_example lorawan_hex freq_example yaml_example"
    by (simp add: api_service_example_def)
  have "ys_inv eth_example (as_gateways api_state_example)"
    by (simp add: api_state_example_def yaml_store_example_inv)
  from api_import_complete[OF S this rec run] run show ?thesis by (auto simp: unknown_example_def)
qed

text \<open>
  An import whose push fails is not made up for.  When the ThingsIX service cannot be reached while a
  recorded gateway is imported, the reply is an error but the gateway stays in the store; a
  repeated import, with the service reachable again, then skips the gateway: it replies with no
  onboard message and pushes none.
\<close>

theorem import_push_failure_lost:
  assumes "av_gateways svc = yaml_table E L F Y" "ys_inv E (as_gateways st)"
    and "ul_Recorded (av_unknown svc) (as_unknown st) = Inr [rec]" "owner \<noteq> address_zero"
    and "\<not> ys_ContainsByLocalID (as_gateways st) (ug_LocalID rec)"
    and "add_new_gateway svc (ug_LocalID rec) st = Some (Inr gw, st1)"
    and "onboard_gateway svc owner True gw st1 = Ret (Inl err, st2)"
  shows "ImportGateways svc (Inr (owner, True)) st = Some (Ret (InternalServerError, st2)) \<and>
    ImportGateways (svc\<lparr>av_post := post\<rparr>) (Inr (owner, True)) st2 = Some (Ret (HttpReply 200 (BodyOnboards []), st2))"
proof
  have contains: "gs_ContainsByLocalID (av_gateways svc) = ys_ContainsByLocalID"
    using assms(1) by (simp add: yaml_table_def)
  show "ImportGateways svc (Inr (owner, True)) st = Some (Ret (InternalServerError, st2))"
    using assms(3-7) contains by (simp add: ImportGateways_def)
  note spec = yaml.add_new_gateway_spec[OF assms(1,2,6)]
  have st2: "as_gateways st2 = as_gateways st1" "as_unknown st2 = as_unknown st"
    using onboard_gateway_frame[OF assms(7)] spec by auto
  have "gs_ByLocalID (yaml_table E L F Y) (as_gateways st1) (ug_LocalID rec) = Inr gw" using spec by blast
  then have "ys_ContainsByLocalID (as_gateways st2) (ug_LocalID rec)"
    using yaml.ContainsByLocalID_iff[of E L F Y "as_gateways st1" "ug_LocalID rec"] st2(1) contains assms(1)
    by simp
  then show "ImportGateways (svc\<lparr>av_post := post\<rparr>) (Inr (owner, True)) st2 = Some (Ret (HttpReply 200 (BodyOnboards []), st2))"
    using assms(3,4) st2(2) contains by (simp add: ImportGateways_def)
qed

theorem import_push_failure_lost_witness:
  "\<exists>st2. ImportGateways (api_service_example (\<lambda>_ _. Inl (Errorf ''refused''))) (Inr (owner_example, True)) api_state_example =
       Some (Ret (InternalServerError, st2)) \<and>
     ImportGateways (api_service_example (\<lambda>_ _. Inr 201)) (Inr (owner_example, True)) st2 =
       Some (Ret (HttpReply 200 (BodyOnboards []), st2))"
proof -
  let ?svc = "api_service_example (\<lambda>_ _. Inl (Errorf ''refused''))"
  obtain st1 where add: "add_new_gateway ?svc (EUI64 0 0 0 0 0 0 0 1) api_state_example = Some (Inr api_gateway_example, st1)"
    using api_example_add by blast
  have on: "onboard_gateway ?svc owner_example True api_gateway_example st1 = Ret (Inl (Errorf ''refused''), st1)"
    using api_example_onboard(2)[of "\<lambda>_ _. Inl (Errorf ''refused'')" owner_example "Errorf ''refused''"] by simp
  have S: "av_gateways ?svc = yaml_table eth_example lorawan_hex freq_example yaml_example"
    by (simp add: api_service_example_def)
  have inv: "ys_inv eth_example (as_gateways api_state_example)"
    by (simp add: api_state_example_def yaml_store_example_inv)
  have rec: "ul_Recorded (av_unknown ?svc) (as_unknown api_state_example) = Inr [unknown_example]"
    by (simp add: api_service_example_def api_state_example_def yul_table_def yul_Recorded_def)
  have own: "owner_example \<noteq> address_zero" by (simp add: owner_example_def address_zero_def)
  have new: "\<not> ys_ContainsByLocalID (as_gateways api_state_example) (ug_LocalID unknown_example)"
    by (simp add: api_state_example_def yaml_store_example_def ys_defs)
  have add': "add_new_gateway ?svc (ug_LocalID unknown_example) api_state_example = Some (Inr api_gateway_example, st1)"
    using add by (simp add: unknown_example_def)
  have svc: "?svc\<lparr>av_post := \<lambda>_ _. Inr 201\<rparr> = api_service_example (\<lambda>_ _. Inr 201)"
    by (simp add: api_service_example_def)
  from import_push_failure_lost[OF S inv rec own new add' on, of "\<lambda>_ _. Inr 201"] show ?thesis
    unfolding svc by blast
qed

text \<open>
  The list of gateways is complete: each gateway of the store is listed exactly once, among the pending
  ones if it has no owner and among the onboarded ones if it has, both sorted by local id.
\<close>

theorem api_ListGateways:
  assumes "av_gateways svc = yaml_table E L F Y" "ys_inv E (as_gateways st)"
    and "distinct order" "set order = dom (ys_byLocalId (as_gateways st))"
  shows "\<exists>pending onboarded. ListGateways svc order st = HttpReply 200 (BodyGateways pending onboarded) \<and>
    set pending = {g. (\<exists>l. ys_ByLocalID (as_gateways st) l = Inr g) \<and> Owner g = None} \<and>
    set onboarded = {g. (\<exists>l. ys_ByLocalID (as_gateways st) l = Inr g) \<and> Owner g \<noteq> None} \<and>
    distinct (map LocalID (pending @ onboarded)) \<and>
    sorted (map (\<lambda>g. eui_bytes (LocalID g)) pending) \<and> sorted (map (\<lambda>g. eui_bytes (LocalID g)) onboarded)"
proof -
  let ?m = "ys_byLocalId (as_gateways st)"
  define gws where "gws = range_order ?m order"
  let ?k = "\<lambda>g. eui_bytes (LocalID g)"
  let ?p = "sort_key ?k (filter (\<lambda>g. \<not> Onboarded g) gws)" and ?o = "sort_key ?k (filter Onboarded gws)"
  have list: "ListGateways svc order st = HttpReply 200 (BodyGateways ?p ?o)"
    using assms(1) by (simp add: ListGateways_def yaml_table_def ys_Range_def gws_def Let_def)
  have set: "set gws = {g. \<exists>l. ys_ByLocalID (as_gateways st) l = Inr g}"
    using assms(4) by (auto simp: gws_def set_range_order ys_defs split: option.splits)
  have ids: "map LocalID gws = order"
  proof -
    have id: "LocalID g = l" if "?m l = Some g" for l g
      using assms(2) that by (auto simp: ys_inv_def index_inv_def)
    have "set ord \<subseteq> dom ?m \<Longrightarrow> map LocalID (range_order ?m ord) = ord" for ord
      by (induction ord) (auto simp: range_order_def List.map_filter_def id)
    then show ?thesis using assms(4) by (simp add: gws_def)
  qed
  have dist: "distinct gws" "inj_on LocalID (set gws)" using assms(3) ids by (metis distinct_map)+
  then have "distinct (map LocalID (?p @ ?o))"
    by (auto simp: distinct_map distinct_filter intro: inj_on_subset dest: inj_onD)
  then show ?thesis using list set by (auto simp: Onboarded_def)
qed

theorem api_ListGateways_witness:
  "\<exists>st' pending onboarded. ListGateways (api_service_example (\<lambda>_ _. Inr 201)) [EUI64 0 0 0 0 0 0 0 1] st' =
       HttpReply 200 (BodyGateways pending onboarded) \<and> set pending = {api_gateway_example} \<and> onboarded = []"
proof -
  let ?svc = "api_service_example (\<lambda>_ _. Inr 201)" and ?l = "EUI64 0 0 0 0 0 0 0 1"
  obtain s where add: "ys_Add eth_example yaml_example AppendOk yaml_store_example ?l (key_example 4) = (Inr api_gateway_example, s)"
    using yaml_example_Add[of ?l 4] unfolding api_gateway_example_def by blast
  let ?st = "api_state_example\<lparr>as_gateways := s\<rparr>"
  have S: "av_gateways ?svc = yaml_table eth_example lorawan_hex freq_example yaml_example"
    by (simp add: api_service_example_def)
  have inv: "ys_inv eth_example (as_gateways ?st)" using ys_Add_inv[OF yaml_store_example_inv(1) add] by simp
  have by_id: "ys_byLocalId s = [?l \<mapsto> api_gateway_example]"
    using add by (cases rule: ys_Add_cases) (auto simp: ys_append_def yaml_store_example_def api_gateway_example_def)
  then have dom: "set [?l] = dom (ys_byLocalId (as_gateways ?st))" by simp
  have look: "ys_ByLocalID s l = (if l = ?l then Inr api_gateway_example else Inl ErrNotFound)" for l
    using by_id by (simp add: ys_defs)
  have own: "Owner api_gateway_example = None" by (simp add: api_gateway_example_def NewGateway_def)
  obtain p o' where po: "ListGateways ?svc [?l] ?st = HttpReply 200 (BodyGateways p o')"
    "set p = {g. (\<exists>l. ys_ByLocalID s l = Inr g) \<and> Owner g = None}"
    "set o' = {g. (\<exists>l. ys_ByLocalID s l = Inr g) \<and> Owner g \<noteq> None}"
    using api_ListGateways[OF S inv _ dom] by auto
  have "set p = {api_gateway_example}" "set o' = {}" using po(2,3) look own by (auto split: if_splits)
  then show ?thesis using po(1) by (intro exI[of _ ?st]) auto
qed

end
