(* ===== verification/Backend_Config.thy ===== *)
theory Backend_Config
  imports Gateway
begin

text \<open>
  The gateway backend of the forwarder, \<^verbatim>\<open>forwarder/backend.go\<close>: which ChirpStack backend is built for a
  configuration and with which settings.  For basic stations the settings include the channel plan of
  the region: the frequency range the station may use and the channels of its concentrator.  The
  regional channel plans are a parameter, the band interface of the LoRaWAN package.
\<close>

section \<open>Configuration\<close>

record ForwarderBackendSemtechUDPConfig =
  su_UDPBind :: "string option"
  su_FakeRxTime :: "bool option"

record BasicStationBackendConfig =
  bs_Bind :: "string option"
  bs_TLSCert :: "string option"
  bs_TLSKey :: "string option"
  bs_CACert :: "string option"
  bs_StatsInterval :: "duration option"
  bs_PingInterval :: "duration option"
  bs_TimesyncInterval :: "duration option"
  bs_ReadTimeout :: "duration option"
  bs_WriteTimeout :: "duration option"
  bs_Region :: string

record ForwarderBackendConfig =
  be_SemtechUDP :: "ForwarderBackendSemtechUDPConfig option"
  be_BasicStation :: "BasicStationBackendConfig option"
  be_Concentratord :: "unit option"

text \<open>The settings of the ChirpStack gateway bridge that the forwarder fills in.\<close>

record BasicStationConcentrator =
  cn_MultiSF :: "u32 list"
  cn_LoRaSTD_Frequency :: u32
  cn_LoRaSTD_Bandwidth :: u32
  cn_LoRaSTD_SpreadingFactor :: u32
  cn_FSK_Frequency :: u32

record chirp_semtech =
  cu_UDPBind :: string
  cu_FakeRxTime :: bool
  cu_SkipCRCCheck :: bool

record chirp_station =
  cs_Bind :: string
  cs_TLSCert :: string
  cs_TLSKey :: string
  cs_CACert :: string
  cs_StatsInterval :: duration
  cs_PingInterval :: duration
  cs_TimesyncInterval :: duration
  cs_ReadTimeout :: duration
  cs_WriteTimeout :: duration
  cs_Region :: string
  cs_FrequencyMin :: u32
  cs_FrequencyMax :: u32
  cs_Concentrators :: "BasicStationConcentrator list"

definition concentrator_zero :: BasicStationConcentrator where
  "concentrator_zero = \<lparr>cn_MultiSF = [], cn_LoRaSTD_Frequency = 0, cn_LoRaSTD_Bandwidth = 0,
     cn_LoRaSTD_SpreadingFactor = 0, cn_FSK_Frequency = 0\<rparr>"

section \<open>Channel plans\<close>

datatype band_modulation = LoRaModulation | FSKModulation | LRFHSSModulation

text \<open>A data rate; \<open>dr_rest\<close> stands for the fields the sources only compare or leave at zero.\<close>

record data_rate =
  dr_Modulation :: band_modulation
  dr_SpreadFactor :: int
  dr_Bandwidth :: int
  dr_BitRate :: int
  dr_rest :: nat

record band_channel =
  ch_Frequency :: u32
  ch_MinDR :: int
  ch_MaxDR :: int

record band =
  bd_Name :: string
  bd_EnabledUplinkChannelIndices :: "int list"
  bd_GetUplinkChannel :: "int \<Rightarrow> band_channel result"
  bd_GetDownlinkChannel :: "int \<Rightarrow> band_channel result"
  bd_GetRX1ChannelIndex :: "int \<Rightarrow> int result"
  bd_GetDataRate :: "int \<Rightarrow> data_rate result"
  bd_RX2Frequency :: u32
  bd_GetDataRateIndex :: "bool \<Rightarrow> data_rate \<Rightarrow> int result"

text \<open>An error of the channel plan is fatal.\<close>

definition must :: "'a result \<Rightarrow> 'a go" where
  "must r = (case r of Inl err \<Rightarrow> Panic | Inr a \<Rightarrow> Ret a)"

section \<open>Loading the region\<close>

text \<open>The loop that goes down from an LR-FHSS data rate to the next LoRa one: it ends at a LoRa data rate or
  after data rate 1, with the last one read.\<close>

fun lora_dr_loop :: "band \<Rightarrow> nat \<Rightarrow> data_rate \<Rightarrow> data_rate go" where
  "lora_dr_loop b 0 maxDr = Ret maxDr"
| "lora_dr_loop b (Suc dr) maxDr =
     go_bind (must (bd_GetDataRate b (int (Suc dr)))) (\<lambda>maxDr.
       if dr_Modulation maxDr = LoRaModulation then Ret maxDr else lora_dr_loop b dr maxDr)"

definition channel_max_dr :: "band \<Rightarrow> band_channel \<Rightarrow> data_rate go" where
  "channel_max_dr b channel =
     go_bind (must (bd_GetDataRate b (ch_MaxDR channel))) (\<lambda>maxDr.
       if dr_Modulation maxDr = LRFHSSModulation then lora_dr_loop b (nat (ch_MaxDR channel)) maxDr else Ret maxDr)"

definition widen :: "u32 \<Rightarrow> chirp_station \<Rightarrow> chirp_station" where
  "widen freq cfg =
     (let cfg = (if freq < cs_FrequencyMin cfg then cfg\<lparr>cs_FrequencyMin := freq\<rparr> else cfg)
      in if freq > cs_FrequencyMax cfg then cfg\<lparr>cs_FrequencyMax := freq\<rparr> else cfg)"

definition add_channel ::
  "data_rate \<Rightarrow> data_rate \<Rightarrow> u32 \<Rightarrow> BasicStationConcentrator \<Rightarrow> BasicStationConcentrator" where
  "add_channel minDr maxDr freq c =
     (if minDr \<noteq> maxDr then c\<lparr>cn_MultiSF := cn_MultiSF c @ [freq]\<rparr>
      else if dr_Modulation minDr = LoRaModulation
      then c\<lparr>cn_LoRaSTD_Bandwidth := word_of_int (dr_Bandwidth minDr), cn_LoRaSTD_Frequency := freq,
             cn_LoRaSTD_SpreadingFactor := word_of_int (dr_SpreadFactor minDr)\<rparr>
      else if dr_Modulation minDr = FSKModulation then c\<lparr>cn_FSK_Frequency := freq\<rparr>
      else c)"

fun uplink_channel_loop ::
  "band \<Rightarrow> int list \<Rightarrow> BasicStationConcentrator \<Rightarrow> chirp_station \<Rightarrow> (BasicStationConcentrator \<times> chirp_station) go" where
  "uplink_channel_loop b [] c cfg = Ret (c, cfg)"
| "uplink_channel_loop b (i # is) c cfg =
     go_bind (must (bd_GetUplinkChannel b i)) (\<lambda>channel.
     go_bind (must (bd_GetDataRate b (ch_MinDR channel))) (\<lambda>minDr.
     go_bind (channel_max_dr b channel) (\<lambda>maxDr.
       uplink_channel_loop b is (add_channel minDr maxDr (ch_Frequency channel) c) (widen (ch_Frequency channel) cfg))))"

definition loadBasicStationRegionConfigUplink :: "band \<Rightarrow> chirp_station \<Rightarrow> chirp_station go" where
  "loadBasicStationRegionConfigUplink b cfg =
     go_bind (uplink_channel_loop b (bd_EnabledUplinkChannelIndices b) concentrator_zero
                (cfg\<lparr>cs_FrequencyMin := - 1, cs_FrequencyMax := 0\<rparr>)) (\<lambda>(c, cfg).
       Ret (cfg\<lparr>cs_Concentrators := cs_Concentrators cfg @ [c]\<rparr>))"

fun downlink_channel_loop :: "band \<Rightarrow> int list \<Rightarrow> int list \<Rightarrow> chirp_station \<Rightarrow> chirp_station go" where
  "downlink_channel_loop b [] reportedIndexes cfg = Ret cfg"
| "downlink_channel_loop b (i # is) reportedIndexes cfg =
     go_bind (must (bd_GetRX1ChannelIndex b i)) (\<lambda>rx1.
       if rx1 \<in> set reportedIndexes then downlink_channel_loop b is reportedIndexes cfg
       else go_bind (must (bd_GetDownlinkChannel b rx1)) (\<lambda>channel.
            go_bind (channel_max_dr b channel) (\<lambda>maxDr.
              downlink_channel_loop b is (reportedIndexes @ [rx1]) (widen (ch_Frequency channel) cfg))))"

definition loadBasicStationRegionConfigDownlink :: "band \<Rightarrow> chirp_station \<Rightarrow> chirp_station go" where
  "loadBasicStationRegionConfigDownlink b cfg =
     go_bind (downlink_channel_loop b (bd_EnabledUplinkChannelIndices b) [] cfg) (\<lambda>cfg.
       Ret (widen (bd_RX2Frequency b) cfg))"

section \<open>Building the backend\<close>

datatype backend = SemtechUDP chirp_semtech | BasicStation chirp_station

text \<open>What the constructors of the two backends answer: opening the sockets and reading the certificates.\<close>

record backend_lib =
  bl_GetBand :: "string \<Rightarrow> band result"
  bl_ToUpper :: "string \<Rightarrow> string"
  bl_NewSemtech :: "chirp_semtech \<Rightarrow> go_error option"
  bl_NewStation :: "chirp_station \<Rightarrow> go_error option"

definition buildSemtechUDPBackend :: "backend_lib \<Rightarrow> ForwarderBackendConfig \<Rightarrow> backend result go" where
  "buildSemtechUDPBackend BL cfg =
     go_bind (deref (be_SemtechUDP cfg)) (\<lambda>su.
       let udpBind = (case su_UDPBind su of None \<Rightarrow> ''0.0.0.0:1680'' | Some b \<Rightarrow> b);
           fakeRxTime = (case su_FakeRxTime su of None \<Rightarrow> False | Some f \<Rightarrow> f);
           chirpCfg = \<lparr>cu_UDPBind = udpBind, cu_FakeRxTime = fakeRxTime, cu_SkipCRCCheck = False\<rparr>
       in case bl_NewSemtech BL chirpCfg of
            Some err \<Rightarrow> Ret (Inl (Errorf ''unable to instantiate semtech backend''))
          | None \<Rightarrow> Ret (Inr (SemtechUDP chirpCfg)))"

definition station_config :: "band \<Rightarrow> BasicStationBackendConfig \<Rightarrow> chirp_station go" where
  "station_config b bs =
     go_bind (deref (bs_CACert bs)) (\<lambda>ca. go_bind (deref (bs_TLSCert bs)) (\<lambda>cert.
     go_bind (deref (bs_TLSKey bs)) (\<lambda>key. go_bind (deref (bs_StatsInterval bs)) (\<lambda>stats.
     go_bind (deref (bs_PingInterval bs)) (\<lambda>ping. go_bind (deref (bs_TimesyncInterval bs)) (\<lambda>timesync.
     go_bind (deref (bs_ReadTimeout bs)) (\<lambda>rd. go_bind (deref (bs_WriteTimeout bs)) (\<lambda>wr.
       Ret \<lparr>cs_Bind = [], cs_TLSCert = cert, cs_TLSKey = key, cs_CACert = ca, cs_StatsInterval = stats,
            cs_PingInterval = ping, cs_TimesyncInterval = timesync, cs_ReadTimeout = rd, cs_WriteTimeout = wr,
            cs_Region = bd_Name b, cs_FrequencyMin = 0, cs_FrequencyMax = 0, cs_Concentrators = []\<rparr>))))))))"

definition buildBasicStationBackend :: "backend_lib \<Rightarrow> ForwarderBackendConfig \<Rightarrow> backend result go" where
  "buildBasicStationBackend BL cfg =
     go_bind (deref (be_BasicStation cfg)) (\<lambda>bs.
       case bl_GetBand BL (bl_ToUpper BL (bs_Region bs)) of
         Inl err \<Rightarrow> Ret (Inl (Errorf ''unsupported region''))
       | Inr b \<Rightarrow>
           go_bind (station_config b bs) (\<lambda>chirpCfg.
           go_bind (loadBasicStationRegionConfigUplink b chirpCfg) (\<lambda>chirpCfg.
           go_bind (loadBasicStationRegionConfigDownlink b chirpCfg) (\<lambda>chirpCfg.
             case bl_NewStation BL chirpCfg of
               Some err \<Rightarrow> Ret (Inl (Errorf ''unable to instantiate basic station backend''))
             | None \<Rightarrow> Ret (Inr (BasicStation chirpCfg))))))"

definition buildBackend :: "backend_lib \<Rightarrow> ForwarderBackendConfig \<Rightarrow> backend result go" where
  "buildBackend BL cfg =
     (if (case be_BasicStation cfg of None \<Rightarrow> False | Some bs \<Rightarrow> bs_Region bs \<noteq> []) then buildBasicStationBackend BL cfg
      else if be_SemtechUDP cfg \<noteq> None then buildSemtechUDPBackend BL cfg
      else if be_Concentratord cfg \<noteq> None then Ret (Inl (Errorf ''backend concentratord not supported''))
      else Ret (Inl (Errorf ''invalid backend configuration'')))"

section \<open>The range and the channels of a region\<close>

text \<open>The frequencies a station listens on, those it answers on, and the uplink channels with
  several data rates.\<close>

definition result_list :: "('a \<Rightarrow> 'b) \<Rightarrow> 'a result \<Rightarrow> 'b list" where
  "result_list f r = (case r of Inl err \<Rightarrow> [] | Inr a \<Rightarrow> [f a])"

definition uplink_frequencies :: "band \<Rightarrow> int list \<Rightarrow> u32 list" where
  "uplink_frequencies b is = concat (map (\<lambda>i. result_list ch_Frequency (bd_GetUplinkChannel b i)) is)"

definition downlink_frequencies :: "band \<Rightarrow> int list \<Rightarrow> u32 list" where
  "downlink_frequencies b is =
     concat (map (\<lambda>i. case bd_GetRX1ChannelIndex b i of Inl err \<Rightarrow> []
        | Inr rx1 \<Rightarrow> result_list ch_Frequency (bd_GetDownlinkChannel b rx1)) is)"

definition several_rates :: "band \<Rightarrow> band_channel \<Rightarrow> bool" where
  "several_rates b channel \<longleftrightarrow>
     (case channel_max_dr b channel of Panic \<Rightarrow> False | Ret maxDr \<Rightarrow> bd_GetDataRate b (ch_MinDR channel) \<noteq> Inr maxDr)"

definition multi_frequencies :: "band \<Rightarrow> int list \<Rightarrow> u32 list" where
  "multi_frequencies b is =
     concat (map (\<lambda>i. case bd_GetUplinkChannel b i of Inl err \<Rightarrow> []
        | Inr channel \<Rightarrow> if several_rates b channel then [ch_Frequency channel] else []) is)"

lemma must_eq_Ret [simp]: "must r = Ret a \<longleftrightarrow> r = Inr a"
  by (simp add: must_def split: sum.split)

lemma widen_sel [simp]:
  "cs_FrequencyMin (widen f cfg) = min f (cs_FrequencyMin cfg)"
  "cs_FrequencyMax (widen f cfg) = max f (cs_FrequencyMax cfg)"
  "cs_Concentrators (widen f cfg) = cs_Concentrators cfg" "cs_Bind (widen f cfg) = cs_Bind cfg"
  by (auto simp: widen_def Let_def min_def max_def)

lemma uplink_channel_loop_frequencies:
  assumes "uplink_channel_loop b is c cfg = Ret (c', cfg')"
  shows "cs_FrequencyMin cfg' = fold min (uplink_frequencies b is) (cs_FrequencyMin cfg)"
    "cs_FrequencyMax cfg' = fold max (uplink_frequencies b is) (cs_FrequencyMax cfg)"
    "cs_Concentrators cfg' = cs_Concentrators cfg" "cs_Bind cfg' = cs_Bind cfg"
  using assms
  by (induction b "is" c cfg rule: uplink_channel_loop.induct)
    (auto simp: uplink_frequencies_def result_list_def go_bind_eq_Ret)

lemma uplink_channel_loop_multi:
  "uplink_channel_loop b is c cfg = Ret (c', cfg') \<Longrightarrow> cn_MultiSF c' = cn_MultiSF c @ multi_frequencies b is"
  by (induction b "is" c cfg rule: uplink_channel_loop.induct)
    (auto simp: multi_frequencies_def several_rates_def add_channel_def go_bind_eq_Ret)

text \<open>A downlink channel that was seen before lies in the range already.\<close>

lemma downlink_channel_loop_frequencies:
  assumes "downlink_channel_loop b is seen cfg = Ret cfg'"
    and "\<And>r channel. r \<in> set seen \<Longrightarrow> bd_GetDownlinkChannel b r = Inr channel \<Longrightarrow>
      cs_FrequencyMin cfg \<le> ch_Frequency channel \<and> ch_Frequency channel \<le> cs_FrequencyMax cfg"
  shows "cs_FrequencyMin cfg' = fold min (downlink_frequencies b is) (cs_FrequencyMin cfg) \<and>
    cs_FrequencyMax cfg' = fold max (downlink_frequencies b is) (cs_FrequencyMax cfg) \<and>
    cs_Concentrators cfg' = cs_Concentrators cfg \<and> cs_Bind cfg' = cs_Bind cfg"
  using assms
proof (induction b "is" seen cfg rule: downlink_channel_loop.induct)
  case (2 b i "is" seen cfg)
  from "2.prems"(1) obtain rx1 where rx1: "bd_GetRX1ChannelIndex b i = Inr rx1" by (auto simp: go_bind_eq_Ret)
  show ?case
  proof (cases "rx1 \<in> set seen")
    case True
    have here: "result_list ch_Frequency (bd_GetDownlinkChannel b rx1) = [] \<or>
      (\<exists>f. result_list ch_Frequency (bd_GetDownlinkChannel b rx1) = [f] \<and> cs_FrequencyMin cfg \<le> f \<and> f \<le> cs_FrequencyMax cfg)"
      using "2.prems"(2)[OF True] by (auto simp: result_list_def split: sum.split)
    have "downlink_channel_loop b is seen cfg = Ret cfg'" using "2.prems"(1) rx1 True by (simp add: go_bind_eq_Ret)
    from "2.IH"(1)[OF True this "2.prems"(2)] here show ?thesis
      using rx1 by (auto simp: downlink_frequencies_def min_absorb2 max_absorb2)
  next
    case False
    then obtain channel maxDr where ch: "bd_GetDownlinkChannel b rx1 = Inr channel" "channel_max_dr b channel = Ret maxDr"
      "downlink_channel_loop b is (seen @ [rx1]) (widen (ch_Frequency channel) cfg) = Ret cfg'"
      using "2.prems"(1) rx1 by (auto simp: go_bind_eq_Ret)
    have "cs_FrequencyMin (widen (ch_Frequency channel) cfg) \<le> ch_Frequency k \<and>
      ch_Frequency k \<le> cs_FrequencyMax (widen (ch_Frequency channel) cfg)"
      if "r \<in> set (seen @ [rx1])" "bd_GetDownlinkChannel b r = Inr k" for r k
      using "2.prems"(2)[of r k] that ch(1) by (auto simp: min_le_iff_disj le_max_iff_disj)
    from "2.IH"(2)[OF False ch(3) this] show ?thesis
      using rx1 ch by (simp add: downlink_frequencies_def result_list_def)
  qed
qed (simp add: downlink_frequencies_def)

lemma fold_min_set: "fold min fs (m :: 'a :: linorder) = Min (insert m (set fs))"
  using Min.set_eq_fold[of m fs] by simp

lemma fold_max_set: "fold max fs (m :: 'a :: linorder) = Max (insert m (set fs))"
  using Max.set_eq_fold[of m fs] by simp

definition station_frequencies :: "band \<Rightarrow> u32 set" where
  "station_frequencies b =
     set (uplink_frequencies b (bd_EnabledUplinkChannelIndices b)) \<union>
     set (downlink_frequencies b (bd_EnabledUplinkChannelIndices b)) \<union> {bd_RX2Frequency b}"

text \<open>The range of the two loads is the range of all frequencies.\<close>

lemma region_range:
  assumes "loadBasicStationRegionConfigUplink b cfg = Ret cfg1" "loadBasicStationRegionConfigDownlink b cfg1 = Ret cfg2"
  shows "cs_FrequencyMin cfg2 = Min (station_frequencies b) \<and> cs_FrequencyMax cfg2 = Max (station_frequencies b) \<and>
    (\<exists>c. cs_Concentrators cfg2 = cs_Concentrators cfg @ [c] \<and>
       cn_MultiSF c = multi_frequencies b (bd_EnabledUplinkChannelIndices b)) \<and>
    cs_Bind cfg2 = cs_Bind cfg"
proof -
  let ?is = "bd_EnabledUplinkChannelIndices b"
  obtain c cfg0 where up: "uplink_channel_loop b ?is concentrator_zero (cfg\<lparr>cs_FrequencyMin := - 1, cs_FrequencyMax := 0\<rparr>) =
      Ret (c, cfg0)" "cfg1 = cfg0\<lparr>cs_Concentrators := cs_Concentrators cfg0 @ [c]\<rparr>"
    using assms(1) by (auto simp: loadBasicStationRegionConfigUplink_def go_bind_eq_Ret)
  note range1 = uplink_channel_loop_frequencies[OF up(1), simplified]
  obtain cfg' where down: "downlink_channel_loop b ?is [] cfg1 = Ret cfg'" "cfg2 = widen (bd_RX2Frequency b) cfg'"
    using assms(2) by (auto simp: loadBasicStationRegionConfigDownlink_def go_bind_eq_Ret)
  note range2 = downlink_channel_loop_frequencies[OF down(1), simplified]
  let ?fs = "uplink_frequencies b ?is @ downlink_frequencies b ?is @ [bd_RX2Frequency b]"
  have F: "station_frequencies b = set ?fs" by (auto simp: station_frequencies_def)
  have "cs_FrequencyMin cfg2 = fold min ?fs (- 1)" "cs_FrequencyMax cfg2 = fold max ?fs 0"
    using range1 range2 up(2) down(2) by simp_all
  then have "cs_FrequencyMin cfg2 = Min (insert (- 1) (set ?fs))" "cs_FrequencyMax cfg2 = Max (insert 0 (set ?fs))"
    by (simp_all only: fold_min_set fold_max_set)
  moreover have "Min (insert (- 1) (set ?fs)) = Min (set ?fs)" "Max (insert 0 (set ?fs)) = Max (set ?fs)"
    by (simp_all add: min_absorb2 max_absorb2 word_order.extremum)
  ultimately show ?thesis
    using F range1 range2 up(2) down(2) uplink_channel_loop_multi[OF up(1)] by (simp add: concentrator_zero_def)
qed

text \<open>When every lookup of the channel plan succeeds, loading the region does too.\<close>

definition band_total :: "band \<Rightarrow> bool" where
  "band_total b \<longleftrightarrow>
     (\<forall>i \<in> set (bd_EnabledUplinkChannelIndices b). \<exists>up rx1 down.
        bd_GetUplinkChannel b i = Inr up \<and> bd_GetRX1ChannelIndex b i = Inr rx1 \<and> bd_GetDownlinkChannel b rx1 = Inr down \<and>
        (\<forall>dr \<in> {ch_MinDR up, ch_MaxDR up, ch_MaxDR down} \<union> {0..ch_MaxDR up} \<union> {0..ch_MaxDR down}.
           \<exists>d. bd_GetDataRate b dr = Inr d))"

lemma must_eq_Panic [simp]: "must r = Panic \<longleftrightarrow> isl r"
  by (simp add: must_def split: sum.split)

lemma lora_dr_loop_total:
  "\<forall>dr \<in> {1..int n}. \<exists>d. bd_GetDataRate b dr = Inr d \<Longrightarrow> lora_dr_loop b n maxDr \<noteq> Panic"
proof (induction n arbitrary: maxDr)
  case (Suc n)
  obtain d where "bd_GetDataRate b (int (Suc n)) = Inr d" using Suc.prems by force
  then show ?case using Suc by (auto simp: must_def)
qed simp

lemma channel_max_dr_total:
  assumes "\<forall>dr \<in> insert (ch_MaxDR ch) {0..ch_MaxDR ch}. \<exists>d. bd_GetDataRate b dr = Inr d"
  shows "\<exists>d. channel_max_dr b ch = Ret d"
proof -
  obtain d where d: "bd_GetDataRate b (ch_MaxDR ch) = Inr d" using assms by blast
  have "\<forall>dr \<in> {1..int (nat (ch_MaxDR ch))}. \<exists>d. bd_GetDataRate b dr = Inr d"
    using assms by (cases "0 \<le> ch_MaxDR ch") auto
  from lora_dr_loop_total[OF this, of d] d show ?thesis
    by (cases "lora_dr_loop b (nat (ch_MaxDR ch)) d") (auto simp: channel_max_dr_def must_def)
qed

lemma uplink_channel_loop_total:
  assumes "set is \<subseteq> set (bd_EnabledUplinkChannelIndices b)" "band_total b"
  shows "\<exists>c' cfg'. uplink_channel_loop b is c cfg = Ret (c', cfg')"
  using assms(1)
proof (induction "is" arbitrary: c cfg)
  case (Cons i "is")
  then obtain up where up: "bd_GetUplinkChannel b i = Inr up"
    "\<forall>dr \<in> insert (ch_MinDR up) (insert (ch_MaxDR up) {0..ch_MaxDR up}). \<exists>d. bd_GetDataRate b dr = Inr d"
    using assms(2) unfolding band_total_def by fastforce
  from up(2) obtain d where d: "bd_GetDataRate b (ch_MinDR up) = Inr d" by blast
  obtain m where "channel_max_dr b up = Ret m" using channel_max_dr_total[of up b] up(2) by blast
  then show ?case using Cons up(1) d by (simp add: must_def)
qed simp

lemma downlink_channel_loop_total:
  assumes "set is \<subseteq> set (bd_EnabledUplinkChannelIndices b)" "band_total b"
  shows "\<exists>cfg'. downlink_channel_loop b is seen cfg = Ret cfg'"
  using assms(1)
proof (induction "is" arbitrary: seen cfg)
  case (Cons i "is")
  then obtain rx1 down where down: "bd_GetRX1ChannelIndex b i = Inr rx1" "bd_GetDownlinkChannel b rx1 = Inr down"
    "\<forall>dr \<in> insert (ch_MaxDR down) {0..ch_MaxDR down}. \<exists>d. bd_GetDataRate b dr = Inr d"
    using assms(2) unfolding band_total_def by fastforce
  obtain m where "channel_max_dr b down = Ret m" using channel_max_dr_total[OF down(3)] by blast
  then show ?case using Cons down by (simp add: must_def)
qed simp

definition station_complete :: "BasicStationBackendConfig \<Rightarrow> bool" where
  "station_complete bs \<longleftrightarrow> bs_CACert bs \<noteq> None \<and> bs_TLSCert bs \<noteq> None \<and> bs_TLSKey bs \<noteq> None \<and> bs_StatsInterval bs \<noteq> None \<and>
     bs_PingInterval bs \<noteq> None \<and> bs_TimesyncInterval bs \<noteq> None \<and> bs_ReadTimeout bs \<noteq> None \<and> bs_WriteTimeout bs \<noteq> None"

lemma station_config_Panic: "station_config b bs = Panic \<longleftrightarrow> \<not> station_complete bs"
  unfolding station_config_def station_complete_def
  by (cases "bs_CACert bs"; cases "bs_TLSCert bs"; cases "bs_TLSKey bs"; cases "bs_StatsInterval bs";
      cases "bs_PingInterval bs"; cases "bs_TimesyncInterval bs"; cases "bs_ReadTimeout bs"; cases "bs_WriteTimeout bs") simp_all

lemma station_config_empty:
  "station_config b bs = Ret cfg \<Longrightarrow> cs_Bind cfg = [] \<and> cs_Concentrators cfg = []"
  by (auto simp: station_config_def go_bind_eq_Ret)

section \<open>Properties\<close>

text \<open>
  C25: a basic station is given the channel plan of its region.  In the configuration of the backend
  the frequency range is exactly the range of all frequencies the station uses: the enabled uplink
  channels, the channels it answers on in the first window, and the frequency of the second window;
  and its one concentrator listens with all spreading factors on exactly the uplink channels that have
  more than one data rate, in their order.
\<close>

theorem basic_station_region:
  assumes "buildBasicStationBackend BL cfg = Ret (Inr (BasicStation st))" "be_BasicStation cfg = Some bs"
    and "bl_GetBand BL (bl_ToUpper BL (bs_Region bs)) = Inr b"
  shows "cs_FrequencyMin st = Min (station_frequencies b) \<and> cs_FrequencyMax st = Max (station_frequencies b) \<and>
    (\<exists>c. cs_Concentrators st = [c] \<and> cn_MultiSF c = multi_frequencies b (bd_EnabledUplinkChannelIndices b))"
proof -
  obtain c0 c1 where "station_config b bs = Ret c0" "loadBasicStationRegionConfigUplink b c0 = Ret c1"
    "loadBasicStationRegionConfigDownlink b c1 = Ret st"
    using assms by (auto simp: buildBasicStationBackend_def go_bind_eq_Ret split: option.splits)
  with region_range[of b c0 c1 st] station_config_empty[of b bs c0] show ?thesis by auto
qed

text \<open>A region with two LoRa channels and one for FSK.\<close>

definition band_example :: band where
  "band_example =
     (let channel = (\<lambda>i. if i = 0 then Inr \<lparr>ch_Frequency = 868100000, ch_MinDR = 0, ch_MaxDR = 5\<rparr>
                         else if i = 1 then Inr \<lparr>ch_Frequency = 868300000, ch_MinDR = 0, ch_MaxDR = 6\<rparr>
                         else if i = 2 then Inr \<lparr>ch_Frequency = 868800000, ch_MinDR = 7, ch_MaxDR = 7\<rparr>
                         else Inl (Errorf ''invalid channel''))
      in \<lparr>bd_Name = ''EU868'', bd_EnabledUplinkChannelIndices = [0, 1, 2],
          bd_GetUplinkChannel = channel, bd_GetDownlinkChannel = channel, bd_GetRX1ChannelIndex = Inr,
          bd_GetDataRate = (\<lambda>dr. if 0 \<le> dr \<and> dr < 6
             then Inr \<lparr>dr_Modulation = LoRaModulation, dr_SpreadFactor = 12 - dr, dr_Bandwidth = 125, dr_BitRate = 0, dr_rest = 0\<rparr>
             else if dr = 6 then Inr \<lparr>dr_Modulation = LoRaModulation, dr_SpreadFactor = 7, dr_Bandwidth = 250, dr_BitRate = 0, dr_rest = 0\<rparr>
             else if dr = 7 then Inr \<lparr>dr_Modulation = FSKModulation, dr_SpreadFactor = 0, dr_Bandwidth = 0, dr_BitRate = 50000, dr_rest = 0\<rparr>
             else Inl (Errorf ''invalid data-rate'')),
          bd_RX2Frequency = 869525000,
          bd_GetDataRateIndex = (\<lambda>uplink d. if dr_Modulation d = FSKModulation then Inr 7
             else if dr_Bandwidth d = 250 then Inr 6 else Inr (12 - dr_SpreadFactor d))\<rparr>)"

definition backend_lib_example :: backend_lib where
  "backend_lib_example =
     \<lparr>bl_GetBand = (\<lambda>r. if r = ''EU868'' then Inr band_example else Inl (Errorf ''unknown'')), bl_ToUpper = (\<lambda>s. s),
      bl_NewSemtech = (\<lambda>_. None), bl_NewStation = (\<lambda>_. None)\<rparr>"

definition station_cfg_example :: BasicStationBackendConfig where
  "station_cfg_example =
     \<lparr>bs_Bind = Some ''0.0.0.0:8887'', bs_TLSCert = Some [], bs_TLSKey = Some [], bs_CACert = Some [],
      bs_StatsInterval = Some (30 * second), bs_PingInterval = Some minute, bs_TimesyncInterval = Some hour,
      bs_ReadTimeout = Some (65 * second), bs_WriteTimeout = Some second, bs_Region = ''EU868''\<rparr>"

definition backend_cfg_example :: ForwarderBackendConfig where
  "backend_cfg_example = \<lparr>be_SemtechUDP = None, be_BasicStation = Some station_cfg_example, be_Concentratord = None\<rparr>"

lemmas backend_example_defs = band_example_def backend_lib_example_def station_cfg_example_def backend_cfg_example_def

lemma band_example_frequencies:
  "station_frequencies band_example = {868100000, 868300000, 868800000, 869525000}"
  "multi_frequencies band_example [0, 1, 2] = [868100000, 868300000]"
  by (simp_all add: station_frequencies_def uplink_frequencies_def downlink_frequencies_def multi_frequencies_def
      several_rates_def channel_max_dr_def result_list_def band_example_def must_def insert_commute Let_def)

lemma band_example_total: "band_total band_example"
  by (auto simp: band_total_def band_example_def Let_def)

lemma backend_example_build:
  "\<exists>st. buildBasicStationBackend backend_lib_example backend_cfg_example = Ret (Inr (BasicStation st))"
  by (simp add: buildBasicStationBackend_def station_config_def backend_example_defs loadBasicStationRegionConfigUplink_def
      loadBasicStationRegionConfigDownlink_def channel_max_dr_def must_def Let_def)

theorem basic_station_region_witness:
  "\<exists>st. buildBasicStationBackend backend_lib_example backend_cfg_example = Ret (Inr (BasicStation st)) \<and>
     cs_FrequencyMin st = 868100000 \<and> cs_FrequencyMax st = 869525000 \<and>
     (\<exists>c. cs_Concentrators st = [c] \<and> cn_MultiSF c = [868100000, 868300000])"
proof -
  obtain st where st: "buildBasicStationBackend backend_lib_example backend_cfg_example = Ret (Inr (BasicStation st))"
    using backend_example_build by blast
  have bs: "be_BasicStation backend_cfg_example = Some station_cfg_example"
    "bl_GetBand backend_lib_example (bl_ToUpper backend_lib_example (bs_Region station_cfg_example)) = Inr band_example"
    by (simp_all add: backend_cfg_example_def backend_lib_example_def station_cfg_example_def)
  have "bd_EnabledUplinkChannelIndices band_example = [0, 1, 2]" by (simp add: band_example_def Let_def)
  with basic_station_region[OF st bs] st show ?thesis by (simp add: band_example_frequencies)
qed

text \<open>
  What it takes to build a basic station backend.  With a known region whose channel plan is
  complete, the forwarder crashes if one of the eight optional settings is left out; with all of them
  it does not, but whatever address the station is to be bound to, the backend is built without one.
\<close>

theorem basic_station_settings:
  assumes "be_BasicStation cfg = Some bs" "bs_Region bs \<noteq> []"
    and "bl_GetBand BL (bl_ToUpper BL (bs_Region bs)) = Inr b" "band_total b"
  shows "(buildBackend BL cfg = Panic \<longleftrightarrow> \<not> station_complete bs) \<and>
    (\<forall>st. buildBackend BL cfg = Ret (Inr (BasicStation st)) \<longrightarrow> cs_Bind st = [])"
proof (cases "station_config b bs")
  case Panic
  then show ?thesis using assms station_config_Panic[of b bs] by (simp add: buildBackend_def buildBasicStationBackend_def)
next
  case (Ret c0)
  obtain c1 where c1: "loadBasicStationRegionConfigUplink b c0 = Ret c1"
    using uplink_channel_loop_total[OF order_refl assms(4), of concentrator_zero "c0\<lparr>cs_FrequencyMin := - 1, cs_FrequencyMax := 0\<rparr>"]
    by (auto simp: loadBasicStationRegionConfigUplink_def)
  obtain c2 where c2: "loadBasicStationRegionConfigDownlink b c1 = Ret c2"
    using downlink_channel_loop_total[OF order_refl assms(4), of "[]" c1] by (auto simp: loadBasicStationRegionConfigDownlink_def)
  have "cs_Bind c2 = []" using region_range[OF c1 c2] station_config_empty[OF Ret] by simp
  then show ?thesis
    using assms Ret c1 c2 station_config_Panic[of b bs]
    by (simp add: buildBackend_def buildBasicStationBackend_def split: option.split)
qed

theorem basic_station_settings_witness:
  "buildBackend backend_lib_example (backend_cfg_example\<lparr>be_BasicStation := Some (station_cfg_example\<lparr>bs_CACert := None\<rparr>)\<rparr>) = Panic \<and>
   buildBackend backend_lib_example backend_cfg_example \<noteq> Panic"
proof
  have band: "bl_GetBand backend_lib_example (bl_ToUpper backend_lib_example ''EU868'') = Inr band_example"
    by (simp add: backend_lib_example_def)
  show "buildBackend backend_lib_example (backend_cfg_example\<lparr>be_BasicStation := Some (station_cfg_example\<lparr>bs_CACert := None\<rparr>)\<rparr>) = Panic"
    using basic_station_settings[of "backend_cfg_example\<lparr>be_BasicStation := Some (station_cfg_example\<lparr>bs_CACert := None\<rparr>)\<rparr>"
        "station_cfg_example\<lparr>bs_CACert := None\<rparr>" backend_lib_example band_example] band band_example_total
    by (simp add: station_cfg_example_def station_complete_def)
  show "buildBackend backend_lib_example backend_cfg_example \<noteq> Panic"
    using basic_station_settings[of backend_cfg_example station_cfg_example backend_lib_example band_example] band band_example_total
    by (simp add: backend_cfg_example_def station_cfg_example_def station_complete_def)
qed

end
