(* ===== verification/Registry.thy ===== *)
theory Registry
  imports Gateway_Store Messages
begin

text \<open>
  The two clients of the ThingsIX gateway registry, \<^verbatim>\<open>gateway/registry.go\<close>,
  \<^verbatim>\<open>gateway/registry_thingsix_api.go\<close> (HTTP API with a cache of ten minutes) and
  \<^verbatim>\<open>gateway/registry_smart_contract.go\<close> (contract call at a confirmed block).  The HTTP transport, the
  blockchain node and the generated contract binding are parameters; \<^verbatim>\<open>time.Now\<close> is an argument, read
  once per call.
\<close>

section \<open>ThingsIX API\<close>

record api_reply =
  rp_Altitude :: u16
  rp_Version :: u8
  rp_AntennaGain :: rat
  rp_FrequencyPlan :: string
  rp_Location :: string
  rp_Owner :: address

text \<open>How a GET request for the details of a gateway ends; the body of a reply decodes or does not.\<close>

datatype http_answer =
    NewRequestFails go_error
  | RequestFails go_error
  | Response nat "api_reply result"

record cachedData =
  cd_Owner :: address
  cd_Version :: u8
  cd_Details :: "gateway_details option"
  cd_Err :: "go_error option"
  cd_When :: time

record GatewayThingsIXAPI =
  api_Endpoint :: string
  api_cache :: "thingsix_id \<rightharpoonup> cachedData"

definition api_store :: "thingsix_id \<Rightarrow> cachedData \<Rightarrow> GatewayThingsIXAPI \<Rightarrow> GatewayThingsIXAPI" where
  "api_store ident c st = st\<lparr>api_cache := (api_cache st)(ident \<mapsto> c)\<rparr>"

definition cached_error :: "time \<Rightarrow> go_error \<Rightarrow> cachedData" where
  "cached_error now err =
     \<lparr>cd_Owner = address_zero, cd_Version = 0, cd_Details = None, cd_Err = Some err, cd_When = now\<rparr>"

definition cached_answer :: "cachedData \<Rightarrow> (address \<times> u8 \<times> gateway_details option) result" where
  "cached_answer c =
     (case cd_Err c of Some err \<Rightarrow> Inl err | None \<Rightarrow> Inr (cd_Owner c, cd_Version c, cd_Details c))"

text \<open>\<^verbatim>\<open>fmt.Sprintf("%.1f", x)\<close>.\<close>

definition fmt_f1 :: "rat \<Rightarrow> string" where
  "fmt_f1 x =
     (let n = nat (round_half_even (\<bar>x\<bar> * 10))
      in (if x < 0 then ''-'' else []) @ show_nat (n div 10) @ ''.'' @ show_nat (n mod 10))"

definition api_cache_hit ::
  "time \<Rightarrow> GatewayThingsIXAPI \<Rightarrow> thingsix_id \<Rightarrow> bool \<Rightarrow> cachedData option" where
  "api_cache_hit now st gatewayID force =
     (if force then None
      else case api_cache st gatewayID of
             None \<Rightarrow> None
           | Some cached \<Rightarrow> if cd_When cached > now - 10 * minute then Some cached else None)"

definition api_GatewayDetails ::
  "(string \<Rightarrow> http_answer) \<Rightarrow> time \<Rightarrow> GatewayThingsIXAPI \<Rightarrow> thingsix_id \<Rightarrow> bool \<Rightarrow>
   (address \<times> u8 \<times> gateway_details option) result \<times> GatewayThingsIXAPI" where
  "api_GatewayDetails get now st gatewayID force =
     (case api_cache_hit now st gatewayID force of
        Some cached \<Rightarrow> (cached_answer cached, st)
      | None \<Rightarrow>
          (case get (replace1 (api_Endpoint st) ''{id}'' (ThingsIxID_String gatewayID)) of
             NewRequestFails err \<Rightarrow> (Inl err, st)
           | RequestFails err \<Rightarrow> (Inl err, api_store gatewayID (cached_error now err) st)
           | Response status body \<Rightarrow>
               if status = 200 then
                 (case body of
                    Inl err \<Rightarrow>
                      (Inl (Errorf ''invalid API response''), api_store gatewayID (cached_error now err) st)
                  | Inr reply \<Rightarrow>
                      if rp_Owner reply \<noteq> address_zero \<and> rp_AntennaGain reply = 0
                      then (Inr (rp_Owner reply, rp_Version reply, None),
                            api_store gatewayID \<lparr>cd_Owner = rp_Owner reply, cd_Version = rp_Version reply,
                              cd_Details = None, cd_Err = None, cd_When = now\<rparr> st)
                      else
                        let details = \<lparr>gd_AntennaGain = Some (fmt_f1 (rp_AntennaGain reply)),
                                       gd_Band = Some (rp_FrequencyPlan reply),
                                       gd_Location = Some (rp_Location reply),
                                       gd_Altitude = Some (rp_Altitude reply)\<rparr>
                        in (Inr (rp_Owner reply, rp_Version reply, Some details),
                            api_store gatewayID \<lparr>cd_Owner = rp_Owner reply, cd_Version = rp_Version reply,
                              cd_Details = Some details, cd_Err = None, cd_When = now\<rparr> st))
               else if status = 404 then (Inl ErrNotFound, st)
               else (Inl (Errorf ''unable to retrieve gateway details from ThingsIX API''), st)))"

definition buildThingsIXRegistryApiSyncer :: "string \<Rightarrow> GatewayThingsIXAPI" where
  "buildThingsIXRegistryApiSyncer endpoint = \<lparr>api_Endpoint = endpoint, api_cache = Map.empty\<rparr>"

section \<open>Smart contract\<close>

record contract_gateway =
  cg_Version :: u8
  cg_Owner :: address
  cg_AntennaGain :: u8
  cg_FrequencyPlan :: u8
  cg_Location :: int
  cg_Altitude :: u8

text \<open>The node: dialling, binding the contract, the number of the latest block, and the contract's
  answer at a block.\<close>

record chain_node =
  node_Dial :: "string \<Rightarrow> unit result"
  node_Bind :: "address \<Rightarrow> unit result"
  node_Head :: "u64 result"
  node_Gateways :: "u64 \<Rightarrow> thingsix_id \<Rightarrow> contract_gateway result"

record GatewayThingsIXSmartContract =
  sc_Endpoint :: string
  sc_Confirmations :: u64
  sc_Addr :: address

record sc_lib =
  sc_band :: "u8 \<Rightarrow> band_name"
  sc_location :: "int \<Rightarrow> string"

definition sc_details :: "sc_lib \<Rightarrow> contract_gateway \<Rightarrow> gateway_details option" where
  "sc_details C gw =
     (let altitude = (ucast (cg_Altitude gw) :: u16) * 3;
          antennaGain = fmt_f1 (of_nat (unat (cg_AntennaGain gw)) / 10)
      in if cg_AntennaGain gw \<noteq> 0
         then Some \<lparr>gd_AntennaGain = Some antennaGain, gd_Band = Some (sc_band C (cg_FrequencyPlan gw)),
                    gd_Location = Some (sc_location C (cg_Location gw)), gd_Altitude = Some altitude\<rparr>
         else None)"

definition sc_GatewayDetails ::
  "sc_lib \<Rightarrow> chain_node \<Rightarrow> GatewayThingsIXSmartContract \<Rightarrow> thingsix_id \<Rightarrow> bool \<Rightarrow>
   (address \<times> u8 \<times> gateway_details option) result \<times> GatewayThingsIXSmartContract" where
  "sc_GatewayDetails C N st gatewayID force =
     (case node_Dial N (sc_Endpoint st) of
        Inl err \<Rightarrow> (Inl err, st)
      | Inr _ \<Rightarrow>
          (case node_Bind N (sc_Addr st) of
             Inl err \<Rightarrow> (Inl err, st)
           | Inr _ \<Rightarrow>
               (case node_Head N of
                  Inl err \<Rightarrow> (Inl err, st)
                | Inr head \<Rightarrow>
                    if head < sc_Confirmations st
                    then (Inl (Errorf ''chain too short for confirmed blocks''), st)
                    else (case node_Gateways N (head - sc_Confirmations st) gatewayID of
                            Inl err \<Rightarrow> (Inl err, st)
                          | Inr gw \<Rightarrow> (Inr (cg_Owner gw, cg_Version gw, sc_details C gw), st)))))"

record RegistrySyncOnChainConfig =
  oc_Endpoint :: string
  oc_Confirmation :: u64
  oc_ChainID :: u64
  oc_Address :: address

definition buildThingsIXRegistryOnChainSyncer ::
  "(string \<Rightarrow> unit result) \<Rightarrow> RegistrySyncOnChainConfig \<Rightarrow> GatewayThingsIXSmartContract result" where
  "buildThingsIXRegistryOnChainSyncer url_Parse cfg =
     (case url_Parse (oc_Endpoint cfg) of
        Inl _ \<Rightarrow> Inl (Errorf ''invalid RPC endpoint for smart contract integration'')
      | Inr _ \<Rightarrow>
          if oc_Address cfg = address_zero
          then Inl (Errorf ''gateway ThingsIX registry syncer missing registry smart contract address'')
          else Inr \<lparr>sc_Endpoint = oc_Endpoint cfg, sc_Confirmations = oc_Confirmation cfg,
                    sc_Addr = oc_Address cfg\<rparr>)"

section \<open>Choosing the registry\<close>

record RegistrySyncConfig =
  rs_ThingsIxApi_Endpoint :: string
  rs_OnChain :: "RegistrySyncOnChainConfig option"

datatype thingsix_registry =
    OnChainRegistry GatewayThingsIXSmartContract
  | ApiRegistry GatewayThingsIXAPI

definition NewThingsIXGatewayRegistry ::
  "(string \<Rightarrow> unit result) \<Rightarrow> RegistrySyncConfig option \<Rightarrow> thingsix_registry result" where
  "NewThingsIXGatewayRegistry url_Parse cfg =
     (case cfg of
        None \<Rightarrow> Inl ErrGatewayRegistryConfigMissing
      | Some c \<Rightarrow>
          (case rs_OnChain c of
             Some oc \<Rightarrow> map_sum (\<lambda>e. e) OnChainRegistry (buildThingsIXRegistryOnChainSyncer url_Parse oc)
           | None \<Rightarrow>
               if rs_ThingsIxApi_Endpoint c \<noteq> []
               then Inr (ApiRegistry (buildThingsIXRegistryApiSyncer (rs_ThingsIxApi_Endpoint c)))
               else Inl ErrGatewayRegistryConfigMissing))"

text \<open>The method table behind the interface value.\<close>

definition registry_table ::
  "(string \<Rightarrow> http_answer) \<Rightarrow> sc_lib \<Rightarrow> chain_node \<Rightarrow> time \<Rightarrow> thingsix_registry registry" where
  "registry_table get C N now =
     \<lparr>reg_GatewayDetails = (\<lambda>r gatewayID force.
        case r of
          OnChainRegistry st \<Rightarrow> map_prod (\<lambda>a. a) OnChainRegistry (sc_GatewayDetails C N st gatewayID force)
        | ApiRegistry st \<Rightarrow> map_prod (\<lambda>a. a) ApiRegistry (api_GatewayDetails get now st gatewayID force))\<rparr>"

section \<open>Facts\<close>

lemma api_store_cache [simp]: "api_cache (api_store i c st) = (api_cache st)(i \<mapsto> c)"
  by (simp add: api_store_def)

lemma api_Endpoint_store [simp]: "api_Endpoint (api_store i c st) = api_Endpoint st"
  by (simp add: api_store_def)

text \<open>A successful request leaves its answer in the cache.\<close>

lemma api_GatewayDetails_fresh:
  assumes "api_GatewayDetails get now st i force = (Inr a, st')" "api_cache_hit now st i force = None"
  shows "\<exists>c. api_cache st' i = Some c \<and> cached_answer c = Inr a \<and> cd_When c = now"
  using assms
  by (auto simp: api_GatewayDetails_def cached_answer_def Let_def split: http_answer.splits sum.splits if_splits)

lemma api_GatewayDetails_hit:
  "api_cache_hit now st i force = Some c \<Longrightarrow> api_GatewayDetails get now st i force = (cached_answer c, st)"
  by (simp add: api_GatewayDetails_def)

lemma api_GatewayDetails_others:
  "api_GatewayDetails get now st i force = (r, st') \<Longrightarrow> j \<noteq> i \<Longrightarrow> api_cache st' j = api_cache st j"
  by (auto simp: api_GatewayDetails_def Let_def split: option.splits http_answer.splits sum.splits if_splits)

lemma round_half_even_of_int [simp]: "round_half_even (of_int n) = n"
  by (simp add: round_half_even_def)

lemma fmt_f1_tenths: "fmt_f1 (of_nat n / 10) = show_nat (n div 10) @ ''.'' @ show_nat (n mod 10)"
proof -
  have "round_half_even (of_nat n) = int n" using round_half_even_of_int[of "int n"] by simp
  then show ?thesis by (simp add: fmt_f1_def)
qed

lemma unat_altitude: "unat ((ucast b :: u16) * 3) = 3 * unat (b :: u8)"
proof -
  have "unat b < 256" using unsigned_less[of b] by simp
  moreover from this have "unat (ucast b :: u16) = unat b"
    by (simp add: unsigned_ucast_eq take_bit_nat_eq_self)
  ultimately show ?thesis by (simp add: unat_word_ariths)
qed

lemma altitude_eq_iff: "unat (a :: u16) = 3 * unat (b :: u8) \<longleftrightarrow> a = (ucast b :: u16) * 3"
  using unat_altitude[of b] by (metis word_unat_eq_iff)

lemma word_sub_of_nat: "\<not> unat (a :: u64) < unat b \<Longrightarrow> a - b = of_nat (unat a - unat b)"
  by (simp add: of_nat_diff)

lemma sc_details_iff:
  "sc_details C gw = d \<longleftrightarrow>
     (if cg_AntennaGain gw = 0 then d = None
      else \<exists>alt. d = Some \<lparr>gd_AntennaGain = Some (show_nat (unat (cg_AntennaGain gw) div 10) @ ''.'' @
                               show_nat (unat (cg_AntennaGain gw) mod 10)),
             gd_Band = Some (sc_band C (cg_FrequencyPlan gw)),
             gd_Location = Some (sc_location C (cg_Location gw)), gd_Altitude = Some alt\<rparr> \<and>
             unat alt = 3 * unat (cg_Altitude gw))"
  unfolding altitude_eq_iff by (auto simp: sc_details_def fmt_f1_tenths Let_def simp del: of_nat_unat)

section \<open>Properties\<close>

text \<open>
  What the API answered for a gateway is served from the cache for ten minutes and
  no longer.  After a forced request that succeeded at time \<open>t\<close>, an unforced request answers
  the same without using the network, and leaves the cache as it is, exactly while less than ten
  minutes have passed; a forced request, or one after ten minutes, goes to the network.
\<close>

theorem api_cache_ten_minutes:
  assumes "api_GatewayDetails get t st i True = (Inr a, st')"
  shows "(now < t + 10 * minute \<longrightarrow> api_GatewayDetails get' now st' i False = (Inr a, st')) \<and>
         (t + 10 * minute \<le> now \<or> force \<longrightarrow> api_cache_hit now st' i force = None)"
proof -
  have "api_cache_hit t st i True = None" by (simp add: api_cache_hit_def)
  then obtain c where c: "api_cache st' i = Some c" "cached_answer c = Inr a" "cd_When c = t"
    using api_GatewayDetails_fresh[OF assms] by blast
  have "api_GatewayDetails get' now st' i False = (Inr a, st')" if "now < t + 10 * minute"
    using api_GatewayDetails_hit[of now st' i False c get'] c that by (simp add: api_cache_hit_def)
  then show ?thesis using c by (auto simp: api_cache_hit_def)
qed

definition api_example :: GatewayThingsIXAPI where
  "api_example = buildThingsIXRegistryApiSyncer ''https://api/{id}''"

definition get_example :: "string \<Rightarrow> http_answer" where
  "get_example url = Response 200 (Inr \<lparr>rp_Altitude = 12, rp_Version = 1, rp_AntennaGain = 23 / 10,
     rp_FrequencyPlan = ''EU868'', rp_Location = ''8a1969c9b2affff'', rp_Owner = replicate 20 7\<rparr>)"

theorem api_cache_ten_minutes_witness:
  "\<exists>a st'. api_GatewayDetails get_example 0 api_example (replicate 32 1) True = (Inr a, st') \<and>
     api_GatewayDetails (\<lambda>_. RequestFails ErrServiceNotAvailable) minute st' (replicate 32 1) False = (Inr a, st')"
proof -
  obtain a st' where req: "api_GatewayDetails get_example 0 api_example (replicate 32 1) True = (Inr a, st')"
    by (simp add: api_GatewayDetails_def api_cache_hit_def get_example_def Let_def)
  have "(minute :: time) < 0 + 10 * minute" by simp
  then show ?thesis using api_cache_ten_minutes[OF req, of minute] req by blast
qed

text \<open>
  The details that the contract holds for a gateway come out unchanged in their units: the
  altitude is three times the stored byte without wrap-around, the antenna gain is the stored
  number of tenths, and a gateway with gain zero has no details.  The call is made exactly
  \<^verbatim>\<open>Confirmations\<close> blocks below the head, and never when the chain is shorter.
\<close>

theorem sc_GatewayDetails_confirmed:
  "sc_GatewayDetails C N st i force = (Inr (ow, v, d), st') \<longleftrightarrow>
     st' = st \<and> (\<exists>x y head gw. node_Dial N (sc_Endpoint st) = Inr x \<and> node_Bind N (sc_Addr st) = Inr y \<and>
       node_Head N = Inr head \<and> unat (sc_Confirmations st) \<le> unat head \<and>
       node_Gateways N (of_nat (unat head - unat (sc_Confirmations st))) i = Inr gw \<and>
       ow = cg_Owner gw \<and> v = cg_Version gw \<and>
       (if cg_AntennaGain gw = 0 then d = None
        else \<exists>alt. d = Some \<lparr>gd_AntennaGain = Some (show_nat (unat (cg_AntennaGain gw) div 10) @ ''.'' @
                                 show_nat (unat (cg_AntennaGain gw) mod 10)),
               gd_Band = Some (sc_band C (cg_FrequencyPlan gw)),
               gd_Location = Some (sc_location C (cg_Location gw)), gd_Altitude = Some alt\<rparr> \<and>
               unat alt = 3 * unat (cg_Altitude gw)))"
proof -
  let ?g = "\<lambda>head. node_Gateways N (of_nat (unat head - unat (sc_Confirmations st))) i"
  have call: "sc_GatewayDetails C N st i force = (Inr (ow, v, d), st') \<longleftrightarrow>
      unat (sc_Confirmations st) \<le> unat head \<and>
      (\<exists>gw. ?g head = Inr gw \<and> ow = cg_Owner gw \<and> v = cg_Version gw \<and> sc_details C gw = d \<and> st' = st)"
    if "node_Dial N (sc_Endpoint st) = Inr x" "node_Bind N (sc_Addr st) = Inr y" "node_Head N = Inr head"
    for x y head
  proof (cases "head < sc_Confirmations st")
    case True
    then show ?thesis using that by (simp add: sc_GatewayDetails_def word_less_nat_alt)
  next
    case False
    then have le: "unat (sc_Confirmations st) \<le> unat head" by (simp add: word_less_nat_alt)
    have "sc_GatewayDetails C N st i force = (case ?g head of Inl err \<Rightarrow> (Inl err, st)
        | Inr gw \<Rightarrow> (Inr (cg_Owner gw, cg_Version gw, sc_details C gw), st))"
      using that False le by (simp add: sc_GatewayDetails_def word_sub_of_nat[symmetric])
    then show ?thesis using le by (cases "?g head") auto
  qed
  show ?thesis
    unfolding sc_details_iff[symmetric]
  proof (cases "node_Dial N (sc_Endpoint st)"; cases "node_Bind N (sc_Addr st)"; cases "node_Head N")
    fix x y head
    assume n: "node_Dial N (sc_Endpoint st) = Inr x" "node_Bind N (sc_Addr st) = Inr y" "node_Head N = Inr head"
    show "sc_GatewayDetails C N st i force = (Inr (ow, v, d), st') \<longleftrightarrow>
       st' = st \<and> (\<exists>x y head gw. node_Dial N (sc_Endpoint st) = Inr x \<and> node_Bind N (sc_Addr st) = Inr y \<and>
       node_Head N = Inr head \<and> unat (sc_Confirmations st) \<le> unat head \<and> ?g head = Inr gw \<and>
       ow = cg_Owner gw \<and> v = cg_Version gw \<and> sc_details C gw = d)"
      unfolding call[OF n] by (auto simp: n)
  qed (simp_all add: sc_GatewayDetails_def)
qed

end
