(* ===== verification/Forwarder_Config.thy ===== *)
theory Forwarder_Config
  imports Backend_Config Exchange Registry Routes
begin

text \<open>
  Starting a forwarder: its configuration (\<^verbatim>\<open>forwarder/config_type.go\<close>, \<^verbatim>\<open>forwarder/config.go\<close>), the defaults of the
  three ThingsIX networks, the checks at start-up, the gateway store that is opened
  (\<^verbatim>\<open>gateway/store.go\<close>) and the exchange that is put together from the parts
  (\<^verbatim>\<open>forwarder/exchange.go\<close>).  Reading the configuration file and the command line (viper) is a
  parameter.  Setting the log level and format is left out.
\<close>

section \<open>Configuration\<close>

record ForwarderGatewayConfig =
  gc_BatchOnboarder :: address
  gc_EarlyAdopter :: address
  gc_Store :: StoreConfig
  gc_RecordUnknown :: "ForwarderGatewayRecordUnknownConfig option"
  gc_Registry :: RegistrySyncConfig
  gc_HttpAPI :: string
  gc_ThingsIXOnboardEndpoint :: string

record MetricsPrometheusConfig =
  pm_Address :: string
  pm_Path :: string

datatype log_level = PanicLevel | FatalLevel | ErrorLevel | WarnLevel | InfoLevel | DebugLevel | TraceLevel

text \<open>\<^verbatim>\<open>Metrics\<close> and \<^verbatim>\<open>Database\<close> are optional sections with one optional part each.\<close>

record ('a, 'bm) Config =
  cf_Backend :: ForwarderBackendConfig
  cf_Gateways :: ForwarderGatewayConfig
  cf_DefaultRouters :: "('a, 'bm) router list"
  cf_Routers :: routers_config
  cf_Mapping :: "mapping_config option"
  cf_Polygon :: "polygon_config option"
  cf_Log :: "log_level \<times> bool"
  cf_Database :: "db_config option option"
  cf_Metrics :: "MetricsPrometheusConfig option option"

definition PrometheusEnabled :: "('a, 'bm) Config \<Rightarrow> bool" where
  "PrometheusEnabled cfg = (case cf_Metrics cfg of None \<Rightarrow> False | Some p \<Rightarrow> p \<noteq> None)"

definition MetricsPrometheusAddress :: "('a, 'bm) Config \<Rightarrow> string go" where
  "MetricsPrometheusAddress cfg =
     go_bind (deref (cf_Metrics cfg)) (\<lambda>m. go_bind (deref m) (\<lambda>p.
       Ret (if pm_Address p \<noteq> [] then pm_Address p else ''localhost:8080'')))"

definition MetricsPrometheusPath :: "('a, 'bm) Config \<Rightarrow> string go" where
  "MetricsPrometheusPath cfg =
     go_bind (deref (cf_Metrics cfg)) (\<lambda>m. go_bind (deref m) (\<lambda>p.
       Ret (if pm_Path p \<noteq> [] then pm_Path p else ''/metrics'')))"

definition Config_zero :: "('a, 'bm) Config" where
  "Config_zero =
     \<lparr>cf_Backend = \<lparr>be_SemtechUDP = None, be_BasicStation = None, be_Concentratord = None\<rparr>,
      cf_Gateways = \<lparr>gc_BatchOnboarder = address_zero, gc_EarlyAdopter = address_zero,
        gc_Store = \<lparr>sc_RefreshInterval = None, sc_DefaultGatewayFrequencyPlan = [], sc_YamlStorePath = None, sc_Postgresql = None\<rparr>,
        gc_RecordUnknown = None, gc_Registry = \<lparr>rs_ThingsIxApi_Endpoint = [], rs_OnChain = None\<rparr>, gc_HttpAPI = [],
        gc_ThingsIXOnboardEndpoint = []\<rparr>,
      cf_DefaultRouters = [], cf_Routers = \<lparr>cfg_OnChain = None, cfg_ThingsIXApi = None\<rparr>, cf_Mapping = None,
      cf_Polygon = None, cf_Log = (PanicLevel, False), cf_Database = None, cf_Metrics = None\<rparr>"

text \<open>What all three networks share, and what differs between them.\<close>

definition net_common ::
  "freq_lib \<Rightarrow> address \<Rightarrow> address \<Rightarrow> string \<Rightarrow> string \<Rightarrow> string \<Rightarrow> string \<Rightarrow> string \<Rightarrow> u64 \<Rightarrow> ('a, 'bm) Config" where
  "net_common F batch early onboard registry routers mapping endpoint chainID =
     \<lparr>cf_Backend =
        \<lparr>be_SemtechUDP = Some \<lparr>su_UDPBind = Some ''0.0.0.0:1680'', su_FakeRxTime = Some False\<rparr>,
         be_BasicStation = Some
           \<lparr>bs_Bind = Some ''0.0.0.0:8887'',
            bs_TLSCert = Some ''/etc/thingsix-forwarder/basic_station/cert.pem'',
            bs_TLSKey = Some ''/etc/thingsix-forwarder/basic_station/private_key.pem'',
            bs_CACert = Some ''/etc/thingsix-forwarder/basic_station/ca_cert.pem'',
            bs_StatsInterval = Some (30 * second), bs_PingInterval = Some minute, bs_TimesyncInterval = Some hour,
            bs_ReadTimeout = Some (65 * second), bs_WriteTimeout = Some second, bs_Region = []\<rparr>,
         be_Concentratord = None\<rparr>,
      cf_Gateways = \<lparr>gc_BatchOnboarder = batch, gc_EarlyAdopter = early,
        gc_Store = \<lparr>sc_RefreshInterval = Some (30 * minute), sc_DefaultGatewayFrequencyPlan = freq_Invalid F,
          sc_YamlStorePath = Some ''/etc/thingsix-forwarder/gateways.yaml'', sc_Postgresql = None\<rparr>,
        gc_RecordUnknown = Some \<lparr>ru_File = ''/etc/thingsix-forwarder/unknown_gateways.yaml'', ru_Postgresql = None\<rparr>,
        gc_Registry = \<lparr>rs_ThingsIxApi_Endpoint = registry, rs_OnChain = None\<rparr>,
        gc_HttpAPI = ''127.0.0.1:8080'', gc_ThingsIXOnboardEndpoint = onboard\<rparr>,
      cf_DefaultRouters = [],
      cf_Routers = \<lparr>cfg_OnChain = None, cfg_ThingsIXApi = Some (Some routers, Some (30 * minute))\<rparr>,
      cf_Mapping = Some \<lparr>mc_IndexEndpoint = Some mapping, mc_UpdateInterval = Some (30 * minute)\<rparr>,
      cf_Polygon = Some \<lparr>pc_Endpoint = endpoint, pc_ChainID = chainID, pc_Confirmations = 128\<rparr>,
      cf_Log = (InfoLevel, True), cf_Database = None,
      cf_Metrics = Some (Some \<lparr>pm_Address = ''0.0.0.0:8888'', pm_Path = ''/metrics''\<rparr>)\<rparr>"

definition getNetConfig :: "freq_lib \<Rightarrow> (string \<Rightarrow> address) \<Rightarrow> string \<Rightarrow> ('a, 'bm) Config go" where
  "getNetConfig F HexToAddress net =
     (if net = [] then Ret Config_zero
      else if net = ''main'' then
        Ret (net_common F (HexToAddress ''0x06dcca8EcB100E234ff03b8353C5Ae698A0Fee8e'')
          (HexToAddress ''0xEe4Fd2721b05F205505cC945aC4bbbd514F2CB8e'')
          ''https://api.thingsix.com/gateways/v1/onboards/{onboarder}/{owner}''
          ''https://api.thingsix.com/gateways/v1/{id}''
          ''https://api.thingsix.com/routers/v1/snapshot''
          ''https://api.thingsix.com/coverage-mapping-index/v1/''
          ''https://polygon-rpc.com'' 137)
      else if net = ''test'' then
        Ret (net_common F (HexToAddress ''0xe685A0826419Bc982c9278eA7798143Fe7CF9f11'')
          (HexToAddress ''0x016466b252c6609b0769d0DF3ca9D2a561E42192'')
          ''https://api-testnet.thingsix.com/gateways/v1/onboards/{onboarder}/{owner}''
          ''https://api-testnet.thingsix.com/gateways/v1/{id}''
          ''https://api-testnet.thingsix.com/routers/v1/snapshot''
          ''https://api-testnet.thingsix.com/coverage-mapping-index/v1/''
          ''https://rpc.ankr.com/polygon_mumbai'' 80001)
      else if net = ''dev'' then
        Ret (net_common F (HexToAddress ''0xC7Dc48Ae9ED3e095f58ecF5320dE33F43A06cfC1'')
          (HexToAddress ''0x4A3E182a6E8704b9355dE87BF92a5Ba43b7D01F4'')
          ''https://api-devnet.thingsix.com/gateways/v1/onboards/{onboarder}/{owner}''
          ''https://api-devnet.thingsix.com/gateways/v1/{id}''
          ''https://api-devnet.thingsix.com/routers/v1/snapshot''
          ''https://api-devnet.thingsix.com/coverage-mapping-index/v1/''
          ''https://rpc.ankr.com/polygon_mumbai'' 80001)
      else Panic)"

text \<open>The command line and the configuration file: \<open>vp_Unmarshal\<close> overlays a configuration with the
  settings of the file.  \<open>vp_MustInit\<close> tells whether the database can be opened.\<close>

record ('a, 'bm) viper =
  vp_net :: string
  vp_config :: string
  vp_default_frequency_plan :: string
  vp_ReadInConfig :: "string \<Rightarrow> go_error option"
  vp_Unmarshal :: "('a, 'bm) Config \<Rightarrow> ('a, 'bm) Config result"
  vp_GetBand :: "string \<Rightarrow> band_name result"
  vp_MustInit :: "db_config \<Rightarrow> bool"

definition read_config :: "('a, 'bm) viper \<Rightarrow> ('a, 'bm) Config \<Rightarrow> ('a, 'bm) Config go" where
  "read_config V cfg =
     (if vp_config V \<noteq> [] then
        (case vp_ReadInConfig V (vp_config V) of
           Some err \<Rightarrow> Panic
         | None \<Rightarrow> (case vp_Unmarshal V cfg of Inl err \<Rightarrow> Panic | Inr cfg \<Rightarrow> Ret cfg))
      else if vp_net V = [] then Panic
      else Ret cfg)"

definition default_plan :: "('a, 'bm) viper \<Rightarrow> ('a, 'bm) Config \<Rightarrow> ('a, 'bm) Config go" where
  "default_plan V cfg =
     (if vp_default_frequency_plan V = [] then Ret cfg
      else case vp_GetBand V (vp_default_frequency_plan V) of
             Inl err \<Rightarrow> Panic
           | Inr band \<Rightarrow>
               Ret (cfg\<lparr>cf_Gateways := (cf_Gateways cfg)
                     \<lparr>gc_Store := (gc_Store (cf_Gateways cfg))\<lparr>sc_DefaultGatewayFrequencyPlan := band\<rparr>\<rparr>\<rparr>))"

text \<open>Whether the database is needed; \<^verbatim>\<open>RecordUnknown\<close> is only looked at when the store does not need it.\<close>

definition uses_db :: "('a, 'bm) Config \<Rightarrow> bool go" where
  "uses_db cfg =
     (if sc_Postgresql (gc_Store (cf_Gateways cfg)) = Some True then Ret True
      else go_bind (deref (gc_RecordUnknown (cf_Gateways cfg))) (\<lambda>ru. Ret (ru_Postgresql ru = Some True)))"

definition open_database :: "('a, 'bm) viper \<Rightarrow> ('a, 'bm) Config \<Rightarrow> bool \<Rightarrow> unit go" where
  "open_database V cfg useDB =
     (if \<not> useDB then Ret ()
      else case cf_Database cfg of
             Some (Some db) \<Rightarrow> if vp_MustInit V db then Ret () else Panic
           | _ \<Rightarrow> Panic)"

definition polygon_to_registry :: "polygon_config \<Rightarrow> ('a, 'bm) Config \<Rightarrow> ('a, 'bm) Config" where
  "polygon_to_registry p cfg =
     (case rs_OnChain (gc_Registry (cf_Gateways cfg)) of
        None \<Rightarrow> cfg
      | Some oc \<Rightarrow>
          cfg\<lparr>cf_Gateways := (cf_Gateways cfg)\<lparr>gc_Registry := (gc_Registry (cf_Gateways cfg))
            \<lparr>rs_OnChain := Some (oc\<lparr>oc_Endpoint := pc_Endpoint p, oc_Confirmation := pc_Confirmations p,
                                    oc_ChainID := pc_ChainID p\<rparr>)\<rparr>\<rparr>\<rparr>)"

definition forwarder_mustLoadConfig ::
  "freq_lib \<Rightarrow> (string \<Rightarrow> address) \<Rightarrow> ('a, 'bm) viper \<Rightarrow> ('a, 'bm) Config go" where
  "forwarder_mustLoadConfig F HexToAddress V =
     go_bind (getNetConfig F HexToAddress (vp_net V)) (\<lambda>cfg.
     go_bind (read_config V cfg) (\<lambda>cfg.
     go_bind (default_plan V cfg) (\<lambda>cfg.
     go_bind (deref (cf_Polygon cfg)) (\<lambda>polygon.
     go_bind (uses_db cfg) (\<lambda>useDB.
     go_bind (open_database V cfg useDB) (\<lambda>_.
       Ret (polygon_to_registry polygon
              (cfg\<lparr>cf_DefaultRouters := map (\<lambda>r. r\<lparr>rt_Default := True\<rparr>) (cf_DefaultRouters cfg)\<rparr>))))))))"

section \<open>The gateway store\<close>

text \<open>The world around the forwarder at start-up: files, database, sockets, and the packages the parts use.\<close>

record ('d, 'c) startup =
  en_E :: eth_lib
  en_L :: lorawan_lib
  en_Y :: yaml_lib
  en_YU :: yaml_unknown_lib
  en_D :: "'d gorm"
  en_db :: 'd
  en_url_Parse :: "string \<Rightarrow> unit result"
  en_R :: "thingsix_registry registry"
  en_now :: time
  en_UserHomeDir :: "string result"
  en_filepath_Join :: "string \<Rightarrow> string \<Rightarrow> string"
  en_store_file :: "string \<Rightarrow> load_io \<times> bytes option"
  en_sync_order :: "(eui64 \<rightharpoonup> gateway) \<Rightarrow> eui64 list"
  en_unknown_file :: "string \<Rightarrow> open_io"
  en_BL :: backend_lib
  en_C :: "'c lru"

datatype 'd opened_store =
    YamlStore "thingsix_registry yaml_store"
  | PgStore "(thingsix_registry, 'd) pg_store"

definition open_yaml_store ::
  "('d, 'c) startup \<Rightarrow> string \<Rightarrow> thingsix_registry \<Rightarrow> band_name \<Rightarrow> 'd opened_store result go" where
  "open_yaml_store en path reg plan =
     go_bind (NewYamlFileStore (en_E en) (en_Y en) (en_R en) (fst (en_store_file en path)) (en_sync_order en)
                (snd (en_store_file en path)) path reg plan) (\<lambda>r.
       Ret (map_sum (\<lambda>e. e) YamlStore r))"

definition NewGatewayStore ::
  "('d, 'c) startup \<Rightarrow> StoreConfig \<Rightarrow> RegistrySyncConfig option \<Rightarrow> 'd opened_store result go" where
  "NewGatewayStore en storeCfg registryCfg =
     (case NewThingsIXGatewayRegistry (en_url_Parse en) registryCfg of
        Inl err \<Rightarrow> Ret (Inl err)
      | Inr registry \<Rightarrow>
          (case StoreConfig_Type storeCfg of
             YamlFileGatewayStore \<Rightarrow>
               go_bind (deref (sc_YamlStorePath storeCfg)) (\<lambda>path.
                 open_yaml_store en path registry (sc_DefaultGatewayFrequencyPlan storeCfg))
           | PostgresqlGatewayStore \<Rightarrow>
               go_bind (NewPostgresStore (en_E en) (en_D en) (en_R en) (en_now en) (en_db en) (sc_RefreshInterval storeCfg)
                          registry (sc_DefaultGatewayFrequencyPlan storeCfg)) (\<lambda>r.
                 Ret (map_sum (\<lambda>e. e) PgStore r))
           | NoGatewayStoreType \<Rightarrow>
               (case en_UserHomeDir en of
                  Inl err \<Rightarrow> Panic
                | Inr home \<Rightarrow>
                    open_yaml_store en (en_filepath_Join en home ''gateway-store.yaml'') registry
                      (sc_DefaultGatewayFrequencyPlan storeCfg))))"

section \<open>Putting the exchange together\<close>

datatype 'd opened_recorder = RecordToPostgres 'd | RecordToFile yamlUnknownGatewayLogger | RecordNothing

definition open_recorder ::
  "('d, 'c) startup \<Rightarrow> 'd \<Rightarrow> ForwarderGatewayRecordUnknownConfig option \<Rightarrow> 'd opened_recorder go" where
  "open_recorder en db cfg =
     (case NewUnknownGatewayLogger cfg of
        LogToPostgres \<Rightarrow> go_bind (recordUnkownGatewaysToPostgresql (en_D en) db) (\<lambda>d. Ret (RecordToPostgres d))
      | LogToFile path \<Rightarrow>
          go_bind (recordUnkownGatewaysToFile (en_L en) (en_YU en) (en_unknown_file en path) path) (\<lambda>l. Ret (RecordToFile l))
      | LogNothing \<Rightarrow> Ret RecordNothing)"

definition buildAccounter :: "unit accounter result" where
  "buildAccounter = Inr NewNoAccountingStrategy"

record ('d, 'c, 'a, 'bm) exchange_parts =
  xp_backend :: backend
  xp_accounter :: "unit accounter"
  xp_routingTable :: "('a, 'bm) routing_table"
  xp_gateways :: "'d opened_store"
  xp_recorder :: "'d opened_recorder"
  xp_mapper :: "'c mapper_forwarder"

definition NewExchange ::
  "('d, 'c) startup \<Rightarrow> ('a, 'bm) Config \<Rightarrow> ('d, 'c, 'a, 'bm) exchange_parts result go" where
  "NewExchange en cfg =
     go_bind (NewGatewayStore en (gc_Store (cf_Gateways cfg)) (Some (gc_Registry (cf_Gateways cfg)))) (\<lambda>opened.
       case opened of
         Inl err \<Rightarrow> Panic
       | Inr store \<Rightarrow>
           go_bind (buildBackend (en_BL en) (cf_Backend cfg)) (\<lambda>backend.
             case backend of
               Inl err \<Rightarrow> Ret (Inl err)
             | Inr backend \<Rightarrow>
                 (case buildAccounter of
                    Inl err \<Rightarrow> Ret (Inl err)
                  | Inr accounter \<Rightarrow>
                      let routingTable = buildRoutingTable (cf_Routers cfg) (cf_DefaultRouters cfg);
                          db = (case store of PgStore st \<Rightarrow> pg_db st | YamlStore _ \<Rightarrow> en_db en)
                      in go_bind (open_recorder en db (gc_RecordUnknown (cf_Gateways cfg))) (\<lambda>recorder.
                         go_bind (NewMapperForwarder (en_C en) (cf_Mapping cfg)) (\<lambda>mapper.
                           Ret (Inr \<lparr>xp_backend = backend, xp_accounter = accounter, xp_routingTable = routingTable,
                                     xp_gateways = store, xp_recorder = recorder, xp_mapper = mapper\<rparr>))))))"

section \<open>Facts\<close>

lemma polygon_to_registry_sel [simp]:
  "cf_Backend (polygon_to_registry p cfg) = cf_Backend cfg" "cf_Polygon (polygon_to_registry p cfg) = cf_Polygon cfg"
  "cf_DefaultRouters (polygon_to_registry p cfg) = cf_DefaultRouters cfg"
  "cf_Database (polygon_to_registry p cfg) = cf_Database cfg"
  "gc_Store (cf_Gateways (polygon_to_registry p cfg)) = gc_Store (cf_Gateways cfg)"
  "gc_RecordUnknown (cf_Gateways (polygon_to_registry p cfg)) = gc_RecordUnknown (cf_Gateways cfg)"
  "rs_OnChain (gc_Registry (cf_Gateways (polygon_to_registry p cfg))) =
     map_option (\<lambda>oc. oc\<lparr>oc_Endpoint := pc_Endpoint p, oc_Confirmation := pc_Confirmations p, oc_ChainID := pc_ChainID p\<rparr>)
       (rs_OnChain (gc_Registry (cf_Gateways cfg)))"
  by (simp_all add: polygon_to_registry_def split: option.split)

text \<open>The networks that have defaults, with what tells them apart.\<close>

definition net_host :: "string \<rightharpoonup> string" where
  "net_host = [''main'' \<mapsto> ''https://api.thingsix.com'', ''test'' \<mapsto> ''https://api-testnet.thingsix.com'',
     ''dev'' \<mapsto> ''https://api-devnet.thingsix.com'']"

lemma getNetConfig_common:
  assumes "net_host net = Some h"
  shows "\<exists>batch early onboard endpoint chainID.
    getNetConfig F HexToAddress net = Ret (net_common F batch early onboard (h @ ''/gateways/v1/{id}'')
      (h @ ''/routers/v1/snapshot'') (h @ ''/coverage-mapping-index/v1/'') endpoint chainID)"
proof -
  have "net = ''main'' \<or> net = ''test'' \<or> net = ''dev''" using assms by (auto simp: net_host_def split: if_splits)
  then show ?thesis
    by (elim disjE) (use assms in \<open>force simp: net_host_def getNetConfig_def\<close>)+
qed

section \<open>Properties\<close>

text \<open>
  C23: a forwarder starts on the defaults of a network.  With no configuration file, for each of the
  networks main, test and dev, on a machine without stored gateways and with the UDP port free, loading
  the configuration and building the exchange succeed: Semtech UDP on port 1680, an empty YAML store,
  a file for unknown gateways, and the routers from the API of that network every thirty minutes.
\<close>

theorem net_defaults_start:
  fixes V :: "('a, 'bm) viper"
  assumes "net_host (vp_net V) = Some h" "vp_config V = []" "vp_default_frequency_plan V = []"
    and "\<forall>c. bl_NewSemtech (en_BL en) c = None"
    and "en_store_file en ''/etc/thingsix-forwarder/gateways.yaml'' = (ReadOk, None)"
    and "en_unknown_file en ''/etc/thingsix-forwarder/unknown_gateways.yaml'' = FileMissing"
  shows "\<exists>cfg parts st rec. forwarder_mustLoadConfig F HexToAddress V = Ret cfg \<and> NewExchange en cfg = Ret (Inr parts) \<and>
    xp_backend parts = SemtechUDP \<lparr>cu_UDPBind = ''0.0.0.0:1680'', cu_FakeRxTime = False, cu_SkipCRCCheck = False\<rparr> \<and>
    xp_gateways parts = YamlStore st \<and> ys_byLocalId st = Map.empty \<and> xp_recorder parts = RecordToFile rec \<and>
    yul_recorded rec = [] \<and>
    tb_routesFetcher (xp_routingTable parts) = RoutesFromApi (h @ ''/routers/v1/snapshot'') \<and>
    tb_routesUpdateIntervalCfg (xp_routingTable parts) = 30 * minute"
proof -
  obtain batch early onboard endpoint chainID where net: "(getNetConfig F HexToAddress (vp_net V) :: ('a, 'bm) Config go) =
      Ret (net_common F batch early onboard (h @ ''/gateways/v1/{id}'') (h @ ''/routers/v1/snapshot'')
        (h @ ''/coverage-mapping-index/v1/'') endpoint chainID)" (is "_ = Ret ?cfg")
    using getNetConfig_common[OF assms(1)] by blast
  have "vp_net V \<noteq> []" using assms(1) by (auto simp: net_host_def)
  then have cfg: "forwarder_mustLoadConfig F HexToAddress V = Ret ?cfg"
    using net assms(2,3)
    by (simp add: forwarder_mustLoadConfig_def read_config_def default_plan_def uses_db_def open_database_def
        polygon_to_registry_def net_common_def)
  have reg: "NewThingsIXGatewayRegistry (en_url_Parse en) (Some (gc_Registry (cf_Gateways ?cfg))) =
      Inr (ApiRegistry (buildThingsIXRegistryApiSyncer (h @ ''/gateways/v1/{id}'')))"
    by (simp add: NewThingsIXGatewayRegistry_def net_common_def)
  obtain st where store: "NewGatewayStore en (gc_Store (cf_Gateways ?cfg)) (Some (gc_Registry (cf_Gateways ?cfg))) =
      Ret (Inr (YamlStore st))" "ys_byLocalId st = Map.empty"
    using assms(5) unfolding NewGatewayStore_def reg
    by (simp add: net_common_def StoreConfig_Type_def open_yaml_store_def NewYamlFileStore_def ys_loadFromFile_def
        ys_syncAllGatewaysWithRegistry_def ys_Range_def range_order_def map_filter_def)
  have be: "buildBackend (en_BL en) (cf_Backend ?cfg) = Ret (Inr (SemtechUDP
      \<lparr>cu_UDPBind = ''0.0.0.0:1680'', cu_FakeRxTime = False, cu_SkipCRCCheck = False\<rparr>))"
    using assms(4) by (simp add: net_common_def buildBackend_def buildSemtechUDPBackend_def)
  have rec: "open_recorder en d (gc_RecordUnknown (cf_Gateways ?cfg)) = Ret (RecordToFile
      \<lparr>yul_outputFile = ''/etc/thingsix-forwarder/unknown_gateways.yaml'', yul_recorded = [], yul_file = None\<rparr>)" for d
    using assms(6) by (simp add: net_common_def open_recorder_def NewUnknownGatewayLogger_def recordUnkownGatewaysToFile_def)
  show ?thesis
    using cfg store be rec
    by (simp add: NewExchange_def buildAccounter_def)
      (simp add: net_common_def NewMapperForwarder_def NewCoverageClient_def buildRoutingTable_def
        obtainThingsIXRoutesFunc_def update_interval_def)
qed

text \<open>The world of a first start, with a home directory and a chain node that are never asked.\<close>

definition startup_example :: "(mem_db, string \<rightharpoonup> string) startup" where
  "startup_example =
     \<lparr>en_E = eth_example, en_L = lorawan_hex, en_Y = yaml_example, en_YU = yaml_unknown_example,
      en_D = mem_gorm, en_db = ([], []), en_url_Parse = (\<lambda>_. Inr ()), en_R = \<lparr>reg_GatewayDetails = (\<lambda>r _ _. (Inl ErrNotFound, r))\<rparr>,
      en_now = 0, en_UserHomeDir = Inr ''/root'', en_filepath_Join = (\<lambda>a b. a @ ''/'' @ b),
      en_store_file = (\<lambda>_. (ReadOk, None)), en_sync_order = (\<lambda>_. []), en_unknown_file = (\<lambda>_. FileMissing),
      en_BL = backend_lib_example, en_C = lru_example\<rparr>"

definition viper_example :: "string \<Rightarrow> (unit, unit) viper" where
  "viper_example net =
     \<lparr>vp_net = net, vp_config = [], vp_default_frequency_plan = [], vp_ReadInConfig = (\<lambda>_. None),
      vp_Unmarshal = Inr, vp_GetBand = Inr, vp_MustInit = (\<lambda>_. True)\<rparr>"

theorem net_defaults_start_witness:
  "\<exists>cfg parts. forwarder_mustLoadConfig freq_example (\<lambda>_. address_zero) (viper_example ''test'') = Ret cfg \<and>
     NewExchange startup_example cfg = Ret (Inr parts) \<and>
     tb_routesFetcher (xp_routingTable parts) = RoutesFromApi ''https://api-testnet.thingsix.com/routers/v1/snapshot''"
proof -
  have "net_host (vp_net (viper_example ''test'')) = Some ''https://api-testnet.thingsix.com''"
    "vp_config (viper_example ''test'') = []" "vp_default_frequency_plan (viper_example ''test'') = []"
    "\<forall>c. bl_NewSemtech (en_BL startup_example) c = None"
    "en_store_file startup_example ''/etc/thingsix-forwarder/gateways.yaml'' = (ReadOk, None)"
    "en_unknown_file startup_example ''/etc/thingsix-forwarder/unknown_gateways.yaml'' = FileMissing"
    by (simp_all add: viper_example_def startup_example_def backend_lib_example_def net_host_def)
  from net_defaults_start[OF this, of freq_example "\<lambda>_. address_zero"] show ?thesis by auto
qed





text \<open>
  A forwarder that gets all its settings from a file must have a section for unknown gateways, although
  such a section is optional: without it, and with gateways in a YAML file, it crashes at start-up.
\<close>

theorem record_unknown_required:
  assumes "vp_net V = []" "vp_config V \<noteq> []" "vp_ReadInConfig V (vp_config V) = None"
    and "vp_Unmarshal V Config_zero = Inr cfg" "vp_default_frequency_plan V = []"
    and "gc_RecordUnknown (cf_Gateways cfg) = None" "sc_Postgresql (gc_Store (cf_Gateways cfg)) \<noteq> Some True"
  shows "forwarder_mustLoadConfig F HexToAddress V = Panic"
  using assms
  by (cases "cf_Polygon cfg")
    (simp_all add: forwarder_mustLoadConfig_def getNetConfig_def read_config_def default_plan_def uses_db_def)

theorem record_unknown_required_witness:
  "forwarder_mustLoadConfig freq_example (\<lambda>_. address_zero)
     ((viper_example [])\<lparr>vp_config := ''config.yaml'', vp_Unmarshal := (\<lambda>cfg. Inr (cfg\<lparr>cf_Polygon := Some
        \<lparr>pc_Endpoint = ''https://polygon-rpc.com'', pc_ChainID = 137, pc_Confirmations = 128\<rparr>\<rparr>))\<rparr>) = Panic"
  by (rule record_unknown_required[where cfg = "Config_zero\<lparr>cf_Polygon := Some
        \<lparr>pc_Endpoint = ''https://polygon-rpc.com'', pc_ChainID = 137, pc_Confirmations = 128\<rparr>\<rparr>"])
    (simp_all add: viper_example_def Config_zero_def)

end
