(* ===== verification/Router_Server.thy ===== *)
theory Router_Server
  imports Messages Gateway_Store Join_Filter
begin

text \<open>
  The router, \<^verbatim>\<open>router/router.go\<close> and \<^verbatim>\<open>router/gateway_pool.go\<close>: the pool of online gateways with the forwarder
  each one is connected through, the event stream with a forwarder, what is published to the
  integration layer, and the downlinks that go back.  The integration layer (MQTT) is a parameter: it
  answers the calls, and the model keeps what was published and which gateways are subscribed.
  A step holds the lock of the pool as long as the code does; the streams of several forwarders
  interleave between steps.
\<close>

section \<open>State\<close>

text \<open>A forwarder is named by the id its event stream gets; its channel for integration events, with
  room for 256 events, is created and closed with the stream.\<close>

record forwarderManagedGateway =
  mg_forwarderID :: nat
  mg_gatewayID :: eui64
  mg_forwarder :: nat
  mg_lastSeen :: time

datatype event_chan = OpenChan "rtg_event list" | ClosedChan

datatype publication = PubUp u32 "uplink_frame option" | PubAck u32 "downlink_tx_ack option"

record router_server =
  rs_gateways :: "eui64 \<rightharpoonup> forwarderManagedGateway"
  rs_channels :: "nat \<rightharpoonup> event_chan"
  rs_subscribed :: "eui64 set"
  rs_published :: "(eui64 \<times> publication) list"
  rs_sent :: "(nat \<times> rtg_event) list"
  rs_connectedGateways :: int
  rs_connectedForwarders :: int

definition router_New :: router_server where
  "router_New = \<lparr>rs_gateways = Map.empty, rs_channels = Map.empty, rs_subscribed = {}, rs_published = [], rs_sent = [],
     rs_connectedGateways = 0, rs_connectedForwarders = 0\<rparr>"

text \<open>What the integration answers to a subscription and to a publication.\<close>

record integration =
  in_SetGatewaySubscription :: "bool \<Rightarrow> eui64 \<Rightarrow> go_error option"
  in_PublishEvent :: "eui64 \<Rightarrow> publication \<Rightarrow> go_error option"

definition SetGatewaySubscription ::
  "integration \<Rightarrow> bool \<Rightarrow> eui64 \<Rightarrow> router_server \<Rightarrow> go_error option \<times> router_server" where
  "SetGatewaySubscription I subscribe gatewayID r =
     (case in_SetGatewaySubscription I subscribe gatewayID of
        Some err \<Rightarrow> (Some err, r)
      | None \<Rightarrow> (None, r\<lparr>rs_subscribed := (if subscribe then insert gatewayID (rs_subscribed r)
                                         else rs_subscribed r - {gatewayID})\<rparr>))"

definition PublishEvent :: "integration \<Rightarrow> eui64 \<Rightarrow> publication \<Rightarrow> router_server \<Rightarrow> router_server" where
  "PublishEvent I gatewayID p r =
     (case in_PublishEvent I gatewayID p of
        Some err \<Rightarrow> r
      | None \<Rightarrow> r\<lparr>rs_published := rs_published r @ [(gatewayID, p)]\<rparr>)"

section \<open>The pool of gateways\<close>

definition gatewayOnline ::
  "integration \<Rightarrow> time \<Rightarrow> nat \<Rightarrow> eui64 \<Rightarrow> nat \<Rightarrow> router_server \<Rightarrow> router_server" where
  "gatewayOnline I now forwarderID gatewayID forwarderEventSender r =
     (case SetGatewaySubscription I True gatewayID r of
        (Some err, r) \<Rightarrow> r
      | (None, r) \<Rightarrow>
          r\<lparr>rs_connectedGateways := rs_connectedGateways r + 1,
            rs_gateways := (rs_gateways r)(gatewayID \<mapsto>
              \<lparr>mg_forwarderID = forwarderID, mg_gatewayID = gatewayID, mg_forwarder = forwarderEventSender,
               mg_lastSeen = now\<rparr>)\<rparr>)"

definition drop_gateway :: "eui64 \<Rightarrow> router_server \<Rightarrow> router_server" where
  "drop_gateway gatewayID r =
     r\<lparr>rs_connectedGateways := rs_connectedGateways r - 1, rs_gateways := (rs_gateways r)(gatewayID := None)\<rparr>"

definition gatewayOffline :: "integration \<Rightarrow> nat \<Rightarrow> eui64 \<Rightarrow> router_server \<Rightarrow> router_server" where
  "gatewayOffline I forwarderID gatewayID r =
     (case SetGatewaySubscription I False gatewayID r of
        (Some err, r) \<Rightarrow> r
      | (None, r) \<Rightarrow> drop_gateway gatewayID r)"

text \<open>The loop over the pool that drops the gateways for which \<open>leave\<close> holds.  It returns at the first
  failing unsubscription.  \<open>order\<close> is the order in which the map is ranged over.\<close>

fun drop_loop ::
  "integration \<Rightarrow> (forwarderManagedGateway \<Rightarrow> bool) \<Rightarrow> eui64 list \<Rightarrow> router_server \<Rightarrow> router_server" where
  "drop_loop I leave [] r = r"
| "drop_loop I leave (gatewayID # order) r =
     (case rs_gateways r gatewayID of
        None \<Rightarrow> drop_loop I leave order r
      | Some gateway \<Rightarrow>
          if leave gateway
          then (case SetGatewaySubscription I False gatewayID r of
                  (Some err, r) \<Rightarrow> r
                | (None, r) \<Rightarrow> drop_loop I leave order (drop_gateway gatewayID r))
          else drop_loop I leave order r)"

definition allGatewaysOffline :: "integration \<Rightarrow> eui64 list \<Rightarrow> nat \<Rightarrow> router_server \<Rightarrow> router_server" where
  "allGatewaysOffline I order forwarderID r =
     drop_loop I (\<lambda>gateway. mg_forwarderID gateway = forwarderID) order r"

definition cleanupTimeOutGateways :: "integration \<Rightarrow> eui64 list \<Rightarrow> time \<Rightarrow> router_server \<Rightarrow> router_server" where
  "cleanupTimeOutGateways I order now r =
     drop_loop I (\<lambda>gateway. now - mg_lastSeen gateway > 5 * minute) order r"

section \<open>Events of a forwarder\<close>

definition handleStatus ::
  "integration \<Rightarrow> time \<Rightarrow> nat \<Rightarrow> eui64 \<Rightarrow> bool \<Rightarrow> nat \<Rightarrow> router_server \<Rightarrow> router_server" where
  "handleStatus I now forwarderID gatewayID online integrationEvents r =
     (if online then gatewayOnline I now forwarderID gatewayID integrationEvents r
      else gatewayOffline I forwarderID gatewayID r)"

definition handleUplink ::
  "lorawan_lib \<Rightarrow> integration \<Rightarrow> eui64 \<Rightarrow> uplink_frame option \<Rightarrow> router_server \<Rightarrow> router_server" where
  "handleUplink L I gatewayNetworkID frame r =
     (case Eui64FromString L (case frame of None \<Rightarrow> [] | Some f \<Rightarrow> frame_gateway_id f) of
        Inl err \<Rightarrow> r
      | Inr gatewayNetworkIDFromFrame \<Rightarrow>
          if gatewayNetworkID \<noteq> gatewayNetworkIDFromFrame then r
          else PublishEvent I gatewayNetworkID
                 (PubUp (case frame of None \<Rightarrow> 0 | Some f \<Rightarrow> frame_uplink_id f) frame) r)"

definition handleDownlinkTxAck ::
  "lorawan_lib \<Rightarrow> integration \<Rightarrow> eui64 \<Rightarrow> downlink_tx_ack option \<Rightarrow> router_server \<Rightarrow> router_server" where
  "handleDownlinkTxAck L I gatewayNetworkID ack r =
     (case Eui64FromString L (case ack of None \<Rightarrow> [] | Some a \<Rightarrow> da_GatewayId a) of
        Inl err \<Rightarrow> r
      | Inr gatewayNetworkIDFromFrame \<Rightarrow>
          if gatewayNetworkID \<noteq> gatewayNetworkIDFromFrame then r
          else PublishEvent I gatewayNetworkID
                 (PubAck (case ack of None \<Rightarrow> 0 | Some a \<Rightarrow> da_DownlinkId a) ack) r)"

text \<open>
  An event of the stream.  \<^verbatim>\<open>pubKey[1:33]\<close> is evaluated before the key is looked at: it panics when the
  slice has no capacity for 33 bytes, which \<open>kcap\<close> gives for a key as decoded.
\<close>

definition handle_forwarder_event ::
  "lorawan_lib \<Rightarrow> integration \<Rightarrow> (bytes \<Rightarrow> nat) \<Rightarrow> time \<Rightarrow> nat \<Rightarrow> gtr_event \<Rightarrow> router_server \<Rightarrow> router_server go" where
  "handle_forwarder_event L I kcap now forwarderID fwdEvent r =
     (let pubKey = (case ge_GatewayInformation fwdEvent of None \<Rightarrow> [] | Some info \<Rightarrow> gi_PublicKey info)
      in if kcap pubKey < 33 then Panic
         else case GatewayPublicKeyToID pubKey of
                Inl err \<Rightarrow> Ret r
              | Inr gatewayNetworkID \<Rightarrow>
                  (case ge_Event fwdEvent of
                     UplinkFrameEvent frame receipt \<Rightarrow>
                       Ret (handleStatus I now forwarderID gatewayNetworkID True forwarderID
                              (handleUplink L I gatewayNetworkID frame r))
                   | DownlinkTXAckEvent ack receipt \<Rightarrow> Ret (handleDownlinkTxAck L I gatewayNetworkID ack r)
                   | StatusEvent online \<Rightarrow>
                       Ret (handleStatus I now forwarderID gatewayNetworkID online forwarderID r)
                   | _ \<Rightarrow> Ret r))"

datatype stream_input =
    ForwarderEvent gtr_event
  | ForwarderClosed "eui64 list"
  | IntegrationEvent "go_error option"

text \<open>One turn of the select loop of \<^verbatim>\<open>Events\<close>, and whether it returns, with an error or without.  An
  integration event is taken from the channel of the forwarder.\<close>

definition Events_step ::
  "lorawan_lib \<Rightarrow> integration \<Rightarrow> (bytes \<Rightarrow> nat) \<Rightarrow> time \<Rightarrow> nat \<Rightarrow> stream_input \<Rightarrow> router_server \<Rightarrow>
   (router_server \<times> unit result option) go" where
  "Events_step L I kcap now forwarderID inp r =
     (case inp of
        ForwarderEvent fwdEvent \<Rightarrow>
          go_bind (handle_forwarder_event L I kcap now forwarderID fwdEvent r) (\<lambda>r. Ret (r, None))
      | ForwarderClosed order \<Rightarrow> Ret (allGatewaysOffline I order forwarderID r, Some (Inr ()))
      | IntegrationEvent send \<Rightarrow>
          (case rs_channels r forwarderID of
             Some (OpenChan (ev # evs)) \<Rightarrow>
               let r = r\<lparr>rs_channels := (rs_channels r)(forwarderID \<mapsto> OpenChan evs)\<rparr>
               in (case send of
                     Some err \<Rightarrow> Ret (r, Some (Inl (Errorf ''unable to send event to forwarder'')))
                   | None \<Rightarrow> Ret (r\<lparr>rs_sent := rs_sent r @ [(forwarderID, ev)]\<rparr>, None))
           | _ \<Rightarrow> Ret (r, None)))"

definition Events_open :: "nat \<Rightarrow> router_server \<Rightarrow> router_server" where
  "Events_open forwarderID r =
     r\<lparr>rs_channels := (rs_channels r)(forwarderID \<mapsto> OpenChan []),
       rs_connectedForwarders := rs_connectedForwarders r + 1\<rparr>"

text \<open>The deferred calls when \<^verbatim>\<open>Events\<close> returns.\<close>

definition Events_close :: "nat \<Rightarrow> router_server \<Rightarrow> router_server" where
  "Events_close forwarderID r =
     r\<lparr>rs_channels := (rs_channels r)(forwarderID \<mapsto> ClosedChan),
       rs_connectedForwarders := rs_connectedForwarders r - 1\<rparr>"

datatype stream_status = GotEvent gtr_event | StreamCanceled | StreamError

text \<open>What \<^verbatim>\<open>forwarderEventStream\<close> puts on its channel for the results of \<^verbatim>\<open>Recv\<close>, and whether it
  closed it.\<close>

fun forwarderEventStream :: "stream_status list \<Rightarrow> gtr_event list \<times> bool" where
  "forwarderEventStream [] = ([], False)"
| "forwarderEventStream (StreamCanceled # rs) = ([], True)"
| "forwarderEventStream (StreamError # rs) = forwarderEventStream rs"
| "forwarderEventStream (GotEvent ev # rs) =
     (let (evs, closed) = forwarderEventStream rs in (ev # evs, closed))"

section \<open>Downlinks\<close>

text \<open>\<open>Ret None\<close>: the send waits for room in the channel, with the pool locked for reading.\<close>

definition chan_send :: "nat \<Rightarrow> rtg_event \<Rightarrow> router_server \<Rightarrow> router_server option go" where
  "chan_send ch event r =
     (case rs_channels r ch of
        Some (OpenChan evs) \<Rightarrow>
          Ret (if length evs < 256
               then Some (r\<lparr>rs_channels := (rs_channels r)(ch \<mapsto> OpenChan (evs @ [event]))\<rparr>) else None)
      | _ \<Rightarrow> Panic)"

definition sendDownlinkFrame ::
  "lorawan_lib \<Rightarrow> string \<Rightarrow> rtg_event \<Rightarrow> router_server \<Rightarrow> router_server option go" where
  "sendDownlinkFrame L addressedGatewayID event r =
     (let gwId = eui_or_zero (Eui64FromString L addressedGatewayID)
      in case rs_gateways r gwId of
           None \<Rightarrow> Ret (Some r)
         | Some gateway \<Rightarrow> chan_send (mg_forwarder gateway) event r)"

definition DownlinkFrame :: "lorawan_lib \<Rightarrow> downlink_frame \<Rightarrow> router_server \<Rightarrow> router_server option go" where
  "DownlinkFrame L frame r = sendDownlinkFrame L (df_GatewayId frame) (DownlinkFrameEvent (Some frame)) r"

definition router_JoinFilter :: "chirpstackGenerator \<Rightarrow> xor8 option \<times> bytes" where
  "router_JoinFilter g = generator_JoinFilter g"

section \<open>The router as a step relation\<close>

text \<open>Streams of forwarders open, deliver and end, downlinks arrive from the integration, and the cleanup
  runs, in any order.  \<open>Clean\<close> steps are those in which the integration takes subscriptions and no
  send to a forwarder fails.\<close>

inductive router_step :: "lorawan_lib \<Rightarrow> (bytes \<Rightarrow> nat) \<Rightarrow> bool \<Rightarrow> router_server \<Rightarrow> router_server \<Rightarrow> bool"
  for L kcap where
  connect: "rs_channels r f = None \<Longrightarrow> router_step L kcap clean r (Events_open f r)"
| event: "rs_channels r f = Some (OpenChan evs) \<Longrightarrow> Events_step L I kcap now f inp r = Ret (r', None) \<Longrightarrow>
    router_step L kcap clean r r'"
| leave: "rs_channels r f = Some (OpenChan evs) \<Longrightarrow> Events_step L I kcap now f inp r = Ret (r', Some res) \<Longrightarrow>
    clean \<longrightarrow> (\<exists>order. inp = ForwarderClosed order \<and> dom (rs_gateways r) \<subseteq> set order) \<and>
      (\<forall>b g. in_SetGatewaySubscription I b g = None) \<Longrightarrow>
    router_step L kcap clean r (Events_close f r')"
| downlink: "DownlinkFrame L frame r = Ret (Some r') \<Longrightarrow> router_step L kcap clean r r'"
| cleanup: "router_step L kcap clean r (cleanupTimeOutGateways I order now r)"

inductive router_reachable :: "lorawan_lib \<Rightarrow> (bytes \<Rightarrow> nat) \<Rightarrow> bool \<Rightarrow> router_server \<Rightarrow> bool" for L kcap clean where
  start: "router_reachable L kcap clean router_New"
| step: "router_reachable L kcap clean r \<Longrightarrow> router_step L kcap clean r r' \<Longrightarrow> router_reachable L kcap clean r'"

section \<open>Invariants\<close>

fun publication_id :: "publication \<Rightarrow> string" where
  "publication_id (PubUp u frame) = (case frame of None \<Rightarrow> [] | Some f \<Rightarrow> frame_gateway_id f)"
| "publication_id (PubAck d ack) = (case ack of None \<Rightarrow> [] | Some a \<Rightarrow> da_GatewayId a)"

definition published_ok :: "lorawan_lib \<Rightarrow> router_server \<Rightarrow> bool" where
  "published_ok L r \<longleftrightarrow> (\<forall>(n, p) \<in> set (rs_published r). eui_UnmarshalText L (publication_id p) = Inr n)"

definition pool_ok :: "router_server \<Rightarrow> bool" where
  "pool_ok r \<longleftrightarrow> rs_subscribed r = dom (rs_gateways r) \<and>
     (\<forall>g m. rs_gateways r g = Some m \<longrightarrow> mg_gatewayID m = g \<and> mg_forwarder m = mg_forwarderID m \<and>
        rs_channels r (mg_forwarderID m) \<noteq> None)"

definition queues_ok :: "router_server \<Rightarrow> bool" where
  "queues_ok r \<longleftrightarrow> (\<forall>f evs. rs_channels r f = Some (OpenChan evs) \<longrightarrow> length evs \<le> 256)"

definition channels_open :: "router_server \<Rightarrow> bool" where
  "channels_open r \<longleftrightarrow> (\<forall>g m. rs_gateways r g = Some m \<longrightarrow> (\<exists>evs. rs_channels r (mg_forwarder m) = Some (OpenChan evs)))"

named_theorems pool_defs \<open>definitions of the operations on the pool\<close>

declare SetGatewaySubscription_def [pool_defs] gatewayOnline_def [pool_defs] drop_gateway_def [pool_defs]
  gatewayOffline_def [pool_defs]

text \<open>Operations on the pool change nothing else.\<close>

lemma pool_frame [simp]:
  "rs_channels (gatewayOnline I now f g ch r) = rs_channels r" "rs_published (gatewayOnline I now f g ch r) = rs_published r"
  "rs_channels (gatewayOffline I f g r) = rs_channels r" "rs_published (gatewayOffline I f g r) = rs_published r"
  "rs_channels (drop_gateway g r) = rs_channels r" "rs_published (drop_gateway g r) = rs_published r"
  by (simp_all add: pool_defs split: option.split)

lemma subscription_frame:
  assumes "SetGatewaySubscription I b g r = (e, r')"
  shows "rs_channels r' = rs_channels r" "rs_published r' = rs_published r" "rs_gateways r' = rs_gateways r"
  using assms by (auto simp: SetGatewaySubscription_def split: option.splits)

lemma drop_loop_frame [simp]:
  "rs_channels (drop_loop I leave order r) = rs_channels r" "rs_published (drop_loop I leave order r) = rs_published r"
  by (induction order arbitrary: r) (auto split: option.splits prod.splits dest: subscription_frame)

lemma drop_gateway_ok:
  "pool_ok r \<Longrightarrow> SetGatewaySubscription I False g r = (None, r') \<Longrightarrow> pool_ok (drop_gateway g r')"
  by (auto simp: pool_ok_def pool_defs split: option.splits)

lemma pool_ok_offline: "pool_ok r \<Longrightarrow> pool_ok (gatewayOffline I f g r)"
  using drop_gateway_ok[of r I g]
  by (auto simp: gatewayOffline_def pool_ok_def SetGatewaySubscription_def split: option.splits prod.splits)

lemma pool_ok_online:
  "pool_ok r \<Longrightarrow> rs_channels r f \<noteq> None \<Longrightarrow> pool_ok (gatewayOnline I now f g f r)"
  by (auto simp: pool_ok_def pool_defs split: option.splits)

lemma drop_loop_ok: "pool_ok r \<Longrightarrow> pool_ok (drop_loop I leave order r)"
proof (induction order arbitrary: r)
  case (Cons g order)
  show ?case
  proof (cases "rs_gateways r g")
    case None
    then show ?thesis using Cons by simp
  next
    case (Some m)
    obtain e r1 where sub: "SetGatewaySubscription I False g r = (e, r1)" by fastforce
    show ?thesis
    proof (cases e)
      case None
      then show ?thesis using Some sub Cons.IH[OF drop_gateway_ok[OF Cons.prems]] Cons by simp
    next
      case (Some err)
      then have "r1 = r" using sub by (auto simp: SetGatewaySubscription_def split: option.splits)
      then show ?thesis using \<open>rs_gateways r g = Some m\<close> sub Some Cons by simp
    qed
  qed
qed simp

lemma drop_loop_sub: "rs_gateways (drop_loop I leave order r) \<subseteq>\<^sub>m rs_gateways r"
proof (induction order arbitrary: r)
  case (Cons g order)
  have "rs_gateways (drop_loop I leave order (drop_gateway g r1)) \<subseteq>\<^sub>m rs_gateways r"
    if "SetGatewaySubscription I False g r = (None, r1)" for r1
  proof -
    have "rs_gateways (drop_gateway g r1) \<subseteq>\<^sub>m rs_gateways r"
      using subscription_frame(3)[OF that] by (simp add: drop_gateway_def map_le_def)
    then show ?thesis using Cons.IH[of "drop_gateway g r1"] map_le_trans by blast
  qed
  then show ?case using Cons.IH[of r]
    by (auto split: option.splits prod.splits dest: subscription_frame(3))
qed simp

text \<open>With a working integration exactly the gateways that should leave are dropped.\<close>

lemma drop_loop_exact:
  assumes "\<forall>b g. in_SetGatewaySubscription I b g = None"
  shows "rs_gateways (drop_loop I leave order r) g =
    (case rs_gateways r g of None \<Rightarrow> None | Some m \<Rightarrow> if g \<in> set order \<and> leave m then None else Some m)"
proof (induction order arbitrary: r)
  case Nil
  then show ?case by (simp split: option.split)
next
  case (Cons h order)
  obtain r1 where sub: "SetGatewaySubscription I False h r = (None, r1)" "rs_gateways r1 = rs_gateways r"
    using assms by (simp add: SetGatewaySubscription_def)
  have drop: "rs_gateways (drop_gateway h r1) = (rs_gateways r)(h := None)"
    using sub(2) by (simp add: drop_gateway_def)
  show ?case
    using Cons.IH[of r] Cons.IH[of "drop_gateway h r1"] sub(1) drop by (auto split: option.splits)
qed

lemma published_ok_Publish:
  "published_ok L r \<Longrightarrow> eui_UnmarshalText L (publication_id p) = Inr g \<Longrightarrow> published_ok L (PublishEvent I g p r)"
  by (auto simp: published_ok_def PublishEvent_def split: option.split)

lemma Publish_frame [simp]:
  "rs_channels (PublishEvent I g p r) = rs_channels r" "rs_gateways (PublishEvent I g p r) = rs_gateways r"
  "rs_subscribed (PublishEvent I g p r) = rs_subscribed r"
  by (simp_all add: PublishEvent_def split: option.split)

lemma handleUplink_frame [simp]:
  "rs_channels (handleUplink L I g frame r) = rs_channels r" "rs_gateways (handleUplink L I g frame r) = rs_gateways r"
  "rs_subscribed (handleUplink L I g frame r) = rs_subscribed r"
  by (simp_all add: handleUplink_def split: sum.split)

lemma handleAck_frame [simp]:
  "rs_channels (handleDownlinkTxAck L I g ack r) = rs_channels r" "rs_gateways (handleDownlinkTxAck L I g ack r) = rs_gateways r"
  "rs_subscribed (handleDownlinkTxAck L I g ack r) = rs_subscribed r"
  by (simp_all add: handleDownlinkTxAck_def split: sum.split)

lemma published_ok_handlers:
  assumes "published_ok L r"
  shows "published_ok L (handleUplink L I g frame r)" "published_ok L (handleDownlinkTxAck L I g ack r)"
    "published_ok L (handleStatus I now f g online ch r)"
proof -
  show "published_ok L (handleUplink L I g frame r)"
    using assms by (auto simp: handleUplink_def intro!: published_ok_Publish split: sum.split)
  show "published_ok L (handleDownlinkTxAck L I g ack r)"
    using assms by (auto simp: handleDownlinkTxAck_def intro!: published_ok_Publish split: sum.split)
  show "published_ok L (handleStatus I now f g online ch r)"
    using assms by (simp add: published_ok_def handleStatus_def)
qed

text \<open>The gateways of the pool after a status: as before, without this gateway, or with it at
  this forwarder.\<close>

lemma handleStatus_gateways:
  "rs_gateways (handleStatus I now f g online f r) \<subseteq>\<^sub>m (rs_gateways r)(g \<mapsto>
     \<lparr>mg_forwarderID = f, mg_gatewayID = g, mg_forwarder = f, mg_lastSeen = now\<rparr>) \<or>
   rs_gateways (handleStatus I now f g online f r) = rs_gateways r"
  by (auto simp: handleStatus_def pool_defs map_le_def split: option.split)

lemma pool_ok_handleStatus:
  "pool_ok r \<Longrightarrow> rs_channels r f \<noteq> None \<Longrightarrow> pool_ok (handleStatus I now f g online f r)"
  by (simp add: handleStatus_def pool_ok_online pool_ok_offline)

lemma channels_open_handleStatus:
  assumes "channels_open r" "rs_channels r f = Some (OpenChan evs)"
  shows "channels_open (handleStatus I now f g online f r)"
  using assms by (auto simp: channels_open_def handleStatus_def pool_defs split: option.splits if_splits)

lemma handle_forwarder_event_cases:
  assumes "handle_forwarder_event L I kcap now f ev r = Ret r'"
  obtains (same) "r' = r"
    | (uplink) g frame where "r' = handleStatus I now f g True f (handleUplink L I g frame r)"
    | (ack) g a where "r' = handleDownlinkTxAck L I g a r"
    | (status) g online where "r' = handleStatus I now f g online f r"
proof -
  let ?k = "case ge_GatewayInformation ev of None \<Rightarrow> [] | Some info \<Rightarrow> gi_PublicKey info"
  show thesis
  proof (cases "GatewayPublicKeyToID ?k")
    case (Inl err)
    then show thesis using assms same by (simp add: handle_forwarder_event_def Let_def split: if_splits)
  next
    case (Inr g)
    then show thesis
      using assms same uplink ack status
      by (cases "ge_Event ev") (auto simp: handle_forwarder_event_def Let_def split: if_splits)
  qed
qed

text \<open>The steps of a stream: the pool changes as described, or an event is taken off its queue.\<close>

lemma Events_step_cases:
  assumes "Events_step L I kcap now f inp r = Ret (r', res)"
  obtains (event) ev where "inp = ForwarderEvent ev" "handle_forwarder_event L I kcap now f ev r = Ret r'" "res = None"
    | (closed) order where "inp = ForwarderClosed order" "r' = allGatewaysOffline I order f r" "res = Some (Inr ())"
    | (sent) send ev evs where "inp = IntegrationEvent send" "rs_channels r f = Some (OpenChan (ev # evs))"
        "r' = r\<lparr>rs_channels := (rs_channels r)(f \<mapsto> OpenChan evs), rs_sent := rs_sent r @ [(f, ev)]\<rparr>" "res = None"
    | (failed) err ev evs where "inp = IntegrationEvent (Some err)" "rs_channels r f = Some (OpenChan (ev # evs))"
        "r' = r\<lparr>rs_channels := (rs_channels r)(f \<mapsto> OpenChan evs)\<rparr>" "res \<noteq> None"
    | (idle) "r' = r" "res = None"
proof (cases inp)
  case (ForwarderEvent ev)
  then show thesis using assms event by (auto simp: Events_step_def go_bind_eq_Ret)
next
  case (ForwarderClosed order)
  then show thesis using assms closed by (auto simp: Events_step_def)
next
  case (IntegrationEvent send)
  show thesis
  proof (cases "\<exists>ev evs. rs_channels r f = Some (OpenChan (ev # evs))")
    case True
    then obtain ev evs where q: "rs_channels r f = Some (OpenChan (ev # evs))" by blast
    show thesis
    proof (cases send)
      case None
      then show thesis using assms IntegrationEvent q by (intro sent[OF _ q]) (auto simp: Events_step_def Let_def)
    next
      case (Some err)
      then show thesis using assms IntegrationEvent q by (intro failed[OF _ q]) (auto simp: Events_step_def Let_def)
    qed
  next
    case False
    then show thesis
      using assms IntegrationEvent idle
      by (auto simp: Events_step_def split: option.splits event_chan.splits list.splits)
  qed
qed

lemma DownlinkFrame_cases:
  assumes "DownlinkFrame L frame r = Ret (Some r')"
  obtains (unknown) "r' = r"
    | (queued) ch evs where "rs_channels r ch = Some (OpenChan evs)" "length evs < 256"
        "r' = r\<lparr>rs_channels := (rs_channels r)(ch \<mapsto> OpenChan (evs @ [DownlinkFrameEvent (Some frame)]))\<rparr>"
proof (cases "rs_gateways r (eui_or_zero (Eui64FromString L (df_GatewayId frame)))")
  case None
  then show thesis using assms unknown by (simp add: DownlinkFrame_def sendDownlinkFrame_def)
next
  case (Some m)
  then have send: "chan_send (mg_forwarder m) (DownlinkFrameEvent (Some frame)) r = Ret (Some r')"
    using assms by (simp add: DownlinkFrame_def sendDownlinkFrame_def)
  then obtain evs where ch: "rs_channels r (mg_forwarder m) = Some (OpenChan evs)"
    by (auto simp: chan_send_def split: option.splits event_chan.splits)
  then show thesis using send queued[OF ch] by (simp add: chan_send_def split: if_splits)
qed

definition router_inv :: "lorawan_lib \<Rightarrow> bool \<Rightarrow> router_server \<Rightarrow> bool" where
  "router_inv L clean r \<longleftrightarrow> published_ok L r \<and> pool_ok r \<and> queues_ok r \<and> (clean \<longrightarrow> channels_open r)"

lemma queue_rest:
  assumes "router_inv L clean r" "rs_channels r f = Some (OpenChan (ev # q))"
  shows "length q \<le> 256"
proof -
  have "length (ev # q) \<le> 256" using assms unfolding router_inv_def queues_ok_def by blast
  then show ?thesis by simp
qed

lemma router_inv_event:
  assumes inv: "router_inv L clean r" and f: "rs_channels r f = Some (OpenChan q)"
    and ev: "handle_forwarder_event L I kcap now f ev r = Ret r'"
  shows "router_inv L clean r'"
  using ev
proof (cases rule: handle_forwarder_event_cases)
  case same
  then show ?thesis using inv by simp
next
  case (uplink g frame)
  let ?r1 = "handleUplink L I g frame r"
  have r1: "pool_ok ?r1" "channels_open ?r1 \<longleftrightarrow> channels_open r" "published_ok L ?r1"
    using inv published_ok_handlers(1) by (auto simp: router_inv_def pool_ok_def channels_open_def)
  then show ?thesis
    using inv f uplink pool_ok_handleStatus[of ?r1 f] published_ok_handlers(3)[OF r1(3)] channels_open_handleStatus[of ?r1 f q]
    by (auto simp: router_inv_def queues_ok_def) (simp_all add: handleStatus_def)
next
  case (ack g a)
  have "pool_ok r'" "channels_open r' \<longleftrightarrow> channels_open r" "queues_ok r' \<longleftrightarrow> queues_ok r"
    using inv ack by (auto simp: router_inv_def pool_ok_def channels_open_def queues_ok_def)
  then show ?thesis using inv ack published_ok_handlers(2) by (auto simp: router_inv_def)
next
  case (status g online)
  have "queues_ok r' \<longleftrightarrow> queues_ok r" using status by (simp add: queues_ok_def handleStatus_def)
  then show ?thesis
    using inv f status pool_ok_handleStatus[of r f] published_ok_handlers(3) channels_open_handleStatus[of r f q]
    by (auto simp: router_inv_def)
qed

lemma router_inv_channel:
  assumes inv: "router_inv L clean r" and f: "rs_channels r f = Some (OpenChan q)" and len: "length q' \<le> 256"
    and r': "rs_channels r' = (rs_channels r)(f \<mapsto> OpenChan q')" "rs_gateways r' = rs_gateways r"
      "rs_subscribed r' = rs_subscribed r" "rs_published r' = rs_published r"
  shows "router_inv L clean r'"
  using inv f len r' by (auto simp: router_inv_def published_ok_def pool_ok_def queues_ok_def channels_open_def)

lemma router_inv_drop_loop:
  assumes "router_inv L clean r"
  shows "router_inv L clean (drop_loop I leave order r)"
proof -
  have "channels_open r \<Longrightarrow> channels_open (drop_loop I leave order r)"
    using drop_loop_sub[of I leave order r] by (auto simp: channels_open_def map_le_def dom_def)
  then show ?thesis using assms drop_loop_ok by (auto simp: router_inv_def published_ok_def queues_ok_def)
qed

lemma router_inv_close:
  assumes inv: "router_inv L clean r"
    and none: "clean \<longrightarrow> (\<forall>g m. rs_gateways r g = Some m \<longrightarrow> mg_forwarder m \<noteq> f)"
  shows "router_inv L clean (Events_close f r)"
  using assms by (auto simp: router_inv_def published_ok_def pool_ok_def queues_ok_def channels_open_def Events_close_def)

lemma allGatewaysOffline_none:
  assumes "pool_ok r" "dom (rs_gateways r) \<subseteq> set order" "\<forall>b g. in_SetGatewaySubscription I b g = None"
    and "rs_gateways (allGatewaysOffline I order f r) g = Some m"
  shows "mg_forwarder m \<noteq> f"
  using assms(1,2,4) drop_loop_exact[OF assms(3), of "\<lambda>m. mg_forwarderID m = f" order r g]
  by (auto simp: allGatewaysOffline_def pool_ok_def split: option.splits if_splits)

lemma router_step_inv:
  assumes "router_step L kcap clean r r'" "router_inv L clean r"
  shows "router_inv L clean r'"
  using assms
proof (induction rule: router_step.induct)
  case (connect r f clean)
  then show ?case
    by (auto simp: router_inv_def published_ok_def pool_ok_def queues_ok_def channels_open_def Events_open_def)
next
  case (event r f evs I now inp r' clean)
  from event(2) show ?case
  proof (cases rule: Events_step_cases)
    case (event ev)
    then show ?thesis using router_inv_event event.prems \<open>rs_channels r f = Some (OpenChan evs)\<close> by blast
  next
    case (sent send ev q)
    have "length q \<le> 256" using queue_rest[OF event.prems sent(2)] .
    then show ?thesis using router_inv_channel[OF event.prems sent(2), of q r'] sent(3) by simp
  qed (use event.prems in simp_all)
next
  case (leave r f evs I now inp r' res clean)
  from leave(2) show ?case
  proof (cases rule: Events_step_cases)
    case (closed order)
    have inv: "router_inv L clean r'"
      using router_inv_drop_loop[OF leave.prems] closed(2) by (simp add: allGatewaysOffline_def)
    have pool: "pool_ok r" using leave.prems by (simp add: router_inv_def)
    have "clean \<longrightarrow> (\<forall>g m. rs_gateways r' g = Some m \<longrightarrow> mg_forwarder m \<noteq> f)"
      using allGatewaysOffline_none[OF pool] leave(3) closed by blast
    then show ?thesis using router_inv_close[OF inv] by blast
  next
    case (failed err ev q)
    then have "\<not> clean" using leave(3) by auto
    have "length q \<le> 256" using queue_rest[OF leave.prems failed(2)] .
    then have "router_inv L clean r'" using router_inv_channel[OF leave.prems failed(2), of q r'] failed(3) by simp
    then show ?thesis using router_inv_close[of L clean r' f] \<open>\<not> clean\<close> by simp
  qed simp_all
next
  case (downlink frame r r' clean)
  from downlink(1) show ?case
  proof (cases rule: DownlinkFrame_cases)
    case (queued ch q)
    then show ?thesis
      using router_inv_channel[OF downlink.prems queued(1), of "q @ [DownlinkFrameEvent (Some frame)]" r'] by simp
  qed (use downlink in simp)
next
  case (cleanup clean r I order now)
  then show ?case using router_inv_drop_loop by (simp add: cleanupTimeOutGateways_def)
qed

lemma router_inv_New: "router_inv L clean router_New"
  by (simp add: router_inv_def published_ok_def pool_ok_def queues_ok_def channels_open_def router_New_def)

lemma router_reachable_inv:
  assumes "router_reachable L kcap clean r"
  shows "router_inv L clean r"
  using assms by (induction rule: router_reachable.induct) (simp_all add: router_inv_New router_step_inv)

text \<open>A downlink goes to the forwarder that reported the gateway last.\<close>

lemma latest_forwarder:
  assumes "lorawan_ok L" "rs_channels r f = Some (OpenChan q)" "length q < 256"
    and "in_SetGatewaySubscription I True n = None" "handle_forwarder_event L I kcap now f ev r = Ret r'"
    and "ge_GatewayInformation ev = Some info" "GatewayPublicKeyToID (gi_PublicKey info) = Inr n"
    and "(\<exists>frame receipt. ge_Event ev = UplinkFrameEvent frame receipt) \<or> ge_Event ev = StatusEvent True"
    and "df_GatewayId frame = eui_String L n"
  shows "DownlinkFrame L frame r' =
    Ret (Some (r'\<lparr>rs_channels := (rs_channels r)(f \<mapsto> OpenChan (q @ [DownlinkFrameEvent (Some frame)]))\<rparr>))"
proof -
  obtain r1 where r': "r' = handleStatus I now f n True f r1" "rs_channels r1 = rs_channels r"
  proof (cases "ge_Event ev = StatusEvent True")
    case True
    then show thesis
      using assms(5-7) that[of r] by (simp add: handle_forwarder_event_def Let_def split: if_splits)
  next
    case False
    then obtain fr rc where "ge_Event ev = UplinkFrameEvent fr rc" using assms(8) by blast
    then show thesis
      using assms(5-7) that[of "handleUplink L I n fr r"] by (simp add: handle_forwarder_event_def Let_def split: if_splits)
  qed
  then have "rs_gateways r' n = Some \<lparr>mg_forwarderID = f, mg_gatewayID = n, mg_forwarder = f, mg_lastSeen = now\<rparr>"
    "rs_channels r' = rs_channels r"
    using assms(4) by (simp_all add: handleStatus_def gatewayOnline_def SetGatewaySubscription_def)
  then show ?thesis
    using assms(1-3,9) lorawan_okD(1)[OF assms(1)] by (simp add: DownlinkFrame_def sendDownlinkFrame_def chan_send_def)
qed

text \<open>The router publishes an uplink whose frame names the gateway of its public key.\<close>

lemma handle_uplink_event:
  assumes "lorawan_ok L" "ge_GatewayInformation ev = Some info" "GatewayPublicKeyToID (gi_PublicKey info) = Inr n"
    and "ge_Event ev = UplinkFrameEvent (Some frame) receipt" "frame_gateway_id frame = eui_String L n"
    and "33 \<le> kcap (gi_PublicKey info)" "in_PublishEvent I n (PubUp (frame_uplink_id frame) (Some frame)) = None"
  shows "\<exists>r'. handle_forwarder_event L I kcap now f ev r = Ret r' \<and>
    rs_published r' = rs_published r @ [(n, PubUp (frame_uplink_id frame) (Some frame))]"
  using assms(2-7) lorawan_okD(1)[OF assms(1)]
  by (simp add: handle_forwarder_event_def handleUplink_def handleStatus_def PublishEvent_def)

section \<open>Properties\<close>

text \<open>
  C11: what the router publishes, and for whom.  However forwarders connect, send and leave, every uplink
  and every downlink ack published to the integration layer stands under the network id that the
  message itself names; the gateways subscribed at the integration layer are exactly those of the
  pool; and no forwarder's queue exceeds its 256 places.
\<close>

theorem router_publications:
  assumes "router_reachable L kcap clean r"
  shows "(\<forall>(n, p) \<in> set (rs_published r). Eui64FromString L (publication_id p) = Inr n) \<and>
         rs_subscribed r = dom (rs_gateways r) \<and>
         (\<forall>f evs. rs_channels r f = Some (OpenChan evs) \<longrightarrow> length evs \<le> 256)"
  using router_reachable_inv[OF assms]
  by (auto simp: router_inv_def published_ok_def pool_ok_def queues_ok_def)

definition integration_ok :: integration where
  "integration_ok = \<lparr>in_SetGatewaySubscription = (\<lambda>b g. None), in_PublishEvent = (\<lambda>g p. None)\<rparr>"

definition pool_gateway_example :: gateway where
  "pool_gateway_example = NewGateway eth_example eui64_zero (key_example 4)"

text \<open>An online status of the gateway, as a forwarder sends it.\<close>

definition status_example :: "bool \<Rightarrow> gtr_event" where
  "status_example online =
     \<lparr>ge_GatewayInformation = Some \<lparr>gi_PublicKey = CompressedPubKeyBytes pool_gateway_example, gi_Owner = []\<rparr>,
      ge_Event = StatusEvent online\<rparr>"

definition server_example :: router_server where
  "server_example = handleStatus integration_ok 0 1 (NetworkID pool_gateway_example) True 1 (Events_open 1 router_New)"

lemma pool_gateway_example_id:
  "GatewayPublicKeyToID (CompressedPubKeyBytes pool_gateway_example) = Inr (NetworkID pool_gateway_example)"
  "length (CompressedPubKeyBytes pool_gateway_example) = 33"
proof -
  show k: "GatewayPublicKeyToID (CompressedPubKeyBytes pool_gateway_example) = Inr (NetworkID pool_gateway_example)"
    by (rule pubkey_network_id[of eth_example]) (simp add: pool_gateway_example_def)
  then show "length (CompressedPubKeyBytes pool_gateway_example) = 33"
    by (simp add: GatewayPublicKeyToID_def split: if_splits)
qed

lemma server_example_eq:
  "server_example = router_New\<lparr>rs_gateways := [NetworkID pool_gateway_example \<mapsto>
       \<lparr>mg_forwarderID = 1, mg_gatewayID = NetworkID pool_gateway_example, mg_forwarder = 1, mg_lastSeen = 0\<rparr>],
     rs_channels := [1 \<mapsto> OpenChan []], rs_subscribed := {NetworkID pool_gateway_example},
     rs_connectedGateways := 1, rs_connectedForwarders := 1\<rparr>"
  by (simp add: server_example_def handleStatus_def gatewayOnline_def SetGatewaySubscription_def integration_ok_def
      Events_open_def router_New_def)

lemma server_example_event:
  "handle_forwarder_event lorawan_hex integration_ok length now f (status_example online) r =
     Ret (handleStatus integration_ok now f (NetworkID pool_gateway_example) online f r)"
  by (simp add: handle_forwarder_event_def status_example_def pool_gateway_example_id)

lemma server_example_reachable: "router_reachable lorawan_hex length clean server_example"
proof -
  have open1: "router_reachable lorawan_hex length clean (Events_open 1 router_New)"
    by (rule router_reachable.step[OF router_reachable.start router_step.connect]) (simp add: router_New_def)
  have step: "Events_step lorawan_hex integration_ok length 0 1 (ForwarderEvent (status_example True)) (Events_open 1 router_New) =
      Ret (server_example, None)"
    by (simp add: Events_step_def server_example_event server_example_def)
  have "rs_channels (Events_open 1 router_New) 1 = Some (OpenChan [])" by (simp add: Events_open_def)
  from router_reachable.step[OF open1 router_step.event[OF this step]] show ?thesis .
qed

theorem router_publications_witness:
  "router_reachable lorawan_hex length False server_example \<and>
   rs_subscribed server_example = {NetworkID pool_gateway_example} \<and>
   rs_subscribed server_example = dom (rs_gateways server_example)"
  using router_publications[OF server_example_reachable[of False]] server_example_reachable[of False]
  by (simp add: server_example_eq)

text \<open>
  C17: the router does not crash on downlinks as long as nothing fails around it: when the integration layer
  takes all subscriptions and streams only end by the forwarder closing them, no downlink, for
  whatever gateway, panics, because no gateway of the pool belongs to a stream that has ended.
\<close>

theorem downlink_never_panics:
  assumes "router_reachable L kcap True r"
  shows "DownlinkFrame L frame r \<noteq> Panic"
proof (cases "rs_gateways r (eui_or_zero (Eui64FromString L (df_GatewayId frame)))")
  case None
  then show ?thesis by (simp add: DownlinkFrame_def sendDownlinkFrame_def)
next
  case (Some m)
  obtain evs where "rs_channels r (mg_forwarder m) = Some (OpenChan evs)"
    using router_reachable_inv[OF assms] Some by (auto simp: router_inv_def channels_open_def)
  then show ?thesis using Some by (simp add: DownlinkFrame_def sendDownlinkFrame_def chan_send_def)
qed

definition downlink_example :: downlink_frame where
  "downlink_example = \<lparr>df_DownlinkId = 7, df_DownlinkIdLegacy = [], df_Items = [],
     df_GatewayId = eui_String lorawan_hex (NetworkID pool_gateway_example)\<rparr>"

theorem downlink_never_panics_witness:
  "rs_gateways server_example (NetworkID pool_gateway_example) \<noteq> None \<and>
   DownlinkFrame lorawan_hex downlink_example server_example \<noteq> Panic"
  using downlink_never_panics[OF server_example_reachable] by (simp add: server_example_eq)

text \<open>
  A downlink takes the way its gateway was last seen on.  After an uplink or an online status of a
  gateway through a forwarder, a downlink to the gateway's network id is queued for exactly that
  forwarder, whichever one the gateway was connected through before.
\<close>

theorem downlink_to_latest_forwarder:
  assumes "lorawan_ok L" "rs_channels r f = Some (OpenChan q)" "length q < 256"
    and "in_SetGatewaySubscription I True n = None" "handle_forwarder_event L I kcap now f ev r = Ret r'"
    and "ge_GatewayInformation ev = Some info" "GatewayPublicKeyToID (gi_PublicKey info) = Inr n"
    and "(\<exists>frame receipt. ge_Event ev = UplinkFrameEvent frame receipt) \<or> ge_Event ev = StatusEvent True"
    and "df_GatewayId frame = eui_String L n"
  shows "DownlinkFrame L frame r' =
    Ret (Some (r'\<lparr>rs_channels := (rs_channels r)(f \<mapsto> OpenChan (q @ [DownlinkFrameEvent (Some frame)]))\<rparr>))"
  using assms by (rule latest_forwarder)

theorem downlink_to_latest_forwarder_witness:
  "\<exists>r'. handle_forwarder_event lorawan_hex integration_ok length 9 2 (status_example True) (Events_open 2 server_example) = Ret r' \<and>
     DownlinkFrame lorawan_hex downlink_example r' =
       Ret (Some (r'\<lparr>rs_channels := [1 \<mapsto> OpenChan [], 2 \<mapsto> OpenChan [DownlinkFrameEvent (Some downlink_example)]]\<rparr>))"
proof -
  let ?r = "Events_open 2 server_example"
  let ?r' = "handleStatus integration_ok 9 2 (NetworkID pool_gateway_example) True 2 ?r"
  have ch: "rs_channels ?r 2 = Some (OpenChan [])" "rs_channels ?r = [1 \<mapsto> OpenChan [], 2 \<mapsto> OpenChan []]"
    by (simp_all add: Events_open_def server_example_eq)
  have run: "handle_forwarder_event lorawan_hex integration_ok length 9 2 (status_example True) ?r = Ret ?r'"
    by (rule server_example_event)
  have "DownlinkFrame lorawan_hex downlink_example ?r' =
      Ret (Some (?r'\<lparr>rs_channels := (rs_channels ?r)(2 \<mapsto> OpenChan ([] @ [DownlinkFrameEvent (Some downlink_example)]))\<rparr>))"
    by (rule downlink_to_latest_forwarder[OF lorawan_hex_ok ch(1) _ _ run,
          where info = "\<lparr>gi_PublicKey = CompressedPubKeyBytes pool_gateway_example, gi_Owner = []\<rparr>"])
      (simp_all add: integration_ok_def status_example_def pool_gateway_example_id downlink_example_def)
  then show ?thesis using run ch(2) by (intro exI[of _ ?r']) simp
qed

text \<open>
  C31: a failed send to a forwarder brings the router down.  The stream then ends without taking its
  gateways out of the pool, while its channel is closed: the next downlink for one of these gateways
  is a send on a closed channel and panics.
\<close>

theorem send_failure_panics_later:
  assumes "lorawan_ok L" "rs_gateways r n = Some m" "mg_forwarder m = f"
    and "Events_step L I kcap now f (IntegrationEvent (Some err)) r = Ret (r', Some res)"
    and "df_GatewayId frame = eui_String L n"
  shows "DownlinkFrame L frame (Events_close f r') = Panic"
proof -
  have "rs_gateways r' = rs_gateways r" using assms(4) by (cases rule: Events_step_cases) simp_all
  then show ?thesis
    using assms(2,3,5) lorawan_okD(1)[OF assms(1)]
    by (simp add: DownlinkFrame_def sendDownlinkFrame_def chan_send_def Events_close_def)
qed

theorem send_failure_panics_later_witness:
  "\<exists>r1 r2 res. DownlinkFrame lorawan_hex downlink_example server_example = Ret (Some r1) \<and>
     Events_step lorawan_hex integration_ok length 3 1 (IntegrationEvent (Some (Errorf ''reset''))) r1 = Ret (r2, Some res) \<and>
     DownlinkFrame lorawan_hex downlink_example (Events_close 1 r2) = Panic"
proof -
  let ?m = "\<lparr>mg_forwarderID = 1, mg_gatewayID = NetworkID pool_gateway_example, mg_forwarder = 1, mg_lastSeen = 0\<rparr>"
  let ?r1 = "server_example\<lparr>rs_channels := [1 \<mapsto> OpenChan [DownlinkFrameEvent (Some downlink_example)]]\<rparr>"
  have dl: "DownlinkFrame lorawan_hex downlink_example server_example = Ret (Some ?r1)"
    using lorawan_okD(1)[OF lorawan_hex_ok]
    by (simp add: DownlinkFrame_def sendDownlinkFrame_def chan_send_def downlink_example_def server_example_eq)
  obtain r2 res where st: "Events_step lorawan_hex integration_ok length 3 1 (IntegrationEvent (Some (Errorf ''reset''))) ?r1 =
      Ret (r2, Some res)"
    by (simp add: Events_step_def)
  have m: "rs_gateways ?r1 (NetworkID pool_gateway_example) = Some ?m" by (simp add: server_example_eq)
  have "DownlinkFrame lorawan_hex downlink_example (Events_close 1 r2) = Panic"
    by (rule send_failure_panics_later[OF lorawan_hex_ok m _ st]) (simp_all add: downlink_example_def)
  then show ?thesis using dl st by blast
qed

text \<open>
  The cleanup drops exactly the gateways that were not seen for more than five minutes: with a working
  integration layer these are gone and unsubscribed afterwards, and every other gateway stays as it is.
\<close>

theorem cleanup_exact:
  assumes "\<forall>b g. in_SetGatewaySubscription I b g = None" "dom (rs_gateways r) \<subseteq> set order" "pool_ok r"
  shows "rs_gateways (cleanupTimeOutGateways I order now r) =
      (\<lambda>g. case rs_gateways r g of None \<Rightarrow> None | Some m \<Rightarrow> if now - mg_lastSeen m \<le> 5 * minute then Some m else None) \<and>
    rs_subscribed (cleanupTimeOutGateways I order now r) = dom (rs_gateways (cleanupTimeOutGateways I order now r))"
proof
  show "rs_gateways (cleanupTimeOutGateways I order now r) =
      (\<lambda>g. case rs_gateways r g of None \<Rightarrow> None | Some m \<Rightarrow> if now - mg_lastSeen m \<le> 5 * minute then Some m else None)"
  proof
    fix g
    show "rs_gateways (cleanupTimeOutGateways I order now r) g =
      (case rs_gateways r g of None \<Rightarrow> None | Some m \<Rightarrow> if now - mg_lastSeen m \<le> 5 * minute then Some m else None)"
      using assms(2) drop_loop_exact[OF assms(1), of "\<lambda>m. now - mg_lastSeen m > 5 * minute" order r g]
      by (auto simp: cleanupTimeOutGateways_def split: option.split)
  qed
  show "rs_subscribed (cleanupTimeOutGateways I order now r) = dom (rs_gateways (cleanupTimeOutGateways I order now r))"
    using drop_loop_ok[OF assms(3)] by (simp add: cleanupTimeOutGateways_def pool_ok_def)
qed

theorem cleanup_exact_witness:
  "rs_gateways (cleanupTimeOutGateways integration_ok [NetworkID pool_gateway_example] (6 * minute) server_example) = Map.empty \<and>
   rs_gateways (cleanupTimeOutGateways integration_ok [NetworkID pool_gateway_example] (5 * minute) server_example) =
     rs_gateways server_example"
proof -
  have "\<forall>b g. in_SetGatewaySubscription integration_ok b g = None" by (simp add: integration_ok_def)
  moreover have "dom (rs_gateways server_example) \<subseteq> set [NetworkID pool_gateway_example]" by (simp add: server_example_eq)
  moreover have "pool_ok server_example"
    using router_reachable_inv[OF server_example_reachable] by (simp add: router_inv_def)
  ultimately show ?thesis
    using cleanup_exact[of integration_ok server_example "[NetworkID pool_gateway_example]"]
    by (auto simp: server_example_eq split: option.split)
qed

text \<open>
  Forwarders are trusted with gateways that are not theirs.  An offline status from any connected
  forwarder takes the gateway with this public key out of the pool, also when it is connected
  through another forwarder, so that its downlinks are dropped; and an event whose key does not
  reach 33 bytes panics before it is checked.
\<close>

theorem forwarder_event_unchecked:
  "(kcap (case ge_GatewayInformation ev of None \<Rightarrow> [] | Some info \<Rightarrow> gi_PublicKey info) < 33 \<longrightarrow>
      handle_forwarder_event L I kcap now f ev r = Panic) \<and>
   (lorawan_ok L \<and> ge_GatewayInformation ev = Some info \<and> 33 \<le> kcap (gi_PublicKey info) \<and>
      GatewayPublicKeyToID (gi_PublicKey info) = Inr n \<and> ge_Event ev = StatusEvent False \<and>
      in_SetGatewaySubscription I False n = None \<and> df_GatewayId frame = eui_String L n \<longrightarrow>
      (\<exists>r'. handle_forwarder_event L I kcap now f ev r = Ret r' \<and> rs_gateways r' n = None \<and>
         DownlinkFrame L frame r' = Ret (Some r')))"
  using lorawan_okD(1)[of L n]
  by (auto simp: handle_forwarder_event_def Let_def handleStatus_def gatewayOffline_def SetGatewaySubscription_def
      drop_gateway_def DownlinkFrame_def sendDownlinkFrame_def)

theorem forwarder_event_unchecked_witness:
  "handle_forwarder_event lorawan_hex integration_ok length 1 2
      \<lparr>ge_GatewayInformation = None, ge_Event = StatusEvent True\<rparr> server_example = Panic \<and>
   (\<exists>r'. handle_forwarder_event lorawan_hex integration_ok length 1 2 (status_example False) server_example = Ret r' \<and>
      DownlinkFrame lorawan_hex downlink_example r' = Ret (Some r'))"
proof
  show "handle_forwarder_event lorawan_hex integration_ok length 1 2
      \<lparr>ge_GatewayInformation = None, ge_Event = StatusEvent True\<rparr> server_example = Panic"
    using forwarder_event_unchecked[of length "\<lparr>ge_GatewayInformation = None, ge_Event = StatusEvent True\<rparr>"] by simp
  show "\<exists>r'. handle_forwarder_event lorawan_hex integration_ok length 1 2 (status_example False) server_example = Ret r' \<and>
      DownlinkFrame lorawan_hex downlink_example r' = Ret (Some r')"
    using forwarder_event_unchecked[of length "status_example False" lorawan_hex integration_ok 1 2 server_example
        "\<lparr>gi_PublicKey = CompressedPubKeyBytes pool_gateway_example, gi_Owner = []\<rparr>" "NetworkID pool_gateway_example"
        downlink_example] lorawan_hex_ok pool_gateway_example_id
    by (auto simp: status_example_def integration_ok_def downlink_example_def)
qed

end
