(* ===== verification/Router_Setup.thy ===== *)
theory Router_Setup
  imports Router_Server Yaml_Store
begin

text \<open>
  Starting a router: its configuration (\<^verbatim>\<open>router/config.go\<close>), its key file (\<^verbatim>\<open>router/key.go\<close>), the MQTT integration
  (\<^verbatim>\<open>router/integrations.go\<close>), the construction of the join filter generator
  (\<^verbatim>\<open>router/joinfilter.go\<close>) and of the router, and the loop that renews the join filter
  (\<^verbatim>\<open>router/router.go\<close>).  The YAML package, gRPC and the MQTT client are parameters.
\<close>

section \<open>Configuration\<close>

record mqtt_generic =
  mg_Server :: string
  mg_Servers :: "string list"
  mg_Username :: string
  mg_Password :: string
  mg_CACert :: string
  mg_TLSCert :: string
  mg_TLSKey :: string
  mg_QOS :: u8
  mg_CleanSession :: bool
  mg_ClientID :: string

record mqtt_auth =
  ma_Generic :: "mqtt_generic option"
  ma_GCPCloudIoTCore :: "unit option"
  ma_AzureIoTHub :: "unit option"

record mqtt_config =
  mq_EventTopicTemplate :: string
  mq_CommandTopicTemplate :: string
  mq_StateTopicTemplate :: string
  mq_StateRetained :: bool
  mq_KeepAlive :: duration
  mq_MaxReconnectInterval :: duration
  mq_TerminateOnConnectError :: bool
  mq_MaxTokenWait :: duration
  mq_Auth :: "mqtt_auth option"

record RouterConfig =
  rc_Keyfile :: string
  rc_RenewInterval :: duration
  rc_Target :: string
  rc_Insecure :: bool
  rc_APIKey :: string
  rc_Host :: string
  rc_Port :: u16
  rc_Marshaler :: string
  rc_MQTT :: "mqtt_config option"

definition ForwarderListenerAddress :: "RouterConfig \<Rightarrow> string" where
  "ForwarderListenerAddress rc =
     (let host = (if rc_Host rc \<noteq> [] then rc_Host rc else ''0.0.0.0'');
          port = (if rc_Port rc \<noteq> 0 then rc_Port rc else 8080)
      in host @ '':'' @ show_nat (unat port))"

section \<open>The key file\<close>

record Keyfile =
  kf_ID :: string
  kf_PrivateKey :: string

record Identity =
  id_ID :: string
  id_PrivateKey :: private_key

record keyfile_yaml =
  ky_Encode :: "Keyfile \<Rightarrow> bytes result"
  ky_Decode :: "bytes \<Rightarrow> Keyfile result"

definition keyfile_yaml_ok :: "keyfile_yaml \<Rightarrow> bool" where
  "keyfile_yaml_ok Y \<longleftrightarrow> (\<forall>k b. ky_Encode Y k = Inr b \<longrightarrow> ky_Decode Y b = Inr k)"

text \<open>A path of the file system: nothing there, a file, or something that cannot be looked at.\<close>

datatype file_node = NoFile | File bytes | NoAccess

type_synonym files = "string \<Rightarrow> file_node"

definition keyfile_of :: "eth_lib \<Rightarrow> private_key \<Rightarrow> Keyfile" where
  "keyfile_of E key =
     \<lparr>kf_ID = hex_encode (DeriveThingsIxID E (sk_PublicKey key)), kf_PrivateKey = hex_encode (FromECDSA E key)\<rparr>"

text \<open>\<open>None\<close>: no usable key is ever drawn.  The file is created before the key is drawn; \<open>creatable\<close> says
  whether that works.\<close>

definition mustGenerateKey ::
  "eth_lib \<Rightarrow> keyfile_yaml \<Rightarrow> (nat \<Rightarrow> private_key result) \<Rightarrow> bool \<Rightarrow> string \<Rightarrow> files \<Rightarrow> files go option" where
  "mustGenerateKey E Y src creatable filename fs =
     (case fs filename of
        NoFile \<Rightarrow>
          if \<not> creatable then Some Panic
          else (case GeneratePrivateKey E src 0 of
                  None \<Rightarrow> None
                | Some (Inl err, _) \<Rightarrow> Some Panic
                | Some (Inr key, _) \<Rightarrow>
                    (case ky_Encode Y (keyfile_of E key) of
                       Inl err \<Rightarrow> Some Panic
                     | Inr out \<Rightarrow> Some (Ret (fs(filename := File out)))))
      | _ \<Rightarrow> Some Panic)"

definition loadRouterIdentity :: "eth_lib \<Rightarrow> keyfile_yaml \<Rightarrow> files \<Rightarrow> RouterConfig \<Rightarrow> Identity result" where
  "loadRouterIdentity E Y fs cfg =
     (case fs (rc_Keyfile cfg) of
        File raw \<Rightarrow>
          (case ky_Decode Y raw of
             Inl err \<Rightarrow> Inl (Errorf ''unable to decode router keyfile'')
           | Inr keyfile \<Rightarrow>
               (case hex_decode (kf_PrivateKey keyfile) of
                  None \<Rightarrow> Inl (Errorf ''could not decode router private key from keyfile'')
                | Some b \<Rightarrow>
                    (case ToECDSA E b of
                       Inl err \<Rightarrow> Inl (Errorf ''could not decode router private key from keyfile'')
                     | Inr key \<Rightarrow>
                         Inr \<lparr>id_ID = hex_encode (DeriveThingsIxID E (sk_PublicKey key)), id_PrivateKey = key\<rparr>)))
      | _ \<Rightarrow> Inl (Errorf ''unable to open router keyfile''))"

section \<open>The integration\<close>

record chirp_mqtt =
  cm_EventTopicTemplate :: string
  cm_CommandTopicTemplate :: string
  cm_StateTopicTemplate :: string
  cm_StateRetained :: bool
  cm_KeepAlive :: duration
  cm_MaxReconnectInterval :: duration
  cm_TerminateOnConnectError :: bool
  cm_MaxTokenWait :: duration
  cm_AuthType :: string
  cm_Generic :: mqtt_generic
  cm_Marshaler :: string

definition auth_generic :: "mqtt_config \<Rightarrow> mqtt_generic option" where
  "auth_generic m = (case mq_Auth m of None \<Rightarrow> None | Some a \<Rightarrow> ma_Generic a)"

definition or_default :: "string \<Rightarrow> string \<Rightarrow> string" where
  "or_default s d = (if s \<noteq> [] then s else d)"

text \<open>The settings for generic credentials.  The setting to end on a connect error is not handed on.\<close>

definition mqtt_settings :: "mqtt_config \<Rightarrow> string \<Rightarrow> mqtt_generic \<Rightarrow> chirp_mqtt" where
  "mqtt_settings m marshaler g =
     \<lparr>cm_EventTopicTemplate = or_default (mq_EventTopicTemplate m) ''eu868/gateway/{{ .GatewayID }}/event/{{ .EventType }}'',
      cm_CommandTopicTemplate = or_default (mq_CommandTopicTemplate m) ''eu868/gateway/{{ .GatewayID }}/command/#'',
      cm_StateTopicTemplate = or_default (mq_StateTopicTemplate m) ''eu868/gateway/{{ .GatewayID }}/state/{{ .StateType }}'',
      cm_StateRetained = mq_StateRetained m, cm_KeepAlive = mq_KeepAlive m,
      cm_MaxReconnectInterval = mq_MaxReconnectInterval m, cm_TerminateOnConnectError = False,
      cm_MaxTokenWait = mq_MaxTokenWait m, cm_AuthType = ''generic'', cm_Generic = g, cm_Marshaler = marshaler\<rparr>"

text \<open>\<open>Setup\<close> is the constructor of the ChirpStack integration.\<close>

definition buildIntegrationsForMQTT ::
  "(chirp_mqtt \<Rightarrow> go_error option) \<Rightarrow> RouterConfig \<Rightarrow> chirp_mqtt result go" where
  "buildIntegrationsForMQTT Setup cfg =
     go_bind (deref (rc_MQTT cfg)) (\<lambda>m.
       if (case mq_Auth m of None \<Rightarrow> False | Some a \<Rightarrow> ma_GCPCloudIoTCore a \<noteq> None)
       then Ret (Inl (Errorf ''GCP cloud IoT core auth unsupported''))
       else if (case mq_Auth m of None \<Rightarrow> False | Some a \<Rightarrow> ma_AzureIoTHub a \<noteq> None)
       then Ret (Inl (Errorf ''azure IoT hub auth unsupported''))
       else go_bind (deref (auth_generic m)) (\<lambda>g.
         let chirpConfig = mqtt_settings m (rc_Marshaler cfg) g
         in case Setup chirpConfig of Some err \<Rightarrow> Ret (Inl err) | None \<Rightarrow> Ret (Inr chirpConfig)))"

definition buildIntegrations :: "(chirp_mqtt \<Rightarrow> go_error option) \<Rightarrow> RouterConfig \<Rightarrow> chirp_mqtt result go" where
  "buildIntegrations Setup cfg =
     (if rc_MQTT cfg \<noteq> None then buildIntegrationsForMQTT Setup cfg
      else Ret (Inl (Errorf ''missing router integrations configuration'')))"

section \<open>The router\<close>

text \<open>A dial to ChirpStack: target, whether without transport security, and the API key.\<close>

type_synonym chirpstack_dial = "string \<Rightarrow> bool \<Rightarrow> string \<Rightarrow> go_error option"

definition newChirpstackGenerator :: "chirpstack_dial \<Rightarrow> RouterConfig \<Rightarrow> chirpstackGenerator result" where
  "newChirpstackGenerator dial config =
     (case dial (rc_Target config) (rc_Insecure config) (rc_APIKey config) of
        Some err \<Rightarrow> Inl err
      | None \<Rightarrow> Inr \<lparr>cg_filter = None, cg_bitmapBytes = []\<rparr>)"

definition NewJoinFilterGenerator :: "chirpstack_dial \<Rightarrow> RouterConfig \<Rightarrow> chirpstackGenerator result" where
  "NewJoinFilterGenerator dial config =
     (if rc_Target config \<noteq> [] then newChirpstackGenerator dial config
      else Inl (Errorf ''unknown JoinFilterGenerator''))"

record started_router =
  sr_identity :: Identity
  sr_config :: RouterConfig
  sr_generator :: chirpstackGenerator
  sr_server :: router_server

definition router_NewRouter ::
  "eth_lib \<Rightarrow> keyfile_yaml \<Rightarrow> chirpstack_dial \<Rightarrow> files \<Rightarrow> RouterConfig \<Rightarrow> started_router result" where
  "router_NewRouter E Y dial fs cfg =
     (case loadRouterIdentity E Y fs cfg of
        Inl err \<Rightarrow> Inl err
      | Inr identity \<Rightarrow>
          (case NewJoinFilterGenerator dial cfg of
             Inl err \<Rightarrow> Inl err
           | Inr jfg \<Rightarrow> Inr \<lparr>sr_identity = identity, sr_config = cfg, sr_generator = jfg, sr_server = router_New\<rparr>))"

text \<open>The goroutine of \<^verbatim>\<open>Run\<close> that renews the join filter: at once, and at every tick with what ChirpStack
  then answers.  The ticker panics for an interval that is not positive.  \<open>None\<close>: an update does not end.\<close>

fun renew_loop ::
  "lorawan_lib \<Rightarrow> 'bm filter_lib \<Rightarrow> chirpstack list \<Rightarrow> chirpstackGenerator \<Rightarrow> chirpstackGenerator option" where
  "renew_loop L F [] g = Some g"
| "renew_loop L F (C # ticks) g =
     (case UpdateFilter L F C g of None \<Rightarrow> None | Some (err, g) \<Rightarrow> renew_loop L F ticks g)"

definition run_join_filter ::
  "lorawan_lib \<Rightarrow> 'bm filter_lib \<Rightarrow> duration \<Rightarrow> chirpstack \<Rightarrow> chirpstack list \<Rightarrow> chirpstackGenerator \<Rightarrow>
   chirpstackGenerator go option" where
  "run_join_filter L F renewInterval C ticks g =
     (case UpdateFilter L F C g of
        None \<Rightarrow> None
      | Some (err, g) \<Rightarrow>
          if renewInterval \<le> 0 then Some Panic
          else (case renew_loop L F ticks g of None \<Rightarrow> None | Some g \<Rightarrow> Some (Ret g)))"

section \<open>Facts\<close>

text \<open>What an update makes of a generator does not depend on it, unless the update fails, and then the
  generator stays as it is.\<close>

lemma build_filter_cases: "build_filter F ks g = (None, g') \<Longrightarrow> build_filter F ks h = (None, g')"
  "build_filter F ks g = (Some e, g') \<Longrightarrow> g' = g \<and> build_filter F ks h = (Some e, h)"
  by (auto simp: build_filter_def split: sum.splits if_splits)

lemma UpdateFilter_cases:
  "UpdateFilter L F C g = Some (None, g') \<Longrightarrow> UpdateFilter L F C h = Some (None, g')"
  "UpdateFilter L F C g = Some (Some e, g') \<Longrightarrow> g' = g"
proof -
  assume "UpdateFilter L F C g = Some (None, g')"
  then obtain ids ks where ids: "getTenantIds C = Some (Inr ids)" "tenants_loop L C ids [] = Some (Inr ks)"
    "build_filter F ks g = (None, g')"
    by (cases "getTenantIds C") (auto simp: UpdateFilter_def split: sum.splits option.splits)
  then show "UpdateFilter L F C h = Some (None, g')" by (simp add: UpdateFilter_def build_filter_cases(1)[OF ids(3)])
next
  assume "UpdateFilter L F C g = Some (Some e, g')"
  then show "g' = g"
    using build_filter_cases(2)[of F _ g e g'] by (auto simp: UpdateFilter_def split: sum.splits option.splits)
qed

lemma renew_loop_append:
  "renew_loop L F (as @ bs) g = (case renew_loop L F as g of None \<Rightarrow> None | Some g \<Rightarrow> renew_loop L F bs g)"
  by (induction as arbitrary: g) (auto split: option.split)

lemma renew_loop_total:
  "\<forall>C \<in> set ticks. \<exists>T A D. serves_all C T A D \<Longrightarrow> \<exists>g'. renew_loop L F ticks g = Some g'"
proof (induction ticks arbitrary: g)
  case (Cons C ticks)
  then obtain T A D where "serves_all C T A D" by auto
  from UpdateFilter_serves[OF this, of L F g] obtain err g1 where "UpdateFilter L F C g = Some (err, g1)"
    by (metis surj_pair)
  then show ?case using Cons by simp
qed simp

lemma renew_loop_failing:
  "\<forall>C \<in> set ticks. \<exists>e h. UpdateFilter L F C g = Some (Some e, h) \<Longrightarrow> renew_loop L F ticks g = Some g"
  by (induction ticks) (auto dest: UpdateFilter_cases(2))

lemma or_default_nonempty: "d \<noteq> [] \<Longrightarrow> or_default s d \<noteq> []"
  by (simp add: or_default_def)

lemma mqtt_settings_sel:
  "cm_Generic (mqtt_settings m ms g) = g" "cm_KeepAlive (mqtt_settings m ms g) = mq_KeepAlive m"
  "cm_EventTopicTemplate (mqtt_settings m ms g) \<noteq> []" "cm_StateTopicTemplate (mqtt_settings m ms g) \<noteq> []"
  "cm_CommandTopicTemplate (mqtt_settings m ms g) \<noteq> []" "\<not> cm_TerminateOnConnectError (mqtt_settings m ms g)"
  by (simp_all add: mqtt_settings_def or_default_nonempty)

section \<open>Properties\<close>

text \<open>
  C28: a router key survives its file.  A key file that the router generates is read back as the same
  private key and the same router id, the file written is the only one that changes, and a file that
  exists is never overwritten.
\<close>

theorem router_key_roundtrip:
  assumes "keyfile_yaml_ok Y" "GeneratePrivateKey E src 0 = Some (Inr key, n)" "storable_key E key"
    and "mustGenerateKey E Y src creatable (rc_Keyfile cfg) fs = Some (Ret fs')"
  shows "loadRouterIdentity E Y fs' cfg =
      Inr \<lparr>id_ID = hex_encode (DeriveThingsIxID E (sk_PublicKey key)), id_PrivateKey = key\<rparr> \<and>
    fs (rc_Keyfile cfg) = NoFile \<and> (\<forall>path. path \<noteq> rc_Keyfile cfg \<longrightarrow> fs' path = fs path)"
  using assms
  by (auto simp: mustGenerateKey_def loadRouterIdentity_def keyfile_yaml_ok_def keyfile_of_def storable_key_def
      split: file_node.splits if_splits sum.splits)

text \<open>A key file as the two texts with an x in between.\<close>

definition char_byte :: "char \<Rightarrow> byte" where
  "char_byte c = of_nat (of_char c)"

definition byte_char :: "byte \<Rightarrow> char" where
  "byte_char b = char_of (unat b)"

lemma byte_char_byte [simp]: "byte_char (char_byte c) = c"
  by (simp add: byte_char_def char_byte_def unat_of_nat)

lemma byte_char_comp [simp]: "byte_char \<circ> char_byte = id"
  by (simp add: fun_eq_iff)

lemma char_byte_inj [simp]: "char_byte c = char_byte d \<longleftrightarrow> c = d"
  by (metis byte_char_byte)

definition keyfile_yaml_example :: keyfile_yaml where
  "keyfile_yaml_example =
     (let sep = char_byte CHR ''x''
      in \<lparr>ky_Encode = (\<lambda>k. if CHR ''x'' \<in> set (kf_ID k) then Inl (Errorf ''separator'')
            else Inr (map char_byte (kf_ID k) @ sep # map char_byte (kf_PrivateKey k))),
          ky_Decode = (\<lambda>b. Inr \<lparr>kf_ID = map byte_char (takeWhile (\<lambda>x. x \<noteq> sep) b),
            kf_PrivateKey = map byte_char (tl (dropWhile (\<lambda>x. x \<noteq> sep) b))\<rparr>)\<rparr>)"

lemma keyfile_yaml_example_ok: "keyfile_yaml_ok keyfile_yaml_example"
proof -
  have "takeWhile (\<lambda>x. x \<noteq> char_byte CHR ''x'') (map char_byte s @ char_byte CHR ''x'' # t) = map char_byte s"
    "dropWhile (\<lambda>x. x \<noteq> char_byte CHR ''x'') (map char_byte s @ char_byte CHR ''x'' # t) = char_byte CHR ''x'' # t"
    if "CHR ''x'' \<notin> set s" for s t
    using that by (induction s) auto
  then show ?thesis by (auto simp: keyfile_yaml_ok_def keyfile_yaml_example_def Let_def split: if_splits)
qed

definition router_config_example :: RouterConfig where
  "router_config_example =
     \<lparr>rc_Keyfile = ''key.yaml'', rc_RenewInterval = 30 * minute, rc_Target = ''localhost:8080'', rc_Insecure = True,
      rc_APIKey = [], rc_Host = [], rc_Port = 3200, rc_Marshaler = ''protobuf'', rc_MQTT = None\<rparr>"

definition no_files :: files where
  "no_files = (\<lambda>_. NoFile)"

lemma hex_encode_no_x: "CHR ''x'' \<notin> set (hex_encode bs)"
  by (induction bs rule: hex_encode.induct) (auto simp: hex_digit_not_x[symmetric])

lemma router_key_example:
  "\<exists>fs'. mustGenerateKey eth_example keyfile_yaml_example (\<lambda>_. Inr (key_example 4)) True ''key.yaml'' no_files = Some (Ret fs')"
proof -
  have gen: "GeneratePrivateKey eth_example (\<lambda>_. Inr (key_example 4)) 0 = Some (Inr (key_example 4), 1)"
    by (subst GeneratePrivateKey.simps) (simp add: eth_example_def key_example_def)
  obtain out where "ky_Encode keyfile_yaml_example (keyfile_of eth_example (key_example 4)) = Inr out"
    by (simp add: keyfile_yaml_example_def keyfile_of_def Let_def hex_encode_no_x)
  then show ?thesis using gen by (simp add: mustGenerateKey_def no_files_def)
qed

theorem router_key_roundtrip_witness:
  "\<exists>fs'. mustGenerateKey eth_example keyfile_yaml_example (\<lambda>_. Inr (key_example 4)) True ''key.yaml'' no_files = Some (Ret fs') \<and>
     (\<exists>ident. loadRouterIdentity eth_example keyfile_yaml_example fs' router_config_example = Inr ident \<and>
        id_PrivateKey ident = key_example 4)"
proof -
  have cfg: "rc_Keyfile router_config_example = ''key.yaml''" by (simp add: router_config_example_def)
  obtain fs' where fs': "mustGenerateKey eth_example keyfile_yaml_example (\<lambda>_. Inr (key_example 4)) True ''key.yaml'' no_files = Some (Ret fs')"
    using router_key_example by blast
  have gen: "GeneratePrivateKey eth_example (\<lambda>_. Inr (key_example 4)) 0 = Some (Inr (key_example 4), 1)"
    by (subst GeneratePrivateKey.simps) (simp add: eth_example_def key_example_def)
  have key: "storable_key eth_example (key_example 4)" by (simp add: storable_key_def eth_example_def key_example_def)
  from router_key_roundtrip[OF keyfile_yaml_example_ok gen key, of True router_config_example no_files fs'] fs' cfg
  show ?thesis by auto
qed

text \<open>
  An MQTT integration needs generic credentials, though the section is optional.  Without any credentials
  the router crashes; with Google or Azure credentials it refuses to start; with generic ones every
  setting is handed to the integration layer, except the one to end on a connect error, and each topic
  template that is not set gets its default.
\<close>

theorem mqtt_generic_auth:
  assumes "rc_MQTT cfg = Some m"
  shows "(mq_Auth m = None \<longrightarrow> buildIntegrations Setup cfg = Panic) \<and>
    (\<forall>a. mq_Auth m = Some a \<longrightarrow>
       (if ma_GCPCloudIoTCore a \<noteq> None \<or> ma_AzureIoTHub a \<noteq> None
        then \<exists>err. buildIntegrations Setup cfg = Ret (Inl err)
        else buildIntegrations Setup cfg = Panic \<longleftrightarrow> ma_Generic a = None)) \<and>
    (\<forall>c. buildIntegrations Setup cfg = Ret (Inr c) \<longrightarrow>
       auth_generic m = Some (cm_Generic c) \<and> Setup c = None \<and> cm_KeepAlive c = mq_KeepAlive m \<and>
       cm_EventTopicTemplate c \<noteq> [] \<and> cm_StateTopicTemplate c \<noteq> [] \<and> cm_CommandTopicTemplate c \<noteq> [] \<and>
       \<not> cm_TerminateOnConnectError c)"
proof (cases "mq_Auth m")
  case None
  then show ?thesis using assms by (simp add: buildIntegrations_def buildIntegrationsForMQTT_def auth_generic_def)
next
  case (Some a)
  show ?thesis
  proof (cases "ma_GCPCloudIoTCore a \<noteq> None \<or> ma_AzureIoTHub a \<noteq> None")
    case True
    then have "\<exists>err. buildIntegrations Setup cfg = Ret (Inl err)"
      using assms Some by (auto simp: buildIntegrations_def buildIntegrationsForMQTT_def)
    then show ?thesis using True Some by auto
  next
    case False
    then show ?thesis using assms Some
      by (cases "ma_Generic a")
        (simp_all add: buildIntegrations_def buildIntegrationsForMQTT_def auth_generic_def mqtt_settings_sel Let_def split: option.split)
  qed
qed

definition mqtt_config_example :: "mqtt_auth option \<Rightarrow> mqtt_config" where
  "mqtt_config_example a =
     \<lparr>mq_EventTopicTemplate = [], mq_CommandTopicTemplate = [], mq_StateTopicTemplate = [], mq_StateRetained = True,
      mq_KeepAlive = 30 * second, mq_MaxReconnectInterval = minute, mq_TerminateOnConnectError = False,
      mq_MaxTokenWait = second, mq_Auth = a\<rparr>"

theorem mqtt_generic_auth_witness:
  "buildIntegrations (\<lambda>_. None) (router_config_example\<lparr>rc_MQTT := Some (mqtt_config_example None)\<rparr>) = Panic"
  using mqtt_generic_auth[of "router_config_example\<lparr>rc_MQTT := Some (mqtt_config_example None)\<rparr>" "mqtt_config_example None"
      "\<lambda>_. None"] by (simp add: mqtt_config_example_def)

text \<open>
  The router serves the join filter of the last update that succeeded.  With a positive renewal
  interval and a ChirpStack server that serves complete pages, the renewal loop never ends by itself and
  never gets stuck: after any number of ticks the filter is the one of the last successful update,
  whatever failed after it.  With an interval that is not positive the router crashes after the first update.
\<close>

theorem join_filter_renewed:
  assumes "\<forall>C \<in> set (C0 # ticks). \<exists>T A D. serves_all C T A D"
    and "C0 # ticks = before @ C # after" "UpdateFilter L F C h = Some (None, g')"
    and "\<forall>C \<in> set after. \<exists>e h. UpdateFilter L F C g' = Some (Some e, h)"
  shows "run_join_filter L F interval C0 ticks g = Some (if interval \<le> 0 then Panic else Ret g')"
proof -
  obtain g1 where g1: "renew_loop L F before g = Some g1"
    using renew_loop_total[of before L F g] assms(1,2) by auto
  have "UpdateFilter L F C g1 = Some (None, g')" by (rule UpdateFilter_cases(1)[OF assms(3)])
  then have all: "renew_loop L F (C0 # ticks) g = Some g'"
    using g1 renew_loop_failing[OF assms(4)] by (simp add: assms(2) renew_loop_append)
  then show ?thesis by (auto simp: run_join_filter_def split: option.splits)
qed

lemma filter_example_builds: "\<exists>g'. Some (build_filter filter_example ks g) = Some (None, g')"
  by (cases "length ks > 0") (simp_all add: build_filter_def filter_example_def)

theorem join_filter_renewed_witness:
  "\<exists>g'. UpdateFilter lorawan_hex filter_example chirpstack_example \<lparr>cg_filter = None, cg_bitmapBytes = []\<rparr> = Some (None, g') \<and>
     run_join_filter lorawan_hex filter_example (30 * minute) chirpstack_example [chirpstack_example]
       \<lparr>cg_filter = None, cg_bitmapBytes = []\<rparr> = Some (Ret g')"
proof -
  let ?g = "\<lparr>cg_filter = None, cg_bitmapBytes = []\<rparr>"
  have srv: "serves_all chirpstack_example [''t''] (\<lambda>_. [''a'']) (\<lambda>_. [dev_name 1, dev_name 2])"
    by (simp add: serves_all_def serves_def chirpstack_example_def)
  obtain g' where upd: "UpdateFilter lorawan_hex filter_example chirpstack_example ?g = Some (None, g')"
    unfolding UpdateFilter_serves[OF srv] using filter_example_builds by blast
  have "\<forall>C \<in> set [chirpstack_example, chirpstack_example]. \<exists>T A D. serves_all C T A D" using srv by auto
  from join_filter_renewed[OF this, of "[chirpstack_example]" chirpstack_example "[]" lorawan_hex filter_example ?g g' "30 * minute" ?g]
    upd show ?thesis by simp
qed

end
