(* ===== verification/Semtech_Packets.thy ===== *)
theory Semtech_Packets
  imports Messages "HOL-Library.Signed_Division" "HOL-Library.Log_Nat"
begin

unbundle bit_operations_syntax

text \<open>
  The packets of the Semtech UDP protocol between gateways and the forwarder,
  \<^verbatim>\<open>external/chirpstack/gateway-bridge/backend/semtechudp/packets\<close>: their binary form, the uplinks in a
  PUSH\_DATA packet and the PULL\_RESP packet for a downlink.  The JSON package is a parameter; data
  rates, which have their own JSON form, are modelled.  A float64 is the rational number it denotes,
  and its arithmetic rounds to 53 bits.
\<close>

section \<open>Numbers\<close>

definition le_uint16 :: "byte \<Rightarrow> byte \<Rightarrow> u16" where
  "le_uint16 a b = ucast a OR push_bit 8 (ucast b)"

definition le_put_uint16 :: "u16 \<Rightarrow> bytes" where
  "le_put_uint16 w = [ucast w, ucast (drop_bit 8 w)]"

text \<open>Signed 64-bit arithmetic wraps.\<close>

definition i64 :: "int \<Rightarrow> int" where
  "i64 n = sint (word_of_int n :: u64)"

text \<open>The binade of a positive number: \<open>2 powr binade x \<le> x < 2 powr (binade x + 1)\<close>.\<close>

definition binade :: "rat \<Rightarrow> int" where
  "binade x =
     (if 1 \<le> x then int (floorlog 2 (nat \<lfloor>x\<rfloor>)) - 1
      else - int (floorlog 2 (nat (\<lceil>1 / x\<rceil> - 1))))"

definition scale2 :: "int \<Rightarrow> rat \<Rightarrow> rat" where
  "scale2 k x = (if 0 \<le> k then x * 2 ^ nat k else x / 2 ^ nat (- k))"

text \<open>Rounding to a float64, for numbers in its normal range.\<close>

definition f64 :: "rat \<Rightarrow> rat" where
  "f64 x =
     (if x = 0 then 0
      else let k = 52 - binade \<bar>x\<bar> in scale2 (- k) (of_int (round_half_even (scale2 k x))))"

definition trunc_zero :: "rat \<Rightarrow> int" where
  "trunc_zero x = (if 0 \<le> x then \<lfloor>x\<rfloor> else \<lceil>x\<rceil>)"

section \<open>Packet types\<close>

definition PushData :: byte where "PushData = 0"
definition PushACK :: byte where "PushACK = 1"
definition PullData :: byte where "PullData = 2"
definition PullResp :: byte where "PullResp = 3"
definition PullACK :: byte where "PullACK = 4"
definition TXACK :: byte where "TXACK = 5"

lemmas packet_types = PushData_def PushACK_def PullData_def PullResp_def PullACK_def TXACK_def

definition ErrInvalidProtocolVersion :: go_error where
  "ErrInvalidProtocolVersion = Errorf ''gateway: invalid protocol version''"

definition protocolSupported :: "u8 \<Rightarrow> bool" where
  "protocolSupported p \<longleftrightarrow> p = 1 \<or> p = 2"

definition GetPacketType :: "bytes \<Rightarrow> byte result" where
  "GetPacketType data =
     (if length data < 4 then Inl (Errorf ''gateway: at least 4 bytes of data are expected'')
      else if \<not> protocolSupported (data ! 0) then Inl ErrInvalidProtocolVersion
      else Inr (data ! 3))"

text \<open>The four bytes all packets start with, and the checks all decoders make on them.\<close>

definition packet_header :: "u8 \<Rightarrow> u16 \<Rightarrow> byte \<Rightarrow> bytes" where
  "packet_header version token ty = version # le_put_uint16 token @ [ty]"

definition read_header :: "byte \<Rightarrow> bytes \<Rightarrow> (u8 \<times> u16) result" where
  "read_header ty data =
     (if data ! 3 \<noteq> ty then Inl (Errorf ''gateway: identifier mismatch'')
      else if \<not> protocolSupported (data ! 0) then Inl ErrInvalidProtocolVersion
      else Inr (data ! 0, le_uint16 (data ! 1) (data ! 2)))"

section \<open>Acknowledgements and polls\<close>

record ack_packet =
  pk_ProtocolVersion :: u8
  pk_RandomToken :: u16

definition PullACK_MarshalBinary :: "ack_packet \<Rightarrow> bytes" where
  "PullACK_MarshalBinary p = packet_header (pk_ProtocolVersion p) (pk_RandomToken p) PullACK"

definition PullACK_UnmarshalBinary :: "bytes \<Rightarrow> ack_packet result" where
  "PullACK_UnmarshalBinary data =
     (if length data \<noteq> 4 then Inl (Errorf ''gateway: 4 bytes of data are expected'')
      else map_sum (\<lambda>e. e) (\<lambda>(v, t). \<lparr>pk_ProtocolVersion = v, pk_RandomToken = t\<rparr>) (read_header PullACK data))"

definition PushACK_MarshalBinary :: "ack_packet \<Rightarrow> bytes" where
  "PushACK_MarshalBinary p = packet_header (pk_ProtocolVersion p) (pk_RandomToken p) PushACK"

definition PushACK_UnmarshalBinary :: "bytes \<Rightarrow> ack_packet result" where
  "PushACK_UnmarshalBinary data =
     (if length data \<noteq> 4 then Inl (Errorf ''gateway: 4 bytes of data are expected'')
      else map_sum (\<lambda>e. e) (\<lambda>(v, t). \<lparr>pk_ProtocolVersion = v, pk_RandomToken = t\<rparr>) (read_header PushACK data))"

record PullDataPacket =
  pd_ProtocolVersion :: u8
  pd_RandomToken :: u16
  pd_GatewayMAC :: eui64

definition PullData_MarshalBinary :: "PullDataPacket \<Rightarrow> bytes" where
  "PullData_MarshalBinary p =
     packet_header (pd_ProtocolVersion p) (pd_RandomToken p) PullData @ eui_bytes (pd_GatewayMAC p)"

definition PullData_UnmarshalBinary :: "bytes \<Rightarrow> PullDataPacket result" where
  "PullData_UnmarshalBinary data =
     (if length data \<noteq> 12 then Inl (Errorf ''gateway: 12 bytes of data are expected'')
      else map_sum (\<lambda>e. e) (\<lambda>(v, t).
             \<lparr>pd_ProtocolVersion = v, pd_RandomToken = t, pd_GatewayMAC = eui_of_bytes (take 8 (drop 4 data))\<rparr>)
             (read_header PullData data))"

section \<open>Data rates\<close>

record DatR =
  dr_LRFHSS :: string
  dr_LoRa :: string
  dr_FSK :: u32

definition DatR_zero :: DatR where
  "DatR_zero = \<lparr>dr_LRFHSS = [], dr_LoRa = [], dr_FSK = 0\<rparr>"

definition is_digit :: "char \<Rightarrow> bool" where
  "is_digit c \<longleftrightarrow> 48 \<le> (of_char c :: nat) \<and> (of_char c :: nat) \<le> 57"

definition digit_value :: "char \<Rightarrow> nat" where
  "digit_value c = of_char c - 48"

definition digits_value :: "string \<Rightarrow> nat" where
  "digits_value s = foldl (\<lambda>v c. 10 * v + digit_value c) 0 s"

text \<open>\<^verbatim>\<open>strconv.ParseUint(s, 10, 32)\<close>, without the reason why it fails.\<close>

definition ParseUint32 :: "string \<Rightarrow> u32 option" where
  "ParseUint32 s =
     (if s \<noteq> [] \<and> list_all is_digit s \<and> digits_value s < 2 ^ 32 then Some (of_nat (digits_value s)) else None)"

definition quote :: char where "quote = CHR 0x22"

definition trim_quotes :: "string \<Rightarrow> string" where
  "trim_quotes s = rev (dropWhile (\<lambda>c. c = quote) (rev (dropWhile (\<lambda>c. c = quote) s)))"

definition DatR_MarshalJSON :: "DatR \<Rightarrow> string" where
  "DatR_MarshalJSON d =
     (if dr_LoRa d \<noteq> [] then quote # dr_LoRa d @ [quote]
      else if dr_LRFHSS d \<noteq> [] then quote # dr_LRFHSS d @ [quote]
      else show_nat (unat (dr_FSK d)))"

definition DatR_UnmarshalJSON :: "string \<Rightarrow> DatR \<Rightarrow> DatR" where
  "DatR_UnmarshalJSON data d =
     (case ParseUint32 data of
        None \<Rightarrow>
          let str = trim_quotes data
          in if take 2 str = ''SF'' then d\<lparr>dr_LoRa := str\<rparr> else d\<lparr>dr_LRFHSS := str\<rparr>
      | Some i \<Rightarrow> d\<lparr>dr_FSK := i\<rparr>)"

section \<open>Received packets\<close>

record RSig =
  sg_Ant :: u8
  sg_Chan :: u8
  sg_RSSIC :: int
  sg_LSNR :: u32

record RXPK =
  rx_Time :: "time option"
  rx_Tmms :: "int option"
  rx_Tmst :: u32
  rx_FTime :: "u32 option"
  rx_Chan :: u8
  rx_RFCh :: u8
  rx_Stat :: int
  rx_Freq :: rat
  rx_Brd :: u32
  rx_RSSI :: int
  rx_DatR :: DatR
  rx_CodR :: string
  rx_LSNR :: rat
  rx_HPW :: u8
  rx_Data :: bytes
  rx_RSig :: "RSig list"
  rx_Meta :: "string \<rightharpoonup> string"

record Stat =
  st_Time :: time
  st_Lati :: rat
  st_Long :: rat
  st_Alti :: int
  st_RXNb :: u32
  st_RXOK :: u32
  st_DWNb :: u32
  st_TXNb :: u32
  st_Meta :: "string \<rightharpoonup> string"

record PushDataPayload =
  pp_RXPK :: "RXPK list"
  pp_Stat :: "Stat option"

record PushDataPacket =
  pu_ProtocolVersion :: u8
  pu_RandomToken :: u16
  pu_GatewayMAC :: eui64
  pu_Payload :: PushDataPayload

record TXPK =
  tx_Imme :: bool
  tx_Powe :: u8
  tx_Ant :: u8
  tx_Brd :: u32
  tx_Tmst :: "u32 option"
  tx_Tmms :: "int option"
  tx_Freq :: rat
  tx_Modu :: string
  tx_DatR :: DatR
  tx_CodR :: string
  tx_FDev :: u16
  tx_IPol :: bool
  tx_Size :: u16
  tx_Data :: bytes

record PullRespPacket =
  pr_ProtocolVersion :: u8
  pr_RandomToken :: u16
  pr_TXPK :: TXPK

text \<open>A TX\_ACK payload is its error text.\<close>

record TXACKPacket =
  ta_ProtocolVersion :: u8
  ta_RandomToken :: u16
  ta_GatewayMAC :: eui64
  ta_Payload :: "string option"

text \<open>The JSON package on the three payloads, and the conversion of a float64 to a float32.\<close>

record json_lib =
  js_PushData_Marshal :: "PushDataPayload \<Rightarrow> bytes result"
  js_PushData_Unmarshal :: "bytes \<Rightarrow> PushDataPayload result"
  js_PullResp_Marshal :: "TXPK \<Rightarrow> bytes result"
  js_PullResp_Unmarshal :: "bytes \<Rightarrow> TXPK result"
  js_TXACK_Marshal :: "string \<Rightarrow> bytes result"
  js_TXACK_Unmarshal :: "bytes \<Rightarrow> string result"
  js_float32 :: "rat \<Rightarrow> u32"

definition PushData_MarshalBinary :: "json_lib \<Rightarrow> PushDataPacket \<Rightarrow> bytes result" where
  "PushData_MarshalBinary J p =
     map_sum (\<lambda>e. e) (\<lambda>pb. packet_header (pu_ProtocolVersion p) (pu_RandomToken p) PushData @ eui_bytes (pu_GatewayMAC p) @ pb)
       (js_PushData_Marshal J (pu_Payload p))"

definition PushData_UnmarshalBinary :: "json_lib \<Rightarrow> bytes \<Rightarrow> PushDataPacket result" where
  "PushData_UnmarshalBinary J data =
     (if length data < 13 then Inl (Errorf ''at least 13 bytes are expected'')
      else case read_header PushData data of
             Inl err \<Rightarrow> Inl err
           | Inr (v, t) \<Rightarrow>
               map_sum (\<lambda>e. e) (\<lambda>payload. \<lparr>pu_ProtocolVersion = v, pu_RandomToken = t,
                   pu_GatewayMAC = eui_of_bytes (take 8 (drop 4 data)), pu_Payload = payload\<rparr>)
                 (js_PushData_Unmarshal J (drop 12 data)))"

text \<open>The token is left out in version 1 of the protocol.\<close>

definition PullResp_MarshalBinary :: "json_lib \<Rightarrow> PullRespPacket \<Rightarrow> bytes result" where
  "PullResp_MarshalBinary J p =
     map_sum (\<lambda>e. e) (\<lambda>pb. packet_header (pr_ProtocolVersion p)
         (if pr_ProtocolVersion p \<noteq> 1 then pr_RandomToken p else 0) PullResp @ pb)
       (js_PullResp_Marshal J (pr_TXPK p))"

definition PullResp_UnmarshalBinary :: "json_lib \<Rightarrow> bytes \<Rightarrow> PullRespPacket result" where
  "PullResp_UnmarshalBinary J data =
     (if length data < 5 then Inl (Errorf ''gateway: at least 5 bytes of data are expected'')
      else case read_header PullResp data of
             Inl err \<Rightarrow> Inl err
           | Inr (v, t) \<Rightarrow>
               map_sum (\<lambda>e. e) (\<lambda>txpk. \<lparr>pr_ProtocolVersion = v, pr_RandomToken = t, pr_TXPK = txpk\<rparr>)
                 (js_PullResp_Unmarshal J (drop 4 data)))"

definition TXACK_MarshalBinary :: "json_lib \<Rightarrow> TXACKPacket \<Rightarrow> bytes result" where
  "TXACK_MarshalBinary J p =
     map_sum (\<lambda>e. e) (\<lambda>pb. packet_header (ta_ProtocolVersion p) (ta_RandomToken p) TXACK @ eui_bytes (ta_GatewayMAC p) @ pb)
       (case ta_Payload p of None \<Rightarrow> Inr [] | Some payload \<Rightarrow> js_TXACK_Marshal J payload)"

definition TXACK_UnmarshalBinary :: "json_lib \<Rightarrow> bytes \<Rightarrow> TXACKPacket result" where
  "TXACK_UnmarshalBinary J data =
     (if length data < 12 then Inl (Errorf ''gateway: at least 12 bytes of data are expected'')
      else case read_header TXACK data of
             Inl err \<Rightarrow> Inl err
           | Inr (v, t) \<Rightarrow>
               let p = \<lparr>ta_ProtocolVersion = v, ta_RandomToken = t, ta_GatewayMAC = eui_of_bytes (take 8 (drop 4 data)),
                        ta_Payload = None\<rparr>
               in if length data > 13
                  then map_sum (\<lambda>e. e) (\<lambda>payload. p\<lparr>ta_Payload := Some payload\<rparr>) (js_TXACK_Unmarshal J (drop 12 data))
                  else Inr p)"

section \<open>Uplinks\<close>

text \<open>\<open>match_number kw s\<close> reads the keyword and a number from the start of \<open>s\<close>; the regular expressions are
  matched at the first place where they fit.\<close>

definition match_number :: "string \<Rightarrow> string \<Rightarrow> (string \<times> string) option" where
  "match_number kw s =
     (if take (length kw) s = kw
      then let rest = drop (length kw) s; ds = takeWhile is_digit rest
           in if ds = [] then None else Some (ds, dropWhile is_digit rest)
      else None)"

fun find_match :: "(string \<Rightarrow> 'a option) \<Rightarrow> string \<Rightarrow> 'a option" where
  "find_match m [] = m []"
| "find_match m (c # s) = (case m (c # s) of Some a \<Rightarrow> Some a | None \<Rightarrow> find_match m s)"

definition loRaDataRate :: "string \<Rightarrow> (string \<times> string) option" where
  "loRaDataRate = find_match (\<lambda>s.
     case match_number ''SF'' s of
       None \<Rightarrow> None
     | Some (sf, rest) \<Rightarrow> (case match_number ''BW'' rest of None \<Rightarrow> None | Some (bw, _) \<Rightarrow> Some (sf, bw)))"

definition lrFHSSDataRate :: "string \<Rightarrow> string option" where
  "lrFHSSDataRate = find_match (\<lambda>s. case match_number ''M0CW'' s of None \<Rightarrow> None | Some (cw, _) \<Rightarrow> Some cw)"

definition Atoi :: "string \<Rightarrow> int result" where
  "Atoi s = (if digits_value s < 2 ^ 63 then Inr (int (digits_value s)) else Inl (Errorf ''value out of range''))"

definition code_rate_of :: "string \<Rightarrow> code_rate option" where
  "code_rate_of c =
     (if c = ''4/5'' then Some CR_4_5 else if c = ''4/6'' then Some CR_4_6 else if c = ''4/7'' then Some CR_4_7
      else if c = ''4/8'' then Some CR_4_8 else if c = ''3/8'' then Some CR_3_8 else if c = ''2/6'' then Some CR_2_6
      else if c = ''1/4'' then Some CR_1_4 else if c = ''1/6'' then Some CR_1_6 else if c = ''5/6'' then Some CR_5_6
      else if c = ''4/5LI'' then Some CR_LI_4_5 else if c = ''4/6LI'' then Some CR_LI_4_6
      else if c = ''4/8LI'' then Some CR_LI_4_8 else None)"

definition lora_params :: "RXPK \<Rightarrow> modulation result" where
  "lora_params rxpk =
     (case loRaDataRate (dr_LoRa (rx_DatR rxpk)) of
        None \<Rightarrow> Inl (Errorf ''could not parse LoRa data-rate'')
      | Some (sfs, bws) \<Rightarrow>
          (case Atoi sfs of
             Inl err \<Rightarrow> Inl err
           | Inr sf \<Rightarrow>
               (case Atoi bws of
                  Inl err \<Rightarrow> Inl err
                | Inr bw \<Rightarrow>
                    (case code_rate_of (rx_CodR rxpk) of
                       None \<Rightarrow> Inl (Errorf ''invalid CodR'')
                     | Some cr \<Rightarrow>
                         Inr (Modulation_Lora \<lparr>lm_Bandwidth = word_of_int bw * 1000, lm_SpreadingFactor = word_of_int sf,
                                lm_CodeRate = cr, lm_PolarizationInversion = False\<rparr>)))))"

definition lr_fhss_params :: "RXPK \<Rightarrow> modulation result" where
  "lr_fhss_params rxpk =
     (case lrFHSSDataRate (dr_LRFHSS (rx_DatR rxpk)) of
        None \<Rightarrow> Inl (Errorf ''could not parse LR-FHSS data-rate'')
      | Some cws \<Rightarrow>
          (case Atoi cws of
             Inl err \<Rightarrow> Inl err
           | Inr ocw \<Rightarrow>
               (case code_rate_of (rx_CodR rxpk) of
                  None \<Rightarrow> Inl (Errorf ''invalid CodR'')
                | Some cr \<Rightarrow>
                    Inr (Modulation_LrFhss \<lparr>lf_OperatingChannelWidth = word_of_int ocw * 1000, lf_CodeRate = cr,
                           lf_GridSteps = ucast (rx_HPW rxpk)\<rparr>))))"

text \<open>The data rate sections of the code, each of which overwrites the modulation of the one before.\<close>

definition uplink_modulation :: "RXPK \<Rightarrow> modulation option result" where
  "uplink_modulation rxpk =
     (case (if dr_LoRa (rx_DatR rxpk) \<noteq> [] then map_sum (\<lambda>e. e) Some (lora_params rxpk) else Inr None) of
        Inl err \<Rightarrow> Inl err
      | Inr m1 \<Rightarrow>
          (case (if dr_LRFHSS (rx_DatR rxpk) \<noteq> [] then map_sum (\<lambda>e. e) Some (lr_fhss_params rxpk) else Inr m1) of
             Inl err \<Rightarrow> Inl err
           | Inr m2 \<Rightarrow>
               Inr (if dr_FSK (rx_DatR rxpk) \<noteq> 0
                    then Some (Modulation_Fsk \<lparr>fm_FrequencyDeviation = 0, fm_Datarate = dr_FSK (rx_DatR rxpk)\<rparr>)
                    else m2)))"

definition zero_time :: time where
  "zero_time = - 62135596800 * second"

definition rx_time :: "time \<Rightarrow> bool \<Rightarrow> RXPK \<Rightarrow> time option" where
  "rx_time now fakeRxInfoTime rxpk =
     (case rx_Time rxpk of
        Some t \<Rightarrow> if t \<noteq> zero_time then Some t else if fakeRxInfoTime then Some now else None
      | None \<Rightarrow> if fakeRxInfoTime then Some now else None)"

definition gps_time :: "RXPK \<Rightarrow> duration option" where
  "gps_time rxpk = map_option (\<lambda>tmms. i64 (tmms * millisecond)) (rx_Tmms rxpk)"

definition fine_time :: "RXPK \<Rightarrow> duration option" where
  "fine_time rxpk =
     (case (gps_time rxpk, rx_FTime rxpk) of
        (Some d, Some ns) \<Rightarrow> Some (i64 (d - d smod second + uint ns))
      | _ \<Rightarrow> None)"

definition stat_location :: "Stat option \<Rightarrow> location option" where
  "stat_location stat =
     (case stat of
        None \<Rightarrow> None
      | Some st \<Rightarrow>
          if st_Lati st \<noteq> 0 \<or> st_Long st \<noteq> 0 \<or> st_Alti st \<noteq> 0
          then Some \<lparr>loc_Latitude = st_Lati st, loc_Longitude = st_Long st, loc_Altitude = of_int (st_Alti st)\<rparr>
          else None)"

definition getUplinkFrame ::
  "lorawan_lib \<Rightarrow> json_lib \<Rightarrow> time \<Rightarrow> eui64 \<Rightarrow> Stat option \<Rightarrow> RXPK \<Rightarrow> bool \<Rightarrow> uplink_frame result" where
  "getUplinkFrame L J now gatewayID stat rxpk fakeRxInfoTime =
     map_sum (\<lambda>e. e) (\<lambda>modulation.
       \<lparr>uf_PhyPayload = rx_Data rxpk,
        uf_TxInfo = Some \<lparr>ti_Frequency = word_of_int (trunc_zero (f64 (rx_Freq rxpk * 1000000))), ti_Modulation = modulation\<rparr>,
        uf_RxInfo = Some
          \<lparr>ri_GatewayId = eui_String L gatewayID, ri_UplinkId = 0, ri_Rssi = rx_RSSI rxpk, ri_Snr = js_float32 J (rx_LSNR rxpk),
           ri_Channel = ucast (rx_Chan rxpk), ri_RfChain = ucast (rx_RFCh rxpk), ri_Board = rx_Brd rxpk, ri_Antenna = 0,
           ri_CrcStatus = (if rx_Stat rxpk = 1 then CRC_OK else if rx_Stat rxpk = - 1 then BAD_CRC else NO_CRC),
           ri_Time = rx_time now fakeRxInfoTime rxpk, ri_TimeSinceGpsEpoch = gps_time rxpk,
           ri_FineTimeSinceGpsEpoch = fine_time rxpk, ri_Context = be_put_uint32 (rx_Tmst rxpk),
           ri_Location = stat_location stat, ri_Metadata = rx_Meta rxpk\<rparr>\<rparr>)
       (uplink_modulation rxpk)"

text \<open>Both write through \<^verbatim>\<open>frame.RxInfo\<close>, which \<^verbatim>\<open>getUplinkFrame\<close> has set.\<close>

definition update_rx_info :: "(uplink_rx_info \<Rightarrow> uplink_rx_info) \<Rightarrow> uplink_frame \<Rightarrow> uplink_frame" where
  "update_rx_info f frame = frame\<lparr>uf_RxInfo := map_option f (uf_RxInfo frame)\<rparr>"

definition setUplinkFrameRSig :: "RSig \<Rightarrow> uplink_frame \<Rightarrow> uplink_frame" where
  "setUplinkFrameRSig rSig =
     update_rx_info (\<lambda>ri. ri\<lparr>ri_Antenna := ucast (sg_Ant rSig), ri_Channel := ucast (sg_Chan rSig),
                             ri_Rssi := sg_RSSIC rSig, ri_Snr := sg_LSNR rSig\<rparr>)"

definition set_uplink_id :: "u16 \<Rightarrow> uplink_frame \<Rightarrow> uplink_frame" where
  "set_uplink_id token = update_rx_info (\<lambda>ri. ri\<lparr>ri_UplinkId := ucast token\<rparr>)"

fun rsig_loop :: "uplink_frame result \<Rightarrow> u16 \<Rightarrow> RSig list \<Rightarrow> uplink_frame list \<Rightarrow> uplink_frame list result" where
  "rsig_loop made token [] frames = Inr frames"
| "rsig_loop made token (rSig # rs) frames =
     (case made of
        Inl err \<Rightarrow> Inl (Errorf ''get uplink frame error'')
      | Inr frame \<Rightarrow> rsig_loop made token rs (frames @ [set_uplink_id token (setUplinkFrameRSig rSig frame)]))"

fun rxpk_loop ::
  "(RXPK \<Rightarrow> uplink_frame result) \<Rightarrow> bool \<Rightarrow> u16 \<Rightarrow> RXPK list \<Rightarrow> uplink_frame list \<Rightarrow> uplink_frame list result" where
  "rxpk_loop mk skipCRCCheck token [] frames = Inr frames"
| "rxpk_loop mk skipCRCCheck token (rxpk # rxpks) frames =
     (if rx_Stat rxpk \<noteq> 1 \<and> \<not> skipCRCCheck then rxpk_loop mk skipCRCCheck token rxpks frames
      else if rx_RSig rxpk = []
      then (case mk rxpk of
              Inl err \<Rightarrow> Inl (Errorf ''get uplink frame error'')
            | Inr frame \<Rightarrow> rxpk_loop mk skipCRCCheck token rxpks (frames @ [set_uplink_id token frame]))
      else (case rsig_loop (mk rxpk) token (rx_RSig rxpk) frames of
              Inl err \<Rightarrow> Inl err
            | Inr frames \<Rightarrow> rxpk_loop mk skipCRCCheck token rxpks frames))"

definition GetUplinkFrames ::
  "lorawan_lib \<Rightarrow> json_lib \<Rightarrow> time \<Rightarrow> bool \<Rightarrow> bool \<Rightarrow> PushDataPacket \<Rightarrow> uplink_frame list result" where
  "GetUplinkFrames L J now skipCRCCheck fakeRxInfoTime p =
     rxpk_loop (\<lambda>rxpk. getUplinkFrame L J now (pu_GatewayMAC p) (pp_Stat (pu_Payload p)) rxpk fakeRxInfoTime)
       skipCRCCheck (pu_RandomToken p) (pp_RXPK (pu_Payload p)) []"

section \<open>Downlinks\<close>

definition code_rate_text :: "code_rate \<Rightarrow> string option" where
  "code_rate_text c =
     (case c of CR_4_5 \<Rightarrow> Some ''4/5'' | CR_4_6 \<Rightarrow> Some ''4/6'' | CR_4_7 \<Rightarrow> Some ''4/7'' | CR_4_8 \<Rightarrow> Some ''4/8''
      | CR_LI_4_5 \<Rightarrow> Some ''4/5LI'' | CR_LI_4_6 \<Rightarrow> Some ''4/6LI'' | CR_LI_4_8 \<Rightarrow> Some ''4/8LI'' | _ \<Rightarrow> None)"

definition lora_text :: "lora_modulation \<Rightarrow> string" where
  "lora_text lora = ''SF'' @ show_nat (unat (lm_SpreadingFactor lora)) @ ''BW'' @ show_nat (unat (lm_Bandwidth lora div 1000))"

definition txpk_modulation :: "modulation option \<Rightarrow> TXPK \<Rightarrow> TXPK result" where
  "txpk_modulation m txpk =
     (case m of
        Some (Modulation_Lora lora) \<Rightarrow>
          (case code_rate_text (lm_CodeRate lora) of
             None \<Rightarrow> Inl (Errorf ''invalid CodeRate'')
           | Some codr \<Rightarrow>
               Inr (txpk\<lparr>tx_Modu := ''LORA'', tx_DatR := (tx_DatR txpk)\<lparr>dr_LoRa := lora_text lora\<rparr>,
                         tx_IPol := lm_PolarizationInversion lora, tx_CodR := codr\<rparr>))
      | Some (Modulation_Fsk fsk) \<Rightarrow>
          Inr (txpk\<lparr>tx_Modu := ''FSK'', tx_DatR := (tx_DatR txpk)\<lparr>dr_FSK := fm_Datarate fsk\<rparr>,
                    tx_FDev := ucast (fm_FrequencyDeviation fsk)\<rparr>)
      | _ \<Rightarrow> Inr txpk)"

definition duration_or_zero :: "duration option \<Rightarrow> duration" where
  "duration_or_zero d = (case d of None \<Rightarrow> 0 | Some d \<Rightarrow> d)"

definition context_timestamp :: "bytes \<Rightarrow> u32" where
  "context_timestamp ctx = be_uint32 (ctx ! 0) (ctx ! 1) (ctx ! 2) (ctx ! 3)"

definition txpk_timing :: "timing option \<Rightarrow> bytes \<Rightarrow> TXPK \<Rightarrow> TXPK result" where
  "txpk_timing t ctx txpk =
     (case t of
        None \<Rightarrow> Inr txpk
      | Some Immediately \<Rightarrow> Inr (txpk\<lparr>tx_Imme := True, tx_Tmst := Some 0\<rparr>)
      | Some (Delay d) \<Rightarrow>
          if length ctx < 4 then Inl (Errorf ''context must contain at least 4 bytes'')
          else Inr (txpk\<lparr>tx_Tmst := Some (context_timestamp ctx + word_of_int (duration_or_zero d sdiv 1000))\<rparr>)
      | Some (GpsEpoch d) \<Rightarrow> Inr (txpk\<lparr>tx_Tmms := Some (duration_or_zero d sdiv millisecond)\<rparr>))"

definition tx_info_or_zero :: "downlink_tx_info option \<Rightarrow> downlink_tx_info" where
  "tx_info_or_zero ti =
     (case ti of
        None \<Rightarrow> \<lparr>dti_Frequency = 0, dti_Power = 0, dti_Timing = None, dti_Modulation = None, dti_Context = [],
                 dti_Antenna = 0, dti_Board = 0\<rparr>
      | Some ti \<Rightarrow> ti)"

definition GetPullRespPacket :: "u8 \<Rightarrow> u16 \<Rightarrow> downlink_frame \<Rightarrow> nat \<Rightarrow> PullRespPacket result" where
  "GetPullRespPacket protoVersion randomToken frame index =
     (if index \<ge> length (df_Items frame) then Inl (Errorf ''invalid frame index'')
      else let item = df_Items frame ! index; txInfo = tx_info_or_zero (di_TxInfo item);
               txpk = \<lparr>tx_Imme = False, tx_Powe = word_of_int (dti_Power txInfo), tx_Ant = ucast (dti_Antenna txInfo),
                       tx_Brd = dti_Board txInfo, tx_Tmst = None, tx_Tmms = None,
                       tx_Freq = f64 (of_int (uint (dti_Frequency txInfo)) / 1000000), tx_Modu = [], tx_DatR = DatR_zero,
                       tx_CodR = [], tx_FDev = 0, tx_IPol = False, tx_Size = of_nat (length (di_PhyPayload item)),
                       tx_Data = di_PhyPayload item\<rparr>
           in case txpk_modulation (dti_Modulation txInfo) txpk of
                Inl err \<Rightarrow> Inl err
              | Inr txpk \<Rightarrow>
                  map_sum (\<lambda>e. e) (\<lambda>txpk. \<lparr>pr_ProtocolVersion = protoVersion, pr_RandomToken = randomToken, pr_TXPK = txpk\<rparr>)
                    (txpk_timing (dti_Timing txInfo) (dti_Context txInfo) txpk))"

section \<open>Facts on numbers\<close>

lemma le_uint16_put [simp]: "le_uint16 (ucast w) (ucast (drop_bit 8 w)) = w"
  by (rule bit_word_eqI)
    (auto simp: le_uint16_def bit_or_iff bit_push_bit_iff bit_ucast_iff bit_drop_bit_eq dest: bit_imp_le_length)

lemma floorlog_binade: "2 ^ k \<le> n \<Longrightarrow> n < 2 ^ Suc k \<Longrightarrow> floorlog 2 n = Suc k"
  using floorlog_leI[of n 2 "Suc k"] floorlog_ge_SucI[of 2 k n] by simp

lemma binade_eq:
  assumes "2 ^ k \<le> x" "x < 2 ^ Suc k"
  shows "binade x = int k"
proof -
  have one: "1 \<le> x" using assms(1) one_le_power[of "2 :: rat" k] by linarith
  have "(2 :: int) ^ k \<le> \<lfloor>x\<rfloor>" using assms(1) by (simp add: le_floor_iff)
  moreover have "\<lfloor>x\<rfloor> < (2 :: int) ^ Suc k" using assms(2) by (simp add: floor_less_iff)
  moreover obtain n where n: "\<lfloor>x\<rfloor> = int n" using one by (metis zero_le_floor le_trans zero_le_one nonneg_int_cases order.trans)
  ultimately have "int (2 ^ k) \<le> int n" "int n < int (2 ^ Suc k)" by simp_all
  then have "2 ^ k \<le> nat \<lfloor>x\<rfloor>" "nat \<lfloor>x\<rfloor> < 2 ^ Suc k" unfolding n of_nat_le_iff of_nat_less_iff by simp_all
  from floorlog_binade[OF this] one show ?thesis by (simp add: binade_def)
qed

lemma f64_eq:
  assumes "2 ^ k \<le> x" "x < 2 ^ Suc k" "k \<le> 52"
  shows "f64 x = of_int (round_half_even (x * 2 ^ (52 - k))) / 2 ^ (52 - k)"
proof -
  have "0 < x" using assms(1) by (meson less_le_trans zero_less_numeral zero_less_power)
  then show ?thesis
    using assms binade_eq[OF assms(1,2)] by (simp add: f64_def scale2_def Let_def nat_diff_distrib')
qed

lemma round_half_even_error: "\<bar>of_int (round_half_even z) - z\<bar> \<le> 1 / 2"
proof -
  have "of_int \<lfloor>z\<rfloor> \<le> z" "z < of_int \<lfloor>z\<rfloor> + 1" using floor_correct[of z] by simp_all
  moreover have "round_half_even z = \<lfloor>z\<rfloor> \<and> z - of_int \<lfloor>z\<rfloor> \<le> 1 / 2 \<or>
      round_half_even z = \<lfloor>z\<rfloor> + 1 \<and> 1 / 2 \<le> z - of_int \<lfloor>z\<rfloor>"
    by (auto simp: round_half_even_def Let_def)
  ultimately show ?thesis by (elim disjE conjE) (simp_all add: abs_le_iff)
qed

lemma round_half_even_near:
  assumes "\<bar>z - of_int n\<bar> < 1 / 2"
  shows "round_half_even z = n"
proof -
  have "\<bar>of_int (round_half_even z) - (of_int n :: rat)\<bar> < 1"
    using round_half_even_error[of z] assms by linarith
  then have "\<bar>round_half_even z - n\<bar> < 1" by (simp flip: of_int_diff of_int_abs)
  then show ?thesis by simp
qed

lemma f64_error:
  assumes "2 ^ k \<le> x" "x < 2 ^ Suc k" "k \<le> 52"
  shows "\<bar>f64 x - x\<bar> \<le> 1 / 2 ^ (53 - k)"
proof -
  let ?m = "2 ^ (52 - k) :: rat"
  have "\<bar>of_int (round_half_even (x * ?m)) - x * ?m\<bar> / ?m \<le> (1 / 2) / ?m"
    by (rule divide_right_mono[OF round_half_even_error]) simp
  moreover have "f64 x - x = (of_int (round_half_even (x * ?m)) - x * ?m) / ?m"
    by (simp add: f64_eq[OF assms] diff_divide_distrib)
  ultimately have "\<bar>f64 x - x\<bar> \<le> (1 / 2) / ?m" by (simp add: abs_divide)
  also have "(53 - k) = Suc (52 - k)" using assms(3) by simp
  then have "(1 / 2) / ?m = 1 / 2 ^ (53 - k)" by simp
  finally show ?thesis .
qed

lemma f64_near_int:
  assumes "2 ^ k \<le> y" "y < 2 ^ Suc k" "k \<le> 52" "\<bar>y - of_int n\<bar> < 1 / 2 ^ (53 - k)"
  shows "f64 y = of_int n"
proof -
  let ?m = "2 ^ (52 - k) :: rat"
  have "(53 - k) = Suc (52 - k)" using assms(3) by simp
  then have "1 / 2 ^ (53 - k) * ?m = (1 / 2 :: rat)" by simp
  moreover have "\<bar>y - of_int n\<bar> * ?m < 1 / 2 ^ (53 - k) * ?m" by (rule mult_strict_right_mono[OF assms(4)]) simp
  moreover have "\<bar>y - of_int n\<bar> * ?m = \<bar>y * ?m - of_int (n * 2 ^ (52 - k))\<bar>"
    by (simp add: abs_mult flip: left_diff_distrib)
  ultimately have "round_half_even (y * ?m) = n * 2 ^ (52 - k)" by (intro round_half_even_near) simp
  then show ?thesis by (simp add: f64_eq[OF assms(1-3)])
qed

text \<open>Dividing by a million and multiplying again is exact where the product has at most twenty
  bits less precision than the quotient.\<close>

lemma mhz_exact:
  assumes "2 ^ k \<le> (of_int f / 1000000 :: rat)" "of_int f / 1000000 < (2 ^ Suc k :: rat)"
    and "2 ^ (k + 20) < f" "f < 2 ^ (k + 21) - 1" "k \<le> 20"
  shows "f64 (f64 (of_int f / 1000000) * 1000000) = of_int f"
proof -
  let ?x = "of_int f / 1000000 :: rat" and ?e = "1 / 2 ^ (53 - k) :: rat"
  let ?y = "f64 ?x * 1000000"
  have "\<bar>f64 ?x - ?x\<bar> \<le> ?e" using f64_error[OF assms(1,2)] assms(5) by simp
  then have "\<bar>f64 ?x - ?x\<bar> * 1000000 \<le> ?e * 1000000" by (rule mult_right_mono) simp
  moreover have "\<bar>f64 ?x - ?x\<bar> * 1000000 = \<bar>?y - of_int f\<bar>" by (simp add: abs_if left_diff_distrib)
  moreover have small: "?e * 1000000 < 1 / 2 ^ (53 - (k + 20))"
  proof -
    define m where "m = 33 - k"
    have m: "53 - k = m + 20" "53 - (k + 20) = m" using assms(5) by (simp_all add: m_def)
    have "(0 :: rat) < 1 / 2 ^ m" by simp
    then show ?thesis unfolding m by (simp add: power_add field_simps)
  qed
  ultimately have near: "\<bar>?y - of_int f\<bar> < 1 / 2 ^ (53 - (k + 20))" by linarith
  then have one: "\<bar>?y - of_int f\<bar> < 1" by (rule less_le_trans) simp
  have "of_int (2 ^ (k + 20) + 1) \<le> (of_int f :: rat)" "of_int (f + 1) \<le> (of_int (2 ^ (k + 21)) :: rat)"
    unfolding of_int_le_iff using assms(3,4) by linarith+
  then have "(2 ^ (k + 20) + 1 :: rat) \<le> of_int f" "(of_int f :: rat) + 1 \<le> 2 ^ (k + 21)" by simp_all
  moreover have "of_int f - 1 < ?y" "?y < of_int f + 1" using one by (simp_all add: abs_less_iff)
  moreover have "(2 ^ Suc (k + 20) :: rat) = 2 ^ (k + 21)" by simp
  ultimately have "2 ^ (k + 20) \<le> ?y" "?y < 2 ^ Suc (k + 20)" by linarith+
  from f64_near_int[OF this _ near] assms(5) show ?thesis by simp
qed

section \<open>Facts on packets\<close>

lemma length_packet_header [simp]: "length (packet_header v t ty) = 4"
  by (simp add: packet_header_def le_put_uint16_def)

lemma read_packet_header:
  "read_header ty (packet_header v t ty' @ rest) =
     (if ty' \<noteq> ty then Inl (Errorf ''gateway: identifier mismatch'')
      else if \<not> protocolSupported v then Inl ErrInvalidProtocolVersion else Inr (v, t))"
  by (simp add: read_header_def packet_header_def le_put_uint16_def)

lemma read_packet_header_only:
  "read_header ty (packet_header v t ty') = read_header ty (packet_header v t ty' @ [])"
  by simp

lemma packet_header_parts [simp]:
  "take 8 (drop 4 (packet_header v t ty @ eui_bytes mac @ rest)) = eui_bytes mac"
  "drop 12 (packet_header v t ty @ eui_bytes mac @ rest) = rest"
  by simp_all

lemma GetPullRespPacket_header:
  "GetPullRespPacket v t frame i = Inr p \<Longrightarrow> pr_ProtocolVersion p = v \<and> pr_RandomToken p = t \<and> i < length (df_Items frame)"
  by (auto simp: GetPullRespPacket_def Let_def map_sum_eq_Inr split: if_splits sum.splits)

text \<open>The list of uplinks as the loops build it.\<close>

definition rxpk_frames :: "(RXPK \<Rightarrow> uplink_frame result) \<Rightarrow> u16 \<Rightarrow> RXPK \<Rightarrow> uplink_frame list" where
  "rxpk_frames mk token rxpk =
     (case mk rxpk of
        Inl err \<Rightarrow> []
      | Inr frame \<Rightarrow>
          if rx_RSig rxpk = [] then [set_uplink_id token frame]
          else map (\<lambda>rSig. set_uplink_id token (setUplinkFrameRSig rSig frame)) (rx_RSig rxpk))"

lemma rsig_loop_eq:
  "rsig_loop (Inr frame) token rs frames =
     Inr (frames @ map (\<lambda>rSig. set_uplink_id token (setUplinkFrameRSig rSig frame)) rs)"
  by (induction rs arbitrary: frames) simp_all

lemma rsig_loop_error: "rs \<noteq> [] \<Longrightarrow> rsig_loop (Inl e) token rs frames = Inl (Errorf ''get uplink frame error'')"
  by (cases rs) simp_all

lemma rxpk_loop_eq:
  "rxpk_loop mk skipCRC token rxpks frames =
     (if \<exists>rxpk \<in> set rxpks. (rx_Stat rxpk = 1 \<or> skipCRC) \<and> isl (mk rxpk) then Inl (Errorf ''get uplink frame error'')
      else Inr (frames @ concat (map (rxpk_frames mk token) (filter (\<lambda>rxpk. rx_Stat rxpk = 1 \<or> skipCRC) rxpks))))"
proof (induction rxpks arbitrary: frames)
  case (Cons r rxpks)
  show ?case
  proof (cases "mk r")
    case (Inl e)
    then show ?thesis using Cons by (auto simp: rsig_loop_error)
  next
    case (Inr frame)
    then show ?thesis using Cons by (auto simp: rsig_loop_eq rxpk_frames_def[of mk token r])
  qed
qed simp

lemma update_rx_info_sel [simp]:
  "uf_PhyPayload (update_rx_info f frame) = uf_PhyPayload frame" "uf_TxInfo (update_rx_info f frame) = uf_TxInfo frame"
  "uf_RxInfo (update_rx_info f frame) = map_option f (uf_RxInfo frame)"
  by (simp_all add: update_rx_info_def)

lemma length_be_put_uint32 [simp]: "length (be_put_uint32 w) = 4"
  by (simp add: be_put_uint32_def)

lemma context_timestamp_put [simp]: "context_timestamp (be_put_uint32 w) = w"
  by (simp add: context_timestamp_def be_put_uint32_def)

section \<open>Data rates as text\<close>

lemma digit_char [simp]: "d < 10 \<Longrightarrow> is_digit (char_of (48 + d))" "d < 10 \<Longrightarrow> digit_value (char_of (48 + d)) = d"
proof -
  assume d: "d < 10"
  then show "is_digit (char_of (48 + d))" by (simp add: is_digit_def)
  show "digit_value (char_of (48 + d)) = d" using d by (simp add: digit_value_def)
qed

lemma show_nat_digits: "list_all is_digit (show_nat n) \<and> show_nat n \<noteq> []"
proof (induction n rule: show_nat.induct)
  case (1 n)
  then show ?case by (subst show_nat.simps, subst (2) show_nat.simps) simp
qed

lemma digits_value_snoc: "digits_value (s @ [c]) = 10 * digits_value s + digit_value c"
  by (simp add: digits_value_def)

lemma digits_value_show [simp]: "digits_value (show_nat n) = n"
proof (induction n rule: show_nat.induct)
  case (1 n)
  show ?case
  proof (cases "n < 10")
    case True
    then show ?thesis by (subst show_nat.simps) (simp add: digits_value_def)
  next
    case False
    then show ?thesis using 1 by (subst show_nat.simps) (simp add: digits_value_snoc)
  qed
qed

text \<open>A number is read back from the start of a text that goes on with something else.\<close>

lemma match_number_show:
  assumes "rest = [] \<or> \<not> is_digit (hd rest)"
  shows "match_number kw (kw @ show_nat n @ rest) = Some (show_nat n, rest)"
proof -
  have "takeWhile is_digit (show_nat n @ rest) = show_nat n" "dropWhile is_digit (show_nat n @ rest) = rest"
    using show_nat_digits[of n] assms
    by (cases rest; simp add: takeWhile_append dropWhile_append list_all_iff)+
  then show ?thesis using show_nat_digits[of n] by (simp add: match_number_def Let_def)
qed

lemma loRaDataRate_text: "loRaDataRate (''SF'' @ show_nat a @ ''BW'' @ show_nat b) = Some (show_nat a, show_nat b)"
proof -
  have "match_number ''SF'' (''SF'' @ show_nat a @ ''BW'' @ show_nat b) = Some (show_nat a, ''BW'' @ show_nat b)"
    by (rule match_number_show) (simp add: is_digit_def)
  moreover have "match_number ''BW'' (''BW'' @ show_nat b) = Some (show_nat b, [])"
    using match_number_show[of "[]" "''BW''" b] by simp
  ultimately show ?thesis by (simp add: loRaDataRate_def)
qed

lemma trim_quotes_quoted:
  assumes "s \<noteq> []" "hd s \<noteq> quote" "last s \<noteq> quote"
  shows "trim_quotes (quote # s @ [quote]) = s"
proof -
  have "dropWhile (\<lambda>c. c = quote) (s @ [quote]) = s @ [quote]" using assms by (cases s) auto
  moreover have "dropWhile (\<lambda>c. c = quote) (rev s) = rev s"
    using assms by (cases "rev s") (auto simp: hd_rev[symmetric])
  ultimately show ?thesis by (simp add: trim_quotes_def)
qed

lemma code_rate_of_simps:
  "code_rate_of ''4/5'' = Some CR_4_5" "code_rate_of ''4/6'' = Some CR_4_6" "code_rate_of ''4/7'' = Some CR_4_7"
  "code_rate_of ''4/8'' = Some CR_4_8" "code_rate_of ''4/5LI'' = Some CR_LI_4_5" "code_rate_of ''4/6LI'' = Some CR_LI_4_6"
  "code_rate_of ''4/8LI'' = Some CR_LI_4_8"
  by (simp_all add: code_rate_of_def)

lemma code_rate_text_back: "code_rate_text c = Some t \<Longrightarrow> code_rate_of t = Some c"
  by (cases c) (auto simp: code_rate_text_def code_rate_of_simps)

lemma lora_params_text:
  assumes "dr_LoRa (rx_DatR rxpk) = lora_text lora" "code_rate_text (lm_CodeRate lora) = Some (rx_CodR rxpk)"
    and "1000 dvd unat (lm_Bandwidth lora)"
  shows "lora_params rxpk = Inr (Modulation_Lora (lora\<lparr>lm_PolarizationInversion := False\<rparr>))"
proof -
  let ?bw = "lm_Bandwidth lora"
  have "of_nat (unat (?bw div 1000)) * 1000 = (of_nat (unat ?bw div 1000 * 1000) :: u32)" by (simp add: unat_div)
  then have bw: "of_nat (unat (?bw div 1000)) * 1000 = ?bw" using assms(3) by simp
  have atoi: "Atoi (show_nat (unat w)) = Inr (int (unat w))" for w :: u32
  proof -
    have "unat w < 2 ^ LENGTH(32)" by (rule unsigned_less)
    then show ?thesis by (simp add: Atoi_def)
  qed
  show ?thesis
    using assms(1,2) bw code_rate_text_back[OF assms(2)]
    by (simp add: lora_params_def lora_text_def loRaDataRate_text[simplified] atoi)
qed

text \<open>The frequencies at which the detour over megahertz is exact: all bands below one gigahertz that
  LoRaWAN uses.\<close>

definition exact_frequency :: "int \<Rightarrow> bool" where
  "exact_frequency f \<longleftrightarrow> 268435456 < f \<and> f < 512000000 \<or> 536870912 < f \<and> f < 1024000000"

lemma mhz_detour:
  assumes "exact_frequency f"
  shows "trunc_zero (f64 (f64 (of_int f / 1000000) * 1000000)) = f"
proof -
  have "f64 (f64 (of_int f / 1000000) * 1000000) = of_int f"
  proof (cases "f < 512000000")
    case True
    then have "268435457 \<le> f" "f \<le> 511999999" using assms by (auto simp: exact_frequency_def)
    then have "(268435457 :: rat) \<le> of_int f" "of_int f \<le> (511999999 :: rat)" by simp_all
    then show ?thesis using True assms by (intro mhz_exact[of 8]) (auto simp: exact_frequency_def)
  next
    case False
    then have "536870913 \<le> f" "f \<le> 1023999999" using assms by (auto simp: exact_frequency_def)
    then have "(536870913 :: rat) \<le> of_int f" "of_int f \<le> (1023999999 :: rat)" by simp_all
    then show ?thesis using False assms by (intro mhz_exact[of 9]) (auto simp: exact_frequency_def)
  qed
  moreover have "0 \<le> f" using assms by (auto simp: exact_frequency_def)
  ultimately show ?thesis by (simp add: trunc_zero_def)
qed

section \<open>Properties\<close>

text \<open>
  C14: packets survive the wire.  Each of the six packet types is read back from its bytes as it was written,
  for both protocol versions, provided that the JSON package reads back the payload it wrote; only the
  token of a PULL\_RESP is lost in version 1, as the protocol says.
\<close>

theorem packet_roundtrip:
  assumes "protocolSupported v"
    and "js_PushData_Marshal J up = Inr b1" "js_PushData_Unmarshal J b1 = Inr up" "b1 \<noteq> []"
    and "js_PullResp_Marshal J txpk = Inr b2" "js_PullResp_Unmarshal J b2 = Inr txpk" "b2 \<noteq> []"
    and "js_TXACK_Marshal J e = Inr b3" "js_TXACK_Unmarshal J b3 = Inr e" "2 \<le> length b3"
  shows "PullACK_UnmarshalBinary (PullACK_MarshalBinary \<lparr>pk_ProtocolVersion = v, pk_RandomToken = t\<rparr>) =
      Inr \<lparr>pk_ProtocolVersion = v, pk_RandomToken = t\<rparr> \<and>
    PushACK_UnmarshalBinary (PushACK_MarshalBinary \<lparr>pk_ProtocolVersion = v, pk_RandomToken = t\<rparr>) =
      Inr \<lparr>pk_ProtocolVersion = v, pk_RandomToken = t\<rparr> \<and>
    PullData_UnmarshalBinary (PullData_MarshalBinary \<lparr>pd_ProtocolVersion = v, pd_RandomToken = t, pd_GatewayMAC = mac\<rparr>) =
      Inr \<lparr>pd_ProtocolVersion = v, pd_RandomToken = t, pd_GatewayMAC = mac\<rparr> \<and>
    (\<exists>b. PushData_MarshalBinary J \<lparr>pu_ProtocolVersion = v, pu_RandomToken = t, pu_GatewayMAC = mac, pu_Payload = up\<rparr> = Inr b \<and>
       PushData_UnmarshalBinary J b = Inr \<lparr>pu_ProtocolVersion = v, pu_RandomToken = t, pu_GatewayMAC = mac, pu_Payload = up\<rparr>) \<and>
    (\<exists>b. PullResp_MarshalBinary J \<lparr>pr_ProtocolVersion = v, pr_RandomToken = t, pr_TXPK = txpk\<rparr> = Inr b \<and>
       PullResp_UnmarshalBinary J b =
         Inr \<lparr>pr_ProtocolVersion = v, pr_RandomToken = (if v = 1 then 0 else t), pr_TXPK = txpk\<rparr>) \<and>
    (\<forall>payload \<in> {None, Some e}. \<exists>b.
       TXACK_MarshalBinary J \<lparr>ta_ProtocolVersion = v, ta_RandomToken = t, ta_GatewayMAC = mac, ta_Payload = payload\<rparr> = Inr b \<and>
       TXACK_UnmarshalBinary J b =
         Inr \<lparr>ta_ProtocolVersion = v, ta_RandomToken = t, ta_GatewayMAC = mac, ta_Payload = payload\<rparr>)"
proof (intro conjI)
  show "PullACK_UnmarshalBinary (PullACK_MarshalBinary \<lparr>pk_ProtocolVersion = v, pk_RandomToken = t\<rparr>) =
      Inr \<lparr>pk_ProtocolVersion = v, pk_RandomToken = t\<rparr>"
    using assms(1) by (simp add: PullACK_UnmarshalBinary_def PullACK_MarshalBinary_def read_packet_header[of _ _ _ _ "[]", simplified])
  show "PushACK_UnmarshalBinary (PushACK_MarshalBinary \<lparr>pk_ProtocolVersion = v, pk_RandomToken = t\<rparr>) =
      Inr \<lparr>pk_ProtocolVersion = v, pk_RandomToken = t\<rparr>"
    using assms(1) by (simp add: PushACK_UnmarshalBinary_def PushACK_MarshalBinary_def read_packet_header[of _ _ _ _ "[]", simplified])
  show "PullData_UnmarshalBinary (PullData_MarshalBinary \<lparr>pd_ProtocolVersion = v, pd_RandomToken = t, pd_GatewayMAC = mac\<rparr>) =
      Inr \<lparr>pd_ProtocolVersion = v, pd_RandomToken = t, pd_GatewayMAC = mac\<rparr>"
    using assms(1) by (simp add: PullData_UnmarshalBinary_def PullData_MarshalBinary_def read_packet_header)
  show "\<exists>b. PushData_MarshalBinary J \<lparr>pu_ProtocolVersion = v, pu_RandomToken = t, pu_GatewayMAC = mac, pu_Payload = up\<rparr> = Inr b \<and>
       PushData_UnmarshalBinary J b = Inr \<lparr>pu_ProtocolVersion = v, pu_RandomToken = t, pu_GatewayMAC = mac, pu_Payload = up\<rparr>"
    using assms(1-4) by (simp add: PushData_UnmarshalBinary_def PushData_MarshalBinary_def read_packet_header Suc_le_eq not_less)
  show "\<exists>b. PullResp_MarshalBinary J \<lparr>pr_ProtocolVersion = v, pr_RandomToken = t, pr_TXPK = txpk\<rparr> = Inr b \<and>
       PullResp_UnmarshalBinary J b =
         Inr \<lparr>pr_ProtocolVersion = v, pr_RandomToken = (if v = 1 then 0 else t), pr_TXPK = txpk\<rparr>"
    using assms(1,5-7) by (simp add: PullResp_UnmarshalBinary_def PullResp_MarshalBinary_def read_packet_header Suc_le_eq not_less)
  show "\<forall>payload \<in> {None, Some e}. \<exists>b.
       TXACK_MarshalBinary J \<lparr>ta_ProtocolVersion = v, ta_RandomToken = t, ta_GatewayMAC = mac, ta_Payload = payload\<rparr> = Inr b \<and>
       TXACK_UnmarshalBinary J b =
         Inr \<lparr>ta_ProtocolVersion = v, ta_RandomToken = t, ta_GatewayMAC = mac, ta_Payload = payload\<rparr>"
    using assms(1,8-10) read_packet_header[of TXACK v t TXACK "eui_bytes mac"]
    by (simp add: TXACK_UnmarshalBinary_def TXACK_MarshalBinary_def read_packet_header Let_def)
qed

definition rxpk_example :: RXPK where
  "rxpk_example =
     \<lparr>rx_Time = None, rx_Tmms = None, rx_Tmst = 1000000, rx_FTime = None, rx_Chan = 1, rx_RFCh = 0, rx_Stat = 1,
      rx_Freq = f64 (868300000 / 1000000), rx_Brd = 0, rx_RSSI = - 60, rx_DatR = DatR_zero\<lparr>dr_LoRa := ''SF12BW500''\<rparr>,
      rx_CodR = ''4/5'', rx_LSNR = 0, rx_HPW = 0, rx_Data = [1, 2, 3], rx_RSig = [], rx_Meta = Map.empty\<rparr>"

definition push_payload_example :: PushDataPayload where
  "push_payload_example = \<lparr>pp_RXPK = [rxpk_example, rxpk_example\<lparr>rx_Stat := - 1\<rparr>], pp_Stat = None\<rparr>"

definition txpk_example :: TXPK where
  "txpk_example =
     \<lparr>tx_Imme = True, tx_Powe = 14, tx_Ant = 0, tx_Brd = 0, tx_Tmst = Some 0, tx_Tmms = None, tx_Freq = f64 (868300000 / 1000000),
      tx_Modu = ''LORA'', tx_DatR = DatR_zero\<lparr>dr_LoRa := ''SF7BW125''\<rparr>, tx_CodR = ''4/5'', tx_FDev = 0, tx_IPol = True,
      tx_Size = 1, tx_Data = [7]\<rparr>"

text \<open>A JSON package that knows the example payloads, and error texts of one kind.\<close>

definition json_example :: json_lib where
  "json_example =
     \<lparr>js_PushData_Marshal = (\<lambda>p. Inr [1, 1]), js_PushData_Unmarshal = (\<lambda>b. if b = [1, 1] then Inr push_payload_example else Inl (Errorf ''json'')),
      js_PullResp_Marshal = (\<lambda>p. Inr [2, 2]), js_PullResp_Unmarshal = (\<lambda>b. if b = [2, 2] then Inr txpk_example else Inl (Errorf ''json'')),
      js_TXACK_Marshal = (\<lambda>e. Inr (if e = ''TOO_LATE'' then [3, 1] else [3, 2])),
      js_TXACK_Unmarshal = (\<lambda>b. if b = [3, 1] then Inr ''TOO_LATE'' else if b = [3, 2] then Inr ''NONE'' else Inl (Errorf ''json'')),
      js_float32 = (\<lambda>_. 0)\<rparr>"

theorem packet_roundtrip_witness:
  "\<exists>b. TXACK_MarshalBinary json_example
      \<lparr>ta_ProtocolVersion = 2, ta_RandomToken = 123, ta_GatewayMAC = eui64_zero, ta_Payload = Some ''TOO_LATE''\<rparr> = Inr b \<and>
     TXACK_UnmarshalBinary json_example b =
      Inr \<lparr>ta_ProtocolVersion = 2, ta_RandomToken = 123, ta_GatewayMAC = eui64_zero, ta_Payload = Some ''TOO_LATE''\<rparr>"
proof -
  have "protocolSupported 2" by (simp add: protocolSupported_def)
  moreover have "js_PushData_Marshal json_example push_payload_example = Inr [1, 1]"
    "js_PushData_Unmarshal json_example [1, 1] = Inr push_payload_example" "[1, 1 :: byte] \<noteq> []"
    "js_PullResp_Marshal json_example txpk_example = Inr [2, 2]"
    "js_PullResp_Unmarshal json_example [2, 2] = Inr txpk_example" "[2, 2 :: byte] \<noteq> []"
    "js_TXACK_Marshal json_example ''TOO_LATE'' = Inr [3, 1]" "js_TXACK_Unmarshal json_example [3, 1] = Inr ''TOO_LATE''"
    "2 \<le> length [3, 1 :: byte]"
    by (simp_all add: json_example_def)
  ultimately show ?thesis
    using packet_roundtrip[of 2 json_example push_payload_example "[1, 1]" txpk_example "[2, 2]" "''TOO_LATE''" "[3, 1]" 123 eui64_zero]
    by simp
qed

text \<open>
  C16: the uplinks of a packet.  Of the received radio packets those with a good checksum count (all of them
  if checksums are not to be checked); each gives one uplink, or one per antenna, in their order, with
  the packet's token as id, the gateway's id and the timestamp for answers.  One of them that cannot
  be read makes the whole packet fail.
\<close>

theorem uplinks_of_packet:
  "GetUplinkFrames L J now skipCRC fake p =
     (let mk = (\<lambda>rxpk. getUplinkFrame L J now (pu_GatewayMAC p) (pp_Stat (pu_Payload p)) rxpk fake);
          rxpks = filter (\<lambda>rxpk. rx_Stat rxpk = 1 \<or> skipCRC) (pp_RXPK (pu_Payload p))
      in if \<exists>rxpk \<in> set rxpks. isl (mk rxpk) then Inl (Errorf ''get uplink frame error'')
         else Inr (concat (map (rxpk_frames mk (pu_RandomToken p)) rxpks))) \<and>
   (\<forall>frames. GetUplinkFrames L J now skipCRC fake p = Inr frames \<longrightarrow>
      (\<forall>frame \<in> set frames. \<exists>ri rxpk. uf_RxInfo frame = Some ri \<and> rxpk \<in> set (pp_RXPK (pu_Payload p)) \<and>
         ri_GatewayId ri = eui_String L (pu_GatewayMAC p) \<and> ri_UplinkId ri = ucast (pu_RandomToken p) \<and>
         uf_PhyPayload frame = rx_Data rxpk \<and> context_timestamp (ri_Context ri) = rx_Tmst rxpk))"
proof
  let ?mk = "\<lambda>rxpk. getUplinkFrame L J now (pu_GatewayMAC p) (pp_Stat (pu_Payload p)) rxpk fake"
  let ?rxpks = "filter (\<lambda>rxpk. rx_Stat rxpk = 1 \<or> skipCRC) (pp_RXPK (pu_Payload p))"
  show eq: "GetUplinkFrames L J now skipCRC fake p =
     (let mk = ?mk; rxpks = ?rxpks
      in if \<exists>rxpk \<in> set rxpks. isl (mk rxpk) then Inl (Errorf ''get uplink frame error'')
         else Inr (concat (map (rxpk_frames mk (pu_RandomToken p)) rxpks)))"
    by (auto simp: GetUplinkFrames_def rxpk_loop_eq Let_def)
  have frame: "\<exists>ri. uf_RxInfo frame = Some ri \<and> ri_GatewayId ri = eui_String L (pu_GatewayMAC p) \<and>
      ri_UplinkId ri = ucast (pu_RandomToken p) \<and> uf_PhyPayload frame = rx_Data rxpk \<and>
      context_timestamp (ri_Context ri) = rx_Tmst rxpk"
    if "frame \<in> set (rxpk_frames ?mk (pu_RandomToken p) rxpk)" for frame rxpk
    using that
    by (cases "uplink_modulation rxpk")
      (auto simp: rxpk_frames_def getUplinkFrame_def set_uplink_id_def setUplinkFrameRSig_def split: if_splits)
  show "\<forall>frames. GetUplinkFrames L J now skipCRC fake p = Inr frames \<longrightarrow>
      (\<forall>frame \<in> set frames. \<exists>ri rxpk. uf_RxInfo frame = Some ri \<and> rxpk \<in> set (pp_RXPK (pu_Payload p)) \<and>
         ri_GatewayId ri = eui_String L (pu_GatewayMAC p) \<and> ri_UplinkId ri = ucast (pu_RandomToken p) \<and>
         uf_PhyPayload frame = rx_Data rxpk \<and> context_timestamp (ri_Context ri) = rx_Tmst rxpk)"
  proof (intro allI impI ballI)
    fix frames frame
    assume "GetUplinkFrames L J now skipCRC fake p = Inr frames" "frame \<in> set frames"
    then have "frame \<in> set (concat (map (rxpk_frames ?mk (pu_RandomToken p)) ?rxpks))"
      unfolding eq Let_def by (simp only: split: if_splits) simp_all
    then obtain rxpk where "rxpk \<in> set ?rxpks" "frame \<in> set (rxpk_frames ?mk (pu_RandomToken p) rxpk)"
      unfolding set_concat set_map by blast
    with frame[of frame rxpk] show "\<exists>ri rxpk. uf_RxInfo frame = Some ri \<and> rxpk \<in> set (pp_RXPK (pu_Payload p)) \<and>
         ri_GatewayId ri = eui_String L (pu_GatewayMAC p) \<and> ri_UplinkId ri = ucast (pu_RandomToken p) \<and>
         uf_PhyPayload frame = rx_Data rxpk \<and> context_timestamp (ri_Context ri) = rx_Tmst rxpk"
      by auto
  qed
qed

theorem uplinks_of_packet_witness:
  "\<exists>frame. GetUplinkFrames lorawan_hex json_example 0 False False
     \<lparr>pu_ProtocolVersion = 2, pu_RandomToken = 9, pu_GatewayMAC = eui64_zero, pu_Payload = push_payload_example\<rparr> = Inr [frame]"
proof -
  have m: "\<exists>m. uplink_modulation rxpk_example = Inr m"
    by (simp add: uplink_modulation_def rxpk_example_def lora_params_def loRaDataRate_def match_number_def Let_def
        is_digit_def Atoi_def digits_value_def digit_value_def code_rate_of_simps DatR_zero_def)
  let ?p = "\<lparr>pu_ProtocolVersion = 2, pu_RandomToken = 9, pu_GatewayMAC = eui64_zero, pu_Payload = push_payload_example\<rparr>"
  have rx: "filter (\<lambda>rxpk. rx_Stat rxpk = 1 \<or> False) (pp_RXPK (pu_Payload ?p)) = [rxpk_example]" "rx_RSig rxpk_example = []"
    by (simp_all add: push_payload_example_def rxpk_example_def)
  from m obtain f where "getUplinkFrame lorawan_hex json_example 0 eui64_zero (pp_Stat push_payload_example) rxpk_example False = Inr f"
    by (auto simp: getUplinkFrame_def)
  with uplinks_of_packet[of lorawan_hex json_example 0 False False ?p, unfolded rx] rx(2)
  show ?thesis by (simp add: rxpk_frames_def)
qed

text \<open>
  C15: what is sent can be received.  Take the PULL\_RESP packet of a LoRa downlink in one of the bands below
  one gigahertz, with a bandwidth in whole kilohertz: a gateway that hears this transmission and reports its
  frequency, data rate and code rate as they stand in the packet makes an uplink with exactly the
  frequency, spreading factor, bandwidth and code rate of the downlink, although the frequency was
  twice rounded as a floating point number of megahertz.
\<close>

theorem radio_roundtrip:
  assumes "GetPullRespPacket v t frame i = Inr p" "di_TxInfo (df_Items frame ! i) = Some ti"
    and "dti_Modulation ti = Some (Modulation_Lora lora)" "1000 dvd unat (lm_Bandwidth lora)"
    and "exact_frequency (uint (dti_Frequency ti))"
    and "rx_DatR rxpk = tx_DatR (pr_TXPK p)" "rx_CodR rxpk = tx_CodR (pr_TXPK p)" "rx_Freq rxpk = tx_Freq (pr_TXPK p)"
  shows "\<exists>fr. getUplinkFrame L J now mac st rxpk fake = Inr fr \<and>
    uf_TxInfo fr = Some \<lparr>ti_Frequency = dti_Frequency ti,
      ti_Modulation = Some (Modulation_Lora (lora\<lparr>lm_PolarizationInversion := False\<rparr>))\<rparr>"
proof -
  obtain codr where cr: "code_rate_text (lm_CodeRate lora) = Some codr"
    and p: "tx_DatR (pr_TXPK p) = DatR_zero\<lparr>dr_LoRa := lora_text lora\<rparr>" "tx_CodR (pr_TXPK p) = codr"
      "tx_Freq (pr_TXPK p) = f64 (of_int (uint (dti_Frequency ti)) / 1000000)"
    using assms(1-3)
    by (auto simp: GetPullRespPacket_def tx_info_or_zero_def Let_def txpk_modulation_def txpk_timing_def
        split: if_splits option.splits timing.splits)
  have "lora_params rxpk = Inr (Modulation_Lora (lora\<lparr>lm_PolarizationInversion := False\<rparr>))"
    by (rule lora_params_text) (use assms(4,6,7) p cr in \<open>simp_all add: DatR_zero_def\<close>)
  then have "uplink_modulation rxpk = Inr (Some (Modulation_Lora (lora\<lparr>lm_PolarizationInversion := False\<rparr>)))"
    using assms(6) p(1) by (simp add: uplink_modulation_def DatR_zero_def lora_text_def)
  moreover have "trunc_zero (f64 (rx_Freq rxpk * 1000000)) = uint (dti_Frequency ti)"
    unfolding assms(8) p(3) by (rule mhz_detour[OF assms(5)])
  ultimately show ?thesis by (simp add: getUplinkFrame_def)
qed

definition lora_tx_example :: downlink_tx_info where
  "lora_tx_example =
     \<lparr>dti_Frequency = 868300000, dti_Power = 14, dti_Timing = Some (Delay (Some second)),
      dti_Modulation = Some (Modulation_Lora \<lparr>lm_Bandwidth = 125000, lm_SpreadingFactor = 7, lm_CodeRate = CR_4_5,
        lm_PolarizationInversion = True\<rparr>), dti_Context = be_put_uint32 1000000, dti_Antenna = 0, dti_Board = 0\<rparr>"

definition lora_downlink_example :: downlink_frame where
  "lora_downlink_example =
     \<lparr>df_DownlinkId = 7, df_DownlinkIdLegacy = [], df_Items = [\<lparr>di_PhyPayload = [1, 2, 3], di_TxInfo = Some lora_tx_example\<rparr>],
      df_GatewayId = eui_String lorawan_hex eui64_zero\<rparr>"

lemma lora_downlink_example_packet:
  "\<exists>p. GetPullRespPacket 2 7 lora_downlink_example 0 = Inr p \<and> tx_Tmst (pr_TXPK p) = Some 2000000"
  by (simp add: GetPullRespPacket_def lora_downlink_example_def lora_tx_example_def Let_def tx_info_or_zero_def txpk_modulation_def
      code_rate_text_def txpk_timing_def duration_or_zero_def)

theorem radio_roundtrip_witness:
  "\<exists>p fr. GetPullRespPacket 2 7 lora_downlink_example 0 = Inr p \<and>
     getUplinkFrame lorawan_hex json_example 0 eui64_zero None
       (rxpk_example\<lparr>rx_DatR := tx_DatR (pr_TXPK p), rx_CodR := tx_CodR (pr_TXPK p), rx_Freq := tx_Freq (pr_TXPK p)\<rparr>) False = Inr fr \<and>
     frame_frequency fr = 868300000 \<and> lora_sf (frame_lora fr) = 7 \<and> lora_bandwidth (frame_lora fr) = 125000"
proof -
  obtain p where p: "GetPullRespPacket 2 7 lora_downlink_example 0 = Inr p" using lora_downlink_example_packet by blast
  let ?ti = lora_tx_example
  let ?rx = "rxpk_example\<lparr>rx_DatR := tx_DatR (pr_TXPK p), rx_CodR := tx_CodR (pr_TXPK p), rx_Freq := tx_Freq (pr_TXPK p)\<rparr>"
  have "di_TxInfo (df_Items lora_downlink_example ! 0) = Some ?ti" by (simp add: lora_downlink_example_def)
  moreover have "dti_Modulation ?ti = Some (Modulation_Lora \<lparr>lm_Bandwidth = 125000, lm_SpreadingFactor = 7, lm_CodeRate = CR_4_5,
           lm_PolarizationInversion = True\<rparr>)" by (simp add: lora_tx_example_def)
  ultimately obtain fr where "getUplinkFrame lorawan_hex json_example 0 eui64_zero None ?rx False = Inr fr"
    "uf_TxInfo fr = Some \<lparr>ti_Frequency = 868300000, ti_Modulation = Some (Modulation_Lora
       \<lparr>lm_Bandwidth = 125000, lm_SpreadingFactor = 7, lm_CodeRate = CR_4_5, lm_PolarizationInversion = False\<rparr>)\<rparr>"
    using radio_roundtrip[OF p, of ?ti _ ?rx lorawan_hex json_example 0 eui64_zero None False]
    by (auto simp: exact_frequency_def lora_tx_example_def)
  then show ?thesis using p by (auto simp: frame_frequency_def frame_lora_def get_lora_def lora_sf_def lora_bandwidth_def)
qed

end
