(* ===== verification/Gateway_Stats.thy ===== *)
theory Gateway_Stats
  imports Messages
begin

text \<open>
  What the two gateway backends share: the statistics collector of a gateway,
  \<^verbatim>\<open>external/chirpstack/gateway-bridge/backend/stats\<close>, and the events they report through their callbacks.
  The protobuf encoding of a modulation and the names of the transmission results are parameters.
\<close>

section \<open>Statistics\<close>

record Collector =
  co_rxCount :: u32
  co_txCount :: u32
  co_rxPerFreqCount :: "u32 \<rightharpoonup> u32"
  co_txPerFreqCount :: "u32 \<rightharpoonup> u32"
  co_rxPerModulationCount :: "string \<rightharpoonup> u32"
  co_txPerModulationCount :: "string \<rightharpoonup> u32"
  co_txStatusCount :: "string \<rightharpoonup> u32"

definition NewCollector :: Collector where
  "NewCollector = \<lparr>co_rxCount = 0, co_txCount = 0, co_rxPerFreqCount = Map.empty, co_txPerFreqCount = Map.empty,
     co_rxPerModulationCount = Map.empty, co_txPerModulationCount = Map.empty, co_txStatusCount = Map.empty\<rparr>"

definition count_at :: "'k \<Rightarrow> ('k \<rightharpoonup> u32) \<Rightarrow> 'k \<rightharpoonup> u32" where
  "count_at k m = m(k \<mapsto> (case m k of None \<Rightarrow> 0 | Some c \<Rightarrow> c) + 1)"

record gateway_stats =
  gst_GatewayId :: string
  gst_RxPacketsReceived :: u32
  gst_RxPacketsReceivedOk :: u32
  gst_TxPacketsReceived :: u32
  gst_TxPacketsEmitted :: u32
  gst_Time :: "time option"
  gst_Location :: "location option"
  gst_Metadata :: "string \<rightharpoonup> string"
  gst_RxPacketsPerFrequency :: "u32 \<rightharpoonup> u32"
  gst_TxPacketsPerFrequency :: "u32 \<rightharpoonup> u32"
  gst_RxPacketsPerModulation :: "(modulation option \<times> u32) list"
  gst_TxPacketsPerModulation :: "(modulation option \<times> u32) list"
  gst_TxPacketsPerStatus :: "string \<rightharpoonup> u32"

text \<open>The protobuf package on modulations, and the results of a transmission: their numbers, of which
  0 is \<^verbatim>\<open>IGNORED\<close> and 1 is \<^verbatim>\<open>OK\<close>, and their names.\<close>

record proto_lib =
  pb_Marshal :: "modulation option \<Rightarrow> bytes result"
  pb_Unmarshal :: "bytes \<Rightarrow> modulation option"
  pb_TxAckStatus_value :: "string \<rightharpoonup> nat"
  pb_TxAckStatus_String :: "nat \<Rightarrow> string"

abbreviation IGNORED :: nat where "IGNORED \<equiv> 0"
abbreviation OK :: nat where "OK \<equiv> 1"

text \<open>\<^verbatim>\<open>uf.GetTxInfo().Frequency\<close> panics on a frame without \<^verbatim>\<open>TxInfo\<close>.\<close>

definition CountUplink :: "proto_lib \<Rightarrow> uplink_frame \<Rightarrow> Collector \<Rightarrow> Collector go" where
  "CountUplink P uf c =
     (case pb_Marshal P (case uf_TxInfo uf of None \<Rightarrow> None | Some ti \<Rightarrow> ti_Modulation ti) of
        Inl err \<Rightarrow> Ret c
      | Inr b \<Rightarrow>
          go_bind (deref (uf_TxInfo uf)) (\<lambda>ti.
            Ret (c\<lparr>co_rxCount := co_rxCount c + 1,
                   co_rxPerFreqCount := count_at (ti_Frequency ti) (co_rxPerFreqCount c),
                   co_rxPerModulationCount := count_at (hex_encode b) (co_rxPerModulationCount c)\<rparr>)))"

fun count_downlink_loop :: "proto_lib \<Rightarrow> downlink_item list \<Rightarrow> nat \<Rightarrow> nat list \<Rightarrow> Collector \<Rightarrow> Collector go" where
  "count_downlink_loop P items i [] c = Ret c"
| "count_downlink_loop P items i (status # acks) c =
     (if status = IGNORED then count_downlink_loop P items (Suc i) acks c
      else let c = c\<lparr>co_txStatusCount := count_at (pb_TxAckStatus_String P status) (co_txStatusCount c)\<rparr>
           in if status = OK \<and> i < length items
              then (case pb_Marshal P (case di_TxInfo (items ! i) of None \<Rightarrow> None | Some ti \<Rightarrow> dti_Modulation ti) of
                      Inl err \<Rightarrow> Ret c
                    | Inr b \<Rightarrow>
                        go_bind (deref (di_TxInfo (items ! i))) (\<lambda>ti.
                          count_downlink_loop P items (Suc i) acks
                            (c\<lparr>co_txCount := co_txCount c + 1,
                               co_txPerFreqCount := count_at (dti_Frequency ti) (co_txPerFreqCount c),
                               co_txPerModulationCount := count_at (hex_encode b) (co_txPerModulationCount c)\<rparr>)))
              else count_downlink_loop P items (Suc i) acks c)"

definition CountDownlink :: "proto_lib \<Rightarrow> downlink_frame \<Rightarrow> nat list \<Rightarrow> Collector \<Rightarrow> Collector go" where
  "CountDownlink P dl acks c = count_downlink_loop P (df_Items dl) 0 acks c"

definition per_modulation :: "proto_lib \<Rightarrow> string list \<Rightarrow> (string \<rightharpoonup> u32) \<Rightarrow> (modulation option \<times> u32) list" where
  "per_modulation P order m =
     concat (map (\<lambda>k. case m k of
        None \<Rightarrow> []
      | Some c \<Rightarrow> [(pb_Unmarshal P (case hex_decode k of None \<Rightarrow> [] | Some b \<Rightarrow> b), c)]) order)"

text \<open>\<open>order\<close> is the order in which the maps of modulations are ranged over.\<close>

definition ExportStats :: "proto_lib \<Rightarrow> string list \<Rightarrow> Collector \<Rightarrow> gateway_stats \<times> Collector" where
  "ExportStats P order c =
     (\<lparr>gst_GatewayId = [], gst_RxPacketsReceived = co_rxCount c, gst_RxPacketsReceivedOk = co_rxCount c,
       gst_TxPacketsReceived = co_txCount c, gst_TxPacketsEmitted = co_txCount c, gst_Time = None,
       gst_Location = None, gst_Metadata = Map.empty, gst_RxPacketsPerFrequency = co_rxPerFreqCount c,
       gst_TxPacketsPerFrequency = co_txPerFreqCount c,
       gst_RxPacketsPerModulation = per_modulation P order (co_rxPerModulationCount c),
       gst_TxPacketsPerModulation = per_modulation P order (co_txPerModulationCount c),
       gst_TxPacketsPerStatus = co_txStatusCount c\<rparr>, NewCollector)"

section \<open>Events of a backend\<close>

text \<open>The calls of the callbacks that the exchange registers, in their order.\<close>

datatype backend_event =
    EvSubscribe eui64 bool
  | EvUplink uplink_frame
  | EvAck downlink_tx_ack
  | EvStats gateway_stats
  | EvRaw string bytes

text \<open>The gateways that were reported online and not offline since.\<close>

fun online_step :: "backend_event \<Rightarrow> eui64 set \<Rightarrow> eui64 set" where
  "online_step (EvSubscribe g online) S = (if online then insert g S else S - {g})"
| "online_step _ S = S"

definition online_of :: "backend_event list \<Rightarrow> eui64 set" where
  "online_of evs = fold online_step evs {}"

lemma online_of_snoc [simp]: "online_of (evs @ [e]) = online_step e (online_of evs)"
  by (simp add: online_of_def)

definition last_online :: "eui64 \<Rightarrow> backend_event list \<Rightarrow> bool" where
  "last_online g evs \<longleftrightarrow> (\<exists>pre post. evs = pre @ EvSubscribe g True # post \<and> EvSubscribe g False \<notin> set post)"

lemma last_online_snoc:
  "last_online g (evs @ [e]) \<longleftrightarrow> e = EvSubscribe g True \<or> e \<noteq> EvSubscribe g False \<and> last_online g evs"
proof
  assume "last_online g (evs @ [e])"
  then obtain pre post where split: "evs @ [e] = pre @ EvSubscribe g True # post" and none: "EvSubscribe g False \<notin> set post"
    by (auto simp: last_online_def)
  show "e = EvSubscribe g True \<or> e \<noteq> EvSubscribe g False \<and> last_online g evs"
  proof (cases post rule: rev_cases)
    case Nil
    then show ?thesis using split by simp
  next
    case (snoc ys y)
    then have "evs = pre @ EvSubscribe g True # ys" "e = y" using split by simp_all
    then show ?thesis using none snoc by (auto simp: last_online_def)
  qed
next
  assume "e = EvSubscribe g True \<or> e \<noteq> EvSubscribe g False \<and> last_online g evs"
  then show "last_online g (evs @ [e])"
  proof
    assume "e = EvSubscribe g True"
    then have "evs @ [e] = evs @ EvSubscribe g True # []" "EvSubscribe g False \<notin> set []" by simp_all
    then show ?thesis unfolding last_online_def by blast
  next
    assume "e \<noteq> EvSubscribe g False \<and> last_online g evs"
    then obtain pre post where "evs @ [e] = pre @ EvSubscribe g True # (post @ [e])" "EvSubscribe g False \<notin> set (post @ [e])"
      by (auto simp: last_online_def)
    then show ?thesis unfolding last_online_def by blast
  qed
qed

lemma online_of_last: "g \<in> online_of evs \<longleftrightarrow> last_online g evs"
proof (induction evs rule: rev_induct)
  case Nil
  then show ?case by (simp add: online_of_def last_online_def)
next
  case (snoc e evs)
  then show ?case by (cases e) (auto simp: last_online_snoc)
qed

text \<open>The contract of a gateway backend with the exchange: what it reported is what it has in its registry.\<close>

locale gateway_backend =
  fixes reachable :: "'s \<Rightarrow> bool" and events :: "'s \<Rightarrow> backend_event list" and registry :: "'s \<Rightarrow> eui64 set"
  assumes reported: "reachable s \<Longrightarrow> online_of (events s) = registry s"
begin

lemma registry_last_report: "reachable s \<Longrightarrow> g \<in> registry s \<longleftrightarrow> last_online g (events s)"
  using reported online_of_last by blast

lemma registry_silent: "reachable s \<Longrightarrow> EvSubscribe g True \<notin> set (events s) \<Longrightarrow> g \<notin> registry s"
  by (auto simp: registry_last_report last_online_def)

end

section \<open>Examples\<close>

definition proto_example :: proto_lib where
  "proto_example =
     \<lparr>pb_Marshal = (\<lambda>m. Inr []), pb_Unmarshal = (\<lambda>b. None),
      pb_TxAckStatus_value = [''IGNORED'' \<mapsto> 0, ''OK'' \<mapsto> 1, ''TOO_LATE'' \<mapsto> 2],
      pb_TxAckStatus_String = (\<lambda>n. [])\<rparr>"

end
