(* ===== verification/Semtech_Backend.thy ===== *)
theory Semtech_Backend
  imports Semtech_Packets Gateway_Stats
begin

text \<open>
  The Semtech UDP backend of the forwarder, \<^verbatim>\<open>external/chirpstack/gateway-bridge/backend/semtechudp\<close>: the registry
  of gateways, the handlers of the three packets a gateway sends, and downlinks with their retries.

  Each datagram is handled in one step; the datagrams to send and the calls of the callbacks are lists
  in the state.  The cache of pending downlinks is three maps under the token of the packet, whose entries
  expire after fifteen seconds.  The socket is a parameter, as is the filter on frames, which the
  forwarder never configures.
\<close>

section \<open>State\<close>

record udp_gateway =
  ug_stats :: Collector
  ug_addr :: string
  ug_lastSeen :: time
  ug_protocolVersion :: u8

text \<open>An entry of the cache with the time it expires.\<close>

type_synonym 'v cached = "u16 \<rightharpoonup> 'v \<times> time"

record semtech_backend =
  sb_ack :: "nat list cached"
  sb_frame :: "downlink_frame cached"
  sb_index :: "nat cached"
  sb_gateways :: "eui64 \<rightharpoonup> udp_gateway"
  sb_closed :: bool
  sb_locked :: bool
  sb_chanClosed :: bool
  sb_fakeRxTime :: bool
  sb_skipCRCCheck :: bool
  sb_sent :: "(string \<times> bytes) list"
  sb_events :: "backend_event list"

text \<open>\<open>sb_locked\<close> is the lock of the backend left behind by a \<^verbatim>\<open>Stop\<close> whose \<^verbatim>\<open>Close\<close> fails; the arguments of
  \<^verbatim>\<open>NewBackend\<close> are what \<^verbatim>\<open>ResolveUDPAddr\<close> and \<^verbatim>\<open>ListenUDP\<close> return for the configured address, and the two flags.\<close>

definition semtech_NewBackend :: "unit result \<Rightarrow> unit result \<Rightarrow> bool \<Rightarrow> bool \<Rightarrow> semtech_backend result" where
  "semtech_NewBackend addr conn fakeRxTime skipCRCCheck =
     (if isl addr then Inl (Errorf ''resolve udp addr error'')
      else if isl conn then Inl (Errorf ''listen udp error'')
      else Inr \<lparr>sb_ack = Map.empty, sb_frame = Map.empty, sb_index = Map.empty, sb_gateways = Map.empty, sb_closed = False,
        sb_locked = False, sb_chanClosed = False, sb_fakeRxTime = fakeRxTime, sb_skipCRCCheck = skipCRCCheck,
        sb_sent = [], sb_events = []\<rparr>)"

record semtech_env =
  sv_L :: lorawan_lib
  sv_J :: json_lib
  sv_P :: proto_lib
  sv_MatchFilters :: "bytes \<Rightarrow> bool"

definition cache_Get :: "time \<Rightarrow> 'v cached \<Rightarrow> u16 \<Rightarrow> 'v option" where
  "cache_Get now c token = (case c token of None \<Rightarrow> None | Some (v, expires) \<Rightarrow> if now > expires then None else Some v)"

definition cache_Set :: "time \<Rightarrow> u16 \<Rightarrow> 'v \<Rightarrow> 'v cached \<Rightarrow> 'v cached" where
  "cache_Set now token v c = c(token \<mapsto> (v, now + 15 * second))"

definition send_udp :: "string \<Rightarrow> bytes \<Rightarrow> semtech_backend \<Rightarrow> semtech_backend" where
  "send_udp addr data b = b\<lparr>sb_sent := sb_sent b @ [(addr, data)]\<rparr>"

definition emit :: "backend_event \<Rightarrow> semtech_backend \<Rightarrow> semtech_backend" where
  "emit e b = b\<lparr>sb_events := sb_events b @ [e]\<rparr>"

section \<open>The registry of gateways\<close>

definition gateways_get :: "eui64 \<Rightarrow> semtech_backend \<Rightarrow> udp_gateway result" where
  "gateways_get mac b =
     (case sb_gateways b mac of None \<Rightarrow> Inl (Errorf ''gateway does not exist'') | Some gw \<Rightarrow> Inr gw)"

definition gateways_set :: "eui64 \<Rightarrow> udp_gateway \<Rightarrow> semtech_backend \<Rightarrow> semtech_backend" where
  "gateways_set gatewayID gw b =
     (let gw = gw\<lparr>ug_stats := (case sb_gateways b gatewayID of None \<Rightarrow> NewCollector | Some gww \<Rightarrow> ug_stats gww)\<rparr>;
          b = emit (EvSubscribe gatewayID True) b
      in b\<lparr>sb_gateways := (sb_gateways b)(gatewayID \<mapsto> gw)\<rparr>)"

text \<open>\<open>order\<close> is the order in which the map is ranged over.\<close>

fun gateways_cleanup :: "time \<Rightarrow> eui64 list \<Rightarrow> semtech_backend \<Rightarrow> semtech_backend" where
  "gateways_cleanup now [] b = b"
| "gateways_cleanup now (gatewayID # order) b =
     (case sb_gateways b gatewayID of
        None \<Rightarrow> gateways_cleanup now order b
      | Some gw \<Rightarrow>
          if ug_lastSeen gw < now - minute
          then let b = emit (EvSubscribe gatewayID False) b
               in gateways_cleanup now order (b\<lparr>sb_gateways := (sb_gateways b)(gatewayID := None)\<rparr>)
          else gateways_cleanup now order b)"

text \<open>A change of the statistics of a gateway, through its pointer.\<close>

definition update_stats :: "eui64 \<Rightarrow> udp_gateway \<Rightarrow> Collector \<Rightarrow> semtech_backend \<Rightarrow> semtech_backend" where
  "update_stats mac gw c b = b\<lparr>sb_gateways := (sb_gateways b)(mac \<mapsto> gw\<lparr>ug_stats := c\<rparr>)\<rparr>"

section \<open>Downlinks\<close>

text \<open>The channel of datagrams to send is closed by \<^verbatim>\<open>Stop\<close>: a downlink that is sent later panics.  The handlers
  of packets only send before, as \<^verbatim>\<open>handlePacket\<close> holds the lock and returns at once after \<^verbatim>\<open>Stop\<close>.\<close>

definition semtech_sendDownlinkFrame ::
  "semtech_env \<Rightarrow> time \<Rightarrow> downlink_frame \<Rightarrow> nat \<Rightarrow> nat list \<Rightarrow> semtech_backend \<Rightarrow>
   (unit result \<times> semtech_backend) go" where
  "semtech_sendDownlinkFrame V now frame i txAckItems b =
     (if i \<ge> length (df_Items frame) then Ret (Inl (Errorf ''invalid downlink frame item index''), b)
      else let token = ucast (df_DownlinkId frame);
               b = b\<lparr>sb_ack := cache_Set now token txAckItems (sb_ack b), sb_frame := cache_Set now token frame (sb_frame b),
                     sb_index := cache_Set now token i (sb_index b)\<rparr>
           in case eui_UnmarshalText (sv_L V) (df_GatewayId frame) of
                Inl err \<Rightarrow> Ret (Inl (Errorf ''decode gateway id error''), b)
              | Inr gatewayID \<Rightarrow>
                  (case gateways_get gatewayID b of
                     Inl err \<Rightarrow> Ret (Inl (Errorf ''get gateway error''), b)
                   | Inr gw \<Rightarrow>
                       (case GetPullRespPacket (ug_protocolVersion gw) token frame i of
                          Inl err \<Rightarrow> Ret (Inl (Errorf ''get PullRespPacket error''), b)
                        | Inr pullResp \<Rightarrow>
                            (case PullResp_MarshalBinary (sv_J V) pullResp of
                               Inl err \<Rightarrow> Ret (Inl (Errorf ''marshal PullRespPacket error''), b)
                             | Inr data \<Rightarrow> if sb_chanClosed b then Panic else Ret (Inr (), send_udp (ug_addr gw) data b)))))"

definition semtech_SendDownlinkFrame ::
  "semtech_env \<Rightarrow> time \<Rightarrow> downlink_frame \<Rightarrow> semtech_backend \<Rightarrow> (unit result \<times> semtech_backend) go" where
  "semtech_SendDownlinkFrame V now frame b =
     semtech_sendDownlinkFrame V now frame 0 (replicate (length (df_Items frame)) IGNORED) b"

section \<open>Packets of a gateway\<close>

definition handlePullData :: "time \<Rightarrow> string \<Rightarrow> bytes \<Rightarrow> semtech_backend \<Rightarrow> unit result \<times> semtech_backend" where
  "handlePullData now addr data b =
     (case PullData_UnmarshalBinary data of
        Inl err \<Rightarrow> (Inl err, b)
      | Inr p \<Rightarrow>
          let ack = PullACK_MarshalBinary \<lparr>pk_ProtocolVersion = pd_ProtocolVersion p, pk_RandomToken = pd_RandomToken p\<rparr>;
              b = gateways_set (pd_GatewayMAC p) \<lparr>ug_stats = NewCollector, ug_addr = addr, ug_lastSeen = now,
                     ug_protocolVersion = pd_ProtocolVersion p\<rparr> b
          in (Inr (), send_udp addr ack b))"

text \<open>The list of results in the cache is the one that is changed.\<close>

definition set_ack_item :: "u16 \<Rightarrow> nat \<Rightarrow> nat \<Rightarrow> semtech_backend \<Rightarrow> semtech_backend" where
  "set_ack_item token i status b =
     b\<lparr>sb_ack := (sb_ack b)(token := map_option (\<lambda>(items, t). (items[i := status], t)) (sb_ack b token))\<rparr>"

definition ack_error :: "TXACKPacket \<Rightarrow> string option" where
  "ack_error p = (case ta_Payload p of None \<Rightarrow> None | Some e \<Rightarrow> if e \<noteq> [] \<and> e \<noteq> ''NONE'' then Some e else None)"

definition tx_ack_of :: "semtech_env \<Rightarrow> TXACKPacket \<Rightarrow> downlink_frame \<Rightarrow> nat list \<Rightarrow> downlink_tx_ack" where
  "tx_ack_of V p frame items =
     \<lparr>da_GatewayId = eui_String (sv_L V) (ta_GatewayMAC p), da_DownlinkId = df_DownlinkId frame, da_Items = items\<rparr>"

definition finish_txack ::
  "semtech_env \<Rightarrow> TXACKPacket \<Rightarrow> downlink_frame \<Rightarrow> nat list \<Rightarrow> semtech_backend \<Rightarrow> (unit result \<times> semtech_backend) go" where
  "finish_txack V p frame items b =
     go_bind (case gateways_get (ta_GatewayMAC p) b of
                Inl err \<Rightarrow> Ret b
              | Inr conn \<Rightarrow> go_bind (CountDownlink (sv_P V) frame items (ug_stats conn)) (\<lambda>c.
                  Ret (update_stats (ta_GatewayMAC p) conn c b))) (\<lambda>b.
       Ret (Inr (), emit (EvAck (tx_ack_of V p frame items)) b))"

definition handleTXACK :: "semtech_env \<Rightarrow> time \<Rightarrow> bytes \<Rightarrow> semtech_backend \<Rightarrow> (unit result \<times> semtech_backend) go" where
  "handleTXACK V now data b =
     (case TXACK_UnmarshalBinary (sv_J V) data of
        Inl err \<Rightarrow> Ret (Inl err, b)
      | Inr p \<Rightarrow>
          let token = ta_RandomToken p
          in case (cache_Get now (sb_frame b) token, cache_Get now (sb_index b) token, cache_Get now (sb_ack b) token) of
               (Some frame, Some itemIndex, Some txAckItems) \<Rightarrow>
                 if itemIndex \<ge> length txAckItems \<or> length txAckItems \<noteq> length (df_Items frame)
                 then Ret (Inl (Errorf ''cache items are out of sync''), b)
                 else (case ack_error p of
                         Some e \<Rightarrow>
                           (case pb_TxAckStatus_value (sv_P V) e of
                              None \<Rightarrow> Ret (Inl (Errorf ''unexpected error''), b)
                            | Some status \<Rightarrow>
                                let b = set_ack_item token itemIndex status b; items = txAckItems[itemIndex := status]
                                in if Suc itemIndex < length (df_Items frame)
                                   then semtech_sendDownlinkFrame V now frame (Suc itemIndex) items b
                                   else Ret (Inr (), emit (EvAck (tx_ack_of V p frame items)) b))
                       | None \<Rightarrow>
                           finish_txack V p frame (txAckItems[itemIndex := OK]) (set_ack_item token itemIndex OK b))
             | _ \<Rightarrow> Ret (Inl (Errorf ''no internal cache for token''), b))"

definition GetGatewayStats :: "lorawan_lib \<Rightarrow> PushDataPacket \<Rightarrow> gateway_stats option" where
  "GetGatewayStats L p =
     (case pp_Stat (pu_Payload p) of
        None \<Rightarrow> None
      | Some st \<Rightarrow>
          Some \<lparr>gst_GatewayId = eui_String L (pu_GatewayMAC p), gst_RxPacketsReceived = st_RXNb st,
            gst_RxPacketsReceivedOk = st_RXOK st, gst_TxPacketsReceived = st_DWNb st, gst_TxPacketsEmitted = st_TXNb st,
            gst_Time = Some (st_Time st), gst_Location = stat_location (Some st), gst_Metadata = st_Meta st,
            gst_RxPacketsPerFrequency = Map.empty, gst_TxPacketsPerFrequency = Map.empty, gst_RxPacketsPerModulation = [],
            gst_TxPacketsPerModulation = [], gst_TxPacketsPerStatus = Map.empty\<rparr>)"

definition handleStats ::
  "proto_lib \<Rightarrow> string list \<Rightarrow> eui64 \<Rightarrow> gateway_stats \<Rightarrow> semtech_backend \<Rightarrow> semtech_backend" where
  "handleStats P order gatewayID stats b =
     (case gateways_get gatewayID b of
        Inl err \<Rightarrow> emit (EvStats stats) b
      | Inr conn \<Rightarrow>
          let (s, c) = ExportStats P order (ug_stats conn);
              stats = stats\<lparr>gst_RxPacketsReceivedOk := gst_RxPacketsReceivedOk s,
                gst_TxPacketsEmitted := gst_TxPacketsEmitted s, gst_RxPacketsPerFrequency := gst_RxPacketsPerFrequency s,
                gst_TxPacketsPerFrequency := gst_TxPacketsPerFrequency s,
                gst_RxPacketsPerModulation := gst_RxPacketsPerModulation s,
                gst_TxPacketsPerModulation := gst_TxPacketsPerModulation s,
                gst_TxPacketsPerStatus := gst_TxPacketsPerStatus s\<rparr>
          in emit (EvStats stats) (update_stats gatewayID conn c b))"

text \<open>The error of a gateway id that cannot be read ends the loop and is dropped by the caller.\<close>

fun handleUplinkFrames :: "semtech_env \<Rightarrow> uplink_frame list \<Rightarrow> semtech_backend \<Rightarrow> semtech_backend go" where
  "handleUplinkFrames V [] b = Ret b"
| "handleUplinkFrames V (frame # frames) b =
     (case eui_UnmarshalText (sv_L V) (frame_gateway_id frame) of
        Inl err \<Rightarrow> Ret b
      | Inr gatewayID \<Rightarrow>
          go_bind (case gateways_get gatewayID b of
                     Inl err \<Rightarrow> Ret b
                   | Inr conn \<Rightarrow> go_bind (CountUplink (sv_P V) frame (ug_stats conn)) (\<lambda>c.
                       Ret (update_stats gatewayID conn c b))) (\<lambda>b.
            handleUplinkFrames V frames
              (if sv_MatchFilters V (uf_PhyPayload frame) then emit (EvUplink frame) b else b)))"

definition handlePushData ::
  "semtech_env \<Rightarrow> time \<Rightarrow> string list \<Rightarrow> string \<Rightarrow> bytes \<Rightarrow> semtech_backend \<Rightarrow> (unit result \<times> semtech_backend) go" where
  "handlePushData V now order addr data b =
     (case PushData_UnmarshalBinary (sv_J V) data of
        Inl err \<Rightarrow> Ret (Inl err, b)
      | Inr p \<Rightarrow>
          let ack = PushACK_MarshalBinary \<lparr>pk_ProtocolVersion = pu_ProtocolVersion p, pk_RandomToken = pu_RandomToken p\<rparr>;
              b = send_udp addr ack b;
              b = (case GetGatewayStats (sv_L V) p of
                     None \<Rightarrow> b
                   | Some stats \<Rightarrow> handleStats (sv_P V) order (pu_GatewayMAC p) stats b)
          in case GetUplinkFrames (sv_L V) (sv_J V) now (sb_skipCRCCheck b) (sb_fakeRxTime b) p of
               Inl err \<Rightarrow> Ret (Inl (Errorf ''get uplink frames error''), b)
             | Inr frames \<Rightarrow> go_bind (handleUplinkFrames V frames b) (\<lambda>b. Ret (Inr (), b)))"

definition handlePacket ::
  "semtech_env \<Rightarrow> time \<Rightarrow> string list \<Rightarrow> string \<Rightarrow> bytes \<Rightarrow> semtech_backend \<Rightarrow> (unit result \<times> semtech_backend) go" where
  "handlePacket V now order addr data b =
     (if sb_closed b then Ret (Inr (), b)
      else case GetPacketType data of
             Inl err \<Rightarrow> Ret (Inl err, b)
           | Inr pt \<Rightarrow>
               if pt = PushData then handlePushData V now order addr data b
               else if pt = PullData then Ret (handlePullData now addr data b)
               else if pt = TXACK then handleTXACK V now data b
               else Ret (Inl (Errorf ''backend/semtechudp: unknown packet type''), b))"

text \<open>The goroutine that writes the datagrams leaves out those without a packet type.\<close>

definition sendPackets :: "(string \<times> bytes) list \<Rightarrow> (string \<times> bytes) list" where
  "sendPackets sent = filter (\<lambda>(addr, data). \<not> isl (GetPacketType data)) sent"

text \<open>When \<^verbatim>\<open>Close\<close> fails the function returns with the lock held.\<close>

definition semtech_Stop :: "unit result \<Rightarrow> semtech_backend \<Rightarrow> (unit result \<times> semtech_backend) go" where
  "semtech_Stop close b =
     (let b = b\<lparr>sb_closed := True\<rparr>
      in case close of
           Inl err \<Rightarrow> Ret (Inl (Errorf ''close udp listener error''), b\<lparr>sb_locked := True\<rparr>)
         | Inr _ \<Rightarrow> if sb_chanClosed b then Panic else Ret (Inr (), b\<lparr>sb_chanClosed := True\<rparr>))"

section \<open>The backend as a step relation\<close>

text \<open>A handler or \<^verbatim>\<open>Stop\<close> waits for the lock; a downlink and the cleanup do not take it.\<close>

inductive semtech_step :: "semtech_env \<Rightarrow> semtech_backend \<Rightarrow> semtech_backend \<Rightarrow> bool" for V where
  packet: "\<not> sb_locked b \<Longrightarrow> handlePacket V now order addr data b = Ret (r, b') \<Longrightarrow> semtech_step V b b'"
| downlink: "semtech_SendDownlinkFrame V now frame b = Ret (r, b') \<Longrightarrow> semtech_step V b b'"
| cleanup: "semtech_step V b (gateways_cleanup now order b)"
| stop: "\<not> sb_locked b \<Longrightarrow> semtech_Stop e b = Ret (r, b') \<Longrightarrow> semtech_step V b b'"

inductive semtech_reachable :: "semtech_env \<Rightarrow> semtech_backend \<Rightarrow> bool" for V where
  start: "semtech_NewBackend addr conn fake skip = Inr b \<Longrightarrow> semtech_reachable V b"
| step: "semtech_reachable V b \<Longrightarrow> semtech_step V b b' \<Longrightarrow> semtech_reachable V b'"

section \<open>Invariants\<close>

definition registry_ok :: "semtech_backend \<Rightarrow> bool" where
  "registry_ok b \<longleftrightarrow> online_of (sb_events b) = dom (sb_gateways b) \<and>
     (\<forall>g gw. sb_gateways b g = Some gw \<longrightarrow> protocolSupported (ug_protocolVersion gw))"

definition sendable :: "bytes \<Rightarrow> bool" where
  "sendable data \<longleftrightarrow> (\<exists>pt \<in> {PushACK, PullACK, PullResp}. GetPacketType data = Inr pt)"

definition sent_ok :: "semtech_backend \<Rightarrow> bool" where
  "sent_ok b \<longleftrightarrow> (\<forall>(addr, data) \<in> set (sb_sent b). sendable data)"

text \<open>The three cache entries of a token belong together, and no result is known for an item after the
  one that was tried last.\<close>

definition pending_ok :: "u16 \<Rightarrow> downlink_frame \<times> time \<Rightarrow> nat \<times> time \<Rightarrow> nat list \<times> time \<Rightarrow> bool" where
  "pending_ok token f i a \<longleftrightarrow> ucast (df_DownlinkId (fst f)) = token \<and> snd i = snd f \<and> snd a = snd f \<and>
     length (fst a) = length (df_Items (fst f)) \<and> fst i < length (fst a) \<and>
     (\<forall>j. fst i < j \<and> j < length (fst a) \<longrightarrow> fst a ! j = IGNORED)"

definition cache_ok :: "semtech_backend \<Rightarrow> bool" where
  "cache_ok b \<longleftrightarrow> (\<forall>token.
     (sb_frame b token = None \<and> sb_index b token = None \<and> sb_ack b token = None) \<or>
     (\<exists>f i a. sb_frame b token = Some f \<and> sb_index b token = Some i \<and> sb_ack b token = Some a \<and> pending_ok token f i a))"

definition semtech_inv :: "semtech_backend \<Rightarrow> bool" where
  "semtech_inv b \<longleftrightarrow> registry_ok b \<and> sent_ok b \<and> cache_ok b"

lemma emit_sel [simp]:
  "sb_gateways (emit e b) = sb_gateways b" "sb_sent (emit e b) = sb_sent b" "sb_frame (emit e b) = sb_frame b"
  "sb_index (emit e b) = sb_index b" "sb_ack (emit e b) = sb_ack b" "sb_events (emit e b) = sb_events b @ [e]"
  "sb_closed (emit e b) = sb_closed b" "sb_skipCRCCheck (emit e b) = sb_skipCRCCheck b" "sb_fakeRxTime (emit e b) = sb_fakeRxTime b"
  by (simp_all add: emit_def)

lemma send_udp_sel [simp]:
  "sb_gateways (send_udp a d b) = sb_gateways b" "sb_sent (send_udp a d b) = sb_sent b @ [(a, d)]"
  "sb_frame (send_udp a d b) = sb_frame b" "sb_index (send_udp a d b) = sb_index b" "sb_ack (send_udp a d b) = sb_ack b"
  "sb_events (send_udp a d b) = sb_events b" "sb_closed (send_udp a d b) = sb_closed b"
  "sb_chanClosed (send_udp a d b) = sb_chanClosed b"
  by (simp_all add: send_udp_def)

lemma update_stats_sel [simp]:
  "sb_sent (update_stats m gw c b) = sb_sent b" "sb_frame (update_stats m gw c b) = sb_frame b"
  "sb_index (update_stats m gw c b) = sb_index b" "sb_ack (update_stats m gw c b) = sb_ack b"
  "sb_events (update_stats m gw c b) = sb_events b" "sb_closed (update_stats m gw c b) = sb_closed b"
  "sb_gateways (update_stats m gw c b) = (sb_gateways b)(m \<mapsto> gw\<lparr>ug_stats := c\<rparr>)"
  by (simp_all add: update_stats_def)

lemma gateways_get_eq [simp]: "gateways_get m b = Inr gw \<longleftrightarrow> sb_gateways b m = Some gw"
  by (simp add: gateways_get_def split: option.split)

lemma inv_emit:
  "semtech_inv b \<Longrightarrow> (\<And>S. online_step e S = S) \<Longrightarrow> semtech_inv (emit e b)"
  by (simp add: semtech_inv_def registry_ok_def sent_ok_def cache_ok_def)

lemma inv_update_stats: "semtech_inv b \<Longrightarrow> sb_gateways b m = Some gw \<Longrightarrow> semtech_inv (update_stats m gw c b)"
  by (auto simp: semtech_inv_def registry_ok_def sent_ok_def cache_ok_def)

lemma inv_send: "semtech_inv b \<Longrightarrow> sendable d \<Longrightarrow> semtech_inv (send_udp a d b)"
  by (simp add: semtech_inv_def registry_ok_def sent_ok_def cache_ok_def)

lemma packet_header_type:
  "protocolSupported v \<Longrightarrow> GetPacketType (packet_header v t ty @ rest) = Inr ty"
  "protocolSupported v \<Longrightarrow> GetPacketType (packet_header v t ty) = Inr ty"
  by (simp_all add: GetPacketType_def packet_header_def le_put_uint16_def)

lemma inv_set:
  "semtech_inv b \<Longrightarrow> protocolSupported (ug_protocolVersion gw) \<Longrightarrow> semtech_inv (gateways_set g gw b)"
  by (auto simp: semtech_inv_def registry_ok_def sent_ok_def cache_ok_def gateways_set_def Let_def)

lemma inv_cleanup: "semtech_inv b \<Longrightarrow> semtech_inv (gateways_cleanup now order b)"
proof (induction order arbitrary: b)
  case (Cons g order)
  let ?b = "emit (EvSubscribe g False) b"
  have "semtech_inv (?b\<lparr>sb_gateways := (sb_gateways ?b)(g := None)\<rparr>)"
    using Cons.prems by (auto simp: semtech_inv_def registry_ok_def sent_ok_def cache_ok_def split: if_splits)
  from Cons.IH[OF this] Cons.IH[OF Cons.prems] show ?case by (simp add: Let_def split: option.split)
qed simp

lemma inv_set_caches:
  assumes "semtech_inv b" "ucast (df_DownlinkId frame) = token" "length acks = length (df_Items frame)" "i < length acks"
    and "\<forall>j. i < j \<and> j < length acks \<longrightarrow> acks ! j = IGNORED"
  shows "semtech_inv (b\<lparr>sb_ack := cache_Set now token acks (sb_ack b), sb_frame := cache_Set now token frame (sb_frame b),
     sb_index := cache_Set now token i (sb_index b)\<rparr>)"
  using assms by (auto simp: semtech_inv_def registry_ok_def sent_ok_def cache_ok_def cache_Set_def pending_ok_def)

lemma inv_sendDownlinkFrame:
  assumes "semtech_inv b" "length acks = length (df_Items frame)" "\<forall>j. i < j \<and> j < length acks \<longrightarrow> acks ! j = IGNORED"
    and "semtech_sendDownlinkFrame V now frame i acks b = Ret (r, b')"
  shows "semtech_inv b'"
proof (cases "i < length (df_Items frame)")
  case False
  then show ?thesis using assms(1,4) by (simp add: semtech_sendDownlinkFrame_def)
next
  case True
  define b1 where "b1 = b\<lparr>sb_ack := cache_Set now (ucast (df_DownlinkId frame)) acks (sb_ack b),
    sb_frame := cache_Set now (ucast (df_DownlinkId frame)) frame (sb_frame b),
    sb_index := cache_Set now (ucast (df_DownlinkId frame)) i (sb_index b)\<rparr>"
  have inv: "semtech_inv b1"
    unfolding b1_def by (rule inv_set_caches[OF assms(1) refl assms(2)]) (use True assms(2,3) in auto)
  have send: "semtech_inv (send_udp (ug_addr gw) d b1)"
    if "sb_gateways b1 g = Some gw" "GetPullRespPacket (ug_protocolVersion gw) t frame i = Inr p"
      "PullResp_MarshalBinary (sv_J V) p = Inr d" for g gw t p d
  proof (rule inv_send[OF inv])
    have v: "protocolSupported (ug_protocolVersion gw)" using inv that(1) by (auto simp: semtech_inv_def registry_ok_def)
    have "pr_ProtocolVersion p = ug_protocolVersion gw" using GetPullRespPacket_header[OF that(2)] by simp
    then show "sendable d"
      using that(3) v by (auto simp: sendable_def PullResp_MarshalBinary_def map_sum_eq_Inr packet_header_type)
  qed
  show ?thesis
    using assms(4) True send inv unfolding semtech_sendDownlinkFrame_def b1_def[symmetric] Let_def
    by (auto split: sum.splits if_splits)
qed

text \<open>Recording a result for the item that was tried keeps the cache consistent.\<close>

lemma inv_set_ack_item:
  assumes "semtech_inv b" "cache_Get now (sb_index b) token = Some i"
  shows "semtech_inv (set_ack_item token i status b)"
proof -
  obtain t where idx: "sb_index b token = Some (i, t)"
    using assms(2) by (auto simp: cache_Get_def split: option.splits if_splits)
  have "cache_ok b" using assms(1) by (simp add: semtech_inv_def)
  then have "cache_ok (set_ack_item token i status b)"
    unfolding cache_ok_def
  proof (intro allI)
    fix tk
    assume ok: "\<forall>token. (sb_frame b token = None \<and> sb_index b token = None \<and> sb_ack b token = None) \<or>
     (\<exists>f i a. sb_frame b token = Some f \<and> sb_index b token = Some i \<and> sb_ack b token = Some a \<and> pending_ok token f i a)"
    show "(sb_frame (set_ack_item token i status b) tk = None \<and> sb_index (set_ack_item token i status b) tk = None \<and>
        sb_ack (set_ack_item token i status b) tk = None) \<or>
     (\<exists>f ia a. sb_frame (set_ack_item token i status b) tk = Some f \<and> sb_index (set_ack_item token i status b) tk = Some ia \<and>
        sb_ack (set_ack_item token i status b) tk = Some a \<and> pending_ok tk f ia a)"
    proof (cases "tk = token")
      case True
      from ok idx obtain f a where "sb_frame b token = Some f" "sb_ack b token = Some a" "pending_ok token f (i, t) a"
        by (metis option.distinct(1) option.inject)
      then show ?thesis using True idx by (cases a) (auto simp: set_ack_item_def pending_ok_def)
    next
      case False
      then show ?thesis using ok by (simp add: set_ack_item_def)
    qed
  qed
  then show ?thesis using assms(1) by (simp add: semtech_inv_def registry_ok_def sent_ok_def set_ack_item_def)
qed

lemma pending_of_cache:
  assumes "cache_ok b" "cache_Get now (sb_frame b) token = Some frame" "cache_Get now (sb_index b) token = Some i"
    and "cache_Get now (sb_ack b) token = Some acks"
  shows "length acks = length (df_Items frame)" "i < length acks" "\<forall>j. i < j \<and> j < length acks \<longrightarrow> acks ! j = IGNORED"
    "ucast (df_DownlinkId frame) = token"
proof -
  obtain t1 t2 t3 where "sb_frame b token = Some (frame, t1)" "sb_index b token = Some (i, t2)" "sb_ack b token = Some (acks, t3)"
    using assms(2-4) by (auto simp: cache_Get_def split: option.splits if_splits)
  with assms(1) have "pending_ok token (frame, t1) (i, t2) (acks, t3)"
    unfolding cache_ok_def by (metis option.distinct(1) option.inject)
  then show "length acks = length (df_Items frame)" "i < length acks" "\<forall>j. i < j \<and> j < length acks \<longrightarrow> acks ! j = IGNORED"
    "ucast (df_DownlinkId frame) = token"
    by (simp_all add: pending_ok_def)
qed

text \<open>What a TX\_ACK does.\<close>

lemma handleTXACK_cases:
  assumes "handleTXACK V now data b = Ret (r, b')"
  obtains (same) "b' = b"
    | (retry) p :: TXACKPacket and frame i acks status where "cache_Get now (sb_frame b) (ta_RandomToken p) = Some frame"
        "cache_Get now (sb_index b) (ta_RandomToken p) = Some i" "cache_Get now (sb_ack b) (ta_RandomToken p) = Some acks"
        "semtech_sendDownlinkFrame V now frame (Suc i) (acks[i := status]) (set_ack_item (ta_RandomToken p) i status b) = Ret (r, b')"
    | (failed) p :: TXACKPacket and frame i acks status where "cache_Get now (sb_index b) (ta_RandomToken p) = Some i"
        "b' = emit (EvAck (tx_ack_of V p frame (acks[i := status]))) (set_ack_item (ta_RandomToken p) i status b)"
    | (finished) p :: TXACKPacket and frame i acks where "cache_Get now (sb_index b) (ta_RandomToken p) = Some i"
        "finish_txack V p frame (acks[i := OK]) (set_ack_item (ta_RandomToken p) i OK b) = Ret (r, b')"
proof (cases "TXACK_UnmarshalBinary (sv_J V) data")
  case (Inl e)
  then show thesis using assms same by (simp add: handleTXACK_def)
next
  case (Inr p)
  let ?t = "ta_RandomToken p"
  show thesis
  proof (cases "\<exists>frame i acks. cache_Get now (sb_frame b) ?t = Some frame \<and> cache_Get now (sb_index b) ?t = Some i \<and>
      cache_Get now (sb_ack b) ?t = Some acks")
    case False
    then have "b' = b" using assms Inr
      by (auto simp: handleTXACK_def Let_def split: option.splits)
    then show thesis by (rule same)
  next
    case True
    then obtain frame i acks where c: "cache_Get now (sb_frame b) ?t = Some frame" "cache_Get now (sb_index b) ?t = Some i"
      "cache_Get now (sb_ack b) ?t = Some acks" by blast
    show thesis
    proof (cases "i \<ge> length acks \<or> length acks \<noteq> length (df_Items frame)")
      case True
      then show thesis using assms Inr c same by (simp add: handleTXACK_def Let_def)
    next
      case sync: False
      show thesis
      proof (cases "ack_error p")
        case None
        then show thesis using assms Inr c sync finished[OF c(2)] by (simp add: handleTXACK_def Let_def)
      next
        case (Some e)
        show thesis
        proof (cases "pb_TxAckStatus_value (sv_P V) e")
          case None
          then show thesis using assms Inr c sync Some same by (simp add: handleTXACK_def Let_def)
        next
          case (Some status)
          then show thesis
            using assms Inr c sync \<open>ack_error p = Some e\<close> retry[OF c] failed[OF c(2), of frame acks status]
            by (simp add: handleTXACK_def Let_def split: if_splits)
        qed
      qed
    qed
  qed
qed

lemma inv_finish_txack:
  assumes "semtech_inv b" "finish_txack V p frame items b = Ret (r, b')"
  shows "semtech_inv b'"
proof -
  obtain b1 where b1: "semtech_inv b1" "b' = emit (EvAck (tx_ack_of V p frame items)) b1"
  proof (cases "gateways_get (ta_GatewayMAC p) b")
    case (Inl e)
    then show thesis using assms that[of b] by (simp add: finish_txack_def)
  next
    case (Inr conn)
    then obtain c where "b' = emit (EvAck (tx_ack_of V p frame items)) (update_stats (ta_GatewayMAC p) conn c b)"
      using assms(2) by (auto simp: finish_txack_def go_bind_eq_Ret gateways_get_def)
    then show thesis using that[of "update_stats (ta_GatewayMAC p) conn c b"] inv_update_stats[OF assms(1)] Inr by simp
  qed
  then show ?thesis using inv_emit[OF b1(1)] by simp
qed

lemma inv_TXACK:
  assumes "semtech_inv b" "handleTXACK V now data b = Ret (r, b')"
  shows "semtech_inv b'"
  using assms(2)
proof (cases rule: handleTXACK_cases)
  case same
  then show ?thesis using assms(1) by simp
next
  case (retry p frame i acks status)
  have ok: "cache_ok b" using assms(1) by (simp add: semtech_inv_def)
  show ?thesis
  proof (rule inv_sendDownlinkFrame[OF inv_set_ack_item[OF assms(1) retry(2)] _ _ retry(4)])
    show "length (acks[i := status]) = length (df_Items frame)" using pending_of_cache(1)[OF ok retry(1-3)] by simp
    show "\<forall>j. Suc i < j \<and> j < length (acks[i := status]) \<longrightarrow> acks[i := status] ! j = IGNORED"
      using pending_of_cache(3)[OF ok retry(1-3)] by simp
  qed
next
  case (failed p frame i acks status)
  then show ?thesis using inv_emit[OF inv_set_ack_item[OF assms(1) failed(1)]] by simp
next
  case (finished p frame i acks)
  then show ?thesis using inv_finish_txack[OF inv_set_ack_item[OF assms(1) finished(1)]] by blast
qed

lemma read_header_version: "read_header ty data = Inr (v, t) \<Longrightarrow> protocolSupported v"
  by (auto simp: read_header_def split: if_splits)

lemma inv_PullData:
  assumes "semtech_inv b" "handlePullData now addr data b = (r, b')"
  shows "semtech_inv b'"
proof (cases "PullData_UnmarshalBinary data")
  case (Inl e)
  then show ?thesis using assms by (simp add: handlePullData_def)
next
  case (Inr p)
  then have v: "protocolSupported (pd_ProtocolVersion p)"
    by (auto simp: PullData_UnmarshalBinary_def map_sum_eq_Inr read_header_version split: if_splits)
  let ?ack = "PullACK_MarshalBinary \<lparr>pk_ProtocolVersion = pd_ProtocolVersion p, pk_RandomToken = pd_RandomToken p\<rparr>"
  have "sendable ?ack" using v by (simp add: sendable_def PullACK_MarshalBinary_def packet_header_type)
  moreover have "b' = send_udp addr ?ack (gateways_set (pd_GatewayMAC p)
      \<lparr>ug_stats = NewCollector, ug_addr = addr, ug_lastSeen = now, ug_protocolVersion = pd_ProtocolVersion p\<rparr> b)"
    using assms(2) Inr by (simp add: handlePullData_def Let_def)
  ultimately show ?thesis using inv_send inv_set[OF assms(1)] v by simp
qed

lemma inv_UplinkFrames: "semtech_inv b \<Longrightarrow> handleUplinkFrames V frames b = Ret b' \<Longrightarrow> semtech_inv b'"
proof (induction frames arbitrary: b)
  case (Cons frame frames)
  show ?case
  proof (cases "eui_UnmarshalText (sv_L V) (frame_gateway_id frame)")
    case (Inl e)
    then show ?thesis using Cons.prems by simp
  next
    case (Inr g)
    obtain b1 where b1: "semtech_inv b1"
      "handleUplinkFrames V frames (if sv_MatchFilters V (uf_PhyPayload frame) then emit (EvUplink frame) b1 else b1) = Ret b'"
    proof (cases "gateways_get g b")
      case (Inl e)
      then show thesis using Cons.prems Inr that[of b] by simp
    next
      case (Inr conn)
      then obtain c where "handleUplinkFrames V frames (if sv_MatchFilters V (uf_PhyPayload frame)
          then emit (EvUplink frame) (update_stats g conn c b) else update_stats g conn c b) = Ret b'"
        using Cons.prems(2) \<open>eui_UnmarshalText (sv_L V) (frame_gateway_id frame) = Inr g\<close> by (auto simp: go_bind_eq_Ret gateways_get_def)
      then show thesis using that[of "update_stats g conn c b"] inv_update_stats[OF Cons.prems(1)] Inr by simp
    qed
    have "semtech_inv (if sv_MatchFilters V (uf_PhyPayload frame) then emit (EvUplink frame) b1 else b1)"
      using inv_emit[OF b1(1), of "EvUplink frame"] b1(1) by simp
    from Cons.IH[OF this b1(2)] show ?thesis .
  qed
qed simp

lemma inv_Stats: "semtech_inv b \<Longrightarrow> semtech_inv (handleStats P order g stats b)"
  using inv_emit inv_update_stats[of b g] by (simp add: handleStats_def ExportStats_def Let_def split: sum.split)

lemma inv_PushData:
  assumes "semtech_inv b" "handlePushData V now order addr data b = Ret (r, b')"
  shows "semtech_inv b'"
proof (cases "PushData_UnmarshalBinary (sv_J V) data")
  case (Inl e)
  then show ?thesis using assms by (simp add: handlePushData_def)
next
  case (Inr p)
  then have v: "protocolSupported (pu_ProtocolVersion p)"
    by (auto simp: PushData_UnmarshalBinary_def map_sum_eq_Inr read_header_version split: if_splits sum.splits)
  let ?ack = "PushACK_MarshalBinary \<lparr>pk_ProtocolVersion = pu_ProtocolVersion p, pk_RandomToken = pu_RandomToken p\<rparr>"
  define b1 where "b1 = (case GetGatewayStats (sv_L V) p of None \<Rightarrow> send_udp addr ?ack b
    | Some stats \<Rightarrow> handleStats (sv_P V) order (pu_GatewayMAC p) stats (send_udp addr ?ack b))"
  have "sendable ?ack" using v by (simp add: sendable_def PushACK_MarshalBinary_def packet_header_type)
  then have b1: "semtech_inv b1" using inv_send[OF assms(1)] inv_Stats by (simp add: b1_def split: option.split)
  have "b' = b1 \<or> (\<exists>frames. handleUplinkFrames V frames b1 = Ret b')"
    using assms(2) Inr by (auto simp: handlePushData_def Let_def b1_def[symmetric] go_bind_eq_Ret split: sum.splits)
  then show ?thesis using b1 inv_UplinkFrames by blast
qed

lemma inv_Packet:
  assumes "semtech_inv b" "handlePacket V now order addr data b = Ret (r, b')"
  shows "semtech_inv b'"
proof -
  consider "b' = b" | "handlePushData V now order addr data b = Ret (r, b')"
    | "handlePullData now addr data b = (r, b')" | "handleTXACK V now data b = Ret (r, b')"
    using assms(2) unfolding handlePacket_def by (simp split: if_splits sum.splits)
  then show ?thesis
  proof cases
    case 1
    then show ?thesis using assms(1) by simp
  qed (use inv_PushData[OF assms(1)] inv_PullData[OF assms(1)] inv_TXACK[OF assms(1)] in blast)+
qed

lemma semtech_step_inv:
  assumes "semtech_step V b b'" "semtech_inv b"
  shows "semtech_inv b'"
  using assms
proof (induction rule: semtech_step.induct)
  case (packet now order addr data b r b')
  then show ?case by (blast intro: inv_Packet)
next
  case (downlink now frame b r b')
  then show ?case
    using inv_sendDownlinkFrame[OF downlink.prems, of "replicate (length (df_Items frame)) IGNORED" frame 0]
    by (simp add: semtech_SendDownlinkFrame_def)
next
  case (cleanup b now order)
  then show ?case by (rule inv_cleanup)
next
  case (stop e b r b')
  then show ?case
    by (auto simp: semtech_Stop_def semtech_inv_def registry_ok_def sent_ok_def cache_ok_def Let_def split: sum.splits if_splits)
qed

lemma semtech_reachable_inv: "semtech_reachable V b \<Longrightarrow> semtech_inv b"
proof (induction rule: semtech_reachable.induct)
  case (start addr conn fake skip b)
  then show ?case
    by (auto simp: semtech_NewBackend_def semtech_inv_def registry_ok_def sent_ok_def cache_ok_def online_of_def split: if_splits)
next
  case (step b b')
  then show ?case using semtech_step_inv by blast
qed

section \<open>Retries\<close>

text \<open>The datagram of an item of a downlink, and the datagrams of a list handled one after the other.\<close>

definition item_datagram :: "semtech_env \<Rightarrow> udp_gateway \<Rightarrow> downlink_frame \<Rightarrow> nat \<Rightarrow> bytes option" where
  "item_datagram V gw frame i =
     (case GetPullRespPacket (ug_protocolVersion gw) (ucast (df_DownlinkId frame)) frame i of
        Inl _ \<Rightarrow> None
      | Inr p \<Rightarrow> (case PullResp_MarshalBinary (sv_J V) p of Inl _ \<Rightarrow> None | Inr d \<Rightarrow> Some d))"

fun handle_datagrams :: "semtech_env \<Rightarrow> (time \<times> string \<times> bytes) list \<Rightarrow> semtech_backend \<Rightarrow> semtech_backend go" where
  "handle_datagrams V [] b = Ret b"
| "handle_datagrams V ((now, addr, data) # ds) b =
     go_bind (handlePacket V now [] addr data b) (\<lambda>(r, b). handle_datagrams V ds b)"

definition tx_ack_datagram :: "semtech_env \<Rightarrow> u16 \<Rightarrow> TXACKPacket \<Rightarrow> bytes \<Rightarrow> bool" where
  "tx_ack_datagram V token p data \<longleftrightarrow> GetPacketType data = Inr TXACK \<and> TXACK_UnmarshalBinary (sv_J V) data = Inr p \<and>
     ta_RandomToken p = token"

definition failed_with :: "semtech_env \<Rightarrow> TXACKPacket \<Rightarrow> nat \<Rightarrow> bool" where
  "failed_with V p status \<longleftrightarrow> (\<exists>e. ack_error p = Some e \<and> pb_TxAckStatus_value (sv_P V) e = Some status)"

text \<open>Each time is at most fifteen seconds after the one before.\<close>

fun in_time :: "time \<Rightarrow> time list \<Rightarrow> bool" where
  "in_time t [] = True"
| "in_time t (u # ts) \<longleftrightarrow> u \<le> t + 15 * second \<and> in_time u ts"

text \<open>Item \<open>i\<close> of the downlink has been sent at time \<open>t\<close>, after the results \<open>acks\<close>.\<close>

definition trying :: "udp_gateway \<Rightarrow> eui64 \<Rightarrow> downlink_frame \<Rightarrow> time \<Rightarrow> nat \<Rightarrow> nat list \<Rightarrow> semtech_backend \<Rightarrow> bool" where
  "trying gw g frame t i acks b \<longleftrightarrow>
     (let token = ucast (df_DownlinkId frame); expires = t + 15 * second
      in sb_frame b token = Some (frame, expires) \<and> sb_index b token = Some (i, expires) \<and>
         sb_ack b token = Some (acks, expires)) \<and>
     sb_gateways b g = Some gw \<and> \<not> sb_closed b \<and> \<not> sb_chanClosed b"

lemma sendDownlinkFrame_ok:
  assumes "eui_UnmarshalText (sv_L V) (df_GatewayId frame) = Inr g" "sb_gateways b g = Some gw" "\<not> sb_closed b" "\<not> sb_chanClosed b"
    and "i < length (df_Items frame)" "item_datagram V gw frame i = Some d"
  obtains b' where "semtech_sendDownlinkFrame V now frame i acks b = Ret (Inr (), b')" "trying gw g frame now i acks b'"
    "sb_sent b' = sb_sent b @ [(ug_addr gw, d)]" "sb_events b' = sb_events b" "sb_gateways b' = sb_gateways b"
proof -
  define b1 where "b1 = b\<lparr>sb_ack := cache_Set now (ucast (df_DownlinkId frame)) acks (sb_ack b),
    sb_frame := cache_Set now (ucast (df_DownlinkId frame)) frame (sb_frame b),
    sb_index := cache_Set now (ucast (df_DownlinkId frame)) i (sb_index b)\<rparr>"
  have g: "gateways_get g b1 = Inr gw" using assms(2) by (simp add: b1_def)
  obtain p where p: "GetPullRespPacket (ug_protocolVersion gw) (ucast (df_DownlinkId frame)) frame i = Inr p"
    "PullResp_MarshalBinary (sv_J V) p = Inr d"
    using assms(6) by (auto simp: item_datagram_def split: sum.splits)
  have "semtech_sendDownlinkFrame V now frame i acks b = Ret (Inr (), send_udp (ug_addr gw) d b1)"
    using assms(1,4,5) g p unfolding semtech_sendDownlinkFrame_def Let_def b1_def[symmetric]
    by (simp del: gateways_get_eq) (simp add: b1_def)
  moreover have "trying gw g frame now i acks (send_udp (ug_addr gw) d b1)"
    using assms(2-4) by (simp add: trying_def b1_def cache_Set_def)
  ultimately show thesis using that by (simp add: b1_def)
qed

lemma trying_cached:
  assumes "trying gw g frame t i acks b" "now \<le> t + 15 * second"
  shows "cache_Get now (sb_frame b) (ucast (df_DownlinkId frame)) = Some frame"
    "cache_Get now (sb_index b) (ucast (df_DownlinkId frame)) = Some i"
    "cache_Get now (sb_ack b) (ucast (df_DownlinkId frame)) = Some acks"
  using assms by (simp_all add: trying_def cache_Get_def Let_def)

lemma handlePacket_TXACK:
  "\<not> sb_closed b \<Longrightarrow> tx_ack_datagram V token p data \<Longrightarrow> handlePacket V now order addr data b = handleTXACK V now data b"
  by (simp add: handlePacket_def tx_ack_datagram_def PushData_def PullData_def TXACK_def)

text \<open>A failure is recorded and the next item is tried.\<close>

lemma failure_retries:
  assumes "trying gw g frame t i acks b" "now \<le> t + 15 * second"
    and "eui_UnmarshalText (sv_L V) (df_GatewayId frame) = Inr g"
    and "tx_ack_datagram V (ucast (df_DownlinkId frame)) p data" "failed_with V p status"
    and "length acks = length (df_Items frame)" "Suc i < length acks" "item_datagram V gw frame (Suc i) = Some d"
  obtains b' where "handlePacket V now order addr data b = Ret (Inr (), b')"
    "trying gw g frame now (Suc i) (acks[i := status]) b'" "sb_sent b' = sb_sent b @ [(ug_addr gw, d)]" "sb_events b' = sb_events b"
proof -
  let ?t = "ucast (df_DownlinkId frame)" and ?b = "set_ack_item (ucast (df_DownlinkId frame)) i status b"
  have st: "sb_gateways ?b g = Some gw" "\<not> sb_closed ?b" "\<not> sb_chanClosed ?b" "sb_sent ?b = sb_sent b" "sb_events ?b = sb_events b"
    using assms(1) by (simp_all add: trying_def set_ack_item_def)
  have "handlePacket V now order addr data b = handleTXACK V now data b"
    using assms(1) by (intro handlePacket_TXACK[OF _ assms(4)]) (simp add: trying_def)
  also have "\<dots> = semtech_sendDownlinkFrame V now frame (Suc i) (acks[i := status]) ?b"
    using trying_cached[OF assms(1,2)] assms(4-7) by (auto simp: handleTXACK_def tx_ack_datagram_def failed_with_def Let_def)
  finally show thesis
    using sendDownlinkFrame_ok[OF assms(3) st(1-3) _ assms(8), where now = now and acks = "acks[i := status]"] assms(6,7) st that
    by (metis length_list_update)
qed

lemma count_downlink_returns:
  "\<forall>it \<in> set items. di_TxInfo it \<noteq> None \<Longrightarrow> \<exists>c'. count_downlink_loop P items i acks c = Ret c'"
proof (induction acks arbitrary: i c)
  case (Cons status acks)
  show ?case
  proof (cases "i < length items")
    case True
    then obtain ti where "di_TxInfo (items ! i) = Some ti" using Cons.prems nth_mem by blast
    then show ?thesis using Cons by (auto simp: Let_def split: sum.splits)
  next
    case False
    then show ?thesis using Cons by (auto simp: Let_def)
  qed
qed simp

text \<open>The last report, of a success or of the last item, ends the downlink.\<close>

lemma last_report:
  assumes "trying gw g frame t i acks b" "now \<le> t + 15 * second"
    and "tx_ack_datagram V (ucast (df_DownlinkId frame)) p data"
    and "ack_error p = None \<and> status = OK \<or> failed_with V p status \<and> Suc i = length acks"
    and "length acks = length (df_Items frame)" "i < length acks" "\<forall>it \<in> set (df_Items frame). di_TxInfo it \<noteq> None"
  shows "\<exists>b'. handlePacket V now order addr data b = Ret (Inr (), b') \<and> sb_sent b' = sb_sent b \<and>
    sb_events b' = sb_events b @ [EvAck (tx_ack_of V p frame (acks[i := status]))]"
proof -
  let ?t = "ucast (df_DownlinkId frame)" and ?b = "set_ack_item (ucast (df_DownlinkId frame)) i status b"
  have st: "sb_sent ?b = sb_sent b" "sb_events ?b = sb_events b" by (simp_all add: set_ack_item_def)
  have hp: "handlePacket V now order addr data b = handleTXACK V now data b"
    using assms(1) by (intro handlePacket_TXACK[OF _ assms(3)]) (simp add: trying_def)
  from assms(4) show ?thesis
  proof (elim disjE conjE)
    assume "ack_error p = None" "status = OK"
    then have "handleTXACK V now data b = finish_txack V p frame (acks[i := status]) ?b"
      using trying_cached[OF assms(1,2)] assms(3,5,6) by (auto simp: handleTXACK_def tx_ack_datagram_def Let_def)
    moreover have "\<exists>b'. finish_txack V p frame (acks[i := status]) ?b = Ret (Inr (), b') \<and> sb_sent b' = sb_sent b \<and>
        sb_events b' = sb_events b @ [EvAck (tx_ack_of V p frame (acks[i := status]))]"
    proof (cases "gateways_get (ta_GatewayMAC p) ?b")
      case (Inl e)
      then show ?thesis by (simp add: finish_txack_def st)
    next
      case (Inr conn)
      obtain c where "CountDownlink (sv_P V) frame (acks[i := status]) (ug_stats conn) = Ret c"
        using count_downlink_returns[OF assms(7)] unfolding CountDownlink_def by blast
      then show ?thesis using Inr by (simp add: finish_txack_def st gateways_get_def split: option.splits)
    qed
    ultimately show ?thesis using hp by simp
  next
    assume "failed_with V p status" "Suc i = length acks"
    then have "handleTXACK V now data b = Ret (Inr (), emit (EvAck (tx_ack_of V p frame (acks[i := status]))) ?b)"
      using trying_cached[OF assms(1,2)] assms(3,5,6) by (auto simp: handleTXACK_def tx_ack_datagram_def failed_with_def Let_def)
    then show ?thesis using hp st by simp
  qed
qed

lemma failures_retry:
  assumes "trying gw g frame t i acks b" "in_time t (map fst fails)"
    and "eui_UnmarshalText (sv_L V) (df_GatewayId frame) = Inr g"
    and "list_all2 (\<lambda>(t, addr, data) status. \<exists>p. tx_ack_datagram V (ucast (df_DownlinkId frame)) p data \<and> failed_with V p status) fails errs"
    and "length acks = length (df_Items frame)" "i + length errs < length acks"
    and "length ds = length acks" "\<forall>j < length acks. item_datagram V gw frame j = Some (ds ! j)"
  shows "\<exists>b'. handle_datagrams V fails b = Ret b' \<and>
     trying gw g frame (last (t # map fst fails)) (i + length errs) (take i acks @ errs @ drop (i + length errs) acks) b' \<and>
     sb_sent b' = sb_sent b @ map (Pair (ug_addr gw)) (take (length errs) (drop (Suc i) ds)) \<and> sb_events b' = sb_events b"
  using assms
proof (induction fails arbitrary: errs t i acks b)
  case Nil
  then show ?case by simp
next
  case (Cons f fails)
  obtain now addr data where f: "f = (now, addr, data)" by (cases f)
  with Cons.prems(4) obtain status errs' p where errs: "errs = status # errs'"
    "tx_ack_datagram V (ucast (df_DownlinkId frame)) p data" "failed_with V p status"
    "list_all2 (\<lambda>(t, addr, data) status. \<exists>p. tx_ack_datagram V (ucast (df_DownlinkId frame)) p data \<and> failed_with V p status) fails errs'"
    by (auto simp: list_all2_Cons1)
  have len: "Suc i < length acks" "now \<le> t + 15 * second" "in_time now (map fst fails)"
    using Cons.prems(2,6) f errs(1) by auto
  obtain b1 where b1: "handlePacket V now [] addr data b = Ret (Inr (), b1)"
    "trying gw g frame now (Suc i) (acks[i := status]) b1" "sb_sent b1 = sb_sent b @ [(ug_addr gw, ds ! Suc i)]"
    "sb_events b1 = sb_events b"
    using failure_retries[OF Cons.prems(1) len(2) Cons.prems(3) errs(2,3) Cons.prems(5) len(1)] len(1) Cons.prems(8)
    by metis
  have take: "take (Suc i) (acks[i := status]) = take i acks @ [status]" using len(1) by (simp add: take_Suc_conv_app_nth)
  have drop: "drop (Suc (i + n)) (acks[i := status]) = drop (Suc (i + n)) acks" for n by simp
  have ds: "drop (Suc i) ds = ds ! Suc i # drop (Suc (Suc i)) ds"
    using len(1) Cons.prems(7) by (simp add: Cons_nth_drop_Suc)
  obtain b2 where "handle_datagrams V fails b1 = Ret b2"
    "trying gw g frame (last (now # map fst fails)) (Suc i + length errs')
       (take (Suc i) (acks[i := status]) @ errs' @ drop (Suc i + length errs') (acks[i := status])) b2"
    "sb_sent b2 = sb_sent b1 @ map (Pair (ug_addr gw)) (take (length errs') (drop (Suc (Suc i)) ds))" "sb_events b2 = sb_events b1"
    using Cons.IH[OF b1(2) len(3) Cons.prems(3) errs(4)] Cons.prems(5-8) errs(1) by auto
  then show ?case using b1(1,3,4) f errs(1) by (simp add: take drop ds)
qed

lemma in_time_snoc: "in_time t (ts @ [u]) \<longleftrightarrow> in_time t ts \<and> u \<le> last (t # ts) + 15 * second"
  by (induction ts arbitrary: t) auto

interpretation semtech: gateway_backend "semtech_reachable V" sb_events "\<lambda>b. dom (sb_gateways b)" for V
  by unfold_locales (use semtech_reachable_inv in \<open>auto simp: semtech_inv_def registry_ok_def\<close>)

section \<open>Properties\<close>

text \<open>
  C7: what always holds of the backend.  In every state the backend reaches, whatever datagrams arrive, the gateways
  last reported online are those of the registry, all with a protocol version that is supported; each
  datagram for a gateway is a PUSH\_ACK, PULL\_ACK or PULL\_RESP that the writer does not leave out; and
  the three cache entries of a downlink belong together, so that a TX\_ACK never finds them out of sync.
\<close>

theorem semtech_invariant:
  assumes "semtech_reachable V b"
  shows "online_of (sb_events b) = dom (sb_gateways b) \<and>
    (\<forall>g gw. sb_gateways b g = Some gw \<longrightarrow> protocolSupported (ug_protocolVersion gw)) \<and>
    sendPackets (sb_sent b) = sb_sent b \<and> (\<forall>(addr, data) \<in> set (sb_sent b). GetPacketType data \<in> Inr ` {PushACK, PullACK, PullResp}) \<and>
    (\<forall>now token frame. cache_Get now (sb_frame b) token = Some frame \<longrightarrow>
       ucast (df_DownlinkId frame) = token \<and>
       (\<exists>i acks. cache_Get now (sb_index b) token = Some i \<and> cache_Get now (sb_ack b) token = Some acks \<and>
          i < length acks \<and> length acks = length (df_Items frame) \<and> (\<forall>j. i < j \<and> j < length acks \<longrightarrow> acks ! j = IGNORED)))"
proof -
  have inv: "registry_ok b" "sent_ok b" "cache_ok b" using semtech_reachable_inv[OF assms] by (simp_all add: semtech_inv_def)
  have sent: "GetPacketType data \<in> Inr ` {PushACK, PullACK, PullResp}" if "(addr, data) \<in> set (sb_sent b)" for addr data
    using inv(2) that by (auto simp: sent_ok_def sendable_def)
  have "sendPackets (sb_sent b) = sb_sent b"
    unfolding sendPackets_def by (rule filter_True) (use sent in fastforce)
  moreover have "ucast (df_DownlinkId frame) = token \<and>
       (\<exists>i acks. cache_Get now (sb_index b) token = Some i \<and> cache_Get now (sb_ack b) token = Some acks \<and>
          i < length acks \<and> length acks = length (df_Items frame) \<and> (\<forall>j. i < j \<and> j < length acks \<longrightarrow> acks ! j = IGNORED))"
    if cached: "cache_Get now (sb_frame b) token = Some frame" for now token frame
  proof -
    obtain t where t: "sb_frame b token = Some (frame, t)" "\<not> now > t"
      using cached by (auto simp: cache_Get_def split: option.splits if_splits)
    with inv(3) obtain i a where ia: "sb_index b token = Some i" "sb_ack b token = Some a" "pending_ok token (frame, t) i a"
      unfolding cache_ok_def by (metis option.distinct(1) option.inject)
    then have "cache_Get now (sb_index b) token = Some (fst i)" "cache_Get now (sb_ack b) token = Some (fst a)"
      using t(2) by (cases i; cases a; simp add: cache_Get_def pending_ok_def)+
    then show ?thesis using ia(3) by (simp add: pending_ok_def)
  qed
  ultimately show ?thesis using inv(1) sent unfolding registry_ok_def by blast
qed

text \<open>
  C6: a downlink is tried item by item.  For a gateway that is online, when each item can be encoded and each
  report comes within fifteen seconds of the datagram before, the items are sent in order to the gateway's address,
  the next one after each failure; nothing is reported meanwhile.  The first success, or the failure of
  the last item, is reported once, under the id of the downlink, with the result of every item tried and
  IGNORED for the items that were not.
\<close>

theorem downlink_tries_items:
  assumes "eui_UnmarshalText (sv_L V) (df_GatewayId frame) = Inr g" "sb_gateways b g = Some gw" "\<not> sb_closed b" "\<not> sb_chanClosed b"
    and "length ds = length (df_Items frame)" "\<forall>i < length ds. item_datagram V gw frame i = Some (ds ! i)"
    and "\<forall>it \<in> set (df_Items frame). di_TxInfo it \<noteq> None"
    and "list_all2 (\<lambda>(t, addr, data) status. \<exists>p. tx_ack_datagram V (ucast (df_DownlinkId frame)) p data \<and> failed_with V p status) fails errs"
    and "length errs < length (df_Items frame)" "in_time now (map fst fails @ [t])"
    and "tx_ack_datagram V (ucast (df_DownlinkId frame)) p data"
    and "ack_error p = None \<and> status = OK \<or> failed_with V p status \<and> Suc (length errs) = length (df_Items frame)"
  shows "\<exists>b1 b2 b3. semtech_SendDownlinkFrame V now frame b = Ret (Inr (), b1) \<and> handle_datagrams V fails b1 = Ret b2 \<and>
    sb_sent b2 = sb_sent b @ map (Pair (ug_addr gw)) (take (Suc (length errs)) ds) \<and> sb_events b2 = sb_events b \<and>
    handlePacket V t order addr data b2 = Ret (Inr (), b3) \<and> sb_sent b3 = sb_sent b2 \<and>
    sb_events b3 = sb_events b2 @ [EvAck \<lparr>da_GatewayId = eui_String (sv_L V) (ta_GatewayMAC p), da_DownlinkId = df_DownlinkId frame,
      da_Items = errs @ [status] @ replicate (length (df_Items frame) - Suc (length errs)) IGNORED\<rparr>]"
proof -
  let ?n = "length (df_Items frame)"
  let ?acks = "errs @ replicate (?n - length errs) IGNORED"
  have pos: "0 < ?n" using assms(9) by linarith
  obtain b1 where b1: "semtech_SendDownlinkFrame V now frame b = Ret (Inr (), b1)"
    "trying gw g frame now 0 (replicate ?n IGNORED) b1" "sb_sent b1 = sb_sent b @ [(ug_addr gw, ds ! 0)]" "sb_events b1 = sb_events b"
    using sendDownlinkFrame_ok[OF assms(1-4) pos, of "ds ! 0" now "replicate ?n IGNORED"] assms(5,6) pos
    unfolding semtech_SendDownlinkFrame_def by auto
  have times: "in_time now (map fst fails)" "t \<le> last (now # map fst fails) + 15 * second"
    using assms(10) by (simp_all only: in_time_snoc)
  obtain b2 where b2: "handle_datagrams V fails b1 = Ret b2" "trying gw g frame (last (now # map fst fails)) (length errs) ?acks b2"
    "sb_sent b2 = sb_sent b1 @ map (Pair (ug_addr gw)) (take (length errs) (drop 1 ds))" "sb_events b2 = sb_events b1"
    using failures_retry[OF b1(2) times(1) assms(1,8)] assms(5,6,9) by (auto simp: drop_replicate)
  have last: "ack_error p = None \<and> status = OK \<or> failed_with V p status \<and> Suc (length errs) = length ?acks"
    using assms(9,12) by auto
  obtain m where m: "?n - length errs = Suc m" using assms(9) by (metis Suc_diff_Suc)
  have upd: "?acks[length errs := status] = errs @ [status] @ replicate (?n - Suc (length errs)) IGNORED"
    using m by (simp add: list_update_append)
  have "length ?acks = ?n" "length errs < length ?acks" using assms(9) by simp_all
  then obtain b3 where "handlePacket V t order addr data b2 = Ret (Inr (), b3)" "sb_sent b3 = sb_sent b2"
    "sb_events b3 = sb_events b2 @ [EvAck (tx_ack_of V p frame (?acks[length errs := status]))]"
    using last_report[OF b2(2) times(2) assms(11) last _ _ assms(7)] by blast
  moreover have "ds ! 0 # take (length errs) (drop 1 ds) = take (Suc (length errs)) ds"
    using assms(5) pos by (cases ds) simp_all
  ultimately show ?thesis using b1 b2 upd unfolding tx_ack_of_def
    by (intro exI[of _ b1] exI[of _ b2] exI[of _ b3]) (simp flip: list.map(2))
qed

text \<open>
  C32: two downlinks under one token.  The token of a downlink is the low half of its id.  After a second downlink
  whose id has the same low half, to whatever gateway, the acknowledgement of the first gateway
  is reported under the id of the second downlink.
\<close>

theorem tx_ack_other_downlink:
  assumes "eui_UnmarshalText (sv_L V) (df_GatewayId frameA) = Inr gA" "sb_gateways b gA = Some gwA"
    and "eui_UnmarshalText (sv_L V) (df_GatewayId frameB) = Inr gB" "sb_gateways b gB = Some gwB"
    and "\<not> sb_closed b" "\<not> sb_chanClosed b"
    and "df_Items frameA \<noteq> []" "item_datagram V gwA frameA 0 = Some dA"
    and "df_Items frameB \<noteq> []" "item_datagram V gwB frameB 0 = Some dB" "\<forall>it \<in> set (df_Items frameB). di_TxInfo it \<noteq> None"
    and "ucast (df_DownlinkId frameA) = (ucast (df_DownlinkId frameB) :: u16)"
    and "tx_ack_datagram V (ucast (df_DownlinkId frameA)) p data" "ta_GatewayMAC p = gA" "ack_error p = None"
    and "t3 \<le> t2 + 15 * second"
  shows "\<exists>b1 b2 b3. semtech_SendDownlinkFrame V t1 frameA b = Ret (Inr (), b1) \<and>
    semtech_SendDownlinkFrame V t2 frameB b1 = Ret (Inr (), b2) \<and>
    sb_sent b2 = sb_sent b @ [(ug_addr gwA, dA), (ug_addr gwB, dB)] \<and> handlePacket V t3 order addr data b2 = Ret (Inr (), b3) \<and>
    sb_events b3 = sb_events b @ [EvAck \<lparr>da_GatewayId = eui_String (sv_L V) gA, da_DownlinkId = df_DownlinkId frameB,
      da_Items = OK # replicate (length (df_Items frameB) - 1) IGNORED\<rparr>]"
proof -
  obtain b1 where b1: "semtech_SendDownlinkFrame V t1 frameA b = Ret (Inr (), b1)" "sb_sent b1 = sb_sent b @ [(ug_addr gwA, dA)]"
    "sb_events b1 = sb_events b" "sb_gateways b1 = sb_gateways b" "\<not> sb_closed b1" "\<not> sb_chanClosed b1"
    by (rule sendDownlinkFrame_ok[OF assms(1,2,5,6) _ assms(8), of t1 "replicate (length (df_Items frameA)) IGNORED"])
      (use assms(7) in \<open>auto simp: semtech_SendDownlinkFrame_def trying_def\<close>)
  obtain b2 where b2: "semtech_SendDownlinkFrame V t2 frameB b1 = Ret (Inr (), b2)"
    "trying gwB gB frameB t2 0 (replicate (length (df_Items frameB)) IGNORED) b2"
    "sb_sent b2 = sb_sent b1 @ [(ug_addr gwB, dB)]" "sb_events b2 = sb_events b1"
    using sendDownlinkFrame_ok[OF assms(3) _ b1(5,6) _ assms(10), of t2 "replicate (length (df_Items frameB)) IGNORED"] assms(4,9) b1(4)
    unfolding semtech_SendDownlinkFrame_def by auto
  let ?acks = "replicate (length (df_Items frameB)) IGNORED"
  have tok: "tx_ack_datagram V (ucast (df_DownlinkId frameB)) p data" using assms(12,13) by simp
  have "?acks[0 := OK] = OK # replicate (length (df_Items frameB) - 1) IGNORED"
    using assms(9) by (cases "length (df_Items frameB)") simp_all
  moreover obtain b3 where "handlePacket V t3 order addr data b2 = Ret (Inr (), b3)"
    "sb_events b3 = sb_events b2 @ [EvAck (tx_ack_of V p frameB (?acks[0 := OK]))]"
    using last_report[OF b2(2) assms(16) tok, of OK order addr] assms(9,11,15) by auto
  ultimately show ?thesis using b1 b2 assms(14) by (auto simp: tx_ack_of_def)
qed

section \<open>Examples\<close>

definition env_example :: semtech_env where
  "env_example = \<lparr>sv_L = lorawan_hex, sv_J = json_example, sv_P = proto_example, sv_MatchFilters = (\<lambda>_. True)\<rparr>"

definition udp_gateway_example :: udp_gateway where
  "udp_gateway_example = \<lparr>ug_stats = NewCollector, ug_addr = ''gw'', ug_lastSeen = 0, ug_protocolVersion = 2\<rparr>"

text \<open>The backend after the first PULL\_DATA of the gateway.\<close>

definition backend_example :: semtech_backend where
  "backend_example =
     \<lparr>sb_ack = Map.empty, sb_frame = Map.empty, sb_index = Map.empty, sb_gateways = [eui64_zero \<mapsto> udp_gateway_example],
      sb_closed = False, sb_locked = False, sb_chanClosed = False, sb_fakeRxTime = False, sb_skipCRCCheck = False,
      sb_sent = [(''gw'', [2, 9, 0, 4])], sb_events = [EvSubscribe eui64_zero True]\<rparr>"

lemma backend_example_reachable: "semtech_reachable env_example backend_example"
proof -
  let ?b = "\<lparr>sb_ack = Map.empty, sb_frame = Map.empty, sb_index = Map.empty, sb_gateways = Map.empty,
      sb_closed = False, sb_locked = False, sb_chanClosed = False, sb_fakeRxTime = False, sb_skipCRCCheck = False,
      sb_sent = [], sb_events = []\<rparr>"
  have start: "semtech_reachable env_example ?b"
    by (rule semtech_reachable.start[of "Inr ()" "Inr ()" False False]) (simp add: semtech_NewBackend_def)
  have "handlePacket env_example 0 [] ''gw'' [2, 9, 0, 2, 0, 0, 0, 0, 0, 0, 0, 0] ?b = Ret (Inr (), backend_example)"
    by (simp add: handlePacket_def GetPacketType_def protocolSupported_def PushData_def PullData_def handlePullData_def
        PullData_UnmarshalBinary_def read_header_def le_uint16_def Let_def PullACK_MarshalBinary_def packet_header_def
        le_put_uint16_def gateways_set_def emit_def send_udp_def backend_example_def udp_gateway_example_def PullACK_def
        eui_of_bytes_def eui64_zero_def)
  then show ?thesis using semtech_reachable.step[OF start semtech_step.packet] by simp
qed

text \<open>Two items, so that the second is tried after a failure of the first.\<close>

definition two_items_example :: downlink_frame where
  "two_items_example = lora_downlink_example\<lparr>df_Items := df_Items lora_downlink_example @ df_Items lora_downlink_example\<rparr>"

definition pull_resp_example :: bytes where
  "pull_resp_example = [2, 7, 0, 3, 2, 2]"

definition tx_ack_example :: "byte list \<Rightarrow> bytes" where
  "tx_ack_example payload = [2, 7, 0, 5, 0, 0, 0, 0, 0, 0, 0, 0] @ payload"

lemma two_items_packet:
  assumes "i < 2"
  shows "\<exists>p. GetPullRespPacket 2 7 two_items_example i = Inr p"
proof -
  obtain it where it: "df_Items lora_downlink_example = [it]" by (simp add: lora_downlink_example_def)
  then have "df_Items two_items_example = [it, it]" by (simp add: two_items_example_def)
  with it assms have "GetPullRespPacket 2 7 two_items_example i = GetPullRespPacket 2 7 lora_downlink_example 0"
    unfolding GetPullRespPacket_def by (auto simp: less_2_cases_iff)
  then show ?thesis using lora_downlink_example_packet by auto
qed

lemma GetPullRespPacket_id [simp]:
  "GetPullRespPacket v t (frame\<lparr>df_DownlinkId := x\<rparr>) i = GetPullRespPacket v t frame i"
  by (simp add: GetPullRespPacket_def)

lemma pull_resp_json_example:
  "GetPullRespPacket 2 7 frame i = Inr p \<Longrightarrow> PullResp_MarshalBinary json_example p = Inr pull_resp_example"
  by (auto dest!: GetPullRespPacket_header
      simp: PullResp_MarshalBinary_def json_example_def pull_resp_example_def packet_header_def le_put_uint16_def PullResp_def)

lemma two_items_datagrams:
  assumes "i < 2" "ucast x = (7 :: u16)"
  shows "item_datagram env_example udp_gateway_example (two_items_example\<lparr>df_DownlinkId := x\<rparr>) i = Some pull_resp_example"
proof -
  obtain p where "GetPullRespPacket 2 7 two_items_example i = Inr p" using two_items_packet[OF assms(1)] by blast
  with pull_resp_json_example[OF this] assms(2) show ?thesis
    by (simp add: item_datagram_def udp_gateway_example_def env_example_def)
qed

lemma tx_ack_examples:
  "tx_ack_datagram env_example 7 \<lparr>ta_ProtocolVersion = 2, ta_RandomToken = 7, ta_GatewayMAC = eui64_zero, ta_Payload = Some ''TOO_LATE''\<rparr>
     (tx_ack_example [3, 1])"
  "tx_ack_datagram env_example 7 \<lparr>ta_ProtocolVersion = 2, ta_RandomToken = 7, ta_GatewayMAC = eui64_zero, ta_Payload = None\<rparr>
     (tx_ack_example [])"
  by (simp_all add: tx_ack_datagram_def tx_ack_example_def GetPacketType_def TXACK_UnmarshalBinary_def read_header_def TXACK_def
      protocolSupported_def le_uint16_def env_example_def json_example_def Let_def eui_of_bytes_def eui64_zero_def)

lemma two_items_gateway: "eui_UnmarshalText (sv_L env_example) (df_GatewayId two_items_example) = Inr eui64_zero"
  using lorawan_hex_ok by (simp add: lorawan_ok_def two_items_example_def lora_downlink_example_def env_example_def)

lemma two_items_id: "two_items_example\<lparr>df_DownlinkId := 7\<rparr> = two_items_example"
  by (simp add: two_items_example_def lora_downlink_example_def)

lemma two_items_parts:
  "length (df_Items two_items_example) = 2" "df_DownlinkId two_items_example = 7"
  "\<forall>it \<in> set (df_Items two_items_example). di_TxInfo it \<noteq> None"
  by (simp_all add: two_items_example_def lora_downlink_example_def)

lemma too_late_example:
  "failed_with env_example \<lparr>ta_ProtocolVersion = 2, ta_RandomToken = 7, ta_GatewayMAC = eui64_zero, ta_Payload = Some ''TOO_LATE''\<rparr> 2"
  by (simp add: failed_with_def ack_error_def env_example_def proto_example_def)

theorem semtech_invariant_witness:
  "online_of (sb_events backend_example) = {eui64_zero} \<and> sendPackets (sb_sent backend_example) = sb_sent backend_example"
  using semtech_invariant[OF backend_example_reachable] by (simp add: backend_example_def)

theorem downlink_tries_items_witness:
  "\<exists>b1 b2 b3. semtech_SendDownlinkFrame env_example 0 two_items_example backend_example = Ret (Inr (), b1) \<and>
    handle_datagrams env_example [(second, ''gw'', tx_ack_example [3, 1])] b1 = Ret b2 \<and>
    handlePacket env_example (2 * second) [] ''gw'' (tx_ack_example []) b2 = Ret (Inr (), b3) \<and>
    sb_sent b2 = sb_sent backend_example @ [(''gw'', pull_resp_example), (''gw'', pull_resp_example)] \<and>
    sb_events b3 = sb_events backend_example @ [EvAck \<lparr>da_GatewayId = eui_String lorawan_hex eui64_zero, da_DownlinkId = 7, da_Items = [2, OK]\<rparr>]"
proof -
  let ?p = "\<lparr>ta_ProtocolVersion = 2, ta_RandomToken = 7, ta_GatewayMAC = eui64_zero, ta_Payload = None\<rparr> :: TXACKPacket"
  let ?q = "\<lparr>ta_ProtocolVersion = 2, ta_RandomToken = 7, ta_GatewayMAC = eui64_zero, ta_Payload = Some ''TOO_LATE''\<rparr> :: TXACKPacket"
  have fails: "list_all2 (\<lambda>(t, addr, data) status. \<exists>p. tx_ack_datagram env_example (ucast (df_DownlinkId two_items_example)) p data \<and>
      failed_with env_example p status) [(second, ''gw'', tx_ack_example [3, 1])] [2]"
    using tx_ack_examples(1) too_late_example by (simp add: two_items_parts(2)) blast
  have "tx_ack_datagram env_example (ucast (df_DownlinkId two_items_example)) ?p (tx_ack_example [])"
    using tx_ack_examples(2) by (simp add: two_items_parts)
  moreover have "ack_error ?p = None" by (simp add: ack_error_def)
  moreover have "sb_gateways backend_example eui64_zero = Some udp_gateway_example" "\<not> sb_closed backend_example" "\<not> sb_chanClosed backend_example"
    by (simp_all add: backend_example_def)
  moreover have "\<forall>i < length [pull_resp_example, pull_resp_example].
      item_datagram env_example udp_gateway_example two_items_example i = Some ([pull_resp_example, pull_resp_example] ! i)"
    using two_items_datagrams[of _ 7] by (auto simp: less_Suc_eq two_items_id)
  moreover have "sv_L env_example = lorawan_hex" "ug_addr udp_gateway_example = ''gw''"
    by (simp_all add: env_example_def udp_gateway_example_def)
  ultimately obtain b1 b2 b3 where "semtech_SendDownlinkFrame env_example 0 two_items_example backend_example = Ret (Inr (), b1)"
    "handle_datagrams env_example [(second, ''gw'', tx_ack_example [3, 1])] b1 = Ret b2"
    "sb_sent b2 = sb_sent backend_example @ [(''gw'', pull_resp_example), (''gw'', pull_resp_example)]" "sb_events b2 = sb_events backend_example"
    "handlePacket env_example (2 * second) [] ''gw'' (tx_ack_example []) b2 = Ret (Inr (), b3)"
    "sb_events b3 = sb_events b2 @ [EvAck \<lparr>da_GatewayId = eui_String lorawan_hex eui64_zero, da_DownlinkId = 7, da_Items = [2, OK]\<rparr>]"
    using downlink_tries_items[OF two_items_gateway _ _ _ _ _ two_items_parts(3) fails, of backend_example udp_gateway_example
        "[pull_resp_example, pull_resp_example]" 0 "2 * second" ?p "tx_ack_example []" OK "[]" "''gw''"]
    by (auto simp: two_items_parts simp del: handle_datagrams.simps)
  then show ?thesis by (intro exI[of _ b1] exI[of _ b2] exI[of _ b3]) simp
qed

theorem tx_ack_other_downlink_witness:
  "\<exists>b1 b2 b3. semtech_SendDownlinkFrame env_example 0 two_items_example backend_example = Ret (Inr (), b1) \<and>
    semtech_SendDownlinkFrame env_example 1 (two_items_example\<lparr>df_DownlinkId := 65543\<rparr>) b1 = Ret (Inr (), b2) \<and>
    handlePacket env_example second [] ''gw'' (tx_ack_example []) b2 = Ret (Inr (), b3) \<and>
    sb_events b3 = sb_events backend_example @ [EvAck \<lparr>da_GatewayId = eui_String lorawan_hex eui64_zero, da_DownlinkId = 65543, da_Items = [OK, IGNORED]\<rparr>]"
proof -
  let ?p = "\<lparr>ta_ProtocolVersion = 2, ta_RandomToken = 7, ta_GatewayMAC = eui64_zero, ta_Payload = None\<rparr> :: TXACKPacket"
  let ?B = "two_items_example\<lparr>df_DownlinkId := 65543\<rparr>"
  have B: "item_datagram env_example udp_gateway_example ?B 0 = Some pull_resp_example"
    by (rule two_items_datagrams) simp_all
  have A: "item_datagram env_example udp_gateway_example two_items_example 0 = Some pull_resp_example"
    using two_items_datagrams[of 0 7] by (simp add: two_items_id)
  have "tx_ack_datagram env_example (ucast (df_DownlinkId two_items_example)) ?p (tx_ack_example [])"
    using tx_ack_examples(2) by (simp add: two_items_parts)
  moreover have "ack_error ?p = None" by (simp add: ack_error_def)
  moreover have "sb_gateways backend_example eui64_zero = Some udp_gateway_example" "\<not> sb_closed backend_example" "\<not> sb_chanClosed backend_example"
    by (simp_all add: backend_example_def)
  moreover have "df_Items two_items_example \<noteq> []" using two_items_parts(1) by auto
  ultimately show ?thesis
    using tx_ack_other_downlink[OF two_items_gateway _ _ _ _ _ _ A, of backend_example ?B eui64_zero
        udp_gateway_example pull_resp_example ?p "tx_ack_example []" second 1 0 "[]" "''gw''"] B two_items_gateway two_items_parts(1,3)
    by (simp add: two_items_parts env_example_def) blast
qed

end
