(* ===== verification/Station_Config.thy ===== *)
theory Station_Config
  imports Backend_Config "HOL-Library.Multiset"
begin

text \<open>
  The configuration that the basic station backend sends to a station, \<^verbatim>\<open>backend/basicstation/structs\<close> of the
  gateway bridge: the text forms of an EUI (\<^verbatim>\<open>eui64.go\<close>), the placement of the channels on the two radios of a
  concentrator (\<^verbatim>\<open>config/sx1301v1\<close>) and the router-config message (\<^verbatim>\<open>router_config.go\<close>).

  \<^verbatim>\<open>sort.Sort\<close> is not stable: the order it leaves is an argument, of which the code relies on being a sorted
  permutation.
\<close>

section \<open>EUIs as text\<close>

text \<open>The regular expression of eight pairs of word characters between dashes, anywhere in the text.\<close>

definition word_char :: "char \<Rightarrow> bool" where
  "word_char c =
     (let n = of_char c :: nat in 48 \<le> n \<and> n \<le> 57 \<or> 65 \<le> n \<and> n \<le> 90 \<or> n = 95 \<or> 97 \<le> n \<and> n \<le> 122)"

fun dash_pairs :: "nat \<Rightarrow> string \<Rightarrow> bool" where
  "dash_pairs 0 (a # b # cs) \<longleftrightarrow> word_char a \<and> word_char b"
| "dash_pairs (Suc n) (a # b # d # cs) \<longleftrightarrow> word_char a \<and> word_char b \<and> d = CHR ''-'' \<and> dash_pairs n cs"
| "dash_pairs _ _ \<longleftrightarrow> False"

fun euiRegexp_match :: "string \<Rightarrow> bool" where
  "euiRegexp_match [] \<longleftrightarrow> False"
| "euiRegexp_match (c # cs) \<longleftrightarrow> dash_pairs 7 (c # cs) \<or> euiRegexp_match cs"

text \<open>\<^verbatim>\<open>strings.Split\<close> with a separator of one character.\<close>

fun split_at :: "char \<Rightarrow> string \<Rightarrow> string list" where
  "split_at sep [] = [[]]"
| "split_at sep (c # cs) =
     (if c = sep then [] # split_at sep cs
      else case split_at sep cs of [] \<Rightarrow> [[c]] | b # bs \<Rightarrow> (c # b) # bs)"

definition remainingBlocks :: "string list \<Rightarrow> nat" where
  "remainingBlocks blocks = length (filter (\<lambda>v. v \<noteq> []) blocks)"

text \<open>The two bytes of a block are written to the array; an index outside of it panics.\<close>

definition put_block :: "int \<Rightarrow> bytes \<Rightarrow> bytes \<Rightarrow> bytes go" where
  "put_block blockI b eui =
     (if 0 \<le> blockI \<and> nat blockI * 2 + length b \<le> length eui
      then Ret (take (nat blockI * 2) eui @ b @ drop (nat blockI * 2 + length b) eui) else Panic)"

function eui_blocks :: "string list \<Rightarrow> nat \<Rightarrow> int \<Rightarrow> bytes \<Rightarrow> bytes result go" where
  "eui_blocks blocks i blockI eui =
     (if i \<ge> length blocks then Ret (Inr eui)
      else if blocks ! i = []
      then let remaining = remainingBlocks (drop i blocks)
           in eui_blocks blocks (length blocks - remaining) (4 - int remaining) eui
      else if length (blocks ! i) > 4 then Panic
      else case hex_decode (drop (length (blocks ! i)) ''0000'' @ blocks ! i) of
             None \<Rightarrow> Ret (Inl (Errorf ''unmarshal eui block error''))
           | Some b \<Rightarrow> go_bind (put_block blockI b eui) (\<lambda>eui. eui_blocks blocks (Suc i) (blockI + 1) eui))"
  by pat_completeness auto

lemma remainingBlocks_empty:
  assumes "i < length blocks" "blocks ! i = []"
  shows "remainingBlocks (drop i blocks) < length blocks - i"
proof -
  have "drop i blocks = [] # drop (Suc i) blocks" using assms by (simp add: Cons_nth_drop_Suc[symmetric])
  then have "remainingBlocks (drop i blocks) \<le> length (drop (Suc i) blocks)"
    using length_filter_le[of _ "drop (Suc i) blocks"] by (simp add: remainingBlocks_def)
  then show ?thesis using assms(1) by simp
qed

termination eui_blocks
proof (relation "measure (\<lambda>(blocks, i, blockI, eui). length blocks - i)", goal_cases)
  case (2 blocks i blockI eui x)
  then show ?case using remainingBlocks_empty[of i blocks] by simp
qed auto

declare eui_blocks.simps [simp del]

definition station_MarshalText :: "eui64 \<Rightarrow> string" where
  "station_MarshalText e =
     (let b = eui_bytes e
      in hex_encode (take 2 b) @ '':'' @ hex_encode (take 2 (drop 2 b)) @ '':'' @ hex_encode (take 2 (drop 4 b)) @ '':'' @
         hex_encode (drop 6 b))"

definition station_UnmarshalText :: "lorawan_lib \<Rightarrow> string \<Rightarrow> eui64 result go" where
  "station_UnmarshalText L v =
     (if euiRegexp_match v
      then (case eui_UnmarshalText L (filter (\<lambda>c. c \<noteq> CHR ''-'') v) of
              Inl err \<Rightarrow> Ret (Inl (Errorf ''unmarshal eui error'')) | Inr e \<Rightarrow> Ret (Inr e))
      else go_bind (eui_blocks (split_at CHR '':'' v) 0 0 (replicate 8 0)) (\<lambda>r. Ret (map_sum (\<lambda>e. e) eui_of_bytes r)))"

section \<open>The radios of a concentrator\<close>

datatype channel_modulation = LoraModulationConfig u32 "u32 list" | FskModulationConfig u32 u32

record channel_configuration =
  chc_Frequency :: u32
  chc_Modulation :: channel_modulation

definition channel_bandwidth :: "channel_configuration \<Rightarrow> u32" where
  "channel_bandwidth c = (case chc_Modulation c of LoraModulationConfig bw _ \<Rightarrow> bw | FskModulationConfig bw _ \<Rightarrow> bw)"

definition radioBandwidthPerChannelBandwidth :: "u32 \<rightharpoonup> u32" where
  "radioBandwidthPerChannelBandwidth = [500000 \<mapsto> 1100000, 250000 \<mapsto> 1000000, 125000 \<mapsto> 925000]"

definition radio_bandwidth :: "channel_configuration \<Rightarrow> u32" where
  "radio_bandwidth c =
     (case radioBandwidthPerChannelBandwidth (channel_bandwidth c) of None \<Rightarrow> 925000 | Some bw \<Rightarrow> bw)"

definition minRadioCenterFreq :: "channel_configuration \<Rightarrow> u32" where
  "minRadioCenterFreq c = chc_Frequency c - channel_bandwidth c div 2 + radio_bandwidth c div 2"

definition channelMin :: "channel_configuration \<Rightarrow> u32" where
  "channelMin c = chc_Frequency c - channel_bandwidth c div 2"

definition channelMax :: "channel_configuration \<Rightarrow> u32" where
  "channelMax c = chc_Frequency c + channel_bandwidth c div 2"

text \<open>The loop over the two radios for one channel.\<close>

definition place_channel :: "channel_configuration \<Rightarrow> u32 \<times> u32 \<Rightarrow> (u32 \<times> u32) result" where
  "place_channel c radios =
     (case radios of (r0, r1) \<Rightarrow>
        if r0 = 0 then Inr (minRadioCenterFreq c, r1)
        else if channelMax c \<le> r0 + radio_bandwidth c div 2 then Inr (r0, r1)
        else if r1 = 0 then Inr (r0, minRadioCenterFreq c)
        else if channelMax c \<le> r1 + radio_bandwidth c div 2 then Inr (r0, r1)
        else Inl (Errorf ''channel does not fit in radio bandwidth''))"

fun place_channels :: "channel_configuration list \<Rightarrow> u32 \<times> u32 \<Rightarrow> (u32 \<times> u32) result" where
  "place_channels [] radios = Inr radios"
| "place_channels (c # cs) radios =
     (case place_channel c radios of Inl err \<Rightarrow> Inl err | Inr radios \<Rightarrow> place_channels cs radios)"

text \<open>The slice of channels is sorted in place.\<close>

definition GetRadioFrequencies ::
  "(channel_configuration list \<Rightarrow> channel_configuration list) \<Rightarrow> channel_configuration list \<Rightarrow>
   (u32 \<times> u32) result \<times> channel_configuration list" where
  "GetRadioFrequencies srt channels = (let channels = srt channels in (place_channels channels (0, 0), channels))"

definition fits_radio :: "u32 \<Rightarrow> channel_configuration \<Rightarrow> bool" where
  "fits_radio f c \<longleftrightarrow> channelMin c \<ge> f - radio_bandwidth c div 2 \<and> channelMax c \<le> f + radio_bandwidth c div 2"

definition GetRadioForChannel :: "u32 \<times> u32 \<Rightarrow> channel_configuration \<Rightarrow> nat result" where
  "GetRadioForChannel radios c =
     (case radios of (r0, r1) \<Rightarrow>
        if fits_radio r0 c then Inr 0 else if fits_radio r1 c then Inr 1
        else Inl (Errorf ''channel does not fit in radio bandwidth''))"

section \<open>The router-config message\<close>

definition regionNameMapping :: "string \<rightharpoonup> string" where
  "regionNameMapping =
     [''AS923'' \<mapsto> ''AS923'', ''AU915'' \<mapsto> ''AU915'', ''CN470'' \<mapsto> ''CN470'', ''CN779'' \<mapsto> ''CN779'', ''EU433'' \<mapsto> ''EU433'',
      ''EU868'' \<mapsto> ''EU863'', ''IN865'' \<mapsto> ''IN865'', ''KR920'' \<mapsto> ''KR920'', ''US915'' \<mapsto> ''US902'', ''RU864'' \<mapsto> ''RU864'']"

record SX1301ConfRadio =
  sr_Enable :: bool
  sr_Freq :: u32

record SX1301ConfChanLoRaStd =
  sl_Enable :: bool
  sl_Radio :: nat
  sl_IF :: int
  sl_Bandwidth :: u32
  sl_SpreadingFactor :: u32

record SX1301ConfChanMultiSF =
  sm_Enable :: bool
  sm_Radio :: nat
  sm_IF :: int

text \<open>The eight multi-SF channels are a list.\<close>

record SX1301Conf =
  sx_Radio0 :: SX1301ConfRadio
  sx_Radio1 :: SX1301ConfRadio
  sx_ChanFSK :: bool
  sx_ChanLoRaStd :: SX1301ConfChanLoRaStd
  sx_ChanMultiSF :: "SX1301ConfChanMultiSF list"

record StationRouterConfig =
  sc_NetID :: "u32 list"
  sc_JoinEui :: "(u64 \<times> u64) list"
  sc_Region :: string
  sc_HWSpec :: string
  sc_FreqRange :: "u32 \<times> u32"
  sc_DRs :: "(int \<times> int \<times> int) list"
  sc_SX1301Conf :: "SX1301Conf list"

definition SX1301Conf_zero :: SX1301Conf where
  "SX1301Conf_zero =
     \<lparr>sx_Radio0 = \<lparr>sr_Enable = False, sr_Freq = 0\<rparr>, sx_Radio1 = \<lparr>sr_Enable = False, sr_Freq = 0\<rparr>, sx_ChanFSK = False,
      sx_ChanLoRaStd = \<lparr>sl_Enable = False, sl_Radio = 0, sl_IF = 0, sl_Bandwidth = 0, sl_SpreadingFactor = 0\<rparr>,
      sx_ChanMultiSF = replicate 8 \<lparr>sm_Enable = False, sm_Radio = 0, sm_IF = 0\<rparr>\<rparr>"

definition netid_number :: "netid \<Rightarrow> u32" where
  "netid_number n = (case n of NetID a b c \<Rightarrow> be_uint32 0 a b c)"

definition data_rate_entry :: "band \<Rightarrow> int \<Rightarrow> int \<times> int \<times> int" where
  "data_rate_entry b i =
     (case bd_GetDataRate b i of
        Inl err \<Rightarrow> (- 1, 0, 0)
      | Inr dr \<Rightarrow>
          if dr_Modulation dr \<noteq> LoRaModulation \<and> dr_Modulation dr \<noteq> FSKModulation then (- 1, 0, 0)
          else (dr_SpreadFactor dr, dr_Bandwidth dr, if isl (bd_GetDataRateIndex b True dr) then 1 else 0))"

definition concentrator_channels :: "BasicStationConcentrator \<Rightarrow> channel_configuration list" where
  "concentrator_channels conf =
     map (\<lambda>freq. \<lparr>chc_Frequency = freq, chc_Modulation = LoraModulationConfig 125000 [7, 8, 9, 10, 11, 12]\<rparr>) (cn_MultiSF conf) @
     (if cn_FSK_Frequency conf \<noteq> 0
      then [\<lparr>chc_Frequency = cn_FSK_Frequency conf, chc_Modulation = FskModulationConfig 125000 50000\<rparr>] else []) @
     (if cn_LoRaSTD_Frequency conf \<noteq> 0
      then [\<lparr>chc_Frequency = cn_LoRaSTD_Frequency conf,
             chc_Modulation = LoraModulationConfig (cn_LoRaSTD_Bandwidth conf) [cn_LoRaSTD_SpreadingFactor conf]\<rparr>] else [])"

definition radio_freq :: "u32 \<times> u32 \<Rightarrow> nat \<Rightarrow> u32" where
  "radio_freq radios r = (if r = 0 then fst radios else snd radios)"

text \<open>A ninth multi-SF channel is left out.\<close>

definition set_channel :: "u32 \<times> u32 \<Rightarrow> nat \<Rightarrow> channel_configuration \<Rightarrow> nat \<times> SX1301Conf \<Rightarrow> nat \<times> SX1301Conf" where
  "set_channel radios r c st =
     (case st of (channelI, conf) \<Rightarrow>
        let ifreq = uint (chc_Frequency c) - uint (radio_freq radios r)
        in case chc_Modulation c of
             LoraModulationConfig bw sfs \<Rightarrow>
               if length sfs = 1
               then (channelI, conf\<lparr>sx_ChanLoRaStd := \<lparr>sl_Enable = True, sl_Radio = r, sl_IF = ifreq, sl_Bandwidth = bw,
                                     sl_SpreadingFactor = hd sfs\<rparr>\<rparr>)
               else (Suc channelI, conf\<lparr>sx_ChanMultiSF := (sx_ChanMultiSF conf)[channelI :=
                       \<lparr>sm_Enable = True, sm_Radio = r, sm_IF = ifreq\<rparr>]\<rparr>)
           | FskModulationConfig bw br \<Rightarrow> (channelI, conf\<lparr>sx_ChanFSK := True\<rparr>))"

fun set_channels ::
  "u32 \<times> u32 \<Rightarrow> channel_configuration list \<Rightarrow> nat \<times> SX1301Conf \<Rightarrow> (nat \<times> SX1301Conf) result" where
  "set_channels radios [] st = Inr st"
| "set_channels radios (c # cs) st =
     (case GetRadioForChannel radios c of
        Inl err \<Rightarrow> Inl (Errorf ''get radio for channel error'')
      | Inr r \<Rightarrow> set_channels radios cs (set_channel radios r c st))"

definition concentrator_conf ::
  "(channel_configuration list \<Rightarrow> channel_configuration list) \<Rightarrow> BasicStationConcentrator \<Rightarrow> SX1301Conf result" where
  "concentrator_conf srt conf =
     (case GetRadioFrequencies srt (concentrator_channels conf) of
        (Inl err, _) \<Rightarrow> Inl (Errorf ''get radio frequencies error'')
      | (Inr radios, channels) \<Rightarrow>
          let c = SX1301Conf_zero\<lparr>sx_Radio0 := \<lparr>sr_Enable = fst radios \<noteq> 0, sr_Freq = fst radios\<rparr>,
                                  sx_Radio1 := \<lparr>sr_Enable = snd radios \<noteq> 0, sr_Freq = snd radios\<rparr>\<rparr>
          in map_sum (\<lambda>e. e) snd (set_channels radios channels (0, c)))"

fun concentrator_loop ::
  "(channel_configuration list \<Rightarrow> channel_configuration list) \<Rightarrow> BasicStationConcentrator list \<Rightarrow> SX1301Conf list result" where
  "concentrator_loop srt [] = Inr []"
| "concentrator_loop srt (conf # confs) =
     (case concentrator_conf srt conf of
        Inl err \<Rightarrow> Inl err
      | Inr c \<Rightarrow> map_sum (\<lambda>e. e) (\<lambda>cs. c # cs) (concentrator_loop srt confs))"

definition GetRouterConfig ::
  "(string \<Rightarrow> band result) \<Rightarrow> (channel_configuration list \<Rightarrow> channel_configuration list) \<Rightarrow> string \<Rightarrow> netid list \<Rightarrow>
   (eui64 \<times> eui64) list \<Rightarrow> u32 \<Rightarrow> u32 \<Rightarrow> BasicStationConcentrator list \<Rightarrow> StationRouterConfig result" where
  "GetRouterConfig GetConfig srt region netIDs joinEUIs freqMin freqMax concentrators =
     (case GetConfig region of
        Inl err \<Rightarrow> Inl (Errorf ''get band config error'')
      | Inr b \<Rightarrow>
          map_sum (\<lambda>e. e) (\<lambda>confs.
            \<lparr>sc_NetID = map netid_number netIDs, sc_JoinEui = map (\<lambda>(a, b). (Eui64ToUint64 a, Eui64ToUint64 b)) joinEUIs,
             sc_Region = (case regionNameMapping region of None \<Rightarrow> [] | Some n \<Rightarrow> n),
             sc_HWSpec = ''sx1301/'' @ show_nat (length concentrators), sc_FreqRange = (freqMin, freqMax),
             sc_DRs = map (\<lambda>i. data_rate_entry b (int i)) [0..<16], sc_SX1301Conf = confs\<rparr>)
           (concentrator_loop srt concentrators))"

section \<open>Facts on the text forms\<close>

lemma split_at_no_sep: "sep \<notin> set xs \<Longrightarrow> split_at sep xs = [xs]"
  by (induction xs) auto

lemma split_at_append: "sep \<notin> set xs \<Longrightarrow> split_at sep (xs @ sep # ys) = xs # split_at sep ys"
  by (induction xs) auto

lemma hex_digit_not_sep: "n < 16 \<Longrightarrow> hex_digit n \<noteq> CHR '':''" "n < 16 \<Longrightarrow> hex_digit n \<noteq> CHR ''-''"
proof -
  have "hex_val CHR '':'' = None" "hex_val CHR ''-'' = None" by (simp_all add: hex_val_def)
  then show "n < 16 \<Longrightarrow> hex_digit n \<noteq> CHR '':''" "n < 16 \<Longrightarrow> hex_digit n \<noteq> CHR ''-''"
    by (metis hex_val_digit option.distinct(1))+
qed

lemma hex_encode_no_sep [simp]: "CHR '':'' \<notin> set (hex_encode bs)" "CHR ''-'' \<notin> set (hex_encode bs)"
  by (induction bs) (auto simp: hex_digit_not_sep[symmetric])

lemma dash_pairs_dash: "dash_pairs (Suc n) s \<Longrightarrow> CHR ''-'' \<in> set s"
  by (cases "(Suc n, s)" rule: dash_pairs.cases) auto

lemma euiRegexp_dash: "euiRegexp_match s \<Longrightarrow> CHR ''-'' \<in> set s"
proof (induction s)
  case (Cons c cs)
  then show ?case using dash_pairs_dash[of 6 "c # cs"] by auto
qed simp

lemma word_char_hex_digit: "n < 16 \<Longrightarrow> word_char (hex_digit n)"
  by (auto simp: word_char_def hex_digit_def Let_def)

lemma eui_blocks_step:
  assumes "i < length blocks" "blocks ! i = hex_encode [x, y]" "0 \<le> blockI" "blockI < 4" "length eui = 8"
  shows "eui_blocks blocks i blockI eui =
    eui_blocks blocks (Suc i) (blockI + 1) (eui[nat blockI * 2 := x, Suc (nat blockI * 2) := y])"
proof -
  let ?k = "nat blockI * 2"
  have k: "Suc (Suc ?k) \<le> length eui" using assms(3-5) by auto
  have "take ?k eui @ [x, y] @ drop (Suc (Suc ?k)) eui = eui[?k := x, Suc ?k := y]"
    using k by (simp add: upd_conv_take_nth_drop Suc_le_eq take_Suc_conv_app_nth drop_update_swap)
  then have "put_block blockI [x, y] eui = Ret (eui[?k := x, Suc ?k := y])"
    using assms(3) k by (simp add: put_block_def)
  then show ?thesis
    using assms(1,2) hex_decode_encode[of "[x, y]"] by (subst eui_blocks.simps) simp
qed

lemma eui_zero_bytes: "replicate 8 (0 :: byte) = [0, 0, 0, 0, 0, 0, 0, 0]"
  by (simp add: eval_nat_numeral)

lemma eui_text_blocks: "station_UnmarshalText L (station_MarshalText e) = Ret (Inr e)"
proof (cases e)
  case (EUI64 a b c d f g h i)
  let ?v = "station_MarshalText e"
  let ?bs = "[hex_encode [a, b], hex_encode [c, d], hex_encode [f, g], hex_encode [h, i]]"
  have v: "?v = hex_encode [a, b] @ CHR '':'' # hex_encode [c, d] @ CHR '':'' # hex_encode [f, g] @ CHR '':'' # hex_encode [h, i]"
    by (simp add: EUI64 station_MarshalText_def)
  have "CHR ''-'' \<notin> set ?v" unfolding v set_append by (simp del: hex_encode.simps)
  then have "\<not> euiRegexp_match ?v" using euiRegexp_dash by blast
  moreover have "split_at CHR '':'' ?v = ?bs"
    unfolding v by (simp only: split_at_append split_at_no_sep hex_encode_no_sep not_False_eq_True)
  moreover have "eui_blocks ?bs 0 0 (replicate 8 0) = Ret (Inr [a, b, c, d, f, g, h, i])"
  proof -
    have "eui_blocks ?bs 0 0 (replicate 8 0) = eui_blocks ?bs 0 0 [0, 0, 0, 0, 0, 0, 0, 0]"
      by (simp only: eui_zero_bytes)
    also have "\<dots> = eui_blocks ?bs 1 1 [a, b, 0, 0, 0, 0, 0, 0]"
      using eui_blocks_step[of 0 ?bs a b 0 "[0, 0, 0, 0, 0, 0, 0, 0]"] by (simp del: hex_encode.simps)
    also have "\<dots> = eui_blocks ?bs 2 2 [a, b, c, d, 0, 0, 0, 0]"
      using eui_blocks_step[of 1 ?bs c d 1 "[a, b, 0, 0, 0, 0, 0, 0]"] by (simp del: hex_encode.simps add: numeral_2_eq_2)
    also have "\<dots> = eui_blocks ?bs 3 3 [a, b, c, d, f, g, 0, 0]"
      using eui_blocks_step[of 2 ?bs f g 2 "[a, b, c, d, 0, 0, 0, 0]"] by (simp del: hex_encode.simps add: numeral_3_eq_3)
    also have "\<dots> = eui_blocks ?bs 4 4 [a, b, c, d, f, g, h, i]"
      using eui_blocks_step[of 3 ?bs h i 3 "[a, b, c, d, f, g, 0, 0]"] by (simp del: hex_encode.simps add: numeral_eq_Suc)
    also have "\<dots> = Ret (Inr [a, b, c, d, f, g, h, i])" by (subst eui_blocks.simps) simp
    finally show ?thesis .
  qed
  ultimately show ?thesis by (simp add: station_UnmarshalText_def EUI64 eui_of_bytes_def)
qed

text \<open>An EUI in the form with dashes.\<close>

fun dashed :: "bytes \<Rightarrow> string" where
  "dashed [] = []"
| "dashed [b] = hex_encode [b]"
| "dashed (b # bs) = hex_encode [b] @ CHR ''-'' # dashed bs"

lemma dashed_pairs: "bs \<noteq> [] \<Longrightarrow> dash_pairs (length bs - 1) (dashed bs)"
proof (induction bs rule: dashed.induct)
  case (3 b b' bs)
  then show ?case by (simp add: word_char_hex_digit)
qed (simp_all add: word_char_hex_digit)

lemma dashed_hex: "filter (\<lambda>c. c \<noteq> CHR ''-'') (dashed bs) = hex_encode bs"
  by (induction bs rule: dashed.induct) (auto simp: hex_digit_not_sep)

lemma eui_text_dashed:
  assumes "eui_UnmarshalText L (hex_encode (eui_bytes e)) = Inr e"
  shows "station_UnmarshalText L (dashed (eui_bytes e)) = Ret (Inr e)"
proof -
  have "length (eui_bytes e) = 8" by (cases e) simp
  then have "dash_pairs 7 (dashed (eui_bytes e))" using dashed_pairs[of "eui_bytes e"] by fastforce
  then have "euiRegexp_match (dashed (eui_bytes e))"
    by (cases "dashed (eui_bytes e)") (simp_all add: eval_nat_numeral)
  then show ?thesis using assms by (simp add: station_UnmarshalText_def dashed_hex)
qed

lemma eui_text_long:
  assumes "4 < length s" "CHR '':'' \<notin> set s" "\<not> euiRegexp_match s"
  shows "station_UnmarshalText L s = Panic"
proof -
  have "eui_blocks [s] 0 0 (replicate 8 0) = Panic" using assms(1) by (subst eui_blocks.simps) auto
  then show ?thesis using assms(2,3) by (simp add: station_UnmarshalText_def split_at_no_sep)
qed

section \<open>Facts on the radios\<close>

definition sorts :: "(channel_configuration list \<Rightarrow> channel_configuration list) \<Rightarrow> bool" where
  "sorts srt \<longleftrightarrow> (\<forall>cs. mset (srt cs) = mset cs \<and> sorted (map minRadioCenterFreq (srt cs)))"

text \<open>A channel no wider than what a radio covers, between 1 MHz and 4 GHz, so that no sum wraps around.\<close>

definition in_band :: "channel_configuration \<Rightarrow> bool" where
  "in_band c \<longleftrightarrow> channel_bandwidth c \<le> radio_bandwidth c \<and> 1000000 \<le> chc_Frequency c \<and> chc_Frequency c \<le> 4000000000"

lemma uint_radio_bandwidth: "uint (radio_bandwidth c) \<in> {1100000, 1000000, 925000}"
  by (simp add: radio_bandwidth_def radioBandwidthPerChannelBandwidth_def)

lemma half_bandwidth: "462500 \<le> uint (radio_bandwidth c) div 2" "uint (radio_bandwidth c) div 2 \<le> 550000"
  "0 \<le> uint (channel_bandwidth c) div 2"
  using uint_radio_bandwidth[of c] by auto

lemma in_band_uint:
  assumes "in_band c"
  shows "uint (channelMin c) = uint (chc_Frequency c) - uint (channel_bandwidth c) div 2"
    "uint (channelMax c) = uint (chc_Frequency c) + uint (channel_bandwidth c) div 2"
    "uint (minRadioCenterFreq c) = uint (chc_Frequency c) - uint (channel_bandwidth c) div 2 + uint (radio_bandwidth c) div 2"
    "uint (radio_bandwidth c div 2) = uint (radio_bandwidth c) div 2"
    "uint (channel_bandwidth c) \<le> uint (radio_bandwidth c)" "1000000 \<le> uint (chc_Frequency c)" "uint (chc_Frequency c) \<le> 4000000000"
proof -
  show b: "uint (channel_bandwidth c) \<le> uint (radio_bandwidth c)" "1000000 \<le> uint (chc_Frequency c)"
    "uint (chc_Frequency c) \<le> 4000000000"
    using assms by (simp_all add: in_band_def word_le_def)
  have rb: "uint (radio_bandwidth c) \<le> 1100000" using uint_radio_bandwidth[of c] by auto
  show half: "uint (radio_bandwidth c div 2) = uint (radio_bandwidth c) div 2" by (simp add: uint_div)
  have bw: "uint (channel_bandwidth c div 2) = uint (channel_bandwidth c) div 2" by (simp add: uint_div)
  have h: "uint (channel_bandwidth c) div 2 \<le> 550000" "uint (radio_bandwidth c) div 2 \<le> 550000"
    using zdiv_mono1[of _ 1100000 2] b(1) rb by auto
  show m: "uint (channelMin c) = uint (chc_Frequency c) - uint (channel_bandwidth c) div 2"
    unfolding channelMin_def using bw b h uint_sub_lem[of "channel_bandwidth c div 2" "chc_Frequency c"] by linarith
  show "uint (channelMax c) = uint (chc_Frequency c) + uint (channel_bandwidth c) div 2"
    unfolding channelMax_def using bw b h uint_add_lem[of "chc_Frequency c" "channel_bandwidth c div 2"] by simp
  show "uint (minRadioCenterFreq c) = uint (chc_Frequency c) - uint (channel_bandwidth c) div 2 + uint (radio_bandwidth c) div 2"
  proof -
    have "uint (channelMin c) + uint (radio_bandwidth c div 2) < 2 ^ LENGTH(32)"
    proof -
      have "uint (chc_Frequency c) - uint (channel_bandwidth c) div 2 + uint (radio_bandwidth c) div 2 < 4294967296"
        using b h half_bandwidth[of c] by linarith
      then show ?thesis by (simp add: m half)
    qed
    then have "uint (channelMin c + radio_bandwidth c div 2) = uint (channelMin c) + uint (radio_bandwidth c div 2)"
      by (simp only: uint_add_lem)
    then show ?thesis using m half by (simp add: minRadioCenterFreq_def channelMin_def)
  qed
qed

text \<open>A frequency at which a radio may be set.\<close>

definition radio_ok :: "u32 \<Rightarrow> bool" where
  "radio_ok f \<longleftrightarrow> 900000 \<le> uint f \<and> uint f \<le> 4000600000"

lemma radio_uint:
  assumes "radio_ok f"
  shows "uint (f - radio_bandwidth c div 2) = uint f - uint (radio_bandwidth c) div 2"
    "uint (f + radio_bandwidth c div 2) = uint f + uint (radio_bandwidth c) div 2"
proof -
  have half: "uint (radio_bandwidth c div 2) = uint (radio_bandwidth c) div 2" by (simp add: uint_div)
  have rb: "uint (radio_bandwidth c) div 2 \<le> 550000" using uint_radio_bandwidth[of c] by auto
  show "uint (f - radio_bandwidth c div 2) = uint f - uint (radio_bandwidth c) div 2"
    using assms half rb uint_sub_lem[of "radio_bandwidth c div 2" f] unfolding radio_ok_def by linarith
  show "uint (f + radio_bandwidth c div 2) = uint f + uint (radio_bandwidth c) div 2"
    using assms half rb uint_add_lem[of f "radio_bandwidth c div 2"] by (simp add: radio_ok_def)
qed

lemma fits_radio_iff:
  assumes "radio_ok f" "in_band c"
  shows "fits_radio f c \<longleftrightarrow> uint f \<le> uint (minRadioCenterFreq c) \<and> channelMax c \<le> f + radio_bandwidth c div 2"
  using radio_uint[OF assms(1), of c] in_band_uint[OF assms(2)] by (auto simp: fits_radio_def word_le_def)

lemma min_center_fits:
  assumes "in_band c"
  shows "radio_ok (minRadioCenterFreq c)" "fits_radio (minRadioCenterFreq c) c"
proof -
  show ok: "radio_ok (minRadioCenterFreq c)"
  proof -
    have "uint (channel_bandwidth c) div 2 \<le> uint (radio_bandwidth c) div 2" using in_band_uint(5)[OF assms] by (rule zdiv_mono1) simp
    then show ?thesis using in_band_uint(3,6,7)[OF assms] half_bandwidth[of c] unfolding radio_ok_def by linarith
  qed
  have "channelMax c \<le> minRadioCenterFreq c + radio_bandwidth c div 2"
    unfolding word_le_def radio_uint(2)[OF ok] in_band_uint[OF assms]
    using in_band_uint(5)[OF assms] by presburger
  then show "fits_radio (minRadioCenterFreq c) c" using fits_radio_iff[OF ok assms] by simp
qed

lemma zero_radio_unfit: "in_band c \<Longrightarrow> \<not> fits_radio 0 c"
proof -
  assume c: "in_band c"
  have "uint (0 - radio_bandwidth c div 2) = 4294967296 - uint (radio_bandwidth c) div 2"
    using uint_radio_bandwidth[of c] by (auto simp: uint_word_ariths uint_div)
  then have "uint (channelMin c) < uint (0 - radio_bandwidth c div 2)"
    using in_band_uint(1,7)[OF c] half_bandwidth[of c] by linarith
  then show ?thesis by (simp add: fits_radio_def word_le_def)
qed

definition covered :: "u32 \<times> u32 \<Rightarrow> channel_configuration \<Rightarrow> bool" where
  "covered radios c \<longleftrightarrow> (\<exists>f \<in> {fst radios, snd radios}. f \<noteq> 0 \<and> fits_radio f c)"

text \<open>A radio that is set stays where it is, at or below the centre for the channels to come.\<close>

definition below :: "u32 \<times> u32 \<Rightarrow> u32 \<Rightarrow> bool" where
  "below radios m \<longleftrightarrow> (\<forall>f \<in> {fst radios, snd radios}. f \<noteq> 0 \<longrightarrow> radio_ok f \<and> f \<le> m)"

definition keeps :: "u32 \<times> u32 \<Rightarrow> u32 \<times> u32 \<Rightarrow> bool" where
  "keeps old new \<longleftrightarrow> (fst old \<noteq> 0 \<longrightarrow> fst new = fst old) \<and> (snd old \<noteq> 0 \<longrightarrow> snd new = snd old)"

lemma place_channel_covers:
  assumes "in_band c" "below radios (minRadioCenterFreq c)" "place_channel c radios = Inr radios'"
  shows "covered radios' c" "below radios' (minRadioCenterFreq c)" "keeps radios radios'"
proof -
  obtain r0 r1 where r: "radios = (r0, r1)" by (cases radios)
  have nz: "minRadioCenterFreq c \<noteq> 0" using min_center_fits(1)[OF assms(1)] by (auto simp: radio_ok_def)
  have fit: "fits_radio f c" if "f \<in> {r0, r1}" "f \<noteq> 0" "channelMax c \<le> f + radio_bandwidth c div 2" for f
    using that assms(2) fits_radio_iff[OF _ assms(1)] by (auto simp: below_def r word_le_def)
  consider "r0 = 0" "radios' = (minRadioCenterFreq c, r1)" | "r1 = 0" "radios' = (r0, minRadioCenterFreq c)"
    | f where "f \<in> {r0, r1}" "f \<noteq> 0" "channelMax c \<le> f + radio_bandwidth c div 2" "radios' = radios"
    using assms(3) unfolding place_channel_def r by (auto split: if_splits)
  then show "covered radios' c" "below radios' (minRadioCenterFreq c)" "keeps radios radios'"
    using assms(2) nz fit min_center_fits[OF assms(1)]
    by (cases; auto simp: r covered_def below_def keeps_def)+
qed

lemma covered_keeps: "covered radios c \<Longrightarrow> keeps radios radios' \<Longrightarrow> covered radios' c"
  by (auto simp: covered_def keeps_def)

lemma place_channels_cover:
  assumes "place_channels cs radios = Inr radios'" "\<forall>c \<in> set cs. in_band c" "sorted (map minRadioCenterFreq cs)"
    and "\<forall>c \<in> set cs. below radios (minRadioCenterFreq c)"
  shows "(\<forall>c \<in> set cs. covered radios' c) \<and> keeps radios radios'"
  using assms
proof (induction cs arbitrary: radios)
  case (Cons c cs)
  then obtain radios1 where p: "place_channel c radios = Inr radios1" "place_channels cs radios1 = Inr radios'"
    by (auto split: sum.splits)
  note one = place_channel_covers[OF _ _ p(1)]
  have "\<forall>d \<in> set cs. below radios1 (minRadioCenterFreq d)"
    using one(2) Cons.prems(2-4) by (auto simp: below_def)
  then have IH: "(\<forall>d \<in> set cs. covered radios' d) \<and> keeps radios1 radios'"
    using Cons.IH[OF p(2)] Cons.prems(2,3) by simp
  have "covered radios1 c" "keeps radios radios1" using one(1,3) Cons.prems(2,4) by simp_all
  moreover have "keeps radios radios'" using IH \<open>keeps radios radios1\<close> by (simp add: keeps_def)
  ultimately show ?case using IH covered_keeps by auto
qed (simp add: keeps_def)

lemma covered_radio:
  assumes "covered radios c" "in_band c"
  shows "\<exists>r < 2. GetRadioForChannel radios c = Inr r \<and> radio_freq radios r \<noteq> 0 \<and> fits_radio (radio_freq radios r) c"
proof (cases "fits_radio (fst radios) c")
  case True
  then have "fst radios \<noteq> 0" using zero_radio_unfit[OF assms(2)] by metis
  with True show ?thesis by (intro exI[of _ 0]) (auto simp: GetRadioForChannel_def radio_freq_def split: prod.split)
next
  case False
  then have "snd radios \<noteq> 0" "fits_radio (snd radios) c" using assms(1) by (auto simp: covered_def)
  with False show ?thesis by (intro exI[of _ 1]) (auto simp: GetRadioForChannel_def radio_freq_def split: prod.split)
qed

text \<open>The offset of a channel from the centre of its radio.\<close>

lemma fits_offset:
  assumes "fits_radio f c" "radio_ok f" "in_band c"
  shows "\<bar>uint (chc_Frequency c) - uint f\<bar> \<le> (uint (radio_bandwidth c) + 1) div 2 - uint (channel_bandwidth c) div 2"
  using assms(1) radio_uint[OF assms(2), of c] in_band_uint(1,2)[OF assms(3)] unfolding fits_radio_def word_le_def by linarith

section \<open>Facts on the channels of a concentrator\<close>

definition multi_channel :: "channel_configuration \<Rightarrow> bool" where
  "multi_channel c \<longleftrightarrow> (case chc_Modulation c of LoraModulationConfig bw sfs \<Rightarrow> length sfs \<noteq> 1 | _ \<Rightarrow> False)"

definition std_channel :: "channel_configuration \<Rightarrow> bool" where
  "std_channel c \<longleftrightarrow> (case chc_Modulation c of LoraModulationConfig bw sfs \<Rightarrow> length sfs = 1 | _ \<Rightarrow> False)"

text \<open>The frequency a station tunes a channel to: that of the radio and the offset.\<close>

definition tuned :: "SX1301Conf \<Rightarrow> nat \<Rightarrow> int \<Rightarrow> int" where
  "tuned conf r ifreq = uint (sr_Freq (if r = 0 then sx_Radio0 conf else sx_Radio1 conf)) + ifreq"

definition multi_tuned :: "SX1301Conf \<Rightarrow> SX1301ConfChanMultiSF \<Rightarrow> int" where
  "multi_tuned conf m = tuned conf (sm_Radio m) (sm_IF m)"

definition radios_of :: "SX1301Conf \<Rightarrow> u32 \<times> u32" where
  "radios_of conf = (sr_Freq (sx_Radio0 conf), sr_Freq (sx_Radio1 conf))"

lemma tuned_channel: "radios = radios_of conf \<Longrightarrow> tuned conf r (uint f - uint (radio_freq radios r)) = uint f"
  by (simp add: tuned_def radio_freq_def radios_of_def)

lemma tuned_radios: "radios_of conf = radios_of conf' \<Longrightarrow> tuned conf = tuned conf'"
  by (intro ext) (simp add: tuned_def radios_of_def)

lemma set_channel_radios: "radios_of (snd (set_channel radios r c (n, conf))) = radios_of conf"
  by (simp add: set_channel_def radios_of_def Let_def split: channel_modulation.split)

lemma set_channels_radios: "set_channels radios cs st = Inr (n', conf') \<Longrightarrow> radios_of conf' = radios_of (snd st)"
proof (induction cs arbitrary: st)
  case (Cons c cs)
  then show ?case using set_channel_radios[of radios _ c "fst st" "snd st"] by (auto split: sum.splits)
qed simp

text \<open>The first \<open>n\<close> multi-SF channels are set, to the frequencies \<open>fs\<close>.\<close>

definition multi_set :: "nat \<Rightarrow> int list \<Rightarrow> SX1301Conf \<Rightarrow> bool" where
  "multi_set n fs conf \<longleftrightarrow> length (sx_ChanMultiSF conf) = 8 \<and> length fs = n \<and>
     map (multi_tuned conf) (take n (sx_ChanMultiSF conf)) = fs \<and>
     (\<forall>m \<in> set (take n (sx_ChanMultiSF conf)). sm_Enable m) \<and> (\<forall>m \<in> set (drop n (sx_ChanMultiSF conf)). \<not> sm_Enable m)"

lemma multi_set_filter:
  "multi_set n fs conf \<Longrightarrow> map (multi_tuned conf) (filter sm_Enable (sx_ChanMultiSF conf)) = fs"
proof -
  assume "multi_set n fs conf"
  then have "filter sm_Enable (take n (sx_ChanMultiSF conf) @ drop n (sx_ChanMultiSF conf)) = take n (sx_ChanMultiSF conf)"
    unfolding filter_append multi_set_def by (metis append_Nil2 filter_True filter_False)
  then show ?thesis using \<open>multi_set n fs conf\<close> by (simp add: multi_set_def)
qed

lemma multi_set_step:
  assumes "multi_set n fs conf" "multi_channel c" "n < 8" "radios = radios_of conf"
  shows "\<exists>conf'. set_channel radios r c (n, conf) = (Suc n, conf') \<and> multi_set (Suc n) (fs @ [uint (chc_Frequency c)]) conf' \<and>
    sx_ChanLoRaStd conf' = sx_ChanLoRaStd conf \<and> sx_ChanFSK conf' = sx_ChanFSK conf"
proof -
  let ?m = "\<lparr>sm_Enable = True, sm_Radio = r, sm_IF = uint (chc_Frequency c) - uint (radio_freq radios r)\<rparr>"
  let ?conf = "conf\<lparr>sx_ChanMultiSF := (sx_ChanMultiSF conf)[n := ?m]\<rparr>"
  obtain bw sfs where mod: "chc_Modulation c = LoraModulationConfig bw sfs" "length sfs \<noteq> 1"
    using assms(2) by (auto simp: multi_channel_def split: channel_modulation.splits)
  have t: "multi_tuned ?conf = multi_tuned conf" by (intro ext) (simp add: multi_tuned_def tuned_def)
  have n: "n < length (sx_ChanMultiSF conf)" using assms(1,3) by (simp add: multi_set_def)
  then have tk: "take (Suc n) ((sx_ChanMultiSF conf)[n := ?m]) = take n (sx_ChanMultiSF conf) @ [?m]"
    by (simp add: take_Suc_conv_app_nth)
  have dr: "set (drop (Suc n) ((sx_ChanMultiSF conf)[n := ?m])) \<subseteq> set (drop n (sx_ChanMultiSF conf))"
    using set_drop_subset_set_drop[of n "Suc n"] by simp
  have "multi_set (Suc n) (fs @ [uint (chc_Frequency c)]) ?conf"
    using assms(1) dr tuned_channel[OF assms(4)] unfolding multi_set_def t by (auto simp: tk multi_tuned_def)
  moreover have "set_channel radios r c (n, conf) = (Suc n, ?conf)" using mod by (simp add: set_channel_def Let_def)
  ultimately show ?thesis by simp
qed

lemma multi_set_other:
  assumes "multi_set n fs conf" "\<not> multi_channel c"
  shows "\<exists>conf'. set_channel radios r c (n, conf) = (n, conf') \<and> multi_set n fs conf'"
proof -
  have "multi_tuned (conf\<lparr>sx_ChanLoRaStd := x\<rparr>) = multi_tuned conf" "multi_tuned (conf\<lparr>sx_ChanFSK := True\<rparr>) = multi_tuned conf" for x
    by (auto simp: multi_tuned_def tuned_def fun_eq_iff)
  then show ?thesis
    using assms by (auto simp: set_channel_def multi_channel_def multi_set_def Let_def split: channel_modulation.splits)
qed

lemma set_channels_multi:
  assumes "set_channels radios cs (n, conf) = Inr (n', conf')" "multi_set n fs conf" "radios = radios_of conf"
    and "n + length (filter multi_channel cs) \<le> 8"
  shows "multi_set n' (fs @ map (\<lambda>c. uint (chc_Frequency c)) (filter multi_channel cs)) conf'"
  using assms
proof (induction cs arbitrary: n conf fs)
  case (Cons c cs)
  then obtain r where r: "set_channels radios cs (set_channel radios r c (n, conf)) = Inr (n', conf')"
    by (auto split: sum.splits)
  show ?case
  proof (cases "multi_channel c")
    case True
    then obtain conf1 where st: "set_channel radios r c (n, conf) = (Suc n, conf1)"
      "multi_set (Suc n) (fs @ [uint (chc_Frequency c)]) conf1"
      using multi_set_step[OF Cons.prems(2) True _ Cons.prems(3), of r] Cons.prems(4) by auto
    have "radios = radios_of conf1" using set_channel_radios[of radios r c n conf] st(1) Cons.prems(3) by simp
    from Cons.IH[OF r[unfolded st(1)] st(2) this] show ?thesis using True Cons.prems(4) by simp
  next
    case False
    then obtain conf1 where st: "set_channel radios r c (n, conf) = (n, conf1)" "multi_set n fs conf1"
      using multi_set_other[OF Cons.prems(2) False, of radios r] by blast
    have "radios = radios_of conf1" using set_channel_radios[of radios r c n conf] st(1) Cons.prems(3) by simp
    from Cons.IH[OF r[unfolded st(1)] st(2) this] show ?thesis using False Cons.prems(4) by simp
  qed
qed simp

lemma set_channel_std:
  "sx_ChanLoRaStd (snd (set_channel radios r c (n, conf))) =
     (if std_channel c then \<lparr>sl_Enable = True, sl_Radio = r, sl_IF = uint (chc_Frequency c) - uint (radio_freq radios r),
        sl_Bandwidth = channel_bandwidth c, sl_SpreadingFactor = (case chc_Modulation c of LoraModulationConfig bw sfs \<Rightarrow> hd sfs | _ \<Rightarrow> 0)\<rparr>
      else sx_ChanLoRaStd conf)"
  by (simp add: set_channel_def std_channel_def channel_bandwidth_def Let_def split: channel_modulation.split)

lemma set_channels_std:
  assumes "set_channels radios cs st = Inr (n', conf')"
  shows "(filter std_channel cs = [] \<longrightarrow> sx_ChanLoRaStd conf' = sx_ChanLoRaStd (snd st)) \<and>
    (\<forall>c. filter std_channel cs = [c] \<longrightarrow> (\<exists>r. sx_ChanLoRaStd conf' =
       \<lparr>sl_Enable = True, sl_Radio = r, sl_IF = uint (chc_Frequency c) - uint (radio_freq radios r), sl_Bandwidth = channel_bandwidth c,
        sl_SpreadingFactor = (case chc_Modulation c of LoraModulationConfig bw sfs \<Rightarrow> hd sfs | _ \<Rightarrow> 0)\<rparr>))"
  using assms
proof (induction cs arbitrary: st)
  case (Cons c cs)
  then obtain r where r: "set_channels radios cs (set_channel radios r c st) = Inr (n', conf')"
    by (auto split: sum.splits)
  note std = set_channel_std[of radios r c "fst st" "snd st", simplified]
  from Cons.IH[OF r] show ?case unfolding std by (cases "std_channel c") auto
qed simp

lemma set_channel_fsk:
  "sx_ChanFSK (snd (set_channel radios r c (n, conf))) \<longleftrightarrow> sx_ChanFSK conf \<or> \<not> multi_channel c \<and> \<not> std_channel c"
  by (simp add: set_channel_def std_channel_def multi_channel_def Let_def split: channel_modulation.split)

lemma set_channels_fsk:
  assumes "set_channels radios cs st = Inr (n', conf')"
  shows "sx_ChanFSK conf' \<longleftrightarrow> sx_ChanFSK (snd st) \<or> (\<exists>c \<in> set cs. \<not> multi_channel c \<and> \<not> std_channel c)"
  using assms
proof (induction cs arbitrary: st)
  case (Cons c cs)
  then obtain r where r: "set_channels radios cs (set_channel radios r c st) = Inr (n', conf')"
    by (auto split: sum.splits)
  from Cons.IH[OF r] set_channel_fsk[of radios r c "fst st" "snd st"] show ?case by auto
qed simp

lemma filter_singleton_mset: "mset xs = mset ys \<Longrightarrow> filter P ys = [c] \<Longrightarrow> filter P xs = [c]"
  by (metis mset_filter mset_single_iff_right mset.simps mset_zero_iff_right)

text \<open>What the channels of a concentrator are, by kind.\<close>

lemma concentrator_channels_kinds:
  "filter multi_channel (concentrator_channels conf) =
     map (\<lambda>freq. \<lparr>chc_Frequency = freq, chc_Modulation = LoraModulationConfig 125000 [7, 8, 9, 10, 11, 12]\<rparr>) (cn_MultiSF conf)"
  "filter std_channel (concentrator_channels conf) =
     (if cn_LoRaSTD_Frequency conf \<noteq> 0 then [\<lparr>chc_Frequency = cn_LoRaSTD_Frequency conf,
        chc_Modulation = LoraModulationConfig (cn_LoRaSTD_Bandwidth conf) [cn_LoRaSTD_SpreadingFactor conf]\<rparr>] else [])"
  "(\<exists>c \<in> set (concentrator_channels conf). \<not> multi_channel c \<and> \<not> std_channel c) \<longleftrightarrow> cn_FSK_Frequency conf \<noteq> 0"
  by (auto simp: concentrator_channels_def multi_channel_def std_channel_def comp_def filter_map)

text \<open>A concentrator's channels as the station tunes them.\<close>

definition station_tunes :: "BasicStationConcentrator \<Rightarrow> SX1301Conf \<Rightarrow> bool" where
  "station_tunes conf c \<longleftrightarrow>
     (length (cn_MultiSF conf) \<le> 8 \<longrightarrow>
        mset (map (multi_tuned c) (filter sm_Enable (sx_ChanMultiSF c))) = mset (map uint (cn_MultiSF conf))) \<and>
     (let std = sx_ChanLoRaStd c
      in sl_Enable std = (cn_LoRaSTD_Frequency conf \<noteq> 0) \<and>
         (sl_Enable std \<longrightarrow> tuned c (sl_Radio std) (sl_IF std) = uint (cn_LoRaSTD_Frequency conf) \<and>
            sl_Bandwidth std = cn_LoRaSTD_Bandwidth conf \<and> sl_SpreadingFactor std = cn_LoRaSTD_SpreadingFactor conf)) \<and>
     sx_ChanFSK c = (cn_FSK_Frequency conf \<noteq> 0)"

lemma concentrator_conf_tunes:
  assumes "concentrator_conf srt conf = Inr c" "\<And>cs. mset (srt cs) = mset cs"
  shows "station_tunes conf c"
proof -
  let ?cs = "srt (concentrator_channels conf)"
  obtain radios n where radios: "set_channels radios ?cs (0, SX1301Conf_zero\<lparr>sx_Radio0 := \<lparr>sr_Enable = fst radios \<noteq> 0, sr_Freq = fst radios\<rparr>,
      sx_Radio1 := \<lparr>sr_Enable = snd radios \<noteq> 0, sr_Freq = snd radios\<rparr>\<rparr>) = Inr (n, c)"
    using assms(1) by (auto simp: concentrator_conf_def GetRadioFrequencies_def Let_def map_sum_eq_Inr split: sum.splits)
  let ?c0 = "SX1301Conf_zero\<lparr>sx_Radio0 := \<lparr>sr_Enable = fst radios \<noteq> 0, sr_Freq = fst radios\<rparr>,
      sx_Radio1 := \<lparr>sr_Enable = snd radios \<noteq> 0, sr_Freq = snd radios\<rparr>\<rparr>"
  have R: "radios = radios_of ?c0" by (simp add: radios_of_def)
  have Rc: "radios = radios_of c" using set_channels_radios[OF radios] R by simp
  have start: "multi_set 0 [] ?c0" by (auto simp: multi_set_def SX1301Conf_zero_def)
  have m: "mset (filter P ?cs) = mset (filter P (concentrator_channels conf))" for P using assms(2) by simp
  have "mset (map (multi_tuned c) (filter sm_Enable (sx_ChanMultiSF c))) = mset (map uint (cn_MultiSF conf))"
    if le: "length (cn_MultiSF conf) \<le> 8"
  proof -
    have "length (filter multi_channel ?cs) \<le> 8"
      using le m[of multi_channel] unfolding concentrator_channels_kinds by (metis length_map size_mset)
    from set_channels_multi[OF radios start R] this
    have "multi_set n (map (\<lambda>c. uint (chc_Frequency c)) (filter multi_channel ?cs)) c" by simp
    from multi_set_filter[OF this]
    have "mset (map (multi_tuned c) (filter sm_Enable (sx_ChanMultiSF c))) =
        image_mset (\<lambda>c. uint (chc_Frequency c)) (mset (filter multi_channel ?cs))" by simp
    also have "\<dots> = mset (map uint (cn_MultiSF conf))"
      unfolding m concentrator_channels_kinds by (simp add: comp_def flip: mset_map)
    finally show ?thesis .
  qed
  moreover have "let std = sx_ChanLoRaStd c
      in sl_Enable std = (cn_LoRaSTD_Frequency conf \<noteq> 0) \<and>
         (sl_Enable std \<longrightarrow> tuned c (sl_Radio std) (sl_IF std) = uint (cn_LoRaSTD_Frequency conf) \<and>
            sl_Bandwidth std = cn_LoRaSTD_Bandwidth conf \<and> sl_SpreadingFactor std = cn_LoRaSTD_SpreadingFactor conf)"
  proof (cases "cn_LoRaSTD_Frequency conf = 0")
    case True
    then have "filter std_channel ?cs = []" using m[of std_channel] by (simp add: concentrator_channels_kinds)
    then show ?thesis using set_channels_std[OF radios] True by (simp add: SX1301Conf_zero_def)
  next
    case False
    then have "filter std_channel ?cs = [\<lparr>chc_Frequency = cn_LoRaSTD_Frequency conf,
        chc_Modulation = LoraModulationConfig (cn_LoRaSTD_Bandwidth conf) [cn_LoRaSTD_SpreadingFactor conf]\<rparr>]"
      using filter_singleton_mset[OF assms(2)] by (simp add: concentrator_channels_kinds)
    then show ?thesis
      using set_channels_std[OF radios] False tuned_channel[OF Rc] by (auto simp: channel_bandwidth_def)
  qed
  moreover have "sx_ChanFSK c = (cn_FSK_Frequency conf \<noteq> 0)"
    using set_channels_fsk[OF radios] mset_eq_setD[OF assms(2)[of "concentrator_channels conf"]] concentrator_channels_kinds(3)[of conf]
    by (simp add: SX1301Conf_zero_def)
  ultimately show ?thesis by (simp add: station_tunes_def)
qed

lemma concentrator_loop_tunes:
  "concentrator_loop srt confs = Inr cs \<Longrightarrow> (\<And>cs. mset (srt cs) = mset cs) \<Longrightarrow> list_all2 station_tunes confs cs"
  by (induction confs arbitrary: cs) (auto simp: map_sum_eq_Inr concentrator_conf_tunes split: sum.splits)

section \<open>Properties\<close>

text \<open>
  C27: the radios cover the channels.  When the two radios of a concentrator could be placed, every
  channel gets a radio that is set and covers it: the offset of the channel from the centre of its
  radio leaves the channel inside the radio's bandwidth.  This holds for whatever order the sort leaves among equal
  channels, for channels no wider than a radio, between 1 MHz and 4 GHz.
\<close>

theorem radios_cover_channels:
  assumes "sorts srt" "GetRadioFrequencies srt channels = (Inr radios, channels')" "\<forall>c \<in> set channels. in_band c"
  shows "mset channels' = mset channels \<and>
    (\<forall>c \<in> set channels. \<exists>r < 2. GetRadioForChannel radios c = Inr r \<and> radio_freq radios r \<noteq> 0 \<and>
       channelMin c \<ge> radio_freq radios r - radio_bandwidth c div 2 \<and> channelMax c \<le> radio_freq radios r + radio_bandwidth c div 2)"
proof -
  have s: "channels' = srt channels" "place_channels (srt channels) (0, 0) = Inr radios"
    using assms(2) by (auto simp: GetRadioFrequencies_def Let_def)
  have m: "mset (srt channels) = mset channels" "sorted (map minRadioCenterFreq (srt channels))"
    using assms(1) by (auto simp: sorts_def)
  have "set (srt channels) = set channels" using m(1) by (rule mset_eq_setD)
  moreover have "\<forall>c \<in> set (srt channels). below (0, 0) (minRadioCenterFreq c)" by (simp add: below_def)
  ultimately have "\<forall>c \<in> set channels. covered radios c"
    using place_channels_cover[OF s(2) _ m(2)] assms(3) by simp
  then show ?thesis using covered_radio assms(3) s(1) m(1) unfolding fits_radio_def by blast
qed

text \<open>
  C26: the channels of a station.  In the router-config message each concentrator is tuned to exactly
  its multi-SF channels, as long as there are at most eight, to its single-SF channel with its bandwidth and spreading
  factor, and has FSK enabled exactly if it has an FSK channel; the data rates are those
  of the region, and the filters and the frequency range those that were configured.
\<close>

theorem router_config_tunes:
  assumes "GetRouterConfig GetConfig srt region netIDs joinEUIs freqMin freqMax concentrators = Inr cfg" "sorts srt"
  shows "list_all2 station_tunes concentrators (sc_SX1301Conf cfg) \<and> sc_FreqRange cfg = (freqMin, freqMax) \<and>
    sc_NetID cfg = map netid_number netIDs \<and> length (sc_DRs cfg) = 16 \<and>
    (\<exists>b. GetConfig region = Inr b \<and> (\<forall>i < 16. sc_DRs cfg ! i = data_rate_entry b (int i)))"
proof -
  obtain b confs where b: "GetConfig region = Inr b" "concentrator_loop srt concentrators = Inr confs" "sc_SX1301Conf cfg = confs"
    "sc_DRs cfg = map (\<lambda>i. data_rate_entry b (int i)) [0..<16]" "sc_FreqRange cfg = (freqMin, freqMax)"
    "sc_NetID cfg = map netid_number netIDs"
    using assms(1) by (auto simp: GetRouterConfig_def map_sum_eq_Inr split: sum.splits)
  have "list_all2 station_tunes concentrators confs"
    by (rule concentrator_loop_tunes[OF b(2)]) (use assms(2) in \<open>simp add: sorts_def\<close>)
  then show ?thesis using b by simp
qed

text \<open>
  EUIs as text.  A station's EUI is read back from both of its text forms, the blocks the backend writes and the
  bytes between dashes, provided that the LoRaWAN package reads sixteen hexadecimal digits.  A text without
  colons that is longer than one block, and not in the form with dashes, panics.
\<close>

theorem station_eui_text:
  assumes "\<And>e. eui_UnmarshalText L (hex_encode (eui_bytes e)) = Inr e"
  shows "station_UnmarshalText L (station_MarshalText e) = Ret (Inr e) \<and>
    station_UnmarshalText L (dashed (eui_bytes e)) = Ret (Inr e) \<and>
    (\<forall>s. 4 < length s \<and> CHR '':'' \<notin> set s \<and> \<not> euiRegexp_match s \<longrightarrow> station_UnmarshalText L s = Panic)"
  using eui_text_blocks eui_text_dashed[OF assms] eui_text_long by blast

section \<open>Examples\<close>

definition concentrator_example :: BasicStationConcentrator where
  "concentrator_example = concentrator_zero\<lparr>cn_MultiSF := [868100000, 868300000], cn_FSK_Frequency := 868800000\<rparr>"

definition sort_example :: "channel_configuration list \<Rightarrow> channel_configuration list" where
  "sort_example = sort_key minRadioCenterFreq"

lemma sort_example_sorts: "sorts sort_example"
  by (simp add: sorts_def sort_example_def)

definition channels_example :: "channel_configuration list" where
  "channels_example = concentrator_channels concentrator_example"

lemma channels_example_radios:
  "GetRadioFrequencies sort_example channels_example = (Inr (868500000, 0), channels_example)"
  by (simp add: GetRadioFrequencies_def sort_example_def channels_example_def concentrator_channels_def concentrator_example_def
      concentrator_zero_def minRadioCenterFreq_def radio_bandwidth_def channel_bandwidth_def radioBandwidthPerChannelBandwidth_def
      place_channel_def channelMax_def)

theorem radios_cover_channels_witness:
  "list_all (\<lambda>c. \<exists>r. r < 2 \<and> GetRadioForChannel (868500000, 0) c = Inr r) channels_example"
proof -
  have "\<forall>c \<in> set channels_example. in_band c"
    by (simp add: channels_example_def concentrator_channels_def concentrator_example_def concentrator_zero_def in_band_def
        radio_bandwidth_def channel_bandwidth_def radioBandwidthPerChannelBandwidth_def)
  from radios_cover_channels[OF sort_example_sorts channels_example_radios this] show ?thesis by (auto simp: list_all_iff)
qed

theorem router_config_tunes_witness:
  "\<exists>cfg c. GetRouterConfig (\<lambda>_. Inr band_example) sort_example ''EU868'' [] [] 868100000 869525000 [concentrator_example] = Inr cfg \<and>
     sc_SX1301Conf cfg = [c] \<and>
     mset (map (multi_tuned c) (filter sm_Enable (sx_ChanMultiSF c))) = mset [868100000, 868300000] \<and> sx_ChanFSK c"
proof -
  have "\<exists>c. concentrator_conf sort_example concentrator_example = Inr c"
    unfolding concentrator_conf_def channels_example_def[symmetric] channels_example_radios
    by (simp add: channels_example_def concentrator_channels_def concentrator_example_def concentrator_zero_def Let_def
        GetRadioForChannel_def fits_radio_def channelMin_def channelMax_def radio_bandwidth_def channel_bandwidth_def
        radioBandwidthPerChannelBandwidth_def)
  then obtain cfg where cfg: "GetRouterConfig (\<lambda>_. Inr band_example) sort_example ''EU868'' [] [] 868100000 869525000
      [concentrator_example] = Inr cfg" by (auto simp: GetRouterConfig_def)
  from router_config_tunes[OF this sort_example_sorts]
  obtain c where "sc_SX1301Conf cfg = [c]" "station_tunes concentrator_example c" by (auto simp: list_all2_Cons1)
  then show ?thesis using cfg by (auto simp: station_tunes_def concentrator_example_def concentrator_zero_def)
qed

theorem station_eui_text_witness:
  "station_UnmarshalText lorawan_hex (station_MarshalText (EUI64 0 15 161 35 0 248 1 0)) = Ret (Inr (EUI64 0 15 161 35 0 248 1 0)) \<and>
   station_UnmarshalText lorawan_hex ''12345'' = Panic"
proof -
  have "eui_UnmarshalText lorawan_hex (hex_encode (eui_bytes e)) = Inr e" for e
    using lorawan_hex_ok by (simp add: lorawan_ok_def lorawan_hex_def)
  note texts = station_eui_text[OF this, of "EUI64 0 15 161 35 0 248 1 0"]
  have "\<not> euiRegexp_match ''12345''" using euiRegexp_dash[of "''12345''"] by auto
  then show ?thesis using texts by (simp del: euiRegexp_match.simps)
qed

end
