(* ===== verification/Station_Messages.thy ===== *)
theory Station_Messages
  imports Station_Config Semtech_Packets
begin

text \<open>
  The messages of a basic station, \<^verbatim>\<open>backend/basicstation/structs\<close> of the gateway bridge: join-requests, data frames and
  proprietary frames to uplinks, downlinks to the message for the station.

  The conversions between GPS time and time are a parameter; a slice of bytes that is read past its
  length, within its capacity, gives the bytes that a parameter names.
\<close>

section \<open>Uplinks\<close>

record RadioMetaData =
  rm_DR :: int
  rm_Frequency :: u32
  rm_RxTime :: rat
  rm_RCtx :: u64
  rm_XTime :: u64
  rm_GPSTime :: int
  rm_RSSI :: rat
  rm_SNR :: u32

record gps_lib =
  gps_Time :: "duration \<Rightarrow> time"
  gps_SinceEpoch :: "time \<Rightarrow> duration"

definition be_put_uint64 :: "u64 \<Rightarrow> bytes" where
  "be_put_uint64 w = map (\<lambda>i. u64_byte i w) [7, 6, 5, 4, 3, 2, 1, 0]"

definition le_put_uint32 :: "u32 \<Rightarrow> bytes" where
  "le_put_uint32 w = map (\<lambda>i. u32_byte i w) [0, 1, 2, 3]"

definition station_modulation :: "data_rate \<Rightarrow> modulation option" where
  "station_modulation dr =
     (case dr_Modulation dr of
        LoRaModulation \<Rightarrow> Some (Modulation_Lora \<lparr>lm_Bandwidth = word_of_int (dr_Bandwidth dr) * 1000,
          lm_SpreadingFactor = word_of_int (dr_SpreadFactor dr), lm_CodeRate = CR_4_5, lm_PolarizationInversion = False\<rparr>)
      | FSKModulation \<Rightarrow> Some (Modulation_Fsk \<lparr>fm_FrequencyDeviation = 0, fm_Datarate = word_of_int (dr_BitRate dr)\<rparr>)
      | LRFHSSModulation \<Rightarrow> None)"

text \<open>The fraction of a second, which is less than 1, is taken for a number of nanoseconds.\<close>

definition unix_time :: "rat \<Rightarrow> time option" where
  "unix_time rxTime =
     (if rxTime = 0 \<or> trunc_zero rxTime = 0 then None
      else Some (trunc_zero rxTime * second + trunc_zero (rxTime - of_int (trunc_zero rxTime))))"

definition gps_duration :: "RadioMetaData \<Rightarrow> duration option" where
  "gps_duration rmd = (if rm_GPSTime rmd = 0 then None else Some (i64 (rm_GPSTime rmd * 1000)))"

text \<open>\<^verbatim>\<open>SetRadioMetaDataToProto\<close> on a new frame: the frame without its payload.\<close>

definition SetRadioMetaDataToProto ::
  "lorawan_lib \<Rightarrow> gps_lib \<Rightarrow> band \<Rightarrow> eui64 \<Rightarrow> RadioMetaData \<Rightarrow> uplink_frame result" where
  "SetRadioMetaDataToProto L G b gatewayID rmd =
     (case bd_GetDataRate b (rm_DR rmd) of
        Inl err \<Rightarrow> Inl (Errorf ''get data-rate error'')
      | Inr dr \<Rightarrow>
          Inr \<lparr>uf_PhyPayload = [], uf_TxInfo = Some \<lparr>ti_Frequency = rm_Frequency rmd, ti_Modulation = station_modulation dr\<rparr>,
               uf_RxInfo = Some
                 \<lparr>ri_GatewayId = eui_String L gatewayID, ri_UplinkId = 0, ri_Rssi = trunc_zero (rm_RSSI rmd), ri_Snr = rm_SNR rmd,
                  ri_Channel = 0, ri_RfChain = 0, ri_Board = 0, ri_Antenna = 0, ri_CrcStatus = CRC_OK,
                  ri_Time = (case gps_duration rmd of None \<Rightarrow> unix_time (rm_RxTime rmd) | Some d \<Rightarrow> Some (gps_Time G d)),
                  ri_TimeSinceGpsEpoch = gps_duration rmd, ri_FineTimeSinceGpsEpoch = None,
                  ri_Context = be_put_uint64 (rm_RCtx rmd) @ be_put_uint64 (rm_XTime rmd),
                  ri_Location = None, ri_Metadata = Map.empty\<rparr>\<rparr>)"

definition add_payload :: "bytes \<Rightarrow> uplink_frame \<Rightarrow> uplink_frame" where
  "add_payload bs pb = pb\<lparr>uf_PhyPayload := uf_PhyPayload pb @ bs\<rparr>"

record JoinRequestMsg =
  jr_Meta :: RadioMetaData
  jr_MHDR :: u8
  jr_JoinEUI :: eui64
  jr_DevEUI :: eui64
  jr_DevNonce :: u16
  jr_MIC :: u32

definition JoinRequestToProto ::
  "lorawan_lib \<Rightarrow> gps_lib \<Rightarrow> band \<Rightarrow> eui64 \<Rightarrow> JoinRequestMsg \<Rightarrow> uplink_frame result" where
  "JoinRequestToProto L G b gatewayID jr =
     (case SetRadioMetaDataToProto L G b gatewayID (jr_Meta jr) of
        Inl err \<Rightarrow> Inl (Errorf ''set radio meta-data error'')
      | Inr pb \<Rightarrow>
          Inr (add_payload ([jr_MHDR jr] @ rev (eui_bytes (jr_JoinEUI jr)) @ rev (eui_bytes (jr_DevEUI jr)) @
                 le_put_uint16 (jr_DevNonce jr) @ le_put_uint32 (jr_MIC jr)) pb))"

record UplinkDataFrameMsg =
  ud_Meta :: RadioMetaData
  ud_MHDR :: u8
  ud_DevAddr :: u32
  ud_FCtrl :: u8
  ud_FCnt :: u16
  ud_FOpts :: string
  ud_FPort :: int
  ud_FRMPayload :: string
  ud_MIC :: u32

text \<open>The port and the payload after it; there is neither if the port is \<open>-1\<close>.\<close>

definition port_payload :: "int \<Rightarrow> string \<Rightarrow> bytes result" where
  "port_payload fport payload =
     (if fport = - 1 then Inr []
      else case hex_decode payload of
             None \<Rightarrow> Inl (Errorf ''decode FRMPayload error'')
           | Some b \<Rightarrow> Inr (word_of_int fport # b))"

definition UplinkDataFrameToProto ::
  "lorawan_lib \<Rightarrow> gps_lib \<Rightarrow> band \<Rightarrow> eui64 \<Rightarrow> UplinkDataFrameMsg \<Rightarrow> uplink_frame result" where
  "UplinkDataFrameToProto L G b gatewayID updf =
     (case SetRadioMetaDataToProto L G b gatewayID (ud_Meta updf) of
        Inl err \<Rightarrow> Inl (Errorf ''set radio meta-data error'')
      | Inr pb \<Rightarrow>
          (case hex_decode (ud_FOpts updf) of
             None \<Rightarrow> Inl (Errorf ''decode FOpts error'')
           | Some fopts \<Rightarrow>
               (case port_payload (ud_FPort updf) (ud_FRMPayload updf) of
                  Inl err \<Rightarrow> Inl err
                | Inr payload \<Rightarrow>
                    Inr (add_payload ([ud_MHDR updf] @ le_put_uint32 (ud_DevAddr updf) @ [ud_FCtrl updf] @
                           le_put_uint16 (ud_FCnt updf) @ fopts @ payload @ le_put_uint32 (ud_MIC updf)) pb))))"

record UplinkProprietaryMsg =
  up_Meta :: RadioMetaData
  up_FRMPayload :: string

definition UplinkProprietaryFrameToProto ::
  "lorawan_lib \<Rightarrow> gps_lib \<Rightarrow> band \<Rightarrow> eui64 \<Rightarrow> UplinkProprietaryMsg \<Rightarrow> uplink_frame result" where
  "UplinkProprietaryFrameToProto L G b gatewayID uppf =
     (case SetRadioMetaDataToProto L G b gatewayID (up_Meta uppf) of
        Inl err \<Rightarrow> Inl (Errorf ''set radio meta-data error'')
      | Inr pb \<Rightarrow>
          (case hex_decode (up_FRMPayload uppf) of
             None \<Rightarrow> Inl (Errorf ''decode FRMPayload field error'')
           | Some frmPayload \<Rightarrow> Inr (add_payload frmPayload pb)))"

section \<open>Downlinks\<close>

record StationDownlink =
  sd_DevEui :: string
  sd_DC :: int
  sd_DIID :: u32
  sd_PDU :: string
  sd_Priority :: int
  sd_RxDelay :: "int option"
  sd_RX1DR :: "int option"
  sd_RX1Freq :: "u32 option"
  sd_RX2DR :: "int option"
  sd_RX2Freq :: "u32 option"
  sd_DR :: "int option"
  sd_Freq :: "u32 option"
  sd_GPSTime :: "u64 option"
  sd_XTime :: "u64 option"
  sd_RCtx :: "u64 option"

definition be_read_uint64 :: "bytes \<Rightarrow> u64" where
  "be_read_uint64 b = be_uint64 (b ! 0) (b ! 1) (b ! 2) (b ! 3) (b ! 4) (b ! 5) (b ! 6) (b ! 7)"

text \<open>\<open>spare\<close> are the bytes of a slice between its length and its capacity.\<close>

definition set_context :: "(bytes \<Rightarrow> bytes) \<Rightarrow> bytes \<Rightarrow> StationDownlink \<Rightarrow> StationDownlink go" where
  "set_context spare ctx out =
     (if length ctx < 8 then Ret out
      else let buf = ctx @ spare ctx
           in if length buf < 16 then Panic
              else Ret (out\<lparr>sd_XTime := Some (be_read_uint64 (drop 8 buf)), sd_RCtx := Some (be_read_uint64 ctx)\<rparr>))"

text \<open>The index of the data rate of a modulation; \<open>None\<close> for one that is neither LoRa nor FSK.\<close>

definition downlink_dr :: "band \<Rightarrow> modulation option \<Rightarrow> int result option" where
  "downlink_dr b m =
     (case m of
        Some (Modulation_Lora lora) \<Rightarrow>
          Some (bd_GetDataRateIndex b False \<lparr>dr_Modulation = LoRaModulation, dr_SpreadFactor = uint (lm_SpreadingFactor lora),
            dr_Bandwidth = uint (lm_Bandwidth lora div 1000), dr_BitRate = 0, dr_rest = 0\<rparr>)
      | Some (Modulation_Fsk fsk) \<Rightarrow>
          Some (bd_GetDataRateIndex b False \<lparr>dr_Modulation = FSKModulation, dr_SpreadFactor = 0, dr_Bandwidth = 0,
            dr_BitRate = uint (fm_Datarate fsk), dr_rest = 0\<rparr>)
      | _ \<Rightarrow> None)"

definition set_timing :: "int \<Rightarrow> downlink_tx_info \<Rightarrow> StationDownlink \<Rightarrow> StationDownlink" where
  "set_timing dr ti out =
     (case dti_Timing ti of
        None \<Rightarrow> out
      | Some Immediately \<Rightarrow> out\<lparr>sd_DC := 2, sd_RX2DR := Some dr, sd_RX2Freq := Some (dti_Frequency ti)\<rparr>
      | Some (Delay d) \<Rightarrow> out\<lparr>sd_DC := 0, sd_RxDelay := Some (duration_or_zero d sdiv second), sd_RX1DR := Some dr,
                               sd_RX1Freq := Some (dti_Frequency ti)\<rparr>
      | Some (GpsEpoch d) \<Rightarrow> out\<lparr>sd_DC := 1, sd_DR := Some dr, sd_Freq := Some (dti_Frequency ti),
                                  sd_GPSTime := Some (word_of_int (duration_or_zero d sdiv 1000))\<rparr>)"

text \<open>A second item with a delay gives the second receive window.\<close>

definition set_rx2 :: "band \<Rightarrow> downlink_item list \<Rightarrow> StationDownlink \<Rightarrow> StationDownlink result" where
  "set_rx2 b items out =
     (case items of
        [_, item] \<Rightarrow>
          (case di_TxInfo item of
             None \<Rightarrow> Inr out
           | Some ti \<Rightarrow>
               (case dti_Timing ti of
                  Some (Delay d) \<Rightarrow>
                    (case downlink_dr b (dti_Modulation ti) of
                       None \<Rightarrow> Inr out
                     | Some (Inl err) \<Rightarrow> Inl (Errorf ''get data-rate index error'')
                     | Some (Inr dr) \<Rightarrow> Inr (out\<lparr>sd_RX2DR := Some dr, sd_RX2Freq := Some (dti_Frequency ti)\<rparr>))
                | _ \<Rightarrow> Inr out))
      | _ \<Rightarrow> Inr out)"

definition StationDownlink_zero :: StationDownlink where
  "StationDownlink_zero =
     \<lparr>sd_DevEui = [], sd_DC = 0, sd_DIID = 0, sd_PDU = [], sd_Priority = 0, sd_RxDelay = None, sd_RX1DR = None, sd_RX1Freq = None,
      sd_RX2DR = None, sd_RX2Freq = None, sd_DR = None, sd_Freq = None, sd_GPSTime = None, sd_XTime = None, sd_RCtx = None\<rparr>"

definition DownlinkFrameFromProto :: "(bytes \<Rightarrow> bytes) \<Rightarrow> band \<Rightarrow> downlink_frame \<Rightarrow> StationDownlink result go" where
  "DownlinkFrameFromProto spare b pb =
     (case df_Items pb of
        [] \<Rightarrow> Ret (Inl (Errorf ''items must contain at least one item''))
      | item # _ \<Rightarrow>
          go_bind (deref (di_TxInfo item)) (\<lambda>ti.
          go_bind (set_context spare (dti_Context ti)
                     (StationDownlink_zero\<lparr>sd_DevEui := ''01-01-01-01-01-01-01-01'', sd_DIID := df_DownlinkId pb,
                        sd_PDU := hex_encode (di_PhyPayload item), sd_Priority := 1\<rparr>)) (\<lambda>out.
            case downlink_dr b (dti_Modulation ti) of
              Some (Inl err) \<Rightarrow> Ret (Inl (Errorf ''get data-rate index error''))
            | Some (Inr dr) \<Rightarrow> Ret (set_rx2 b (df_Items pb) (set_timing dr ti out))
            | None \<Rightarrow> Ret (set_rx2 b (df_Items pb) (set_timing 0 ti out)))))"

definition DownlinkTransmittedToProto :: "lorawan_lib \<Rightarrow> eui64 \<Rightarrow> u32 \<Rightarrow> downlink_tx_ack" where
  "DownlinkTransmittedToProto L gatewayID diid =
     \<lparr>da_GatewayId = eui_String L gatewayID, da_DownlinkId = diid, da_Items = [1]\<rparr>"

section \<open>Facts\<close>

lemma be_uint64_u64_bytes [simp, word_bytes]:
  "be_uint64 (u64_byte 7 w) (u64_byte 6 w) (u64_byte 5 w) (u64_byte 4 w) (u64_byte 3 w) (u64_byte 2 w) (u64_byte (Suc 0) w) (u64_byte 0 w) = w"
  by (rule bit_word_eqI) (auto simp: bit_be_uint64 bit_u64_byte)

lemma length_be_put_uint64 [simp]: "length (be_put_uint64 w) = 8"
  by (simp add: be_put_uint64_def)

lemma be_read_put_uint64 [simp]: "be_read_uint64 (be_put_uint64 w @ rest) = w"
  by (simp add: be_read_uint64_def be_put_uint64_def)

lemma unix_time_seconds: "unix_time t = Some u \<Longrightarrow> u = trunc_zero t * second"
proof -
  assume "unix_time t = Some u"
  moreover have "trunc_zero (t - of_int (trunc_zero t)) = 0"
    by (auto simp: trunc_zero_def floor_eq_iff ceiling_eq_iff; linarith)
  ultimately show ?thesis by (auto simp: unix_time_def split: if_splits)
qed

text \<open>A data rate as the channel plans have them: only the fields of its modulation are set.\<close>

definition plain_rate :: "data_rate \<Rightarrow> bool" where
  "plain_rate dr \<longleftrightarrow> dr_rest dr = 0 \<and>
     (case dr_Modulation dr of
        LoRaModulation \<Rightarrow> dr_BitRate dr = 0 \<and> 0 \<le> dr_SpreadFactor dr \<and> dr_SpreadFactor dr < 2 ^ 32 \<and>
          0 \<le> dr_Bandwidth dr \<and> dr_Bandwidth dr < 4294967
      | FSKModulation \<Rightarrow> dr_SpreadFactor dr = 0 \<and> dr_Bandwidth dr = 0 \<and> 0 \<le> dr_BitRate dr \<and> dr_BitRate dr < 2 ^ 32
      | LRFHSSModulation \<Rightarrow> False)"

lemma kHz_detour:
  assumes "0 \<le> bw" "bw < 4294967"
  shows "uint ((word_of_int bw * 1000 :: u32) div 1000) = bw"
proof -
  have "uint (word_of_int bw * 1000 :: u32) = bw * 1000"
    using assms by (simp add: uint_word_ariths uint_word_of_int take_bit_eq_mod)
  then show ?thesis by (simp add: uint_div)
qed

lemma downlink_dr_station:
  assumes "plain_rate dr"
  shows "downlink_dr b (station_modulation dr) = Some (bd_GetDataRateIndex b False dr)"
proof (cases "dr_Modulation dr")
  case LoRaModulation
  then have b: "0 \<le> dr_SpreadFactor dr" "dr_SpreadFactor dr < 2 ^ 32" "0 \<le> dr_Bandwidth dr" "dr_Bandwidth dr < 4294967"
    "dr_BitRate dr = 0" "dr_rest dr = 0" using assms by (simp_all add: plain_rate_def)
  have "uint (word_of_int (dr_SpreadFactor dr) :: u32) = dr_SpreadFactor dr"
    using b(1,2) by (simp add: uint_word_of_int take_bit_eq_mod)
  with LoRaModulation b kHz_detour[OF b(3,4)] show ?thesis by (cases dr) (simp add: downlink_dr_def station_modulation_def)
next
  case FSKModulation
  then have b: "0 \<le> dr_BitRate dr" "dr_BitRate dr < 2 ^ 32" "dr_SpreadFactor dr = 0" "dr_Bandwidth dr = 0" "dr_rest dr = 0"
    using assms by (simp_all add: plain_rate_def)
  have "uint (word_of_int (dr_BitRate dr) :: u32) = dr_BitRate dr" using b(1,2) by (simp add: uint_word_of_int take_bit_eq_mod)
  with FSKModulation b show ?thesis by (cases dr) (simp add: downlink_dr_def station_modulation_def)
next
  case LRFHSSModulation
  then show ?thesis using assms by (simp add: plain_rate_def)
qed

section \<open>Properties\<close>

text \<open>
  C9: an answer to an uplink reaches the same device.  A downlink in the first receive window that is given the
  context and the modulation of an uplink becomes a message with the radio context and the concentrator
  time of that uplink, the index of the uplink's data rate, and the payload.  A context
  that is longer than one of its two halves but shorter than both panics, when the slice has no spare
  capacity.
\<close>

theorem station_answer:
  assumes "SetRadioMetaDataToProto L G b g rmd = Inr up" "uf_RxInfo up = Some ri" "uf_TxInfo up = Some ui"
    and "bd_GetDataRate b (rm_DR rmd) = Inr dr" "plain_rate dr" "bd_GetDataRateIndex b False dr = Inr i"
    and "df_Items pb = [item]" "di_TxInfo item = Some ti" "dti_Timing ti = Some (Delay (Some d))"
    and "dti_Context ti = ri_Context ri" "dti_Modulation ti = ti_Modulation ui"
  shows "(\<exists>out. DownlinkFrameFromProto spare b pb = Ret (Inr out) \<and> sd_DIID out = df_DownlinkId pb \<and>
      hex_decode (sd_PDU out) = Some (di_PhyPayload item) \<and> sd_RCtx out = Some (rm_RCtx rmd) \<and> sd_XTime out = Some (rm_XTime rmd) \<and>
      sd_DC out = 0 \<and> sd_RxDelay out = Some (d sdiv second) \<and> sd_RX1DR out = Some i \<and> sd_RX1Freq out = Some (dti_Frequency ti)) \<and>
    (\<forall>pb item rest ti. df_Items pb = item # rest \<and> di_TxInfo item = Some ti \<and> 8 \<le> length (dti_Context ti) \<and>
       length (dti_Context ti @ spare (dti_Context ti)) < 16 \<longrightarrow> DownlinkFrameFromProto spare b pb = Panic)"
proof
  have ctx: "ri_Context ri = be_put_uint64 (rm_RCtx rmd) @ be_put_uint64 (rm_XTime rmd)"
    and m: "ti_Modulation ui = station_modulation dr"
    using assms(1-4) by (auto simp: SetRadioMetaDataToProto_def)
  have "set_context spare (ri_Context ri) out = Ret (out\<lparr>sd_XTime := Some (rm_XTime rmd), sd_RCtx := Some (rm_RCtx rmd)\<rparr>)" for out
    by (simp add: ctx set_context_def)
  then show "\<exists>out. DownlinkFrameFromProto spare b pb = Ret (Inr out) \<and> sd_DIID out = df_DownlinkId pb \<and>
      hex_decode (sd_PDU out) = Some (di_PhyPayload item) \<and> sd_RCtx out = Some (rm_RCtx rmd) \<and> sd_XTime out = Some (rm_XTime rmd) \<and>
      sd_DC out = 0 \<and> sd_RxDelay out = Some (d sdiv second) \<and> sd_RX1DR out = Some i \<and> sd_RX1Freq out = Some (dti_Frequency ti)"
    using assms(6-11) downlink_dr_station[OF assms(5), of b] m
    by (simp add: DownlinkFrameFromProto_def set_rx2_def set_timing_def duration_or_zero_def StationDownlink_zero_def)
  show "\<forall>pb item rest ti. df_Items pb = item # rest \<and> di_TxInfo item = Some ti \<and> 8 \<le> length (dti_Context ti) \<and>
       length (dti_Context ti @ spare (dti_Context ti)) < 16 \<longrightarrow> DownlinkFrameFromProto spare b pb = Panic"
    by (auto simp: DownlinkFrameFromProto_def set_context_def)
qed

section \<open>Examples\<close>

definition gps_example :: gps_lib where
  "gps_example = \<lparr>gps_Time = (\<lambda>d. d), gps_SinceEpoch = (\<lambda>t. t)\<rparr>"

definition meta_example :: RadioMetaData where
  "meta_example = \<lparr>rm_DR = 5, rm_Frequency = 868100000, rm_RxTime = 0, rm_RCtx = 2, rm_XTime = 4660, rm_GPSTime = 0,
     rm_RSSI = - 60, rm_SNR = 0\<rparr>"

definition answer_example :: "bytes \<Rightarrow> modulation option \<Rightarrow> downlink_frame" where
  "answer_example ctx m =
     \<lparr>df_DownlinkId = 9, df_DownlinkIdLegacy = [],
      df_Items = [\<lparr>di_PhyPayload = [1, 2], di_TxInfo = Some \<lparr>dti_Frequency = 868100000, dti_Power = 14,
        dti_Timing = Some (Delay (Some second)), dti_Modulation = m, dti_Context = ctx, dti_Antenna = 0, dti_Board = 0\<rparr>\<rparr>],
      df_GatewayId = []\<rparr>"

theorem station_answer_witness:
  "\<exists>up ri ui out. SetRadioMetaDataToProto lorawan_hex gps_example band_example eui64_zero meta_example = Inr up \<and>
     uf_RxInfo up = Some ri \<and> uf_TxInfo up = Some ui \<and>
     DownlinkFrameFromProto (\<lambda>_. []) band_example (answer_example (ri_Context ri) (ti_Modulation ui)) = Ret (Inr out) \<and>
     sd_XTime out = Some 4660 \<and> sd_RX1DR out = Some 5 \<and>
     DownlinkFrameFromProto (\<lambda>_. []) band_example (answer_example (replicate 8 0) None) = Panic"
proof -
  let ?dr = "\<lparr>dr_Modulation = LoRaModulation, dr_SpreadFactor = 7, dr_Bandwidth = 125, dr_BitRate = 0, dr_rest = 0\<rparr>"
  have dr: "bd_GetDataRate band_example (rm_DR meta_example) = Inr ?dr" "bd_GetDataRateIndex band_example False ?dr = Inr 5"
    by (simp_all add: band_example_def meta_example_def Let_def)
  then obtain up ri ui where up: "SetRadioMetaDataToProto lorawan_hex gps_example band_example eui64_zero meta_example = Inr up"
    "uf_RxInfo up = Some ri" "uf_TxInfo up = Some ui" by (simp add: SetRadioMetaDataToProto_def)
  let ?pb = "answer_example (ri_Context ri) (ti_Modulation ui)"
  have "plain_rate ?dr" by (simp add: plain_rate_def)
  note answer = station_answer[OF up dr(1) this dr(2), of ?pb "df_Items ?pb ! 0" "the (di_TxInfo (df_Items ?pb ! 0))" second "\<lambda>_. []"]
  have bad: "df_Items (answer_example (replicate 8 0) None) = [df_Items (answer_example (replicate 8 0) None) ! 0]"
    "di_TxInfo (df_Items (answer_example (replicate 8 0) None) ! 0) = Some (the (di_TxInfo (df_Items (answer_example (replicate 8 0) None) ! 0)))"
    "length (dti_Context (the (di_TxInfo (df_Items (answer_example (replicate 8 0) None) ! 0)))) = 8"
    by (simp_all add: answer_example_def)
  have "df_Items ?pb = [df_Items ?pb ! 0]" "di_TxInfo (df_Items ?pb ! 0) = Some (the (di_TxInfo (df_Items ?pb ! 0)))"
    "dti_Timing (the (di_TxInfo (df_Items ?pb ! 0))) = Some (Delay (Some second))"
    "dti_Context (the (di_TxInfo (df_Items ?pb ! 0))) = ri_Context ri" "dti_Modulation (the (di_TxInfo (df_Items ?pb ! 0))) = ti_Modulation ui"
    by (simp_all add: answer_example_def)
  note result = answer[OF this]
  from result obtain out where "DownlinkFrameFromProto (\<lambda>_. []) band_example ?pb = Ret (Inr out)"
    "sd_XTime out = Some (rm_XTime meta_example)" "sd_RX1DR out = Some 5" by blast
  moreover have "DownlinkFrameFromProto (\<lambda>_. []) band_example (answer_example (replicate 8 0) None) = Panic"
    using result bad by fastforce
  ultimately show ?thesis using up by (auto simp: meta_example_def)
qed

end
