(* ===== verification/Station_Backend.thy ===== *)
theory Station_Backend
  imports Station_Messages Gateway_Stats
begin

text \<open>
  The basic station backend of the forwarder, \<^verbatim>\<open>external/chirpstack/gateway-bridge/backend/basicstation\<close>: a web
  socket server with a registry of the connected gateways, the handlers of the messages of a station, and the
  messages to it.

  A connection is a cell of a heap; the registry maps the identifier of a gateway to the cell.  The goroutine of
  a connection takes one step to look a gateway up in the registry, one to enter it, one for each message and
  one when it ends, so that the steps of two connections interleave.  The callbacks that are
  set are a set of names, and their calls a list of events.  JSON, the protobuf encoding and the clock are
  parameters; the outcome of a write on the socket is an argument of the step.
\<close>

section \<open>Messages\<close>

record RouterInfoResponse =
  rr_Router :: eui64
  rr_Muxs :: eui64
  rr_URI :: string
  rr_Error :: string

record TimeSyncResponse =
  ts_TxTime :: int
  ts_GPSTime :: int

record TimeSyncGPSTimeTransfer =
  tg_XTime :: u64
  tg_GPSTime :: int

record Version =
  ve_Station :: string
  ve_Firmware :: string
  ve_Package :: string
  ve_Model :: string
  ve_Protocol :: int

datatype station_out =
    OutRouterInfo RouterInfoResponse
  | OutRouterConfig StationRouterConfig
  | OutDownlink StationDownlink
  | OutTimeSync TimeSyncResponse
  | OutGPSTimeTransfer TimeSyncGPSTimeTransfer

text \<open>\<^verbatim>\<open>encoding/json\<close> on these messages: it calls the given function on the text of an \<^verbatim>\<open>EUI64\<close>.\<close>

record station_json =
  sj_MessageType :: "bytes \<Rightarrow> string result"
  sj_Version :: "bytes \<Rightarrow> Version result"
  sj_UplinkDataFrame :: "bytes \<Rightarrow> UplinkDataFrameMsg result"
  sj_JoinRequest :: "(string \<Rightarrow> eui64 result go) \<Rightarrow> bytes \<Rightarrow> JoinRequestMsg result go"
  sj_UplinkProprietaryFrame :: "bytes \<Rightarrow> UplinkProprietaryMsg result"
  sj_DownlinkTransmitted :: "bytes \<Rightarrow> u32 result"
  sj_TimeSyncRequest :: "bytes \<Rightarrow> int result"
  sj_RouterInfoRequest :: "(string \<Rightarrow> eui64 result go) \<Rightarrow> bytes \<Rightarrow> eui64 result go"
  sj_Marshal :: "station_out \<Rightarrow> bytes result"

definition GetMessageType :: "station_json \<Rightarrow> bytes \<Rightarrow> string result" where
  "GetMessageType J b =
     (case sj_MessageType J b of Inl err \<Rightarrow> Inl (Errorf ''unmarshal message-type error'') | Inr t \<Rightarrow> Inr t)"

abbreviation "VersionMessage \<equiv> ''version''"
abbreviation "JoinRequestMessage \<equiv> ''jreq''"
abbreviation "UplinkDataFrameMessage \<equiv> ''updf''"
abbreviation "ProprietaryDataFrameMessage \<equiv> ''propdf''"
abbreviation "DownlinkTransmittedMessage \<equiv> ''dntxed''"
abbreviation "TimeSyncMessage \<equiv> ''timesync''"

section \<open>State\<close>

datatype ws_frame = TextFrame bytes | BinaryFrame bytes | PingFrame

text \<open>Where the goroutine of a connection is: before the registry was looked up, between looking it up and
  entering it, in its loop, blocked for good, or at its end.\<close>

datatype conn_stage = Accepted | Checked | Registered | Stuck | Finished

text \<open>\<open>kn_peer\<close> is the \<^verbatim>\<open>CommonName\<close> of the client certificate, if there is one.\<close>

record connection =
  kn_stage :: conn_stage
  kn_gateway :: "eui64 option"
  kn_peer :: "string option"
  kn_open :: bool
  kn_stats :: Collector
  kn_lastTimesync :: time
  kn_sent :: "ws_frame list"

datatype callback =
    DownlinkTxAckFunc | UplinkFrameFunc | GatewayStatsFunc | RawPacketForwarderEventFunc | SubscribeEventFunc

record station_backend =
  st_caCert :: string
  st_tlsCert :: string
  st_tlsKey :: string
  st_scheme :: string
  st_isClosed :: bool
  st_statsInterval :: duration
  st_pingInterval :: duration
  st_timesyncInterval :: duration
  st_band :: band
  st_routerConfig :: StationRouterConfig
  st_gateways :: "eui64 \<rightharpoonup> nat"
  st_conns :: "nat \<rightharpoonup> connection"
  st_diidCache :: "u32 \<rightharpoonup> downlink_frame \<times> time"
  st_funcs :: "callback set"
  st_events :: "backend_event list"

record station_env =
  sn_L :: lorawan_lib
  sn_G :: gps_lib
  sn_P :: proto_lib
  sn_J :: station_json
  sn_spare :: "bytes \<Rightarrow> bytes"

text \<open>What the world answers during a step: the readings of the clock in their order, a random number, and the
  outcome of writing to the socket.\<close>

record station_io =
  io_now :: time
  io_mark :: time
  io_gps :: time
  io_rand :: u32
  io_write :: "unit result"

section \<open>Starting and stopping\<close>

fun parse_netids :: "(string \<Rightarrow> netid result) \<Rightarrow> string list \<Rightarrow> netid list result" where
  "parse_netids un [] = Inr []"
| "parse_netids un (n # ns) =
     (case un n of
        Inl err \<Rightarrow> Inl (Errorf ''unmarshal netid error'')
      | Inr netID \<Rightarrow> map_sum (\<lambda>e. e) (\<lambda>rest. netID # rest) (parse_netids un ns))"

fun parse_joineuis :: "lorawan_lib \<Rightarrow> (string \<times> string) list \<Rightarrow> (eui64 \<times> eui64) list result" where
  "parse_joineuis L [] = Inr []"
| "parse_joineuis L ((lo, hi) # sets) =
     (case (eui_UnmarshalText L lo, eui_UnmarshalText L hi) of
        (Inr a, Inr b) \<Rightarrow> map_sum (\<lambda>e. e) (\<lambda>rest. (a, b) # rest) (parse_joineuis L sets)
      | _ \<Rightarrow> Inl (Errorf ''unmarshal joineui error''))"

text \<open>The arguments after the settings of the filters are \<^verbatim>\<open>band.GetConfig\<close>, the sort of the
  channels, \<^verbatim>\<open>net.Listen\<close>, and reading the file of the CA certificate.\<close>

definition station_NewBackend ::
  "lorawan_lib \<Rightarrow> (string \<Rightarrow> netid result) \<Rightarrow> string list \<Rightarrow> (string \<times> string) list \<Rightarrow> (string \<Rightarrow> band result) \<Rightarrow>
   (channel_configuration list \<Rightarrow> channel_configuration list) \<Rightarrow> (string \<Rightarrow> unit result) \<Rightarrow> (string \<Rightarrow> unit result) \<Rightarrow>
   chirp_station \<Rightarrow> station_backend result" where
  "station_NewBackend L un netIDs joinEUIs GetConfig srt listen readFile conf =
     (case parse_netids un netIDs of
        Inl err \<Rightarrow> Inl err
      | Inr nets \<Rightarrow>
          (case parse_joineuis L joinEUIs of
             Inl err \<Rightarrow> Inl err
           | Inr joins \<Rightarrow>
               (case GetConfig (cs_Region conf) of
                  Inl err \<Rightarrow> Inl (Errorf ''get band config error'')
                | Inr b \<Rightarrow>
                    (case GetRouterConfig GetConfig srt (cs_Region conf) nets joins (cs_FrequencyMin conf) (cs_FrequencyMax conf)
                            (cs_Concentrators conf) of
                       Inl err \<Rightarrow> Inl (Errorf ''get router config error'')
                     | Inr rc \<Rightarrow>
                         if isl (listen (cs_Bind conf)) then Inl (Errorf ''create listener error'')
                         else if cs_CACert conf \<noteq> [] \<and> isl (readFile (cs_CACert conf)) then Inl (Errorf ''read ca cert error'')
                         else Inr \<lparr>st_caCert = cs_CACert conf, st_tlsCert = cs_TLSCert conf, st_tlsKey = cs_TLSKey conf,
                           st_scheme = ''ws'', st_isClosed = False, st_statsInterval = cs_StatsInterval conf,
                           st_pingInterval = cs_PingInterval conf, st_timesyncInterval = cs_TimesyncInterval conf, st_band = b,
                           st_routerConfig = rc, st_gateways = Map.empty, st_conns = Map.empty, st_diidCache = Map.empty,
                           st_funcs = {}, st_events = []\<rparr>))))"

definition SetFunc :: "callback \<Rightarrow> station_backend \<Rightarrow> station_backend" where
  "SetFunc f b = b\<lparr>st_funcs := insert f (st_funcs b)\<rparr>"

definition station_Start :: "station_backend \<Rightarrow> station_backend" where
  "station_Start b =
     (if st_tlsCert b = [] \<and> st_tlsKey b = [] \<and> st_caCert b = [] then b else b\<lparr>st_scheme := ''wss''\<rparr>)"

text \<open>The goroutine of \<^verbatim>\<open>Start\<close> when \<^verbatim>\<open>Serve\<close> has returned with the given result.\<close>

definition station_served :: "unit result \<Rightarrow> station_backend \<Rightarrow> unit go" where
  "station_served r b = (if isl r \<and> \<not> st_isClosed b then Panic else Ret ())"

definition station_Stop :: "unit result \<Rightarrow> station_backend \<Rightarrow> unit result \<times> station_backend" where
  "station_Stop close b = (close, b\<lparr>st_isClosed := True\<rparr>)"

section \<open>Connections and the registry\<close>

definition call :: "callback \<Rightarrow> backend_event \<Rightarrow> station_backend \<Rightarrow> station_backend" where
  "call f e b = (if f \<in> st_funcs b then b\<lparr>st_events := st_events b @ [e]\<rparr> else b)"

definition upd_conn :: "nat \<Rightarrow> (connection \<Rightarrow> connection) \<Rightarrow> station_backend \<Rightarrow> station_backend" where
  "upd_conn c f b = b\<lparr>st_conns := (st_conns b)(c := map_option f (st_conns b c))\<rparr>"

definition station_get :: "eui64 \<Rightarrow> station_backend \<Rightarrow> nat result" where
  "station_get g b = (case st_gateways b g of None \<Rightarrow> Inl (Errorf ''gateway does not exist'') | Some c \<Rightarrow> Inr c)"

definition station_set :: "eui64 \<Rightarrow> nat \<Rightarrow> station_backend \<Rightarrow> station_backend" where
  "station_set g c b = call SubscribeEventFunc (EvSubscribe g True) (b\<lparr>st_gateways := (st_gateways b)(g \<mapsto> c)\<rparr>)"

definition getLastTimesync :: "eui64 \<Rightarrow> station_backend \<Rightarrow> time result" where
  "getLastTimesync g b =
     (case st_gateways b g of
        None \<Rightarrow> Inl (Errorf ''gateway does not exist'')
      | Some c \<Rightarrow> (case st_conns b c of None \<Rightarrow> Inl (Errorf ''gateway does not exist'') | Some k \<Rightarrow> Inr (kn_lastTimesync k)))"

definition setLastTimesync :: "eui64 \<Rightarrow> time \<Rightarrow> station_backend \<Rightarrow> station_backend result" where
  "setLastTimesync g ts b =
     (case st_gateways b g of
        None \<Rightarrow> Inl (Errorf ''gateway does not exist'')
      | Some c \<Rightarrow> Inr (upd_conn c (\<lambda>k. k\<lparr>kn_lastTimesync := ts\<rparr>) b))"

definition station_remove :: "eui64 \<Rightarrow> station_backend \<Rightarrow> station_backend" where
  "station_remove g b =
     (let b = call SubscribeEventFunc (EvSubscribe g False) b in b\<lparr>st_gateways := (st_gateways b)(g := None)\<rparr>)"

text \<open>A write on a socket that was closed fails.\<close>

definition write_conn :: "unit result \<Rightarrow> nat \<Rightarrow> ws_frame \<Rightarrow> station_backend \<Rightarrow> unit result \<times> station_backend" where
  "write_conn w c fr b =
     (case st_conns b c of
        None \<Rightarrow> (Inl (Errorf ''send message to gateway error''), b)
      | Some k \<Rightarrow>
          if \<not> kn_open k \<or> isl w then (Inl (Errorf ''send message to gateway error''), b)
          else (Inr (), upd_conn c (\<lambda>k. k\<lparr>kn_sent := kn_sent k @ [fr]\<rparr>) b))"

definition sendToGateway ::
  "station_env \<Rightarrow> unit result \<Rightarrow> eui64 \<Rightarrow> station_out \<Rightarrow> station_backend \<Rightarrow> unit result \<times> station_backend" where
  "sendToGateway V w g v b =
     (case station_get g b of
        Inl err \<Rightarrow> (Inl (Errorf ''get gateway error''), b)
      | Inr c \<Rightarrow>
          (case sj_Marshal (sn_J V) v of
             Inl err \<Rightarrow> (Inl (Errorf ''marshal json error''), b)
           | Inr bb \<Rightarrow> write_conn w c (TextFrame bb) b))"

definition sendRawToGateway :: "unit result \<Rightarrow> eui64 \<Rightarrow> ws_frame \<Rightarrow> station_backend \<Rightarrow> unit result \<times> station_backend" where
  "sendRawToGateway w g fr b =
     (case station_get g b of
        Inl err \<Rightarrow> (Inl (Errorf ''get gateway error''), b)
      | Inr c \<Rightarrow> write_conn w c fr b)"

section \<open>Downlinks and commands\<close>

definition diid_Get :: "time \<Rightarrow> u32 \<Rightarrow> station_backend \<Rightarrow> downlink_frame option" where
  "diid_Get now diid b =
     (case st_diidCache b diid of None \<Rightarrow> None | Some (df, expires) \<Rightarrow> if now > expires then None else Some df)"

definition diid_SetDefault :: "time \<Rightarrow> u32 \<Rightarrow> downlink_frame \<Rightarrow> station_backend \<Rightarrow> station_backend" where
  "diid_SetDefault now diid df b = b\<lparr>st_diidCache := (st_diidCache b)(diid \<mapsto> (df, now + minute))\<rparr>"

definition station_SendDownlinkFrame ::
  "station_env \<Rightarrow> station_io \<Rightarrow> downlink_frame \<Rightarrow> station_backend \<Rightarrow> (unit result \<times> station_backend) go" where
  "station_SendDownlinkFrame V io df b =
     go_bind (DownlinkFrameFromProto (sn_spare V) (st_band b) df) (\<lambda>r.
       case r of
         Inl err \<Rightarrow> Ret (Inl (Errorf ''downlink frame from proto error''), b)
       | Inr pl \<Rightarrow>
           (case eui_UnmarshalText (sn_L V) (df_GatewayId df) of
              Inl err \<Rightarrow> Ret (Inl (Errorf ''decode gateway id error''), b)
            | Inr g \<Rightarrow>
                (case sendToGateway V (io_write io) g (OutDownlink pl) (diid_SetDefault (io_now io) (df_DownlinkId df) df b) of
                   (Inl err, b) \<Rightarrow> Ret (Inl (Errorf ''send to gateway error''), b)
                 | (Inr _, b) \<Rightarrow> Ret (Inr (), b))))"

text \<open>A payload that starts with a brace is sent as text.\<close>

definition RawPacketForwarderCommand ::
  "station_env \<Rightarrow> station_io \<Rightarrow> string \<Rightarrow> bytes \<Rightarrow> station_backend \<Rightarrow> unit result \<times> station_backend" where
  "RawPacketForwarderCommand V io gatewayId payload b =
     (case eui_UnmarshalText (sn_L V) gatewayId of
        Inl err \<Rightarrow> (Inl (Errorf ''decode gateway id error''), b)
      | Inr g \<Rightarrow>
          (case payload of
             [] \<Rightarrow> (Inl (Errorf ''raw packet-forwarder command payload is empty''), b)
           | x # _ \<Rightarrow>
               (case sendRawToGateway (io_write io) g (if x = 123 then TextFrame payload else BinaryFrame payload) b of
                  (Inl err, b) \<Rightarrow> (Inl (Errorf ''send raw packet-forwarder command to gateway error''), b)
                | (Inr _, b) \<Rightarrow> (Inr (), b))))"

section \<open>Messages of a station\<close>

definition peer_matches :: "lorawan_lib \<Rightarrow> string option \<Rightarrow> eui64 \<Rightarrow> bool" where
  "peer_matches L peer g = (case peer of None \<Rightarrow> True | Some cn \<Rightarrow> eui_UnmarshalText L cn = Inr g)"

definition router_info_response :: "lorawan_lib \<Rightarrow> string \<Rightarrow> string \<Rightarrow> string option \<Rightarrow> eui64 \<Rightarrow> RouterInfoResponse" where
  "router_info_response L scheme host peer router =
     (let uri = scheme @ ''://'' @ host @ ''/gateway/'' @ eui_String L router
      in if peer_matches L peer router then \<lparr>rr_Router = router, rr_Muxs = router, rr_URI = uri, rr_Error = []\<rparr>
         else \<lparr>rr_Router = router, rr_Muxs = router, rr_URI = [],
               rr_Error = ''certificate CommonName '' @ the peer @ '' does not match router '' @ eui_String L router\<rparr>)"

definition handleRouterInfo ::
  "station_env \<Rightarrow> station_io \<Rightarrow> string \<Rightarrow> nat \<Rightarrow> bytes \<Rightarrow> station_backend \<Rightarrow> station_backend go" where
  "handleRouterInfo V io host c msg b =
     go_bind (sj_RouterInfoRequest (sn_J V) (station_UnmarshalText (sn_L V)) msg) (\<lambda>r.
       case (r, st_conns b c) of
         (Inr router, Some k) \<Rightarrow>
           (case sj_Marshal (sn_J V) (OutRouterInfo (router_info_response (sn_L V) (st_scheme b) host (kn_peer k) router)) of
              Inl err \<Rightarrow> Ret b
            | Inr bb \<Rightarrow> Ret (snd (write_conn (io_write io) c (TextFrame bb) b)))
       | _ \<Rightarrow> Ret b)"

definition handleVersion :: "station_env \<Rightarrow> station_io \<Rightarrow> eui64 \<Rightarrow> station_backend \<Rightarrow> station_backend" where
  "handleVersion V io g b = snd (sendToGateway V (io_write io) g (OutRouterConfig (st_routerConfig b)) b)"

text \<open>A change of the statistics of the connection that the registry has for a gateway.\<close>

definition count_on :: "eui64 \<Rightarrow> (Collector \<Rightarrow> Collector go) \<Rightarrow> station_backend \<Rightarrow> station_backend go" where
  "count_on g f b =
     (case station_get g b of
        Inl err \<Rightarrow> Ret b
      | Inr c \<Rightarrow>
          go_bind (deref (st_conns b c)) (\<lambda>k. go_bind (f (kn_stats k)) (\<lambda>s.
            Ret (upd_conn c (\<lambda>k. k\<lparr>kn_stats := s\<rparr>) b))))"

text \<open>What the three handlers of uplinks do with the converted frame.\<close>

definition publish_uplink ::
  "station_env \<Rightarrow> station_io \<Rightarrow> eui64 \<Rightarrow> uplink_frame result \<Rightarrow> station_backend \<Rightarrow> station_backend go" where
  "publish_uplink V io g r b =
     (case r of
        Inl err \<Rightarrow> Ret b
      | Inr uf \<Rightarrow>
          go_bind (deref (uf_RxInfo uf)) (\<lambda>ri.
            let uf = uf\<lparr>uf_RxInfo := Some (ri\<lparr>ri_UplinkId := io_rand io\<rparr>)\<rparr>
            in go_bind (count_on g (CountUplink (sn_P V) uf) b) (\<lambda>b. Ret (call UplinkFrameFunc (EvUplink uf) b))))"

definition handleJoinRequest ::
  "station_env \<Rightarrow> station_io \<Rightarrow> eui64 \<Rightarrow> JoinRequestMsg \<Rightarrow> station_backend \<Rightarrow> station_backend go" where
  "handleJoinRequest V io g v b = publish_uplink V io g (JoinRequestToProto (sn_L V) (sn_G V) (st_band b) g v) b"

definition handleProprietaryDataFrame ::
  "station_env \<Rightarrow> station_io \<Rightarrow> eui64 \<Rightarrow> UplinkProprietaryMsg \<Rightarrow> station_backend \<Rightarrow> station_backend go" where
  "handleProprietaryDataFrame V io g v b =
     publish_uplink V io g (UplinkProprietaryFrameToProto (sn_L V) (sn_G V) (st_band b) g v) b"

definition handleUplinkDataFrame ::
  "station_env \<Rightarrow> station_io \<Rightarrow> eui64 \<Rightarrow> UplinkDataFrameMsg \<Rightarrow> station_backend \<Rightarrow> station_backend go" where
  "handleUplinkDataFrame V io g v b = publish_uplink V io g (UplinkDataFrameToProto (sn_L V) (sn_G V) (st_band b) g v) b"

definition handleDownlinkTransmittedMessage ::
  "station_env \<Rightarrow> station_io \<Rightarrow> eui64 \<Rightarrow> u32 \<Rightarrow> station_backend \<Rightarrow> station_backend go" where
  "handleDownlinkTransmittedMessage V io g diid b =
     (let txack = DownlinkTransmittedToProto (sn_L V) g diid
      in case diid_Get (io_now io) diid b of
           None \<Rightarrow> Ret (call DownlinkTxAckFunc (EvAck txack) b)
         | Some pl \<Rightarrow>
             let txack = txack\<lparr>da_DownlinkId := df_DownlinkId pl\<rparr>
             in go_bind (count_on g (CountDownlink (sn_P V) pl (da_Items txack)) b) (\<lambda>b.
                  Ret (call DownlinkTxAckFunc (EvAck txack) b)))"

definition handleRawPacketForwarderEvent :: "station_env \<Rightarrow> eui64 \<Rightarrow> bytes \<Rightarrow> station_backend \<Rightarrow> station_backend" where
  "handleRawPacketForwarderEvent V g pl b = call RawPacketForwarderEventFunc (EvRaw (eui_String (sn_L V) g) pl) b"

definition gps_micros :: "station_env \<Rightarrow> time \<Rightarrow> int" where
  "gps_micros V t = gps_SinceEpoch (sn_G V) t sdiv 1000"

definition handleTimeSync :: "station_env \<Rightarrow> station_io \<Rightarrow> eui64 \<Rightarrow> int \<Rightarrow> station_backend \<Rightarrow> station_backend" where
  "handleTimeSync V io g txTime b =
     snd (sendToGateway V (io_write io) g (OutTimeSync \<lparr>ts_TxTime = txTime, ts_GPSTime = gps_micros V (io_gps io)\<rparr>) b)"

definition sendTimesyncRequest :: "station_env \<Rightarrow> station_io \<Rightarrow> eui64 \<Rightarrow> u64 \<Rightarrow> station_backend \<Rightarrow> station_backend" where
  "sendTimesyncRequest V io g xtime b =
     (if st_timesyncInterval b = 0 then b
      else case getLastTimesync g b of
             Inl err \<Rightarrow> b
           | Inr lastTimesync \<Rightarrow>
               if lastTimesync + st_timesyncInterval b > io_now io then b
               else (case setLastTimesync g (io_mark io) b of
                       Inl err \<Rightarrow> b
                     | Inr b \<Rightarrow> snd (sendToGateway V (io_write io) g
                         (OutGPSTimeTransfer \<lparr>tg_XTime = xtime, tg_GPSTime = gps_micros V (io_gps io)\<rparr>) b)))"

text \<open>The body of the receive loop: an error of the message is logged.\<close>

definition handle_message ::
  "station_env \<Rightarrow> station_io \<Rightarrow> eui64 \<Rightarrow> bool \<Rightarrow> bytes \<Rightarrow> station_backend \<Rightarrow> station_backend go" where
  "handle_message V io g binary msg b =
     (if binary then Ret (handleRawPacketForwarderEvent V g msg b)
      else case GetMessageType (sn_J V) msg of
        Inl err \<Rightarrow> Ret b
      | Inr t \<Rightarrow>
          if t = VersionMessage
          then (case sj_Version (sn_J V) msg of Inl err \<Rightarrow> Ret b | Inr pl \<Rightarrow> Ret (handleVersion V io g b))
          else if t = UplinkDataFrameMessage
          then (case sj_UplinkDataFrame (sn_J V) msg of
                  Inl err \<Rightarrow> Ret b
                | Inr pl \<Rightarrow> go_bind (handleUplinkDataFrame V io g pl b) (\<lambda>b.
                    Ret (sendTimesyncRequest V io g (rm_XTime (ud_Meta pl)) b)))
          else if t = JoinRequestMessage
          then go_bind (sj_JoinRequest (sn_J V) (station_UnmarshalText (sn_L V)) msg) (\<lambda>r.
                 case r of
                   Inl err \<Rightarrow> Ret b
                 | Inr pl \<Rightarrow> go_bind (handleJoinRequest V io g pl b) (\<lambda>b.
                     Ret (sendTimesyncRequest V io g (rm_XTime (jr_Meta pl)) b)))
          else if t = ProprietaryDataFrameMessage
          then (case sj_UplinkProprietaryFrame (sn_J V) msg of
                  Inl err \<Rightarrow> Ret b
                | Inr pl \<Rightarrow> go_bind (handleProprietaryDataFrame V io g pl b) (\<lambda>b.
                    Ret (sendTimesyncRequest V io g (rm_XTime (up_Meta pl)) b)))
          else if t = DownlinkTransmittedMessage
          then (case sj_DownlinkTransmitted (sn_J V) msg of
                  Inl err \<Rightarrow> Ret b | Inr diid \<Rightarrow> handleDownlinkTransmittedMessage V io g diid b)
          else if t = TimeSyncMessage
          then (case sj_TimeSyncRequest (sn_J V) msg of Inl err \<Rightarrow> Ret b | Inr txTime \<Rightarrow> Ret (handleTimeSync V io g txTime b))
          else Ret (handleRawPacketForwarderEvent V g msg b))"

section \<open>The life of a connection\<close>

definition new_connection :: "string option \<Rightarrow> connection" where
  "new_connection peer =
     \<lparr>kn_stage = Accepted, kn_gateway = None, kn_peer = peer, kn_open = True, kn_stats = NewCollector,
      kn_lastTimesync = zero_time, kn_sent = []\<rparr>"

definition finish_conn :: "nat \<Rightarrow> station_backend \<Rightarrow> station_backend" where
  "finish_conn c b = upd_conn c (\<lambda>k. k\<lparr>kn_stage := Finished, kn_open := False\<rparr>) b"

text \<open>The upgraded connection; the ticker of pings panics on an interval that is not positive.\<close>

definition websocketWrap :: "string option \<Rightarrow> nat \<Rightarrow> station_backend \<Rightarrow> station_backend" where
  "websocketWrap peer c b =
     (let b' = b\<lparr>st_conns := (st_conns b)(c \<mapsto> new_connection peer)\<rparr>
      in if st_pingInterval b \<le> 0 then finish_conn c b' else b')"

definition send_ping :: "unit result \<Rightarrow> nat \<Rightarrow> station_backend \<Rightarrow> station_backend" where
  "send_ping w c b =
     (case write_conn w c PingFrame b of
        (Inl err, b) \<Rightarrow> upd_conn c (\<lambda>k. k\<lparr>kn_open := False\<rparr>) b
      | (Inr _, b) \<Rightarrow> b)"

definition router_info_conn ::
  "station_env \<Rightarrow> station_io \<Rightarrow> string \<Rightarrow> nat \<Rightarrow> bytes \<Rightarrow> station_backend \<Rightarrow> station_backend" where
  "router_info_conn V io host c msg b =
     (case handleRouterInfo V io host c msg b of Ret b' \<Rightarrow> finish_conn c b' | Panic \<Rightarrow> finish_conn c b)"

text \<open>The first part of \<^verbatim>\<open>handleGateway\<close>, up to the lookup in the registry.\<close>

definition gateway_check :: "station_env \<Rightarrow> string \<Rightarrow> nat \<Rightarrow> connection \<Rightarrow> station_backend \<Rightarrow> station_backend" where
  "gateway_check V path c k b =
     (let urlParts = split_at CHR ''/'' path
      in if length urlParts < 2 then finish_conn c b
         else case eui_UnmarshalText (sn_L V) (last urlParts) of
                Inl err \<Rightarrow> finish_conn c b
              | Inr g \<Rightarrow>
                  if \<not> peer_matches (sn_L V) (kn_peer k) g then finish_conn c b
                  else (case station_get g b of
                          Inr _ \<Rightarrow> finish_conn c b
                        | Inl err \<Rightarrow> upd_conn c (\<lambda>k. k\<lparr>kn_stage := Checked, kn_gateway := Some g\<rparr>) b))"

text \<open>The gateway is entered; on an interval that is not positive the ticker of statistics panics, and the
  deferred function waits for a goroutine that was never started.\<close>

definition gateway_register :: "eui64 \<Rightarrow> nat \<Rightarrow> station_backend \<Rightarrow> station_backend" where
  "gateway_register g c b =
     upd_conn c (\<lambda>k. k\<lparr>kn_stage := if st_statsInterval b \<le> 0 then Stuck else Registered\<rparr>) (station_set g c b)"

definition gateway_close :: "eui64 \<Rightarrow> nat \<Rightarrow> station_backend \<Rightarrow> station_backend" where
  "gateway_close g c b = finish_conn c (station_remove g b)"

text \<open>A panic is caught by the HTTP server, after the deferred functions.\<close>

definition gateway_message ::
  "station_env \<Rightarrow> station_io \<Rightarrow> eui64 \<Rightarrow> nat \<Rightarrow> bool \<Rightarrow> bytes \<Rightarrow> station_backend \<Rightarrow> station_backend" where
  "gateway_message V io g c binary msg b =
     (case handle_message V io g binary msg b of Ret b' \<Rightarrow> b' | Panic \<Rightarrow> gateway_close g c b)"

definition stats_tick :: "station_env \<Rightarrow> time \<Rightarrow> string list \<Rightarrow> eui64 \<Rightarrow> nat \<Rightarrow> connection \<Rightarrow> station_backend \<Rightarrow> station_backend" where
  "stats_tick V now order g c k b =
     (case ExportStats (sn_P V) order (kn_stats k) of
        (s, stats) \<Rightarrow>
          call GatewayStatsFunc (EvStats (s\<lparr>gst_GatewayId := eui_String (sn_L V) g, gst_Time := Some now\<rparr>))
            (upd_conn c (\<lambda>k. k\<lparr>kn_stats := stats\<rparr>) b))"

section \<open>The backend as a step relation\<close>

inductive station_step :: "station_env \<Rightarrow> station_backend \<Rightarrow> station_backend \<Rightarrow> bool" for V where
  accept: "st_conns b c = None \<Longrightarrow> station_step V b (websocketWrap peer c b)"
| router_info: "st_conns b c = Some k \<Longrightarrow> kn_stage k = Accepted \<Longrightarrow> station_step V b (router_info_conn V io host c msg b)"
| check: "st_conns b c = Some k \<Longrightarrow> kn_stage k = Accepted \<Longrightarrow> station_step V b (gateway_check V path c k b)"
| register: "st_conns b c = Some k \<Longrightarrow> kn_stage k = Checked \<Longrightarrow> kn_gateway k = Some g \<Longrightarrow>
    station_step V b (gateway_register g c b)"
| message: "st_conns b c = Some k \<Longrightarrow> kn_stage k = Registered \<Longrightarrow> kn_gateway k = Some g \<Longrightarrow> kn_open k \<Longrightarrow>
    station_step V b (gateway_message V io g c binary msg b)"
| stats: "st_conns b c = Some k \<Longrightarrow> kn_stage k = Registered \<Longrightarrow> kn_gateway k = Some g \<Longrightarrow>
    station_step V b (stats_tick V now order g c k b)"
| close: "st_conns b c = Some k \<Longrightarrow> kn_stage k = Registered \<Longrightarrow> kn_gateway k = Some g \<Longrightarrow>
    station_step V b (gateway_close g c b)"
| ping: "st_conns b c = Some k \<Longrightarrow> kn_stage k \<noteq> Finished \<Longrightarrow> station_step V b (send_ping w c b)"
| downlink: "station_SendDownlinkFrame V io df b = Ret (r, b') \<Longrightarrow> station_step V b b'"
| command: "station_step V b (snd (RawPacketForwarderCommand V io gatewayId payload b))"
| start: "station_step V b (station_Start b)"
| stop: "station_step V b (snd (station_Stop r b))"

inductive station_steps :: "station_env \<Rightarrow> station_backend \<Rightarrow> station_backend \<Rightarrow> bool" for V where
  refl: "station_steps V b b"
| step: "station_steps V b b' \<Longrightarrow> station_step V b' b'' \<Longrightarrow> station_steps V b b''"

text \<open>The state the forwarder starts the backend in.\<close>

definition station_initial :: "station_backend \<Rightarrow> bool" where
  "station_initial b \<longleftrightarrow> st_gateways b = Map.empty \<and> st_conns b = Map.empty \<and> st_diidCache b = Map.empty \<and> st_events b = [] \<and>
     SubscribeEventFunc \<in> st_funcs b"

section \<open>Facts\<close>

lemma call_sel [simp]:
  "st_gateways (call f e b) = st_gateways b" "st_conns (call f e b) = st_conns b" "st_funcs (call f e b) = st_funcs b"
  "st_events (call f e b) = (if f \<in> st_funcs b then st_events b @ [e] else st_events b)" "st_band (call f e b) = st_band b"
  "st_statsInterval (call f e b) = st_statsInterval b" "st_timesyncInterval (call f e b) = st_timesyncInterval b"
  "st_diidCache (call f e b) = st_diidCache b"
  by (simp_all add: call_def)

lemma upd_conn_sel [simp]:
  "st_gateways (upd_conn c f b) = st_gateways b" "st_events (upd_conn c f b) = st_events b" "st_funcs (upd_conn c f b) = st_funcs b"
  "st_conns (upd_conn c f b) = (st_conns b)(c := map_option f (st_conns b c))" "st_band (upd_conn c f b) = st_band b"
  "st_statsInterval (upd_conn c f b) = st_statsInterval b" "st_timesyncInterval (upd_conn c f b) = st_timesyncInterval b"
  "st_diidCache (upd_conn c f b) = st_diidCache b"
  by (simp_all add: upd_conn_def)

lemma station_get_eq [simp]: "station_get g b = Inr c \<longleftrightarrow> st_gateways b g = Some c"
  by (simp add: station_get_def split: option.split)

lemma station_get_None [simp]: "st_gateways b g = None \<Longrightarrow> station_get g b = Inl (Errorf ''gateway does not exist'')"
  by (simp add: station_get_def)

text \<open>The gateway that an event names.\<close>

fun event_gateway :: "lorawan_lib \<Rightarrow> backend_event \<Rightarrow> string" where
  "event_gateway L (EvSubscribe g online) = eui_String L g"
| "event_gateway L (EvUplink uf) = frame_gateway_id uf"
| "event_gateway L (EvAck ack) = da_GatewayId ack"
| "event_gateway L (EvStats s) = gst_GatewayId s"
| "event_gateway L (EvRaw g pl) = g"

text \<open>What identifies a connection: its stage, its gateway and its certificate.\<close>

datatype key = Key (key_stage: conn_stage) (key_gateway: "eui64 option") (key_peer: "string option")

definition conn_key :: "connection \<Rightarrow> key" where
  "conn_key k = Key (kn_stage k) (kn_gateway k) (kn_peer k)"

definition keys :: "station_backend \<Rightarrow> nat \<rightharpoonup> key" where
  "keys b = (\<lambda>c. map_option conn_key (st_conns b c))"

text \<open>A change that leaves the registry and the stages alone and only reports events of gateway \<open>g\<close>.\<close>

definition quiet :: "lorawan_lib \<Rightarrow> eui64 \<Rightarrow> station_backend \<Rightarrow> station_backend \<Rightarrow> bool" where
  "quiet L g b b' \<longleftrightarrow> st_gateways b' = st_gateways b \<and> keys b' = keys b \<and> st_funcs b' = st_funcs b \<and>
     (\<exists>evs. st_events b' = st_events b @ evs \<and>
       (\<forall>e \<in> set evs. event_gateway L e = eui_String L g \<and> (\<forall>S. online_step e S = S)))"

lemma quiet_refl [simp]: "quiet L g b b"
  by (simp add: quiet_def)

lemma quiet_trans [trans]: "quiet L g b b' \<Longrightarrow> quiet L g b' b'' \<Longrightarrow> quiet L g b b''"
  unfolding quiet_def by (metis (no_types, lifting) Un_iff append.assoc set_append)

lemma quiet_call:
  assumes "event_gateway L e = eui_String L g" "\<And>S. online_step e S = S"
  shows "quiet L g b (call f e b)"
  using assms by (simp add: quiet_def keys_def)

lemma keys_upd_conn: "(\<And>k. conn_key (f k) = conn_key k) \<Longrightarrow> keys (upd_conn c f b) = keys b"
  by (auto simp: keys_def fun_eq_iff option.map_comp comp_def)

lemma quiet_upd_conn: "(\<And>k. conn_key (f k) = conn_key k) \<Longrightarrow> quiet L g b (upd_conn c f b)"
  by (simp add: quiet_def keys_upd_conn)

lemma quiet_write_conn: "quiet L g b (snd (write_conn w c fr b))"
  by (auto simp: write_conn_def split: option.split intro!: quiet_upd_conn simp: conn_key_def)

lemma write_conn_events [simp]: "st_events (snd (write_conn w c fr b)) = st_events b"
  by (simp add: write_conn_def split: option.split)

lemma quiet_sendToGateway: "quiet L g b (snd (sendToGateway V w g' v b))"
  by (simp add: sendToGateway_def quiet_write_conn split: sum.split)

lemma quiet_sendRawToGateway: "quiet L g b (snd (sendRawToGateway w g' fr b))"
  by (simp add: sendRawToGateway_def quiet_write_conn split: sum.split)

lemma quiet_diid: "quiet L g b (diid_SetDefault now d df b)"
  by (simp add: quiet_def keys_def diid_SetDefault_def)

lemma sent_events [simp]:
  "st_events (snd (sendToGateway V w g v b)) = st_events b" "st_events (diid_SetDefault now d df b) = st_events b"
  by (simp_all add: sendToGateway_def diid_SetDefault_def split: sum.split)

lemma send_downlink_cases:
  assumes "station_SendDownlinkFrame V io df b = Ret (r, b')"
  shows "b' = b \<or> (\<exists>g v. b' = snd (sendToGateway V (io_write io) g v (diid_SetDefault (io_now io) (df_DownlinkId df) df b)))"
proof -
  have "b' = b \<or> (\<exists>g v r2. sendToGateway V (io_write io) g v (diid_SetDefault (io_now io) (df_DownlinkId df) df b) = (r2, b'))"
    using assms unfolding station_SendDownlinkFrame_def go_bind_eq_Ret
    by (elim exE conjE) (simp split: sum.split_asm prod.split_asm, blast+)
  then show ?thesis by (metis snd_conv)
qed

lemma quiet_send_downlink:
  assumes "station_SendDownlinkFrame V io df b = Ret (r, b')"
  shows "quiet L g b b'" "st_events b' = st_events b"
  using send_downlink_cases[OF assms] quiet_trans[OF quiet_diid quiet_sendToGateway] by auto

lemma quiet_command: "quiet L g b (snd (RawPacketForwarderCommand V io gid payload b))"
proof -
  have "quiet L g b b'" if "sendRawToGateway w g' fr b = (r, b')" for w g' fr r b'
    using quiet_sendRawToGateway[of L g b w g' fr] that by simp
  then show ?thesis by (auto simp: RawPacketForwarderCommand_def split: sum.split list.split prod.split)
qed

lemma quiet_count_on:
  assumes "count_on g' f b = Ret b'"
  shows "quiet L g b b'"
proof (cases "st_gateways b g'")
  case None
  then show ?thesis using assms by (simp add: count_on_def)
next
  case (Some c)
  then show ?thesis
    using assms by (auto simp: count_on_def station_get_def go_bind_eq_Ret conn_key_def intro!: quiet_upd_conn)
qed

lemma quiet_publish_uplink:
  assumes "publish_uplink V io g r b = Ret b'" "\<And>uf. r = Inr uf \<Longrightarrow> frame_gateway_id uf = eui_String (sn_L V) g"
  shows "quiet (sn_L V) g b b'"
proof (cases r)
  case (Inl e)
  then show ?thesis using assms(1) by (simp add: publish_uplink_def)
next
  case (Inr uf)
  then obtain ri b1 where ri: "uf_RxInfo uf = Some ri"
    and b1: "count_on g (CountUplink (sn_P V) (uf\<lparr>uf_RxInfo := Some (ri\<lparr>ri_UplinkId := io_rand io\<rparr>)\<rparr>)) b = Ret b1"
    and b': "b' = call UplinkFrameFunc (EvUplink (uf\<lparr>uf_RxInfo := Some (ri\<lparr>ri_UplinkId := io_rand io\<rparr>)\<rparr>)) b1"
    using assms(1) by (auto simp: publish_uplink_def go_bind_eq_Ret Let_def)
  have "ri_GatewayId ri = eui_String (sn_L V) g" using assms(2)[OF Inr] ri by (simp add: frame_gateway_id_def)
  with quiet_trans[OF quiet_count_on[OF b1] quiet_call] show ?thesis unfolding b' by (simp add: frame_gateway_id_def)
qed

lemma meta_gateway_id:
  "SetRadioMetaDataToProto L G b g rmd = Inr uf \<Longrightarrow> frame_gateway_id uf = eui_String L g"
  by (auto simp: SetRadioMetaDataToProto_def frame_gateway_id_def split: sum.splits)

lemma frame_gateway_id_add [simp]: "frame_gateway_id (add_payload bs uf) = frame_gateway_id uf"
  by (simp add: add_payload_def frame_gateway_id_def)

lemma converted_gateway_id:
  "JoinRequestToProto L G b g jr = Inr uf \<Longrightarrow> frame_gateway_id uf = eui_String L g"
  "UplinkProprietaryFrameToProto L G b g up = Inr uf \<Longrightarrow> frame_gateway_id uf = eui_String L g"
  "UplinkDataFrameToProto L G b g ud = Inr uf \<Longrightarrow> frame_gateway_id uf = eui_String L g"
  by (auto simp: JoinRequestToProto_def UplinkProprietaryFrameToProto_def UplinkDataFrameToProto_def
      dest: meta_gateway_id split: sum.splits option.splits)

lemma quiet_timesync: "quiet L g b (sendTimesyncRequest V io g' xt b)"
proof -
  have "quiet L g b b'" if "setLastTimesync g' t b = Inr b'" for t b'
    using that by (auto simp: setLastTimesync_def conn_key_def split: option.splits intro!: quiet_upd_conn)
  then show ?thesis
    by (auto simp: sendTimesyncRequest_def split: sum.split intro: quiet_trans[OF _ quiet_sendToGateway])
qed

lemma quiet_transmitted:
  assumes "handleDownlinkTransmittedMessage V io g diid b = Ret b'"
  shows "quiet (sn_L V) g b b'"
proof (cases "diid_Get (io_now io) diid b")
  case None
  then show ?thesis
    using assms by (auto simp: handleDownlinkTransmittedMessage_def DownlinkTransmittedToProto_def intro!: quiet_call)
next
  case (Some pl)
  with assms show ?thesis
    by (auto simp: handleDownlinkTransmittedMessage_def DownlinkTransmittedToProto_def go_bind_eq_Ret Let_def
        intro: quiet_trans[OF quiet_count_on quiet_call])
qed

lemma quiet_message:
  assumes "handle_message V io g binary msg b = Ret b'"
  shows "quiet (sn_L V) g b b'"
proof -
  have raw: "quiet (sn_L V) g b (handleRawPacketForwarderEvent V g msg b)"
    by (simp add: handleRawPacketForwarderEvent_def quiet_call)
  have sent: "quiet (sn_L V) g b (handleVersion V io g b)" "quiet (sn_L V) g b (handleTimeSync V io g t b)" for t
    by (simp_all add: handleVersion_def handleTimeSync_def quiet_sendToGateway)
  have up: "quiet (sn_L V) g b (sendTimesyncRequest V io g xt b1)" if "publish_uplink V io g r b = Ret b1"
    "\<And>uf. r = Inr uf \<Longrightarrow> frame_gateway_id uf = eui_String (sn_L V) g" for r b1 xt
    using quiet_trans[OF quiet_publish_uplink[OF that] quiet_timesync] .
  note uplinks = up[OF _ converted_gateway_id(1)] up[OF _ converted_gateway_id(2)] up[OF _ converted_gateway_id(3)]
  show ?thesis
    using assms raw sent quiet_transmitted[of V io g _ b b']
    unfolding handle_message_def handleUplinkDataFrame_def handleJoinRequest_def handleProprietaryDataFrame_def
    apply (auto simp: go_bind_eq_Ret split: if_splits sum.split_asm intro: uplinks)
    subgoal for r by (cases r) (auto intro: uplinks)
    done
qed

section \<open>Invariants\<close>

text \<open>The gateways reported online are those of the registry, each entry is a connection that was entered
  for this gateway, a certificate names the gateway of its connection, and an event names the gateway of some connection.\<close>

definition registered_key :: "eui64 \<Rightarrow> key \<Rightarrow> bool" where
  "registered_key g key \<longleftrightarrow> (key_stage key = Registered \<or> key_stage key = Stuck) \<and> key_gateway key = Some g"

definition key_ok :: "lorawan_lib \<Rightarrow> key \<Rightarrow> bool" where
  "key_ok L key \<longleftrightarrow> (\<forall>g. key_gateway key = Some g \<longrightarrow> key_stage key \<noteq> Accepted \<and> peer_matches L (key_peer key) g)"

definition knows :: "station_backend \<Rightarrow> eui64 \<Rightarrow> bool" where
  "knows b g \<longleftrightarrow> (\<exists>c key. keys b c = Some key \<and> key_gateway key = Some g)"

definition station_inv :: "lorawan_lib \<Rightarrow> station_backend \<Rightarrow> bool" where
  "station_inv L b \<longleftrightarrow>
     online_of (st_events b) = dom (st_gateways b) \<and>
     (\<forall>g c. st_gateways b g = Some c \<longrightarrow> (\<exists>key. keys b c = Some key \<and> registered_key g key)) \<and>
     (\<forall>c key. keys b c = Some key \<longrightarrow> key_ok L key) \<and>
     (\<forall>e \<in> set (st_events b). \<exists>g. knows b g \<and> event_gateway L e = eui_String L g) \<and>
     SubscribeEventFunc \<in> st_funcs b"

lemma online_of_quiet: "\<forall>e \<in> set evs. \<forall>S. online_step e S = S \<Longrightarrow> online_of (es @ evs) = online_of es"
proof (induction evs rule: rev_induct)
  case (snoc e evs)
  then show ?case by (simp flip: append_assoc)
qed simp

lemma station_inv_quiet:
  assumes "station_inv L b" "quiet L g b b'" "knows b g"
  shows "station_inv L b'"
proof -
  from assms(2) obtain evs where evs: "st_events b' = st_events b @ evs"
    "\<forall>e \<in> set evs. event_gateway L e = eui_String L g \<and> (\<forall>S. online_step e S = S)"
    and same: "st_gateways b' = st_gateways b" "keys b' = keys b" "st_funcs b' = st_funcs b" by (auto simp: quiet_def)
  have "online_of (st_events b') = online_of (st_events b)" unfolding evs(1) by (rule online_of_quiet) (use evs(2) in blast)
  moreover have "\<forall>e \<in> set (st_events b'). \<exists>g. knows b g \<and> event_gateway L e = eui_String L g"
    using assms(1,3) evs(2) by (auto simp: evs(1) station_inv_def)
  moreover have "knows b' = knows b" by (simp add: knows_def fun_eq_iff same(2))
  ultimately show ?thesis using assms(1) same by (simp add: station_inv_def)
qed

text \<open>A step without events.\<close>

lemma station_inv_silent:
  assumes "station_inv L b" "st_gateways b' = st_gateways b" "keys b' = keys b" "st_funcs b' = st_funcs b" "st_events b' = st_events b"
  shows "station_inv L b'"
  using assms by (simp add: station_inv_def knows_def)

lemma knows_upd:
  assumes "keys b' = (keys b)(c \<mapsto> key)" "\<And>key0. keys b c = Some key0 \<Longrightarrow> key_gateway key0 = None \<or> key_gateway key0 = key_gateway key" "knows b g"
  shows "knows b' g"
  using assms unfolding knows_def by (metis fun_upd_apply option.distinct(1) option.inject)

text \<open>A step that moves a connection to a stage outside of the registry, from one outside of it.\<close>

definition moves :: "lorawan_lib \<Rightarrow> nat \<Rightarrow> station_backend \<Rightarrow> station_backend \<Rightarrow> bool" where
  "moves L c b b' \<longleftrightarrow> st_gateways b' = st_gateways b \<and> st_funcs b' = st_funcs b \<and> st_events b' = st_events b \<and>
     (\<forall>key0. keys b c = Some key0 \<longrightarrow> key_stage key0 = Accepted \<and> key_gateway key0 = None) \<and>
     (\<exists>key. keys b' = (keys b)(c \<mapsto> key) \<and> key_ok L key \<and> key_stage key \<notin> {Registered, Stuck})"

lemma movesI:
  assumes "st_gateways b' = st_gateways b" "st_funcs b' = st_funcs b" "st_events b' = st_events b"
    and "\<And>key0. keys b c = Some key0 \<Longrightarrow> key_stage key0 = Accepted \<and> key_gateway key0 = None"
    and "keys b' = (keys b)(c \<mapsto> key)" "key_ok L key" "key_stage key \<notin> {Registered, Stuck}"
  shows "moves L c b b'"
  using assms unfolding moves_def by blast

lemma station_inv_moves:
  assumes "station_inv L b" "moves L c b b'"
  shows "station_inv L b'"
proof -
  from assms(2) obtain key where key: "keys b' = (keys b)(c \<mapsto> key)" "key_ok L key" by (auto simp: moves_def)
  have same: "st_gateways b' = st_gateways b" "st_funcs b' = st_funcs b" "st_events b' = st_events b"
    and old: "\<And>key0. keys b c = Some key0 \<Longrightarrow> key_stage key0 = Accepted \<and> key_gateway key0 = None"
    using assms(2) unfolding moves_def by blast+
  have "knows b' g" if "knows b g" for g using knows_upd[OF key(1) _ that] old by blast
  then have "\<forall>e \<in> set (st_events b'). \<exists>g. knows b' g \<and> event_gateway L e = eui_String L g"
    using assms(1) unfolding same(3) station_inv_def by blast
  moreover have "\<exists>key. keys b' c' = Some key \<and> registered_key g key" if g: "st_gateways b' g = Some c'" for g c'
  proof -
    obtain k where k: "keys b c' = Some k" "registered_key g k" using g[unfolded same(1)] assms(1) unfolding station_inv_def by blast
    then have "c' \<noteq> c" using old by (auto simp: registered_key_def)
    then show ?thesis using k key(1) by auto
  qed
  moreover have "\<forall>c key. keys b' c = Some key \<longrightarrow> key_ok L key" using assms(1) key by (auto simp: station_inv_def)
  ultimately show ?thesis using assms(1) by (simp add: station_inv_def same)
qed

lemma keys_Some: "st_conns b c = Some k \<Longrightarrow> keys b c = Some (conn_key k)"
  by (simp add: keys_def)

lemma keys_upd: "st_conns b c = Some k \<Longrightarrow> keys (upd_conn c f b) = (keys b)(c \<mapsto> conn_key (f k))"
  by (auto simp: keys_def fun_eq_iff)

lemma not_registered:
  assumes "station_inv L b" "keys b c = Some key" "key_stage key \<noteq> Registered" "key_stage key \<noteq> Stuck"
  shows "st_gateways b g \<noteq> Some c"
  using assms unfolding station_inv_def registered_key_def by fastforce

lemma knows_conn: "st_conns b c = Some k \<Longrightarrow> kn_gateway k = Some g \<Longrightarrow> knows b g"
  unfolding knows_def using keys_Some by (fastforce simp: conn_key_def)

lemma inv_event: "station_inv L b \<Longrightarrow> e \<in> set (st_events b) \<Longrightarrow> \<exists>g. knows b g \<and> event_gateway L e = eui_String L g"
  unfolding station_inv_def by blast

lemma inv_key_ok: "station_inv L b \<Longrightarrow> st_conns b c = Some k \<Longrightarrow> key_ok L (conn_key k)"
  unfolding station_inv_def using keys_Some by blast

lemma accepted_blank: "station_inv L b \<Longrightarrow> st_conns b c = Some k \<Longrightarrow> kn_stage k = Accepted \<Longrightarrow> kn_gateway k = None"
  using inv_key_ok[of L b c k] by (cases "kn_gateway k") (auto simp: key_ok_def conn_key_def)

lemma moves_upd:
  assumes "station_inv L b" "st_conns b c = Some k" "kn_stage k = Accepted" "quiet L g b b1" "st_events b1 = st_events b"
    and "kn_stage k' \<notin> {Registered, Stuck}" "key_ok L (conn_key k')" "\<And>k1. conn_key k1 = conn_key k \<Longrightarrow> conn_key (f k1) = conn_key k'"
  shows "moves L c b (upd_conn c f b1)"
proof -
  have keys: "keys b1 = keys b" and same: "st_gateways b1 = st_gateways b" "st_funcs b1 = st_funcs b"
    using assms(4) by (auto simp: quiet_def)
  have "keys b1 c = Some (conn_key k)" using keys_Some[OF assms(2)] keys by simp
  then obtain k1 where k1: "st_conns b1 c = Some k1" "conn_key k1 = conn_key k" by (auto simp: keys_def)
  have "keys (upd_conn c f b1) = (keys b)(c \<mapsto> conn_key k')" using keys_upd[OF k1(1)] assms(8)[OF k1(2)] keys by simp
  moreover have "key_stage (conn_key k) = Accepted \<and> key_gateway (conn_key k) = None"
    using assms(3) accepted_blank[OF assms(1-3)] by (simp add: conn_key_def)
  moreover have "key_stage (conn_key k') \<notin> {Registered, Stuck}" using assms(6) by (simp add: conn_key_def)
  ultimately show ?thesis using keys_Some[OF assms(2)] assms(5,7) same by (intro movesI) auto
qed

lemma moves_finish:
  assumes "station_inv L b" "st_conns b c = Some k" "kn_stage k = Accepted" "quiet L g b b1" "st_events b1 = st_events b"
  shows "moves L c b (finish_conn c b1)"
  unfolding finish_conn_def
  by (rule moves_upd[OF assms, where k' = "k\<lparr>kn_stage := Finished\<rparr>"])
    (use accepted_blank[OF assms(1-3)] in \<open>auto simp: conn_key_def key_ok_def\<close>)

text \<open>Entering and removing a gateway change the registry and the events together.\<close>

lemma station_inv_register:
  assumes "station_inv L b" "st_conns b c = Some k" "kn_stage k = Checked" "kn_gateway k = Some g"
  shows "station_inv L (gateway_register g c b)"
proof -
  let ?b = "gateway_register g c b"
  have k: "keys ?b = (keys b)(c \<mapsto> Key (if st_statsInterval b \<le> 0 then Stuck else Registered) (Some g) (kn_peer k))"
    using assms(2,4) by (auto simp: gateway_register_def station_set_def keys_def fun_eq_iff conn_key_def)
  have "key_ok L (conn_key k)" using inv_key_ok[OF assms(1,2)] .
  then have "key_ok L (Key st (Some g) (kn_peer k))" if "st \<noteq> Accepted" for st using that assms(4) by (simp add: key_ok_def conn_key_def)
  then have "\<forall>c key. keys ?b c = Some key \<longrightarrow> key_ok L key" using assms(1) k by (auto simp: station_inv_def)
  moreover have "\<forall>g c. st_gateways ?b g = Some c \<longrightarrow> (\<exists>key. keys ?b c = Some key \<and> registered_key g key)"
  proof (intro allI impI)
    fix g' c' assume "st_gateways ?b g' = Some c'"
    then have "g' = g \<and> c' = c \<or> g' \<noteq> g \<and> st_gateways b g' = Some c'"
      by (auto simp: gateway_register_def station_set_def split: if_splits)
    moreover have "c' \<noteq> c" if "st_gateways b g' = Some c'"
      using not_registered[OF assms(1) keys_Some[OF assms(2)]] assms(3) that by (auto simp: conn_key_def)
    ultimately show "\<exists>key. keys ?b c' = Some key \<and> registered_key g' key"
      using assms(1) k by (auto simp: registered_key_def station_inv_def)
  qed
  moreover have know: "knows b g' \<Longrightarrow> knows ?b g'" for g'
    by (rule knows_upd[OF k]) (use keys_Some[OF assms(2)] assms(4) in \<open>auto simp: conn_key_def\<close>)
  moreover have ev: "st_events ?b = st_events b @ [EvSubscribe g True]" "st_gateways ?b = (st_gateways b)(g \<mapsto> c)"
    "st_funcs ?b = st_funcs b"
    using assms(1) by (auto simp: gateway_register_def station_set_def station_inv_def)
  moreover have "\<forall>e \<in> set (st_events ?b). \<exists>g. knows ?b g \<and> event_gateway L e = eui_String L g"
    using inv_event[OF assms(1)] know know[OF knows_conn[OF assms(2,4)]] unfolding ev(1) by fastforce
  ultimately show ?thesis using assms(1) by (auto simp: station_inv_def)
qed

lemma station_inv_close:
  assumes "station_inv L b" "st_conns b c = Some k" "kn_stage k = Registered" "kn_gateway k = Some g"
  shows "station_inv L (gateway_close g c b)"
proof -
  let ?b = "gateway_close g c b"
  have k: "keys ?b = (keys b)(c \<mapsto> Key Finished (Some g) (kn_peer k))"
    using assms(2,4) by (auto simp: gateway_close_def finish_conn_def station_remove_def keys_def fun_eq_iff conn_key_def Let_def)
  have "key_ok L (conn_key k)" using inv_key_ok[OF assms(1,2)] .
  then have "key_ok L (Key Finished (Some g) (kn_peer k))" using assms(4) by (simp add: key_ok_def conn_key_def)
  then have "\<forall>c key. keys ?b c = Some key \<longrightarrow> key_ok L key" using assms(1) k by (auto simp: station_inv_def)
  moreover have "\<forall>g c. st_gateways ?b g = Some c \<longrightarrow> (\<exists>key. keys ?b c = Some key \<and> registered_key g key)"
  proof (intro allI impI)
    fix g' c' assume "st_gateways ?b g' = Some c'"
    then have g': "g' \<noteq> g" "st_gateways b g' = Some c'"
      by (auto simp: gateway_close_def finish_conn_def station_remove_def Let_def split: if_splits)
    then obtain key where key: "keys b c' = Some key" "registered_key g' key" using assms(1) unfolding station_inv_def by blast
    then have "c' \<noteq> c" using g'(1) keys_Some[OF assms(2)] assms(4) by (auto simp: registered_key_def conn_key_def)
    then show "\<exists>key. keys ?b c' = Some key \<and> registered_key g' key" using k key by auto
  qed
  moreover have know: "knows b g' \<Longrightarrow> knows ?b g'" for g'
    by (rule knows_upd[OF k]) (use keys_Some[OF assms(2)] assms(4) in \<open>auto simp: conn_key_def\<close>)
  moreover have ev: "st_events ?b = st_events b @ [EvSubscribe g False]" "st_gateways ?b = (st_gateways b)(g := None)"
    "st_funcs ?b = st_funcs b"
    using assms(1) by (auto simp: gateway_close_def finish_conn_def station_remove_def Let_def station_inv_def)
  moreover have "\<forall>e \<in> set (st_events ?b). \<exists>g. knows ?b g \<and> event_gateway L e = eui_String L g"
    using inv_event[OF assms(1)] know know[OF knows_conn[OF assms(2,4)]] unfolding ev(1) by fastforce
  ultimately show ?thesis using assms(1) by (auto simp: station_inv_def)
qed

lemma moves_accept:
  assumes "st_conns b c = None"
  shows "moves L c b (websocketWrap peer c b)"
proof -
  have "keys (websocketWrap peer c b) = (keys b)(c \<mapsto> Key (if st_pingInterval b \<le> 0 then Finished else Accepted) None peer)"
    by (auto simp: websocketWrap_def keys_def fun_eq_iff conn_key_def new_connection_def finish_conn_def Let_def)
  moreover have "key_ok L (Key (if st_pingInterval b \<le> 0 then Finished else Accepted) None peer)" by (simp add: key_ok_def)
  ultimately show ?thesis
    using assms by (cases "st_pingInterval b \<le> 0"; intro movesI)
      (auto simp: websocketWrap_def finish_conn_def keys_def Let_def)
qed

lemma moves_check:
  assumes "station_inv (sn_L V) b" "st_conns b c = Some k" "kn_stage k = Accepted"
  shows "moves (sn_L V) c b (gateway_check V path c k b)"
proof -
  have "moves (sn_L V) c b (upd_conn c (\<lambda>k. k\<lparr>kn_stage := Checked, kn_gateway := Some g\<rparr>) b)"
    if "peer_matches (sn_L V) (kn_peer k) g" for g
    by (rule moves_upd[OF assms quiet_refl[of _ g], where k' = "k\<lparr>kn_stage := Checked, kn_gateway := Some g\<rparr>"])
      (use that in \<open>auto simp: conn_key_def key_ok_def\<close>)
  then show ?thesis using moves_finish[OF assms quiet_refl] by (auto simp: gateway_check_def Let_def split: sum.split)
qed

lemma moves_router_info:
  assumes "station_inv (sn_L V) b" "st_conns b c = Some k" "kn_stage k = Accepted"
  shows "moves (sn_L V) c b (router_info_conn V io host c msg b)"
proof -
  have "b1 = b \<or> (\<exists>w fr. b1 = snd (write_conn w c fr b))" if "handleRouterInfo V io host c msg b = Ret b1" for b1
    using that unfolding handleRouterInfo_def go_bind_eq_Ret
    by (elim exE conjE) (simp split: sum.split_asm option.split_asm, auto)
  then have "quiet (sn_L V) eui64_zero b b1" "st_events b1 = st_events b" if "handleRouterInfo V io host c msg b = Ret b1" for b1
    using that quiet_write_conn by fastforce+
  then show ?thesis
    using moves_finish[OF assms] quiet_refl by (auto simp: router_info_conn_def split: go.split)
qed

text \<open>Every step is one of four.\<close>

lemma station_step_shape:
  assumes "station_step V b b'" "station_inv (sn_L V) b"
  obtains (quiet) g where "quiet (sn_L V) g b b'" "knows b g \<or> st_events b' = st_events b"
    | (moves) c where "moves (sn_L V) c b b'"
    | (register) c k g where "st_conns b c = Some k" "kn_stage k = Checked" "kn_gateway k = Some g" "b' = gateway_register g c b"
    | (close) c k g where "st_conns b c = Some k" "kn_stage k = Registered" "kn_gateway k = Some g" "b' = gateway_close g c b"
  using assms(1)
proof (cases rule: station_step.cases)
  case (message c k g io binary msg)
  then show ?thesis
    using that(1)[OF quiet_message] that(4)[OF message(2-4)] knows_conn[OF message(2,4)]
    by (cases "handle_message V io g binary msg b") (auto simp: gateway_message_def)
next
  case (stats c k g now order)
  let ?b = "upd_conn c (\<lambda>k. k\<lparr>kn_stats := NewCollector\<rparr>) b"
  have "quiet (sn_L V) g b ?b" by (rule quiet_upd_conn) (simp add: conn_key_def)
  from quiet_trans[OF this quiet_call] have "quiet (sn_L V) g b b'"
    unfolding stats(1) stats_tick_def ExportStats_def by simp
  then show ?thesis using that(1) knows_conn[OF stats(2,4)] by blast
next
  case (ping c k w)
  have "quiet (sn_L V) eui64_zero b b'"
    using quiet_write_conn[of "sn_L V" eui64_zero b w c PingFrame] quiet_trans[OF _ quiet_upd_conn[of "\<lambda>k. k\<lparr>kn_open := False\<rparr>"]]
    unfolding ping(1) send_ping_def by (auto simp: conn_key_def split: prod.split sum.split)
  moreover have "st_events b' = st_events b" unfolding ping(1) send_ping_def
    by (auto simp: write_conn_def split: option.split)
  ultimately show ?thesis using that(1) by blast
next
  case (downlink io df r)
  then show ?thesis using that(1) quiet_send_downlink[OF downlink] by blast
next
  case (command io gid payload)
  have "st_events b' = st_events b"
    unfolding command by (auto simp: RawPacketForwarderCommand_def sendRawToGateway_def write_conn_def
        split: sum.splits option.splits if_splits list.splits)
  then show ?thesis using that(1) quiet_command command by blast
next
  case start
  then show ?thesis using that(1)[of eui64_zero] by (simp add: station_Start_def keys_def quiet_def)
next
  case (stop r)
  then show ?thesis using that(1)[of eui64_zero] by (simp add: station_Stop_def keys_def quiet_def)
next
  case (accept c peer)
  then show ?thesis using that(2)[of c] moves_accept by simp
next
  case (router_info c k io host msg)
  then show ?thesis using that(2)[of c] moves_router_info[OF assms(2)] by simp
next
  case (check c k path)
  then show ?thesis using that(2)[of c] moves_check[OF assms(2)] by simp
qed (use that(3,4) in simp_all)

lemma station_inv_step:
  assumes "station_step V b b'" "station_inv (sn_L V) b"
  shows "station_inv (sn_L V) b'"
  using assms
proof (cases rule: station_step_shape)
  case (quiet g)
  then show ?thesis
    using station_inv_quiet[OF assms(2)] station_inv_silent[OF assms(2)] by (auto simp: quiet_def)
qed (use assms(2) station_inv_moves station_inv_register station_inv_close in blast)+

lemma station_inv_initial: "station_initial b \<Longrightarrow> station_inv L b"
  by (simp add: station_initial_def station_inv_def online_of_def keys_def)

lemma station_inv_reachable: "station_steps V b b' \<Longrightarrow> station_initial b \<Longrightarrow> station_inv (sn_L V) b'"
  by (induction rule: station_steps.induct) (auto intro: station_inv_initial station_inv_step)

section \<open>Connections without a race\<close>

text \<open>A connection claims a gateway from looking it up in the registry to its end.\<close>

definition claims :: "station_backend \<Rightarrow> nat \<Rightarrow> eui64 \<Rightarrow> bool" where
  "claims b c g \<longleftrightarrow> (\<exists>k. st_conns b c = Some k \<and> kn_gateway k = Some g \<and> kn_stage k \<in> {Checked, Registered, Stuck})"

definition solo :: "station_backend \<Rightarrow> bool" where
  "solo b \<longleftrightarrow> (\<forall>c c' g. claims b c g \<and> claims b c' g \<longrightarrow> c = c')"

text \<open>The runs in which no two connections claim the same gateway at the same time.\<close>

inductive station_solo_steps :: "station_env \<Rightarrow> station_backend \<Rightarrow> station_backend \<Rightarrow> bool" for V where
  solo_refl: "station_solo_steps V b b"
| solo_step: "station_solo_steps V b b' \<Longrightarrow> station_step V b' b'' \<Longrightarrow> solo b'' \<Longrightarrow> station_solo_steps V b b''"

definition all_entered :: "station_backend \<Rightarrow> bool" where
  "all_entered b \<longleftrightarrow> (\<forall>c key g. keys b c = Some key \<and> registered_key g key \<longrightarrow> st_gateways b g = Some c)"

lemma registered_claims: "keys b c = Some key \<Longrightarrow> registered_key g key \<Longrightarrow> claims b c g"
  by (auto simp: keys_def registered_key_def claims_def conn_key_def)

lemma keys_register:
  assumes "st_conns b c = Some k" "kn_gateway k = Some g"
  shows "keys (gateway_register g c b) = (keys b)(c \<mapsto> Key (if st_statsInterval b \<le> 0 then Stuck else Registered) (Some g) (kn_peer k))"
  using assms by (auto simp: gateway_register_def station_set_def keys_def fun_eq_iff conn_key_def)

lemma keys_close:
  assumes "st_conns b c = Some k" "kn_gateway k = Some g"
  shows "keys (gateway_close g c b) = (keys b)(c \<mapsto> Key Finished (Some g) (kn_peer k))"
  using assms by (auto simp: gateway_close_def finish_conn_def station_remove_def keys_def fun_eq_iff conn_key_def Let_def)

lemma gateways_register [simp]: "st_gateways (gateway_register g c b) = (st_gateways b)(g \<mapsto> c)"
  by (simp add: gateway_register_def station_set_def)

lemma gateways_close [simp]: "st_gateways (gateway_close g c b) = (st_gateways b)(g := None)"
  by (simp add: gateway_close_def finish_conn_def station_remove_def Let_def)

lemma all_entered_step:
  assumes "station_step V b b'" "station_inv (sn_L V) b" "all_entered b" "solo b" "solo b'"
  shows "all_entered b'"
  using assms(1,2)
proof (cases rule: station_step_shape)
  case (quiet g)
  then show ?thesis using assms(3) by (simp add: all_entered_def quiet_def)
next
  case (moves c)
  then obtain key where "keys b' = (keys b)(c \<mapsto> key)" "key_stage key \<notin> {Registered, Stuck}" "st_gateways b' = st_gateways b"
    unfolding moves_def by blast
  then show ?thesis using assms(3) unfolding all_entered_def registered_key_def by (metis fun_upd_apply insertCI option.inject)
next
  case (register c k g)
  have "st_gateways b' g' = Some c'" if key: "keys b' c' = Some key" "registered_key g' key" for c' key g'
  proof (cases "c' = c")
    case True
    then show ?thesis using key register(4) keys_register[OF register(1,3)] by (auto simp: registered_key_def)
  next
    case False
    then have old: "keys b c' = Some key" using key(1) register(4) keys_register[OF register(1,3)] by simp
    have "claims b c g" using register(1-3) by (simp add: claims_def)
    then have "g' \<noteq> g" using registered_claims[OF old key(2)] assms(4) False unfolding solo_def by blast
    then show ?thesis using assms(3) old key(2) register(4) unfolding all_entered_def by auto
  qed
  then show ?thesis unfolding all_entered_def by blast
next
  case (close c k g)
  have "st_gateways b' g' = Some c'" if key: "keys b' c' = Some key" "registered_key g' key" for c' key g'
  proof -
    have "c' \<noteq> c" using key close(4) keys_close[OF close(1,3)] by (auto simp: registered_key_def)
    then have old: "keys b c' = Some key" using key(1) close(4) keys_close[OF close(1,3)] by simp
    have "claims b c g" using close(1-3) by (simp add: claims_def)
    then have "g' \<noteq> g" using registered_claims[OF old key(2)] assms(4) \<open>c' \<noteq> c\<close> unfolding solo_def by blast
    then show ?thesis using assms(3) old key(2) close(4) unfolding all_entered_def by auto
  qed
  then show ?thesis unfolding all_entered_def by blast
qed

lemma station_solo_entered:
  assumes "station_solo_steps V b0 b" "station_initial b0"
  shows "station_inv (sn_L V) b \<and> all_entered b \<and> solo b"
  using assms
proof (induction rule: station_solo_steps.induct)
  case (solo_refl b)
  then show ?case by (auto simp: station_inv_initial all_entered_def solo_def claims_def station_initial_def keys_def)
qed (use station_inv_step all_entered_step in blast)

lemma station_new_initial:
  "station_NewBackend L un nets joins GetConfig srt listen readFile conf = Inr b \<Longrightarrow> station_initial (SetFunc SubscribeEventFunc b)"
  by (auto simp: station_NewBackend_def station_initial_def SetFunc_def split: sum.splits if_splits)

text \<open>The run of two connections for the same gateway that both look it up before either enters it.\<close>

definition gateway_path :: "string \<Rightarrow> string" where
  "gateway_path t = ''/gateway/'' @ t"

definition race_start :: "station_env \<Rightarrow> string \<Rightarrow> station_backend \<Rightarrow> station_backend" where
  "race_start V path b =
     (let b = websocketWrap None 3 (websocketWrap None 2 b)
      in gateway_check V path 3 (new_connection None) (gateway_check V path 2 (new_connection None) b))"

definition race_run :: "station_env \<Rightarrow> string \<Rightarrow> eui64 \<Rightarrow> station_backend \<Rightarrow> station_backend" where
  "race_run V path g b = gateway_close g 3 (gateway_register g 3 (gateway_register g 2 (race_start V path b)))"

lemma split_at_last: "sep \<notin> set xs \<Longrightarrow> last (split_at sep (ys @ sep # xs)) = xs \<and> 2 \<le> length (split_at sep (ys @ sep # xs))"
proof (induction ys)
  case Nil
  then show ?case by (simp add: split_at_no_sep)
next
  case (Cons y ys)
  then show ?case by (auto split: list.split)
qed

lemma gateway_check_free:
  assumes "eui_UnmarshalText (sn_L V) t = Inr g" "CHR ''/'' \<notin> set t" "kn_peer k = None" "st_gateways b g = None"
  shows "gateway_check V (gateway_path t) c k b = upd_conn c (\<lambda>k. k\<lparr>kn_stage := Checked, kn_gateway := Some g\<rparr>) b"
proof -
  have "gateway_path t = ''/gateway'' @ CHR ''/'' # t" by (simp add: gateway_path_def)
  then show ?thesis
    using split_at_last[OF assms(2), of "''/gateway''"] assms(1,3,4) by (simp add: gateway_check_def peer_matches_def Let_def)
qed

lemma websocketWrap_positive:
  "0 < st_pingInterval b \<Longrightarrow> websocketWrap peer c b = b\<lparr>st_conns := (st_conns b)(c \<mapsto> new_connection peer)\<rparr>"
  by (simp add: websocketWrap_def)

definition race_checked :: "eui64 \<Rightarrow> connection" where
  "race_checked g = (new_connection None)\<lparr>kn_stage := Checked, kn_gateway := Some g\<rparr>"

lemma new_connection_sel [simp]:
  "kn_stage (new_connection p) = Accepted" "kn_gateway (new_connection p) = None" "kn_peer (new_connection p) = p"
  "kn_open (new_connection p)"
  by (simp_all add: new_connection_def)

lemma register_sel:
  assumes "0 < st_statsInterval b" "SubscribeEventFunc \<in> st_funcs b"
  shows "st_conns (gateway_register g c b) = (st_conns b)(c := map_option (\<lambda>k. k\<lparr>kn_stage := Registered\<rparr>) (st_conns b c))"
    "st_funcs (gateway_register g c b) = st_funcs b" "st_statsInterval (gateway_register g c b) = st_statsInterval b"
    "st_events (gateway_register g c b) = st_events b @ [EvSubscribe g True]"
  using assms by (simp_all add: gateway_register_def station_set_def)

lemma race_start_run:
  assumes "station_initial b" "0 < st_pingInterval b" "eui_UnmarshalText (sn_L V) t = Inr g" "CHR ''/'' \<notin> set t"
  defines "b2 \<equiv> race_start V (gateway_path t) b"
  shows "station_steps V b b2" "st_gateways b2 = Map.empty" "st_statsInterval b2 = st_statsInterval b" "st_events b2 = []"
    "st_conns b2 = [2 \<mapsto> race_checked g, 3 \<mapsto> race_checked g]" "st_funcs b2 = st_funcs b"
proof -
  let ?b1 = "websocketWrap None 2 b"
  let ?b2 = "websocketWrap None 3 ?b1"
  let ?b3 = "gateway_check V (gateway_path t) 2 (new_connection None) ?b2"
  have init: "st_gateways b = Map.empty" "st_conns b = Map.empty" "st_events b = []" using assms(1) by (simp_all add: station_initial_def)
  have 1: "?b1 = b\<lparr>st_conns := [2 \<mapsto> new_connection None]\<rparr>" using assms(2) init by (simp add: websocketWrap_positive)
  have 2: "?b2 = b\<lparr>st_conns := [2 \<mapsto> new_connection None, 3 \<mapsto> new_connection None]\<rparr>"
    using assms(2) unfolding 1 by (simp add: websocketWrap_positive)
  have 3: "?b3 = upd_conn 2 (\<lambda>k. k\<lparr>kn_stage := Checked, kn_gateway := Some g\<rparr>) ?b2"
    by (rule gateway_check_free[OF assms(3,4)]) (simp_all add: 2 init)
  have 4: "b2 = upd_conn 3 (\<lambda>k. k\<lparr>kn_stage := Checked, kn_gateway := Some g\<rparr>) ?b3"
    unfolding b2_def race_start_def Let_def
    by (rule gateway_check_free[OF assms(3,4)]) (simp_all add: 3[unfolded 2] 2 init)
  have "station_step V b ?b1" by (rule station_step.accept) (simp add: init)
  moreover have "station_step V ?b1 ?b2" by (rule station_step.accept) (simp add: 1)
  moreover have "station_step V ?b2 ?b3" by (rule station_step.check[where k = "new_connection None"]) (simp_all add: 2)
  moreover have "station_step V ?b3 b2" unfolding b2_def race_start_def Let_def
    by (rule station_step.check[where k = "new_connection None"]) (simp_all add: 3[unfolded 2] 2)
  ultimately show "station_steps V b b2" by (meson station_steps.intros)
  show "st_gateways b2 = Map.empty" "st_statsInterval b2 = st_statsInterval b" "st_events b2 = []" "st_funcs b2 = st_funcs b"
    "st_conns b2 = [2 \<mapsto> race_checked g, 3 \<mapsto> race_checked g]"
    unfolding 4 by (auto simp: 3[unfolded 2] 2 init race_checked_def fun_eq_iff)
qed

lemma race_run_result:
  assumes "station_initial b" "0 < st_pingInterval b" "0 < st_statsInterval b"
    and "eui_UnmarshalText (sn_L V) t = Inr g" "CHR ''/'' \<notin> set t"
  defines "b' \<equiv> race_run V (gateway_path t) g b"
  shows "station_steps V b b'" "st_gateways b' = Map.empty" "st_conns b' 2 = Some ((race_checked g)\<lparr>kn_stage := Registered\<rparr>)"
    "st_events b' = [EvSubscribe g True, EvSubscribe g True, EvSubscribe g False]" "st_funcs b' = st_funcs b"
proof -
  let ?b2 = "race_start V (gateway_path t) b"
  note start = race_start_run[OF assms(1,2,4,5)]
  have sub: "SubscribeEventFunc \<in> st_funcs b" using assms(1) by (simp add: station_initial_def)
  let ?b3 = "gateway_register g 2 ?b2"
  let ?b4 = "gateway_register g 3 ?b3"
  have 3: "st_conns ?b3 = [2 \<mapsto> (race_checked g)\<lparr>kn_stage := Registered\<rparr>, 3 \<mapsto> race_checked g]" "st_funcs ?b3 = st_funcs b"
    "st_statsInterval ?b3 = st_statsInterval b" "st_events ?b3 = [EvSubscribe g True]"
    using assms(3) sub by (auto simp: register_sel start fun_eq_iff)
  have 4: "st_conns ?b4 = [2 \<mapsto> (race_checked g)\<lparr>kn_stage := Registered\<rparr>, 3 \<mapsto> (race_checked g)\<lparr>kn_stage := Registered\<rparr>]"
    "st_funcs ?b4 = st_funcs b" "st_events ?b4 = [EvSubscribe g True, EvSubscribe g True]"
    using assms(3) sub by (auto simp: register_sel[of ?b3] 3 fun_eq_iff)
  have "station_step V ?b2 ?b3" by (rule station_step.register[where k = "race_checked g"]) (simp_all add: start race_checked_def)
  moreover have "station_step V ?b3 ?b4" by (rule station_step.register[where k = "race_checked g"]) (simp_all add: 3 race_checked_def)
  moreover have "station_step V ?b4 b'" unfolding b'_def race_run_def
    by (rule station_step.close[where k = "(race_checked g)\<lparr>kn_stage := Registered\<rparr>"]) (simp_all add: 4 race_checked_def)
  ultimately show "station_steps V b b'" using start(1) by (meson station_steps.step)
  show "st_gateways b' = Map.empty" unfolding b'_def race_run_def by (simp add: start)
  show "st_conns b' 2 = Some ((race_checked g)\<lparr>kn_stage := Registered\<rparr>)" "st_funcs b' = st_funcs b"
    "st_events b' = [EvSubscribe g True, EvSubscribe g True, EvSubscribe g False]"
    unfolding b'_def race_run_def using 4 sub by (simp_all add: gateway_close_def finish_conn_def station_remove_def Let_def)
qed

lemma send_downlink_unknown:
  assumes "st_gateways b g = None" "DownlinkFrameFromProto (sn_spare V) (st_band b) df = Ret (Inr pl)"
    and "eui_UnmarshalText (sn_L V) (df_GatewayId df) = Inr g"
  shows "\<exists>b'. station_SendDownlinkFrame V io df b = Ret (Inl (Errorf ''send to gateway error''), b')"
  using assms by (simp add: station_SendDownlinkFrame_def sendToGateway_def station_get_def diid_SetDefault_def)

lemma send_downlink_entered:
  assumes "st_gateways b g = Some c" "st_conns b c = Some k" "kn_open k" "io_write io = Inr ()"
    and "DownlinkFrameFromProto (sn_spare V) (st_band b) df = Ret (Inr pl)"
    and "eui_UnmarshalText (sn_L V) (df_GatewayId df) = Inr g" "sj_Marshal (sn_J V) (OutDownlink pl) = Inr bb"
  shows "station_SendDownlinkFrame V io df b =
    Ret (Inr (), upd_conn c (\<lambda>k. k\<lparr>kn_sent := kn_sent k @ [TextFrame bb]\<rparr>) (diid_SetDefault (io_now io) (df_DownlinkId df) df b))"
  using assms by (simp add: station_SendDownlinkFrame_def sendToGateway_def station_get_def write_conn_def diid_SetDefault_def)

text \<open>The statistics after a downlink that was transmitted.\<close>

definition counted_downlink :: "downlink_tx_info \<Rightarrow> bytes \<Rightarrow> string \<Rightarrow> Collector \<Rightarrow> Collector" where
  "counted_downlink ti m status c =
     c\<lparr>co_txCount := co_txCount c + 1, co_txPerFreqCount := count_at (dti_Frequency ti) (co_txPerFreqCount c),
       co_txPerModulationCount := count_at (hex_encode m) (co_txPerModulationCount c),
       co_txStatusCount := count_at status (co_txStatusCount c)\<rparr>"

lemma CountDownlink_single:
  assumes "df_Items df = item # rest" "di_TxInfo item = Some ti" "pb_Marshal P (dti_Modulation ti) = Inr m"
  shows "CountDownlink P df [OK] c = Ret (counted_downlink ti m (pb_TxAckStatus_String P OK) c)"
  using assms by (simp add: CountDownlink_def counted_downlink_def)

definition station_reachable :: "station_env \<Rightarrow> station_backend \<Rightarrow> bool" where
  "station_reachable V b \<longleftrightarrow> (\<exists>b0. station_initial b0 \<and> station_steps V b0 b)"

interpretation station: gateway_backend "station_reachable V" st_events "\<lambda>b. dom (st_gateways b)" for V
  by unfold_locales (auto simp: station_reachable_def station_inv_def dest!: station_inv_reachable)

section \<open>Properties\<close>

text \<open>
  C8: the invariant of the backend over every interleaving of connections, messages and downlinks.  The
  gateways that were reported online and not offline since are those of the registry, each entry of the registry is
  a connection that was entered under this identifier, and every event names the gateway of a connection whose client
  certificate, if it has one, is issued to that gateway.
\<close>

theorem station_registry:
  assumes "station_steps V b0 b" "station_initial b0"
  shows "online_of (st_events b) = dom (st_gateways b) \<and>
    (\<forall>g c. st_gateways b g = Some c \<longrightarrow> (\<exists>k. st_conns b c = Some k \<and> kn_gateway k = Some g \<and> kn_stage k \<in> {Registered, Stuck})) \<and>
    (\<forall>e \<in> set (st_events b). \<exists>c k g. st_conns b c = Some k \<and> kn_gateway k = Some g \<and>
       event_gateway (sn_L V) e = eui_String (sn_L V) g \<and> peer_matches (sn_L V) (kn_peer k) g)"
proof -
  have inv: "station_inv (sn_L V) b" using station_inv_reachable[OF assms] .
  have "\<exists>k. st_conns b c = Some k \<and> kn_gateway k = Some g \<and> kn_stage k \<in> {Registered, Stuck}" if g: "st_gateways b g = Some c" for g c
  proof -
    obtain key where "keys b c = Some key" "registered_key g key" using inv g unfolding station_inv_def by blast
    then show ?thesis by (auto simp: keys_def conn_key_def registered_key_def)
  qed
  moreover have "\<exists>c k g. st_conns b c = Some k \<and> kn_gateway k = Some g \<and>
       event_gateway (sn_L V) e = eui_String (sn_L V) g \<and> peer_matches (sn_L V) (kn_peer k) g" if e: "e \<in> set (st_events b)" for e
  proof -
    obtain g where g: "knows b g" "event_gateway (sn_L V) e = eui_String (sn_L V) g" using inv_event[OF inv e] by blast
    then obtain c k where k: "st_conns b c = Some k" "kn_gateway k = Some g" by (auto simp: knows_def keys_def conn_key_def)
    then show ?thesis using g(2) inv_key_ok[OF inv k(1)] by (auto simp: key_ok_def conn_key_def)
  qed
  ultimately show ?thesis using inv by (simp add: station_inv_def)
qed

text \<open>
  C10: a downlink for a connected gateway is written to its connection, and only there, as the JSON of the message
  for the station; the answer of the station within a minute is reported as an acknowledgement with
  the identifier of the downlink and counted on the frequency and the modulation of its first item.
\<close>

theorem station_downlink_acked:
  assumes "st_gateways b g = Some c" "st_conns b c = Some k" "kn_open k" "io_write io = Inr ()"
    and "DownlinkFrameFromProto (sn_spare V) (st_band b) df = Ret (Inr pl)"
    and "eui_UnmarshalText (sn_L V) (df_GatewayId df) = Inr g" "sj_Marshal (sn_J V) (OutDownlink pl) = Inr bb"
    and "df_Items df = item # rest" "di_TxInfo item = Some ti" "pb_Marshal (sn_P V) (dti_Modulation ti) = Inr m"
    and "io_now io' \<le> io_now io + minute" "DownlinkTxAckFunc \<in> st_funcs b"
  shows "\<exists>b1 b2. station_SendDownlinkFrame V io df b = Ret (Inr (), b1) \<and>
    st_conns b1 = (st_conns b)(c \<mapsto> k\<lparr>kn_sent := kn_sent k @ [TextFrame bb]\<rparr>) \<and>
    handleDownlinkTransmittedMessage V io' g (df_DownlinkId df) b1 = Ret b2 \<and>
    st_events b2 = st_events b @ [EvAck \<lparr>da_GatewayId = eui_String (sn_L V) g, da_DownlinkId = df_DownlinkId df, da_Items = [OK]\<rparr>] \<and>
    map_option kn_stats (st_conns b2 c) = Some (counted_downlink ti m (pb_TxAckStatus_String (sn_P V) OK) (kn_stats k))"
proof -
  let ?b1 = "upd_conn c (\<lambda>k. k\<lparr>kn_sent := kn_sent k @ [TextFrame bb]\<rparr>) (diid_SetDefault (io_now io) (df_DownlinkId df) df b)"
  have sent: "station_SendDownlinkFrame V io df b = Ret (Inr (), ?b1)" by (rule send_downlink_entered[OF assms(1-7)])
  have conns: "st_conns ?b1 = (st_conns b)(c \<mapsto> k\<lparr>kn_sent := kn_sent k @ [TextFrame bb]\<rparr>)" "st_gateways ?b1 = st_gateways b"
    "st_funcs ?b1 = st_funcs b" "st_events ?b1 = st_events b"
    using assms(2) by (simp_all add: diid_SetDefault_def)
  have cached: "diid_Get (io_now io') (df_DownlinkId df) ?b1 = Some df"
    using assms(11) by (simp add: diid_Get_def diid_SetDefault_def)
  have "count_on g (CountDownlink (sn_P V) df [OK]) ?b1 =
      Ret (upd_conn c (\<lambda>k. k\<lparr>kn_stats := counted_downlink ti m (pb_TxAckStatus_String (sn_P V) OK) (kn_stats k)\<rparr>) ?b1)"
    using assms(1) conns by (simp add: count_on_def station_get_def CountDownlink_single[OF assms(8-10), simplified] upd_conn_def)
  then show ?thesis
    using sent conns cached assms(12) by (simp add: handleDownlinkTransmittedMessage_def DownlinkTransmittedToProto_def Let_def)
qed

text \<open>
  C34: looking a gateway up in the registry and entering it are two critical sections.  As long as no two
  connections are between their lookup and their end for the same gateway, every connection that was
  entered is the one the registry has.  Two connections that both look the gateway up first are both
  entered, and the end of one takes the other out of the registry: it stays open, the gateway is reported
  offline, and a downlink for it fails.
\<close>

theorem station_connect_race:
  assumes "station_initial b" "0 < st_pingInterval b" "0 < st_statsInterval b"
    and "eui_UnmarshalText (sn_L V) t = Inr g" "CHR ''/'' \<notin> set t"
  shows "(\<forall>b' c k g'. station_solo_steps V b b' \<and> st_conns b' c = Some k \<and> kn_gateway k = Some g' \<and>
      kn_stage k \<in> {Registered, Stuck} \<longrightarrow> st_gateways b' g' = Some c) \<and>
    (\<exists>b' k. station_steps V b b' \<and> st_conns b' 2 = Some k \<and> kn_stage k = Registered \<and> kn_open k \<and> kn_gateway k = Some g \<and>
      g \<notin> online_of (st_events b') \<and>
      (\<forall>io df pl. DownlinkFrameFromProto (sn_spare V) (st_band b') df = Ret (Inr pl) \<and>
         eui_UnmarshalText (sn_L V) (df_GatewayId df) = Inr g \<longrightarrow>
         (\<exists>b''. station_SendDownlinkFrame V io df b' = Ret (Inl (Errorf ''send to gateway error''), b''))))"
proof (rule conjI)
  show "\<forall>b' c k g'. station_solo_steps V b b' \<and> st_conns b' c = Some k \<and> kn_gateway k = Some g' \<and>
      kn_stage k \<in> {Registered, Stuck} \<longrightarrow> st_gateways b' g' = Some c"
  proof (intro allI impI, elim conjE)
    fix b' c k g' assume run: "station_solo_steps V b b'" and k: "st_conns b' c = Some k" "kn_gateway k = Some g'"
      "kn_stage k \<in> {Registered, Stuck}"
    have "registered_key g' (conn_key k)" using k(2,3) by (auto simp: registered_key_def conn_key_def)
    then show "st_gateways b' g' = Some c"
      using station_solo_entered[OF run assms(1)] keys_Some[OF k(1)] unfolding all_entered_def by blast
  qed
  let ?b = "race_run V (gateway_path t) g b"
  note run = race_run_result[OF assms]
  have "st_gateways ?b g = None" using run(2) by simp
  with run show "\<exists>b' k. station_steps V b b' \<and> st_conns b' 2 = Some k \<and> kn_stage k = Registered \<and> kn_open k \<and> kn_gateway k = Some g \<and>
      g \<notin> online_of (st_events b') \<and>
      (\<forall>io df pl. DownlinkFrameFromProto (sn_spare V) (st_band b') df = Ret (Inr pl) \<and>
         eui_UnmarshalText (sn_L V) (df_GatewayId df) = Inr g \<longrightarrow>
         (\<exists>b''. station_SendDownlinkFrame V io df b' = Ret (Inl (Errorf ''send to gateway error''), b'')))"
    by (intro exI[of _ ?b] exI[of _ "(race_checked g)\<lparr>kn_stage := Registered\<rparr>"])
      (auto simp: race_checked_def online_of_def intro: send_downlink_unknown)
qed

section \<open>Examples\<close>

definition station_json_example :: station_json where
  "station_json_example =
     \<lparr>sj_MessageType = (\<lambda>b. Inr DownlinkTransmittedMessage), sj_Version = (\<lambda>b. Inl (Errorf [])), sj_UplinkDataFrame = (\<lambda>b. Inl (Errorf [])),
      sj_JoinRequest = (\<lambda>un b. Ret (Inl (Errorf []))), sj_UplinkProprietaryFrame = (\<lambda>b. Inl (Errorf [])),
      sj_DownlinkTransmitted = (\<lambda>b. Inr 9), sj_TimeSyncRequest = (\<lambda>b. Inl (Errorf [])),
      sj_RouterInfoRequest = (\<lambda>un b. Ret (Inl (Errorf []))), sj_Marshal = (\<lambda>v. Inr [123, 125])\<rparr>"

definition station_env_example :: station_env where
  "station_env_example = \<lparr>sn_L = lorawan_hex, sn_G = gps_example, sn_P = proto_example, sn_J = station_json_example, sn_spare = (\<lambda>_. [])\<rparr>"

definition router_config_example :: StationRouterConfig where
  "router_config_example = \<lparr>sc_NetID = [], sc_JoinEui = [], sc_Region = [], sc_HWSpec = [], sc_FreqRange = (0, 0), sc_DRs = [],
     sc_SX1301Conf = []\<rparr>"

definition station_example :: station_backend where
  "station_example =
     \<lparr>st_caCert = [], st_tlsCert = [], st_tlsKey = [], st_scheme = ''ws'', st_isClosed = False, st_statsInterval = second,
      st_pingInterval = second, st_timesyncInterval = 0, st_band = band_example, st_routerConfig = router_config_example,
      st_gateways = Map.empty, st_conns = Map.empty, st_diidCache = Map.empty,
      st_funcs = {SubscribeEventFunc, DownlinkTxAckFunc}, st_events = []\<rparr>"

definition station_id_example :: string where
  "station_id_example = hex_encode (eui_bytes eui64_zero)"

lemma station_id_example_eui: "eui_UnmarshalText (sn_L station_env_example) station_id_example = Inr eui64_zero"
  using lorawan_hex_ok by (simp add: lorawan_ok_def lorawan_hex_def station_env_example_def station_id_example_def)

lemma station_id_example_no_slash: "CHR ''/'' \<notin> set station_id_example"
proof -
  have "hex_val CHR ''/'' = None" by (simp add: hex_val_def)
  then have digit: "hex_digit n \<noteq> CHR ''/''" if "n < 16" for n using that by (metis hex_val_digit option.distinct(1))
  have "CHR ''/'' \<notin> set (hex_encode bs)" for bs by (induction bs) (auto simp: digit[symmetric])
  then show ?thesis by (simp add: station_id_example_def)
qed

lemma station_example_initial: "station_initial station_example"
  by (simp add: station_initial_def station_example_def)

text \<open>One connection, accepted, looked up and entered.\<close>

definition station_connected :: "station_backend" where
  "station_connected = gateway_register eui64_zero 2 (gateway_check station_env_example (gateway_path station_id_example) 2
     (new_connection None) (websocketWrap None 2 station_example))"

lemma station_connected_run:
  "station_steps station_env_example station_example station_connected"
  "st_gateways station_connected = [eui64_zero \<mapsto> 2]" "st_conns station_connected 2 = Some ((race_checked eui64_zero)\<lparr>kn_stage := Registered\<rparr>)"
  "st_funcs station_connected = {SubscribeEventFunc, DownlinkTxAckFunc}" "st_band station_connected = band_example"
  "st_events station_connected = [EvSubscribe eui64_zero True]"
proof -
  let ?b1 = "websocketWrap None 2 station_example"
  let ?b2 = "gateway_check station_env_example (gateway_path station_id_example) 2 (new_connection None) ?b1"
  have 1: "?b1 = station_example\<lparr>st_conns := [2 \<mapsto> new_connection None]\<rparr>"
    by (simp add: websocketWrap_positive station_example_def)
  have 2: "?b2 = upd_conn 2 (\<lambda>k. k\<lparr>kn_stage := Checked, kn_gateway := Some eui64_zero\<rparr>) (station_example\<lparr>st_conns := [2 \<mapsto> new_connection None]\<rparr>)"
    unfolding 1 by (rule gateway_check_free[OF station_id_example_eui station_id_example_no_slash]) (simp_all add: station_example_def)
  have "station_step station_env_example station_example ?b1" by (rule station_step.accept) (simp add: station_example_def)
  moreover have "station_step station_env_example ?b1 ?b2"
    by (rule station_step.check[where k = "new_connection None"]) (simp_all add: 1)
  moreover have "station_step station_env_example ?b2 station_connected" unfolding station_connected_def
    by (rule station_step.register[where k = "race_checked eui64_zero"]) (simp_all add: 2 race_checked_def)
  ultimately show "station_steps station_env_example station_example station_connected" by (meson station_steps.intros)
  show "st_gateways station_connected = [eui64_zero \<mapsto> 2]" "st_conns station_connected 2 = Some ((race_checked eui64_zero)\<lparr>kn_stage := Registered\<rparr>)"
    "st_funcs station_connected = {SubscribeEventFunc, DownlinkTxAckFunc}" "st_band station_connected = band_example"
    "st_events station_connected = [EvSubscribe eui64_zero True]"
    unfolding station_connected_def 2
    by (simp_all add: gateway_register_def station_set_def station_example_def race_checked_def)
qed

theorem station_registry_witness:
  "online_of (st_events station_connected) = dom (st_gateways station_connected) \<and>
   EvSubscribe eui64_zero True \<in> set (st_events station_connected)"
  using station_registry[OF station_connected_run(1) station_example_initial] station_connected_run(6) by simp

theorem station_connect_race_witness:
  "\<exists>b' k. station_steps station_env_example station_example b' \<and> st_conns b' 2 = Some k \<and> kn_stage k = Registered \<and>
     eui64_zero \<notin> online_of (st_events b')"
proof -
  have "0 < st_pingInterval station_example" "0 < st_statsInterval station_example" by (simp_all add: station_example_def)
  from station_connect_race[OF station_example_initial this station_id_example_eui station_id_example_no_slash]
  show ?thesis by blast
qed

definition station_io_example :: station_io where
  "station_io_example = \<lparr>io_now = 0, io_mark = 0, io_gps = 0, io_rand = 0, io_write = Inr ()\<rparr>"

theorem station_downlink_acked_witness:
  "\<exists>b1 b2. station_SendDownlinkFrame station_env_example station_io_example
       ((answer_example [] None)\<lparr>df_GatewayId := station_id_example\<rparr>) station_connected = Ret (Inr (), b1) \<and>
     handleDownlinkTransmittedMessage station_env_example station_io_example eui64_zero 9 b1 = Ret b2 \<and> length (st_events b2) = 2"
proof -
  let ?df = "(answer_example [] None)\<lparr>df_GatewayId := station_id_example\<rparr>"
  let ?ti = "the (di_TxInfo (df_Items ?df ! 0))"
  obtain pl where pl: "DownlinkFrameFromProto (sn_spare station_env_example) (st_band station_connected) ?df = Ret (Inr pl)"
    by (simp add: DownlinkFrameFromProto_def answer_example_def set_context_def downlink_dr_def set_rx2_def station_connected_run(5))
  have df: "eui_UnmarshalText (sn_L station_env_example) (df_GatewayId ?df) = Inr eui64_zero" "df_Items ?df = (df_Items ?df ! 0) # []"
    "di_TxInfo (df_Items ?df ! 0) = Some ?ti" "df_DownlinkId ?df = 9"
    using station_id_example_eui by (simp_all add: answer_example_def)
  have env: "sj_Marshal (sn_J station_env_example) v = Inr [123, 125]" "pb_Marshal (sn_P station_env_example) mo = Inr []" for v mo
    by (simp_all add: station_env_example_def station_json_example_def proto_example_def)
  have conn: "st_gateways station_connected eui64_zero = Some 2" "kn_open ((race_checked eui64_zero)\<lparr>kn_stage := Registered\<rparr>)"
    "DownlinkTxAckFunc \<in> st_funcs station_connected" "io_now station_io_example \<le> io_now station_io_example + minute"
    "io_write station_io_example = Inr ()"
    using station_connected_run(2,4) by (simp_all add: race_checked_def station_io_example_def)
  from station_downlink_acked[OF conn(1) station_connected_run(3) conn(2,5) pl df(1) env(1) df(2,3) env(2) conn(4,3)]
  obtain b1 b2 where "station_SendDownlinkFrame station_env_example station_io_example ?df station_connected = Ret (Inr (), b1)"
    "handleDownlinkTransmittedMessage station_env_example station_io_example eui64_zero (df_DownlinkId ?df) b1 = Ret b2"
    "length (st_events b2) = Suc (length (st_events station_connected))" by auto
  then show ?thesis unfolding df(4) station_connected_run(6) by auto
qed

end
