(* ===== verification/Mqtt_Auth.thy ===== *)
theory Mqtt_Auth
  imports Router_Setup Station_Config Sha256
begin

text \<open>
  The credentials of the MQTT integration, \<^verbatim>\<open>integration/mqtt/auth\<close> of the gateway bridge: generic ones, those of
  Google Cloud IoT Core and those of Azure IoT Hub.  The options of the MQTT client are the arguments of the
  last calls of their setters; reading files, parsing keys and signing a JSON web token are parameters.
\<close>

section \<open>Base64, query escaping and HMAC\<close>

definition b64_char :: "nat \<Rightarrow> char" where
  "b64_char n =
     (if n < 26 then char_of (65 + n) else if n < 52 then char_of (71 + n)
      else if n < 62 then char_of (n - 4) else if n = 62 then CHR ''+'' else CHR ''/'')"

definition b64_val :: "char \<Rightarrow> nat option" where
  "b64_val c =
     (let n = of_char c :: nat in
      if 65 \<le> n \<and> n \<le> 90 then Some (n - 65)
      else if 97 \<le> n \<and> n \<le> 122 then Some (n - 71)
      else if 48 \<le> n \<and> n \<le> 57 then Some (n + 4)
      else if n = 43 then Some 62 else if n = 47 then Some 63 else None)"

fun base64_encode :: "bytes \<Rightarrow> string" where
  "base64_encode [] = []"
| "base64_encode [a] = [b64_char (unat a div 4), b64_char (unat a mod 4 * 16), CHR ''='', CHR ''='']"
| "base64_encode [a, b] =
     [b64_char (unat a div 4), b64_char (unat a mod 4 * 16 + unat b div 16), b64_char (unat b mod 16 * 4), CHR ''='']"
| "base64_encode (a # b # c # bs) =
     [b64_char (unat a div 4), b64_char (unat a mod 4 * 16 + unat b div 16), b64_char (unat b mod 16 * 4 + unat c div 64),
      b64_char (unat c mod 64)] @ base64_encode bs"

fun b64_quads :: "string \<Rightarrow> bytes option" where
  "b64_quads [] = Some []"
| "b64_quads (p # q # r # s # rest) =
     (case (b64_val p, b64_val q, b64_val r, b64_val s) of
        (Some x, Some y, Some z, Some w) \<Rightarrow>
          map_option (\<lambda>bs. of_nat (x * 4 + y div 16) # of_nat (y mod 16 * 16 + z div 4) # of_nat (z mod 4 * 64 + w) # bs) (b64_quads rest)
      | (Some x, Some y, Some z, None) \<Rightarrow>
          if s = CHR ''='' \<and> rest = [] then Some [of_nat (x * 4 + y div 16), of_nat (y mod 16 * 16 + z div 4)] else None
      | (Some x, Some y, None, None) \<Rightarrow>
          if r = CHR ''='' \<and> s = CHR ''='' \<and> rest = [] then Some [of_nat (x * 4 + y div 16)] else None
      | _ \<Rightarrow> None)"
| "b64_quads _ = None"

text \<open>Line ends are skipped.\<close>

definition base64_decode :: "string \<Rightarrow> bytes option" where
  "base64_decode s = b64_quads (filter (\<lambda>c. c \<noteq> CHR 0x0A \<and> c \<noteq> CHR 0x0D) s)"

text \<open>\<^verbatim>\<open>url.QueryEscape\<close>.\<close>

definition upper_hex :: "nat \<Rightarrow> char" where
  "upper_hex n = (if n < 10 then char_of (48 + n) else char_of (55 + n))"

definition unreserved :: "char \<Rightarrow> bool" where
  "unreserved c =
     (let n = of_char c :: nat in
      48 \<le> n \<and> n \<le> 57 \<or> 65 \<le> n \<and> n \<le> 90 \<or> 97 \<le> n \<and> n \<le> 122 \<or> c \<in> {CHR ''-'', CHR ''_'', CHR ''.'', CHR ''~''})"

fun QueryEscape :: "string \<Rightarrow> string" where
  "QueryEscape [] = []"
| "QueryEscape (c # cs) =
     (if unreserved c then [c]
      else if c = CHR '' '' then ''+''
      else [CHR ''%'', upper_hex (of_char c div 16), upper_hex (of_char c mod 16)]) @ QueryEscape cs"

definition string_bytes :: "string \<Rightarrow> bytes" where
  "string_bytes s = map char_byte s"

definition hmac_sha256 :: "bytes \<Rightarrow> bytes \<Rightarrow> bytes" where
  "hmac_sha256 key msg =
     (let k = (if length key > 64 then sha256 key else key);
          k = k @ replicate (64 - length k) 0
      in sha256 (map (\<lambda>x. x XOR 0x5C) k @ sha256 (map (\<lambda>x. x XOR 0x36) k @ msg)))"

section \<open>Settings and client options\<close>

record mqtt_gcp =
  mp_Server :: string
  mp_DeviceID :: string
  mp_ProjectID :: string
  mp_CloudRegion :: string
  mp_RegistryID :: string
  mp_JWTExpiration :: duration
  mp_JWTKeyFile :: string

record mqtt_azure =
  mz_DeviceConnectionString :: string
  mz_DeviceID :: string
  mz_Hostname :: string
  mz_DeviceKey :: string
  mz_SASTokenExpiration :: duration
  mz_TLSCert :: string
  mz_TLSKey :: string

text \<open>A TLS configuration: the root certificates and the client certificate.\<close>

record tls_config =
  tl_RootCAs :: "bytes option"
  tl_Certificates :: "bytes list"

record client_options =
  opt_Brokers :: "string list"
  opt_Username :: string
  opt_Password :: string
  opt_CleanSession :: bool
  opt_ClientID :: string
  opt_TLS :: "tls_config option"
  opt_ProtocolVersion :: nat
  opt_AutoReconnect :: bool
  opt_KeepAlive :: duration
  opt_MaxReconnectInterval :: duration
  opt_Will :: "(string \<times> bytes \<times> u8 \<times> bool) option"

text \<open>Files, key pairs and RSA keys, and the signature of a token with its times and its audience.\<close>

record auth_lib =
  al_ReadFile :: "string \<Rightarrow> bytes result"
  al_LoadKeyPair :: "string \<Rightarrow> string \<Rightarrow> bytes result"
  al_ParseRSA :: "bytes \<Rightarrow> bytes result"
  al_SignJWT :: "bytes \<Rightarrow> int \<Rightarrow> int \<Rightarrow> string \<Rightarrow> string result"
  al_AzureRootCAs :: "bytes option"

definition unix_seconds :: "time \<Rightarrow> int" where
  "unix_seconds t = t div second"

definition newTLSConfig :: "auth_lib \<Rightarrow> string \<Rightarrow> string \<Rightarrow> string \<Rightarrow> tls_config option result" where
  "newTLSConfig A cafile certFile certKeyFile =
     (if cafile = [] \<and> certFile = [] \<and> certKeyFile = [] then Inr None
      else case (if cafile \<noteq> [] then map_sum (\<lambda>e. Errorf ''load ca-cert error'') Some (al_ReadFile A cafile) else Inr None) of
             Inl err \<Rightarrow> Inl err
           | Inr roots \<Rightarrow>
               if certFile \<noteq> [] \<and> certKeyFile \<noteq> []
               then (case al_LoadKeyPair A certFile certKeyFile of
                       Inl err \<Rightarrow> Inl (Errorf ''load tls key-pair error'')
                     | Inr kp \<Rightarrow> Inr (Some \<lparr>tl_RootCAs = roots, tl_Certificates = [kp]\<rparr>))
               else Inr (Some \<lparr>tl_RootCAs = roots, tl_Certificates = []\<rparr>))"

section \<open>Generic credentials\<close>

record GenericAuthentication =
  ga_servers :: "string list"
  ga_username :: string
  ga_password :: string
  ga_cleanSession :: bool
  ga_clientID :: string
  ga_tlsConfig :: "tls_config option"

text \<open>The setting for a single server is not used.\<close>

definition NewGenericAuthentication :: "auth_lib \<Rightarrow> mqtt_generic \<Rightarrow> GenericAuthentication result" where
  "NewGenericAuthentication A g =
     (case newTLSConfig A (mg_CACert g) (mg_TLSCert g) (mg_TLSKey g) of
        Inl err \<Rightarrow> Inl (Errorf ''mqtt/auth: new tls config error'')
      | Inr tlsConfig \<Rightarrow>
          Inr \<lparr>ga_servers = mg_Servers g, ga_username = mg_Username g, ga_password = mg_Password g,
               ga_cleanSession = mg_CleanSession g, ga_clientID = mg_ClientID g, ga_tlsConfig = tlsConfig\<rparr>)"

definition generic_Init :: "GenericAuthentication \<Rightarrow> client_options \<Rightarrow> client_options" where
  "generic_Init a opts =
     (let opts = opts\<lparr>opt_Brokers := opt_Brokers opts @ ga_servers a, opt_Username := ga_username a, opt_Password := ga_password a,
        opt_CleanSession := ga_cleanSession a, opt_ClientID := ga_clientID a\<rparr>
      in case ga_tlsConfig a of None \<Rightarrow> opts | Some c \<Rightarrow> opts\<lparr>opt_TLS := Some c\<rparr>)"

definition generic_GetGatewayID :: "lorawan_lib \<Rightarrow> GenericAuthentication \<Rightarrow> eui64 option" where
  "generic_GetGatewayID L a =
     (if ga_clientID a = [] then None
      else case eui_UnmarshalText L (ga_clientID a) of Inl err \<Rightarrow> None | Inr g \<Rightarrow> Some g)"

section \<open>Google Cloud IoT Core\<close>

record GCPAuthentication =
  gp_privateKey :: bytes
  gp_clientID :: string
  gp_server :: string
  gp_projectID :: string
  gp_jwtExpiration :: duration

definition NewGCPCloudIoTCoreAuthentication :: "auth_lib \<Rightarrow> mqtt_gcp \<Rightarrow> GCPAuthentication result" where
  "NewGCPCloudIoTCoreAuthentication A conf =
     (case al_ReadFile A (mp_JWTKeyFile conf) of
        Inl err \<Rightarrow> Inl (Errorf ''read jwt key-file error'')
      | Inr raw \<Rightarrow>
          (case al_ParseRSA A raw of
             Inl err \<Rightarrow> Inl (Errorf ''parse jwt key-file error'')
           | Inr key \<Rightarrow>
               Inr \<lparr>gp_privateKey = key,
                 gp_clientID = ''projects/'' @ mp_ProjectID conf @ ''/locations/'' @ mp_CloudRegion conf @ ''/registries/'' @
                   mp_RegistryID conf @ ''/devices/'' @ mp_DeviceID conf,
                 gp_server = mp_Server conf, gp_projectID = mp_ProjectID conf, gp_jwtExpiration = mp_JWTExpiration conf\<rparr>))"

definition gcp_Init :: "GCPAuthentication \<Rightarrow> client_options \<Rightarrow> client_options" where
  "gcp_Init a opts = opts\<lparr>opt_Brokers := opt_Brokers opts @ [gp_server a], opt_ClientID := gp_clientID a\<rparr>"

definition gcp_Update :: "auth_lib \<Rightarrow> time \<Rightarrow> time \<Rightarrow> GCPAuthentication \<Rightarrow> client_options \<Rightarrow> client_options result" where
  "gcp_Update A now now' a opts =
     (case al_SignJWT A (gp_privateKey a) (unix_seconds now) (unix_seconds (now' + gp_jwtExpiration a)) (gp_projectID a) of
        Inl err \<Rightarrow> Inl (Errorf ''sign jwt token error'')
      | Inr token \<Rightarrow> Inr (opts\<lparr>opt_Username := token, opt_Password := token\<rparr>))"

section \<open>Azure IoT Hub\<close>

datatype azure_authType = authTypeSymmetric | authTypeX509

record AzureAuthentication =
  az_authType :: azure_authType
  az_clientID :: string
  az_username :: string
  az_deviceKey :: bytes
  az_hostname :: string
  az_sasTokenExpiration :: duration
  az_tlsConfig :: tls_config

text \<open>\<^verbatim>\<open>strings.SplitN\<close> into two parts.\<close>

fun split_first :: "char \<Rightarrow> string \<Rightarrow> (string \<times> string) option" where
  "split_first sep [] = None"
| "split_first sep (c # cs) =
     (if c = sep then Some ([], cs) else map_option (\<lambda>(a, b). (c # a, b)) (split_first sep cs))"

fun parse_pairs :: "string list \<Rightarrow> (string \<rightharpoonup> string) \<Rightarrow> (string \<rightharpoonup> string) result" where
  "parse_pairs [] out = Inr out"
| "parse_pairs (pair # pairs) out =
     (case split_first CHR ''='' pair of
        None \<Rightarrow> Inl (Errorf ''expected two items'')
      | Some (k, v) \<Rightarrow> parse_pairs pairs (out(k \<mapsto> v)))"

definition parseConnectionString :: "string \<Rightarrow> (string \<rightharpoonup> string) result" where
  "parseConnectionString str = parse_pairs (split_at CHR '';'' str) Map.empty"

definition apply_connection :: "(string \<rightharpoonup> string) \<Rightarrow> mqtt_azure \<Rightarrow> mqtt_azure" where
  "apply_connection m conf =
     conf\<lparr>mz_DeviceID := (case m ''DeviceId'' of None \<Rightarrow> mz_DeviceID conf | Some v \<Rightarrow> v),
          mz_Hostname := (case m ''HostName'' of None \<Rightarrow> mz_Hostname conf | Some v \<Rightarrow> v),
          mz_DeviceKey := (case m ''SharedAccessKey'' of None \<Rightarrow> mz_DeviceKey conf | Some v \<Rightarrow> v)\<rparr>"

text \<open>The kind of credentials is decided in a local variable and never stored: the field keeps its zero value.\<close>

definition azure_of :: "mqtt_azure \<Rightarrow> bytes \<Rightarrow> duration \<Rightarrow> tls_config \<Rightarrow> AzureAuthentication" where
  "azure_of conf key expiration tls =
     \<lparr>az_authType = authTypeSymmetric, az_clientID = mz_DeviceID conf, az_username = mz_Hostname conf @ ''/'' @ mz_DeviceID conf,
      az_deviceKey = key, az_hostname = mz_Hostname conf, az_sasTokenExpiration = expiration, az_tlsConfig = tls\<rparr>"

definition NewAzureIoTHubAuthentication :: "auth_lib \<Rightarrow> mqtt_azure \<Rightarrow> AzureAuthentication result" where
  "NewAzureIoTHubAuthentication A conf =
     (case al_AzureRootCAs A of
        None \<Rightarrow> Inl (Errorf ''append ca certs from pem error'')
      | Some roots \<Rightarrow>
          if mz_TLSCert conf \<noteq> [] \<or> mz_TLSKey conf \<noteq> []
          then (case al_LoadKeyPair A (mz_TLSCert conf) (mz_TLSKey conf) of
                  Inl err \<Rightarrow> Inl (Errorf ''load tls key-pair error'')
                | Inr kp \<Rightarrow> Inr (azure_of conf [] 0 \<lparr>tl_RootCAs = Some roots, tl_Certificates = [kp]\<rparr>))
          else (case (if mz_DeviceConnectionString conf \<noteq> []
                      then map_sum (\<lambda>e. Errorf ''parse connection string error'') (\<lambda>m. apply_connection m conf)
                             (parseConnectionString (mz_DeviceConnectionString conf))
                      else Inr conf) of
                  Inl err \<Rightarrow> Inl err
                | Inr conf \<Rightarrow>
                    (case base64_decode (mz_DeviceKey conf) of
                       None \<Rightarrow> Inl (Errorf ''decode device key error'')
                     | Some key \<Rightarrow>
                         Inr (azure_of conf key (mz_SASTokenExpiration conf) \<lparr>tl_RootCAs = Some roots, tl_Certificates = []\<rparr>))))"

definition azure_Init :: "AzureAuthentication \<Rightarrow> client_options \<Rightarrow> client_options" where
  "azure_Init a opts =
     opts\<lparr>opt_Brokers := opt_Brokers opts @ [''ssl://'' @ az_hostname a @ '':8883''], opt_Username := az_username a,
          opt_ClientID := az_clientID a, opt_TLS := Some (az_tlsConfig a)\<rparr>"

definition createSASToken :: "time \<Rightarrow> string \<Rightarrow> bytes \<Rightarrow> duration \<Rightarrow> string" where
  "createSASToken now uri deviceKey expiration =
     (let encoded = QueryEscape uri;
          ex = show_int (unix_seconds (now + expiration));
          hash = QueryEscape (base64_encode (hmac_sha256 deviceKey (string_bytes (encoded @ [CHR 0x0A] @ ex))))
      in ''SharedAccessSignature sr='' @ encoded @ ''&sig='' @ hash @ ''&se='' @ ex)"

definition azure_Update :: "time \<Rightarrow> AzureAuthentication \<Rightarrow> client_options \<Rightarrow> client_options" where
  "azure_Update now a opts =
     (case az_authType a of
        authTypeSymmetric \<Rightarrow>
          opts\<lparr>opt_Password := createSASToken now (az_hostname a @ ''/devices/'' @ az_clientID a) (az_deviceKey a) (az_sasTokenExpiration a)\<rparr>
      | authTypeX509 \<Rightarrow> opts)"

section \<open>The interface\<close>

datatype authentication =
    GenericAuth GenericAuthentication | GCPAuth GCPAuthentication | AzureAuth AzureAuthentication

fun auth_Init :: "authentication \<Rightarrow> client_options \<Rightarrow> client_options" where
  "auth_Init (GenericAuth a) opts = generic_Init a opts"
| "auth_Init (GCPAuth a) opts = gcp_Init a opts"
| "auth_Init (AzureAuth a) opts = azure_Init a opts"

fun GetGatewayID :: "lorawan_lib \<Rightarrow> authentication \<Rightarrow> eui64 option" where
  "GetGatewayID L (GenericAuth a) = generic_GetGatewayID L a"
| "GetGatewayID L (GCPAuth a) = None"
| "GetGatewayID L (AzureAuth a) = None"

fun auth_Update :: "auth_lib \<Rightarrow> time \<Rightarrow> time \<Rightarrow> authentication \<Rightarrow> client_options \<Rightarrow> client_options result" where
  "auth_Update A now now' (GenericAuth a) opts = Inr opts"
| "auth_Update A now now' (GCPAuth a) opts = gcp_Update A now now' a opts"
| "auth_Update A now now' (AzureAuth a) opts = Inr (azure_Update now a opts)"

fun ReconnectAfter :: "authentication \<Rightarrow> duration" where
  "ReconnectAfter (GenericAuth a) = 0"
| "ReconnectAfter (GCPAuth a) = gp_jwtExpiration a"
| "ReconnectAfter (AzureAuth a) = az_sasTokenExpiration a"

section \<open>Facts\<close>

lemma b64_val_char [simp]: "n < 64 \<Longrightarrow> b64_val (b64_char n) = Some n"
  by (auto simp: b64_val_def b64_char_def Let_def)

lemma b64_char_not: "n < 64 \<Longrightarrow> b64_char n \<noteq> CHR 0x0A" "n < 64 \<Longrightarrow> b64_char n \<noteq> CHR 0x0D"
proof -
  have "b64_val CHR 0x0A = None" "b64_val CHR 0x0D = None" by (simp_all add: b64_val_def)
  then show "n < 64 \<Longrightarrow> b64_char n \<noteq> CHR 0x0A" "n < 64 \<Longrightarrow> b64_char n \<noteq> CHR 0x0D"
    by (metis b64_val_char option.distinct(1))+
qed

lemma byte_bound: "unat (a :: byte) < 256"
  using unsigned_less[of a] by simp

lemma b64_parts:
  fixes a b c :: byte
  shows "unat a div 4 < 64" "unat a mod 4 * 16 < 64" "unat a mod 4 * 16 + unat b div 16 < 64" "unat b mod 16 * 4 < 64"
    "unat b mod 16 * 4 + unat c div 64 < 64" "unat c mod 64 < 64"
  using byte_bound[of a] byte_bound[of b] byte_bound[of c] by linarith+

lemma digits: "y < k \<Longrightarrow> (x * k + y) div k = x" "y < k \<Longrightarrow> (x * k + y) mod k = (y :: nat)"
  by simp_all

lemma b64_join:
  fixes a b c :: byte
  shows "unat a div 4 * 4 + (unat a mod 4 * 16 + unat b div 16) div 16 = unat a"
    "(unat a mod 4 * 16 + unat b div 16) mod 16 * 16 + (unat b mod 16 * 4 + unat c div 64) div 4 = unat b"
    "(unat b mod 16 * 4 + unat c div 64) mod 4 * 64 + unat c mod 64 = unat c"
    "unat a div 4 * 4 + unat a mod 4 * 16 div 16 = unat a"
    "(unat a mod 4 * 16 + unat b div 16) mod 16 * 16 + unat b mod 16 * 4 div 4 = unat b"
proof -
  have "unat b div 16 < 16" "unat c div 64 < 4" using byte_bound[of b] byte_bound[of c] by linarith+
  note d = digits(1)[OF this(1), of "unat a mod 4"] digits(2)[OF this(1), of "unat a mod 4"]
    digits(1)[OF this(2), of "unat b mod 16"] digits(2)[OF this(2), of "unat b mod 16"]
  show "unat a div 4 * 4 + (unat a mod 4 * 16 + unat b div 16) div 16 = unat a"
    "(unat a mod 4 * 16 + unat b div 16) mod 16 * 16 + (unat b mod 16 * 4 + unat c div 64) div 4 = unat b"
    "(unat b mod 16 * 4 + unat c div 64) mod 4 * 64 + unat c mod 64 = unat c"
    "unat a div 4 * 4 + unat a mod 4 * 16 div 16 = unat a"
    "(unat a mod 4 * 16 + unat b div 16) mod 16 * 16 + unat b mod 16 * 4 div 4 = unat b"
    unfolding d by simp_all
qed

lemma of_nat_join:
  fixes a :: byte
  shows "n = unat a \<Longrightarrow> (of_nat n :: byte) = a"
  by simp

lemma b64_quads_encode: "b64_quads (base64_encode bs) = Some bs"
proof (induction bs rule: base64_encode.induct)
  case (2 a)
  have "b64_val CHR ''='' = None" by (simp add: b64_val_def)
  then show ?case using of_nat_join[OF b64_join(4)[of a]] by (simp add: b64_parts del: of_nat_add of_nat_mult)
next
  case (3 a b)
  have "b64_val CHR ''='' = None" by (simp add: b64_val_def)
  then show ?case
    using of_nat_join[OF b64_join(1)[of a b]] of_nat_join[OF b64_join(5)[of a b]]
    by (simp add: b64_parts del: of_nat_add of_nat_mult)
next
  case (4 a b c bs)
  then show ?case
    using of_nat_join[OF b64_join(1)[of a b]] of_nat_join[OF b64_join(2)[of a b c]] of_nat_join[OF b64_join(3)[of b c]]
    by (simp add: b64_parts del: of_nat_add of_nat_mult)
qed simp

lemma base64_encode_chars: "CHR 0x0A \<notin> set (base64_encode bs)" "CHR 0x0D \<notin> set (base64_encode bs)"
  by (induction bs rule: base64_encode.induct) (simp_all add: b64_parts b64_char_not[symmetric])

lemma base64_roundtrip: "base64_decode (base64_encode bs) = Some bs"
proof -
  have "filter (\<lambda>c. c \<noteq> CHR 0x0A \<and> c \<noteq> CHR 0x0D) (base64_encode bs) = base64_encode bs"
    by (rule filter_True) (metis base64_encode_chars)
  then show ?thesis by (simp add: base64_decode_def b64_quads_encode)
qed

text \<open>Reading an escaped text.\<close>

fun query_unescape :: "string \<Rightarrow> string option" where
  "query_unescape [] = Some []"
| "query_unescape (c # cs) =
     (if c = CHR ''%''
      then (case cs of
              h # l # rest \<Rightarrow>
                (case (hex_val h, hex_val l) of
                   (Some x, Some y) \<Rightarrow> map_option (\<lambda>s. char_of (x * 16 + y) # s) (query_unescape rest)
                 | _ \<Rightarrow> None)
            | _ \<Rightarrow> None)
      else map_option (\<lambda>s. (if c = CHR ''+'' then CHR '' '' else c) # s) (query_unescape cs))"

lemma hex_val_upper: "n < 16 \<Longrightarrow> hex_val (upper_hex n) = Some n"
  by (auto simp: hex_val_def upper_hex_def Let_def)

lemma of_char_bound: "(of_char c :: nat) < 256"
  using of_char_mod_256[of c, where 'a = nat] by (metis mod_less_divisor zero_less_numeral)

lemma of_char_parts: "(of_char c :: nat) div 16 < 16" "(of_char c :: nat) mod 16 < 16"
  using of_char_bound[of c] by linarith+

lemma char_of_parts: "char_of ((of_char c :: nat) div 16 * 16 + of_char c mod 16) = c"
  by simp

lemma query_unescape_escape: "query_unescape (QueryEscape s) = Some s"
proof (induction s)
  case (Cons c s)
  have special: "\<not> unreserved CHR ''%''" "\<not> unreserved CHR ''+''" by (simp_all add: unreserved_def)
  consider "unreserved c" | "\<not> unreserved c" "c = CHR '' ''" | "\<not> unreserved c" "c \<noteq> CHR '' ''" by blast
  then show ?case
  proof cases
    case 1
    then have "c \<noteq> CHR ''%''" "c \<noteq> CHR ''+''" using special by auto
    with 1 Cons show ?thesis by simp
  next
    case 2
    then show ?thesis using Cons by simp
  next
    case 3
    then show ?thesis using Cons by (simp add: hex_val_upper of_char_parts)
  qed
qed simp

lemma upper_hex_unreserved: "n < 16 \<Longrightarrow> unreserved (upper_hex n)"
  by (auto simp: unreserved_def upper_hex_def Let_def)

lemma QueryEscape_chars: "c \<in> set (QueryEscape s) \<Longrightarrow> unreserved c \<or> c = CHR ''%'' \<or> c = CHR ''+''"
proof (induction s)
  case (Cons d s)
  then show ?case using upper_hex_unreserved[OF of_char_parts(1)] upper_hex_unreserved[OF of_char_parts(2)] by (auto split: if_splits)
qed simp

lemma QueryEscape_no_sep: "CHR ''&'' \<notin> set (QueryEscape s)" "CHR ''='' \<notin> set (QueryEscape s)"
  using QueryEscape_chars[of "CHR ''&''" s] QueryEscape_chars[of "CHR ''=''" s] by (auto simp: unreserved_def)

lemma show_nat_no_amp: "CHR ''&'' \<notin> set (show_nat n)"
proof (induction n rule: show_nat.induct)
  case (1 n)
  have "CHR ''&'' \<noteq> char_of (48 + m)" if "m < 10" for m :: nat
  proof
    assume "CHR ''&'' = char_of (48 + m)"
    then have "of_char CHR ''&'' = (of_char (char_of (48 + m) :: char) :: nat)" by simp
    then show False using that by simp
  qed
  then show ?case using 1 by (subst show_nat.simps) auto
qed

lemma show_int_no_amp: "CHR ''&'' \<notin> set (show_int i)"
  using show_nat_no_amp by (simp add: show_int_def)

text \<open>What a reader finds in a token: the resource, a signature over it and the time of expiry under a key, and
  that time.\<close>

definition sas_token :: "string \<Rightarrow> string \<Rightarrow> bytes \<Rightarrow> int \<Rightarrow> bool" where
  "sas_token token uri key ex \<longleftrightarrow> (\<exists>sr sig.
     split_at CHR ''&'' token = [''SharedAccessSignature sr='' @ sr, ''sig='' @ sig, ''se='' @ show_int ex] \<and>
     query_unescape sr = Some uri \<and>
     (\<exists>b. query_unescape sig = Some b \<and> base64_decode b = Some (hmac_sha256 key (string_bytes (sr @ [CHR 0x0A] @ show_int ex)))))"

lemma createSASToken_reads: "sas_token (createSASToken now uri key expiration) uri key (unix_seconds (now + expiration))"
proof -
  let ?ex = "show_int (unix_seconds (now + expiration))"
  let ?sig = "QueryEscape (base64_encode (hmac_sha256 key (string_bytes (QueryEscape uri @ [CHR 0x0A] @ ?ex))))"
  have token: "createSASToken now uri key expiration =
      (''SharedAccessSignature sr='' @ QueryEscape uri) @ CHR ''&'' # (''sig='' @ ?sig) @ CHR ''&'' # (''se='' @ ?ex)"
    by (simp add: createSASToken_def Let_def)
  have "split_at CHR ''&'' (createSASToken now uri key expiration) =
      [''SharedAccessSignature sr='' @ QueryEscape uri, ''sig='' @ ?sig, ''se='' @ ?ex]"
    unfolding token using QueryEscape_no_sep(1) show_int_no_amp by (subst split_at_append, simp)+ (simp add: split_at_no_sep)
  then show ?thesis unfolding sas_token_def using query_unescape_escape base64_roundtrip by blast
qed

definition azure_connection :: "string \<Rightarrow> string \<Rightarrow> bytes \<Rightarrow> string" where
  "azure_connection h d k = ''HostName='' @ h @ '';DeviceId='' @ d @ '';SharedAccessKey='' @ base64_encode k"

lemma split_first_at: "sep \<notin> set xs \<Longrightarrow> split_first sep (xs @ sep # ys) = Some (xs, ys)"
  by (induction xs) auto

lemma b64_char_no_semicolon: "n < 64 \<Longrightarrow> CHR '';'' \<noteq> b64_char n"
proof -
  have "b64_val CHR '';'' = None" by (simp add: b64_val_def)
  then show "n < 64 \<Longrightarrow> CHR '';'' \<noteq> b64_char n" by (metis b64_val_char option.distinct(1))
qed

lemma base64_encode_no_semicolon: "CHR '';'' \<notin> set (base64_encode bs)"
  by (induction bs rule: base64_encode.induct) (simp_all add: b64_parts b64_char_no_semicolon)

lemma parse_azure_connection:
  assumes "CHR '';'' \<notin> set h" "CHR '';'' \<notin> set d"
  shows "parseConnectionString (azure_connection h d k) =
    Inr [''HostName'' \<mapsto> h, ''DeviceId'' \<mapsto> d, ''SharedAccessKey'' \<mapsto> base64_encode k]"
proof -
  have conn: "azure_connection h d k = (''HostName='' @ h) @ CHR '';'' # (''DeviceId='' @ d) @ CHR '';'' # (''SharedAccessKey='' @ base64_encode k)"
    by (simp add: azure_connection_def)
  have "split_at CHR '';'' (azure_connection h d k) = [''HostName'' @ CHR ''='' # h, ''DeviceId'' @ CHR ''='' # d, ''SharedAccessKey'' @ CHR ''='' # base64_encode k]"
    unfolding conn using assms base64_encode_no_semicolon by (subst split_at_append, simp)+ (simp add: split_at_no_sep)
  then show ?thesis by (simp add: parseConnectionString_def)
qed

section \<open>Properties\<close>

text \<open>
  C35: the credentials for Azure IoT Hub.  A connection string gives the host, the device and the key, and
  every update sets a password whose three parts read back as the resource of the device, its
  expiry, and the HMAC-SHA256 signature of both under that key.  A configuration with a client certificate
  gets such a password too, under the empty key and expired at once, since the kind of credentials is
  never stored.
\<close>

theorem azure_credentials:
  assumes "al_AzureRootCAs A = Some roots" "mz_TLSCert conf = []" "mz_TLSKey conf = []"
    and "mz_DeviceConnectionString conf = azure_connection h d k" "CHR '';'' \<notin> set h" "CHR '';'' \<notin> set d"
  shows "(\<exists>a. NewAzureIoTHubAuthentication A conf = Inr a \<and> opt_Brokers (azure_Init a opts) = opt_Brokers opts @ [''ssl://'' @ h @ '':8883''] \<and>
      sas_token (opt_Password (azure_Update now a opts)) (h @ ''/devices/'' @ d) k (unix_seconds (now + mz_SASTokenExpiration conf))) \<and>
    (\<forall>conf a. (mz_TLSCert conf \<noteq> [] \<or> mz_TLSKey conf \<noteq> []) \<and> NewAzureIoTHubAuthentication A conf = Inr a \<longrightarrow>
      sas_token (opt_Password (azure_Update now a opts)) (mz_Hostname conf @ ''/devices/'' @ mz_DeviceID conf) [] (unix_seconds now))"
proof (rule conjI)
  have "mz_DeviceConnectionString conf \<noteq> []" using assms(4) by (simp add: azure_connection_def)
  then have "NewAzureIoTHubAuthentication A conf = Inr (azure_of (conf\<lparr>mz_DeviceID := d, mz_Hostname := h, mz_DeviceKey := base64_encode k\<rparr>) k
      (mz_SASTokenExpiration conf) \<lparr>tl_RootCAs = Some roots, tl_Certificates = []\<rparr>)"
    using assms parse_azure_connection[OF assms(5,6), of k] base64_roundtrip
    by (simp add: NewAzureIoTHubAuthentication_def apply_connection_def)
  then show "\<exists>a. NewAzureIoTHubAuthentication A conf = Inr a \<and> opt_Brokers (azure_Init a opts) = opt_Brokers opts @ [''ssl://'' @ h @ '':8883''] \<and>
      sas_token (opt_Password (azure_Update now a opts)) (h @ ''/devices/'' @ d) k (unix_seconds (now + mz_SASTokenExpiration conf))"
    using createSASToken_reads by (simp add: azure_of_def azure_Init_def azure_Update_def del: append.simps)
  have "sas_token (opt_Password (azure_Update now a opts)) (mz_Hostname conf @ ''/devices/'' @ mz_DeviceID conf) [] (unix_seconds now)"
    if tls: "mz_TLSCert conf \<noteq> [] \<or> mz_TLSKey conf \<noteq> []" "NewAzureIoTHubAuthentication A conf = Inr a" for conf a
  proof -
    obtain tls where "a = azure_of conf [] 0 tls"
      using tls assms(1) by (auto simp: NewAzureIoTHubAuthentication_def split: sum.splits)
    then show ?thesis
      using createSASToken_reads[of now "mz_Hostname conf @ ''/devices/'' @ mz_DeviceID conf" "[]" 0]
      by (simp add: azure_of_def azure_Update_def del: append.simps)
  qed
  then show "\<forall>conf a. (mz_TLSCert conf \<noteq> [] \<or> mz_TLSKey conf \<noteq> []) \<and> NewAzureIoTHubAuthentication A conf = Inr a \<longrightarrow>
      sas_token (opt_Password (azure_Update now a opts)) (mz_Hostname conf @ ''/devices/'' @ mz_DeviceID conf) [] (unix_seconds now)"
    by blast
qed

section \<open>Examples\<close>

definition auth_lib_example :: auth_lib where
  "auth_lib_example =
     \<lparr>al_ReadFile = (\<lambda>f. Inr []), al_LoadKeyPair = (\<lambda>c k. Inr []), al_ParseRSA = Inr, al_SignJWT = (\<lambda>k i e a. Inr []),
      al_AzureRootCAs = Some []\<rparr>"

definition azure_example :: mqtt_azure where
  "azure_example =
     \<lparr>mz_DeviceConnectionString = azure_connection ''hub'' ''gw'' [1, 2, 3, 4], mz_DeviceID = [], mz_Hostname = [], mz_DeviceKey = [],
      mz_SASTokenExpiration = hour, mz_TLSCert = [], mz_TLSKey = []\<rparr>"

definition options_example :: client_options where
  "options_example =
     \<lparr>opt_Brokers = [], opt_Username = [], opt_Password = [], opt_CleanSession = True, opt_ClientID = [], opt_TLS = None,
      opt_ProtocolVersion = 0, opt_AutoReconnect = True, opt_KeepAlive = 0, opt_MaxReconnectInterval = 0, opt_Will = None\<rparr>"

theorem azure_credentials_witness:
  "\<exists>a. NewAzureIoTHubAuthentication auth_lib_example azure_example = Inr a \<and>
     sas_token (opt_Password (azure_Update 0 a options_example)) (''hub'' @ ''/devices/'' @ ''gw'') [1, 2, 3, 4] 3600"
proof -
  have "al_AzureRootCAs auth_lib_example = Some []" "mz_TLSCert azure_example = []" "mz_TLSKey azure_example = []"
    "mz_DeviceConnectionString azure_example = azure_connection ''hub'' ''gw'' [1, 2, 3, 4]"
    "CHR '';'' \<notin> set ''hub''" "CHR '';'' \<notin> set ''gw''" by (simp_all add: auth_lib_example_def azure_example_def)
  note result = azure_credentials[OF this, of options_example 0]
  have "unix_seconds (0 + mz_SASTokenExpiration azure_example) = 3600" by (simp add: azure_example_def unix_seconds_def)
  then show ?thesis using result by metis
qed

end
