(* ===== verification/Mqtt_Integration.thy ===== *)
theory Mqtt_Integration
  imports Mqtt_Auth Gateway_Stats
begin

text \<open>
  The MQTT integration of the router, \<^verbatim>\<open>integration/mqtt/backend.go\<close> of the gateway bridge: the gateways whose commands are
  wanted and those that were subscribed, the loop that brings the second in line with the first, events and
  states to the broker, and commands from it.

  The MQTT client is a parameter: its calls are numbered, and the token of each call says whether the call completes
  in time, with which error, and whether the broker acted on it.  What the model keeps of the broker are the topics
  of the client's session and the publications.  The loop takes one step to compare the two sets and one for each
  gateway, holding the lock of the second set in between; changes of the first set, losses and renewals of the connection
  come between these steps.  Topic templates and the encoding of messages are parameters.
\<close>

section \<open>State\<close>

type_synonym template = "(string \<times> string) list \<Rightarrow> string result"

record exec_response =
  er_GatewayId :: string
  er_ExecId :: u32
  er_Stdout :: bytes
  er_Stderr :: bytes
  er_Error :: "go_error option"

datatype proto_msg =
    ConnState string bool
  | PubMessage publication
  | PubStats gateway_stats
  | PubRaw string bytes
  | PubExec exec_response

record gateway_command =
  gc_GatewayId :: string
  gc_rest :: bytes

record codec =
  cd_Marshal :: "proto_msg \<Rightarrow> bytes result"
  cd_DownlinkFrame :: "bytes \<Rightarrow> downlink_frame result"
  cd_GatewayConfiguration :: "bytes \<Rightarrow> gateway_command result"
  cd_ExecRequest :: "bytes \<Rightarrow> gateway_command result"
  cd_RawCommand :: "bytes \<Rightarrow> gateway_command result"

record mqtt_lib =
  ml_L :: lorawan_lib
  ml_A :: auth_lib
  ml_Parse :: "string \<Rightarrow> template result"
  ml_json :: codec
  ml_protobuf :: codec
  ml_options :: client_options

record chirp_mqtt_full = chirp_mqtt +
  cm_GCPCloudIoTCore :: mqtt_gcp
  cm_AzureIoTHub :: mqtt_azure

datatype mqtt_callback =
    DownlinkFrameFunc | GatewayConfigurationFunc | GatewayCommandExecRequestFunc | RawPacketForwarderCommandFunc

datatype mqtt_call = CallDownlink downlink_frame | CallConfig gateway_command | CallExec gateway_command | CallRaw gateway_command

text \<open>\<open>mb_todo\<close> is what the loop still has to do while it holds its lock: the gateways to subscribe (\<open>True\<close>) and
  to unsubscribe; \<open>mb_pending\<close>: the connection was made and its handler has not run yet; \<open>mb_waiting\<close>: the loop that
  reconnects is asleep.\<close>

record mqtt_backend =
  mb_auth :: authentication
  mb_clientOpts :: client_options
  mb_hasConn :: bool
  mb_connected :: bool
  mb_connClosed :: bool
  mb_gateways :: "eui64 set"
  mb_gatewaysSubscribed :: "eui64 set"
  mb_terminateOnConnectError :: bool
  mb_stateRetained :: bool
  mb_qos :: u8
  mb_eventTopic :: template
  mb_stateTopic :: "template option"
  mb_commandTopic :: template
  mb_codec :: codec
  mb_funcs :: "mqtt_callback set"
  mb_calls :: "mqtt_call list"
  mb_broker :: "string set"
  mb_published :: "(string \<times> u8 \<times> bool \<times> bytes) list"
  mb_ops :: nat
  mb_todo :: "(bool \<times> eui64) list option"
  mb_pending :: bool
  mb_waiting :: bool

section \<open>Construction\<close>

text \<open>The credentials, and the settings with the topics that the two clouds prescribe.\<close>

definition mqtt_new_auth :: "mqtt_lib \<Rightarrow> chirp_mqtt_full \<Rightarrow> (authentication \<times> chirp_mqtt_full) result" where
  "mqtt_new_auth M conf =
     (if cm_AuthType conf = ''generic''
      then (case NewGenericAuthentication (ml_A M) (cm_Generic conf) of
              Inl err \<Rightarrow> Inl (Errorf ''integation/mqtt: new generic authentication error'')
            | Inr a \<Rightarrow> Inr (GenericAuth a, conf))
      else if cm_AuthType conf = ''gcp_cloud_iot_core''
      then (case NewGCPCloudIoTCoreAuthentication (ml_A M) (cm_GCPCloudIoTCore conf) of
              Inl err \<Rightarrow> Inl (Errorf ''integration/mqtt: new GCP Cloud IoT Core authentication error'')
            | Inr a \<Rightarrow> Inr (GCPAuth a, conf\<lparr>cm_EventTopicTemplate := ''/devices/gw-{{ .GatewayID }}/events/{{ .EventType }}'',
                cm_CommandTopicTemplate := ''/devices/gw-{{ .GatewayID }}/commands/#'', cm_StateTopicTemplate := []\<rparr>))
      else if cm_AuthType conf = ''azure_iot_hub''
      then (case NewAzureIoTHubAuthentication (ml_A M) (cm_AzureIoTHub conf) of
              Inl err \<Rightarrow> Inl (Errorf ''integration/mqtt: new azure iot hub authentication error'')
            | Inr a \<Rightarrow> Inr (AzureAuth a, conf\<lparr>cm_EventTopicTemplate := ''devices/{{ .GatewayID }}/messages/events/{{ .EventType }}'',
                cm_CommandTopicTemplate := ''devices/{{ .GatewayID }}/messages/devicebound/#'', cm_StateTopicTemplate := []\<rparr>))
      else Inl (Errorf ''integration/mqtt: unknown auth type''))"

definition mqtt_new_codec :: "mqtt_lib \<Rightarrow> string \<Rightarrow> codec result" where
  "mqtt_new_codec M marshaler =
     (if marshaler = ''json'' then Inr (ml_json M)
      else if marshaler = ''protobuf'' then Inr (ml_protobuf M)
      else Inl (Errorf ''integration/mqtt: unknown marshaler''))"

definition parse_topic :: "mqtt_lib \<Rightarrow> string \<Rightarrow> string \<Rightarrow> template result" where
  "parse_topic M err t = (case ml_Parse M t of Inl e \<Rightarrow> Inl (Errorf err) | Inr tmpl \<Rightarrow> Inr tmpl)"

definition parse_topics :: "mqtt_lib \<Rightarrow> chirp_mqtt_full \<Rightarrow> (template \<times> template option \<times> template) result" where
  "parse_topics M conf =
     (case parse_topic M ''integration/mqtt: parse event-topic template error'' (cm_EventTopicTemplate conf) of
        Inl err \<Rightarrow> Inl err
      | Inr ev \<Rightarrow>
          (case (if cm_StateTopicTemplate conf \<noteq> []
                 then map_sum (\<lambda>e. e) Some (parse_topic M ''integration/mqtt: parse state-topic template error'' (cm_StateTopicTemplate conf))
                 else Inr None) of
             Inl err \<Rightarrow> Inl err
           | Inr st \<Rightarrow>
               map_sum (\<lambda>e. e) (\<lambda>cmd. (ev, st, cmd))
                 (parse_topic M ''integration/mqtt: parse event-topic template error'' (cm_CommandTopicTemplate conf))))"

text \<open>A last will is set when the credentials name a gateway and there is a topic for states.\<close>

definition set_will :: "mqtt_lib \<Rightarrow> mqtt_backend \<Rightarrow> mqtt_backend result" where
  "set_will M b =
     (case GetGatewayID (ml_L M) (mb_auth b) of
        None \<Rightarrow> Inr b
      | Some g \<Rightarrow>
          let b = b\<lparr>mb_gateways := insert g (mb_gateways b)\<rparr>
          in case mb_stateTopic b of
               None \<Rightarrow> Inr b
             | Some t \<Rightarrow>
                 (case cd_Marshal (mb_codec b) (ConnState (eui_String (ml_L M) g) False) of
                    Inl err \<Rightarrow> Inl (Errorf ''marshal error'')
                  | Inr bb \<Rightarrow>
                      (case t [(''GatewayID'', eui_String (ml_L M) g), (''StateType'', ''conn'')] of
                         Inl err \<Rightarrow> Inl (Errorf ''execute state template error'')
                       | Inr topic \<Rightarrow>
                           Inr (b\<lparr>mb_clientOpts := (mb_clientOpts b)\<lparr>opt_Will := Some (topic, bb, mb_qos b, True)\<rparr>\<rparr>))))"

definition mqtt_NewBackend :: "mqtt_lib \<Rightarrow> chirp_mqtt_full \<Rightarrow> mqtt_backend result" where
  "mqtt_NewBackend M conf =
     (case mqtt_new_auth M conf of
        Inl err \<Rightarrow> Inl err
      | Inr (a, conf) \<Rightarrow>
          (case mqtt_new_codec M (cm_Marshaler conf) of
             Inl err \<Rightarrow> Inl err
           | Inr c \<Rightarrow>
               (case parse_topics M conf of
                  Inl err \<Rightarrow> Inl err
                | Inr (ev, st, cmd) \<Rightarrow>
                    let opts = (ml_options M)\<lparr>opt_ProtocolVersion := 4, opt_AutoReconnect := True, opt_KeepAlive := cm_KeepAlive conf,
                      opt_MaxReconnectInterval := cm_MaxReconnectInterval conf\<rparr>
                    in set_will M \<lparr>mb_auth = a, mb_clientOpts = auth_Init a opts, mb_hasConn = False, mb_connected = False,
                      mb_connClosed = False, mb_gateways = {}, mb_gatewaysSubscribed = {},
                      mb_terminateOnConnectError = cm_TerminateOnConnectError conf, mb_stateRetained = cm_StateRetained conf,
                      mb_qos = mg_QOS (cm_Generic conf), mb_eventTopic = ev, mb_stateTopic = st, mb_commandTopic = cmd, mb_codec = c,
                      mb_funcs = {}, mb_calls = [], mb_broker = {}, mb_published = [], mb_ops = 0, mb_todo = None,
                      mb_pending = False, mb_waiting = False\<rparr>)))"

definition mqtt_SetFunc :: "mqtt_callback \<Rightarrow> mqtt_backend \<Rightarrow> mqtt_backend" where
  "mqtt_SetFunc f b = b\<lparr>mb_funcs := insert f (mb_funcs b)\<rparr>"

section \<open>Calls of the client\<close>

record token =
  tk_completes :: bool
  tk_Error :: "go_error option"
  tk_effect :: bool

definition tokenWrapper :: "token \<Rightarrow> unit result" where
  "tokenWrapper t =
     (if \<not> tk_completes t then Inl (Errorf ''token wait timeout error'')
      else case tk_Error t of None \<Rightarrow> Inr () | Some err \<Rightarrow> Inl err)"

datatype mqtt_op = OpSubscribe string | OpUnsubscribe string | OpPublish string u8 bool bytes

text \<open>What a call does at the broker, if it gets there.\<close>

fun broker_effect :: "mqtt_op \<Rightarrow> mqtt_backend \<Rightarrow> mqtt_backend" where
  "broker_effect (OpSubscribe topic) b = b\<lparr>mb_broker := insert topic (mb_broker b)\<rparr>"
| "broker_effect (OpUnsubscribe topic) b = b\<lparr>mb_broker := mb_broker b - {topic}\<rparr>"
| "broker_effect (OpPublish topic qos retained pl) b = b\<lparr>mb_published := mb_published b @ [(topic, qos, retained, pl)]\<rparr>"

definition client_call :: "(nat \<Rightarrow> token) \<Rightarrow> mqtt_op \<Rightarrow> mqtt_backend \<Rightarrow> unit result \<times> mqtt_backend" where
  "client_call T ops b =
     (let t = T (mb_ops b); b = b\<lparr>mb_ops := Suc (mb_ops b)\<rparr>
      in (tokenWrapper t, if tk_effect t then broker_effect ops b else b))"

section \<open>Subscriptions, states and events\<close>

definition mqtt_SetGatewaySubscription :: "mqtt_lib \<Rightarrow> bool \<Rightarrow> eui64 \<Rightarrow> mqtt_backend \<Rightarrow> mqtt_backend" where
  "mqtt_SetGatewaySubscription M subscribe g b =
     (if GetGatewayID (ml_L M) (mb_auth b) = Some g then b
      else if subscribe then b\<lparr>mb_gateways := insert g (mb_gateways b)\<rparr>
      else b\<lparr>mb_gateways := mb_gateways b - {g}\<rparr>)"

definition command_topic :: "mqtt_lib \<Rightarrow> mqtt_backend \<Rightarrow> eui64 \<Rightarrow> string result" where
  "command_topic M b g = mb_commandTopic b [(''GatewayID'', eui_String (ml_L M) g)]"

definition subscribeGateway :: "mqtt_lib \<Rightarrow> (nat \<Rightarrow> token) \<Rightarrow> eui64 \<Rightarrow> mqtt_backend \<Rightarrow> unit result \<times> mqtt_backend" where
  "subscribeGateway M T g b =
     (case command_topic M b g of
        Inl err \<Rightarrow> (Inl (Errorf ''execute command topic template error''), b)
      | Inr topic \<Rightarrow>
          (case client_call T (OpSubscribe topic) b of
             (Inl err, b) \<Rightarrow> (Inl (Errorf ''subscribe topic error''), b)
           | (Inr _, b) \<Rightarrow> (Inr (), b)))"

definition unsubscribeGateway :: "mqtt_lib \<Rightarrow> (nat \<Rightarrow> token) \<Rightarrow> eui64 \<Rightarrow> mqtt_backend \<Rightarrow> unit result \<times> mqtt_backend" where
  "unsubscribeGateway M T g b =
     (case command_topic M b g of
        Inl err \<Rightarrow> (Inl (Errorf ''execute command topic template error''), b)
      | Inr topic \<Rightarrow>
          (case client_call T (OpUnsubscribe topic) b of
             (Inl err, b) \<Rightarrow> (Inl (Errorf ''unsubscribe topic error''), b)
           | (Inr _, b) \<Rightarrow> (Inr (), b)))"

definition PublishState ::
  "mqtt_lib \<Rightarrow> (nat \<Rightarrow> token) \<Rightarrow> eui64 \<Rightarrow> string \<Rightarrow> proto_msg \<Rightarrow> mqtt_backend \<Rightarrow> unit result \<times> mqtt_backend" where
  "PublishState M T g state v b =
     (case mb_stateTopic b of
        None \<Rightarrow> (Inr (), b)
      | Some t \<Rightarrow>
          (case t [(''GatewayID'', eui_String (ml_L M) g), (''StateType'', state)] of
             Inl err \<Rightarrow> (Inl (Errorf ''execute state template error''), b)
           | Inr topic \<Rightarrow>
               (case cd_Marshal (mb_codec b) v of
                  Inl err \<Rightarrow> (Inl (Errorf ''marshal message error''), b)
                | Inr bytes \<Rightarrow> client_call T (OpPublish topic (mb_qos b) (mb_stateRetained b) bytes) b)))"

text \<open>Before the first attempt to connect there is no client, and publishing an event panics.\<close>

definition publishEvent ::
  "mqtt_lib \<Rightarrow> (nat \<Rightarrow> token) \<Rightarrow> eui64 \<Rightarrow> string \<Rightarrow> proto_msg \<Rightarrow> mqtt_backend \<Rightarrow> (unit result \<times> mqtt_backend) go" where
  "publishEvent M T g event msg b =
     (case mb_eventTopic b [(''GatewayID'', eui_String (ml_L M) g), (''EventType'', event)] of
        Inl err \<Rightarrow> Ret (Inl (Errorf ''execute event template error''), b)
      | Inr topic \<Rightarrow>
          (case cd_Marshal (mb_codec b) msg of
             Inl err \<Rightarrow> Ret (Inl (Errorf ''marshal message error''), b)
           | Inr bytes \<Rightarrow>
               if \<not> mb_hasConn b then Panic else Ret (client_call T (OpPublish topic (mb_qos b) False bytes) b)))"

definition mqtt_PublishEvent ::
  "mqtt_lib \<Rightarrow> (nat \<Rightarrow> token) \<Rightarrow> eui64 \<Rightarrow> string \<Rightarrow> u32 \<Rightarrow> proto_msg \<Rightarrow> mqtt_backend \<Rightarrow> (unit result \<times> mqtt_backend) go" where
  "mqtt_PublishEvent M T g event i v b = publishEvent M T g event v b"

section \<open>The connection\<close>

text \<open>A new connection: a clean session starts without subscriptions.  \<open>t\<close> is the token of \<^verbatim>\<open>Connect\<close>, the
  two times are those the credentials read.\<close>

definition connected :: "mqtt_backend \<Rightarrow> mqtt_backend" where
  "connected b =
     b\<lparr>mb_connected := True, mb_pending := True,
       mb_broker := (if opt_CleanSession (mb_clientOpts b) then {} else mb_broker b)\<rparr>"

definition mqtt_connect :: "mqtt_lib \<Rightarrow> time \<Rightarrow> time \<Rightarrow> token \<Rightarrow> mqtt_backend \<Rightarrow> unit result \<times> mqtt_backend" where
  "mqtt_connect M now now' t b =
     (case auth_Update (ml_A M) now now' (mb_auth b) (mb_clientOpts b) of
        Inl err \<Rightarrow> (Inl (Errorf ''integration/mqtt: update authentication error''), b)
      | Inr opts \<Rightarrow>
          let b = b\<lparr>mb_clientOpts := opts, mb_hasConn := True, mb_connected := False\<rparr>
          in (tokenWrapper t, if tk_effect t then connected b else b))"

text \<open>The loop over attempts; \<open>None\<close>: it has not come to an end after the given ones.\<close>

fun connectLoop :: "mqtt_lib \<Rightarrow> (time \<times> time \<times> token) list \<Rightarrow> mqtt_backend \<Rightarrow> mqtt_backend go option" where
  "connectLoop M [] b = None"
| "connectLoop M ((now, now', t) # attempts) b =
     (case mqtt_connect M now now' t b of
        (Inl err, b) \<Rightarrow> if mb_terminateOnConnectError b then Some Panic else connectLoop M attempts b
      | (Inr _, b) \<Rightarrow> Some (Ret b))"

definition mqtt_disconnect :: "mqtt_backend \<Rightarrow> mqtt_backend" where
  "mqtt_disconnect b = b\<lparr>mb_connected := False\<rparr>"

text \<open>A round of the loop that reconnects: the check, and after the sleep the new connection.\<close>

definition reconnect_check :: "mqtt_backend \<Rightarrow> mqtt_backend" where
  "reconnect_check b = (if ReconnectAfter (mb_auth b) > 0 \<and> \<not> mb_connClosed b then b\<lparr>mb_waiting := True\<rparr> else b)"

definition reconnect_round :: "mqtt_lib \<Rightarrow> (time \<times> time \<times> token) list \<Rightarrow> mqtt_backend \<Rightarrow> mqtt_backend go option" where
  "reconnect_round M attempts b = connectLoop M attempts (mqtt_disconnect (b\<lparr>mb_waiting := False\<rparr>))"

definition onConnected :: "mqtt_backend \<Rightarrow> mqtt_backend" where
  "onConnected b = b\<lparr>mb_gatewaysSubscribed := {}, mb_pending := False\<rparr>"

definition onConnectionLost :: "mqtt_backend \<Rightarrow> mqtt_backend go" where
  "onConnectionLost b = (if mb_terminateOnConnectError b then Panic else Ret (b\<lparr>mb_connected := False\<rparr>))"

fun stop_states :: "mqtt_lib \<Rightarrow> (nat \<Rightarrow> token) \<Rightarrow> eui64 list \<Rightarrow> mqtt_backend \<Rightarrow> mqtt_backend" where
  "stop_states M T [] b = b"
| "stop_states M T (g # order) b =
     stop_states M T order (snd (PublishState M T g ''conn'' (ConnState (eui_String (ml_L M) g) False) b))"

text \<open>\<open>order\<close> is the order in which the gateways are ranged over.\<close>

definition mqtt_Stop :: "mqtt_lib \<Rightarrow> (nat \<Rightarrow> token) \<Rightarrow> eui64 list \<Rightarrow> mqtt_backend \<Rightarrow> mqtt_backend go" where
  "mqtt_Stop M T order b =
     (if \<not> mb_hasConn b then Panic
      else Ret ((stop_states M T order b)\<lparr>mb_connected := False, mb_connClosed := True\<rparr>))"

section \<open>The loop that subscribes\<close>

definition tick_begin :: "eui64 list \<Rightarrow> eui64 list \<Rightarrow> mqtt_backend \<Rightarrow> mqtt_backend" where
  "tick_begin order order' b =
     b\<lparr>mb_todo := Some (map (Pair True) (filter (\<lambda>g. g \<notin> mb_gatewaysSubscribed b) order) @
                      map (Pair False) (filter (\<lambda>g. g \<notin> mb_gateways b) order'))\<rparr>"

definition subscribe_one :: "mqtt_lib \<Rightarrow> (nat \<Rightarrow> token) \<Rightarrow> eui64 \<Rightarrow> mqtt_backend \<Rightarrow> mqtt_backend" where
  "subscribe_one M T g b =
     (case subscribeGateway M T g b of
        (Inl err, b) \<Rightarrow> b
      | (Inr _, b) \<Rightarrow>
          (case PublishState M T g ''conn'' (ConnState (eui_String (ml_L M) g) True) b of
             (Inl err, b) \<Rightarrow> b
           | (Inr _, b) \<Rightarrow> b\<lparr>mb_gatewaysSubscribed := insert g (mb_gatewaysSubscribed b)\<rparr>))"

definition unsubscribe_one :: "mqtt_lib \<Rightarrow> (nat \<Rightarrow> token) \<Rightarrow> eui64 \<Rightarrow> mqtt_backend \<Rightarrow> mqtt_backend" where
  "unsubscribe_one M T g b =
     (case unsubscribeGateway M T g b of
        (Inl err, b) \<Rightarrow> b
      | (Inr _, b) \<Rightarrow>
          (case PublishState M T g ''conn'' (ConnState (eui_String (ml_L M) g) False) b of
             (Inl err, b) \<Rightarrow> b
           | (Inr _, b) \<Rightarrow> b\<lparr>mb_gatewaysSubscribed := mb_gatewaysSubscribed b - {g}\<rparr>))"

definition tick_one :: "mqtt_lib \<Rightarrow> (nat \<Rightarrow> token) \<Rightarrow> bool \<Rightarrow> eui64 \<Rightarrow> mqtt_backend \<Rightarrow> mqtt_backend" where
  "tick_one M T subscribe g b = (if subscribe then subscribe_one M T g b else unsubscribe_one M T g b)"

text \<open>An undisturbed pass of the loop.\<close>

fun tick_rest :: "mqtt_lib \<Rightarrow> (nat \<Rightarrow> token) \<Rightarrow> (bool \<times> eui64) list \<Rightarrow> mqtt_backend \<Rightarrow> mqtt_backend" where
  "tick_rest M T [] b = b\<lparr>mb_todo := None\<rparr>"
| "tick_rest M T ((s, g) # rest) b = tick_rest M T rest (tick_one M T s g b)"

definition subscribe_pass :: "mqtt_lib \<Rightarrow> (nat \<Rightarrow> token) \<Rightarrow> eui64 list \<Rightarrow> eui64 list \<Rightarrow> mqtt_backend \<Rightarrow> mqtt_backend" where
  "subscribe_pass M T order order' b =
     (if mb_connClosed b \<or> \<not> mb_connected b then b
      else let b = tick_begin order order' b in tick_rest M T (the (mb_todo b)) b)"

section \<open>Commands\<close>

definition has_suffix :: "string \<Rightarrow> string \<Rightarrow> bool" where
  "has_suffix s suf \<longleftrightarrow> length suf \<le> length s \<and> drop (length s - length suf) s = suf"

fun contains :: "string \<Rightarrow> string \<Rightarrow> bool" where
  "contains [] sub \<longleftrightarrow> sub = []"
| "contains (c # cs) sub \<longleftrightarrow> take (length sub) (c # cs) = sub \<or> contains cs sub"

definition mqtt_callf :: "mqtt_callback \<Rightarrow> mqtt_call \<Rightarrow> mqtt_backend \<Rightarrow> mqtt_backend" where
  "mqtt_callf f c b = (if f \<in> mb_funcs b then b\<lparr>mb_calls := mb_calls b @ [c]\<rparr> else b)"

definition mqtt_handleDownlinkFrame :: "bytes \<Rightarrow> mqtt_backend \<Rightarrow> mqtt_backend" where
  "mqtt_handleDownlinkFrame payload b =
     (case cd_DownlinkFrame (mb_codec b) payload of
        Inl err \<Rightarrow> b
      | Inr df \<Rightarrow> if df_Items df = [] then b else mqtt_callf DownlinkFrameFunc (CallDownlink df) b)"

definition handleGatewayConfiguration :: "bytes \<Rightarrow> mqtt_backend \<Rightarrow> mqtt_backend" where
  "handleGatewayConfiguration payload b =
     (case cd_GatewayConfiguration (mb_codec b) payload of
        Inl err \<Rightarrow> b | Inr c \<Rightarrow> mqtt_callf GatewayConfigurationFunc (CallConfig c) b)"

definition handleGatewayCommandExecRequest :: "mqtt_lib \<Rightarrow> bytes \<Rightarrow> mqtt_backend \<Rightarrow> mqtt_backend" where
  "handleGatewayCommandExecRequest M payload b =
     (case cd_ExecRequest (mb_codec b) payload of
        Inl err \<Rightarrow> b
      | Inr c \<Rightarrow> if isl (eui_UnmarshalText (ml_L M) (gc_GatewayId c)) then b
                 else mqtt_callf GatewayCommandExecRequestFunc (CallExec c) b)"

definition handleRawPacketForwarderCommand :: "mqtt_lib \<Rightarrow> bytes \<Rightarrow> mqtt_backend \<Rightarrow> mqtt_backend" where
  "handleRawPacketForwarderCommand M payload b =
     (case cd_RawCommand (mb_codec b) payload of
        Inl err \<Rightarrow> b
      | Inr c \<Rightarrow> if isl (eui_UnmarshalText (ml_L M) (gc_GatewayId c)) then b
                 else mqtt_callf RawPacketForwarderCommandFunc (CallRaw c) b)"

definition handleCommand :: "mqtt_lib \<Rightarrow> string \<Rightarrow> bytes \<Rightarrow> mqtt_backend \<Rightarrow> mqtt_backend" where
  "handleCommand M topic payload b =
     (if has_suffix topic ''down'' \<or> contains topic ''command=down'' then mqtt_handleDownlinkFrame payload b
      else if has_suffix topic ''config'' \<or> contains topic ''command=config'' then handleGatewayConfiguration payload b
      else if has_suffix topic ''exec'' \<or> contains topic ''command=exec'' then handleGatewayCommandExecRequest M payload b
      else if has_suffix topic ''raw'' \<or> contains topic ''command=raw'' then handleRawPacketForwarderCommand M payload b
      else b)"

section \<open>The integration as a step relation\<close>

inductive mqtt_step :: "mqtt_lib \<Rightarrow> (nat \<Rightarrow> token) \<Rightarrow> mqtt_backend \<Rightarrow> mqtt_backend \<Rightarrow> bool" for M T where
  start: "\<not> mb_hasConn b \<Longrightarrow> connectLoop M attempts b = Some (Ret b') \<Longrightarrow> mqtt_step M T b b'"
| again: "reconnect_round M attempts b = Some (Ret b') \<Longrightarrow> mb_waiting b \<Longrightarrow> mqtt_step M T b b'"
| wait: "mqtt_step M T b (reconnect_check b)"
| recovered: "mb_hasConn b \<Longrightarrow> mqtt_step M T b (connected b)"
| lost: "onConnectionLost b = Ret b' \<Longrightarrow> mqtt_step M T b b'"
| handler: "mb_pending b \<Longrightarrow> mb_todo b = None \<Longrightarrow> mqtt_step M T b (onConnected b)"
| subscription: "mqtt_step M T b (mqtt_SetGatewaySubscription M s g b)"
| begins: "mb_todo b = None \<Longrightarrow> \<not> mb_connClosed b \<Longrightarrow> mb_connected b \<Longrightarrow>
    distinct order \<Longrightarrow> set order = mb_gateways b \<Longrightarrow> distinct order' \<Longrightarrow> set order' = mb_gatewaysSubscribed b \<Longrightarrow>
    mqtt_step M T b (tick_begin order order' b)"
| one: "mb_todo b = Some ((s, g) # rest) \<Longrightarrow> mqtt_step M T b ((tick_one M T s g b)\<lparr>mb_todo := Some rest\<rparr>)"
| ends: "mb_todo b = Some [] \<Longrightarrow> mqtt_step M T b (b\<lparr>mb_todo := None\<rparr>)"
| event: "mqtt_PublishEvent M T g ev i v b = Ret (r, b') \<Longrightarrow> mqtt_step M T b b'"
| command: "mqtt_step M T b (handleCommand M topic payload b)"
| stop: "mqtt_Stop M T order b = Ret b' \<Longrightarrow> mqtt_step M T b b'"

section \<open>Subscriptions at the broker\<close>

text \<open>What MQTT promises of an acknowledgement: the broker has acted on the call.  A call that fails or is not
  acknowledged in time may have taken effect or not.\<close>

definition acknowledged :: "(nat \<Rightarrow> token) \<Rightarrow> bool" where
  "acknowledged T \<longleftrightarrow> (\<forall>n. tokenWrapper (T n) = Inr () \<longrightarrow> tk_effect (T n))"

definition change_subscription :: "mqtt_lib \<Rightarrow> (nat \<Rightarrow> token) \<Rightarrow> bool \<Rightarrow> eui64 \<Rightarrow> mqtt_backend \<Rightarrow> unit result \<times> mqtt_backend" where
  "change_subscription M T s g b = (if s then subscribeGateway M T g b else unsubscribeGateway M T g b)"

definition publish_conn :: "mqtt_lib \<Rightarrow> (nat \<Rightarrow> token) \<Rightarrow> bool \<Rightarrow> eui64 \<Rightarrow> mqtt_backend \<Rightarrow> unit result \<times> mqtt_backend" where
  "publish_conn M T s g b = PublishState M T g ''conn'' (ConnState (eui_String (ml_L M) g) s) b"

definition topics_distinct :: "mqtt_lib \<Rightarrow> mqtt_backend \<Rightarrow> bool" where
  "topics_distinct M b \<longleftrightarrow> (\<forall>g h t. command_topic M b g = Inr t \<and> command_topic M b h = Inr t \<longrightarrow> g = h)"

definition listens :: "mqtt_lib \<Rightarrow> mqtt_backend \<Rightarrow> eui64 \<Rightarrow> bool" where
  "listens M b g \<longleftrightarrow> (\<exists>t \<in> mb_broker b. command_topic M b g = Inr t)"

definition todo_of :: "mqtt_backend \<Rightarrow> (bool \<times> eui64) list" where
  "todo_of b = (case mb_todo b of None \<Rightarrow> [] | Some td \<Rightarrow> td)"

text \<open>A gateway is resolved when the loop is not about to change its subscription and the broker agrees with the mark;
  between a new connection and its handler, which takes all marks away, when the broker does not have it.\<close>

definition resolved :: "mqtt_lib \<Rightarrow> mqtt_backend \<Rightarrow> eui64 \<Rightarrow> bool" where
  "resolved M b g \<longleftrightarrow> g \<notin> snd ` set (todo_of b) \<and>
     (if mb_pending b then \<not> listens M b g else listens M b g \<longleftrightarrow> g \<in> mb_gatewaysSubscribed b)"

text \<open>The gateways in doubt after a step: those that were in doubt or came or went in the step, as long as they are
  not resolved.\<close>

definition doubts :: "mqtt_lib \<Rightarrow> mqtt_backend \<Rightarrow> mqtt_backend \<Rightarrow> eui64 set \<Rightarrow> eui64 set" where
  "doubts M b b' D = {g. (g \<in> D \<or> (g \<in> mb_gateways b) \<noteq> (g \<in> mb_gateways b')) \<and> \<not> resolved M b' g}"

text \<open>Any run, with the gateways in doubt at its end.\<close>

inductive mqtt_run :: "mqtt_lib \<Rightarrow> (nat \<Rightarrow> token) \<Rightarrow> mqtt_backend \<Rightarrow> eui64 set \<Rightarrow> mqtt_backend \<Rightarrow> bool" for M T b0 where
  run_refl: "mqtt_run M T b0 {} b0"
| run_step: "mqtt_run M T b0 D b \<Longrightarrow> mqtt_step M T b b' \<Longrightarrow> mqtt_run M T b0 (doubts M b b' D) b'"

text \<open>Nothing is subscribed yet, and the client asks for a clean session.\<close>

definition mqtt_fresh :: "mqtt_backend \<Rightarrow> bool" where
  "mqtt_fresh b \<longleftrightarrow> mb_gatewaysSubscribed b = {} \<and> mb_broker b = {} \<and> mb_todo b = None \<and> opt_CleanSession (mb_clientOpts b)"

lemma NewBackend_fresh:
  assumes "mqtt_NewBackend M conf = Inr b" "opt_CleanSession (mb_clientOpts b)"
  shows "mqtt_fresh b"
  using assms by (auto simp: mqtt_NewBackend_def set_will_def mqtt_fresh_def Let_def split: sum.splits option.splits prod.splits)

text \<open>What the calls of the client leave alone.\<close>

definition same :: "mqtt_backend \<Rightarrow> mqtt_backend \<Rightarrow> bool" where
  "same b b' \<longleftrightarrow> mb_gatewaysSubscribed b' = mb_gatewaysSubscribed b \<and> mb_gateways b' = mb_gateways b \<and>
     mb_pending b' = mb_pending b \<and> mb_commandTopic b' = mb_commandTopic b \<and> mb_stateTopic b' = mb_stateTopic b \<and>
     mb_codec b' = mb_codec b \<and> mb_todo b' = mb_todo b \<and> mb_connected b' = mb_connected b \<and> mb_connClosed b' = mb_connClosed b \<and>
     mb_auth b' = mb_auth b \<and> mb_clientOpts b' = mb_clientOpts b"

lemma same_refl [simp]: "same b b"
  by (simp add: same_def)

lemma same_trans: "same b b' \<Longrightarrow> same b' b'' \<Longrightarrow> same b b''"
  by (simp add: same_def)

lemma same_client: "same b (snd (client_call T p b))"
  by (cases p) (simp_all add: client_call_def same_def Let_def)

lemma client_call_result: "fst (client_call T p b) = tokenWrapper (T (mb_ops b))"
  by (simp add: client_call_def Let_def)

lemma change_subscription_eq:
  "change_subscription M T s g b =
     (case command_topic M b g of
        Inl err \<Rightarrow> (Inl (Errorf ''execute command topic template error''), b)
      | Inr t \<Rightarrow>
          let p = client_call T (if s then OpSubscribe t else OpUnsubscribe t) b
          in (map_sum (\<lambda>e. Errorf (if s then ''subscribe topic error'' else ''unsubscribe topic error'')) (\<lambda>u. u) (fst p), snd p))"
  by (auto simp: change_subscription_def subscribeGateway_def unsubscribeGateway_def Let_def split: sum.split prod.split)

lemma same_change: "same b (snd (change_subscription M T s g b))"
  by (simp add: change_subscription_eq same_client Let_def split: sum.split)

lemma same_publish: "same b (snd (publish_conn M T s g b))"
  by (simp add: publish_conn_def PublishState_def same_client split: option.split sum.split)

lemma publish_broker: "mb_broker (snd (publish_conn M T s g b)) = mb_broker b"
  by (simp add: publish_conn_def PublishState_def client_call_def Let_def split: option.split sum.split)

definition with_topic :: "bool \<Rightarrow> string \<Rightarrow> string set \<Rightarrow> string set" where
  "with_topic s t B = (if s then insert t B else B - {t})"

lemma change_broker:
  assumes "acknowledged T" "change_subscription M T s g b = (r, b1)"
  obtains (idle) "r \<noteq> Inr ()" "mb_broker b1 = mb_broker b"
    | (effect) t where "command_topic M b g = Inr t" "mb_broker b1 = with_topic s t (mb_broker b)"
proof (cases "command_topic M b g")
  case (Inl e)
  then show thesis using idle assms(2) by (auto simp: change_subscription_eq)
next
  case (Inr t)
  show thesis
  proof (cases "tk_effect (T (mb_ops b))")
    case True
    then show thesis using effect[OF Inr] Inr assms(2) by (auto simp: change_subscription_eq client_call_def with_topic_def Let_def)
  next
    case False
    then have "tokenWrapper (T (mb_ops b)) \<noteq> Inr ()" using assms(1) by (auto simp: acknowledged_def)
    then show thesis using idle False Inr assms(2)
      by (cases "tokenWrapper (T (mb_ops b))") (auto simp: change_subscription_eq client_call_def Let_def)
  qed
qed

definition mark :: "bool \<Rightarrow> eui64 \<Rightarrow> mqtt_backend \<Rightarrow> mqtt_backend" where
  "mark s g b = b\<lparr>mb_gatewaysSubscribed := (if s then insert g (mb_gatewaysSubscribed b) else mb_gatewaysSubscribed b - {g})\<rparr>"

lemma tick_one_eq:
  "tick_one M T s g b =
     (case change_subscription M T s g b of
        (Inl err, b) \<Rightarrow> b
      | (Inr _, b) \<Rightarrow> (case publish_conn M T s g b of (Inl err, b) \<Rightarrow> b | (Inr _, b) \<Rightarrow> mark s g b))"
  by (simp add: tick_one_def subscribe_one_def unsubscribe_one_def change_subscription_def publish_conn_def mark_def split: prod.split sum.split)





section \<open>The invariant\<close>















lemma stop_states_same: "same b (stop_states M T order b) \<and> mb_broker (stop_states M T order b) = mb_broker b"
proof (induction order arbitrary: b)
  case (Cons g order)
  let ?b = "snd (PublishState M T g ''conn'' (ConnState (eui_String (ml_L M) g) False) b)"
  have "same b ?b" "mb_broker ?b = mb_broker b"
    using same_publish[of b M T False g] publish_broker[of M T False g b] by (simp_all add: publish_conn_def)
  then show ?case using Cons[of ?b] same_trans by simp
qed simp

lemma callf_frame: "same b (mqtt_callf f c b) \<and> mb_broker (mqtt_callf f c b) = mb_broker b"
  by (simp add: mqtt_callf_def same_def)

lemma command_frame:
  "same b (handleCommand M topic pl b)" "mb_broker (handleCommand M topic pl b) = mb_broker b"
  by (simp_all add: handleCommand_def mqtt_handleDownlinkFrame_def handleGatewayConfiguration_def handleGatewayCommandExecRequest_def
      handleRawPacketForwarderCommand_def callf_frame split: sum.split)

lemma PublishEvent_frame:
  assumes "mqtt_PublishEvent M T g ev i v b = Ret (r, b')"
  shows "same b b' \<and> mb_broker b' = mb_broker b"
  using assms by (auto simp: mqtt_PublishEvent_def publishEvent_def client_call_def same_def Let_def split: sum.splits if_splits)










text \<open>The gateways in doubt are never resolved, and the credentials stay.\<close>

lemma run_unresolved: "mqtt_run M T b0 D b \<Longrightarrow> g \<in> D \<Longrightarrow> \<not> resolved M b g"
  by (cases rule: mqtt_run.cases) (auto simp: doubts_def)

lemma run_stays: "mqtt_run M T b0 D b \<Longrightarrow> mqtt_run M T b0 (doubts M b b D) b"
proof -
  assume run: "mqtt_run M T b0 D b"
  then have "doubts M b b D = D" using run_unresolved by (fastforce simp: doubts_def)
  then show ?thesis using run by simp
qed

lemma connectLoop_auth: "connectLoop M attempts b = Some (Ret b') \<Longrightarrow> mb_auth b' = mb_auth b"
proof (induction attempts arbitrary: b)
  case (Cons a attempts)
  obtain now now' t where a: "a = (now, now', t)" by (cases a)
  obtain r b1 where con: "mqtt_connect M now now' t b = (r, b1)" by fastforce
  then have "mb_auth b1 = mb_auth b" by (auto simp: mqtt_connect_def connected_def Let_def split: sum.splits if_splits)
  then show ?case using Cons a con by (auto split: sum.splits if_splits)
qed simp

lemma tick_one_auth: "mb_auth (tick_one M T s g b) = mb_auth b"
proof -
  obtain r b1 where ch: "change_subscription M T s g b = (r, b1)" by fastforce
  obtain r2 b2 where pub: "publish_conn M T s g b1 = (r2, b2)" by fastforce
  have "mb_auth b1 = mb_auth b" "mb_auth b2 = mb_auth b1"
    using same_change[of b M T s g] same_publish[of b1 M T s g] ch pub by (simp_all add: same_def)
  then show ?thesis using ch pub by (simp add: tick_one_eq mark_def split: sum.split)
qed

lemma step_auth:
  assumes "mqtt_step M T b b'"
  shows "mb_auth b' = mb_auth b"
  using assms
proof cases
  case (event g ev i v r)
  then show ?thesis using PublishEvent_frame same_def by blast
next
  case (stop order)
  then show ?thesis using stop_states_same[of b M T order] by (auto simp: mqtt_Stop_def same_def split: if_splits)
next
  case (command topic payload)
  then show ?thesis using command_frame(1)[of b M topic payload] by (simp add: same_def)
qed (auto simp: reconnect_round_def mqtt_disconnect_def reconnect_check_def connected_def onConnectionLost_def onConnected_def
  mqtt_SetGatewaySubscription_def tick_begin_def tick_one_auth dest: connectLoop_auth split: if_splits)

lemma run_auth: "mqtt_run M T b0 D b \<Longrightarrow> mb_auth b = mb_auth b0"
  by (induction rule: mqtt_run.induct) (simp_all add: step_auth)

section \<open>Passes of the loop\<close>

lemma distinct_filter_single: "distinct xs \<Longrightarrow> x \<in> set xs \<Longrightarrow> filter (\<lambda>y. y = x) xs = [x]"
  by (induction xs) (auto simp: filter_empty_conv)

text \<open>Every gateway has a command topic, and its state can be written.\<close>

definition able :: "mqtt_lib \<Rightarrow> mqtt_backend \<Rightarrow> bool" where
  "able M b \<longleftrightarrow> (\<forall>g. \<exists>t. command_topic M b g = Inr t) \<and>
     (\<forall>tmpl. mb_stateTopic b = Some tmpl \<longrightarrow>
        (\<forall>g s. (\<exists>t. tmpl [(''GatewayID'', eui_String (ml_L M) g), (''StateType'', ''conn'')] = Inr t) \<and>
          (\<exists>bs. cd_Marshal (mb_codec b) (ConnState (eui_String (ml_L M) g) s) = Inr bs)))"


lemma ops_client: "mb_ops (snd (client_call T p b)) = Suc (mb_ops b)"
  by (cases p) (simp_all add: client_call_def Let_def)





text \<open>The step that leaves a gateway marked: its topic is unsubscribed, and its state is not published.\<close>

lemma tick_one_unpublished:
  assumes "command_topic M b g = Inr t" "able M b" "mb_stateTopic b = Some tmpl"
    and "acknowledged T" "tokenWrapper (T (mb_ops b)) = Inr ()" "tokenWrapper (T (Suc (mb_ops b))) = Inl e"
  shows "same b (tick_one M T False g b) \<and> mb_broker (tick_one M T False g b) = mb_broker b - {t}"
proof -
  have "fst (change_subscription M T False g b) = Inr ()"
    using assms(5) by (simp add: change_subscription_eq assms(1) Let_def client_call_result)
  then obtain b1 where ch: "change_subscription M T False g b = (Inr (), b1)" by (cases "change_subscription M T False g b") simp
  have ops: "mb_ops b1 = Suc (mb_ops b)"
    using arg_cong[OF ch, of snd] by (auto simp: change_subscription_eq assms(1) Let_def ops_client)
  have b1: "same b b1" using same_change[of b M T False g] ch by simp
  have broker: "mb_broker b1 = mb_broker b - {t}"
    using assms(4) ch by (cases rule: change_broker) (use assms(1) in \<open>simp_all add: with_topic_def\<close>)
  have state: "mb_stateTopic b1 = Some tmpl" "mb_codec b1 = mb_codec b" using b1 assms(3) by (simp_all add: same_def)
  then obtain t' bs where "tmpl [(''GatewayID'', eui_String (ml_L M) g), (''StateType'', ''conn'')] = Inr t'"
    "cd_Marshal (mb_codec b1) (ConnState (eui_String (ml_L M) g) False) = Inr bs"
    using assms(2,3) unfolding able_def by metis
  then have "fst (publish_conn M T False g b1) = Inl e"
    using state assms(6) ops by (simp add: publish_conn_def PublishState_def client_call_result)
  then have "tick_one M T False g b = snd (publish_conn M T False g b1)" using ch by (cases "publish_conn M T False g b1") (simp add: tick_one_eq)
  then show ?thesis using same_trans[OF b1 same_publish] publish_broker broker by simp
qed





lemma client_funcs:
  "mb_funcs (snd (client_call T p b)) = mb_funcs b" "mb_codec (snd (client_call T p b)) = mb_codec b"
  by (cases p; simp add: client_call_def Let_def)+

lemma tick_one_funcs: "mb_funcs (tick_one M T s g b) = mb_funcs b \<and> mb_codec (tick_one M T s g b) = mb_codec b"
proof -
  obtain r b1 where 1: "change_subscription M T s g b = (r, b1)" by fastforce
  have b1: "mb_funcs b1 = mb_funcs b" "mb_codec b1 = mb_codec b"
    using arg_cong[OF 1, of snd] by (auto simp: change_subscription_eq Let_def client_funcs split: sum.splits)
  obtain r' b2 where 2: "publish_conn M T s g b1 = (r', b2)" by fastforce
  have b2: "mb_funcs b2 = mb_funcs b1" "mb_codec b2 = mb_codec b1"
    using arg_cong[OF 2, of snd] by (auto simp: publish_conn_def PublishState_def client_funcs split: option.splits sum.splits)
  show ?thesis using b1 b2 by (simp add: tick_one_eq 1 2 mark_def split: sum.split)
qed

lemma subscribe_pass_funcs:
  "mb_funcs (subscribe_pass M T order order' b) = mb_funcs b \<and> mb_codec (subscribe_pass M T order order' b) = mb_codec b"
proof -
  have "mb_funcs (tick_rest M T todo b) = mb_funcs b \<and> mb_codec (tick_rest M T todo b) = mb_codec b" for todo and b :: mqtt_backend
    by (induction todo arbitrary: b) (auto simp: tick_one_funcs)
  then show ?thesis by (simp add: subscribe_pass_def tick_begin_def Let_def)
qed

section \<open>Properties\<close>


text \<open>
  C33: a state that cannot be published loses the commands of a gateway.  When a gateway leaves, its topic is
  unsubscribed, and the publication of its state fails, it stays marked; if it comes back before the next pass, it is wanted and
  marked, its topic is not subscribed, and every further pass finds nothing to do, until the connection is renewed.
\<close>

theorem mqtt_lost_subscription:
  assumes "mb_connected b" "\<not> mb_connClosed b" "mb_todo b = None" "mb_gatewaysSubscribed b = mb_gateways b" "g \<in> mb_gateways b"
    and "GetGatewayID (ml_L M) (mb_auth b) \<noteq> Some g" "command_topic M b g = Inr t" "able M b" "mb_stateTopic b = Some tmpl"
    and "acknowledged T" "tokenWrapper (T (mb_ops b)) = Inr ()" "tokenWrapper (T (Suc (mb_ops b))) = Inl e"
    and "set order = mb_gateways b - {g}" "distinct order'" "set order' = mb_gateways b"
    and "b3 = mqtt_SetGatewaySubscription M True g
           (subscribe_pass M T order order' (mqtt_SetGatewaySubscription M False g b))"
  shows "g \<in> mb_gateways b3 \<and> g \<in> mb_gatewaysSubscribed b3 \<and> t \<notin> mb_broker b3 \<and>
    (\<forall>T' order order'. set order = mb_gateways b3 \<and> set order' = mb_gatewaysSubscribed b3 \<longrightarrow> subscribe_pass M T' order order' b3 = b3)"
proof -
  let ?b1 = "mqtt_SetGatewaySubscription M False g b"
  let ?b2 = "tick_begin order order' ?b1"
  have b1: "?b1 = b\<lparr>mb_gateways := mb_gateways b - {g}\<rparr>" using assms(6) by (simp add: mqtt_SetGatewaySubscription_def)
  have "filter (\<lambda>h. h \<notin> mb_gateways b - {g}) order' = [g]"
  proof -
    have "filter (\<lambda>h. h \<notin> mb_gateways b - {g}) order' = filter (\<lambda>h. h = g) order'" using assms(15) by (intro filter_cong) auto
    also have "\<dots> = [g]" using assms(5,14,15) distinct_filter_single by fastforce
    finally show ?thesis .
  qed
  moreover have "filter (\<lambda>h. h \<notin> mb_gateways b) order = []" using assms(13) by (simp add: filter_empty_conv)
  ultimately have bgn: "?b2 = b\<lparr>mb_gateways := mb_gateways b - {g}, mb_todo := Some [(False, g)]\<rparr>"
    using assms(4) by (simp add: b1 tick_begin_def)
  let ?d = "tick_one M T False g ?b2"
  have d: "same ?b2 ?d \<and> mb_broker ?d = mb_broker ?b2 - {t}"
    by (rule tick_one_unpublished[OF _ _ _ assms(10), where tmpl = tmpl])
      (use assms(7-9,11,12) in \<open>simp_all add: bgn able_def command_topic_def\<close>)
  have "subscribe_pass M T order order' ?b1 = ?d\<lparr>mb_todo := None\<rparr>"
    using assms(1,2) bgn by (simp add: subscribe_pass_def b1 Let_def)
  then have b3: "b3 = ?d\<lparr>mb_todo := None, mb_gateways := insert g (mb_gateways ?d)\<rparr>"
    using assms(6,16) d bgn by (simp add: mqtt_SetGatewaySubscription_def same_def)
  have sel: "mb_gateways b3 = mb_gateways b" "mb_gatewaysSubscribed b3 = mb_gateways b" "mb_broker b3 = mb_broker b - {t}"
    "mb_todo b3 = None" using d bgn assms(4,5) by (auto simp: b3 same_def)
  have "subscribe_pass M T' xs ys b3 = b3" if "set xs = mb_gateways b3" "set ys = mb_gatewaysSubscribed b3" for T' xs ys
  proof -
    have "filter (\<lambda>g. g \<notin> mb_gatewaysSubscribed b3) xs = []" "filter (\<lambda>g. g \<notin> mb_gateways b3) ys = []"
      using that sel by (auto simp: filter_empty_conv)
    then have "tick_begin xs ys b3 = b3\<lparr>mb_todo := Some []\<rparr>" by (simp add: tick_begin_def)
    moreover have "b3\<lparr>mb_todo := None\<rparr> = b3" using sel(4) by simp
    ultimately show ?thesis by (simp add: subscribe_pass_def)
  qed
  then show ?thesis using sel assms(5) by simp
qed

section \<open>Examples\<close>

definition codec_example :: codec where
  "codec_example = \<lparr>cd_Marshal = (\<lambda>m. Inr []), cd_DownlinkFrame = (\<lambda>b. Inr \<lparr>df_DownlinkId = 1, df_DownlinkIdLegacy = [],
       df_Items = [\<lparr>di_PhyPayload = [], di_TxInfo = None\<rparr>], df_GatewayId = map byte_char b\<rparr>), cd_GatewayConfiguration = (\<lambda>b. Inl (Errorf [])),
     cd_ExecRequest = (\<lambda>b. Inl (Errorf [])), cd_RawCommand = (\<lambda>b. Inl (Errorf []))\<rparr>"

definition mqtt_lib_example :: mqtt_lib where
  "mqtt_lib_example = \<lparr>ml_L = lorawan_hex, ml_A = auth_lib_example, ml_Parse = (\<lambda>t. Inr (\<lambda>fs. Inr (t @ concat (map snd fs)))),
     ml_json = codec_example, ml_protobuf = codec_example, ml_options = options_example\<rparr>"

definition mqtt_conf_example :: chirp_mqtt_full where
  "mqtt_conf_example =
     \<lparr>cm_EventTopicTemplate = ''e'', cm_CommandTopicTemplate = ''c'', cm_StateTopicTemplate = ''s'', cm_StateRetained = False, cm_KeepAlive = 0,
      cm_MaxReconnectInterval = 0, cm_TerminateOnConnectError = False, cm_MaxTokenWait = second, cm_AuthType = ''generic'',
      cm_Generic = \<lparr>mg_Server = [], mg_Servers = [''b''], mg_Username = [], mg_Password = [], mg_CACert = [], mg_TLSCert = [], mg_TLSKey = [],
        mg_QOS = 0, mg_CleanSession = True, mg_ClientID = []\<rparr>, cm_Marshaler = ''json'',
      cm_GCPCloudIoTCore = \<lparr>mp_Server = [], mp_DeviceID = [], mp_ProjectID = [], mp_CloudRegion = [], mp_RegistryID = [], mp_JWTExpiration = 0,
        mp_JWTKeyFile = []\<rparr>, cm_AzureIoTHub = azure_example\<rparr>"

definition mqtt_example :: mqtt_backend where
  "mqtt_example = mqtt_SetFunc DownlinkFrameFunc (projr (mqtt_NewBackend mqtt_lib_example mqtt_conf_example))"

lemmas mqtt_example_defs = mqtt_lib_example_def mqtt_conf_example_def mqtt_NewBackend_def mqtt_new_auth_def mqtt_new_codec_def
  NewGenericAuthentication_def newTLSConfig_def parse_topics_def parse_topic_def set_will_def generic_GetGatewayID_def

lemma mqtt_example_new: "\<exists>b. mqtt_NewBackend mqtt_lib_example mqtt_conf_example = Inr b \<and> mqtt_example = mqtt_SetFunc DownlinkFrameFunc b"
  by (simp add: mqtt_example_def mqtt_example_defs)

lemma mqtt_example_sel:
  "mb_commandTopic mqtt_example = (\<lambda>fs. Inr (''c'' @ concat (map snd fs)))" "mb_stateTopic mqtt_example = Some (\<lambda>fs. Inr (''s'' @ concat (map snd fs)))"
  "mb_gateways mqtt_example = {}" "mb_gatewaysSubscribed mqtt_example = {}" "\<not> mb_connClosed mqtt_example" "mb_todo mqtt_example = None"
  "\<not> mb_hasConn mqtt_example" "mb_codec mqtt_example = codec_example" "GetGatewayID L (mb_auth mqtt_example) = None" "mb_ops mqtt_example = 0"
  "auth_Update A now now' (mb_auth mqtt_example) opts = Inr opts" "DownlinkFrameFunc \<in> mb_funcs mqtt_example" "\<not> mb_pending mqtt_example"
  by (simp_all add: mqtt_example_def mqtt_example_defs mqtt_SetFunc_def generic_GetGatewayID_def)

definition ok_token :: token where
  "ok_token = \<lparr>tk_completes = True, tk_Error = None, tk_effect = True\<rparr>"


lemma ok_token_acked [simp]: "tokenWrapper ok_token = Inr ()" "tk_effect ok_token"
  by (simp_all add: ok_token_def tokenWrapper_def)






lemma topics_example: "topics_distinct mqtt_lib_example mqtt_example" "able mqtt_lib_example mqtt_example"
proof -
  have "eui_String lorawan_hex g = eui_String lorawan_hex h \<Longrightarrow> g = h" for g h
    using lorawan_hex_ok unfolding lorawan_ok_def by (metis sum.inject(2))
  then show "topics_distinct mqtt_lib_example mqtt_example"
    by (simp add: topics_distinct_def command_topic_def mqtt_example_sel mqtt_lib_example_def)
  show "able mqtt_lib_example mqtt_example"
    by (simp add: able_def command_topic_def mqtt_example_sel codec_example_def)
qed





theorem mqtt_lost_subscription_witness:
  "\<exists>(b3 :: mqtt_backend) t. command_topic mqtt_lib_example mqtt_example eui64_zero = Inr t \<and>
     eui64_zero \<in> mb_gateways b3 \<and> eui64_zero \<in> mb_gatewaysSubscribed b3 \<and> t \<notin> mb_broker b3"
proof -
  let ?M = mqtt_lib_example
  let ?b = "mqtt_example\<lparr>mb_connected := True, mb_gateways := {eui64_zero}, mb_gatewaysSubscribed := {eui64_zero}\<rparr>"
  let ?T = "\<lambda>n. if n = 0 then ok_token else \<lparr>tk_completes = False, tk_Error = None, tk_effect = False\<rparr>"
  obtain t where t: "command_topic ?M ?b eui64_zero = Inr t" by (simp add: command_topic_def mqtt_example_sel)
  let ?b3 = "mqtt_SetGatewaySubscription ?M True eui64_zero
           (subscribe_pass ?M ?T [] [eui64_zero] (mqtt_SetGatewaySubscription ?M False eui64_zero ?b))"
  have "able ?M ?b" using topics_example(2) by (simp add: able_def command_topic_def)
  moreover have "acknowledged ?T" by (simp add: acknowledged_def tokenWrapper_def ok_token_def)
  ultimately have "eui64_zero \<in> mb_gateways ?b3 \<and> eui64_zero \<in> mb_gatewaysSubscribed ?b3 \<and> t \<notin> mb_broker ?b3"
    using mqtt_lost_subscription[of ?b eui64_zero ?M t "\<lambda>fs. Inr (''s'' @ concat (map snd fs))" ?T "Errorf ''token wait timeout error''" "[]" "[eui64_zero]" ?b3] t
    by (simp add: mqtt_example_sel tokenWrapper_def ok_token_def)
  moreover have "command_topic ?M mqtt_example eui64_zero = Inr t" using t by (simp add: command_topic_def)
  ultimately show ?thesis by blast
qed

end
