(* ===== verification/Bridge_Tools.thy ===== *)
theory Bridge_Tools
  imports Station_Backend Mqtt_Integration
begin

text \<open>
  The other parts of the gateway bridge: filters on frames (\<^verbatim>\<open>filters\<close>), commands (\<^verbatim>\<open>commands\<close>), metadata (\<^verbatim>\<open>metadata\<close>), the
  concentratord backend (\<^verbatim>\<open>backend/concentratord\<close>) and the calls between a backend and the integration
  (\<^verbatim>\<open>forwarder/forwarder.go\<close>).  Running a program, ZeroMQ sockets and protobuf are parameters.
\<close>

section \<open>Filters\<close>

record filters =
  fi_netIDs :: "netid list"
  fi_joinEUIs :: "(eui64 \<times> eui64) list"

text \<open>What the filters read of a decoded frame.\<close>

datatype filter_payload =
    FilterMAC devaddr | FilterJoinRequest eui64 | FilterRejoin02 netid | FilterRejoin1 eui64 | FilterOther

type_synonym phy_decoder = "bytes \<Rightarrow> (mtype \<times> filter_payload) result"

fun setup_netids :: "(string \<Rightarrow> netid result) \<Rightarrow> string list \<Rightarrow> filters \<Rightarrow> unit result \<times> filters" where
  "setup_netids un [] f = (Inr (), f)"
| "setup_netids un (n # ns) f =
     (case un n of
        Inl err \<Rightarrow> (Inl (Errorf ''unmarshal NetID error''), f)
      | Inr netID \<Rightarrow> setup_netids un ns (f\<lparr>fi_netIDs := fi_netIDs f @ [netID]\<rparr>))"

fun setup_joineuis :: "lorawan_lib \<Rightarrow> (string \<times> string) list \<Rightarrow> filters \<Rightarrow> unit result \<times> filters" where
  "setup_joineuis L [] f = (Inr (), f)"
| "setup_joineuis L ((lo, hi) # sets) f =
     (case (eui_UnmarshalText L lo, eui_UnmarshalText L hi) of
        (Inr a, Inr b) \<Rightarrow> setup_joineuis L sets (f\<lparr>fi_joinEUIs := fi_joinEUIs f @ [(a, b)]\<rparr>)
      | _ \<Rightarrow> (Inl (Errorf ''unmarshal JoinEUI error''), f))"

definition filters_Setup ::
  "lorawan_lib \<Rightarrow> (string \<Rightarrow> netid result) \<Rightarrow> string list \<Rightarrow> (string \<times> string) list \<Rightarrow> filters \<Rightarrow> unit result \<times> filters" where
  "filters_Setup L un netIDs joinEUIs f =
     (case setup_netids un netIDs f of
        (Inl err, f) \<Rightarrow> (Inl err, f)
      | (Inr _, f) \<Rightarrow> setup_joineuis L joinEUIs f)"

definition matchNetIDFilter :: "filters \<Rightarrow> netid \<Rightarrow> bool" where
  "matchNetIDFilter f n \<longleftrightarrow> fi_netIDs f = [] \<or> (\<exists>m \<in> set (fi_netIDs f). m = n)"

definition matchNetIDFilterForDevAddr :: "lorawan_lib \<Rightarrow> filters \<Rightarrow> devaddr \<Rightarrow> bool" where
  "matchNetIDFilterForDevAddr L f d \<longleftrightarrow> fi_netIDs f = [] \<or> (\<exists>n \<in> set (fi_netIDs f). dev_IsNetID L d n)"

definition matchJoinEUIFilter :: "filters \<Rightarrow> eui64 \<Rightarrow> bool" where
  "matchJoinEUIFilter f e \<longleftrightarrow> fi_joinEUIs f = [] \<or>
     (\<exists>(lo, hi) \<in> set (fi_joinEUIs f). Eui64ToUint64 lo \<le> Eui64ToUint64 e \<and> Eui64ToUint64 e \<le> Eui64ToUint64 hi)"

fun filterDevAddr :: "lorawan_lib \<Rightarrow> filters \<Rightarrow> filter_payload \<Rightarrow> bool" where
  "filterDevAddr L f (FilterMAC d) \<longleftrightarrow> matchNetIDFilterForDevAddr L f d"
| "filterDevAddr L f _ \<longleftrightarrow> True"

fun filterJoinRequest :: "filters \<Rightarrow> filter_payload \<Rightarrow> bool" where
  "filterJoinRequest f (FilterJoinRequest e) \<longleftrightarrow> matchJoinEUIFilter f e"
| "filterJoinRequest f _ \<longleftrightarrow> True"

fun filterRejoinRequest :: "filters \<Rightarrow> filter_payload \<Rightarrow> bool" where
  "filterRejoinRequest f (FilterRejoin02 n) \<longleftrightarrow> matchNetIDFilter f n"
| "filterRejoinRequest f (FilterRejoin1 e) \<longleftrightarrow> matchJoinEUIFilter f e"
| "filterRejoinRequest f _ \<longleftrightarrow> True"

definition MatchFilters :: "lorawan_lib \<Rightarrow> phy_decoder \<Rightarrow> filters \<Rightarrow> bytes \<Rightarrow> bool" where
  "MatchFilters L dec f b \<longleftrightarrow>
     (if fi_netIDs f = [] \<and> fi_joinEUIs f = [] then True
      else case dec b of
             Inl err \<Rightarrow> True
           | Inr (mt, p) \<Rightarrow>
               if mt = UnconfirmedDataUp \<or> mt = ConfirmedDataUp then filterDevAddr L f p
               else if mt = JoinRequest then filterJoinRequest f p
               else if mt = RejoinRequest then filterRejoinRequest f p
               else True)"

section \<open>Command lines\<close>

datatype parse_mode = ModeStart | ModeQuotes | ModeArg

record parse_state =
  pa_args :: "string list"
  pa_mode :: parse_mode
  pa_current :: string
  pa_quote :: string
  pa_escapeNext :: bool

text \<open>\<^verbatim>\<open>string(c)\<close> for a byte: the UTF-8 encoding of the code point.\<close>

definition rune_string :: "char \<Rightarrow> string" where
  "rune_string c = (let n = of_char c :: nat in if n < 128 then [c] else [char_of (192 + n div 64), char_of (128 + n mod 64)])"

definition parse_start :: parse_state where
  "parse_start = \<lparr>pa_args = [], pa_mode = ModeStart, pa_current = [], pa_quote = [CHR 0x22], pa_escapeNext = True\<rparr>"

definition finish_arg :: "parse_state \<Rightarrow> parse_state" where
  "finish_arg st = st\<lparr>pa_args := pa_args st @ [pa_current st], pa_current := [], pa_mode := ModeStart\<rparr>"

definition add_char :: "char \<Rightarrow> parse_state \<Rightarrow> parse_state" where
  "add_char c st = st\<lparr>pa_current := pa_current st @ rune_string c\<rparr>"

definition blank :: "char \<Rightarrow> bool" where
  "blank c \<longleftrightarrow> c = CHR '' '' \<or> c = CHR 0x09"

definition parse_char :: "char \<Rightarrow> parse_state \<Rightarrow> parse_state" where
  "parse_char c st =
     (if pa_mode st = ModeQuotes
      then (if rune_string c \<noteq> pa_quote st then add_char c st else finish_arg st)
      else if pa_escapeNext st then (add_char c st)\<lparr>pa_escapeNext := False\<rparr>
      else if c = CHR 0x5C then st\<lparr>pa_escapeNext := True\<rparr>
      else if c = CHR 0x22 \<or> c = CHR 0x27 then st\<lparr>pa_mode := ModeQuotes, pa_quote := [c]\<rparr>
      else if pa_mode st = ModeArg then (if blank c then finish_arg st else add_char c st)
      else if \<not> blank c then (add_char c st)\<lparr>pa_mode := ModeArg\<rparr> else st)"

definition ParseCommandLine :: "string \<Rightarrow> string list result" where
  "ParseCommandLine command =
     (let st = fold parse_char command parse_start
      in if pa_mode st = ModeQuotes then Inl (Errorf ''Unclosed quote in command line'')
         else if pa_current st \<noteq> [] then Inr (pa_args st @ [pa_current st]) else Inr (pa_args st))"

section \<open>Commands\<close>

record bridge_command =
  bx_Command :: string
  bx_MaxExecutionDuration :: duration

record exec_request =
  ex_GatewayId :: string
  ex_Command :: string
  ex_ExecId :: u32
  ex_Stdin :: bytes
  ex_Environment :: "(string \<times> string) list"

text \<open>A run of a program: its arguments, the time it has, what is written to it and its environment after that of
  the process; it gives its output and its errors.\<close>

type_synonym run_program = "string list \<Rightarrow> duration \<Rightarrow> bytes \<Rightarrow> string list \<Rightarrow> (bytes \<times> bytes) result"

text \<open>The commands are set even if there is no integration.\<close>

definition commands_Setup ::
  "(string \<rightharpoonup> bridge_command) \<Rightarrow> mqtt_backend option \<Rightarrow> unit result \<times> (string \<rightharpoonup> bridge_command) \<times> mqtt_backend option" where
  "commands_Setup conf i =
     (case i of
        None \<Rightarrow> (Inl (Errorf ''integration is not set''), conf, None)
      | Some b \<Rightarrow> (Inr (), conf, Some (mqtt_SetFunc GatewayCommandExecRequestFunc b)))"

definition execute ::
  "run_program \<Rightarrow> (string \<rightharpoonup> bridge_command) \<Rightarrow> string \<Rightarrow> bytes \<Rightarrow> (string \<times> string) list \<Rightarrow> (bytes \<times> bytes) result" where
  "execute run commands command stdin environment =
     (case commands command of
        None \<Rightarrow> Inl (Errorf ''command does not exist'')
      | Some cmd \<Rightarrow>
          (case ParseCommandLine (bx_Command cmd) of
             Inl err \<Rightarrow> Inl (Errorf ''parse command error'')
           | Inr [] \<Rightarrow> Inl (Errorf ''no command is given'')
           | Inr (prog # args) \<Rightarrow>
               run (prog # args) (bx_MaxExecutionDuration cmd) stdin (map (\<lambda>(k, v). k @ ''='' @ v) environment)))"

text \<open>\<^verbatim>\<open>copy\<close> of bytes to an \<^verbatim>\<open>EUI64\<close>.\<close>

definition copy_eui :: "bytes \<Rightarrow> eui64" where
  "copy_eui bs = eui_of_bytes (take 8 (bs @ replicate 8 0))"

definition executeCommand ::
  "mqtt_lib \<Rightarrow> (nat \<Rightarrow> token) \<Rightarrow> run_program \<Rightarrow> (string \<rightharpoonup> bridge_command) \<Rightarrow> exec_request \<Rightarrow> mqtt_backend \<Rightarrow> mqtt_backend go" where
  "executeCommand M T run commands cmd b =
     (let gatewayID = copy_eui (string_bytes (ex_GatewayId cmd));
          resp = (case execute run commands (ex_Command cmd) (ex_Stdin cmd) (ex_Environment cmd) of
                    Inl err \<Rightarrow> \<lparr>er_GatewayId = ex_GatewayId cmd, er_ExecId = ex_ExecId cmd, er_Stdout = [], er_Stderr = [], er_Error = Some err\<rparr>
                  | Inr (out, errs) \<Rightarrow>
                      \<lparr>er_GatewayId = ex_GatewayId cmd, er_ExecId = ex_ExecId cmd, er_Stdout = out, er_Stderr = errs, er_Error = None\<rparr>)
      in go_bind (mqtt_PublishEvent M T gatewayID ''exec'' (ex_ExecId cmd) (PubExec resp) b) (\<lambda>(r, b). Ret b))"

section \<open>Metadata\<close>

definition cont_byte :: "byte \<Rightarrow> byte \<Rightarrow> byte \<Rightarrow> bool" where
  "cont_byte lo hi b \<longleftrightarrow> lo \<le> b \<and> b \<le> hi"

text \<open>\<^verbatim>\<open>utf8.Valid\<close>.\<close>

fun utf8_valid :: "bytes \<Rightarrow> bool" where
  "utf8_valid [] \<longleftrightarrow> True"
| "utf8_valid (a # bs) \<longleftrightarrow>
     (if a < 0x80 then utf8_valid bs
      else case bs of
        [] \<Rightarrow> False
      | b # bs \<Rightarrow>
          if 0xC2 \<le> a \<and> a \<le> 0xDF then cont_byte 0x80 0xBF b \<and> utf8_valid bs
          else (case bs of
            [] \<Rightarrow> False
          | c # bs \<Rightarrow>
              if a = 0xE0 then cont_byte 0xA0 0xBF b \<and> cont_byte 0x80 0xBF c \<and> utf8_valid bs
              else if a = 0xED then cont_byte 0x80 0x9F b \<and> cont_byte 0x80 0xBF c \<and> utf8_valid bs
              else if 0xE1 \<le> a \<and> a \<le> 0xEF then cont_byte 0x80 0xBF b \<and> cont_byte 0x80 0xBF c \<and> utf8_valid bs
              else (case bs of
                [] \<Rightarrow> False
              | d # bs \<Rightarrow>
                  (if a = 0xF0 then cont_byte 0x90 0xBF b else if a = 0xF4 then cont_byte 0x80 0x8F b
                   else 0xF1 \<le> a \<and> a \<le> 0xF3 \<and> cont_byte 0x80 0xBF b) \<and>
                  cont_byte 0x80 0xBF c \<and> cont_byte 0x80 0xBF d \<and> utf8_valid bs)))"

definition trim_right :: "string \<Rightarrow> string" where
  "trim_right s = rev (dropWhile (\<lambda>c. c = CHR 0x0A \<or> c = CHR 0x0D) (rev s))"

definition runCommand :: "(string list \<Rightarrow> bytes result) \<Rightarrow> string \<Rightarrow> string result" where
  "runCommand output cmdStr =
     (case ParseCommandLine cmdStr of
        Inl err \<Rightarrow> Inl (Errorf ''parse command error'')
      | Inr [] \<Rightarrow> Inl (Errorf ''no command is given'')
      | Inr (prog # args) \<Rightarrow>
          (case output (prog # args) of
             Inl err \<Rightarrow> Inl (Errorf ''execution error'')
           | Inr out \<Rightarrow>
               if \<not> utf8_valid out then Inl (Errorf ''command did not return valid utf8 string'')
               else Inr (trim_right (map byte_char out))))"

definition rune_width :: "char \<Rightarrow> nat" where
  "rune_width c = (let n = of_char c :: nat in if n < 0xC0 then 1 else if n < 0xE0 then 2 else if n < 0xF0 then 3 else 4)"

text \<open>\<^verbatim>\<open>strings.SplitN(row, sep, 2)\<close> with two parts; an empty separator splits after the first character.\<close>

fun split_sep :: "string \<Rightarrow> string \<Rightarrow> (string \<times> string) option" where
  "split_sep sep [] = None"
| "split_sep sep (c # cs) =
     (if take (length sep) (c # cs) = sep then Some ([], drop (length sep) (c # cs))
      else map_option (\<lambda>(a, b). (c # a, b)) (split_sep sep cs))"

definition split_row :: "string \<Rightarrow> string \<Rightarrow> (string \<times> string) option" where
  "split_row sep row =
     (if sep = []
      then (case row of [] \<Rightarrow> None | c # cs \<Rightarrow>
              if rune_width c < length row then Some (take (rune_width c) row, drop (rune_width c) row) else None)
      else split_sep sep row)"

fun add_rows :: "string \<Rightarrow> string \<Rightarrow> string list \<Rightarrow> (string \<rightharpoonup> string) \<Rightarrow> string \<rightharpoonup> string" where
  "add_rows sep k [] kv = kv"
| "add_rows sep k (row # rows) kv =
     add_rows sep k rows (case split_row sep row of None \<Rightarrow> kv | Some (a, b) \<Rightarrow> kv(k @ ''_'' @ a \<mapsto> b))"

text \<open>The commands in the order in which their map is ranged over.\<close>

fun runCommands ::
  "(string list \<Rightarrow> bytes result) \<Rightarrow> string \<Rightarrow> (string \<times> string) list \<Rightarrow> (string \<rightharpoonup> string) \<Rightarrow> string \<rightharpoonup> string" where
  "runCommands output sep [] newKV = newKV"
| "runCommands output sep ((k, cmd) # cmnds) newKV =
     runCommands output sep cmnds
       (case runCommand output cmd of
          Inl err \<Rightarrow> newKV
        | Inr out \<Rightarrow> if CHR 0x0A \<in> set out then add_rows sep k (split_at CHR 0x0A out) newKV else newKV(k \<mapsto> out))"

section \<open>The concentratord backend\<close>

record conc_lib =
  cl_MarshalDownlink :: "downlink_frame \<Rightarrow> bytes result"
  cl_MarshalConfig :: "gateway_command \<Rightarrow> bytes result"
  cl_UnmarshalAck :: "bytes \<Rightarrow> downlink_tx_ack result"
  cl_UnmarshalUplink :: "bytes \<Rightarrow> uplink_frame result"
  cl_UnmarshalStats :: "bytes \<Rightarrow> gateway_stats result"
  cl_MatchFilters :: "bytes \<Rightarrow> bool"

text \<open>\<open>cb_sent\<close> are the requests sent, \<open>cb_dials\<close> the number of new connections of the command socket.\<close>

record conc_backend =
  cb_gatewayID :: eui64
  cb_started :: bool
  cb_funcs :: "callback set"
  cb_events :: "backend_event list"
  cb_sent :: "(string \<times> bytes) list"
  cb_dials :: nat

definition conc_NewBackend :: conc_backend where
  "conc_NewBackend = \<lparr>cb_gatewayID = eui64_zero, cb_started = False, cb_funcs = {}, cb_events = [], cb_sent = [], cb_dials = 0\<rparr>"

definition conc_SetFunc :: "callback \<Rightarrow> conc_backend \<Rightarrow> conc_backend" where
  "conc_SetFunc f b = b\<lparr>cb_funcs := insert f (cb_funcs b)\<rparr>"

definition conc_call :: "callback \<Rightarrow> backend_event \<Rightarrow> conc_backend \<Rightarrow> conc_backend" where
  "conc_call f e b = (if f \<in> cb_funcs b then b\<lparr>cb_events := cb_events b @ [e]\<rparr> else b)"

text \<open>The loops over attempts to dial; \<open>None\<close>: not at an end.\<close>

fun dial_loop :: "unit result list \<Rightarrow> unit option" where
  "dial_loop [] = None"
| "dial_loop (r # rs) = (case r of Inl err \<Rightarrow> dial_loop rs | Inr _ \<Rightarrow> Some ())"

text \<open>After an error of the socket it is dialled again, once.\<close>

definition commandRequest ::
  "string \<Rightarrow> bytes result \<Rightarrow> unit result \<Rightarrow> bytes result \<Rightarrow> conc_backend \<Rightarrow> bytes result \<times> conc_backend" where
  "commandRequest command msg send recv b =
     (case msg of
        Inl err \<Rightarrow> (Inl (Errorf ''protobuf marshal error''), b)
      | Inr bb \<Rightarrow>
          (case send of
             Inl err \<Rightarrow> (Inl (Errorf ''send command request error''), b\<lparr>cb_dials := Suc (cb_dials b)\<rparr>)
           | Inr _ \<Rightarrow>
               let b = b\<lparr>cb_sent := cb_sent b @ [(command, bb)]\<rparr>
               in case recv of
                    Inl err \<Rightarrow> (Inl (Errorf ''receive command request reply error''), b\<lparr>cb_dials := Suc (cb_dials b)\<rparr>)
                  | Inr reply \<Rightarrow> (Inr reply, b)))"

definition conc_Start ::
  "unit result list \<Rightarrow> unit result list \<Rightarrow> unit result \<Rightarrow> bytes result \<Rightarrow> conc_backend \<Rightarrow> (unit result \<times> conc_backend) option" where
  "conc_Start events_dials command_dials send recv b =
     (case (dial_loop events_dials, dial_loop command_dials) of
        (Some _, Some _) \<Rightarrow>
          (case commandRequest ''gateway_id'' (Inr []) send recv b of
             (Inl err, b) \<Rightarrow> Some (Inl (Errorf ''get gateway id error''), b\<lparr>cb_gatewayID := eui64_zero\<rparr>)
           | (Inr bb, b) \<Rightarrow>
               let b = b\<lparr>cb_gatewayID := copy_eui bb, cb_started := True\<rparr>
               in Some (Inr (), conc_call SubscribeEventFunc (EvSubscribe (cb_gatewayID b) True) b))
      | _ \<Rightarrow> None)"

text \<open>A request that fails is fatal.\<close>

definition conc_SendDownlinkFrame ::
  "conc_lib \<Rightarrow> unit result \<Rightarrow> bytes result \<Rightarrow> downlink_frame \<Rightarrow> conc_backend \<Rightarrow> (unit result \<times> conc_backend) go" where
  "conc_SendDownlinkFrame C send recv pl b =
     (case commandRequest ''down'' (cl_MarshalDownlink C pl) send recv b of
        (Inl err, b) \<Rightarrow> Panic
      | (Inr bb, b) \<Rightarrow>
          if bb = [] then Ret (Inl (Errorf ''no reply receieved, check concentratord logs for error''), b)
          else (case cl_UnmarshalAck C bb of
                  Inl err \<Rightarrow> Ret (Inl (Errorf ''protobuf unmarshal error''), b)
                | Inr ack \<Rightarrow> Ret (Inr (), conc_call DownlinkTxAckFunc (EvAck ack) b)))"

definition conc_ApplyConfiguration ::
  "conc_lib \<Rightarrow> unit result \<Rightarrow> bytes result \<Rightarrow> gateway_command \<Rightarrow> conc_backend \<Rightarrow> conc_backend go" where
  "conc_ApplyConfiguration C send recv conf b =
     (case commandRequest ''config'' (cl_MarshalConfig C conf) send recv b of
        (Inl err, b) \<Rightarrow> Panic
      | (Inr _, b) \<Rightarrow> Ret b)"

definition conc_handleUplinkFrame :: "conc_lib \<Rightarrow> bytes \<Rightarrow> conc_backend \<Rightarrow> unit result \<times> conc_backend" where
  "conc_handleUplinkFrame C bb b =
     (case cl_UnmarshalUplink C bb of
        Inl err \<Rightarrow> (Inl (Errorf ''protobuf unmarshal error''), b)
      | Inr pl \<Rightarrow> (Inr (), if cl_MatchFilters C (uf_PhyPayload pl) then conc_call UplinkFrameFunc (EvUplink pl) b else b))"

definition conc_handleGatewayStats :: "conc_lib \<Rightarrow> bytes \<Rightarrow> conc_backend \<Rightarrow> unit result \<times> conc_backend" where
  "conc_handleGatewayStats C bb b =
     (case cl_UnmarshalStats C bb of
        Inl err \<Rightarrow> (Inl (Errorf ''protobuf unmarshal error''), b)
      | Inr pl \<Rightarrow> (Inr (), conc_call GatewayStatsFunc (EvStats pl) b))"

text \<open>One turn of the loop; an error of the event socket renews both sockets.\<close>

definition conc_eventLoop :: "conc_lib \<Rightarrow> bytes list result \<Rightarrow> conc_backend \<Rightarrow> conc_backend" where
  "conc_eventLoop C msg b =
     (case msg of
        Inl err \<Rightarrow> b\<lparr>cb_dials := Suc (cb_dials b)\<rparr>
      | Inr [t, body] \<Rightarrow>
          if t = string_bytes ''up'' then snd (conc_handleUplinkFrame C body b)
          else if t = string_bytes ''stats'' then snd (conc_handleGatewayStats C body b)
          else b
      | Inr _ \<Rightarrow> b)"

section \<open>Between a backend and the integration\<close>

text \<open>The handlers of the events of a backend.  Each runs in a goroutine of its own.\<close>

definition publish_for ::
  "mqtt_lib \<Rightarrow> (nat \<Rightarrow> token) \<Rightarrow> string \<Rightarrow> string \<Rightarrow> u32 \<Rightarrow> proto_msg \<Rightarrow> mqtt_backend \<Rightarrow> mqtt_backend go" where
  "publish_for M T gatewayId event i msg b =
     (case eui_UnmarshalText (ml_L M) gatewayId of
        Inl err \<Rightarrow> Ret b
      | Inr g \<Rightarrow> go_bind (mqtt_PublishEvent M T g event i msg b) (\<lambda>(r, b). Ret b))"

definition add_metadata :: "(string \<rightharpoonup> string) \<Rightarrow> gateway_stats \<Rightarrow> gateway_stats" where
  "add_metadata meta s = s\<lparr>gst_Metadata := gst_Metadata s ++ meta\<rparr>"

fun bridge_event ::
  "mqtt_lib \<Rightarrow> (nat \<Rightarrow> token) \<Rightarrow> (string \<rightharpoonup> string) \<Rightarrow> backend_event \<Rightarrow> mqtt_backend \<Rightarrow> mqtt_backend go" where
  "bridge_event M T meta (EvSubscribe g s) b = Ret (mqtt_SetGatewaySubscription M s g b)"
| "bridge_event M T meta (EvUplink uf) b =
     publish_for M T (frame_gateway_id uf) ''up'' (frame_uplink_id uf) (PubMessage (PubUp (frame_uplink_id uf) (Some uf))) b"
| "bridge_event M T meta (EvAck ack) b =
     publish_for M T (da_GatewayId ack) ''ack'' (da_DownlinkId ack) (PubMessage (PubAck (da_DownlinkId ack) (Some ack))) b"
| "bridge_event M T meta (EvStats s) b = publish_for M T (gst_GatewayId s) ''stats'' 0 (PubStats (add_metadata meta s)) b"
| "bridge_event M T meta (EvRaw g pl) b = publish_for M T g ''raw'' 0 (PubRaw g pl) b"

text \<open>The bridge at work: it handles the events of its backend in their order, and the integration takes its own steps in
  between.  Only the handler of subscription events sets the gateways.\<close>

inductive bridge_run ::
  "mqtt_lib \<Rightarrow> (nat \<Rightarrow> token) \<Rightarrow> (string \<rightharpoonup> string) \<Rightarrow> mqtt_backend \<Rightarrow> backend_event list \<Rightarrow> eui64 set \<Rightarrow> mqtt_backend \<Rightarrow> bool"
  for M T meta b0 where
  bridge_start: "bridge_run M T meta b0 [] {} b0"
| bridge_handles: "bridge_run M T meta b0 evs D b \<Longrightarrow> bridge_event M T meta e b = Ret b' \<Longrightarrow>
    bridge_run M T meta b0 (evs @ [e]) (doubts M b b' D) b'"
| bridge_steps: "bridge_run M T meta b0 evs D b \<Longrightarrow> mqtt_step M T b b' \<Longrightarrow> mb_gateways b' = mb_gateways b \<Longrightarrow>
    bridge_run M T meta b0 evs (doubts M b b' D) b'"

section \<open>Facts on filters and events\<close>

lemma MatchFilters_unconfigured: "fi_netIDs f = [] \<Longrightarrow> fi_joinEUIs f = [] \<Longrightarrow> MatchFilters L dec f b"
  by (simp add: MatchFilters_def)

lemma publish_for_same:
  assumes "publish_for M T gid event i msg b = Ret b'"
  shows "same b b'"
proof -
  have "same b b2" if "mqtt_PublishEvent M T g event i msg b = Ret (r, b2)" for g r b2
    using that same_client[of b T] same_refl by (auto simp: mqtt_PublishEvent_def publishEvent_def split: sum.splits if_splits dest!: arg_cong[of _ _ snd])
  then show ?thesis using assms by (auto simp: publish_for_def go_bind_eq_Ret split: sum.splits)
qed

text \<open>What the events of a backend change at the integration: the gateways it wants, and nothing else.\<close>

lemma bridge_event_same:
  assumes "bridge_event M T meta e b = Ret b'" "GetGatewayID (ml_L M) (mb_auth b) = None"
  shows "same (b\<lparr>mb_gateways := online_step e (mb_gateways b)\<rparr>) b'"
  using assms publish_for_same[of M T _ _ _ _ b b'] by (cases e) (auto simp: mqtt_SetGatewaySubscription_def same_def)

lemma bridge_event_step: "bridge_event M T meta e b = Ret b' \<Longrightarrow> b' = b \<or> mqtt_step M T b b'"
  by (cases e) (auto simp: publish_for_def go_bind_eq_Ret intro: mqtt_step.subscription mqtt_step.event split: sum.splits)

text \<open>A run of the bridge is a run of the integration, which wants the gateways last reported online.\<close>

lemma bridge_run_mqtt:
  assumes "bridge_run M T meta b0 evs D b" "GetGatewayID (ml_L M) (mb_auth b0) = None" "mb_gateways b0 = {}"
  shows "mqtt_run M T b0 D b \<and> mb_gateways b = online_of evs"
  using assms(1)
proof induction
  case bridge_start
  then show ?case using assms(3) by (simp add: run_refl online_of_def)
next
  case (bridge_handles evs D b e b')
  have run: "mqtt_run M T b0 (doubts M b b' D) b'"
    using bridge_event_step[OF bridge_handles.hyps(2)] bridge_handles.IH run_step run_stays by blast
  have "GetGatewayID (ml_L M) (mb_auth b) = None" using run_auth bridge_handles.IH assms(2) by metis
  from bridge_event_same[OF bridge_handles.hyps(2) this] run bridge_handles.IH show ?case by (simp add: same_def online_of_def)
next
  case (bridge_steps evs D b b')
  then show ?case using run_step by auto
qed

section \<open>The concentratord backend as a step relation\<close>

inductive conc_step :: "conc_lib \<Rightarrow> conc_backend \<Rightarrow> conc_backend \<Rightarrow> bool" for C where
  conc_start: "\<not> cb_started b \<Longrightarrow> conc_Start ed cd send recv b = Some (r, b') \<Longrightarrow> conc_step C b b'"
| conc_downlink: "conc_SendDownlinkFrame C send recv pl b = Ret (r, b') \<Longrightarrow> conc_step C b b'"
| conc_config: "conc_ApplyConfiguration C send recv conf b = Ret b' \<Longrightarrow> conc_step C b b'"
| conc_event: "cb_started b \<Longrightarrow> conc_step C b (conc_eventLoop C msg b)"

inductive conc_reachable :: "conc_lib \<Rightarrow> conc_backend \<Rightarrow> bool" for C where
  conc_new: "conc_reachable C (conc_SetFunc SubscribeEventFunc conc_NewBackend)"
| conc_more: "conc_reachable C b \<Longrightarrow> conc_step C b b' \<Longrightarrow> conc_reachable C b'"

definition conc_registry :: "conc_backend \<Rightarrow> eui64 set" where
  "conc_registry b = (if cb_started b then {cb_gatewayID b} else {})"

definition conc_ok :: "conc_backend \<Rightarrow> bool" where
  "conc_ok b \<longleftrightarrow> online_of (cb_events b) = conc_registry b \<and> SubscribeEventFunc \<in> cb_funcs b"

lemma commandRequest_frame:
  assumes "commandRequest c msg send recv b = (r, b')"
  shows "cb_events b' = cb_events b" "cb_funcs b' = cb_funcs b" "cb_started b' = cb_started b" "cb_gatewayID b' = cb_gatewayID b"
  using assms by (auto simp: commandRequest_def Let_def split: sum.splits)

lemma conc_ok_call:
  "conc_ok b \<Longrightarrow> (\<And>S. online_step e S = S) \<Longrightarrow> conc_ok (conc_call f e b)"
  by (simp add: conc_ok_def conc_call_def conc_registry_def)

lemma conc_ok_request: "conc_ok b \<Longrightarrow> commandRequest c msg send recv b = (r, b') \<Longrightarrow> conc_ok b'"
  using commandRequest_frame[of c msg send recv b r b'] by (simp add: conc_ok_def conc_registry_def)

lemma conc_ok_step:
  assumes "conc_step C b b'" "conc_ok b"
  shows "conc_ok b'"
  using assms(1)
proof cases
  case (conc_start ed cd send recv r)
  obtain r1 b1 where req: "commandRequest ''gateway_id'' (Inr []) send recv b = (r1, b1)" by fastforce
  show ?thesis
    using conc_start assms(2) commandRequest_frame[OF req] req
    by (auto simp: conc_Start_def conc_ok_def conc_registry_def conc_call_def Let_def split: option.splits sum.splits)
next
  case (conc_downlink send recv pl r)
  obtain r1 b1 where req: "commandRequest ''down'' (cl_MarshalDownlink C pl) send recv b = (r1, b1)" by fastforce
  have "conc_ok b1" using conc_ok_request[OF assms(2) req] .
  then show ?thesis
    using conc_downlink req conc_ok_call by (auto simp: conc_SendDownlinkFrame_def split: sum.splits if_splits)
next
  case (conc_config send recv conf)
  then show ?thesis
    using conc_ok_request[OF assms(2)] by (auto simp: conc_ApplyConfiguration_def split: prod.splits sum.splits)
next
  case (conc_event msg)
  have "conc_ok (snd (conc_handleUplinkFrame C body b))" "conc_ok (snd (conc_handleGatewayStats C body b))" for body
    using assms(2) conc_ok_call[OF assms(2), of "EvUplink uf" for uf] conc_ok_call[OF assms(2), of "EvStats st" for st]
    by (simp_all add: conc_handleUplinkFrame_def conc_handleGatewayStats_def split: sum.split)
  moreover have "conc_ok (b\<lparr>cb_dials := n\<rparr>)" for n
    using assms(2) by (simp add: conc_ok_def conc_registry_def)
  ultimately show ?thesis
    using conc_event(1) assms(2) by (simp add: conc_eventLoop_def split: sum.split list.split)
qed

lemma conc_reachable_ok: "conc_reachable C b \<Longrightarrow> conc_ok b"
proof (induction rule: conc_reachable.induct)
  case conc_new
  then show ?case by (simp add: conc_ok_def conc_registry_def conc_SetFunc_def conc_NewBackend_def online_of_def)
qed (rule conc_ok_step)

interpretation concentratord: gateway_backend "conc_reachable C" cb_events conc_registry for C
  by unfold_locales (use conc_reachable_ok in \<open>simp add: conc_ok_def\<close>)

section \<open>Facts on command lines\<close>

definition plain_char :: "char \<Rightarrow> bool" where
  "plain_char c \<longleftrightarrow> of_char c < (128 :: nat) \<and> \<not> blank c \<and> c \<noteq> CHR 0x5C \<and> c \<noteq> CHR 0x22 \<and> c \<noteq> CHR 0x27"

definition plain_word :: "string \<Rightarrow> bool" where
  "plain_word w \<longleftrightarrow> w \<noteq> [] \<and> (\<forall>c \<in> set w. plain_char c)"

text \<open>A text that can stand between double quotes.\<close>

definition quotable :: "string \<Rightarrow> bool" where
  "quotable w \<longleftrightarrow> (\<forall>c \<in> set w. of_char c < (128 :: nat) \<and> c \<noteq> CHR 0x22)"

definition render :: "string \<Rightarrow> string" where
  "render w = (if plain_word w then w else [CHR 0x22] @ w @ [CHR 0x22])"

definition ready :: "string list \<Rightarrow> parse_state \<Rightarrow> bool" where
  "ready args st \<longleftrightarrow> pa_args st = args \<and> pa_mode st = ModeStart \<and> pa_current st = [] \<and> \<not> pa_escapeNext st"

definition in_arg :: "string list \<Rightarrow> string \<Rightarrow> parse_state \<Rightarrow> bool" where
  "in_arg args cur st \<longleftrightarrow> pa_args st = args \<and> pa_mode st = ModeArg \<and> pa_current st = cur \<and> \<not> pa_escapeNext st"

definition in_quotes :: "string list \<Rightarrow> string \<Rightarrow> parse_state \<Rightarrow> bool" where
  "in_quotes args cur st \<longleftrightarrow> pa_args st = args \<and> pa_mode st = ModeQuotes \<and> pa_current st = cur \<and> \<not> pa_escapeNext st \<and>
     pa_quote st = [CHR 0x22]"

lemma rune_string_ascii: "of_char c < (128 :: nat) \<Longrightarrow> rune_string c = [c]"
  by (simp add: rune_string_def)

lemma in_arg_word: "\<forall>c \<in> set w. plain_char c \<Longrightarrow> in_arg args cur st \<Longrightarrow> in_arg args (cur @ w) (fold parse_char w st)"
proof (induction w arbitrary: cur st)
  case (Cons c w)
  then have "in_arg args (cur @ [c]) (parse_char c st)"
    by (simp add: in_arg_def parse_char_def plain_char_def add_char_def rune_string_ascii)
  from Cons.IH[OF _ this] Cons.prems(1) show ?case by simp
qed simp

lemma in_quotes_word: "quotable w \<Longrightarrow> in_quotes args cur st \<Longrightarrow> in_quotes args (cur @ w) (fold parse_char w st)"
proof (induction w arbitrary: cur st)
  case (Cons c w)
  then have "in_quotes args (cur @ [c]) (parse_char c st)"
    by (simp add: in_quotes_def parse_char_def quotable_def add_char_def rune_string_ascii)
  from Cons.IH[OF _ this] Cons.prems(1) show ?case by (simp add: quotable_def)
qed simp

lemma in_arg_blank: "in_arg args cur st \<Longrightarrow> ready (args @ [cur]) (parse_char CHR '' '' st)"
  by (simp add: in_arg_def ready_def parse_char_def finish_arg_def blank_def)

lemma ready_blank: "ready args st \<Longrightarrow> ready args (parse_char CHR '' '' st)"
  by (simp add: ready_def parse_char_def blank_def)

lemma ready_plain:
  assumes "plain_word w" "ready args st"
  shows "in_arg args w (fold parse_char w st)"
proof -
  obtain c w' where w: "w = c # w'" "plain_char c" "\<forall>c \<in> set w'. plain_char c" using assms(1) by (cases w) (auto simp: plain_word_def)
  have "in_arg args [c] (parse_char c st)"
    using assms(2) w(2) by (simp add: ready_def in_arg_def parse_char_def plain_char_def add_char_def rune_string_ascii)
  from in_arg_word[OF w(3) this] show ?thesis by (simp add: w(1))
qed

lemma ready_quoted:
  assumes "quotable w" "ready args st"
  shows "ready (args @ [w]) (fold parse_char ([CHR 0x22] @ w @ [CHR 0x22]) st)"
proof -
  have "in_quotes args [] (parse_char CHR 0x22 st)"
    using assms(2) by (simp add: ready_def in_quotes_def parse_char_def)
  from in_quotes_word[OF assms(1) this] have "in_quotes args w (fold parse_char w (parse_char CHR 0x22 st))" by simp
  then show ?thesis by (simp add: in_quotes_def ready_def parse_char_def finish_arg_def rune_string_def)
qed

lemma ready_render:
  assumes "quotable w" "ready args st"
  shows "ready (args @ [w]) (parse_char CHR '' '' (fold parse_char (render w) st))"
    "ready (args @ [w]) (fold parse_char (render w) st) \<or> in_arg args w (fold parse_char (render w) st)"
  using ready_quoted[OF assms] ready_plain[OF _ assms(2)] in_arg_blank ready_blank by (auto simp: render_def simp del: fold_append)

definition spaced :: "string list \<Rightarrow> string" where
  "spaced ws = concat (map (\<lambda>w. CHR '' '' # w) ws)"

definition parsed :: "string list \<Rightarrow> parse_state \<Rightarrow> bool" where
  "parsed args st \<longleftrightarrow> ready args st \<or> (\<exists>as w. args = as @ [w] \<and> w \<noteq> [] \<and> in_arg as w st)"

lemma parsed_blank: "parsed args st \<Longrightarrow> ready args (parse_char CHR '' '' st)"
  by (auto simp: parsed_def ready_blank in_arg_blank)

lemma parsed_spaced: "\<forall>w \<in> set ws. quotable w \<Longrightarrow> parsed args st \<Longrightarrow> parsed (args @ ws) (fold parse_char (spaced (map render ws)) st)"
proof (induction ws arbitrary: args st)
  case (Cons w ws)
  let ?st = "fold parse_char (render w) (parse_char CHR '' '' st)"
  have r: "ready args (parse_char CHR '' '' st)" using parsed_blank[OF Cons.prems(2)] .
  have "parsed (args @ [w]) ?st"
  proof (cases "plain_word w")
    case True
    then show ?thesis using ready_plain[OF True r] by (auto simp: parsed_def render_def plain_word_def)
  next
    case False
    then show ?thesis using ready_quoted[OF _ r, of w] Cons.prems(1) by (simp add: parsed_def render_def)
  qed
  from Cons.IH[OF _ this] Cons.prems(1) show ?case by (simp add: spaced_def)
qed (simp add: spaced_def)

lemma ParseCommandLine_parsed: "parsed args (fold parse_char s parse_start) \<Longrightarrow> ParseCommandLine s = Inr args"
  by (auto simp: ParseCommandLine_def parsed_def ready_def in_arg_def Let_def)

text \<open>The first character of a line is taken as if it were escaped, in the start state.\<close>

lemma parse_first:
  assumes "plain_char c"
  shows "fold parse_char (c # s) parse_start =
    fold parse_char s \<lparr>pa_args = [], pa_mode = ModeStart, pa_current = [c], pa_quote = [CHR 0x22], pa_escapeNext = False\<rparr>"
  using assms by (simp add: parse_char_def parse_start_def add_char_def plain_char_def rune_string_ascii)

lemma parse_second:
  assumes "plain_char d" "\<forall>c \<in> set w. plain_char c" "pa_mode st = ModeStart" "\<not> pa_escapeNext st"
  shows "in_arg (pa_args st) (pa_current st @ d # w) (fold parse_char (d # w) st)"
proof -
  have "in_arg (pa_args st) (pa_current st @ [d]) (parse_char d st)"
    using assms by (simp add: in_arg_def parse_char_def plain_char_def add_char_def rune_string_ascii)
  from in_arg_word[OF assms(2) this] show ?thesis by simp
qed

lemma parse_word:
  assumes "plain_word w" "2 \<le> length w"
  shows "in_arg [] w (fold parse_char w parse_start)"
proof -
  obtain c d v where w: "w = c # d # v" using assms(2) by (cases w; cases "tl w") auto
  have "plain_char c" "plain_char d" "\<forall>c \<in> set v. plain_char c" using assms(1) by (simp_all add: w plain_word_def)
  then show ?thesis
    unfolding w using parse_first[of c "d # v"] parse_second[of d v "\<lparr>pa_args = [], pa_mode = ModeStart, pa_current = [c], pa_quote = [CHR 0x22], pa_escapeNext = False\<rparr>"]
    by simp
qed

lemma parse_merged:
  assumes "plain_char c" "plain_word v"
  shows "in_arg [] (c # v) (fold parse_char (c # CHR '' '' # v) parse_start)"
proof -
  obtain d u where v: "v = d # u" "plain_char d" "\<forall>c \<in> set u. plain_char c" using assms(2) by (cases v) (auto simp: plain_word_def)
  let ?st = "\<lparr>pa_args = [], pa_mode = ModeStart, pa_current = [c], pa_quote = [CHR 0x22], pa_escapeNext = False\<rparr>"
  have "parse_char CHR '' '' ?st = ?st" by (simp add: parse_char_def blank_def)
  then show ?thesis
    unfolding v(1) using parse_first[OF assms(1), of "CHR '' '' # d # u"] parse_second[OF v(2,3), of ?st] by simp
qed

lemma in_arg_parsed: "in_arg as w st \<Longrightarrow> w \<noteq> [] \<Longrightarrow> parsed (as @ [w]) st"
  by (auto simp: parsed_def)

lemma parse_unclosed:
  assumes "plain_word w" "2 \<le> length w" "quotable v"
  shows "ParseCommandLine (w @ '' '' @ [CHR 0x22] @ v) = Inl (Errorf ''Unclosed quote in command line'')"
proof -
  let ?st = "parse_char CHR '' '' (fold parse_char w parse_start)"
  have "ready [w] ?st" using in_arg_blank[OF parse_word[OF assms(1,2)]] by simp
  then have "in_quotes [w] [] (parse_char CHR 0x22 ?st)" by (simp add: ready_def in_quotes_def parse_char_def)
  from in_quotes_word[OF assms(3) this] show ?thesis by (simp add: ParseCommandLine_def in_quotes_def Let_def)
qed

section \<open>Properties\<close>

text \<open>
  C29: the command line of a configured command splits into its words: the program, a plain word of two characters
  or more, and arguments that are written as they are or between double quotes when they hold blanks, quotes of the
  other kind or nothing; a quote that is not closed is an error.  The parser starts as if the line began after a
  backslash, in a state in which a blank ends no word: a program of one character runs together with its first
  argument.
\<close>

theorem parse_command_line:
  assumes "plain_word w" "2 \<le> length w" "\<forall>v \<in> set ws. quotable v" "plain_char c" "plain_word v" "quotable u"
  shows "ParseCommandLine (w @ spaced (map render ws)) = Inr (w # ws) \<and>
         ParseCommandLine (w @ '' '' @ [CHR 0x22] @ u) = Inl (Errorf ''Unclosed quote in command line'') \<and>
         ParseCommandLine (c # spaced (v # map render ws)) = Inr ((c # v) # ws)"
proof (intro conjI)
  have "parsed [w] (fold parse_char w parse_start)"
    using in_arg_parsed[OF parse_word[OF assms(1,2)]] assms(2) by fastforce
  from parsed_spaced[OF assms(3) this] show "ParseCommandLine (w @ spaced (map render ws)) = Inr (w # ws)"
    using ParseCommandLine_parsed by simp
  show "ParseCommandLine (w @ '' '' @ [CHR 0x22] @ u) = Inl (Errorf ''Unclosed quote in command line'')"
    using parse_unclosed[OF assms(1,2,6)] .
  have "parsed [c # v] (fold parse_char (c # CHR '' '' # v) parse_start)"
    using in_arg_parsed[OF parse_merged[OF assms(4,5)]] by simp
  from parsed_spaced[OF assms(3) this] show "ParseCommandLine (c # spaced (v # map render ws)) = Inr ((c # v) # ws)"
    using ParseCommandLine_parsed by (simp add: spaced_def)
qed

theorem parse_command_line_witness:
  "ParseCommandLine (''/bin/sh'' @ spaced (map render [''-c'', ''echo hi'', []])) = Inr [''/bin/sh'', ''-c'', ''echo hi'', []] \<and>
   ParseCommandLine (''w -h'' @ '' '' @ [CHR 0x22] @ ''a b'' @ [CHR 0x22]) = Inr [''w-h'', ''a b'']"
  using parse_command_line[of "''/bin/sh''" "[''-c'', ''echo hi'', []]" "CHR ''w''" "''-h''" "''a b''"]
    parse_command_line[of "''/bin/sh''" "[''a b'']" "CHR ''w''" "''-h''" "''a b''"]
  by (simp add: plain_word_def plain_char_def blank_def quotable_def spaced_def render_def)

end
