(* ===== verification/Gateway_Cmd.thy ===== *)
theory Gateway_Cmd
  imports Api Forwarder_Config
begin

text \<open>
  The commands of the forwarder on its gateways, \<^verbatim>\<open>forwarder/gateway_cmd.go\<close> with the printing in
  \<^verbatim>\<open>forwarder/utils.go\<close>, and the server they talk to, \<^verbatim>\<open>runAPI\<close> of \<^verbatim>\<open>forwarder/api.go\<close>.  A command loads the
  configuration, sends one request to the API and prints the reply.  The transport is a function of the address, the route
  and the world, and yields the reply; decoding a reply is a parameter.  A fatal log is \<open>Panic\<close>; what is
  printed is a value.
\<close>

section \<open>The server\<close>

text \<open>The routes, with the decoded bodies of the requests.\<close>

datatype route =
    PostGateways eui64
  | PostOnboard eui64 address bool
  | PostImport address bool
  | GetGateways
  | GetUnknown
  | GetGateway string
  | GetSync string

text \<open>\<^verbatim>\<open>runAPI\<close> without an address runs no service.\<close>

definition runAPI ::
  "eth_lib \<Rightarrow> lorawan_lib \<Rightarrow> ('s, 'e) gateway_store \<Rightarrow> ('u, 'v) unknown_gateway_logger \<Rightarrow> (nat \<Rightarrow> private_key result) \<Rightarrow>
   (eui64 \<Rightarrow> 'e) \<Rightarrow> (string \<Rightarrow> onboard_payload \<Rightarrow> nat result) \<Rightarrow> ('a, 'bm) Config \<Rightarrow> ('s, 'e, 'u, 'v) APIService option go" where
  "runAPI E L S U rand add post cfg =
     (if gc_HttpAPI (cf_Gateways cfg) = [] then Ret None
      else go_bind (deref (cf_Polygon cfg)) (\<lambda>polygon.
        Ret (Some \<lparr>av_E = E, av_L = L, av_gateways = S, av_unknown = U, av_chainID = unat (pc_ChainID polygon),
          av_batchOnboarderAddress = gc_BatchOnboarder (cf_Gateways cfg),
          av_earlyAdopterOnboarderAddress = gc_EarlyAdopter (cf_Gateways cfg),
          av_thingsIXOnboardEndpoint = gc_ThingsIXOnboardEndpoint (cf_Gateways cfg), av_rand = rand, av_add = add, av_post = post\<rparr>)))"

definition serve ::
  "('s, 'e, 'u, 'v) APIService \<Rightarrow> eui64 list \<Rightarrow> 'e \<Rightarrow> route \<Rightarrow> ('s, 'u) api_state \<Rightarrow> (http_reply \<times> ('s, 'u) api_state) go option" where
  "serve svc order e r st =
     (case r of
        PostGateways localID \<Rightarrow> map_option Ret (AddGateway svc (Inr localID) st)
      | PostOnboard localID owner push \<Rightarrow> OnboardGatewayMessage svc (Inr (localID, owner, push)) st
      | PostImport owner push \<Rightarrow> ImportGateways svc (Inr (owner, push)) st
      | GetGateways \<Rightarrow> Some (Ret (ListGateways svc order st, st))
      | GetUnknown \<Rightarrow> Some (Ret (ListUnknownGateways svc st, st))
      | GetGateway local_id \<Rightarrow> Some (Ret (api_Gateway svc local_id st, st))
      | GetSync local_id \<Rightarrow> Some (Ret (SyncGateway svc e local_id st)))"

section \<open>What is printed\<close>

text \<open>A gateway without the fields that JSON leaves out.\<close>

record gateway_json =
  gj_LocalID :: eui64
  gj_NetworkID :: eui64
  gj_ThingsIxID :: thingsix_id
  gj_Owner :: "address option"
  gj_Version :: "u8 option"
  gj_Details :: "gateway_details option"

definition json_of :: "gateway \<Rightarrow> gateway_json" where
  "json_of g = \<lparr>gj_LocalID = LocalID g, gj_NetworkID = NetworkID g, gj_ThingsIxID = ThingsIxID g, gj_Owner = Owner g,
     gj_Version = Version g, gj_Details = Details g\<rparr>"

record onboard_json =
  oj_owner :: address
  oj_gatewayId :: thingsix_id
  oj_version :: u8
  oj_localId :: eui64
  oj_networkId :: eui64
  oj_address :: address
  oj_chainId :: nat
  oj_signature :: string

datatype cli_output =
    PrintTable "string list list"
  | PrintGateway gateway_json
  | PrintGateways "gateway_json list"
  | PrintOnboards "onboard_json list"
  | PrintError nat string

definition printOnboardsAsJSON :: "OnboardGatewayReply list \<Rightarrow> cli_output" where
  "printOnboardsAsJSON onboards =
     PrintOnboards (map (\<lambda>onb. \<lparr>oj_owner = or_Owner onb, oj_gatewayId = or_GatewayID onb, oj_version = or_Version onb,
       oj_localId = or_LocalID onb, oj_networkId = or_NetworkID onb, oj_address = or_Address onb, oj_chainId = or_ChainID onb,
       oj_signature = or_GatewayOnboardSignature onb\<rparr>) onboards)"

definition printOnboardsAsTable :: "eth_lib \<Rightarrow> lorawan_lib \<Rightarrow> OnboardGatewayReply list \<Rightarrow> cli_output" where
  "printOnboardsAsTable E L onboards =
     PrintTable (map (\<lambda>(i, onb). [show_nat (i + 1), ThingsIxID_String (or_GatewayID onb), eui_String L (or_LocalID onb),
       Address_String E (or_Owner onb), show_nat (unat (or_Version onb)), or_GatewayOnboardSignature onb]) (enumerate 0 onboards))"

definition printOnboards :: "eth_lib \<Rightarrow> lorawan_lib \<Rightarrow> bool \<Rightarrow> OnboardGatewayReply list \<Rightarrow> cli_output" where
  "printOnboards E L json onboards = (if json then printOnboardsAsJSON onboards else printOnboardsAsTable E L onboards)"

text \<open>The pointers of a gateway with an owner, and of its details, are followed without a check.\<close>

definition owner_cells :: "eth_lib \<Rightarrow> gateway_json \<Rightarrow> (string \<times> string) go" where
  "owner_cells E g =
     (case gj_Owner g of
        None \<Rightarrow> Ret ([], [])
      | Some owner \<Rightarrow> go_bind (deref (gj_Version g)) (\<lambda>v. Ret (Address_String E owner, show_nat (unat v))))"

definition detail_cells :: "gateway_json \<Rightarrow> (string \<times> string \<times> string \<times> string) go" where
  "detail_cells g =
     (case gj_Details g of
        None \<Rightarrow> Ret ([], [], [], [])
      | Some d \<Rightarrow>
          go_bind (deref (gd_Band d)) (\<lambda>band. go_bind (deref (gd_AntennaGain d)) (\<lambda>gain.
          go_bind (deref (gd_Location d)) (\<lambda>location. go_bind (deref (gd_Altitude d)) (\<lambda>altitude.
            Ret (band, gain, location, show_nat (unat altitude)))))))"

definition gateway_row :: "eth_lib \<Rightarrow> lorawan_lib \<Rightarrow> nat \<Rightarrow> gateway_json \<Rightarrow> string list go" where
  "gateway_row E L i g =
     go_bind (owner_cells E g) (\<lambda>(owner, version). go_bind (detail_cells g) (\<lambda>(band, gain, location, altitude).
       Ret [show_nat (i + 1), hex_encode (gj_ThingsIxID g), eui_String L (gj_LocalID g), eui_String L (gj_NetworkID g),
            owner, band, version, gain, location, altitude]))"

fun gateway_rows :: "eth_lib \<Rightarrow> lorawan_lib \<Rightarrow> nat \<Rightarrow> gateway_json list \<Rightarrow> string list list go" where
  "gateway_rows E L i [] = Ret []"
| "gateway_rows E L i (g # gs) =
     go_bind (gateway_row E L i g) (\<lambda>row. go_bind (gateway_rows E L (Suc i) gs) (\<lambda>rows. Ret (row # rows)))"

definition printGatewaysAsTable :: "eth_lib \<Rightarrow> lorawan_lib \<Rightarrow> gateway_json list \<Rightarrow> cli_output go" where
  "printGatewaysAsTable E L gs = go_bind (gateway_rows E L 0 gs) (\<lambda>rows. Ret (PrintTable rows))"

section \<open>The commands\<close>

text \<open>What a reply decodes to; for the list the pending and the onboarded gateways.\<close>

record cli_json =
  cj_Gateway :: "http_reply \<Rightarrow> gateway_json result"
  cj_Gateways :: "http_reply \<Rightarrow> (gateway_json list \<times> gateway_json list) result"
  cj_Onboard :: "http_reply \<Rightarrow> OnboardGatewayReply result"
  cj_Onboards :: "http_reply \<Rightarrow> OnboardGatewayReply list result"
  cj_Text :: "http_reply \<Rightarrow> string"

record 'w cli =
  cl_E :: eth_lib
  cl_L :: lorawan_lib
  cl_IsHexAddress :: "string \<Rightarrow> bool"
  cl_HexToAddress :: "string \<Rightarrow> address"
  cl_J :: cli_json
  cl_send :: "string \<Rightarrow> route \<Rightarrow> 'w \<Rightarrow> http_reply result \<times> 'w"
  cl_json :: bool

definition StatusCode :: "http_reply \<Rightarrow> nat" where
  "StatusCode r = (case r of HttpError c _ \<Rightarrow> c | HttpReply c _ \<Rightarrow> c)"

definition mustParseAddress :: "'w cli \<Rightarrow> string \<Rightarrow> address go" where
  "mustParseAddress K addr = (if cl_IsHexAddress K addr then Ret (cl_HexToAddress K addr) else Panic)"

text \<open>A request to the API of the configuration; the address must be set and the request must go through.\<close>

definition request :: "'w cli \<Rightarrow> ('a, 'bm) Config \<Rightarrow> route \<Rightarrow> 'w \<Rightarrow> (http_reply \<times> 'w) go" where
  "request K cfg r w =
     (if gc_HttpAPI (cf_Gateways cfg) = [] then Panic
      else case cl_send K (gc_HttpAPI (cf_Gateways cfg)) r w of (Inl err, w) \<Rightarrow> Panic | (Inr reply, w) \<Rightarrow> Ret (reply, w))"

definition decoded :: "'x result \<Rightarrow> 'x go" where
  "decoded r = (case r of Inl err \<Rightarrow> Panic | Inr x \<Rightarrow> Ret x)"

definition onboardGatewayInternal ::
  "'w cli \<Rightarrow> ('a, 'bm) Config \<Rightarrow> eui64 \<Rightarrow> address \<Rightarrow> bool \<Rightarrow> 'w \<Rightarrow> (cli_output \<times> 'w) go" where
  "onboardGatewayInternal K cfg localID owner pushToThingsIX w =
     go_bind (request K cfg (PostOnboard localID owner pushToThingsIX) w) (\<lambda>(resp, w).
       if StatusCode resp = 200 \<or> StatusCode resp = 201
       then go_bind (decoded (cj_Onboard (cl_J K) resp)) (\<lambda>reply. Ret (printOnboards (cl_E K) (cl_L K) (cl_json K) [reply], w))
       else Ret (PrintError (StatusCode resp) (cj_Text (cl_J K) resp), w))"

definition onboardGateway ::
  "'w cli \<Rightarrow> ('a, 'bm) Config go \<Rightarrow> string \<Rightarrow> string \<Rightarrow> 'w \<Rightarrow> (cli_output \<times> 'w) go" where
  "onboardGateway K mustLoadConfig arg0 arg1 w =
     go_bind mustLoadConfig (\<lambda>cfg. go_bind (mustDecodeGatewayID arg0) (\<lambda>localID. go_bind (mustParseAddress K arg1) (\<lambda>owner.
       onboardGatewayInternal K cfg localID owner False w)))"

definition onboardAndPushGateway ::
  "'w cli \<Rightarrow> ('a, 'bm) Config go \<Rightarrow> string \<Rightarrow> string \<Rightarrow> 'w \<Rightarrow> (cli_output \<times> 'w) go" where
  "onboardAndPushGateway K mustLoadConfig arg0 arg1 w =
     go_bind mustLoadConfig (\<lambda>cfg. go_bind (mustDecodeGatewayID arg0) (\<lambda>localID. go_bind (mustParseAddress K arg1) (\<lambda>owner.
       onboardGatewayInternal K cfg localID owner True w)))"

definition print_gateway :: "'w cli \<Rightarrow> gateway_json \<Rightarrow> cli_output go" where
  "print_gateway K g = (if cl_json K then Ret (PrintGateway g) else printGatewaysAsTable (cl_E K) (cl_L K) [g])"

text \<open>The status of the reply is not looked at.\<close>

definition gatewayDetails :: "'w cli \<Rightarrow> ('a, 'bm) Config go \<Rightarrow> string \<Rightarrow> 'w \<Rightarrow> (cli_output \<times> 'w) go" where
  "gatewayDetails K mustLoadConfig arg0 w =
     go_bind mustLoadConfig (\<lambda>cfg. go_bind (mustDecodeGatewayID arg0) (\<lambda>localID.
     go_bind (request K cfg (GetGateway (eui_String (cl_L K) localID)) w) (\<lambda>(resp, w).
     go_bind (decoded (cj_Gateway (cl_J K) resp)) (\<lambda>g. go_bind (print_gateway K g) (\<lambda>out. Ret (out, w))))))"

text \<open>The onboard messages of an import are always printed as JSON.\<close>

definition importGatewaysInternal ::
  "'w cli \<Rightarrow> ('a, 'bm) Config \<Rightarrow> address \<Rightarrow> bool \<Rightarrow> 'w \<Rightarrow> (cli_output \<times> 'w) go" where
  "importGatewaysInternal K cfg owner pushToThingsIX w =
     go_bind (request K cfg (PostImport owner pushToThingsIX) w) (\<lambda>(resp, w).
       if StatusCode resp = 200 \<or> StatusCode resp = 201
       then go_bind (decoded (cj_Onboards (cl_J K) resp)) (\<lambda>onboarded. Ret (printOnboards (cl_E K) (cl_L K) True onboarded, w))
       else Ret (PrintError (StatusCode resp) (cj_Text (cl_J K) resp), w))"

definition importGatewayStore :: "'w cli \<Rightarrow> ('a, 'bm) Config go \<Rightarrow> string \<Rightarrow> 'w \<Rightarrow> (cli_output \<times> 'w) go" where
  "importGatewayStore K mustLoadConfig arg0 w =
     go_bind mustLoadConfig (\<lambda>cfg. go_bind (mustParseAddress K arg0) (\<lambda>owner. importGatewaysInternal K cfg owner False w))"

definition importAndPushGatewayStore :: "'w cli \<Rightarrow> ('a, 'bm) Config go \<Rightarrow> string \<Rightarrow> 'w \<Rightarrow> (cli_output \<times> 'w) go" where
  "importAndPushGatewayStore K mustLoadConfig arg0 w =
     go_bind mustLoadConfig (\<lambda>cfg. go_bind (mustParseAddress K arg0) (\<lambda>owner. importGatewaysInternal K cfg owner True w))"

definition listGatewayStore :: "'w cli \<Rightarrow> ('a, 'bm) Config go \<Rightarrow> 'w \<Rightarrow> (cli_output \<times> 'w) go" where
  "listGatewayStore K mustLoadConfig w =
     go_bind mustLoadConfig (\<lambda>cfg. go_bind (request K cfg GetGateways w) (\<lambda>(resp, w).
     go_bind (decoded (cj_Gateways (cl_J K) resp)) (\<lambda>(pending, onboarded).
       let all = onboarded @ pending
       in if cl_json K then Ret (PrintGateways all, w)
          else go_bind (printGatewaysAsTable (cl_E K) (cl_L K) all) (\<lambda>out. Ret (out, w)))))"

definition addGatewayToStore :: "'w cli \<Rightarrow> ('a, 'bm) Config go \<Rightarrow> string \<Rightarrow> 'w \<Rightarrow> (cli_output \<times> 'w) go" where
  "addGatewayToStore K mustLoadConfig arg0 w =
     go_bind mustLoadConfig (\<lambda>cfg. go_bind (mustDecodeGatewayID arg0) (\<lambda>localID.
     go_bind (request K cfg (PostGateways localID) w) (\<lambda>(resp, w).
       if StatusCode resp = 200 \<or> StatusCode resp = 201
       then go_bind (decoded (cj_Gateway (cl_J K) resp)) (\<lambda>g. go_bind (print_gateway K g) (\<lambda>out. Ret (out, w)))
       else Ret (PrintError (StatusCode resp) (cj_Text (cl_J K) resp), w))))"

section \<open>The commands against the service\<close>

text \<open>The transport hands a request to the service and its reply back.\<close>

definition delivers ::
  "('s, 'e, 'u, 'v) APIService \<Rightarrow> eui64 list \<Rightarrow> 'e \<Rightarrow> string \<Rightarrow> ('s, 'u) api_state cli \<Rightarrow> bool" where
  "delivers svc order e addr K \<longleftrightarrow>
     (\<forall>r st rep st'. serve svc order e r st = Some (Ret (rep, st')) \<longrightarrow> cl_send K addr r st = (Inr rep, st'))"

text \<open>A gateway decodes to its JSON fields, and the text of a 404 reply is not a gateway.\<close>

definition cli_json_ok :: "cli_json \<Rightarrow> bool" where
  "cli_json_ok J \<longleftrightarrow>
     (\<forall>c g. cj_Gateway J (HttpReply c (BodyGateway g)) = Inr (json_of g)) \<and>
     (\<forall>c. isl (cj_Gateway J (HttpError c ''404 page not found'')))"

lemma cli_json_not_found:
  assumes "cli_json_ok J"
  obtains err where "cj_Gateway J (HttpError 404 ''404 page not found'') = Inl err"
  using assms unfolding cli_json_ok_def isl_def by blast

lemma request_served:
  assumes "delivers svc order e (gc_HttpAPI (cf_Gateways cfg)) K" "gc_HttpAPI (cf_Gateways cfg) \<noteq> []"
    and "serve svc order e r st = Some (Ret (rep, st'))"
  shows "request K cfg r st = Ret (rep, st')"
  using assms by (simp add: request_def delivers_def)

lemma AddGateway_error_code:
  "AddGateway svc req st = Some (HttpError c msg, st') \<Longrightarrow> c \<noteq> 200 \<and> c \<noteq> 201"
  by (auto simp: AddGateway_def split: sum.splits if_splits option.splits)

lemma AddGateway_again:
  "gs_ByLocalID (av_gateways svc) (as_gateways st) l = Inr g \<Longrightarrow> l \<noteq> eui64_zero \<Longrightarrow>
   AddGateway svc (Inr l) st = Some (HttpReply 200 (BodyGateway g), st)"
  by (simp add: AddGateway_def)

lemma add_command_eq:
  assumes "delivers svc order e (gc_HttpAPI (cf_Gateways cfg)) K" "gc_HttpAPI (cf_Gateways cfg) \<noteq> []"
    and "mustDecodeGatewayID arg = Ret l" "cli_json_ok (cl_J K)"
    and "AddGateway svc (Inr l) st = Some (HttpReply c (BodyGateway g), st')" "c = 200 \<or> c = 201"
  shows "addGatewayToStore K (Ret cfg) arg st = go_bind (print_gateway K (json_of g)) (\<lambda>out. Ret (out, st'))"
proof -
  have "request K cfg (PostGateways l) st = Ret (HttpReply c (BodyGateway g), st')"
    by (rule request_served[OF assms(1,2)]) (simp add: serve_def assms(5))
  then show ?thesis using assms(3,4,6) by (auto simp: addGatewayToStore_def StatusCode_def decoded_def cli_json_ok_def)
qed

lemma details_command_eq:
  assumes "delivers svc order e (gc_HttpAPI (cf_Gateways cfg)) K" "gc_HttpAPI (cf_Gateways cfg) \<noteq> []"
    and "mustDecodeGatewayID arg = Ret l" "lorawan_ok (av_L svc)" "cl_L K = av_L svc"
  shows "gatewayDetails K (Ret cfg) arg st =
    go_bind (decoded (cj_Gateway (cl_J K) (gateway_reply (gs_ByLocalID (av_gateways svc) (as_gateways st) l))))
      (\<lambda>g. go_bind (print_gateway K g) (\<lambda>out. Ret (out, st)))"
proof -
  have "request K cfg (GetGateway (eui_String (cl_L K) l)) st =
      Ret (gateway_reply (gs_ByLocalID (av_gateways svc) (as_gateways st) l), st)"
    by (rule request_served[OF assms(1,2)])
      (use assms(4,5) in \<open>simp add: serve_def api_Gateway_def Eui64FromString_def lorawan_ok_def\<close>)
  then show ?thesis using assms(3) by (simp add: gatewayDetails_def)
qed

text \<open>
  C21: the commands agree with the store.  When the service answers an add with a gateway, the gateway is in the store
  and printed; repeating the command prints the same and changes nothing, and the details command prints the same
  again.  When the service answers with an error, the command prints it and no lookup changes.  The details
  command for a gateway that is not in the store ends the process: it decodes the error text as a gateway.
\<close>

theorem gateway_add_command:
  assumes S: "av_gateways svc = yaml_table E L F Y" and inv: "ys_inv E (as_gateways st)"
    and K: "delivers svc order e (gc_HttpAPI (cf_Gateways cfg)) K" "gc_HttpAPI (cf_Gateways cfg) \<noteq> []"
      "cli_json_ok (cl_J K)" "lorawan_ok (av_L svc)" "cl_L K = av_L svc"
    and arg: "mustDecodeGatewayID arg = Ret l" and run: "AddGateway svc (Inr l) st = Some (rep, st')"
  shows "(case rep of
      HttpReply c b \<Rightarrow>
        (\<exists>g. let printed = go_bind (print_gateway K (json_of g)) (\<lambda>out. Ret (out, st'))
           in LocalID g = l \<and> ys_ByLocalID (as_gateways st') l = Inr g \<and>
              addGatewayToStore K (Ret cfg) arg st = printed \<and>
              addGatewayToStore K (Ret cfg) arg st' = printed \<and>
              gatewayDetails K (Ret cfg) arg st' = printed)
    | HttpError c msg \<Rightarrow>
        addGatewayToStore K (Ret cfg) arg st = Ret (PrintError c (cj_Text (cl_J K) rep), st') \<and>
        ys_ByLocalID (as_gateways st') = ys_ByLocalID (as_gateways st)) \<and>
    (ys_ByLocalID (as_gateways st) l = Inl ErrNotFound \<longrightarrow> gatewayDetails K (Ret cfg) arg st = Panic)"
proof
  note spec = yaml.AddGateway_spec[OF S inv run, unfolded yaml_lookups]
  show "ys_ByLocalID (as_gateways st) l = Inl ErrNotFound \<longrightarrow> gatewayDetails K (Ret cfg) arg st = Panic"
    by (rule cli_json_not_found[OF K(3)]) (auto simp: details_command_eq[OF K(1,2) arg K(4,5)] S yaml_lookups gateway_reply_def decoded_def)
  show "case rep of
      HttpReply c b \<Rightarrow>
        (\<exists>g. let printed = go_bind (print_gateway K (json_of g)) (\<lambda>out. Ret (out, st'))
           in LocalID g = l \<and> ys_ByLocalID (as_gateways st') l = Inr g \<and>
              addGatewayToStore K (Ret cfg) arg st = printed \<and>
              addGatewayToStore K (Ret cfg) arg st' = printed \<and>
              gatewayDetails K (Ret cfg) arg st' = printed)
    | HttpError c msg \<Rightarrow>
        addGatewayToStore K (Ret cfg) arg st = Ret (PrintError c (cj_Text (cl_J K) rep), st') \<and>
        ys_ByLocalID (as_gateways st') = ys_ByLocalID (as_gateways st)"
  proof (cases rep)
    case (HttpError c msg)
    have "request K cfg (PostGateways l) st = Ret (rep, st')"
      by (rule request_served[OF K(1,2)]) (simp add: serve_def run)
    then show ?thesis using spec arg AddGateway_error_code[OF run[unfolded HttpError]] HttpError
      by (simp add: addGatewayToStore_def StatusCode_def)
  next
    case (HttpReply c b)
    then obtain g where g: "rep = HttpReply c (BodyGateway g)" "LocalID g = l" "ys_ByLocalID (as_gateways st') l = Inr g"
      "l \<noteq> eui64_zero" "c = 200 \<or> c = 201" using spec by (auto split: if_splits)
    have again: "AddGateway svc (Inr l) st' = Some (HttpReply 200 (BodyGateway g), st')"
      using AddGateway_again[of svc st' l g] g S by (simp add: yaml_lookups)
    have "gatewayDetails K (Ret cfg) arg st' = go_bind (print_gateway K (json_of g)) (\<lambda>out. Ret (out, st'))"
      using K(3) g by (simp add: details_command_eq[OF K(1,2) arg K(4,5)] S yaml_lookups gateway_reply_def decoded_def cli_json_ok_def)
    then show ?thesis
      using add_command_eq[OF K(1,2) arg K(3) run[unfolded g(1)] g(5)] add_command_eq[OF K(1,2) arg K(3) again] g
      by (auto simp: Let_def)
  qed
qed

definition cli_json_example :: cli_json where
  "cli_json_example =
     \<lparr>cj_Gateway = (\<lambda>rep. case rep of HttpReply _ (BodyGateway g) \<Rightarrow> Inr (json_of g) | _ \<Rightarrow> Inl (Errorf ''json'')),
      cj_Gateways = (\<lambda>rep. case rep of
        HttpReply _ (BodyGateways pending onboarded) \<Rightarrow> Inr (map json_of pending, map json_of onboarded) | _ \<Rightarrow> Inl (Errorf ''json'')),
      cj_Onboard = (\<lambda>rep. case rep of HttpReply _ (BodyOnboard onb) \<Rightarrow> Inr onb | _ \<Rightarrow> Inl (Errorf ''json'')),
      cj_Onboards = (\<lambda>rep. case rep of HttpReply _ (BodyOnboards onbs) \<Rightarrow> Inr onbs | _ \<Rightarrow> Inl (Errorf ''json'')),
      cj_Text = (\<lambda>rep. case rep of HttpError _ msg \<Rightarrow> msg | _ \<Rightarrow> [])\<rparr>"

definition cli_example :: "('s, 'e, 'u, 'v) APIService \<Rightarrow> 'e \<Rightarrow> ('s, 'u) api_state cli" where
  "cli_example svc e =
     \<lparr>cl_E = eth_example, cl_L = av_L svc, cl_IsHexAddress = (\<lambda>a. length a = 40), cl_HexToAddress = (\<lambda>_. address_zero),
      cl_J = cli_json_example,
      cl_send = (\<lambda>addr r st. case serve svc [] e r st of Some (Ret (rep, st')) \<Rightarrow> (Inr rep, st') | _ \<Rightarrow> (Inl (Errorf ''post''), st)),
      cl_json = True\<rparr>"

lemma cli_example_ok:
  "delivers svc [] e addr (cli_example svc e)" "cli_json_ok (cl_J (cli_example svc e))" "cl_L (cli_example svc e) = av_L svc"
  by (auto simp: delivers_def cli_example_def cli_json_ok_def cli_json_example_def)

definition cli_config_example :: "(unit, unit) Config" where
  "cli_config_example = Config_zero\<lparr>cf_Gateways := cf_Gateways (Config_zero :: (unit, unit) Config)\<lparr>gc_HttpAPI := ''localhost:8081''\<rparr>\<rparr>"

theorem gateway_add_command_witness:
  "\<exists>st'. let svc = api_service_example (\<lambda>_ _. Inr 201); K = cli_example svc (registry_example, AppendOk);
         cfg = Ret cli_config_example
     in addGatewayToStore K cfg ''0000000000000001'' api_state_example = Ret (PrintGateway (json_of api_gateway_example), st') \<and>
        gatewayDetails K cfg ''0000000000000001'' st' = Ret (PrintGateway (json_of api_gateway_example), st') \<and>
        gatewayDetails K cfg ''0000000000000001'' api_state_example = Panic"
proof -
  let ?svc = "api_service_example (\<lambda>_ _. Inr 201)" and ?l = "EUI64 0 0 0 0 0 0 0 1"
  let ?K = "cli_example ?svc (registry_example, AppendOk)"
  obtain st1 where add: "add_new_gateway ?svc ?l api_state_example = Some (Inr api_gateway_example, st1)"
    using api_example_add by blast
  have run: "AddGateway ?svc (Inr ?l) api_state_example = Some (HttpReply 201 (BodyGateway api_gateway_example), st1)"
    using add api_example_contains(2)[of "\<lambda>_ _. Inr 201" ?l] by (simp add: AddGateway_def eui64_zero_def)
  have S: "av_gateways ?svc = yaml_table eth_example lorawan_hex freq_example yaml_example"
    and L: "av_L ?svc = lorawan_hex" by (simp_all add: api_service_example_def)
  have inv: "ys_inv eth_example (as_gateways api_state_example)"
    by (simp add: api_state_example_def yaml_store_example_inv)
  have arg: "mustDecodeGatewayID ''0000000000000001'' = Ret ?l" by code_simp
  have http: "gc_HttpAPI (cf_Gateways cli_config_example) \<noteq> []" by (simp add: cli_config_example_def)
  have ok: "lorawan_ok (av_L ?svc)" using L lorawan_hex_ok by simp
  have new: "ys_ByLocalID (as_gateways api_state_example) ?l = Inl ErrNotFound"
    using api_example_contains(2)[of "\<lambda>_ _. Inr 201" ?l] by (simp add: S yaml_lookups)
  have json: "print_gateway ?K j = Ret (PrintGateway j)" for j by (simp add: print_gateway_def cli_example_def)
  note added = gateway_add_command[OF S inv cli_example_ok(1) http cli_example_ok(2) ok cli_example_ok(3) arg run]
  from run S have "ys_ByLocalID (as_gateways st1) ?l = Inr api_gateway_example"
    using yaml.AddGateway_spec[OF S inv run] by (simp add: yaml_lookups)
  then show ?thesis using added new by (auto simp: json Let_def)
qed

end
