(* ===== verification/Config_Loading.thy ===== *)
theory Config_Loading
  imports Router_Setup Forwarder_Config Semtech_Packets Api
begin

text \<open>
  How a router reads its configuration, \<^verbatim>\<open>mustLoadConfig\<close> of \<^verbatim>\<open>router/config.go\<close>, with the decode hooks of
  \<^verbatim>\<open>utils/viper.go\<close> that turn the texts of the file into values, and the commands of \<^verbatim>\<open>router/cmd.go\<close>.  What the
  sources use of the standard library, \<^verbatim>\<open>os.ExpandEnv\<close>, \<^verbatim>\<open>time.ParseDuration\<close> and \<^verbatim>\<open>big.Int.SetString\<close>, is defined;
  viper and mapstructure are parameters.  Texts are ASCII.
\<close>

section \<open>The environment in the file\<close>

definition isShellSpecialVar :: "char \<Rightarrow> bool" where
  "isShellSpecialVar c \<longleftrightarrow> c \<in> set ''*#$@!?-'' \<or> is_digit c"

definition isAlphaNum :: "char \<Rightarrow> bool" where
  "isAlphaNum c \<longleftrightarrow> c = CHR ''_'' \<or> is_digit c \<or>
     97 \<le> (of_char c :: nat) \<and> (of_char c :: nat) \<le> 122 \<or> 65 \<le> (of_char c :: nat) \<and> (of_char c :: nat) \<le> 90"

text \<open>The name after a dollar and the number of characters it takes; no name for bad syntax.\<close>

fun getShellName :: "string \<Rightarrow> string \<times> nat" where
  "getShellName [] = ([], 0)"
| "getShellName (c # r) =
     (if c = CHR ''{'' then
        (if length r > 1 \<and> isShellSpecialVar (r ! 0) \<and> r ! 1 = CHR ''}'' then ([r ! 0], 3)
         else let body = takeWhile (\<lambda>d. d \<noteq> CHR ''}'') r
              in if body = r then ([], 1) else if body = [] then ([], 2) else (body, length body + 2))
      else if isShellSpecialVar c then ([c], 1)
      else let name = takeWhile isAlphaNum (c # r) in (name, length name))"

fun ExpandEnv :: "(string \<Rightarrow> string) \<Rightarrow> string \<Rightarrow> string" where
  "ExpandEnv Getenv [] = []"
| "ExpandEnv Getenv (c # s) =
     (if c = CHR ''$'' \<and> s \<noteq> [] then
        (case getShellName s of (name, w) \<Rightarrow>
           (if name = [] \<and> 0 < w then [] else if name = [] then [c] else Getenv name) @ ExpandEnv Getenv (drop w s))
      else c # ExpandEnv Getenv s)"

section \<open>Durations\<close>

definition unitMap :: "string \<Rightarrow> nat option" where
  "unitMap u =
     (if u = ''ns'' then Some 1
      else if u = ''us'' \<or> u = [CHR 0xC2, CHR 0xB5, CHR ''s''] \<or> u = [CHR 0xCE, CHR 0xBC, CHR ''s''] then Some 1000
      else if u = ''ms'' then Some 1000000
      else if u = ''s'' then Some 1000000000
      else if u = ''m'' then Some 60000000000
      else if u = ''h'' then Some 3600000000000
      else None)"

fun leadingInt :: "nat \<Rightarrow> string \<Rightarrow> (nat \<times> string) option" where
  "leadingInt x [] = Some (x, [])"
| "leadingInt x (c # s) =
     (if \<not> is_digit c then Some (x, c # s)
      else if x > 2 ^ 63 div 10 then None
      else if x * 10 + digit_value c > 2 ^ 63 then None
      else leadingInt (x * 10 + digit_value c) s)"

text \<open>Digits after an overflow are skipped.\<close>

fun leadingFraction :: "nat \<Rightarrow> rat \<Rightarrow> bool \<Rightarrow> string \<Rightarrow> nat \<times> rat \<times> string" where
  "leadingFraction x scale overflow [] = (x, scale, [])"
| "leadingFraction x scale overflow (c # s) =
     (if \<not> is_digit c then (x, scale, c # s)
      else if overflow \<or> x > (2 ^ 63 - 1) div 10 \<or> x * 10 + digit_value c > 2 ^ 63 then leadingFraction x scale True s
      else leadingFraction (x * 10 + digit_value c) (f64 (scale * 10)) False s)"

definition unit_char :: "char \<Rightarrow> bool" where
  "unit_char c \<longleftrightarrow> c \<noteq> CHR ''.'' \<and> \<not> is_digit c"

text \<open>One number with its unit: its nanoseconds and what follows; \<open>None\<close> is an error.\<close>

definition duration_item :: "string \<Rightarrow> (nat \<times> string) option" where
  "duration_item s =
     (case leadingInt 0 s of
        None \<Rightarrow> None
      | Some (v, s1) \<Rightarrow>
          let pre = (length s \<noteq> length s1);
              dot = (s1 \<noteq> [] \<and> hd s1 = CHR ''.'');
              (f, scale, s2) = (if dot then leadingFraction 0 1 False (tl s1) else (0, 1, s1));
              post = (dot \<and> length (tl s1) \<noteq> length s2);
              u = takeWhile unit_char s2
          in if \<not> pre \<and> \<not> post then None
             else if u = [] then None
             else (case unitMap u of
                     None \<Rightarrow> None
                   | Some unit \<Rightarrow>
                       if v > 2 ^ 63 div unit then None
                       else let v = v * unit
                            in if 0 < f
                               then let v = v + nat \<lfloor>f64 (f64 (of_nat f) * f64 (of_nat unit / scale))\<rfloor>
                                    in if v > 2 ^ 63 then None else Some (v, dropWhile unit_char s2)
                               else Some (v, dropWhile unit_char s2)))"

lemma leadingInt_length: "leadingInt x s = Some (v, r) \<Longrightarrow> length r \<le> length s"
  by (induction x s rule: leadingInt.induct) (auto split: if_splits)

lemma leadingFraction_length: "leadingFraction x sc ovf s = (f, sc', r) \<Longrightarrow> length r \<le> length s"
  by (induction x sc ovf s rule: leadingFraction.induct) (auto split: if_splits)

lemma dropWhile_shorter: "takeWhile P s \<noteq> [] \<Longrightarrow> length (dropWhile P s) < length s"
  by (cases s) (auto intro: le_imp_less_Suc length_dropWhile_le split: if_splits)

lemma duration_item_shorter: "duration_item s = Some (v, r) \<Longrightarrow> length r < length s"
  by (auto simp: duration_item_def Let_def split: option.splits prod.splits if_splits
      dest!: leadingInt_length leadingFraction_length dropWhile_shorter intro: less_le_trans)

text \<open>The sum of the items is kept in 64 bits.\<close>

function duration_loop :: "nat \<Rightarrow> string \<Rightarrow> nat option" where
  "duration_loop d [] = Some d"
| "duration_loop d (c # s) =
     (if c \<noteq> CHR ''.'' \<and> \<not> is_digit c then None
      else case duration_item (c # s) of
             None \<Rightarrow> None
           | Some (v, rest) \<Rightarrow>
               let d = (d + v) mod 2 ^ 64 in if d > 2 ^ 63 then None else duration_loop d rest)"
  by pat_completeness auto
termination
  by (relation "measure (\<lambda>(d, s). length s)") (auto dest: duration_item_shorter)

definition ParseDuration :: "string \<Rightarrow> duration result" where
  "ParseDuration orig =
     (let neg = (orig \<noteq> [] \<and> hd orig = CHR ''-'');
          s = (if orig \<noteq> [] \<and> (hd orig = CHR ''-'' \<or> hd orig = CHR ''+'') then tl orig else orig)
      in if s = ''0'' then Inr 0
         else if s = [] then Inl (Errorf ''time: invalid duration'')
         else case duration_loop 0 s of
                None \<Rightarrow> Inl (Errorf ''time: invalid duration'')
              | Some d \<Rightarrow>
                  if neg then Inr (- int d)
                  else if d > 2 ^ 63 - 1 then Inl (Errorf ''time: invalid duration'')
                  else Inr (int d))"

section \<open>Decode hooks\<close>

text \<open>The values a hook sees and the types it decodes to.\<close>

datatype cfg_value =
    VString string
  | VInt int
  | VBigInt int
  | VAddress address
  | VHash bytes
  | VDuration duration
  | VLevel log_level
  | VStrings "string list"
  | VOther

datatype cfg_type = TAddress | TBigInt | THash | TDuration | TLevel | TSlice | TOther

type_synonym hook = "cfg_type \<Rightarrow> cfg_value \<Rightarrow> cfg_value result"

definition StringToEthereumAddressHook :: "(string \<Rightarrow> address) \<Rightarrow> hook" where
  "StringToEthereumAddressHook HexToAddress t data =
     (case data of VString s \<Rightarrow> if t \<noteq> TAddress then Inr data else Inr (VAddress (HexToAddress s)) | _ \<Rightarrow> Inr data)"

fun hex_nat :: "nat \<Rightarrow> string \<Rightarrow> nat option" where
  "hex_nat acc [] = Some acc"
| "hex_nat acc (c # s) = (case hex_val c of None \<Rightarrow> None | Some d \<Rightarrow> hex_nat (16 * acc + d) s)"

text \<open>\<^verbatim>\<open>big.Int.SetString\<close> at base 16: an optional sign and at least one digit.\<close>

definition SetString16 :: "string \<Rightarrow> int option" where
  "SetString16 s =
     (let signed = (s \<noteq> [] \<and> (hd s = CHR ''-'' \<or> hd s = CHR ''+''));
          digits = (if signed then tl s else s)
      in if digits = [] then None
         else map_option (\<lambda>n. if hd s = CHR ''-'' then - int n else int n) (hex_nat 0 digits))"

definition HexStringToBigIntHook :: hook where
  "HexStringToBigIntHook t data =
     (case data of
        VString biStr \<Rightarrow>
          if t \<noteq> TBigInt then Inr data
          else let biStr = (if take 2 biStr = ''0x'' \<or> take 2 biStr = ''0X'' then drop 2 biStr else biStr)
               in (case SetString16 biStr of
                     Some bi \<Rightarrow> Inr (VBigInt bi)
                   | None \<Rightarrow> Inl (Errorf ''could not parse hex string to big.Int''))
      | _ \<Rightarrow> Inr data)"

definition IntToBigIntHook :: hook where
  "IntToBigIntHook t data =
     (case data of VInt i \<Rightarrow> if t \<noteq> TBigInt then Inr data else Inr (VBigInt i) | _ \<Rightarrow> Inr data)"

definition StringToHashHook :: "(string \<Rightarrow> bytes) \<Rightarrow> hook" where
  "StringToHashHook HexToHash t data =
     (case data of VString s \<Rightarrow> if t \<noteq> THash then Inr data else Inr (VHash (HexToHash s)) | _ \<Rightarrow> Inr data)"

definition StringToDuration :: hook where
  "StringToDuration t data =
     (case data of
        VString s \<Rightarrow>
          if t \<noteq> TDuration then Inr data
          else (case ParseDuration s of Inl err \<Rightarrow> Inl err | Inr d \<Rightarrow> Inr (VDuration d))
      | _ \<Rightarrow> Inr data)"

definition StringToLogrusLevel :: hook where
  "StringToLogrusLevel t data =
     (case data of
        VString s \<Rightarrow>
          if t \<noteq> TLevel then Inr data
          else let l = map to_lower_char s
               in if l = ''trace'' then Inr (VLevel TraceLevel)
                  else if l = ''debug'' then Inr (VLevel DebugLevel)
                  else if l = ''info'' then Inr (VLevel InfoLevel)
                  else if l = ''warn'' then Inr (VLevel WarnLevel)
                  else if l = ''error'' then Inr (VLevel ErrorLevel)
                  else if l = ''fatal'' then Inr (VLevel FatalLevel)
                  else if l = ''panic'' then Inr (VLevel PanicLevel)
                  else Inl (Errorf ''invalid log level'')
      | _ \<Rightarrow> Inr data)"

section \<open>The configuration of a router\<close>

record router_Config =
  rcf_Log :: "log_level \<times> bool"
  rcf_Router :: RouterConfig
  rcf_Metrics :: "MetricsPrometheusConfig option option"

definition router_PrometheusEnabled :: "router_Config \<Rightarrow> bool" where
  "router_PrometheusEnabled cfg = (case rcf_Metrics cfg of None \<Rightarrow> False | Some p \<Rightarrow> p \<noteq> None)"

definition router_MetricsPrometheusAddress :: "router_Config \<Rightarrow> string go" where
  "router_MetricsPrometheusAddress cfg =
     go_bind (deref (rcf_Metrics cfg)) (\<lambda>m. go_bind (deref m) (\<lambda>p.
       Ret (if pm_Address p \<noteq> [] then pm_Address p else ''localhost:8080'')))"

definition router_MetricsPrometheusPath :: "router_Config \<Rightarrow> string go" where
  "router_MetricsPrometheusPath cfg =
     go_bind (deref (rcf_Metrics cfg)) (\<lambda>m. go_bind (deref m) (\<lambda>p.
       Ret (if pm_Path p \<noteq> [] then pm_Path p else ''/metrics'')))"

text \<open>Viper with the settings \<open>'x\<close> it has read, and mapstructure: the composition of hooks and the hook that splits lists.\<close>

record 'x router_viper =
  rv_config :: string
  rv_Getenv :: "string \<Rightarrow> string"
  rv_ReadConfig :: "string \<Rightarrow> 'x result"
  rv_Unmarshal :: "hook \<Rightarrow> 'x \<Rightarrow> router_Config result"
  rv_Compose :: "hook list \<Rightarrow> hook"
  rv_StringToSlice :: hook
  rv_HexToAddress :: "string \<Rightarrow> address"
  rv_HexToHash :: "string \<Rightarrow> bytes"

definition router_hooks :: "'x router_viper \<Rightarrow> hook list" where
  "router_hooks V =
     [rv_StringToSlice V, StringToEthereumAddressHook (rv_HexToAddress V), IntToBigIntHook, HexStringToBigIntHook,
      StringToHashHook (rv_HexToHash V), StringToDuration, StringToLogrusLevel]"

definition router_mustLoadConfig :: "'x router_viper \<Rightarrow> files \<Rightarrow> router_Config result" where
  "router_mustLoadConfig V fs =
     (case fs (rv_config V) of
        File cb \<Rightarrow>
          let cbs = ExpandEnv (rv_Getenv V) (map byte_char cb)
          in (case rv_ReadConfig V cbs of
                Inl err \<Rightarrow> Inl err
              | Inr settings \<Rightarrow> rv_Unmarshal V (rv_Compose V (router_hooks V)) settings)
      | _ \<Rightarrow> Inl (Errorf ''open''))"

section \<open>The commands of the router\<close>

text \<open>The loaded configuration is only there when there is no error, so the guard on both never holds.\<close>

definition GenerateKey ::
  "eth_lib \<Rightarrow> keyfile_yaml \<Rightarrow> 'x router_viper \<Rightarrow> (nat \<Rightarrow> private_key result) \<Rightarrow> bool \<Rightarrow> string list \<Rightarrow> files \<Rightarrow> files go option" where
  "GenerateKey E Y V src creatable args fs =
     (let (cfg, err) = (case router_mustLoadConfig V fs of Inl err \<Rightarrow> (None, Some err) | Inr cfg \<Rightarrow> (Some cfg, None));
          filename = (case (err, cfg) of
                        (Some _, Some cfg) \<Rightarrow> if rc_Keyfile (rcf_Router cfg) \<noteq> [] then rc_Keyfile (rcf_Router cfg) else []
                      | _ \<Rightarrow> []);
          filename = (case args of [a] \<Rightarrow> a | _ \<Rightarrow> filename)
      in if filename = [] then Some Panic else mustGenerateKey E Y src creatable filename fs)"

text \<open>What \<^verbatim>\<open>Run\<close> starts: the integration and the router, and whether metrics are served.\<close>

definition router_Run ::
  "eth_lib \<Rightarrow> keyfile_yaml \<Rightarrow> (chirp_mqtt \<Rightarrow> go_error option) \<Rightarrow> chirpstack_dial \<Rightarrow> 'x router_viper \<Rightarrow> files \<Rightarrow>
   (chirp_mqtt \<times> started_router \<times> bool) go" where
  "router_Run E Y Setup dial V fs =
     (case router_mustLoadConfig V fs of
        Inl err \<Rightarrow> Panic
      | Inr cfg \<Rightarrow>
          go_bind (buildIntegrations Setup (rcf_Router cfg)) (\<lambda>integration.
            case integration of
              Inl err \<Rightarrow> Panic
            | Inr integration \<Rightarrow>
                (case router_NewRouter E Y dial fs (rcf_Router cfg) of
                   Inl err \<Rightarrow> Panic
                 | Inr router \<Rightarrow> Ret (integration, router, router_PrometheusEnabled cfg))))"

section \<open>Facts\<close>

lemma leadingInt_show:
  "n \<le> 2 ^ 63 \<Longrightarrow> leadingInt 0 (show_nat n @ s) = leadingInt n s"
proof (induction n arbitrary: s rule: show_nat.induct)
  case (1 n)
  show ?case
  proof (cases "n < 10")
    case True
    then show ?thesis using True 1(2) by (simp add: show_nat.simps[of n])
  next
    case False
    have "leadingInt 0 (show_nat n @ s) = leadingInt (n div 10) (char_of (48 + n mod 10) # s)"
      using 1(1)[OF False, of "char_of (48 + n mod 10) # s"] 1(2) False by (simp add: show_nat.simps[of n])
    moreover have "n div 10 \<le> 2 ^ 63 div 10" using 1(2) by (rule div_le_mono)
    moreover have "n div 10 * 10 + n mod 10 = n" by simp
    ultimately show ?thesis using 1(2) by (simp del: of_nat_add)
  qed
qed

lemma unit_chars: "unitMap u = Some k \<Longrightarrow> u \<noteq> [] \<and> list_all unit_char u \<and> 0 < k"
  by (auto simp: unitMap_def unit_char_def is_digit_def split: if_splits)

text \<open>A duration written as whole numbers with their units, such as \<open>1m5s\<close>, and its nanoseconds.\<close>

fun duration_text :: "(nat \<times> string) list \<Rightarrow> string" where
  "duration_text [] = []"
| "duration_text ((n, u) # items) = show_nat n @ u @ duration_text items"

fun duration_value :: "(nat \<times> string) list \<Rightarrow> nat option" where
  "duration_value [] = Some 0"
| "duration_value ((n, u) # items) =
     (case (unitMap u, duration_value items) of (Some k, Some v) \<Rightarrow> Some (n * k + v) | _ \<Rightarrow> None)"

lemma show_nat_Cons: obtains c s where "show_nat n = c # s" "is_digit c"
  using show_nat_digits[of n] by (cases "show_nat n") auto

lemma duration_text_head: "duration_text items = [] \<or> (\<exists>c s. duration_text items = c # s \<and> is_digit c)"
proof (cases items)
  case (Cons p rest)
  obtain n u where p: "p = (n, u)" by (cases p)
  obtain c s where "show_nat n = c # s" "is_digit c" using show_nat_Cons[of n] .
  then show ?thesis using Cons p by simp
qed simp

lemma takeWhile_unit: "list_all P s \<Longrightarrow> r = [] \<or> (\<exists>c t. r = c # t \<and> \<not> P c) \<Longrightarrow> takeWhile P (s @ r) = s \<and> dropWhile P (s @ r) = r"
  by (induction s) auto

lemma duration_item_whole:
  assumes u: "unitMap u = Some k" and n: "n * k \<le> 2 ^ 63"
  shows "duration_item (show_nat n @ u @ duration_text items) = Some (n * k, duration_text items)"
proof -
  let ?r = "duration_text items"
  note c = unit_chars[OF u]
  have "?r = [] \<or> (\<exists>c t. ?r = c # t \<and> \<not> unit_char c)" using duration_text_head[of items] by (auto simp: unit_char_def)
  then have tw: "takeWhile unit_char (u @ ?r) = u" "dropWhile unit_char (u @ ?r) = ?r" using takeWhile_unit c by blast+
  have "n \<le> n * k" using c by simp
  then have le: "n \<le> 2 ^ 63" using n by linarith
  obtain d v where dv: "u = d # v" "unit_char d" using c by (cases u) auto
  then have "leadingInt n (u @ ?r) = Some (n, u @ ?r)" by (simp add: unit_char_def)
  then have "leadingInt 0 (show_nat n @ u @ ?r) = Some (n, u @ ?r)" using leadingInt_show[OF le, of "u @ ?r"] by simp
  moreover have "\<not> hd (u @ ?r) = CHR ''.''" using dv by (simp add: unit_char_def)
  moreover have "n \<le> 2 ^ 63 div k" using n c by (simp add: less_eq_div_iff_mult_less_eq)
  ultimately show ?thesis
    using u c show_nat_digits[of n] by (simp add: duration_item_def Let_def tw)
qed

lemma duration_loop_text:
  "duration_value items = Some v \<Longrightarrow> d + v < 2 ^ 63 \<Longrightarrow> duration_loop d (duration_text items) = Some (d + v)"
proof (induction items arbitrary: d v)
  case (Cons p items)
  obtain n u where p: "p = (n, u)" by (cases p)
  obtain k w where k: "unitMap u = Some k" "duration_value items = Some w" "v = n * k + w"
    using Cons.prems(1) p by (auto split: option.splits)
  obtain c s where c: "show_nat n = c # s" "is_digit c" using show_nat_Cons[of n] .
  have "n * k \<le> 2 ^ 63" using Cons.prems(2) k(3) by simp
  from duration_item_whole[OF k(1) this, of items]
  have item: "duration_item (c # s @ u @ duration_text items) = Some (n * k, duration_text items)" using c(1) by simp
  have "(d + n * k) mod 2 ^ 64 = d + n * k" using Cons.prems(2) k(3) by simp
  then have "duration_loop d (duration_text (p # items)) = duration_loop (d + n * k) (duration_text items)"
    using item c p Cons.prems(2) k(3) by (simp add: Let_def)
  then show ?case using Cons.IH[OF k(2), of "d + n * k"] Cons.prems(2) k(3) by (simp add: add.assoc)
qed simp

lemma ParseDuration_text:
  assumes "items \<noteq> []" "duration_value items = Some v" "v < 2 ^ 63"
  shows "ParseDuration (duration_text items) = Inr (int v)" "ParseDuration (CHR ''-'' # duration_text items) = Inr (- int v)"
proof -
  obtain n u rest where items: "items = (n, u) # rest" using assms(1) by (cases items) auto
  obtain k where "unitMap u = Some k" using assms(2) items by (auto split: option.splits)
  then have u: "u \<noteq> []" using unit_chars by blast
  obtain c s where c: "show_nat n = c # s" "is_digit c" using show_nat_Cons[of n] .
  have sign: "c \<noteq> CHR ''-''" "c \<noteq> CHR ''+''" using c(2) by (auto simp: is_digit_def)
  let ?t = "c # s @ u @ duration_text rest"
  have "duration_loop 0 (duration_text items) = Some v" using duration_loop_text[OF assms(2), of 0] assms(3) by simp
  then have loop: "duration_loop 0 ?t = Some v" using items c(1) by simp
  have t: "duration_text items = ?t" "?t \<noteq> ''0''" using items c(1) u by simp_all
  show "ParseDuration (duration_text items) = Inr (int v)"
    unfolding t(1) using loop t(2) sign assms(3) by (simp add: ParseDuration_def Let_def u del: duration_loop.simps)
  show "ParseDuration (CHR ''-'' # duration_text items) = Inr (- int v)"
    unfolding t(1) using loop t(2) by (simp add: ParseDuration_def Let_def u del: duration_loop.simps)
qed

lemma hex_nat_encode: "hex_nat a (hex_encode bs) = Some (foldl (\<lambda>v b. v * 256 + unat b) a bs)"
proof (induction bs arbitrary: a)
  case Nil
  then show ?case by simp
next
  case (Cons b bs)
  have "unat b < 256" using unsigned_less[of b, where 'a = nat] by simp
  then have d: "unat b div 16 < 16" "unat b mod 16 < 16" by simp_all
  have "16 * (16 * a + unat b div 16) + unat b mod 16 = a * 256 + unat b" by simp
  then show ?case using Cons[of "16 * (16 * a + unat b div 16) + unat b mod 16"] d by (simp only: hex_encode.simps hex_nat.simps
      hex_val_digit option.case foldl.simps)
qed

lemma hex_val_sign: "hex_val CHR ''-'' = None" "hex_val CHR ''+'' = None"
  by (simp_all add: hex_val_def)

lemma hex_digit_no_sign: "n < 16 \<Longrightarrow> hex_digit n \<noteq> CHR ''-'' \<and> hex_digit n \<noteq> CHR ''+''"
  by (metis hex_val_digit option.distinct(1) hex_val_sign)

lemma SetString16_encode: "bs \<noteq> [] \<Longrightarrow> SetString16 (hex_encode bs) = Some (int (foldl (\<lambda>v b. v * 256 + unat b) 0 bs))"
proof (cases bs)
  case (Cons b bs')
  have "unat b div 16 < 16" using unsigned_less[of b, where 'a = nat] by simp
  then show ?thesis using Cons hex_digit_no_sign[of "unat b div 16"] hex_nat_encode[of 0 bs]
    by (simp add: SetString16_def Let_def del: hex_nat.simps)
qed simp

text \<open>Text without a dollar is kept, and a variable in braces is replaced.\<close>

lemma ExpandEnv_plain: "CHR ''$'' \<notin> set s \<Longrightarrow> ExpandEnv env (s @ r) = s @ ExpandEnv env r"
  by (induction s) auto

lemma ExpandEnv_var:
  assumes "name \<noteq> []" "CHR ''}'' \<notin> set name"
  shows "ExpandEnv env (''${'' @ name @ ''}'' @ r) = env name @ ExpandEnv env r"
proof -
  have tw: "takeWhile (\<lambda>d. d \<noteq> CHR ''}'') (name @ CHR ''}'' # r) = name"
    using assms(2) by (induction name) auto
  have "getShellName (CHR ''{'' # name @ CHR ''}'' # r) = (name, length name + 2)"
  proof (cases name)
    case (Cons c cs)
    then show ?thesis using tw assms(2) by (cases cs) (auto simp: Let_def)
  qed (use assms in simp)
  then show ?thesis using assms by (simp del: getShellName.simps)
qed

text \<open>A text with variables in braces, and what is put in their place.\<close>

definition template_text :: "(string \<times> string) list \<Rightarrow> string \<Rightarrow> string" where
  "template_text parts rest = concat (map (\<lambda>(piece, name). piece @ ''${'' @ name @ ''}'') parts) @ rest"

definition template_value :: "(string \<Rightarrow> string) \<Rightarrow> (string \<times> string) list \<Rightarrow> string \<Rightarrow> string" where
  "template_value env parts rest = concat (map (\<lambda>(piece, name). piece @ env name) parts) @ rest"

definition template_ok :: "(string \<times> string) list \<Rightarrow> string \<Rightarrow> bool" where
  "template_ok parts rest \<longleftrightarrow> CHR ''$'' \<notin> set rest \<and>
     (\<forall>(piece, name) \<in> set parts. CHR ''$'' \<notin> set piece \<and> name \<noteq> [] \<and> CHR ''}'' \<notin> set name)"

lemma ExpandEnv_template: "template_ok parts rest \<Longrightarrow> ExpandEnv env (template_text parts rest) = template_value env parts rest"
proof (induction parts)
  case Nil
  then show ?case using ExpandEnv_plain[of rest env "[]"] by (simp add: template_ok_def template_text_def template_value_def)
next
  case (Cons p parts)
  obtain piece name where p: "p = (piece, name)" by (cases p)
  have ok: "CHR ''$'' \<notin> set piece" "name \<noteq> []" "CHR ''}'' \<notin> set name" "template_ok parts rest"
    using Cons.prems p by (simp_all add: template_ok_def)
  have "template_text (p # parts) rest = piece @ ''${'' @ name @ ''}'' @ template_text parts rest" by (simp add: template_text_def p)
  then have "ExpandEnv env (template_text (p # parts) rest) = piece @ env name @ ExpandEnv env (template_text parts rest)"
    using ExpandEnv_plain[OF ok(1)] ExpandEnv_var[OF ok(2,3)] by simp
  then show ?case using Cons.IH[OF ok(4)] by (simp add: template_value_def p)
qed

section \<open>Properties\<close>

text \<open>What the composition of hooks is: one after the other, each on the value of the one before.\<close>

fun run_hooks :: "hook list \<Rightarrow> hook" where
  "run_hooks [] t data = Inr data"
| "run_hooks (h # hs) t data = (case h t data of Inl err \<Rightarrow> Inl err | Inr data \<Rightarrow> run_hooks hs t data)"

definition mapstructure_ok :: "'x router_viper \<Rightarrow> bool" where
  "mapstructure_ok V \<longleftrightarrow> rv_Compose V = run_hooks \<and> (\<forall>t data. t \<noteq> TSlice \<longrightarrow> rv_StringToSlice V t data = Inr data)"

definition level_name :: "log_level \<Rightarrow> string" where
  "level_name l =
     (case l of TraceLevel \<Rightarrow> ''trace'' | DebugLevel \<Rightarrow> ''debug'' | InfoLevel \<Rightarrow> ''info'' | WarnLevel \<Rightarrow> ''warn''
      | ErrorLevel \<Rightarrow> ''error'' | FatalLevel \<Rightarrow> ''fatal'' | PanicLevel \<Rightarrow> ''panic'')"

lemmas hook_defs = StringToEthereumAddressHook_def HexStringToBigIntHook_def IntToBigIntHook_def StringToHashHook_def
  StringToDuration_def StringToLogrusLevel_def router_hooks_def

lemma hooks_duration: "mapstructure_ok V \<Longrightarrow> rv_Compose V (router_hooks V) TDuration (VString s) = map_sum (\<lambda>e. e) VDuration (ParseDuration s)"
  by (simp add: mapstructure_ok_def hook_defs split: sum.splits)

lemma hooks_big_int:
  "mapstructure_ok V \<Longrightarrow> bs \<noteq> [] \<Longrightarrow> rv_Compose V (router_hooks V) TBigInt (VString (''0x'' @ hex_encode bs)) =
     Inr (VBigInt (int (foldl (\<lambda>v b. v * 256 + unat b) 0 bs)))"
  by (simp add: mapstructure_ok_def hook_defs SetString16_encode)

lemma hooks_level:
  "mapstructure_ok V \<Longrightarrow> map to_lower_char s = level_name l \<Longrightarrow>
   rv_Compose V (router_hooks V) TLevel (VString s) = Inr (VLevel l)"
  by (cases l) (simp_all add: mapstructure_ok_def hook_defs level_name_def)

lemma hooks_other:
  "mapstructure_ok V \<Longrightarrow> rv_Compose V (router_hooks V) TOther data = Inr data"
  by (cases data) (simp_all add: mapstructure_ok_def hook_defs)

text \<open>
  C36: the texts of a router's configuration file mean what they say.  When the file has variables in braces, what is read is
  its text with the values of the variables in their place, and the settings are decoded through the composed decode hooks.  Through these, a duration
  written as whole numbers with units, such as \<open>1m5s\<close>, also with a minus sign, becomes the sum of their nanoseconds as long as
  it fits 63 bits; a prefixed hexadecimal text becomes the number of its bytes; a level name in any case becomes its
  level; and a value for any other type is kept.
\<close>

theorem config_text_decodes:
  assumes "mapstructure_ok V" "fs (rv_config V) = File (map char_byte (template_text parts rest))" "template_ok parts rest"
  shows "router_mustLoadConfig V fs =
      (case rv_ReadConfig V (template_value (rv_Getenv V) parts rest) of
         Inl err \<Rightarrow> Inl err
       | Inr settings \<Rightarrow> rv_Unmarshal V (rv_Compose V (router_hooks V)) settings) \<and>
    (\<forall>items v. items \<noteq> [] \<and> duration_value items = Some v \<and> v < 2 ^ 63 \<longrightarrow>
       rv_Compose V (router_hooks V) TDuration (VString (duration_text items)) = Inr (VDuration (int v)) \<and>
       rv_Compose V (router_hooks V) TDuration (VString (CHR ''-'' # duration_text items)) = Inr (VDuration (- int v))) \<and>
    (\<forall>bs. bs \<noteq> [] \<longrightarrow> rv_Compose V (router_hooks V) TBigInt (VString (''0x'' @ hex_encode bs)) =
       Inr (VBigInt (int (foldl (\<lambda>v b. v * 256 + unat b) 0 bs)))) \<and>
    (\<forall>s l. map to_lower_char s = level_name l \<longrightarrow> rv_Compose V (router_hooks V) TLevel (VString s) = Inr (VLevel l)) \<and>
    (\<forall>data. rv_Compose V (router_hooks V) TOther data = Inr data)"
proof -
  have "router_mustLoadConfig V fs =
      (case rv_ReadConfig V (template_value (rv_Getenv V) parts rest) of
         Inl err \<Rightarrow> Inl err
       | Inr settings \<Rightarrow> rv_Unmarshal V (rv_Compose V (router_hooks V)) settings)"
    using assms(2) ExpandEnv_template[OF assms(3)] by (simp add: router_mustLoadConfig_def Let_def)
  then show ?thesis
    using hooks_duration[OF assms(1)] ParseDuration_text hooks_big_int[OF assms(1)] hooks_level[OF assms(1)] hooks_other[OF assms(1)]
    by simp
qed

text \<open>The key command does not use the key file of the configuration.\<close>

theorem generate_key_argument:
  "GenerateKey E Y V src creatable args fs =
     (case args of [a] \<Rightarrow> if a = [] then Some Panic else mustGenerateKey E Y src creatable a fs | _ \<Rightarrow> Some Panic)"
  by (auto simp: GenerateKey_def Let_def split: sum.splits list.splits)

definition viper_router_example :: "string router_viper" where
  "viper_router_example =
     \<lparr>rv_config = ''config.yaml'', rv_Getenv = (\<lambda>n. if n = ''HOME'' then ''/root'' else []), rv_ReadConfig = Inr,
      rv_Unmarshal = (\<lambda>h x. Inr \<lparr>rcf_Log = (InfoLevel, True), rcf_Router = router_config_example, rcf_Metrics = None\<rparr>),
      rv_Compose = run_hooks, rv_StringToSlice = (\<lambda>t data. Inr data), rv_HexToAddress = (\<lambda>_. address_zero),
      rv_HexToHash = (\<lambda>_. [])\<rparr>"

theorem config_text_decodes_witness:
  "rv_Compose viper_router_example (router_hooks viper_router_example) TDuration (VString ''1m5s'') = Inr (VDuration 65000000000) \<and>
   rv_Compose viper_router_example (router_hooks viper_router_example) TLevel (VString ''Warn'') = Inr (VLevel WarnLevel) \<and>
   router_mustLoadConfig viper_router_example (no_files(''config.yaml'' := File (map char_byte ''key: ${HOME}/key''))) =
     rv_Unmarshal viper_router_example (rv_Compose viper_router_example (router_hooks viper_router_example)) ''key: /root/key''"
proof -
  let ?V = viper_router_example and ?parts = "[(''key: '', ''HOME'')]"
  let ?fs = "no_files(''config.yaml'' := File (map char_byte ''key: ${HOME}/key''))"
  have ok: "mapstructure_ok ?V" by (simp add: mapstructure_ok_def viper_router_example_def)
  have fs: "?fs (rv_config ?V) = File (map char_byte (template_text ?parts ''/key''))"
    by (simp add: viper_router_example_def template_text_def)
  have tmpl: "template_ok ?parts ''/key''" by (simp add: template_ok_def)
  note decodes = config_text_decodes[where fs = ?fs, OF ok fs tmpl]
  have d: "duration_value [(1, ''m''), (5, ''s'')] = Some 65000000000" "duration_text [(1, ''m''), (5, ''s'')] = ''1m5s''"
    "map to_lower_char ''Warn'' = level_name WarnLevel"
    by (simp_all add: unitMap_def show_nat.simps to_lower_char_def level_name_def char_of_def bit_0)
  have "rv_Compose ?V (router_hooks ?V) TDuration (VString ''1m5s'') = Inr (VDuration 65000000000)"
    using decodes[THEN conjunct2, THEN conjunct1, rule_format, of "[(1, ''m''), (5, ''s'')]" 65000000000] unfolding d(2) using d(1) by simp
  moreover have "rv_Compose ?V (router_hooks ?V) TLevel (VString ''Warn'') = Inr (VLevel WarnLevel)"
    using decodes[THEN conjunct2, THEN conjunct2, THEN conjunct2, THEN conjunct1] d(3) by blast
  moreover have "rv_ReadConfig ?V (template_value (rv_Getenv ?V) ?parts ''/key'') = Inr ''key: /root/key''"
    by (simp add: viper_router_example_def template_value_def)
  ultimately show ?thesis using decodes[THEN conjunct1] by simp
qed

end
