(* ===== verification/Routing_Run.thy ===== *)
theory Routing_Run
  imports Router_Client
begin

text \<open>
  The routing table and the clients it has started, together: \<^verbatim>\<open>keepRouteTableUpToDate\<close> of \<^verbatim>\<open>forwarder/routes.go\<close> runs in one
  goroutine, each client (\<^verbatim>\<open>forwarder/router_client.go\<close>) in one of its own.  A round of the table starts clients, cancels
  them and sends them details, which wait until a client takes them; a client that has ended takes none, and
  its end is not reported to the table.  A client that is cancelled ends on its own, since its stream is closed, and is left out
  from then on.  The clients of default routers, which the table does not keep, are not part of it.
\<close>

section \<open>State\<close>

text \<open>A client dials or waits to dial again, is connected, or its \<^verbatim>\<open>Run\<close> has returned; with the details that were sent to it.\<close>

datatype ('a, 'bm) client_state =
    Dialling "('a, 'bm) router_client" "RouterDetails list"
  | Live "('a, 'bm) session" "RouterDetails list"
  | Ended

record ('a, 'bm) routing =
  ro_existing :: route_clients
  ro_next :: nat
  ro_clients :: "nat \<rightharpoonup> ('a, 'bm) client_state"

definition routing_New :: "('a, 'bm) routing" where
  "routing_New = \<lparr>ro_existing = Map.empty, ro_next = 0, ro_clients = Map.empty\<rparr>"

section \<open>Steps\<close>

text \<open>What a round does to the clients; \<open>acc\<close> is the accounting of a new client.\<close>

definition send_details :: "RouterDetails \<Rightarrow> ('a, 'bm) client_state \<Rightarrow> ('a, 'bm) client_state" where
  "send_details d c = (case c of Dialling rc ds \<Rightarrow> Dialling rc (ds @ [d]) | Live s ds \<Rightarrow> Live s (ds @ [d]) | Ended \<Rightarrow> Ended)"

fun apply_effect ::
  "'a \<Rightarrow> ('a, 'bm) route_effect \<Rightarrow> (nat \<rightharpoonup> ('a, 'bm) client_state) \<Rightarrow> (nat \<rightharpoonup> ('a, 'bm) client_state)" where
  "apply_effect acc (StopClient h) cs = cs(h := None)"
| "apply_effect acc (UpdateClient h d) cs = cs(h := map_option (send_details d) (cs h))"
| "apply_effect acc (StartClient h r) cs = cs(h \<mapsto> Dialling (NewRouterClient r acc) [])"

text \<open>What becomes of a client after a message: \<^verbatim>\<open>run\<close> goes on, returns nil, which ends \<^verbatim>\<open>Run\<close>, or returns an error,
  after which \<^verbatim>\<open>Run\<close> dials again.\<close>

definition after_step :: "client_exit option \<Rightarrow> ('a, 'bm) session \<Rightarrow> RouterDetails list \<Rightarrow> ('a, 'bm) client_state" where
  "after_step x s ds = (case x of None \<Rightarrow> Live s ds | Some ExitNil \<Rightarrow> Ended | Some (ExitError err) \<Rightarrow> Dialling (se_client s) ds)"

definition set_client :: "nat \<Rightarrow> ('a, 'bm) client_state \<Rightarrow> ('a, 'bm) routing \<Rightarrow> ('a, 'bm) routing" where
  "set_client h c w = w\<lparr>ro_clients := (ro_clients w)(h \<mapsto> c)\<rparr>"

text \<open>\<open>Q\<close> restricts the sets of routers the rounds work with.\<close>

inductive routing_step ::
  "lorawan_lib \<Rightarrow> 'bm filter_lib \<Rightarrow> (unique_bands \<Rightarrow> ('a, 'bm) router list \<Rightarrow> bool) \<Rightarrow> ('a, 'bm) routing \<Rightarrow> ('a, 'bm) routing \<Rightarrow> bool"
  for L F Q where
  round: "Q u rs \<Longrightarrow> set order = dom (ro_existing w) \<Longrightarrow>
    keepRouteTableUpToDate u (map Some rs) order (ro_existing w) (ro_next w) = Ret (ex, nxt, eff) \<Longrightarrow>
    routing_step L F Q w \<lparr>ro_existing = ex, ro_next = nxt, ro_clients = fold (apply_effect acc) eff (ro_clients w)\<rparr>"
| dialled: "ro_clients w h = Some (Dialling rc ds) \<Longrightarrow> routing_step L F Q w (set_client h (Live (new_session rc) ds) w)"
| waiting: "ro_clients w h = Some (Dialling rc (ds @ d # ds')) \<Longrightarrow>
    routing_step L F Q w (set_client h (Dialling (details_to_client d rc) (ds @ ds')) w)"
| message: "ro_clients w h = Some (Live s ds) \<Longrightarrow> (\<And>d. inp \<noteq> RouterDetailsUpdate d) \<Longrightarrow>
    client_step L F now send inp s = Ret (s', x) \<Longrightarrow> routing_step L F Q w (set_client h (after_step x s' ds) w)"
| details: "ro_clients w h = Some (Live s (ds @ d # ds')) \<Longrightarrow>
    client_step L F now send (RouterDetailsUpdate d) s = Ret (s', x) \<Longrightarrow>
    routing_step L F Q w (set_client h (after_step x s' (ds @ ds')) w)"

inductive routing_run ::
  "lorawan_lib \<Rightarrow> 'bm filter_lib \<Rightarrow> (unique_bands \<Rightarrow> ('a, 'bm) router list \<Rightarrow> bool) \<Rightarrow> ('a, 'bm) routing \<Rightarrow> ('a, 'bm) routing \<Rightarrow> bool"
  for L F Q w where
  routing_refl: "routing_run L F Q w w"
| routing_more: "routing_run L F Q w w' \<Longrightarrow> routing_step L F Q w' w'' \<Longrightarrow> routing_run L F Q w w''"

section \<open>Invariant\<close>

text \<open>The router of a client that runs.\<close>

definition runs_for :: "(nat \<rightharpoonup> ('a, 'bm) client_state) \<Rightarrow> nat \<Rightarrow> thingsix_id option" where
  "runs_for cs h =
     (case cs h of
        Some (Dialling rc ds) \<Rightarrow> Some (rt_ThingsIXID (rc_router rc))
      | Some (Live s ds) \<Rightarrow> Some (rt_ThingsIXID (client_router s))
      | _ \<Rightarrow> None)"

text \<open>A running client is the one the table has for its router, and the table has a client for one router only.\<close>

definition one_router :: "route_clients \<Rightarrow> bool" where
  "one_router ex \<longleftrightarrow> (\<forall>h i j. ex i = Some h \<and> ex j = Some h \<longrightarrow> i = j)"

definition routing_ok :: "('a, 'bm) routing \<Rightarrow> bool" where
  "routing_ok w \<longleftrightarrow> (\<forall>h \<in> ran (ro_existing w). h < ro_next w) \<and>
     (\<forall>h i. runs_for (ro_clients w) h = Some i \<longrightarrow> ro_existing w i = Some h) \<and>
     one_router (ro_existing w)"

lemma runs_for_upd: "runs_for (cs(h := c)) k = (if k = h then runs_for (\<lambda>_. c) h else runs_for cs k)"
  by (simp add: runs_for_def)

lemma runs_for_effects:
  "runs_for (fold (apply_effect acc) eff cs) k = Some i \<Longrightarrow>
     (k, i) \<in> set (started eff) \<or> runs_for cs k = Some i \<and> k \<notin> set (stopped eff)"
proof (induction eff arbitrary: cs)
  case (Cons e eff)
  have "(k, i) \<in> set (started eff) \<or> runs_for (apply_effect acc e cs) k = Some i \<and> k \<notin> set (stopped eff)"
    using Cons.IH Cons.prems by simp
  then show ?case
    by (cases e) (auto simp: runs_for_upd NewRouterClient_def split: if_splits,
      auto simp: runs_for_def send_details_def split: option.splits client_state.splits)
qed simp

lemma start_loop_handles:
  "start_loop u (map Some rs) ex nxt eff = Ret (ex', nxt', eff') \<Longrightarrow>
     \<exists>e. eff' = eff @ e \<and> nxt \<le> nxt' \<and> distinct (map fst (started e)) \<and> (\<forall>(h, i) \<in> set (started e). nxt \<le> h)"
proof (induction rs arbitrary: ex nxt eff)
  case (Cons r rs)
  show ?case
  proof (cases "ContainsFrequencyPlan u (rt_FrequencyPlan r) \<and> ex (rt_ThingsIXID r) = None")
    case True
    then have "start_loop u (map Some rs) (ex(rt_ThingsIXID r \<mapsto> nxt)) (Suc nxt) (eff @ [StartClient nxt r]) = Ret (ex', nxt', eff')"
      using Cons.prems by simp
    from Cons.IH[OF this] obtain e where "eff' = (eff @ [StartClient nxt r]) @ e" "Suc nxt \<le> nxt'" "distinct (map fst (started e))"
      "\<forall>(h, i) \<in> set (started e). Suc nxt \<le> h" by blast
    then show ?thesis by (intro exI[of _ "StartClient nxt r # e"]) force
  next
    case False
    then consider "start_loop u (map Some rs) ex nxt eff = Ret (ex', nxt', eff')"
      | h where "start_loop u (map Some rs) ex nxt (eff @ [UpdateClient h (details_of r)]) = Ret (ex', nxt', eff')"
      using Cons.prems by (auto split: if_splits option.splits)
    then show ?thesis
    proof cases
      case 1
      then show ?thesis by (rule Cons.IH)
    next
      case (2 h)
      from Cons.IH[OF this] obtain e where "eff' = (eff @ [UpdateClient h (details_of r)]) @ e" "nxt \<le> nxt'"
        "distinct (map fst (started e))" "\<forall>(h, i) \<in> set (started e). nxt \<le> h" by blast
      then show ?thesis by (intro exI[of _ "UpdateClient h (details_of r) # e"]) simp
    qed
  qed
qed simp

text \<open>The details of a listed router are sent to its client.\<close>

lemma start_loop_updates:
  "start_loop u (map Some rs) ex nxt eff = Ret (ex', nxt', eff') \<Longrightarrow> r \<in> set rs \<Longrightarrow> ContainsFrequencyPlan u (rt_FrequencyPlan r) \<Longrightarrow>
     ex (rt_ThingsIXID r) = Some h \<Longrightarrow> UpdateClient h (details_of r) \<in> set eff'"
proof (induction rs arbitrary: ex nxt eff)
  case (Cons r' rs)
  show ?case
  proof (cases "r' = r")
    case True
    then have "start_loop u (map Some rs) ex nxt (eff @ [UpdateClient h (details_of r)]) = Ret (ex', nxt', eff')"
      using Cons.prems by simp
    from start_loop_handles[OF this] show ?thesis by auto
  next
    case False
    then have r: "r \<in> set rs" using Cons.prems(2) by simp
    consider nxt1 eff1 where "start_loop u (map Some rs) ex nxt1 eff1 = Ret (ex', nxt', eff')"
      | "ex (rt_ThingsIXID r') = None" "start_loop u (map Some rs) (ex(rt_ThingsIXID r' \<mapsto> nxt)) (Suc nxt) (eff @ [StartClient nxt r']) = Ret (ex', nxt', eff')"
      using Cons.prems(1) by (auto split: if_splits option.splits)
    then show ?thesis
    proof cases
      case 1
      then show ?thesis using Cons.IH r Cons.prems(3,4) by blast
    next
      case 2
      then have "(ex(rt_ThingsIXID r' \<mapsto> nxt)) (rt_ThingsIXID r) = Some h" using Cons.prems(4) by auto
      then show ?thesis using Cons.IH[OF 2(2) r Cons.prems(3)] by blast
    qed
  qed
qed simp

lemma stream_send_router:
  assumes "stream_send send ev msg f s = Ret (s', x)" "\<And>t. client_router (f t) = client_router t"
  shows "client_router s' = client_router s"
  using assms by (cases send) (auto simp: stream_send_def)

lemma forward_router:
  assumes "forward_if_allowed now send n ev s = Ret (s', x)" shows "client_router s' = client_router s"
proof -
  obtain airtime allow where "(if allow then stream_send send ev ''unable to send event to router'' (touch_gateway n now) s
      else Ret (s, None)) = Ret (s', x)" "receipt_airtime ev = Ret airtime"
    using assms by (auto simp: forward_if_allowed_def go_bind_eq_Ret)
  then show ?thesis by (cases allow) (auto dest!: stream_send_router)
qed

lemma on_status_router:
  assumes "on_status now send ge ev s = Ret (s', x)" shows "client_router s' = client_router s"
proof (cases "ge_Event ev")
  case (StatusEvent online)
  have off: "client_router s' = client_router s"
    if "stream_send send ev msg (\<lambda>s. s\<lparr>se_client := (se_client s)\<lparr>rc_lastGatewayEvent := (rc_lastGatewayEvent (se_client s))(n := None)\<rparr>\<rparr>) s =
      Ret (s', x)" for msg n
    using stream_send_router[OF that] by (simp add: client_router_def)
  show ?thesis
    using assms StatusEvent by (auto simp: on_status_def Let_def split: if_splits dest!: off dest: stream_send_router)
qed (use assms in \<open>simp_all add: on_status_def\<close>)

lemma on_gateway_event_router:
  assumes "on_gateway_event L F now send ge s = Ret (s', x)" shows "client_router s' = client_router s"
proof -
  have ack: "client_router s' = client_router s" if "on_downlink_ack send d ev s = Ret (s', x)" for d ev
    using that stream_send_router[where f = "\<lambda>s. s"]
    by (auto simp: on_downlink_ack_def Let_def split: option.splits dest!: stream_send_router)
  have up: "client_router s' = client_router s" if "on_uplink L now send ge d ev s = Ret (s', x)" for d ev
    using that by (auto simp: on_uplink_def split: if_splits dest: forward_router)
  have join: "client_router s' = client_router s" if "on_join F now send ge d ev s = Ret (s', x)" for d ev
    using that by (auto simp: on_join_def split: if_splits dest: forward_router)
  show ?thesis
    using assms by (auto simp: on_gateway_event_def split: option.splits dest: ack up join on_status_router)
qed

lemma client_step_id:
  assumes "client_step L F now send inp s = Ret (s', x)"
  shows "rt_ThingsIXID (client_router s') = rt_ThingsIXID (client_router s)"
proof (cases inp)
  case (FromGateway ge)
  then show ?thesis using assms by (auto simp: client_step_def dest!: on_gateway_event_router)
next
  case (FromRouter ev)
  then show ?thesis using assms
    by (auto simp: client_step_def on_router_event_def go_bind_eq_Ret client_router_def split: option.splits rtg_event.splits)
next
  case (RoutesInfo rs)
  then show ?thesis using assms
    by (auto simp: client_step_def on_routes_def go_bind_eq_Ret split: if_splits dest!: routes_loop_frame)
qed (use assms in \<open>auto simp: client_step_def on_details_def on_ack_ticker_def Let_def\<close>)

lemma stop_loop_one_router:
  "stop_loop u rs order ex eff = Ret (ex', eff') \<Longrightarrow> one_router ex \<Longrightarrow> one_router ex' \<and> ran ex' \<subseteq> ran ex"
proof (induction u rs order ex eff rule: stop_loop.induct)
  case (2 u rs i order ex eff)
  have "one_router (ex(i := None))" "ran (ex(i := None)) \<subseteq> ran ex"
    using "2.prems"(2) by (auto simp: one_router_def ran_def)
  then show ?case
    using "2.prems" "2.IH" by (fastforce split: option.splits go.splits bool.splits)
qed simp

lemma start_loop_one_router:
  "start_loop u rs ex nxt eff = Ret (ex', nxt', eff') \<Longrightarrow> one_router ex \<Longrightarrow> \<forall>h \<in> ran ex. h < nxt \<Longrightarrow> one_router ex'"
proof (induction u rs ex nxt eff rule: start_loop.induct)
  case (3 u r rs ex nxt eff)
  have one: "one_router (ex(rt_ThingsIXID r \<mapsto> nxt))" if "ex (rt_ThingsIXID r) = None"
    using "3.prems"(2,3) by (fastforce simp: one_router_def intro: ranI split: if_splits)
  have less: "\<forall>h \<in> ran (ex(rt_ThingsIXID r \<mapsto> nxt)). h < Suc nxt" if "ex (rt_ThingsIXID r) = None"
    using "3.prems"(3) that by (auto intro: less_SucI)
  show ?case
  proof (cases "ContainsFrequencyPlan u (rt_FrequencyPlan r) \<and> ex (rt_ThingsIXID r) = None")
    case True
    then show ?thesis
      using "3.prems"(1) "3.IH"(2) one less
      by (simp del: fun_upd_apply)
  qed (use "3.prems" "3.IH"(1,3) in \<open>auto split: if_splits option.splits\<close>)
qed auto

lemma keepRouteTable_one_router:
  assumes "keepRouteTableUpToDate u rs order ex nxt = Ret (ex', nxt', eff)" "one_router ex" "\<forall>h \<in> ran ex. h < nxt"
  shows "one_router ex'"
proof -
  obtain ex1 eff1 where "stop_loop u rs order ex [] = Ret (ex1, eff1)" "start_loop u rs ex1 nxt eff1 = Ret (ex', nxt', eff)"
    using assms(1) by (auto simp: keepRouteTableUpToDate_def go_bind_eq_Ret)
  then show ?thesis
    using stop_loop_one_router[of u rs order ex "[]" ex1 eff1] start_loop_one_router[of u rs ex1 nxt eff1 ex' nxt' eff] assms(2,3)
    by blast
qed

text \<open>A round, by the facts of \<open>Routes\<close>: what it keeps, stops and starts.\<close>

lemma round_facts:
  assumes "set order = dom ex" "\<forall>h \<in> ran ex. h < nxt" "keepRouteTableUpToDate u (map Some rs) order ex nxt = Ret (ex', nxt', eff)"
  shows "\<forall>i \<in> dom ex \<inter> wanted u rs. ex' i = ex i" "set (stopped eff) = {h. \<exists>i. i \<notin> wanted u rs \<and> ex i = Some h}"
    "\<forall>(h, i) \<in> set (started eff). ex' i = Some h \<and> h \<notin> ran ex" "\<forall>h \<in> ran ex'. h < nxt'"
  using keepRouteTable_round[OF assms(1,2), of u rs] assms(3) by auto

lemma routing_ok_round:
  assumes "routing_ok w" "set order = dom (ro_existing w)"
    and "keepRouteTableUpToDate u (map Some rs) order (ro_existing w) (ro_next w) = Ret (ex, nxt, eff)"
  shows "routing_ok \<lparr>ro_existing = ex, ro_next = nxt, ro_clients = fold (apply_effect acc) eff (ro_clients w)\<rparr>"
proof -
  have ok: "\<forall>h \<in> ran (ro_existing w). h < ro_next w" "one_router (ro_existing w)"
    using assms(1) by (simp_all add: routing_ok_def)
  note facts = round_facts[OF assms(2) ok(1) assms(3)]
  have "ex i = Some h" if "runs_for (fold (apply_effect acc) eff (ro_clients w)) h = Some i" for h i
    using runs_for_effects[OF that]
  proof
    assume "(h, i) \<in> set (started eff)"
    then show ?thesis using facts(3) by auto
  next
    assume "runs_for (ro_clients w) h = Some i \<and> h \<notin> set (stopped eff)"
    then have "ro_existing w i = Some h" "i \<in> wanted u rs" using assms(1) facts(2) by (auto simp: routing_ok_def)
    then show ?thesis using bspec[OF facts(1), of i] by auto
  qed
  then show ?thesis using facts(4) keepRouteTable_one_router[OF assms(3) ok(2,1)] by (simp add: routing_ok_def)
qed

text \<open>Whatever a client does, it runs for the same router or has ended.\<close>

lemma runs_for_set_client:
  "runs_for (ro_clients (set_client h c w)) k = (if k = h then runs_for (\<lambda>_. Some c) h else runs_for (ro_clients w) k)"
  by (simp add: set_client_def runs_for_upd)

lemma set_client_sel [simp]:
  "ro_existing (set_client h c w) = ro_existing w" "ro_next (set_client h c w) = ro_next w"
  "ro_clients (set_client h c w) = (ro_clients w)(h \<mapsto> c)"
  by (simp_all add: set_client_def)

lemma after_step_runs:
  assumes "client_step L F now send inp s = Ret (s', x)" "runs_for (\<lambda>_. Some (after_step x s' ds)) h = Some i"
  shows "i = rt_ThingsIXID (client_router s)"
  using assms(2) client_step_id[OF assms(1)]
  by (auto simp: runs_for_def after_step_def client_router_def split: option.splits client_exit.splits)

lemma routing_step_cases:
  assumes "routing_step L F Q w w'"
  obtains (Round) u rs order ex nxt eff acc where "Q u rs" "set order = dom (ro_existing w)"
      "keepRouteTableUpToDate u (map Some rs) order (ro_existing w) (ro_next w) = Ret (ex, nxt, eff)"
      "w' = \<lparr>ro_existing = ex, ro_next = nxt, ro_clients = fold (apply_effect acc) eff (ro_clients w)\<rparr>"
    | (Client) h c i where "w' = set_client h c w" "runs_for (ro_clients w) h = Some i"
      "\<And>j. runs_for (\<lambda>_. Some c) h = Some j \<Longrightarrow> j = i"
  using assms
proof cases
  case (round u rs order ex nxt eff acc)
  then show ?thesis by (rule Round[rotated 3])
next
  case (dialled h rc ds)
  show ?thesis by (rule Client[OF dialled(1)]) (use dialled(2) in \<open>auto simp: runs_for_def client_router_def new_session_def\<close>)
next
  case (waiting h rc ds d ds')
  show ?thesis by (rule Client[OF waiting(1)]) (use waiting(2) in \<open>auto simp: runs_for_def details_to_client_def\<close>)
next
  case (message h s ds inp now send s' x)
  show ?thesis by (rule Client[OF message(1)]) (use message(2) after_step_runs[OF message(4)] in \<open>auto simp: runs_for_def\<close>)
next
  case (details h s ds d ds' now send s' x)
  show ?thesis by (rule Client[OF details(1)]) (use details(2) after_step_runs[OF details(3)] in \<open>auto simp: runs_for_def\<close>)
qed

lemma routing_ok_step:
  assumes "routing_step L F Q w w'" "routing_ok w" shows "routing_ok w'"
  using assms(1)
proof (cases rule: routing_step_cases)
  case (Round u rs order ex nxt eff acc)
  show ?thesis unfolding Round(4) by (rule routing_ok_round[OF assms(2) Round(2,3)])
next
  case (Client h c i)
  then show ?thesis using assms(2) by (auto simp: routing_ok_def runs_for_upd split: if_splits)
qed

lemma routing_ok_run:
  assumes "routing_run L F Q routing_New w" shows "routing_ok w"
  using assms
proof induction
  case routing_refl
  show ?case by (simp add: routing_ok_def routing_New_def runs_for_def one_router_def)
qed (rule routing_ok_step)

section \<open>A changed endpoint\<close>

text \<open>A connected client that a round neither stops nor starts goes on, with the details it was sent.\<close>

lemma live_effects:
  "cs h = Some (Live s ds) \<Longrightarrow> h \<notin> set (stopped eff) \<Longrightarrow> h \<notin> fst ` set (started eff) \<Longrightarrow>
     \<exists>ds'. fold (apply_effect acc) eff cs h = Some (Live s (ds @ ds')) \<and> (\<forall>d. UpdateClient h d \<in> set eff \<longrightarrow> d \<in> set ds')"
proof (induction eff arbitrary: cs ds)
  case (Cons e eff)
  have rest: "h \<notin> set (stopped eff)" "h \<notin> fst ` set (started eff)" using Cons.prems(2,3) by (cases e; simp)+
  show ?case
  proof (cases "\<exists>d. e = UpdateClient h d")
    case True
    then obtain d where e: "e = UpdateClient h d" by blast
    have "apply_effect acc e cs h = Some (Live s (ds @ [d]))" using e Cons.prems(1) by (simp add: send_details_def)
    from Cons.IH[of "apply_effect acc e cs" "ds @ [d]", OF this rest] obtain ds' where "fold (apply_effect acc) eff (apply_effect acc e cs) h = Some (Live s ((ds @ [d]) @ ds'))"
      "\<forall>d. UpdateClient h d \<in> set eff \<longrightarrow> d \<in> set ds'" by blast
    then show ?thesis using e by (intro exI[of _ "d # ds'"]) auto
  next
    case False
    then have "apply_effect acc e cs h = Some (Live s ds)" using Cons.prems by (cases e) auto
    from Cons.IH[of "apply_effect acc e cs" ds, OF this rest] show ?thesis using False by auto
  qed
qed simp

text \<open>An entry of the table whose client has ended is kept, and keeps every other client of that router away, as long as the
  router is wanted.\<close>

definition lost :: "thingsix_id \<Rightarrow> nat \<Rightarrow> ('a, 'bm) routing \<Rightarrow> bool" where
  "lost i h w \<longleftrightarrow> routing_ok w \<and> ro_existing w i = Some h \<and> runs_for (ro_clients w) h = None"

lemma lost_step:
  assumes "routing_step L F (\<lambda>u rs. i \<in> wanted u rs) w w'" "lost i h w" shows "lost i h w'"
proof -
  have ok: "routing_ok w'" "\<forall>k \<in> ran (ro_existing w). k < ro_next w" "ro_existing w i = Some h" "runs_for (ro_clients w) h = None"
    using routing_ok_step[OF assms(1)] assms(2) by (simp_all add: lost_def routing_ok_def)
  from assms(1) show ?thesis
  proof (cases rule: routing_step_cases)
    case (Round u rs order ex nxt eff acc)
    note facts = round_facts[OF Round(2) ok(2) Round(3)]
    have "ex i = Some h" using bspec[OF facts(1), of i] Round(1) ok(3) by auto
    moreover have "(h, j) \<notin> set (started eff)" for j using facts(3) ok(3) by (auto intro: ranI)
    then have "runs_for (fold (apply_effect acc) eff (ro_clients w)) h = None"
      using runs_for_effects[of acc eff "ro_clients w" h] ok(4) by (metis not_None_eq)
    ultimately show ?thesis using ok(1) Round(4) by (simp add: lost_def)
  next
    case (Client k c j)
    then have "k \<noteq> h" using ok(4) by auto
    then show ?thesis using Client(1) ok by (simp add: lost_def runs_for_upd)
  qed
qed

lemma lost_run:
  assumes "routing_run L F (\<lambda>u rs. i \<in> wanted u rs) w w'" "lost i h w" shows "lost i h w'"
  using assms by induction (auto intro: lost_step)

lemma lost_no_client: "lost i h w \<Longrightarrow> runs_for (ro_clients w) k \<noteq> Some i"
  by (auto simp: lost_def routing_ok_def)

lemma details_end_client:
  assumes "rd_Endpoint d \<noteq> rt_Endpoint (client_router s)"
  shows "\<exists>s'. client_step L F now send (RouterDetailsUpdate d) s = Ret (s', Some ExitNil)"
  using assms by (auto simp: client_step_def on_details_def Let_def)

lemma round_reaches_client:
  assumes "routing_ok w" "ro_clients w h = Some (Live s ds)" "set order = dom (ro_existing w)"
    and "r \<in> set rs" "rt_ThingsIXID r = rt_ThingsIXID (client_router s)" "ContainsFrequencyPlan u (rt_FrequencyPlan r)"
    and run: "keepRouteTableUpToDate u (map Some rs) order (ro_existing w) (ro_next w) = Ret (ex, nxt, eff)"
  shows "ex (rt_ThingsIXID r) = Some h"
    "\<exists>ds1 ds2. fold (apply_effect acc) eff (ro_clients w) h = Some (Live s (ds1 @ details_of r # ds2))"
proof -
  have ok: "\<forall>k \<in> ran (ro_existing w). k < ro_next w" "one_router (ro_existing w)" "ro_existing w (rt_ThingsIXID r) = Some h"
    using assms(1,2,5) by (auto simp: routing_ok_def runs_for_def)
  note facts = round_facts[OF assms(3) ok(1) run]
  have w: "rt_ThingsIXID r \<in> wanted u rs" using assms(4,6) by (auto simp: wanted_def)
  then show "ex (rt_ThingsIXID r) = Some h" using bspec[OF facts(1), of "rt_ThingsIXID r"] ok(3) by auto
  have "h \<notin> set (stopped eff)" using facts(2) ok(2,3) w by (auto simp: one_router_def)
  moreover have "h \<notin> fst ` set (started eff)" using facts(3) ok(3) by (fastforce intro: ranI)
  ultimately obtain ds' where ds': "fold (apply_effect acc) eff (ro_clients w) h = Some (Live s (ds @ ds'))"
    "\<forall>d. UpdateClient h d \<in> set eff \<longrightarrow> d \<in> set ds'"
    using live_effects[of "ro_clients w" h s ds eff acc, OF assms(2)] by blast
  obtain ex1 eff1 where loops: "stop_loop u (map Some rs) order (ro_existing w) [] = Ret (ex1, eff1)"
    "start_loop u (map Some rs) ex1 (ro_next w) eff1 = Ret (ex, nxt, eff)"
    using run by (auto simp: keepRouteTableUpToDate_def go_bind_eq_Ret)
  have "ex1 (rt_ThingsIXID r) = Some h" using stop_loop_eq[of u rs order "ro_existing w" "[]"] loops(1) w ok(3) by auto
  from start_loop_updates[OF loops(2) assms(4,6) this] have "details_of r \<in> set ds'" using ds'(2) by blast
  then obtain a b where "ds' = a @ details_of r # b" by (auto simp: in_set_conv_decomp)
  then show "\<exists>ds1 ds2. fold (apply_effect acc) eff (ro_clients w) h = Some (Live s (ds1 @ details_of r # ds2))"
    using ds'(1) by (intro exI[of _ "ds @ a"] exI[of _ b]) simp
qed

section \<open>Properties\<close>

text \<open>
  C39: a changed endpoint can cost the connection to a router for good.  Take any state that the table and its clients can
  reach, a connected client, and a round whose set lists the client's router, on a plan that is in use, with
  another endpoint.  The round keeps the client in the table and sends it the details.  If the client takes
  them before it sees the same set from the broadcaster (which would make it reconnect), \<^verbatim>\<open>run\<close> returns nil and the
  client ends, although it logs that it reconnects.  From then on, in every run of the table and all
  clients in which each fetched set lists the router on a plan in use, the table keeps the entry of the ended client and
  there is no client of that router, dialling or connected, whatever endpoint it is listed with.
\<close>

theorem endpoint_change_loses_router:
  fixes w :: "('a, 'bm) routing"
  assumes "routing_run L F (\<lambda>_ _. True) routing_New w" "ro_clients w h = Some (Live s ds)" "set order = dom (ro_existing w)"
    and "r \<in> set rs" "rt_ThingsIXID r = rt_ThingsIXID (client_router s)" "ContainsFrequencyPlan u (rt_FrequencyPlan r)"
    and "rt_Endpoint r \<noteq> rt_Endpoint (client_router s)"
  shows "\<exists>ex nxt eff w1 w2 ds1 ds2 s'.
     keepRouteTableUpToDate u (map Some rs) order (ro_existing w) (ro_next w) = Ret (ex, nxt, eff) \<and>
     w1 = \<lparr>ro_existing = ex, ro_next = nxt, ro_clients = fold (apply_effect acc) eff (ro_clients w)\<rparr> \<and>
     ro_clients w1 h = Some (Live s (ds1 @ details_of r # ds2)) \<and>
     client_step L F now send (RouterDetailsUpdate (details_of r)) s = Ret (s', Some ExitNil) \<and>
     routing_step L F (\<lambda>_ _. False) w1 w2 \<and> w2 = set_client h Ended w1 \<and>
     (\<forall>w'. routing_run L F (\<lambda>u rs. rt_ThingsIXID r \<in> wanted u rs) w2 w' \<longrightarrow>
        ro_existing w' (rt_ThingsIXID r) = Some h \<and> (\<forall>k. runs_for (ro_clients w') k \<noteq> Some (rt_ThingsIXID r)))"
proof -
  have ok: "routing_ok w" by (rule routing_ok_run[OF assms(1)])
  then obtain ex nxt eff where run: "keepRouteTableUpToDate u (map Some rs) order (ro_existing w) (ro_next w) = Ret (ex, nxt, eff)"
    using keepRouteTable_round[OF assms(3), of "ro_next w" u rs] by (auto simp: routing_ok_def)
  define w1 :: "('a, 'bm) routing" where
    "w1 = \<lparr>ro_existing = ex, ro_next = nxt, ro_clients = fold (apply_effect acc) eff (ro_clients w)\<rparr>"
  note reach = round_reaches_client[OF ok assms(2-6) run]
  obtain ds1 ds2 where ds: "ro_clients w1 h = Some (Live s (ds1 @ details_of r # ds2))" using reach(2)[of acc] by (auto simp: w1_def)
  obtain s' where s': "client_step L F now send (RouterDetailsUpdate (details_of r)) s = Ret (s', Some ExitNil)"
    using details_end_client[of "details_of r" s L F now send] assms(7) by (auto simp: details_of_def)
  have step: "routing_step L F (\<lambda>_ _. False) w1 (set_client h Ended w1)"
    using routing_step.details[OF ds s'] by (simp add: after_step_def)
  have "routing_ok w1" unfolding w1_def by (rule routing_ok_round[OF ok assms(3) run])
  from routing_ok_step[OF step this] have "lost (rt_ThingsIXID r) h (set_client h Ended w1)"
    using reach(1) by (simp add: lost_def w1_def runs_for_def)
  then have "\<forall>w'. routing_run L F (\<lambda>u rs. rt_ThingsIXID r \<in> wanted u rs) (set_client h Ended w1) w' \<longrightarrow> lost (rt_ThingsIXID r) h w'"
    using lost_run by blast
  then show ?thesis
    using run w1_def ds s' step lost_no_client unfolding lost_def by blast
qed

theorem endpoint_change_loses_router_witness:
  "\<exists>w w2 :: (unit, u64 list) routing. routing_run lorawan_hex filter_example (\<lambda>_ _. True) routing_New w \<and>
     ro_clients w 0 = Some (Live (new_session (NewRouterClient (router_example 1) ())) []) \<and>
     ro_existing w2 (replicate 32 1) = Some 0 \<and> ro_clients w2 0 = Some Ended \<and> runs_for (ro_clients w2) 1 \<noteq> Some (replicate 32 1)"
proof -
  let ?i = "replicate 32 (1 :: byte)" and ?rc = "NewRouterClient (router_example 1) ()"
  let ?r = "(router_example 1)\<lparr>rt_Endpoint := ''new:3200''\<rparr>"
  define w0 :: "(unit, u64 list) routing" where
    "w0 = \<lparr>ro_existing = [?i \<mapsto> 0], ro_next = 1, ro_clients = [0 \<mapsto> Dialling ?rc []]\<rparr>"
  define w where "w = set_client 0 (Live (new_session ?rc) []) w0"
  have ids: "rt_ThingsIXID (router_example 1) = ?i" "rt_FrequencyPlan (router_example 1) = 1" "rt_Endpoint (router_example 1) = ''router:3200''"
    "ContainsFrequencyPlan bands_example 1"
    by (simp_all add: router_example_def NewRouter_def bands_example_def ContainsFrequencyPlan_def)
  have "keepRouteTableUpToDate bands_example (map Some [router_example 1]) [] Map.empty 0 =
      Ret ([?i \<mapsto> 0], 1, [StartClient 0 (router_example 1)])"
    using ids by (simp add: keepRouteTableUpToDate_def)
  then have "routing_step lorawan_hex filter_example (\<lambda>_ _. True) routing_New w0"
    using routing_step.round[of "\<lambda>_ _. True" bands_example "[router_example 1]" "[]" routing_New "[?i \<mapsto> 0]" 1
        "[StartClient 0 (router_example 1)]" lorawan_hex filter_example "()"]
    by (simp add: w0_def routing_New_def)
  moreover have "routing_step lorawan_hex filter_example (\<lambda>_ _. True) w0 w"
    unfolding w_def by (rule routing_step.dialled) (simp add: w0_def)
  ultimately have run: "routing_run lorawan_hex filter_example (\<lambda>_ _. True) routing_New w"
    by (blast intro: routing_run.intros)
  have live: "ro_clients w 0 = Some (Live (new_session ?rc) [])" by (simp add: w_def)
  have order: "set [?i] = dom (ro_existing w)" by (simp add: w_def w0_def)
  have router: "client_router (new_session ?rc) = router_example 1" by (simp add: client_router_def new_session_def NewRouterClient_def)
  obtain w2 :: "(unit, u64 list) routing" and w1 where w2: "w2 = set_client 0 Ended w1"
    "\<forall>w'. routing_run lorawan_hex filter_example (\<lambda>u rs. ?i \<in> wanted u rs) w2 w' \<longrightarrow>
       ro_existing w' ?i = Some 0 \<and> (\<forall>k. runs_for (ro_clients w') k \<noteq> Some ?i)"
    using endpoint_change_loses_router[OF run live order, of ?r "[?r]" bands_example "()" 0 None] ids router by fastforce
  have "routing_run lorawan_hex filter_example (\<lambda>u rs. ?i \<in> wanted u rs) w2 w2" by (rule routing_run.routing_refl)
  then have "ro_existing w2 ?i = Some 0 \<and> (\<forall>k. runs_for (ro_clients w2) k \<noteq> Some ?i)" using w2(2) by blast
  moreover have "ro_clients w2 0 = Some Ended" using w2(1) by simp
  ultimately show ?thesis using run live by blast
qed

end
