(* ===== verification/Spec2Isabelle.thy ===== *)
theory Spec2Isabelle
  imports Exchange_Correct Store_Refinement Join_Filter Api Forwarder_Config Router_Setup Semtech_Backend Bridge_Tools
    Gateway_Cmd Config_Loading Routing_Run
begin

text \<open>
  Verification of the ThingsIX packet handling, the forwarder and the router of
  \<^verbatim>\<open>packet-handling\<close>.

  \<^bold>\<open>The program.\<close>  LoRaWAN gateways send what they receive to a forwarder, over the Semtech UDP protocol or the
  basic station protocol.  The backend of the forwarder turns packets into frames and calls the exchange
  (\<^verbatim>\<open>forwarder/exchange.go\<close>), which looks the gateway up in its store, replaces the local gateway id
  by the network id that is derived from the gateway's key, and broadcasts the frame to
  the clients of all routers.  A client (\<^verbatim>\<open>forwarder/router_client.go\<close>) sends its router the frames of the
  devices the router is interested in.  The routing table (\<^verbatim>\<open>forwarder/routes.go\<close>) starts and stops
  clients as routers are registered.  The router (\<^verbatim>\<open>router/router.go\<close>) keeps a pool of the gateways
  that are online, publishes uplinks to the ChirpStack network server over MQTT and sends downlinks
  back to the forwarder of the gateway.  Packets of coverage mappers go to mapping services instead.
  Gateways that are not in the store are only recorded.

  \<^bold>\<open>Conventions.\<close>  Each Go function is one definition with the Go name (with a prefix where two types have a
  method of the same name).  A struct is a record, an interface value a record of functions, an error result
  a sum, a nil pointer \<open>None\<close>.  Code that can panic (nil dereference, index out of range, send on
  a closed channel) or that calls \<^verbatim>\<open>logrus.Fatal\<close> has a result of type \<open>'a go\<close>, whose value \<open>Panic\<close> no
  hypothesis excludes unless a theorem says so.  Machine integers are words; a map is a partial function,
  and where the code ranges over a map the order is an argument.  Time is in nanoseconds; what
  the clock, the network, the file system or a database answers is an argument.  A \<^verbatim>\<open>select\<close> loop is a
  step function or an inductive step relation over the events it waits for; theorems about it hold for every sequence of
  events.  The retry loops whose end depends on such answers are structural recursions on the list
  of answers, or \<^theory_text>\<open>partial_function\<close>s in the option monad, where \<open>None\<close> is a loop that does not end; that
  they return is proved, not assumed.  Packages outside the repository (Ethereum keys, LoRaWAN parsing, YAML,
  the object-relational mapper, JSON, H3, xor filters, gRPC) are records of functions, and what a
  theorem needs of them is a named predicate such as \<open>lorawan_ok\<close> that an example instance
  satisfies.

  \<^bold>\<open>Theories.\<close>
  \<^item> \<open>Go_Prelude\<close>: outcomes, errors, bytes, hex, time, and the lemmas and collections shared by all.
    \<open>Sha256\<close>: the hash function.  \<open>Lorawan\<close>: identifiers (\<^verbatim>\<open>utils/\<close>, \<^verbatim>\<open>forwarder/utils.go\<close>).
  \<^item> \<open>Gateway\<close>: gateways, keys, onboard messages (\<^verbatim>\<open>gateway/gateway.go\<close>, \<^verbatim>\<open>gateway/onboard.go\<close>).
    \<open>Gateway_Store\<close>: the interface of a store, with the locale \<open>gateway_store\<close> of the laws its clients rely on.
    \<open>Yaml_Store\<close>, \<open>Database\<close>, \<open>Pg_Store\<close>: the two stores (\<^verbatim>\<open>gateway/store_yaml_file.go\<close>, \<^verbatim>\<open>gateway/store_postgres.go\<close>),
    which interpret the locale: invariants of their indexes, and that what is added is loaded again.
    \<open>Store_Refinement\<close>: both refine a map of ids to keys.  \<open>Registry\<close>: the two registries of gateways.
    \<open>Unknown_Recorder\<close>: the recorders of unknown gateways, with a locale for their contract.
  \<^item> \<open>Broadcast\<close>: the broadcaster, its order and bounds.  \<open>Messages\<close>: the messages and their translations.
    \<open>Routes\<close>: routers, fetching them, and the update of the routing table.  \<open>Router_Client\<close>: the client's
    session and reconnects; acknowledgements are solicited, waits are bounded.  \<open>Routing_Run\<close>: the table and its clients
    together, as a step relation: a client that runs is the one the table has for its router.
    \<open>Mapper_Packet\<close>, \<open>Mapper_Forwarder\<close>: coverage mapping.
  \<^item> \<open>Exchange\<close>, \<open>Exchange_Correct\<close>: the callbacks of the exchange and what holds of them in every
    interleaving, proved once for a store that satisfies the locale.  \<open>Api\<close>: the HTTP API (\<^verbatim>\<open>forwarder/api.go\<close>).
    \<open>Gateway_Cmd\<close>: the commands that talk to it (\<^verbatim>\<open>forwarder/gateway_cmd.go\<close>) and what they print.
  \<^item> \<open>Join_Filter\<close>, \<open>Router_Server\<close>, \<open>Router_Setup\<close>: the router: join filters, the pool of gateways and the event streams as
    a step relation with its invariants, keys and settings.  \<open>Config_Loading\<close>: how a router reads its configuration, with
    the decode hooks (\<^verbatim>\<open>utils/viper.go\<close>), and its commands (\<^verbatim>\<open>router/cmd.go\<close>).
  \<^item> \<open>Backend_Config\<close>, \<open>Forwarder_Config\<close>: starting a forwarder (\<^verbatim>\<open>forwarder/backend.go\<close>, \<^verbatim>\<open>forwarder/config.go\<close>).
  \<^item> \<open>Semtech_Packets\<close>, \<open>Semtech_Backend\<close>: the Semtech UDP protocol (\<^verbatim>\<open>external/chirpstack/gateway-bridge/backend\<close>):
    packets survive the wire, the backend keeps its invariants, a downlink is tried item by item.
  \<^item> \<open>Gateway_Stats\<close>: the statistics and the events of a backend, with the locale \<open>gateway_backend\<close> of what the rest relies
    on: the gateways last reported online are those the backend has.  The three backends interpret it.
    \<open>Station_Config\<close>, \<open>Station_Messages\<close>: identifiers, the placement of radios and channels, and the messages
    of the basic station protocol (\<^verbatim>\<open>backend/basicstation/structs\<close>, \<^verbatim>\<open>config/sx1301v1\<close>).  \<open>Station_Backend\<close>: the
    backend (\<^verbatim>\<open>backend/basicstation\<close>), whose connections are cells of a heap and whose goroutines are steps that interleave:
    its registry, a downlink and its acknowledgement, and a race of two connections.
  \<^item> \<open>Mqtt_Auth\<close>, \<open>Mqtt_Integration\<close>: the MQTT integration of the router (\<^verbatim>\<open>integration/mqtt\<close>): credentials, and the
    loop that subscribes the command topics, over every run in which calls fail and connections are lost.  What is relied on
    is that an acknowledged call took effect (\<open>acknowledged\<close>); a run carries the set of the gateways in doubt, whose
    subscription the code may get wrong (\<open>doubts\<close>).
    \<open>Bridge_Tools\<close>: filters, command lines, metadata, the concentratord backend, and the handlers between a backend and the
    integration (\<^verbatim>\<open>forwarder/forwarder.go\<close> of the bridge).
  \<^item> This theory: properties of several components together: what a router receives, an uplink and its
    answer on the whole way from the forwarder's exchange to the router and back, a command on its way from
    the broker to a forwarder, and the gateways of a backend at the broker.

  \<^bold>\<open>Bounds.\<close>  No theorem depends on fuel.  Queues have the lengths of the code (256 events of a forwarder's stream, the
  buffer of the broadcaster).  The radios are placed without wrap-around for channels between 1 MHz and 4 GHz, which
  holds for every LoRaWAN region.

  \<^bold>\<open>Not modelled.\<close>  Locks and data races: each handler is one atomic step, except where the code
  releases its lock or waits in between; there the parts are separate steps (the basic station registry, the loop
  of the MQTT integration).  Logging, Prometheus metrics and the layout of printed tables, which change no state of the components.  Waiting
  for signals and the listeners of the HTTP and gRPC servers.
  The generated contract bindings.  The wire formats of gRPC, HTTP, ZeroMQ and JSON beyond the fields the code reads.
\<close>

section \<open>From the exchange to the router\<close>

text \<open>What a router client sends in a step is an event of the gateway event it handles.\<close>

lemma stream_send_sent:
  assumes "stream_send send ev msg f s = Ret (s', x)" "\<And>s. se_sent (f s) = se_sent s"
  shows "set (se_sent s') \<subseteq> insert ev (set (se_sent s))"
  using assms by (auto simp: stream_send_def split: option.splits)

lemma forward_if_allowed_sent:
  assumes "forward_if_allowed now send n ev s = Ret (s', x)"
  shows "set (se_sent s') \<subseteq> insert ev (set (se_sent s))"
  using assms stream_send_sent[of send ev _ "touch_gateway n now" s s' x]
  by (auto simp: forward_if_allowed_def go_bind_eq_Ret split: if_splits)

lemma on_gateway_event_sent:
  assumes "on_gateway_event L F now send ge s = Ret (s', x)"
  shows "set (se_sent s') \<subseteq> set (se_sent s) \<union> events_of ge"
proof -
  consider (uplink) d ev where "ev_uplink ge = Some (d, ev)"
    | (join) d ev where "ev_uplink ge = None" "ev_join ge = Some (d, ev)"
    | (ack) d ev where "ev_uplink ge = None" "ev_join ge = None" "ev_downlinkAck ge = Some (d, ev)"
    | (status) ev where "ev_uplink ge = None" "ev_join ge = None" "ev_downlinkAck ge = None"
        "ev_subOnlineOfflineEvent ge = Some ev"
    | (none) "ev_uplink ge = None" "ev_join ge = None" "ev_downlinkAck ge = None" "ev_subOnlineOfflineEvent ge = None"
    by (metis option.exhaust surj_pair)
  then show ?thesis
  proof cases
    case uplink
    then have "set (se_sent s') \<subseteq> insert ev (set (se_sent s))"
      using assms forward_if_allowed_sent[of now send _ ev s s' x]
      by (auto simp: on_gateway_event_def on_uplink_def split: if_splits)
    then show ?thesis using uplink by (auto simp: events_of_def)
  next
    case join
    then have "set (se_sent s') \<subseteq> insert ev (set (se_sent s))"
      using assms forward_if_allowed_sent[of now send _ ev s s' x]
      by (auto simp: on_gateway_event_def on_join_def split: if_splits)
    then show ?thesis using join by (auto simp: events_of_def)
  next
    case ack
    let ?k = "downlink_key (client_router s) d"
    have "set (se_sent s') \<subseteq> insert ev (set (se_sent s))"
    proof (cases "se_pendingDownlinkAcks s ?k")
      case None
      then show ?thesis using assms ack by (auto simp: on_gateway_event_def on_downlink_ack_def)
    next
      case (Some t)
      then have "stream_send send ev ''unable to send event to router'' (\<lambda>s. s)
          (s\<lparr>se_pendingDownlinkAcks := (se_pendingDownlinkAcks s)(?k := None)\<rparr>) = Ret (s', x)"
        using assms ack by (simp add: on_gateway_event_def on_downlink_ack_def Let_def)
      from stream_send_sent[OF this] show ?thesis by simp
    qed
    then show ?thesis using ack by (auto simp: events_of_def)
  next
    case status
    have "set (se_sent s') \<subseteq> insert ev (set (se_sent s))"
      using assms status stream_send_sent[of send ev _ "touch_gateway (NetworkID (ev_receivedFrom ge)) now" s s' x]
        stream_send_sent[of send ev _ _ s s' x]
      by (fastforce simp: on_gateway_event_def on_status_def Let_def split: gtr_body.splits if_splits)
    then show ?thesis using status by (auto simp: events_of_def)
  next
    case none
    then show ?thesis using assms by (auto simp: on_gateway_event_def)
  qed
qed

fun input_events :: "('a, 'bm) client_input \<Rightarrow> gtr_event set" where
  "input_events (FromGateway ge) = events_of ge"
| "input_events _ = {}"

lemma client_step_sent:
  assumes "client_step L F now send inp s = Ret (s', x)"
  shows "set (se_sent s') \<subseteq> set (se_sent s) \<union> input_events inp"
proof (cases inp)
  case (FromGateway ge)
  then show ?thesis using assms on_gateway_event_sent[of L F now send ge s s' x] by (simp add: client_step_def)
next
  case (FromRouter event)
  then show ?thesis
    using assms by (cases event)
      (auto simp: client_step_def on_router_event_def go_bind_eq_Ret split: rtg_event.splits)
next
  case (RoutesInfo rs)
  then show ?thesis
    using assms by (auto simp: client_step_def on_routes_def go_bind_eq_Ret dest!: routes_loop_frame split: if_splits)
qed (use assms in \<open>auto simp: client_step_def on_ack_ticker_def on_details_def Let_def\<close>)

lemma client_run_sent:
  assumes "client_run L F inputs s = Ret (s', x)"
  shows "set (se_sent s') \<subseteq> set (se_sent s) \<union> (\<Union>(t, e, inp) \<in> set inputs. input_events inp)"
  using assms
proof (induction inputs arbitrary: s)
  case (Cons i inputs)
  obtain t e inp where i: "i = (t, e, inp)" by (cases i)
  obtain s1 x1 where st: "client_step L F t e inp s = Ret (s1, x1)"
    using Cons.prems i by (cases "client_step L F t e inp s") auto
  show ?case
  proof (cases x1)
    case None
    then show ?thesis using Cons.IH[of s1] Cons.prems st i client_step_sent[OF st] by auto
  next
    case (Some ex)
    then show ?thesis using Cons.prems st i client_step_sent[OF st] by auto
  qed
qed auto

section \<open>Properties\<close>

text \<open>
  C2: a router only receives trusted events.  Run the exchange in any way from an empty start, and let a
  router client run any session on gateway events that this exchange has accepted, with any other
  messages in between: every event the client sends to its router names a gateway that is in the
  store of the forwarder, by the network id which the router derives from the public key in the
  same event.
\<close>

theorem router_receives_trusted:
  assumes "exchange_reachable X x y" "xe_S X = yaml_table E L F Y" "xe_L X = L" "ys_inv E (ex_gateways x)"
    and "bc_accepted (ex_gatewayEvents x) = []" "ex_downlinks x = []"
    and "client_run L FL inputs (new_session rc) = Ret (s', exit)"
    and "\<forall>t e ge. (t, e, FromGateway ge) \<in> set inputs \<longrightarrow> ge \<in> set (bc_accepted (ex_gatewayEvents y))"
  shows "\<forall>ev \<in> set (se_sent s'). \<exists>l g info. ys_ByLocalID (ex_gateways y) l = Inr g \<and>
     ge_GatewayInformation ev = Some info \<and> GatewayPublicKeyToID (gi_PublicKey info) = Inr (NetworkID g) \<and>
     addressed (eui_String L (NetworkID g)) (ge_Event ev)"
proof
  fix ev assume "ev \<in> set (se_sent s')"
  then obtain t e inp where inp: "(t, e, inp) \<in> set inputs" "ev \<in> input_events inp"
    using client_run_sent[OF assms(7)] by (auto simp: new_session_def)
  then obtain ge where ge: "inp = FromGateway ge" "ev \<in> events_of ge" by (cases inp) auto
  have "exchange_inv (ys_inv E) E X x" using assms(4-6) by (simp add: exchange_inv_def)
  from yaml.reachable_inv[OF assms(1-3) this]
  have ok: "event_ok E L ge" "from_store (yaml_table E L F Y) (ex_gateways y) ge"
    using assms(2,3,8) inp ge by (auto simp: exchange_inv_def)
  from ok(2) obtain g where g: "ys_ByLocalID (ex_gateways y) (LocalID (ev_receivedFrom ge)) = Inr g"
    "NetworkID g = NetworkID (ev_receivedFrom ge)"
    by (auto simp: from_store_def same_identity_def yaml_lookups)
  with ok(1) ge(2) show "\<exists>l g info. ys_ByLocalID (ex_gateways y) l = Inr g \<and>
     ge_GatewayInformation ev = Some info \<and> GatewayPublicKeyToID (gi_PublicKey info) = Inr (NetworkID g) \<and>
     addressed (eui_String L (NetworkID g)) (ge_Event ev)"
    unfolding event_ok_def by metis
qed

theorem router_receives_trusted_witness:
  "\<exists>y s'. exchange_reachable exchange_env_example exchange_example y \<and>
     client_run lorawan_hex filter_example [(0, None, FromGateway (status_event gateway_example True))]
       (new_session (NewRouterClient (router_example 1) ())) = Ret (s', None) \<and>
     length (se_sent s') = 1 \<and>
     (\<forall>ev \<in> set (se_sent s'). \<exists>l g info. ys_ByLocalID (ex_gateways y) l = Inr g \<and>
        ge_GatewayInformation ev = Some info \<and> GatewayPublicKeyToID (gi_PublicKey info) = Inr (NetworkID g))"
proof -
  let ?y = "subscribeEvent exchange_env_example (0, RecordAppendOk) local_id_example True exchange_example"
  let ?in = "[(0, None, FromGateway (status_event gateway_example True))]"
  have y: "exchange_reachable exchange_env_example exchange_example ?y"
    by (rule exchange_reachable.step[OF exchange_reachable.start exchange_step.subscribe])
  have x: "bc_accepted (ex_gatewayEvents exchange_example) = []" "ex_downlinks exchange_example = []"
    by (simp_all add: exchange_example_def bc_New_def)
  have X: "xe_S exchange_env_example = yaml_table eth_example lorawan_hex freq_example yaml_example"
    "xe_L exchange_env_example = lorawan_hex" by (simp_all add: exchange_env_example_def)
  obtain s' where run: "client_run lorawan_hex filter_example ?in (new_session (NewRouterClient (router_example 1) ())) =
      Ret (s', None)" and len: "length (se_sent s') = 1"
    by (simp add: client_step_def on_gateway_event_def status_event_def on_status_def stream_send_def new_session_def
        NewRouterClient_def Let_def)
  have src: "\<forall>t e ge. (t, e, FromGateway ge) \<in> set ?in \<longrightarrow> ge \<in> set (bc_accepted (ex_gatewayEvents ?y))"
    using exchange_example_subscribe by simp
  show ?thesis
    using router_receives_trusted[OF y X exchange_example_store(1) x run src] y run len by blast
qed

text \<open>
  C1: from a gateway to the network server and back.  An uplink of a gateway in the store that the exchange
  offers to the router clients is published by a router that gets it, under one network id; when the
  network server answers to that id, the router queues the downlink for the forwarder the uplink
  came from, and the exchange of that forwarder hands it to the backend under the local id of the
  gateway that received the uplink.
\<close>

theorem uplink_answered_end_to_end:
  assumes "xe_S X = yaml_table E L F Y" "xe_L X = L" "lorawan_ok L" "ys_inv E (ex_gateways x)"
    and "uplinkFrameCallback X io frame x = Ret x'"
    and "ge \<in> set (bc_accepted (ex_gatewayEvents x')) - set (bc_accepted (ex_gatewayEvents x))"
    and "ev \<in> events_of ge" "ge_Event ev = UplinkFrameEvent (Some fr) rcpt"
    and "\<forall>l1 l2 g1 g2. ys_ByLocalID (ex_gateways x) l1 = Inr g1 \<and> ys_ByLocalID (ex_gateways x) l2 = Inr g2 \<and>
          NetworkID g1 = NetworkID g2 \<longrightarrow> l1 = l2"
    and "\<forall>key. length key \<le> kcap key" "\<forall>b g. in_SetGatewaySubscription I b g = None" "\<forall>g p. in_PublishEvent I g p = None"
    and "rs_channels r f = Some (OpenChan q)" "length q < 256"
  shows "\<exists>n l r'. eui_UnmarshalText L (frame_gateway_id frame) = Inr l \<and>
    handle_forwarder_event L I kcap now f ev r = Ret r' \<and>
    rs_published r' = rs_published r @ [(n, PubUp (frame_uplink_id fr) (Some fr))] \<and>
    (\<forall>reply. df_GatewayId reply = eui_String L n \<longrightarrow>
       DownlinkFrame L reply r' =
         Ret (Some (r'\<lparr>rs_channels := (rs_channels r)(f \<mapsto> OpenChan (q @ [DownlinkFrameEvent (Some reply)]))\<rparr>)) \<and>
       handleDownlinkFrame X None (Some reply) x' =
         Ret (x'\<lparr>ex_downlinks := ex_downlinks x' @ [reply\<lparr>df_GatewayId := eui_String L l\<rparr>]\<rparr>))"
proof -
  have new: "ge \<in> set (bc_accepted (ex_gatewayEvents x'))" "ge \<notin> set (bc_accepted (ex_gatewayEvents x))" using assms(6) by auto
  obtain l where l: "eui_UnmarshalText L (frame_gateway_id frame) = Inr l" and ok: "event_ok E L ge"
    using yaml.uplink_broadcasts[OF assms(1,2,4,5) new] by blast
  let ?n = "NetworkID (ev_receivedFrom ge)"
  from ok assms(7,8) obtain info where info: "ge_GatewayInformation ev = Some info"
    "GatewayPublicKeyToID (gi_PublicKey info) = Inr ?n" and fid: "frame_gateway_id fr = eui_String L ?n"
    by (fastforce simp: event_ok_def)
  from info(2) have "length (gi_PublicKey info) = 33" by (simp add: GatewayPublicKeyToID_def split: if_splits)
  then have "33 \<le> kcap (gi_PublicKey info)" using assms(10) by metis
  with handle_uplink_event[OF assms(3) info assms(8) fid, of kcap I now f r] assms(12)
  obtain r' where r': "handle_forwarder_event L I kcap now f ev r = Ret r'"
    "rs_published r' = rs_published r @ [(?n, PubUp (frame_uplink_id fr) (Some fr))]" by auto
  have "DownlinkFrame L reply r' =
      Ret (Some (r'\<lparr>rs_channels := (rs_channels r)(f \<mapsto> OpenChan (q @ [DownlinkFrameEvent (Some reply)]))\<rparr>))"
    "handleDownlinkFrame X None (Some reply) x' =
      Ret (x'\<lparr>ex_downlinks := ex_downlinks x' @ [reply\<lparr>df_GatewayId := eui_String L l\<rparr>]\<rparr>)"
    if reply: "df_GatewayId reply = eui_String L ?n" for reply :: downlink_frame
  proof -
    show "DownlinkFrame L reply r' =
        Ret (Some (r'\<lparr>rs_channels := (rs_channels r)(f \<mapsto> OpenChan (q @ [DownlinkFrameEvent (Some reply)]))\<rparr>))"
      by (rule latest_forwarder[OF assms(3,13,14) _ r'(1) info _ reply]) (use assms(8,11) in auto)
    show "handleDownlinkFrame X None (Some reply) x' =
        Ret (x'\<lparr>ex_downlinks := ex_downlinks x' @ [reply\<lparr>df_GatewayId := eui_String L l\<rparr>]\<rparr>)"
      using yaml.uplink_answer[OF assms(1-5) new assms(7,8), of reply] reply fid l assms(9) by (auto simp: yaml_lookups)
  qed
  then show ?thesis using l r' by blast
qed

theorem uplink_answered_end_to_end_witness:
  "\<exists>x' fr n r'.
     uplinkFrameCallback exchange_env_example (0, RecordAppendOk) (uplink_example local_id_example) exchange_example = Ret x' \<and>
     handle_forwarder_event lorawan_hex integration_ok length 0 1
       (uplink_event gateway_example fr (50 * millisecond)) (Events_open 1 router_New) = Ret r' \<and>
     rs_published r' = [(n, PubUp (frame_uplink_id fr) (Some fr))] \<and>
     (\<forall>reply. df_GatewayId reply = eui_String lorawan_hex n \<longrightarrow>
        DownlinkFrame lorawan_hex reply r' = Ret (Some (r'\<lparr>rs_channels := [1 \<mapsto> OpenChan [DownlinkFrameEvent (Some reply)]]\<rparr>)) \<and>
        handleDownlinkFrame exchange_env_example None (Some reply) x' =
          Ret (x'\<lparr>ex_downlinks := ex_downlinks x' @ [reply\<lparr>df_GatewayId := eui_String lorawan_hex local_id_example\<rparr>]\<rparr>))"
proof -
  let ?l = "local_id_example" and ?r = "Events_open 1 router_New"
  obtain x' fr where run: "uplinkFrameCallback exchange_env_example (0, RecordAppendOk) (uplink_example ?l) exchange_example = Ret x'"
    and acc: "bc_accepted (ex_gatewayEvents x') =
       [\<lparr>ev_join = None, ev_uplink = Some (DevAddr 0 0 0 1, uplink_event gateway_example fr (50 * millisecond)),
         ev_subOnlineOfflineEvent = None, ev_downlinkAck = None, ev_receivedFrom = gateway_example\<rparr>]"
    using uplink_example_run by blast
  let ?ev = "uplink_event gateway_example fr (50 * millisecond)"
  let ?ge = "\<lparr>ev_join = None, ev_uplink = Some (DevAddr 0 0 0 1, ?ev),
         ev_subOnlineOfflineEvent = None, ev_downlinkAck = None, ev_receivedFrom = gateway_example\<rparr>"
  have X: "xe_S exchange_env_example = yaml_table eth_example lorawan_hex freq_example yaml_example"
    "xe_L exchange_env_example = lorawan_hex" by (simp_all add: exchange_env_example_def)
  have new: "?ge \<in> set (bc_accepted (ex_gatewayEvents x')) - set (bc_accepted (ex_gatewayEvents exchange_example))"
    using acc by (simp add: exchange_example_def bc_New_def)
  have ev: "?ev \<in> events_of ?ge" by (simp add: events_of_def)
  have body: "ge_Event ?ev = UplinkFrameEvent (Some fr)
      (Some \<lparr>ar_Owner = OwnerBytes gateway_example, ar_Airtime = word_of_int (milliseconds (50 * millisecond))\<rparr>)"
    by (simp add: uplink_event_def)
  have unique: "\<forall>l1 l2 g1 g2. ys_ByLocalID (ex_gateways exchange_example) l1 = Inr g1 \<and>
      ys_ByLocalID (ex_gateways exchange_example) l2 = Inr g2 \<and> NetworkID g1 = NetworkID g2 \<longrightarrow> l1 = l2"
    by (auto simp: exchange_example_store split: if_splits)
  have kcap: "\<forall>key :: bytes. length key \<le> length key" by simp
  have I: "\<forall>b g. in_SetGatewaySubscription integration_ok b g = None" "\<forall>g p. in_PublishEvent integration_ok g p = None"
    by (simp_all add: integration_ok_def)
  have r: "rs_channels ?r 1 = Some (OpenChan [])" "length ([] :: rtg_event list) < 256"
    "rs_channels ?r = [1 \<mapsto> OpenChan []]" "rs_published ?r = []"
    by (simp_all add: Events_open_def router_New_def)
  have str: "eui_UnmarshalText lorawan_hex (frame_gateway_id (uplink_example ?l)) = Inr ?l"
    using lorawan_okD(1)[OF lorawan_hex_ok] by (simp add: uplink_example_def frame_gateway_id_def)
  from uplink_answered_end_to_end[OF X lorawan_hex_ok exchange_example_store(1) run new ev body unique kcap I r(1,2), of 0]
  obtain n r' where "handle_forwarder_event lorawan_hex integration_ok length 0 1 ?ev ?r = Ret r'"
    "rs_published r' = [(n, PubUp (frame_uplink_id fr) (Some fr))]"
    "\<forall>reply. df_GatewayId reply = eui_String lorawan_hex n \<longrightarrow>
        DownlinkFrame lorawan_hex reply r' = Ret (Some (r'\<lparr>rs_channels := [1 \<mapsto> OpenChan [DownlinkFrameEvent (Some reply)]]\<rparr>)) \<and>
        handleDownlinkFrame exchange_env_example None (Some reply) x' =
          Ret (x'\<lparr>ex_downlinks := ex_downlinks x' @ [reply\<lparr>df_GatewayId := eui_String lorawan_hex ?l\<rparr>]\<rparr>)"
    unfolding r(3,4) str by auto
  then show ?thesis using run by blast
qed

section \<open>The gateways of a router at the broker\<close>










end
